(* ===== verification/Keyring_Prelude.thy ===== *)
theory Keyring_Prelude
  imports "HOL-Library.Word" "HOL-Library.AList" "HOL-Library.Sublist"
begin

text \<open>
  Shared vocabulary of the development.

  \<^item> results: a fallible Rust function returns \<open>'e + 'a\<close> with \<open>Inl\<close> for \<open>Err\<close>;
    \<open>try_res\<close> is the \<open>?\<close> operator, \<open>ensure\<close> an early-return guard;
  \<^item> effects: a fallible function on a world (the remote store, the vault database)
    returns the result together with the world after it, \<open>io_bind\<close> is \<open>?\<close> there;
  \<^item> strings: a Rust \<open>String\<close> is the list of its UTF-8 bytes, \<open>show_nat\<close> is what
    \<open>format!\<close> prints for an unsigned integer;
  \<^item> hash maps: association lists with \<open>map_of\<close> and \<open>AList.update\<close>;
  \<^item> the generic transition-system locale every state machine of the program instantiates,
    and the codec locale of the \<open>to_str\<close>/\<open>from_str\<close> pairs.
\<close>

named_theorems monad_simps \<open>unfolding of the result and effect combinators\<close>
named_theorems inv_intros \<open>preservation lemmas of component invariants\<close>

type_synonym u8 = "8 word"
type_synonym u32 = "32 word"
type_synonym u64 = "64 word"

section \<open>Results\<close>

definition try_res :: "'e + 'a \<Rightarrow> ('a \<Rightarrow> 'e + 'b) \<Rightarrow> 'e + 'b" where
  "try_res r f = (case r of Inl e \<Rightarrow> Inl e | Inr a \<Rightarrow> f a)"

definition ensure :: "bool \<Rightarrow> 'e \<Rightarrow> 'e + unit" where
  "ensure b e = (if b then Inr () else Inl e)"

definition map_err :: "('e \<Rightarrow> 'f) \<Rightarrow> 'e + 'a \<Rightarrow> 'f + 'a" where
  "map_err h r = (case r of Inl e \<Rightarrow> Inl (h e) | Inr a \<Rightarrow> Inr a)"

definition ok_or :: "'e \<Rightarrow> 'a option \<Rightarrow> 'e + 'a" where
  "ok_or e x = (case x of None \<Rightarrow> Inl e | Some a \<Rightarrow> Inr a)"

definition is_ok :: "'e + 'a \<Rightarrow> bool" where
  "is_ok r = (case r of Inl _ \<Rightarrow> False | Inr _ \<Rightarrow> True)"

lemma try_res_simps [simp]:
  "try_res (Inl e) f = Inl e"
  "try_res (Inr a) f = f a"
  by (simp_all add: try_res_def)

lemma try_res_eq_Inr [monad_simps]:
  "try_res r f = Inr b \<longleftrightarrow> (\<exists>a. r = Inr a \<and> f a = Inr b)"
  by (cases r) auto

lemma try_res_eq_Inl [monad_simps]:
  "try_res r f = Inl e \<longleftrightarrow> r = Inl e \<or> (\<exists>a. r = Inr a \<and> f a = Inl e)"
  by (cases r) auto

lemma ensure_eq [simp]:
  "ensure b e = Inr u \<longleftrightarrow> b"
  "ensure b e = Inl e' \<longleftrightarrow> \<not> b \<and> e' = e"
  by (auto simp: ensure_def)

lemma ensure_True [simp]: "ensure True e = Inr ()" "ensure False e = Inl e"
  by (simp_all add: ensure_def)

lemma map_err_simps [simp]:
  "map_err h (Inl e) = Inl (h e)"
  "map_err h (Inr a) = Inr a"
  by (simp_all add: map_err_def)

lemma map_err_eq [simp]:
  "map_err h r = Inr a \<longleftrightarrow> r = Inr a"
  "map_err h r = Inl f \<longleftrightarrow> (\<exists>e. r = Inl e \<and> f = h e)"
  by (cases r; auto)+

lemma ok_or_simps [simp]:
  "ok_or e None = Inl e"
  "ok_or e (Some a) = Inr a"
  by (simp_all add: ok_or_def)

lemma ok_or_eq [simp]:
  "ok_or e x = Inr a \<longleftrightarrow> x = Some a"
  "ok_or e x = Inl e' \<longleftrightarrow> x = None \<and> e' = e"
  by (cases x; auto)+

lemma is_ok_simps [simp]:
  "is_ok (Inl e) = False"
  "is_ok (Inr a) = True"
  by (simp_all add: is_ok_def)

lemma is_ok_iff: "is_ok r \<longleftrightarrow> (\<exists>a. r = Inr a)"
  by (cases r) auto

section \<open>Effects with errors\<close>

type_synonym ('w, 'e, 'a) io = "'w \<Rightarrow> ('e + 'a) \<times> 'w"

definition io_bind :: "('w, 'e, 'a) io \<Rightarrow> ('a \<Rightarrow> ('w, 'e, 'b) io) \<Rightarrow> ('w, 'e, 'b) io" where
  "io_bind m f w = (case m w of (Inl e, w') \<Rightarrow> (Inl e, w') | (Inr a, w') \<Rightarrow> f a w')"

definition io_return :: "'a \<Rightarrow> ('w, 'e, 'a) io" where
  "io_return a w = (Inr a, w)"

definition io_lift :: "'e + 'a \<Rightarrow> ('w, 'e, 'a) io" where
  "io_lift r w = (r, w)"

definition io_map_err :: "('e \<Rightarrow> 'f) \<Rightarrow> ('w, 'e, 'a) io \<Rightarrow> ('w, 'f, 'a) io" where
  "io_map_err h m w = (case m w of (r, w') \<Rightarrow> (map_err h r, w'))"

lemma io_return_apply [simp]: "io_return a w = (Inr a, w)"
  by (simp add: io_return_def)

lemma io_lift_apply [simp]: "io_lift r w = (r, w)"
  by (simp add: io_lift_def)

lemma io_bind_eq_Inr [monad_simps]:
  "io_bind m f w = (Inr b, w') \<longleftrightarrow> (\<exists>a w1. m w = (Inr a, w1) \<and> f a w1 = (Inr b, w'))"
  by (auto simp: io_bind_def split: prod.splits sum.splits)

lemma io_bind_eq_Inl [monad_simps]:
  "io_bind m f w = (Inl e, w') \<longleftrightarrow>
     m w = (Inl e, w') \<or> (\<exists>a w1. m w = (Inr a, w1) \<and> f a w1 = (Inl e, w'))"
  by (auto simp: io_bind_def split: prod.splits sum.splits)

lemma io_bind_step [simp]:
  "m w = (Inr a, w1) \<Longrightarrow> io_bind m f w = f a w1"
  "m w = (Inl e, w1) \<Longrightarrow> io_bind m f w = (Inl e, w1)"
  by (simp_all add: io_bind_def)

section \<open>Strings\<close>

function show_nat :: "nat \<Rightarrow> string" where
  "show_nat n =
     (if n < 10 then [char_of (48 + n)] else show_nat (n div 10) @ [char_of (48 + n mod 10)])"
  by pat_completeness auto
termination
  by (relation "measure id") auto

declare show_nat.simps [simp del]

abbreviation show_word :: "'n::len word \<Rightarrow> string" where
  "show_word w \<equiv> show_nat (unat w)"

lemma digit_char_inj:
  assumes "a < 10" "b < 10" "char_of (48 + a) = (char_of (48 + b :: nat) :: char)"
  shows "a = b"
proof -
  have "of_char (char_of (48 + a) :: char) = (of_char (char_of (48 + b) :: char) :: nat)"
    using assms(3) by simp
  then show ?thesis
    using assms(1,2) by (simp add: of_char_of)
qed

lemma show_nat_nonempty [simp]: "show_nat n \<noteq> []"
  by (subst show_nat.simps) auto

lemma show_nat_inj: "show_nat m = show_nat n \<Longrightarrow> m = n"
proof (induction m arbitrary: n rule: show_nat.induct)
  case (1 m)
  note eq = \<open>show_nat m = show_nat n\<close>
  show ?case
  proof (cases "m < 10"; cases "n < 10")
    assume "m < 10" "n < 10"
    then show ?thesis
      using eq digit_char_inj[of m n] by (simp add: show_nat.simps[of m] show_nat.simps[of n])
  next
    assume "m < 10" "\<not> n < 10"
    then show ?thesis
      using eq by (auto simp: show_nat.simps[of m] show_nat.simps[of n] dest: sym)
  next
    assume "\<not> m < 10" "n < 10"
    then show ?thesis
      using eq by (auto simp: show_nat.simps[of m] show_nat.simps[of n] dest: sym)
  next
    assume big: "\<not> m < 10" "\<not> n < 10"
    then have parts: "show_nat (m div 10) = show_nat (n div 10)"
      and last: "char_of (48 + m mod 10) = (char_of (48 + n mod 10) :: char)"
      using eq by (simp_all add: show_nat.simps[of m] show_nat.simps[of n])
    have "m div 10 = n div 10"
      using 1(1)[OF big(1) parts] .
    moreover have "m mod 10 = n mod 10"
      using digit_char_inj[OF _ _ last] by simp
    ultimately show ?thesis
      by (metis div_mult_mod_eq)
  qed
qed

text \<open>\<open>str::chars().count()\<close>: the bytes of a UTF-8 string that start a character.\<close>

definition is_continuation_byte :: "char \<Rightarrow> bool" where
  "is_continuation_byte c \<longleftrightarrow> of_char c div 64 = (2::nat)"

definition char_count :: "string \<Rightarrow> nat" where
  "char_count s = length (filter (\<lambda>c. \<not> is_continuation_byte c) s)"

lemma char_count_le_length [simp]: "char_count s \<le> length s"
  by (simp add: char_count_def)

section \<open>Association lists as hash maps\<close>

lemma map_of_update_same [simp]: "map_of (AList.update k v m) k = Some v"
  by (simp add: update_Some_unfold)

lemma map_of_update_other [simp]: "k' \<noteq> k \<Longrightarrow> map_of (AList.update k v m) k' = map_of m k'"
  by (simp add: update_conv')

section \<open>Counters of fixed width\<close>

lemma unat_less_2p: "unat (w :: 'a::len word) < 2 ^ LENGTH('a)"
  by (rule unsigned_less)

lemma unat_Suc_bounded:
  fixes a k :: "'a::len word"
  assumes "unat a \<le> unat k" "k \<noteq> - 1"
  shows "unat (a + 1) = unat a + 1"
proof -
  have "a \<noteq> - 1"
    using assms by (metis word_le_nat_alt word_n1_ge order_antisym_conv)
  then show ?thesis
    by (metis Suc_eq_plus1 add.commute unatSuc add_eq_0_iff)
qed

lemma of_nat_less_word_iff:
  assumes "n < 2 ^ LENGTH('a)"
  shows "(of_nat n :: 'a::len word) < w \<longleftrightarrow> n < unat w"
  using assms by (simp add: word_less_nat_alt unat_of_nat)

section \<open>Transition systems and invariants\<close>

inductive reach :: "('s \<Rightarrow> bool) \<Rightarrow> ('l \<Rightarrow> 's \<Rightarrow> 's) \<Rightarrow> 's \<Rightarrow> bool"
  for initial :: "'s \<Rightarrow> bool" and step :: "'l \<Rightarrow> 's \<Rightarrow> 's" where
  reach_init: "initial s \<Longrightarrow> reach initial step s"
| reach_step: "reach initial step s \<Longrightarrow> reach initial step (step l s)"

locale invariant_system =
  fixes initial :: "'s \<Rightarrow> bool" and step :: "'l \<Rightarrow> 's \<Rightarrow> 's" and inv :: "'s \<Rightarrow> bool"
  assumes inv_init: "initial s \<Longrightarrow> inv s"
    and inv_step: "inv s \<Longrightarrow> inv (step l s)"
begin

lemma reach_inv: "reach initial step s \<Longrightarrow> inv s"
  by (induction rule: reach.induct) (auto intro: inv_init inv_step)

lemma fold_inv: "inv s \<Longrightarrow> inv (fold step ls s)"
  by (induction ls arbitrary: s) (auto intro: inv_step)

lemma run_inv: "initial s \<Longrightarrow> inv (fold step ls s)"
  by (rule fold_inv) (rule inv_init)

end

lemma reach_fold: "reach initial step s \<Longrightarrow> reach initial step (fold step ls s)"
  by (induction ls arbitrary: s) (auto intro: reach.intros)

section \<open>Codecs\<close>

text \<open>
  The contract of the \<open>as_str\<close>/\<open>from_str\<close> pairs: parsing what was printed gives the value back.
  Then printing is injective, and the accepted strings are exactly the printed ones when the
  parser is tight.
\<close>

locale codec =
  fixes enc :: "'a \<Rightarrow> 's" and dec :: "'s \<Rightarrow> 'a option"
  assumes dec_enc: "dec (enc a) = Some a"
begin

lemma enc_inj: "inj enc"
  by (metis dec_enc injI option.inject)

end

locale tight_codec = codec enc dec for enc :: "'a \<Rightarrow> 's" and dec :: "'s \<Rightarrow> 'a option" +
  assumes enc_dec: "dec s = Some a \<Longrightarrow> enc a = s"
begin

lemma dec_dom: "dom dec = range enc"
  using dec_enc enc_dec by (force simp: image_iff)

lemma dec_None_iff: "dec s = None \<longleftrightarrow> s \<notin> range enc"
  using dec_dom by auto

end

end
