(* ===== verification/Error_Codes.thy ===== *)
theory Error_Codes
  imports Keyring_Prelude
begin

text \<open>
  The error vocabulary of \<open>errors/code.rs\<close>, \<open>errors/level.rs\<close> and \<open>errors/context.rs\<close>: the 49
  error codes, their severity, i18n message key, module prefix and printed form, and the
  error context with its interpolation map.
\<close>

section \<open>Error codes\<close>

datatype error_code =
    VaultRecordNotFound
  | VaultVersionConflict
  | VaultTagAlreadyExists
  | VaultTagNotFound
  | VaultNotUnlocked
  | VaultDatabaseCorrupted
  | VaultDatabaseIoError
  | VaultInvalidField
  | DataInvalidCredentialType
  | DataInvalidAuditOperation
  | DataInvalidUuid
  | DataMissingField
  | DataFieldTooLong
  | DataEmptyField
  | CryptoDecryptionFailed
  | CryptoEncryptionFailed
  | CryptoKeyDerivationFailed
  | CryptoInvalidNonce
  | CryptoAadMismatch
  | SyncConnectionTimeout
  | SyncAuthenticationFailed
  | SyncProviderError
  | SyncConflictDetected
  | SyncNetworkUnreachable
  | SyncDiskFull
  | SyncMetadataCorrupted
  | SyncVaultIdentityMismatch
  | SyncNotConfigured
  | HealthCheckFailed
  | HealthHibpApiError
  | HealthHibpRateLimited
  | ClipboardUnavailable
  | ClipboardCopyFailed
  | ClipboardClearFailed
  | ImportFileUnreadable
  | ImportFileFormatInvalid
  | ImportPasswordRequired
  | ImportPasswordIncorrect
  | ImportColumnMappingInvalid
  | ImportPartialFailure
  | ExportWriteFailed
  | ExportPathInvalid
  | ExecutorVaultLocked
  | ExecutorMasterPasswordRequired
  | DekRotationFailed
  | RotationConflictDetected
  | ConfigLoadFailed
  | ConfigSaveFailed
  | ConfigValidationFailed

datatype error_level = Fatal | Operation | Minor

definition error_code_level :: "error_code \<Rightarrow> error_level" where
  "error_code_level c = (case c of
     VaultDatabaseCorrupted \<Rightarrow> Fatal
   | VaultDatabaseIoError \<Rightarrow> Fatal
   | CryptoEncryptionFailed \<Rightarrow> Fatal
   | CryptoAadMismatch \<Rightarrow> Fatal
   | SyncVaultIdentityMismatch \<Rightarrow> Fatal
   | VaultRecordNotFound \<Rightarrow> Operation
   | VaultVersionConflict \<Rightarrow> Operation
   | VaultNotUnlocked \<Rightarrow> Operation
   | VaultInvalidField \<Rightarrow> Operation
   | CryptoDecryptionFailed \<Rightarrow> Operation
   | CryptoKeyDerivationFailed \<Rightarrow> Operation
   | CryptoInvalidNonce \<Rightarrow> Operation
   | SyncConflictDetected \<Rightarrow> Operation
   | SyncMetadataCorrupted \<Rightarrow> Operation
   | SyncNotConfigured \<Rightarrow> Operation
   | ImportFileFormatInvalid \<Rightarrow> Operation
   | ImportPasswordRequired \<Rightarrow> Operation
   | ImportPasswordIncorrect \<Rightarrow> Operation
   | ImportColumnMappingInvalid \<Rightarrow> Operation
   | ImportPartialFailure \<Rightarrow> Operation
   | ExportWriteFailed \<Rightarrow> Operation
   | ExportPathInvalid \<Rightarrow> Operation
   | ExecutorVaultLocked \<Rightarrow> Operation
   | ExecutorMasterPasswordRequired \<Rightarrow> Operation
   | DekRotationFailed \<Rightarrow> Operation
   | RotationConflictDetected \<Rightarrow> Operation
   | VaultTagAlreadyExists \<Rightarrow> Minor
   | VaultTagNotFound \<Rightarrow> Minor
   | DataInvalidCredentialType \<Rightarrow> Minor
   | DataInvalidAuditOperation \<Rightarrow> Minor
   | DataInvalidUuid \<Rightarrow> Minor
   | DataMissingField \<Rightarrow> Minor
   | DataFieldTooLong \<Rightarrow> Minor
   | DataEmptyField \<Rightarrow> Minor
   | SyncConnectionTimeout \<Rightarrow> Minor
   | SyncAuthenticationFailed \<Rightarrow> Minor
   | SyncProviderError \<Rightarrow> Minor
   | SyncNetworkUnreachable \<Rightarrow> Minor
   | SyncDiskFull \<Rightarrow> Minor
   | HealthCheckFailed \<Rightarrow> Minor
   | HealthHibpApiError \<Rightarrow> Minor
   | HealthHibpRateLimited \<Rightarrow> Minor
   | ClipboardUnavailable \<Rightarrow> Minor
   | ClipboardCopyFailed \<Rightarrow> Minor
   | ClipboardClearFailed \<Rightarrow> Minor
   | ImportFileUnreadable \<Rightarrow> Minor
   | ConfigLoadFailed \<Rightarrow> Minor
   | ConfigSaveFailed \<Rightarrow> Minor
   | ConfigValidationFailed \<Rightarrow> Minor)"

definition message_key :: "error_code \<Rightarrow> string" where
  "message_key c = (case c of
     VaultRecordNotFound \<Rightarrow> ''tui.error.vault_record_not_found''
   | VaultVersionConflict \<Rightarrow> ''tui.error.vault_version_conflict''
   | VaultTagAlreadyExists \<Rightarrow> ''tui.error.vault_tag_already_exists''
   | VaultTagNotFound \<Rightarrow> ''tui.error.vault_tag_not_found''
   | VaultNotUnlocked \<Rightarrow> ''tui.error.vault_not_unlocked''
   | VaultDatabaseCorrupted \<Rightarrow> ''tui.error.vault_database_corrupted''
   | VaultDatabaseIoError \<Rightarrow> ''tui.error.vault_database_io_error''
   | VaultInvalidField \<Rightarrow> ''tui.error.vault_invalid_field''
   | DataInvalidCredentialType \<Rightarrow> ''tui.error.data_invalid_credential_type''
   | DataInvalidAuditOperation \<Rightarrow> ''tui.error.data_invalid_audit_operation''
   | DataInvalidUuid \<Rightarrow> ''tui.error.data_invalid_uuid''
   | DataMissingField \<Rightarrow> ''tui.error.data_missing_field''
   | DataFieldTooLong \<Rightarrow> ''tui.error.data_field_too_long''
   | DataEmptyField \<Rightarrow> ''tui.error.data_empty_field''
   | CryptoDecryptionFailed \<Rightarrow> ''tui.error.crypto_decryption_failed''
   | CryptoEncryptionFailed \<Rightarrow> ''tui.error.crypto_encryption_failed''
   | CryptoKeyDerivationFailed \<Rightarrow> ''tui.error.crypto_key_derivation_failed''
   | CryptoInvalidNonce \<Rightarrow> ''tui.error.crypto_invalid_nonce''
   | CryptoAadMismatch \<Rightarrow> ''tui.error.crypto_aad_mismatch''
   | SyncConnectionTimeout \<Rightarrow> ''tui.error.sync_connection_timeout''
   | SyncAuthenticationFailed \<Rightarrow> ''tui.error.sync_authentication_failed''
   | SyncProviderError \<Rightarrow> ''tui.error.sync_provider_error''
   | SyncConflictDetected \<Rightarrow> ''tui.error.sync_conflict_detected''
   | SyncNetworkUnreachable \<Rightarrow> ''tui.error.sync_network_unreachable''
   | SyncDiskFull \<Rightarrow> ''tui.error.sync_disk_full''
   | SyncMetadataCorrupted \<Rightarrow> ''tui.error.sync_metadata_corrupted''
   | SyncVaultIdentityMismatch \<Rightarrow> ''tui.error.sync_vault_identity_mismatch''
   | SyncNotConfigured \<Rightarrow> ''tui.error.sync_not_configured''
   | HealthCheckFailed \<Rightarrow> ''tui.error.health_check_failed''
   | HealthHibpApiError \<Rightarrow> ''tui.error.health_hibp_api_error''
   | HealthHibpRateLimited \<Rightarrow> ''tui.error.health_hibp_rate_limited''
   | ClipboardUnavailable \<Rightarrow> ''tui.error.clipboard_unavailable''
   | ClipboardCopyFailed \<Rightarrow> ''tui.error.clipboard_copy_failed''
   | ClipboardClearFailed \<Rightarrow> ''tui.error.clipboard_clear_failed''
   | ImportFileUnreadable \<Rightarrow> ''tui.error.import_file_unreadable''
   | ImportFileFormatInvalid \<Rightarrow> ''tui.error.import_file_format_invalid''
   | ImportPasswordRequired \<Rightarrow> ''tui.error.import_password_required''
   | ImportPasswordIncorrect \<Rightarrow> ''tui.error.import_password_incorrect''
   | ImportColumnMappingInvalid \<Rightarrow> ''tui.error.import_column_mapping_invalid''
   | ImportPartialFailure \<Rightarrow> ''tui.error.import_partial_failure''
   | ExportWriteFailed \<Rightarrow> ''tui.error.export_write_failed''
   | ExportPathInvalid \<Rightarrow> ''tui.error.export_path_invalid''
   | ExecutorVaultLocked \<Rightarrow> ''tui.error.executor_vault_locked''
   | ExecutorMasterPasswordRequired \<Rightarrow> ''tui.error.executor_master_password_required''
   | DekRotationFailed \<Rightarrow> ''tui.error.dek_rotation_failed''
   | RotationConflictDetected \<Rightarrow> ''tui.error.rotation_conflict_detected''
   | ConfigLoadFailed \<Rightarrow> ''tui.error.config_load_failed''
   | ConfigSaveFailed \<Rightarrow> ''tui.error.config_save_failed''
   | ConfigValidationFailed \<Rightarrow> ''tui.error.config_validation_failed'')"

definition module_prefix :: "error_code \<Rightarrow> string" where
  "module_prefix c = (case c of
     VaultRecordNotFound \<Rightarrow> ''vault''
   | VaultVersionConflict \<Rightarrow> ''vault''
   | VaultTagAlreadyExists \<Rightarrow> ''vault''
   | VaultTagNotFound \<Rightarrow> ''vault''
   | VaultNotUnlocked \<Rightarrow> ''vault''
   | VaultDatabaseCorrupted \<Rightarrow> ''vault''
   | VaultDatabaseIoError \<Rightarrow> ''vault''
   | VaultInvalidField \<Rightarrow> ''vault''
   | DataInvalidCredentialType \<Rightarrow> ''data''
   | DataInvalidAuditOperation \<Rightarrow> ''data''
   | DataInvalidUuid \<Rightarrow> ''data''
   | DataMissingField \<Rightarrow> ''data''
   | DataFieldTooLong \<Rightarrow> ''data''
   | DataEmptyField \<Rightarrow> ''data''
   | CryptoDecryptionFailed \<Rightarrow> ''crypto''
   | CryptoEncryptionFailed \<Rightarrow> ''crypto''
   | CryptoKeyDerivationFailed \<Rightarrow> ''crypto''
   | CryptoInvalidNonce \<Rightarrow> ''crypto''
   | CryptoAadMismatch \<Rightarrow> ''crypto''
   | SyncConnectionTimeout \<Rightarrow> ''sync''
   | SyncAuthenticationFailed \<Rightarrow> ''sync''
   | SyncProviderError \<Rightarrow> ''sync''
   | SyncConflictDetected \<Rightarrow> ''sync''
   | SyncNetworkUnreachable \<Rightarrow> ''sync''
   | SyncDiskFull \<Rightarrow> ''sync''
   | SyncMetadataCorrupted \<Rightarrow> ''sync''
   | SyncVaultIdentityMismatch \<Rightarrow> ''sync''
   | SyncNotConfigured \<Rightarrow> ''sync''
   | HealthCheckFailed \<Rightarrow> ''health''
   | HealthHibpApiError \<Rightarrow> ''health''
   | HealthHibpRateLimited \<Rightarrow> ''health''
   | ClipboardUnavailable \<Rightarrow> ''clipboard''
   | ClipboardCopyFailed \<Rightarrow> ''clipboard''
   | ClipboardClearFailed \<Rightarrow> ''clipboard''
   | ImportFileUnreadable \<Rightarrow> ''import_export''
   | ImportFileFormatInvalid \<Rightarrow> ''import_export''
   | ImportPasswordRequired \<Rightarrow> ''import_export''
   | ImportPasswordIncorrect \<Rightarrow> ''import_export''
   | ImportColumnMappingInvalid \<Rightarrow> ''import_export''
   | ImportPartialFailure \<Rightarrow> ''import_export''
   | ExportWriteFailed \<Rightarrow> ''import_export''
   | ExportPathInvalid \<Rightarrow> ''import_export''
   | ExecutorVaultLocked \<Rightarrow> ''executor''
   | ExecutorMasterPasswordRequired \<Rightarrow> ''executor''
   | DekRotationFailed \<Rightarrow> ''rotation''
   | RotationConflictDetected \<Rightarrow> ''rotation''
   | ConfigLoadFailed \<Rightarrow> ''config''
   | ConfigSaveFailed \<Rightarrow> ''config''
   | ConfigValidationFailed \<Rightarrow> ''config'')"

definition error_code_debug :: "error_code \<Rightarrow> string" where
  "error_code_debug c = (case c of
     VaultRecordNotFound \<Rightarrow> ''VaultRecordNotFound''
   | VaultVersionConflict \<Rightarrow> ''VaultVersionConflict''
   | VaultTagAlreadyExists \<Rightarrow> ''VaultTagAlreadyExists''
   | VaultTagNotFound \<Rightarrow> ''VaultTagNotFound''
   | VaultNotUnlocked \<Rightarrow> ''VaultNotUnlocked''
   | VaultDatabaseCorrupted \<Rightarrow> ''VaultDatabaseCorrupted''
   | VaultDatabaseIoError \<Rightarrow> ''VaultDatabaseIoError''
   | VaultInvalidField \<Rightarrow> ''VaultInvalidField''
   | DataInvalidCredentialType \<Rightarrow> ''DataInvalidCredentialType''
   | DataInvalidAuditOperation \<Rightarrow> ''DataInvalidAuditOperation''
   | DataInvalidUuid \<Rightarrow> ''DataInvalidUuid''
   | DataMissingField \<Rightarrow> ''DataMissingField''
   | DataFieldTooLong \<Rightarrow> ''DataFieldTooLong''
   | DataEmptyField \<Rightarrow> ''DataEmptyField''
   | CryptoDecryptionFailed \<Rightarrow> ''CryptoDecryptionFailed''
   | CryptoEncryptionFailed \<Rightarrow> ''CryptoEncryptionFailed''
   | CryptoKeyDerivationFailed \<Rightarrow> ''CryptoKeyDerivationFailed''
   | CryptoInvalidNonce \<Rightarrow> ''CryptoInvalidNonce''
   | CryptoAadMismatch \<Rightarrow> ''CryptoAadMismatch''
   | SyncConnectionTimeout \<Rightarrow> ''SyncConnectionTimeout''
   | SyncAuthenticationFailed \<Rightarrow> ''SyncAuthenticationFailed''
   | SyncProviderError \<Rightarrow> ''SyncProviderError''
   | SyncConflictDetected \<Rightarrow> ''SyncConflictDetected''
   | SyncNetworkUnreachable \<Rightarrow> ''SyncNetworkUnreachable''
   | SyncDiskFull \<Rightarrow> ''SyncDiskFull''
   | SyncMetadataCorrupted \<Rightarrow> ''SyncMetadataCorrupted''
   | SyncVaultIdentityMismatch \<Rightarrow> ''SyncVaultIdentityMismatch''
   | SyncNotConfigured \<Rightarrow> ''SyncNotConfigured''
   | HealthCheckFailed \<Rightarrow> ''HealthCheckFailed''
   | HealthHibpApiError \<Rightarrow> ''HealthHibpApiError''
   | HealthHibpRateLimited \<Rightarrow> ''HealthHibpRateLimited''
   | ClipboardUnavailable \<Rightarrow> ''ClipboardUnavailable''
   | ClipboardCopyFailed \<Rightarrow> ''ClipboardCopyFailed''
   | ClipboardClearFailed \<Rightarrow> ''ClipboardClearFailed''
   | ImportFileUnreadable \<Rightarrow> ''ImportFileUnreadable''
   | ImportFileFormatInvalid \<Rightarrow> ''ImportFileFormatInvalid''
   | ImportPasswordRequired \<Rightarrow> ''ImportPasswordRequired''
   | ImportPasswordIncorrect \<Rightarrow> ''ImportPasswordIncorrect''
   | ImportColumnMappingInvalid \<Rightarrow> ''ImportColumnMappingInvalid''
   | ImportPartialFailure \<Rightarrow> ''ImportPartialFailure''
   | ExportWriteFailed \<Rightarrow> ''ExportWriteFailed''
   | ExportPathInvalid \<Rightarrow> ''ExportPathInvalid''
   | ExecutorVaultLocked \<Rightarrow> ''ExecutorVaultLocked''
   | ExecutorMasterPasswordRequired \<Rightarrow> ''ExecutorMasterPasswordRequired''
   | DekRotationFailed \<Rightarrow> ''DekRotationFailed''
   | RotationConflictDetected \<Rightarrow> ''RotationConflictDetected''
   | ConfigLoadFailed \<Rightarrow> ''ConfigLoadFailed''
   | ConfigSaveFailed \<Rightarrow> ''ConfigSaveFailed''
   | ConfigValidationFailed \<Rightarrow> ''ConfigValidationFailed'')"


text \<open>\<open>str::strip_prefix\<close> and the \<open>Display\<close> instance built on it.\<close>

fun strip_prefix :: "string \<Rightarrow> string \<Rightarrow> string option" where
  "strip_prefix [] s = Some s"
| "strip_prefix (c # p) [] = None"
| "strip_prefix (c # p) (d # s) = (if c = d then strip_prefix p s else None)"

definition error_code_to_string :: "error_code \<Rightarrow> string" where
  "error_code_to_string c =
     (let key = message_key c
      in case strip_prefix ''tui.error.'' key of Some sfx \<Rightarrow> sfx | None \<Rightarrow> key)"

section \<open>Error context\<close>

record error_context =
  ctx_record_id :: "string option"
  ctx_record_name :: "string option"
  ctx_field_name :: "string option"
  ctx_provider_name :: "string option"
  ctx_file_path :: "string option"
  ctx_expected_version :: "u64 option"
  ctx_actual_version :: "u64 option"
  ctx_attempt_count :: "u32 option"

definition error_context_new :: error_context where
  "error_context_new = \<lparr> ctx_record_id = None, ctx_record_name = None, ctx_field_name = None,
     ctx_provider_name = None, ctx_file_path = None, ctx_expected_version = None,
     ctx_actual_version = None, ctx_attempt_count = None \<rparr>"

text \<open>One \<open>if let Some\<close> block of \<open>to_interpolation_map\<close>.\<close>

definition insert_some :: "string \<Rightarrow> string option \<Rightarrow> (string \<times> string) list \<Rightarrow> (string \<times> string) list" where
  "insert_some k x m = (case x of None \<Rightarrow> m | Some v \<Rightarrow> AList.update k v m)"

definition to_interpolation_map :: "error_context \<Rightarrow> (string \<times> string) list" where
  "to_interpolation_map ctx =
     (let m = insert_some ''record_name'' (ctx_record_name ctx) [];
          m = insert_some ''field_name'' (ctx_field_name ctx) m;
          m = insert_some ''provider_name'' (ctx_provider_name ctx) m;
          m = insert_some ''file_path'' (ctx_file_path ctx) m;
          m = insert_some ''expected_version'' (map_option show_word (ctx_expected_version ctx)) m;
          m = insert_some ''actual_version'' (map_option show_word (ctx_actual_version ctx)) m;
          m = insert_some ''attempt_count'' (map_option show_word (ctx_attempt_count ctx)) m
      in m)"

lemma map_of_insert_some [simp]:
  "map_of (insert_some k x m) k' =
     (if k' = k \<and> x \<noteq> None then x else map_of m k')"
  by (cases x) (auto simp: insert_some_def update_conv')

section \<open>Message keys are the snake-case variant names\<close>

definition is_upper :: "char \<Rightarrow> bool" where
  "is_upper c \<longleftrightarrow> 65 \<le> (of_char c :: nat) \<and> of_char c \<le> (90::nat)"

definition to_lower :: "char \<Rightarrow> char" where
  "to_lower c = (if is_upper c then char_of (of_char c + 32 :: nat) else c)"

fun snake_tail :: "string \<Rightarrow> string" where
  "snake_tail [] = []"
| "snake_tail (c # s) = (if is_upper c then CHR ''_'' # to_lower c # snake_tail s else c # snake_tail s)"

fun snake_case :: "string \<Rightarrow> string" where
  "snake_case [] = []"
| "snake_case (c # s) = to_lower c # snake_tail s"

definition all_error_codes :: "error_code list" where
  "all_error_codes = [
     VaultRecordNotFound, VaultVersionConflict, VaultTagAlreadyExists,
     VaultTagNotFound, VaultNotUnlocked, VaultDatabaseCorrupted,
     VaultDatabaseIoError, VaultInvalidField, DataInvalidCredentialType,
     DataInvalidAuditOperation, DataInvalidUuid, DataMissingField,
     DataFieldTooLong, DataEmptyField, CryptoDecryptionFailed,
     CryptoEncryptionFailed, CryptoKeyDerivationFailed, CryptoInvalidNonce,
     CryptoAadMismatch, SyncConnectionTimeout, SyncAuthenticationFailed,
     SyncProviderError, SyncConflictDetected, SyncNetworkUnreachable,
     SyncDiskFull, SyncMetadataCorrupted, SyncVaultIdentityMismatch,
     SyncNotConfigured, HealthCheckFailed, HealthHibpApiError,
     HealthHibpRateLimited, ClipboardUnavailable, ClipboardCopyFailed,
     ClipboardClearFailed, ImportFileUnreadable, ImportFileFormatInvalid,
     ImportPasswordRequired, ImportPasswordIncorrect, ImportColumnMappingInvalid,
     ImportPartialFailure, ExportWriteFailed, ExportPathInvalid,
     ExecutorVaultLocked, ExecutorMasterPasswordRequired, DekRotationFailed,
     RotationConflictDetected, ConfigLoadFailed, ConfigSaveFailed,
     ConfigValidationFailed]"

lemma all_error_codes_complete: "c \<in> set all_error_codes"
  by (cases c) (simp_all add: all_error_codes_def)

lemma message_keys_snake:
  "list_all (\<lambda>c. message_key c = ''tui.error.'' @ snake_case (error_code_debug c)) all_error_codes"
  by code_simp

lemma message_key_snake: "message_key c = ''tui.error.'' @ snake_case (error_code_debug c)"
  using message_keys_snake all_error_codes_complete[of c]
  by (simp only: list_all_iff)

lemma distinct_message_keys: "distinct (map message_key all_error_codes)"
  by code_simp

lemma strip_prefix_append [simp]: "strip_prefix p (p @ s) = Some s"
  by (induction p) auto

lemma error_code_to_string_snake: "error_code_to_string c = snake_case (error_code_debug c)"
  by (simp add: error_code_to_string_def message_key_snake del: append.simps append_Cons)

text \<open>
  Every error code prints as the snake-case form of its variant name, its i18n key is that
  name under \<open>tui.error.\<close>, and no two codes share a key.
\<close>

theorem message_key_unambiguous:
  "message_key c = ''tui.error.'' @ error_code_to_string c
   \<and> error_code_to_string c = snake_case (error_code_debug c)
   \<and> (message_key c = message_key d \<longleftrightarrow> c = d)"
proof -
  have "inj_on message_key (set all_error_codes)"
    using distinct_message_keys by (simp only: distinct_map)
  then have "message_key c = message_key d \<longleftrightarrow> c = d"
    using all_error_codes_complete[of c] all_error_codes_complete[of d] by (rule inj_on_eq_iff)
  then show ?thesis
    by (simp add: error_code_to_string_snake message_key_snake)
qed

end
