(* ===== verification/Sync_Error.thy ===== *)
theory Sync_Error
  imports Error_Codes
begin

text \<open>
  \<open>errors/mapping/sync.rs\<close>: the error type every function of the sync engine returns, its
  printed form, its error code and its context; and the error type of the vault services with
  the parts the sync engine maps.
\<close>

datatype sync_error =
    NetworkTimeout string
  | NetworkUnreachable string
  | ConnectionRefused string
  | AuthenticationFailed string
  | TokenExpired
  | ChecksumMismatch (cm_expected: string) (cm_actual: string) (cm_record_id: string)
  | AadInconsistent (aad_field: string) (aad_expected: string) (aad_actual: string)
  | SerializationFailed string
  | DeserializationFailed string
  | InvalidStateTransition (tr_from: string) (tr_to: string)
  | LockAcquireFailed string
  | LockReleaseFailed string
  | ProviderNotSupported string
  | ProviderError (pe_provider: string) (pe_message: string)
  | ConfigValidationFailed (cv_field: string) (cv_reason: string)
  | VaultIdentityMismatch (local_token: string) (remote_token: string)
  | MetadataVersionConflict (mv_local: u64) (mv_remote: u64)
  | RecordNotFound string
  | PermissionDenied string
  | QuotaExceeded string
  | Cancelled string

definition sync_error_to_string :: "sync_error \<Rightarrow> string" where
  "sync_error_to_string e = (case e of
     NetworkTimeout m \<Rightarrow> ''Network timeout: '' @ m
   | NetworkUnreachable m \<Rightarrow> ''Network unreachable: '' @ m
   | ConnectionRefused ep \<Rightarrow> ''Connection refused: '' @ ep
   | AuthenticationFailed r \<Rightarrow> ''Authentication failed: '' @ r
   | TokenExpired \<Rightarrow> ''OAuth token expired''
   | ChecksumMismatch ex ac rid \<Rightarrow>
       ''Checksum mismatch: expected '' @ ex @ '', actual '' @ ac @ '' for record '' @ rid
   | AadInconsistent f ex ac \<Rightarrow>
       ''AAD inconsistent for field '' @ [CHR 39] @ f @ [CHR 39] @ '': expected '' @ ex @ '', actual '' @ ac
   | SerializationFailed m \<Rightarrow> ''Serialization failed: '' @ m
   | DeserializationFailed m \<Rightarrow> ''Deserialization failed: '' @ m
   | InvalidStateTransition f t \<Rightarrow> ''Invalid state transition: '' @ f @ '' -> '' @ t
   | LockAcquireFailed r \<Rightarrow> ''Lock acquire failed: '' @ r
   | LockReleaseFailed r \<Rightarrow> ''Lock release failed: '' @ r
   | ProviderNotSupported p \<Rightarrow> ''Provider not supported: '' @ p
   | ProviderError p m \<Rightarrow> ''Provider error ['' @ p @ '']: '' @ m
   | ConfigValidationFailed f r \<Rightarrow>
       ''Config validation failed for '' @ [CHR 39] @ f @ [CHR 39] @ '': '' @ r
   | VaultIdentityMismatch l r \<Rightarrow> ''Vault identity mismatch: local='' @ l @ '', remote='' @ r
   | MetadataVersionConflict l r \<Rightarrow>
       ''Metadata version conflict: local='' @ show_word l @ '', remote='' @ show_word r
   | RecordNotFound rid \<Rightarrow> ''Record not found: '' @ rid
   | PermissionDenied p \<Rightarrow> ''Permission denied: '' @ p
   | QuotaExceeded p \<Rightarrow> ''Quota exceeded: '' @ p
   | Cancelled op \<Rightarrow> ''Cancelled: '' @ op)"

definition sync_error_code :: "sync_error \<Rightarrow> error_code" where
  "sync_error_code e = (case e of
     NetworkTimeout _ \<Rightarrow> SyncConnectionTimeout
   | ConnectionRefused _ \<Rightarrow> SyncConnectionTimeout
   | NetworkUnreachable _ \<Rightarrow> SyncNetworkUnreachable
   | AuthenticationFailed _ \<Rightarrow> SyncAuthenticationFailed
   | TokenExpired \<Rightarrow> SyncAuthenticationFailed
   | ChecksumMismatch _ _ _ \<Rightarrow> SyncMetadataCorrupted
   | AadInconsistent _ _ _ \<Rightarrow> SyncMetadataCorrupted
   | SerializationFailed _ \<Rightarrow> SyncMetadataCorrupted
   | DeserializationFailed _ \<Rightarrow> SyncMetadataCorrupted
   | InvalidStateTransition _ _ \<Rightarrow> SyncProviderError
   | LockAcquireFailed _ \<Rightarrow> SyncProviderError
   | LockReleaseFailed _ \<Rightarrow> SyncProviderError
   | ProviderNotSupported _ \<Rightarrow> SyncProviderError
   | ProviderError _ _ \<Rightarrow> SyncProviderError
   | ConfigValidationFailed _ _ \<Rightarrow> SyncProviderError
   | Cancelled _ \<Rightarrow> SyncProviderError
   | PermissionDenied _ \<Rightarrow> SyncProviderError
   | VaultIdentityMismatch _ _ \<Rightarrow> SyncVaultIdentityMismatch
   | MetadataVersionConflict _ _ \<Rightarrow> SyncConflictDetected
   | RecordNotFound _ \<Rightarrow> VaultRecordNotFound
   | QuotaExceeded _ \<Rightarrow> SyncDiskFull)"

definition sync_error_context :: "sync_error \<Rightarrow> error_context" where
  "sync_error_context e = (case e of
     ProviderNotSupported p \<Rightarrow> error_context_new\<lparr>ctx_provider_name := Some p\<rparr>
   | ProviderError p _ \<Rightarrow> error_context_new\<lparr>ctx_provider_name := Some p\<rparr>
   | QuotaExceeded p \<Rightarrow> error_context_new\<lparr>ctx_provider_name := Some p\<rparr>
   | AadInconsistent f _ _ \<Rightarrow> error_context_new\<lparr>ctx_field_name := Some f\<rparr>
   | ConfigValidationFailed f _ \<Rightarrow> error_context_new\<lparr>ctx_field_name := Some f\<rparr>
   | MetadataVersionConflict l r \<Rightarrow>
       error_context_new\<lparr>ctx_expected_version := Some l, ctx_actual_version := Some r\<rparr>
   | ChecksumMismatch _ _ rid \<Rightarrow> error_context_new\<lparr>ctx_record_name := Some rid\<rparr>
   | RecordNotFound rid \<Rightarrow> error_context_new\<lparr>ctx_record_name := Some rid\<rparr>
   | PermissionDenied p \<Rightarrow> error_context_new\<lparr>ctx_file_path := Some p\<rparr>
   | _ \<Rightarrow> error_context_new)"

text \<open>The only sync error that is fatal is a vault identity mismatch.\<close>

lemma sync_error_fatal_iff:
  "error_code_level (sync_error_code e) = Fatal \<longleftrightarrow> (\<exists>l r. e = VaultIdentityMismatch l r)"
  by (cases e) (simp_all add: sync_error_code_def error_code_level_def)

lemma sync_error_module:
  "module_prefix (sync_error_code e) = ''sync'' \<longleftrightarrow> (\<nexists>r. e = RecordNotFound r)"
  by (cases e) (simp_all add: sync_error_code_def module_prefix_def)

end
