(* ===== verification/Retry.thy ===== *)
theory Retry
  imports Sync_Error
begin

text \<open>
  \<open>sync/retry.rs\<close>: the retry policy and the stateful backoff timer. The policy's delays are
  kept as nanosecond counts (\<open>Duration\<close>). The exponential delay is computed by the code in
  \<open>f64\<close>: the floating-point operations are the record \<open>f64_ops\<close> the definition takes as an
  argument, the random jitter an explicit argument; every cap and saturation of the code is in
  the definition.
\<close>

record 'f f64_ops =
  f_powi :: "'f \<Rightarrow> int \<Rightarrow> 'f"
  f_mul :: "'f \<Rightarrow> 'f \<Rightarrow> 'f"
  f_div :: "'f \<Rightarrow> 'f \<Rightarrow> 'f"
  f_gt :: "'f \<Rightarrow> 'f \<Rightarrow> bool"
  f_is_infinite :: "'f \<Rightarrow> bool"
  f_max :: 'f
  f_secs :: "nat \<Rightarrow> 'f"          \<comment> \<open>\<open>Duration::as_secs_f64\<close> of a nanosecond count\<close>
  f_1e9 :: 'f
  f_to_i128 :: "'f \<Rightarrow> int"        \<comment> \<open>the saturating cast \<open>as i128\<close>\<close>

record 'f retry_policy =
  rp_max_retries :: u32
  rp_base_delay :: nat
  rp_max_delay :: nat
  rp_multiplier :: 'f
  rp_jitter_fraction :: 'f

definition secs :: "nat \<Rightarrow> nat" where
  "secs n = n * 1000000000"

definition retry_policy_default :: "'f \<Rightarrow> 'f \<Rightarrow> 'f retry_policy" where
  "retry_policy_default two fifth =
     \<lparr> rp_max_retries = 5, rp_base_delay = secs 5, rp_max_delay = secs 300,
       rp_multiplier = two, rp_jitter_fraction = fifth \<rparr>"

definition should_retry :: "'f retry_policy \<Rightarrow> sync_error \<Rightarrow> u32 \<Rightarrow> bool" where
  "should_retry p error attempt = (case error of
     NetworkUnreachable _ \<Rightarrow> True
   | NetworkTimeout _ \<Rightarrow> attempt < rp_max_retries p
   | ConnectionRefused _ \<Rightarrow> attempt < rp_max_retries p
   | LockAcquireFailed _ \<Rightarrow> attempt < rp_max_retries p
   | ProviderError _ _ \<Rightarrow> attempt < rp_max_retries p
   | AuthenticationFailed _ \<Rightarrow> False
   | TokenExpired \<Rightarrow> False
   | ChecksumMismatch _ _ _ \<Rightarrow> False
   | AadInconsistent _ _ _ \<Rightarrow> False
   | SerializationFailed _ \<Rightarrow> False
   | DeserializationFailed _ \<Rightarrow> False
   | InvalidStateTransition _ _ \<Rightarrow> False
   | LockReleaseFailed _ \<Rightarrow> False
   | ProviderNotSupported _ \<Rightarrow> False
   | ConfigValidationFailed _ _ \<Rightarrow> False
   | VaultIdentityMismatch _ _ \<Rightarrow> False
   | MetadataVersionConflict _ _ \<Rightarrow> False
   | RecordNotFound _ \<Rightarrow> False
   | PermissionDenied _ \<Rightarrow> False
   | QuotaExceeded _ \<Rightarrow> False
   | Cancelled _ \<Rightarrow> False)"

definition i128_max :: int where
  "i128_max = 2 ^ 127 - 1"

text \<open>
  \<open>delay_for_attempt\<close>: \<open>attempt as i32\<close> wraps, \<open>as i128\<close> saturates, \<open>as u64\<close> truncates to 64
  bits. \<open>rand lo hi\<close> is the sample \<open>rng.random_range(lo..=hi)\<close>.
\<close>

definition delay_for_attempt ::
  "'f f64_ops \<Rightarrow> (int \<Rightarrow> int \<Rightarrow> int) \<Rightarrow> 'f retry_policy \<Rightarrow> u32 \<Rightarrow> nat" where
  "delay_for_attempt F rand p attempt =
     (let multiplier_pow = f_powi F (rp_multiplier p) (sint attempt);
          base_secs = f_secs F (rp_base_delay p);
          max_delay_secs = f_secs F (rp_max_delay p);
          raw_delay_secs =
            (if f_is_infinite F multiplier_pow
                \<or> f_gt F multiplier_pow (f_div F (f_max F) base_secs)
             then f_max F else f_mul F base_secs multiplier_pow)
      in if f_is_infinite F raw_delay_secs \<or> f_gt F raw_delay_secs max_delay_secs
         then rp_max_delay p
         else
           (let jitter_range = f_mul F raw_delay_secs (rp_jitter_fraction p);
                jitter_ns = f_to_i128 F (f_mul F jitter_range (f_1e9 F));
                base_ns = f_to_i128 F (f_mul F raw_delay_secs (f_1e9 F))
            in if jitter_ns > i128_max div 2 \<or> base_ns > i128_max div 2
               then rp_max_delay p
               else
                 (let jitter_offset_ns = rand (- jitter_ns) jitter_ns;
                      final_ns = unat (word_of_int (max (base_ns + jitter_offset_ns) 0) :: u64)
                  in if final_ns > rp_max_delay p then rp_max_delay p else final_ns)))"

definition retry_reset :: "'f retry_policy \<Rightarrow> u32" where
  "retry_reset p = 0"

record 'f backoff_timer =
  bt_policy :: "'f retry_policy"
  bt_attempt :: u32

definition backoff_new :: "'f retry_policy \<Rightarrow> 'f backoff_timer" where
  "backoff_new p = \<lparr> bt_policy = p, bt_attempt = 0 \<rparr>"

definition backoff_next_delay ::
  "'f f64_ops \<Rightarrow> (int \<Rightarrow> int \<Rightarrow> int) \<Rightarrow> 'f backoff_timer \<Rightarrow> nat \<times> 'f backoff_timer" where
  "backoff_next_delay F rand t =
     (delay_for_attempt F rand (bt_policy t) (bt_attempt t), t\<lparr>bt_attempt := bt_attempt t + 1\<rparr>)"

definition backoff_should_retry :: "'f backoff_timer \<Rightarrow> sync_error \<Rightarrow> bool" where
  "backoff_should_retry t e = should_retry (bt_policy t) e (bt_attempt t)"

definition backoff_reset :: "'f backoff_timer \<Rightarrow> 'f backoff_timer" where
  "backoff_reset t = t\<lparr>bt_attempt := 0\<rparr>"

section \<open>Which errors are retried\<close>

definition transient :: "sync_error \<Rightarrow> bool" where
  "transient e \<longleftrightarrow> (case e of NetworkTimeout _ \<Rightarrow> True | ConnectionRefused _ \<Rightarrow> True
      | LockAcquireFailed _ \<Rightarrow> True | ProviderError _ _ \<Rightarrow> True | _ \<Rightarrow> False)"

definition unreachable :: "sync_error \<Rightarrow> bool" where
  "unreachable e \<longleftrightarrow> (case e of NetworkUnreachable _ \<Rightarrow> True | _ \<Rightarrow> False)"

lemma should_retry_iff:
  "should_retry p e n \<longleftrightarrow> unreachable e \<or> transient e \<and> n < rp_max_retries p"
  by (cases e) (simp_all add: should_retry_def transient_def unreachable_def)

text \<open>The delay never exceeds the cap, whatever the floating-point unit and the dice do.\<close>

lemma delay_le_max: "delay_for_attempt F rand p n \<le> rp_max_delay p"
  by (simp add: delay_for_attempt_def Let_def)

text \<open>The delays a fresh timer hands out over \<open>n\<close> calls, and the timer after them.\<close>

fun backoff_run :: "'f f64_ops \<Rightarrow> (int \<Rightarrow> int \<Rightarrow> int) \<Rightarrow> nat \<Rightarrow> 'f backoff_timer \<Rightarrow> nat list \<times> 'f backoff_timer" where
  "backoff_run F rand 0 t = ([], t)"
| "backoff_run F rand (Suc n) t =
     (let (d, t1) = backoff_next_delay F rand t; (ds, t2) = backoff_run F rand n t1 in (d # ds, t2))"

lemma backoff_run_state:
  "snd (backoff_run F rand n t) = t\<lparr>bt_attempt := bt_attempt t + of_nat n\<rparr>"
  by (induction n arbitrary: t)
     (simp_all add: backoff_next_delay_def split_beta Let_def algebra_simps)

lemma backoff_run_bound:
  "d \<in> set (fst (backoff_run F rand n t)) \<Longrightarrow> d \<le> rp_max_delay (bt_policy t)"
  by (induction n arbitrary: t)
     (fastforce simp: backoff_next_delay_def split_beta Let_def delay_le_max)+

lemma backoff_run_length: "length (fst (backoff_run F rand n t)) = n"
  by (induction n arbitrary: t) (simp_all add: split_beta Let_def)

text \<open>
  C40: a backoff timer driven for \<open>n\<close> failures hands out \<open>n\<close> delays of at most \<open>max_delay\<close>
  (whatever floating point and randomness give), and then retries a transient error exactly when
  \<open>n\<close> is below \<open>max_retries\<close>, an unreachable network always, and nothing else ever.
\<close>

theorem backoff_bounded_retries:
  fixes p :: "'f retry_policy"
  assumes "n < 2 ^ 32"
  shows "let (ds, t) = backoff_run F rand n (backoff_new p)
         in length ds = n \<and> (\<forall>d \<in> set ds. d \<le> rp_max_delay p)
            \<and> (backoff_should_retry t e \<longleftrightarrow>
                 unreachable e \<or> transient e \<and> n < unat (rp_max_retries p))"
proof -
  have "(of_nat n < rp_max_retries p) \<longleftrightarrow> n < unat (rp_max_retries p)"
    using assms by (simp add: of_nat_less_word_iff)
  then have "backoff_should_retry (snd (backoff_run F rand n (backoff_new p))) e \<longleftrightarrow>
           unreachable e \<or> transient e \<and> n < unat (rp_max_retries p)"
    by (simp add: backoff_should_retry_def backoff_run_state should_retry_iff backoff_new_def)
  moreover have "d \<le> rp_max_delay p" if "d \<in> set (fst (backoff_run F rand n (backoff_new p)))" for d
    using backoff_run_bound[OF that] by (simp add: backoff_new_def)
  ultimately show ?thesis
    by (simp add: split_beta Let_def backoff_run_length)
qed

text \<open>
  A concrete floating-point unit for evaluation: rationals scaled to milli-units, enough for the
  default policy's \<open>2.0\<close> and \<open>0.2\<close>.
\<close>

definition demo_f64 :: "int f64_ops" where
  "demo_f64 = \<lparr> f_powi = (\<lambda>x n. 1000 * (x div 1000) ^ nat n), f_mul = (\<lambda>x y. x * y div 1000),
     f_div = (\<lambda>x y. x * 1000 div y), f_gt = (\<lambda>x y. y < x), f_is_infinite = (\<lambda>_. False),
     f_max = 2 ^ 100, f_secs = (\<lambda>n. int n div 1000000), f_1e9 = 1000 * 1000000000,
     f_to_i128 = (\<lambda>x. x div 1000) \<rparr>"

theorem backoff_bounded_retries_witness:
  "(let (ds, t) = backoff_run demo_f64 (\<lambda>lo hi. hi) 3 (backoff_new (retry_policy_default 2000 200))
    in length ds = 3 \<and> (\<forall>d \<in> set ds. d \<le> secs 300)
       \<and> (backoff_should_retry t (NetworkTimeout ''x'') \<longleftrightarrow> True))
   \<and> fst (backoff_run demo_f64 (\<lambda>lo hi. hi) 3 (backoff_new (retry_policy_default 2000 200)))
       = [secs 6, secs 12, secs 24]"
proof
  show "fst (backoff_run demo_f64 (\<lambda>lo hi. hi) 3 (backoff_new (retry_policy_default 2000 200)))
       = [secs 6, secs 12, secs 24]"
    by (simp add: numeral_3_eq_3 backoff_next_delay_def delay_for_attempt_def demo_f64_def
        backoff_new_def retry_policy_default_def secs_def Let_def i128_max_def)
  show "let (ds, t) = backoff_run demo_f64 (\<lambda>lo hi. hi) 3 (backoff_new (retry_policy_default 2000 200))
    in length ds = 3 \<and> (\<forall>d \<in> set ds. d \<le> secs 300)
       \<and> (backoff_should_retry t (NetworkTimeout ''x'') \<longleftrightarrow> True)"
    using backoff_bounded_retries[of 3 demo_f64 "\<lambda>lo hi. hi" "retry_policy_default 2000 200" "NetworkTimeout ''x''"]
    by (simp add: retry_policy_default_def transient_def split_beta Let_def)
qed

end
