(* ===== verification/State_Machine.thy ===== *)
theory State_Machine
  imports Sync_Error
begin

text \<open>
  \<open>sync/state_machine.rs\<close>: the sync state machine. \<open>transition\<close> returns the result of the Rust
  method together with the machine after the call, so a rejected trigger is visible as an error
  that leaves the machine as it was.
\<close>

datatype sync_trigger =
    TriggerSync
  | PullOnly
  | PullCompleted
  | DetectCompleted (dc_has_conflicts: bool) (dc_has_changes: bool)
  | PushCompleted (pc_has_conflicts: bool)
  | AllConflictsResolved
  | ConflictResolutionFailed
  | NetworkError
  | OtherError
  | BackoffExpired
  | MaxRetriesExceeded
  | Shutdown
  | ReportCompleted

datatype sync_state =
  Idle | Pulling | Detecting | Pushing | Resolving | Synced | Error | Offline | ShuttingDown

definition sync_state_to_string :: "sync_state \<Rightarrow> string" where
  "sync_state_to_string s = (case s of
     Idle \<Rightarrow> ''Idle'' | Pulling \<Rightarrow> ''Pulling'' | Detecting \<Rightarrow> ''Detecting'' | Pushing \<Rightarrow> ''Pushing''
   | Resolving \<Rightarrow> ''Resolving'' | Synced \<Rightarrow> ''Synced'' | Error \<Rightarrow> ''Error'' | Offline \<Rightarrow> ''Offline''
   | ShuttingDown \<Rightarrow> ''ShuttingDown'')"

record sync_state_machine =
  sm_state :: sync_state
  sm_attempt :: u32
  sm_max_retries :: u32
  sm_last_error :: "string option"

definition sm_new :: "u32 \<Rightarrow> sync_state_machine" where
  "sm_new max_retries =
     \<lparr> sm_state = Idle, sm_attempt = 0, sm_max_retries = max_retries, sm_last_error = None \<rparr>"

definition sm_reset :: "sync_state_machine \<Rightarrow> sync_state_machine" where
  "sm_reset m = m\<lparr> sm_state := Idle, sm_attempt := 0, sm_last_error := None \<rparr>"

definition can_accept_commands :: "sync_state_machine \<Rightarrow> bool" where
  "can_accept_commands m \<longleftrightarrow> (case sm_state m of Idle \<Rightarrow> True | Error \<Rightarrow> True | Offline \<Rightarrow> True | _ \<Rightarrow> False)"

definition invalid_transition :: "sync_state \<Rightarrow> sync_error" where
  "invalid_transition s = InvalidStateTransition (sync_state_to_string s) ''unknown''"

text \<open>\<open>compute_next_state\<close>: the match arms in their order; the first that applies wins.\<close>

definition compute_next_state :: "sync_state_machine \<Rightarrow> sync_trigger \<Rightarrow> sync_error + sync_state" where
  "compute_next_state m trigger =
     (if trigger = Shutdown then Inr ShuttingDown
      else case (sm_state m, trigger) of
        (Idle, TriggerSync) \<Rightarrow> Inr Pulling
      | (Idle, PullOnly) \<Rightarrow> Inr Pulling
      | (Pulling, PullCompleted) \<Rightarrow> Inr Detecting
      | (Pulling, NetworkError) \<Rightarrow> Inr Offline
      | (Pulling, OtherError) \<Rightarrow> Inr Error
      | (Detecting, DetectCompleted has_conflicts has_changes) \<Rightarrow>
          (if \<not> has_changes \<and> \<not> has_conflicts then Inr Synced
           else if has_changes then Inr Pushing
           else if has_conflicts then Inr Pushing
           else Inl (invalid_transition (sm_state m)))
      | (Pushing, PushCompleted has_conflicts) \<Rightarrow>
          (if \<not> has_conflicts then Inr Synced else Inr Resolving)
      | (Pushing, NetworkError) \<Rightarrow> Inr Offline
      | (Pushing, OtherError) \<Rightarrow> Inr Error
      | (Resolving, AllConflictsResolved) \<Rightarrow> Inr Synced
      | (Resolving, ConflictResolutionFailed) \<Rightarrow> Inr Resolving
      | (Resolving, NetworkError) \<Rightarrow> Inr Offline
      | (Resolving, Shutdown) \<Rightarrow> Inr ShuttingDown
      | (Synced, ReportCompleted) \<Rightarrow> Inr Idle
      | (Error, BackoffExpired) \<Rightarrow>
          (if sm_attempt m \<le> sm_max_retries m then Inr Pulling
           else Inl (invalid_transition (sm_state m)))
      | (Error, MaxRetriesExceeded) \<Rightarrow> Inr Idle
      | (Offline, BackoffExpired) \<Rightarrow> Inr Pulling
      | _ \<Rightarrow> Inl (invalid_transition (sm_state m)))"

definition apply_side_effects ::
  "sync_state_machine \<Rightarrow> sync_trigger \<Rightarrow> sync_state \<Rightarrow> sync_state_machine" where
  "apply_side_effects m trigger to =
     (case (sm_state m, trigger, to) of
        (Idle, _, Pulling) \<Rightarrow> m\<lparr>sm_attempt := 0\<rparr>
      | (Pulling, OtherError, Error) \<Rightarrow>
          m\<lparr>sm_attempt := sm_attempt m + 1, sm_last_error := Some ''Sync failed due to error''\<rparr>
      | (Pushing, OtherError, Error) \<Rightarrow>
          m\<lparr>sm_attempt := sm_attempt m + 1, sm_last_error := Some ''Sync failed due to error''\<rparr>
      | (Error, MaxRetriesExceeded, Idle) \<Rightarrow> m\<lparr>sm_last_error := None\<rparr>
      | _ \<Rightarrow> m)"

definition transition ::
  "sync_trigger \<Rightarrow> sync_state_machine \<Rightarrow> (sync_error + sync_state) \<times> sync_state_machine" where
  "transition trigger m =
     (case compute_next_state m trigger of
        Inl e \<Rightarrow> (Inl e, m)
      | Inr to \<Rightarrow> (Inr to, (apply_side_effects m trigger to)\<lparr>sm_state := to\<rparr>))"

section \<open>The transition relation\<close>

text \<open>
  The specification: the moves of the machine as rules. The executable \<open>transition\<close> accepts a
  trigger exactly when a rule allows it, and then does what the rule says.
\<close>

inductive sm_move :: "sync_state_machine \<Rightarrow> sync_trigger \<Rightarrow> sync_state_machine \<Rightarrow> bool" where
  mv_shutdown: "sm_move m Shutdown (m\<lparr>sm_state := ShuttingDown\<rparr>)"
| mv_start: "\<lbrakk> sm_state m = Idle; t = TriggerSync \<or> t = PullOnly \<rbrakk>
    \<Longrightarrow> sm_move m t (m\<lparr>sm_state := Pulling, sm_attempt := 0\<rparr>)"
| mv_pulled: "sm_state m = Pulling \<Longrightarrow> sm_move m PullCompleted (m\<lparr>sm_state := Detecting\<rparr>)"
| mv_detect: "sm_state m = Detecting \<Longrightarrow>
    sm_move m (DetectCompleted c h) (m\<lparr>sm_state := (if c \<or> h then Pushing else Synced)\<rparr>)"
| mv_push: "sm_state m = Pushing \<Longrightarrow>
    sm_move m (PushCompleted c) (m\<lparr>sm_state := (if c then Resolving else Synced)\<rparr>)"
| mv_offline: "sm_state m \<in> {Pulling, Pushing, Resolving} \<Longrightarrow>
    sm_move m NetworkError (m\<lparr>sm_state := Offline\<rparr>)"
| mv_error: "sm_state m \<in> {Pulling, Pushing} \<Longrightarrow>
    sm_move m OtherError (m\<lparr>sm_state := Error, sm_attempt := sm_attempt m + 1,
      sm_last_error := Some ''Sync failed due to error''\<rparr>)"
| mv_resolved: "sm_state m = Resolving \<Longrightarrow> sm_move m AllConflictsResolved (m\<lparr>sm_state := Synced\<rparr>)"
| mv_unresolved: "sm_state m = Resolving \<Longrightarrow> sm_move m ConflictResolutionFailed m"
| mv_report: "sm_state m = Synced \<Longrightarrow> sm_move m ReportCompleted (m\<lparr>sm_state := Idle\<rparr>)"
| mv_retry: "\<lbrakk> sm_state m = Error; sm_attempt m \<le> sm_max_retries m \<rbrakk> \<Longrightarrow>
    sm_move m BackoffExpired (m\<lparr>sm_state := Pulling\<rparr>)"
| mv_give_up: "sm_state m = Error \<Longrightarrow>
    sm_move m MaxRetriesExceeded (m\<lparr>sm_state := Idle, sm_last_error := None\<rparr>)"
| mv_online: "sm_state m = Offline \<Longrightarrow> sm_move m BackoffExpired (m\<lparr>sm_state := Pulling\<rparr>)"

inductive_cases sm_moveE: "sm_move m t m'"

lemmas sm_defs = compute_next_state_def apply_side_effects_def transition_def

lemma sm_move_transition: "sm_move m t m' \<Longrightarrow> transition t m = (Inr (sm_state m'), m')"
  by (induction rule: sm_move.induct) (auto simp: sm_defs split: sync_state.splits)

lemma transition_sm_move:
  assumes "transition t m = (Inr s, m')"
  shows "sm_move m t m' \<and> s = sm_state m'"
proof -
  have "compute_next_state m t = Inr s"
    using assms by (auto simp: transition_def split: sum.splits)
  then have "\<exists>m''. sm_move m t m''"
    by (cases "sm_state m"; cases t)
       (auto simp: compute_next_state_def split: if_splits intro: sm_move.intros)
  then show ?thesis
    using assms by (metis Pair_inject sm_move_transition sum.inject(2))
qed

lemma transition_rejected: "transition t m = (Inl e, m') \<Longrightarrow> m' = m"
  by (auto simp: transition_def split: sum.splits)

lemma transition_rejected_error:
  "fst (transition t m) = Inl e \<Longrightarrow> e = invalid_transition (sm_state m)"
  by (cases "sm_state m"; cases t)
     (auto simp: sm_defs split: if_splits sum.splits)

text \<open>
  C15: the executable \<open>transition\<close> refines the rules: it accepts a trigger with the successor the
  rules give, and when no rule applies it reports the invalid transition and leaves the machine
  unchanged.
\<close>

theorem transition_refines_moves:
  "(transition t m = (Inr s, m') \<longleftrightarrow> sm_move m t m' \<and> s = sm_state m')
   \<and> (transition t m = (Inl e, m') \<longleftrightarrow>
        m' = m \<and> e = invalid_transition (sm_state m) \<and> \<not> (\<exists>m''. sm_move m t m''))"
proof (cases "transition t m")
  case (Pair r n)
  show ?thesis
  proof (cases r)
    case (Inr s')
    then have mv: "sm_move m t n" "s' = sm_state n"
      using transition_sm_move Pair by blast+
    then show ?thesis
      using Pair Inr sm_move_transition[of m t m'] by auto
  next
    case (Inl e')
    then have "\<not> sm_move m t m''" for m''
      using Pair sm_move_transition[of m t m''] by auto
    then show ?thesis
      using Pair Inl transition_rejected[of t m e' n] transition_rejected_error[of t m e'] by auto
  qed
qed

section \<open>Invariants of a run\<close>

definition sm_step :: "sync_trigger \<Rightarrow> sync_state_machine \<Rightarrow> sync_state_machine" where
  "sm_step t m = snd (transition t m)"

lemma sm_step_cases: "sm_step t m = m \<or> sm_move m t (sm_step t m)"
  unfolding sm_step_def
  by (metis prod.collapse sum.exhaust transition_rejected transition_sm_move)

lemma fold_sm_step_max: "sm_max_retries (fold sm_step ts m) = sm_max_retries m"
proof (induction ts arbitrary: m)
  case (Cons t ts)
  have "sm_max_retries (sm_step t m) = sm_max_retries m"
    using sm_step_cases[of t m] by (auto elim: sm_moveE)
  then show ?case
    using Cons.IH by simp
qed simp

text \<open>
  Below the retry limit the attempt counter is at most \<open>max_retries\<close> whenever a sync is under way
  and at most one above it otherwise; in \<open>Error\<close> it is positive and the error text is set.
\<close>

definition attempt_inv :: "u32 \<Rightarrow> sync_state_machine \<Rightarrow> bool" where
  "attempt_inv k m \<longleftrightarrow> sm_max_retries m = k
     \<and> unat (sm_attempt m) \<le> unat k + 1
     \<and> (sm_state m \<in> {Pulling, Detecting, Pushing, Resolving, Synced, Offline} \<longrightarrow> unat (sm_attempt m) \<le> unat k)
     \<and> (sm_state m = Error \<longrightarrow> 0 < unat (sm_attempt m) \<and> sm_last_error m \<noteq> None)"

lemma attempt_inv_move:
  assumes k: "k \<noteq> - 1" and inv: "attempt_inv k m" and mv: "sm_move m t m'"
  shows "attempt_inv k m'"
  using mv inv unat_Suc_bounded[of "sm_attempt m" k] k
  by (cases rule: sm_move.cases) (auto simp: attempt_inv_def word_le_nat_alt)

lemma attempt_inv_step: "k \<noteq> - 1 \<Longrightarrow> attempt_inv k m \<Longrightarrow> attempt_inv k (sm_step t m)"
  using sm_step_cases[of t m] attempt_inv_move by metis

lemma attempt_inv_new: "attempt_inv k (sm_new k)"
  by (simp add: attempt_inv_def sm_new_def)

interpretation sm: invariant_system "\<lambda>m. \<exists>k. k \<noteq> - 1 \<and> m = sm_new k" sm_step
  "\<lambda>m. \<exists>k. k \<noteq> - 1 \<and> attempt_inv k m"
proof unfold_locales
  show "\<exists>k. k \<noteq> - 1 \<and> m = sm_new k \<Longrightarrow> \<exists>k. k \<noteq> - 1 \<and> attempt_inv k m" for m
    using attempt_inv_new by blast
  show "\<exists>k. k \<noteq> - 1 \<and> attempt_inv k m \<Longrightarrow> \<exists>k. k \<noteq> - 1 \<and> attempt_inv k (sm_step t m)" for m t
    using attempt_inv_step by blast
qed

text \<open>
  Over every sequence of triggers, accepted or not, a machine created with a limit below
  \<open>u32::MAX\<close> never lets its attempt counter pass \<open>max_retries + 1\<close>, so it does not wrap, and an
  \<open>Error\<close> state always carries an error text.
\<close>

theorem attempts_never_wrap:
  assumes "k \<noteq> - 1"
  shows "let m = fold sm_step ts (sm_new k)
         in sm_max_retries m = k \<and> unat (sm_attempt m) \<le> unat k + 1
            \<and> (sm_state m = Error \<longrightarrow> 0 < unat (sm_attempt m) \<and> sm_last_error m \<noteq> None)
            \<and> (sm_state m \<in> {Pulling, Pushing} \<longrightarrow> unat (sm_attempt m) \<le> unat k)"
proof -
  obtain k' where "attempt_inv k' (fold sm_step ts (sm_new k))"
    using sm.run_inv[of "sm_new k" ts] assms by blast
  moreover have "sm_max_retries (fold sm_step ts (sm_new k)) = k"
    by (simp add: fold_sm_step_max sm_new_def)
  ultimately show ?thesis
    by (auto simp: attempt_inv_def Let_def)
qed

theorem attempts_never_wrap_witness:
  "(let m = fold sm_step [TriggerSync, OtherError, BackoffExpired, OtherError] (sm_new 5)
    in sm_state m = Error \<and> sm_attempt m = 2 \<and> unat (sm_attempt m) \<le> 6 \<and> sm_last_error m \<noteq> None)"
  using attempts_never_wrap[of 5 "[TriggerSync, OtherError, BackoffExpired, OtherError]"]
  by (simp add: sm_step_def sm_defs sm_new_def Let_def)

section \<open>Giving up and shutting down\<close>

lemma fold_sm_step_shut: "sm_state m = ShuttingDown \<Longrightarrow> sm_state (fold sm_step ts m) = ShuttingDown"
proof (induction ts arbitrary: m)
  case (Cons t ts)
  then have "sm_state (sm_step t m) = ShuttingDown"
    using sm_step_cases[of t m] by (auto elim: sm_moveE)
  then show ?case
    using Cons.IH by simp
qed simp

text \<open>
  Shutdown is final. It is accepted in every state, and after it no sequence of triggers leaves
  \<open>ShuttingDown\<close>, and none but another shutdown is accepted.
\<close>

theorem shutdown_absorbing:
  "transition Shutdown m = (Inr ShuttingDown, m\<lparr>sm_state := ShuttingDown\<rparr>)
   \<and> sm_state (fold sm_step ts (sm_step Shutdown m)) = ShuttingDown
   \<and> (is_ok (fst (transition t (fold sm_step ts (sm_step Shutdown m)))) \<longleftrightarrow> t = Shutdown)"
proof -
  have sd: "transition Shutdown m = (Inr ShuttingDown, m\<lparr>sm_state := ShuttingDown\<rparr>)"
    by (auto simp: sm_defs split: sync_state.splits)
  then have st: "sm_state (fold sm_step ts (sm_step Shutdown m)) = ShuttingDown"
    by (intro fold_sm_step_shut) (simp add: sm_step_def)
  have "is_ok (fst (transition t m')) \<longleftrightarrow> t = Shutdown" if "sm_state m' = ShuttingDown" for m'
    using that by (cases t) (simp_all add: sm_defs)
  with sd st show ?thesis
    by blast
qed

text \<open>The number of failures in a row before a machine that has just started must give up.\<close>

lemma retry_until_limit:
  assumes "sm_state m = Pulling" "sm_attempt m = of_nat i" "i + n \<le> unat (sm_max_retries m)"
    "sm_max_retries m \<noteq> - 1"
  shows "let m' = fold sm_step (concat (replicate n [OtherError, BackoffExpired])) m
         in sm_state m' = Pulling \<and> sm_attempt m' = of_nat (i + n) \<and> sm_max_retries m' = sm_max_retries m"
  using assms
proof (induction n arbitrary: m i)
  case (Suc n)
  let ?m1 = "sm_step BackoffExpired (sm_step OtherError m)"
  have bound: "i + 1 \<le> unat (sm_max_retries m)"
    using Suc.prems(3) by simp
  have "i + 1 < 2 ^ 32"
    using bound unat_less_2p[of "sm_max_retries m"] by simp
  then have "unat (of_nat (i + 1) :: u32) = i + 1"
    by (simp only: unat_of_nat take_bit_nat_eq_self) simp
  then have "(of_nat i :: u32) + 1 \<le> sm_max_retries m"
    using bound by (simp add: word_le_nat_alt add.commute)
  then have m1: "sm_state ?m1 = Pulling" "sm_attempt ?m1 = of_nat (i + 1)"
    "sm_max_retries ?m1 = sm_max_retries m"
    using Suc.prems(1,2) by (simp_all add: sm_step_def sm_defs add.commute)
  then show ?case
    using Suc.IH[of ?m1 "i + 1"] Suc.prems(3,4) by (simp add: Let_def)
qed simp

text \<open>
  A sync that keeps failing retries exactly \<open>max_retries\<close> times: after \<open>n\<close> failed rounds with
  \<open>n \<le> max_retries\<close> it is pulling again, the next failure leaves it in \<open>Error\<close> with the counter
  past the limit, where the backoff is refused and only giving up leads back to \<open>Idle\<close>.
\<close>

theorem retries_exhausted:
  assumes "k \<noteq> - 1" "n = unat k"
  shows "let m = fold sm_step (TriggerSync # concat (replicate n [OtherError, BackoffExpired])) (sm_new k);
             f = sm_step OtherError m
         in sm_state m = Pulling \<and> sm_state f = Error
            \<and> fst (transition BackoffExpired f) = Inl (invalid_transition Error)
            \<and> transition MaxRetriesExceeded f = (Inr Idle, f\<lparr>sm_state := Idle, sm_last_error := None\<rparr>)"
proof -
  let ?m0 = "sm_step TriggerSync (sm_new k)"
  have m0: "sm_state ?m0 = Pulling" "sm_attempt ?m0 = of_nat 0" "sm_max_retries ?m0 = k"
    by (simp_all add: sm_step_def sm_defs sm_new_def)
  define m where "m = fold sm_step (concat (replicate n [OtherError, BackoffExpired])) ?m0"
  have m: "sm_state m = Pulling" "sm_attempt m = k" "sm_max_retries m = k"
    using retry_until_limit[OF m0(1,2), of n] m0(3) assms by (simp_all add: m_def Let_def)
  have "\<not> k + 1 \<le> k"
    using unat_Suc_bounded[of k k] assms(1) by (simp add: word_le_nat_alt)
  then have "sm_state (sm_step OtherError m) = Error
      \<and> fst (transition BackoffExpired (sm_step OtherError m)) = Inl (invalid_transition Error)
      \<and> transition MaxRetriesExceeded (sm_step OtherError m)
          = (Inr Idle, (sm_step OtherError m)\<lparr>sm_state := Idle, sm_last_error := None\<rparr>)"
    using m by (simp add: sm_step_def sm_defs)
  then show ?thesis
    using m(1) by (simp add: m_def Let_def)
qed

theorem retries_exhausted_witness:
  "let m = fold sm_step (TriggerSync # concat (replicate 2 [OtherError, BackoffExpired])) (sm_new 2);
       f = sm_step OtherError m
   in sm_state m = Pulling \<and> sm_state f = Error
      \<and> fst (transition BackoffExpired f) = Inl (invalid_transition Error)
      \<and> transition MaxRetriesExceeded f = (Inr Idle, f\<lparr>sm_state := Idle, sm_last_error := None\<rparr>)"
  by (rule retries_exhausted) simp_all

section \<open>Commands and states\<close>

text \<open>
  \<open>can_accept_commands\<close> does not say which commands the machine will take: of the three states
  it allows, only \<open>Idle\<close> accepts the triggers of the sync and pull commands; in \<open>Error\<close> and
  \<open>Offline\<close> the same commands are rejected as invalid transitions.
\<close>

theorem accepting_states_reject_commands:
  "t = TriggerSync \<or> t = PullOnly \<Longrightarrow> can_accept_commands m \<Longrightarrow>
     is_ok (fst (transition t m)) \<longleftrightarrow> sm_state m = Idle"
  by (elim disjE; cases "sm_state m") (simp_all add: can_accept_commands_def sm_defs)

theorem accepting_states_reject_commands_witness:
  "can_accept_commands ((sm_new 5)\<lparr>sm_state := Error\<rparr>)
   \<and> \<not> is_ok (fst (transition TriggerSync ((sm_new 5)\<lparr>sm_state := Error\<rparr>)))"
  using accepting_states_reject_commands[of TriggerSync "(sm_new 5)\<lparr>sm_state := Error\<rparr>"]
  by (simp add: can_accept_commands_def)

end
