(* ===== verification/Env.thy ===== *)
theory Env
  imports Keyring_Prelude
begin

text \<open>
  What the program takes from outside its own sources, as parameters of the definitions:

  \<^item> \<open>env\<close>: pure third-party functions (UUID, base64, SHA-256, hex, RFC 3339 timestamps), with
    the documented laws the proofs use as the predicate \<open>env_laws\<close>;
  \<^item> \<open>cloud_ops\<close>: the OpenDAL operator, the wall clock, \<open>Uuid::new_v4\<close>, the random generator and
    \<open>sleep\<close>, as functions on an abstract world. Every call returns the world after it, so another
    device may change the remote store between any two calls.

  A Rust byte vector and a Rust string are both lists of 8-bit characters; \<open>String::from_utf8\<close> is
  the checker \<open>utf8_check\<close>, which follows the validation loop of the standard library. Timestamps
  are nanoseconds since the Unix epoch.
\<close>

type_synonym bytes = string
type_synonym uuid = "128 word"
type_synonym timestamp = int

section \<open>UTF-8\<close>

abbreviation byte_of :: "char \<Rightarrow> nat" where
  "byte_of c \<equiv> of_char c"

definition cont :: "char \<Rightarrow> bool" where
  "cont c \<longleftrightarrow> 128 \<le> byte_of c \<and> byte_of c \<le> 191"

definition second_of_3 :: "nat \<Rightarrow> nat \<Rightarrow> bool" where
  "second_of_3 a b \<longleftrightarrow>
     (a = 224 \<and> 160 \<le> b \<and> b \<le> 191) \<or> (225 \<le> a \<and> a \<le> 236 \<and> 128 \<le> b \<and> b \<le> 191)
     \<or> (a = 237 \<and> 128 \<le> b \<and> b \<le> 159) \<or> (238 \<le> a \<and> a \<le> 239 \<and> 128 \<le> b \<and> b \<le> 191)"

definition second_of_4 :: "nat \<Rightarrow> nat \<Rightarrow> bool" where
  "second_of_4 a b \<longleftrightarrow>
     (a = 240 \<and> 144 \<le> b \<and> b \<le> 191) \<or> (241 \<le> a \<and> a \<le> 243 \<and> 128 \<le> b \<and> b \<le> 191)
     \<or> (a = 244 \<and> 128 \<le> b \<and> b \<le> 143)"

text \<open>
  One character at the front: \<open>Inr n\<close> is a valid character of \<open>n\<close> bytes, \<open>Inl (Some k)\<close> an invalid
  sequence of \<open>k\<close> bytes, \<open>Inl None\<close> a truncated one.
\<close>

fun utf8_char :: "bytes \<Rightarrow> nat option + nat" where
  "utf8_char [] = Inl None"
| "utf8_char (a # s) =
     (let w = byte_of a in
      if w < 128 then Inr 1
      else if 194 \<le> w \<and> w \<le> 223 then
        (case s of [] \<Rightarrow> Inl None | b # _ \<Rightarrow> if cont b then Inr 2 else Inl (Some 1))
      else if 224 \<le> w \<and> w \<le> 239 then
        (case s of [] \<Rightarrow> Inl None
         | b # s' \<Rightarrow> if \<not> second_of_3 w (byte_of b) then Inl (Some 1)
            else (case s' of [] \<Rightarrow> Inl None | c # _ \<Rightarrow> if cont c then Inr 3 else Inl (Some 2)))
      else if 240 \<le> w \<and> w \<le> 244 then
        (case s of [] \<Rightarrow> Inl None
         | b # s' \<Rightarrow> if \<not> second_of_4 w (byte_of b) then Inl (Some 1)
            else (case s' of [] \<Rightarrow> Inl None
              | c # s'' \<Rightarrow> if \<not> cont c then Inl (Some 2)
                 else (case s'' of [] \<Rightarrow> Inl None | d # _ \<Rightarrow> if cont d then Inr 4 else Inl (Some 3))))
      else Inl (Some 1))"

lemma utf8_char_pos: "utf8_char s = Inr n \<Longrightarrow> 0 < n \<and> n \<le> length s"
  by (cases s) (auto simp: Let_def split: if_splits list.splits)

function utf8_check :: "nat \<Rightarrow> bytes \<Rightarrow> (nat \<times> nat option) + unit" where
  "utf8_check i s =
     (if s = [] then Inr ()
      else case utf8_char s of
        Inl k \<Rightarrow> Inl (i, k)
      | Inr n \<Rightarrow> utf8_check (i + n) (drop n s))"
  by pat_completeness auto
termination
  by (relation "measure (\<lambda>(i, s). length s)") (auto dest: utf8_char_pos)

declare utf8_check.simps [simp del]

text \<open>The printed form of the standard library's \<open>Utf8Error\<close>.\<close>

definition utf8_error_to_string :: "nat \<times> nat option \<Rightarrow> string" where
  "utf8_error_to_string e = (case e of
     (i, Some k) \<Rightarrow> ''invalid utf-8 sequence of '' @ show_nat k @ '' bytes from index '' @ show_nat i
   | (i, None) \<Rightarrow> ''incomplete utf-8 byte sequence from index '' @ show_nat i)"

definition from_utf8 :: "bytes \<Rightarrow> string + string" where
  "from_utf8 s = (case utf8_check 0 s of
     Inl e \<Rightarrow> Inl (utf8_error_to_string e) | Inr _ \<Rightarrow> Inr s)"

lemma from_utf8_same: "from_utf8 s = Inr t \<Longrightarrow> t = s"
  by (auto simp: from_utf8_def split: sum.splits)

text \<open>Plain ASCII text is valid.\<close>

lemma utf8_check_ascii: "list_all (\<lambda>c. byte_of c < 128) s \<Longrightarrow> utf8_check i s = Inr ()"
proof (induction s arbitrary: i)
  case Nil
  then show ?case by (simp add: utf8_check.simps)
next
  case (Cons c s)
  then show ?case by (subst utf8_check.simps) (simp add: Let_def)
qed

text \<open>
  \<open>char::is_whitespace\<close>: the number of bytes of a whitespace character at the front of a string,
  0 when there is none.
\<close>

definition ws_len :: "string \<Rightarrow> nat" where
  "ws_len s = (case map byte_of (take 3 s) of
     [] \<Rightarrow> 0
   | a # r \<Rightarrow>
       if 9 \<le> a \<and> a \<le> 13 \<or> a = 32 then 1
       else (case r of
         [] \<Rightarrow> 0
       | b # r' \<Rightarrow>
           if a = 194 \<and> (b = 133 \<or> b = 160) then 2
           else (case r' of
             [] \<Rightarrow> 0
           | c # _ \<Rightarrow>
               if a = 225 \<and> b = 154 \<and> c = 128
                  \<or> a = 226 \<and> b = 128 \<and> (128 \<le> c \<and> c \<le> 138 \<or> c = 168 \<or> c = 169 \<or> c = 175)
                  \<or> a = 226 \<and> b = 129 \<and> c = 159
                  \<or> a = 227 \<and> b = 128 \<and> c = 128
               then 3 else 0)))"

section \<open>Pure third-party functions\<close>

record env =
  uuid_parse :: "string \<Rightarrow> uuid option"
  uuid_show :: "uuid \<Rightarrow> string"
  b64_encode :: "bytes \<Rightarrow> string"
  b64_decode :: "string \<Rightarrow> string + bytes"
  sha256 :: "bytes \<Rightarrow> bytes"
  hex_encode :: "bytes \<Rightarrow> string"
  rfc3339_parse :: "string \<Rightarrow> timestamp option"
  rfc3339_show :: "timestamp \<Rightarrow> string"

text \<open>
  The documented behaviour the proofs rely on: UUIDs, base64 and timestamps in the four-digit
  years read back what was printed; hex prints two digits a byte.
\<close>

definition printable_time :: "timestamp \<Rightarrow> bool" where
  "printable_time t \<longleftrightarrow> - 62135596800000000000 \<le> t \<and> t < 253402300800000000000"

definition env_laws :: "('x) env_scheme \<Rightarrow> bool" where
  "env_laws E \<longleftrightarrow>
     (\<forall>u. uuid_parse E (uuid_show E u) = Some u)
     \<and> (\<forall>b. b64_decode E (b64_encode E b) = Inr b)
     \<and> (\<forall>b. b \<noteq> [] \<longrightarrow> b64_encode E b \<noteq> [])
     \<and> (\<forall>t. printable_time t \<longrightarrow> rfc3339_parse E (rfc3339_show E t) = Some t)
     \<and> (\<forall>t. rfc3339_show E t \<noteq> [])
     \<and> (\<forall>u. uuid_show E u \<noteq> [])
     \<and> (\<forall>b. length (hex_encode E b) = 2 * length b)"

section \<open>The remote store, the clock and entropy\<close>

datatype op_error_kind = OpNotFound | OpPermissionDenied | OpRateLimited | OpOther

record op_error =
  op_kind :: op_error_kind
  op_text :: string

record 'w cloud_ops =
  op_read :: "string \<Rightarrow> ('w, op_error, bytes) io"
  op_write :: "string \<Rightarrow> bytes \<Rightarrow> ('w, op_error, unit) io"
  op_rename :: "string \<Rightarrow> string \<Rightarrow> ('w, op_error, unit) io"
  op_stat :: "string \<Rightarrow> ('w, op_error, unit) io"
  op_delete :: "string \<Rightarrow> ('w, op_error, unit) io"
  op_list :: "string \<Rightarrow> ('w, op_error, string list) io"
  clock_now :: "'w \<Rightarrow> timestamp \<times> 'w"
  new_uuid :: "'w \<Rightarrow> string \<times> 'w"
  os_random :: "nat \<Rightarrow> ('w, string, bytes) io"
  sleep_millis :: "nat \<Rightarrow> 'w \<Rightarrow> 'w"

text \<open>Reading the clock inside a fallible computation.\<close>

definition io_now :: "('w, 'x) cloud_ops_scheme \<Rightarrow> ('w, 'e, timestamp) io" where
  "io_now C w = (case clock_now C w of (t, w') \<Rightarrow> (Inr t, w'))"

definition io_uuid :: "('w, 'x) cloud_ops_scheme \<Rightarrow> ('w, 'e, string) io" where
  "io_uuid C w = (case new_uuid C w of (u, w') \<Rightarrow> (Inr u, w'))"

section \<open>An in-memory instance\<close>

text \<open>
  An executable world for concrete evaluations: one device alone with a file store (an association
  list), a clock and a counter that feeds \<open>new_uuid\<close>. The operator is the in-memory backend; a read
  takes a nanosecond.
\<close>

record mem_world =
  mw_files :: "(string \<times> bytes) list"
  mw_clock :: timestamp
  mw_seed :: nat

definition not_found :: op_error where
  "not_found = \<lparr> op_kind = OpNotFound, op_text = ''not found'' \<rparr>"

definition mem_read :: "string \<Rightarrow> (mem_world, op_error, bytes) io" where
  "mem_read p w = (let w' = w\<lparr>mw_clock := mw_clock w + 1\<rparr> in
     case map_of (mw_files w) p of None \<Rightarrow> (Inl not_found, w') | Some b \<Rightarrow> (Inr b, w'))"

definition mem_write :: "string \<Rightarrow> bytes \<Rightarrow> (mem_world, op_error, unit) io" where
  "mem_write p b w = (Inr (), w\<lparr>mw_files := AList.update p b (mw_files w)\<rparr>)"

definition mem_delete :: "string \<Rightarrow> (mem_world, op_error, unit) io" where
  "mem_delete p w = (Inr (), w\<lparr>mw_files := AList.delete p (mw_files w)\<rparr>)"

definition mem_rename :: "string \<Rightarrow> string \<Rightarrow> (mem_world, op_error, unit) io" where
  "mem_rename p q w = (case map_of (mw_files w) p of
     None \<Rightarrow> (Inl not_found, w)
   | Some b \<Rightarrow> (Inr (), w\<lparr>mw_files := AList.update q b (AList.delete p (mw_files w))\<rparr>))"

definition mem_list :: "string \<Rightarrow> (mem_world, op_error, string list) io" where
  "mem_list p w = (Inr (filter (\<lambda>q. prefix p q) (map fst (mw_files w))), w)"

definition mem_ops :: "mem_world cloud_ops" where
  "mem_ops = \<lparr> op_read = mem_read, op_write = mem_write, op_rename = mem_rename,
     op_stat = (\<lambda>p w. case mem_read p w of (r, w') \<Rightarrow> (try_res r (\<lambda>_. Inr ()), w')),
     op_delete = mem_delete, op_list = mem_list,
     clock_now = (\<lambda>w. (mw_clock w, w)),
     new_uuid = (\<lambda>w. (''u'' @ show_nat (mw_seed w), w\<lparr>mw_seed := mw_seed w + 1\<rparr>)),
     os_random = (\<lambda>n w. (Inr (replicate n (char_of (mw_seed w))), w\<lparr>mw_seed := mw_seed w + 1\<rparr>)),
     sleep_millis = (\<lambda>n w. w\<lparr>mw_clock := mw_clock w + int n * 1000000\<rparr>) \<rparr>"

lemmas mem_defs = Let_def mem_ops_def mem_read_def mem_write_def mem_delete_def mem_rename_def mem_list_def
  not_found_def io_now_def io_uuid_def

text \<open>Executable stand-ins for the pure functions; they satisfy \<open>env_laws\<close>.\<close>

fun parse_nat :: "string \<Rightarrow> nat \<Rightarrow> nat" where
  "parse_nat [] acc = acc"
| "parse_nat (c # s) acc = parse_nat s (acc * 10 + (of_char c - 48))"

lemma parse_nat_append: "parse_nat (s @ t) acc = parse_nat t (parse_nat s acc)"
  by (induction s arbitrary: acc) auto

lemma parse_show_nat: "parse_nat (show_nat n) 0 = n"
proof (induction n rule: show_nat.induct)
  case (1 n)
  show ?case
  proof (cases "n < 10")
    case True
    then show ?thesis by (subst show_nat.simps) (simp add: of_char_of)
  next
    case False
    have "n mod 10 < 10" by simp
    then have "parse_nat [char_of (48 + n mod 10)] (n div 10) = n div 10 * 10 + n mod 10"
      by (simp add: of_char_of)
    with False 1 show ?thesis
      by (subst show_nat.simps) (simp add: parse_nat_append)
  qed
qed

definition demo_env :: env where
  "demo_env = \<lparr>
     uuid_parse = (\<lambda>s. case s of [] \<Rightarrow> None | c # r \<Rightarrow> if c = CHR ''u'' then Some (of_nat (parse_nat r 0)) else None),
     uuid_show = (\<lambda>u. CHR ''u'' # show_word u),
     b64_encode = (\<lambda>b. CHR ''b'' # b),
     b64_decode = (\<lambda>s. case s of [] \<Rightarrow> Inl ''empty'' | c # r \<Rightarrow> if c = CHR ''b'' then Inr r else Inl ''bad base64''),
     sha256 = (\<lambda>b. take 32 (b @ replicate 32 (char_of (0::nat)))),
     hex_encode = (\<lambda>b. b @ b),
     rfc3339_parse = (\<lambda>s. case s of [] \<Rightarrow> None
        | c # r \<Rightarrow> if c = CHR ''t'' then Some (int (parse_nat r 0))
                   else if c = CHR ''-'' then Some (- int (parse_nat r 0)) else None),
     rfc3339_show = (\<lambda>t. if 0 \<le> t then CHR ''t'' # show_nat (nat t) else CHR ''-'' # show_nat (nat (- t))) \<rparr>"

lemma demo_env_laws: "env_laws demo_env"
  by (auto simp: env_laws_def demo_env_def parse_show_nat)

end
