(* ===== verification/Redaction.thy ===== *)
theory Redaction
  imports Env Error_Codes
begin

text \<open>
  \<open>security/redaction.rs\<close>: the redaction of credential-bearing query fields. The regular expression
  \<open>(?i)(refresh_token|access_token|client_secret|client_id|code|id_token)=([^&\s,}\]]+)\<close> is
  unfolded into its leftmost-first matcher: the alternatives in order, case-insensitively (the
  Unicode folds of \<open>s\<close> and \<open>k\<close> included), then \<open>=\<close>, then the longest non-empty run of value
  characters; \<open>replace_all\<close> scans on behind each match.
\<close>

definition REDACTED :: string where
  "REDACTED = ''[REDACTED]''"

definition secret_keys :: "string list" where
  "secret_keys = [''refresh_token'', ''access_token'', ''client_secret'', ''client_id'', ''code'', ''id_token'']"

text \<open>
  One character of a lower-case literal, matched case-insensitively; \<open>s\<close> and \<open>k\<close> also fold from
  U+017F and U+212A. Returns what follows.
\<close>

definition eat_ci :: "char \<Rightarrow> string \<Rightarrow> string option" where
  "eat_ci k s = (case s of
     [] \<Rightarrow> None
   | a # r \<Rightarrow>
       if to_lower a = k then Some r
       else (case r of
         [] \<Rightarrow> None
       | b # r2 \<Rightarrow>
           if k = CHR ''s'' \<and> byte_of a = 197 \<and> byte_of b = 191 then Some r2
           else (case r2 of
             [] \<Rightarrow> None
           | c # r3 \<Rightarrow>
               if k = CHR ''k'' \<and> byte_of a = 226 \<and> byte_of b = 132 \<and> byte_of c = 170
               then Some r3 else None)))"

fun strip_ci :: "string \<Rightarrow> string \<Rightarrow> string option" where
  "strip_ci [] s = Some s"
| "strip_ci (k # ks) s = (case eat_ci k s of None \<Rightarrow> None | Some r \<Rightarrow> strip_ci ks r)"

definition value_stop :: "string \<Rightarrow> bool" where
  "value_stop s \<longleftrightarrow> s = [] \<or> 0 < ws_len s
     \<or> hd s \<in> {CHR ''&'', CHR '','', CHR ''}'', CHR '']''}"

fun value_len :: "string \<Rightarrow> nat" where
  "value_len [] = 0"
| "value_len (c # s) = (if value_stop (c # s) then 0 else Suc (value_len s))"

definition match_key :: "string \<Rightarrow> string \<Rightarrow> (nat \<times> nat) option" where
  "match_key key s = (case strip_ci key s of
     Some (e # v) \<Rightarrow>
       if e = CHR ''='' \<and> 0 < value_len v then Some (length s - length (e # v), value_len v) else None
   | _ \<Rightarrow> None)"

fun match_first :: "string list \<Rightarrow> string \<Rightarrow> (nat \<times> nat) option" where
  "match_first [] s = None"
| "match_first (k # ks) s = (case match_key k s of Some m \<Rightarrow> Some m | None \<Rightarrow> match_first ks s)"

function redact_sensitive_values :: "string \<Rightarrow> string" where
  "redact_sensitive_values s =
     (case s of
        [] \<Rightarrow> []
      | c # r \<Rightarrow>
         (case match_first secret_keys s of
            None \<Rightarrow> c # redact_sensitive_values r
          | Some (n, v) \<Rightarrow> take n s @ ''='' @ REDACTED @ redact_sensitive_values (drop (n + 1 + v) s)))"
  by pat_completeness auto
termination
  by (relation "measure length") auto

declare redact_sensitive_values.simps [simp del]

section \<open>Redaction hides the value\<close>

definition no_eq :: "string \<Rightarrow> bool" where
  "no_eq k \<longleftrightarrow> CHR ''='' \<notin> set k"

lemma to_lower_eq_sign [simp]: "to_lower (CHR ''='') = CHR ''=''"
  by code_simp

text \<open>A literal without \<open>=\<close> is matched inside the part before the first \<open>=\<close>.\<close>

lemma eat_ci_append:
  "k \<noteq> CHR ''='' \<Longrightarrow> no_eq x \<Longrightarrow>
   eat_ci k (x @ CHR ''='' # v) = map_option (\<lambda>r. r @ CHR ''='' # v) (eat_ci k x)"
  by (auto simp: eat_ci_def no_eq_def split: list.splits)

lemma eat_ci_no_eq: "eat_ci k x = Some r \<Longrightarrow> no_eq x \<Longrightarrow> no_eq r"
  by (auto simp: eat_ci_def no_eq_def split: list.splits if_splits)

lemma strip_ci_append:
  "no_eq k \<Longrightarrow> no_eq x \<Longrightarrow>
   strip_ci k (x @ CHR ''='' # v) = map_option (\<lambda>r. r @ CHR ''='' # v) (strip_ci k x)"
proof (induction k arbitrary: x)
  case (Cons c k)
  then have "c \<noteq> CHR ''=''" "no_eq k"
    by (auto simp: no_eq_def)
  then show ?case
    using Cons eat_ci_no_eq[of c x] by (auto simp: eat_ci_append split: option.splits)
qed simp

lemma strip_ci_no_eq: "strip_ci k x = Some r \<Longrightarrow> no_eq x \<Longrightarrow> no_eq r"
  by (induction k arbitrary: x) (auto split: option.splits dest: eat_ci_no_eq)

lemma match_key_eq:
  assumes "no_eq k" "no_eq x"
  shows "match_key k (x @ CHR ''='' # v) =
    (if strip_ci k x = Some [] \<and> 0 < value_len v then Some (length x, value_len v) else None)"
proof (cases "strip_ci k x")
  case None
  then show ?thesis
    using assms by (simp add: match_key_def strip_ci_append)
next
  case (Some r)
  then show ?thesis
    using assms strip_ci_no_eq[of k x r] by (cases r) (auto simp: match_key_def strip_ci_append no_eq_def)
qed

lemma match_first_eq:
  assumes "list_all no_eq ks" "no_eq x"
  shows "match_first ks (x @ CHR ''='' # v) =
    (if (\<exists>k \<in> set ks. strip_ci k x = Some []) \<and> 0 < value_len v
     then Some (length x, value_len v) else None)"
  using assms by (induction ks) (auto simp: match_key_eq split: option.splits)

lemma secret_keys_no_eq: "list_all no_eq secret_keys"
  by (simp add: secret_keys_def no_eq_def)

text \<open>The run of value characters does not look past an \<open>=\<close>.\<close>

lemma ws_len_eq_sign: "ws_len (c # x @ CHR ''='' # y) = ws_len (c # x @ [CHR ''=''])"
  by (cases x rule: remdups_adj.cases) (auto simp: ws_len_def split: list.splits)

lemma value_stop_eq_sign:
  "value_stop (c # x @ CHR ''='' # y) = value_stop (c # x @ [CHR ''=''])"
  unfolding value_stop_def using ws_len_eq_sign[of c x y] by simp

lemma value_stop_eq: "\<not> value_stop (CHR ''='' # y)"
  by (auto simp: value_stop_def ws_len_def split: list.splits)

lemma value_len_eq:
  "value_len (x @ CHR ''='' # y) =
     (if value_len (x @ [CHR ''='']) = Suc (length x) then Suc (length x) + value_len y
      else value_len (x @ [CHR ''='']))"
proof (induction x)
  case Nil
  then show ?case by (simp add: value_stop_eq)
next
  case (Cons c x)
  then show ?case using value_stop_eq_sign[of c x y] by simp
qed

lemma value_len_bound: "value_len s \<le> length s"
  by (induction s) auto

lemma value_len_split:
  "value_len (b @ z) < length b \<or> value_len (b @ z) = length b + value_len z"
  by (induction b) auto

lemma redact_unmatched:
  "match_first secret_keys (c # r) = None \<Longrightarrow>
   redact_sensitive_values (c # r) = c # redact_sensitive_values r"
  by (subst redact_sensitive_values.simps) simp

lemma redact_matched:
  "match_first secret_keys s = Some (n, v) \<Longrightarrow> s \<noteq> [] \<Longrightarrow>
   redact_sensitive_values s = take n s @ ''='' @ REDACTED @ redact_sensitive_values (drop (n + 1 + v) s)"
  by (subst redact_sensitive_values.simps) (auto split: list.splits)

text \<open>A field \<open>key=\<close> whose key is one of the secret keys, up to case.\<close>

definition secret_field :: "string \<Rightarrow> bool" where
  "secret_field key \<longleftrightarrow> no_eq key \<and> (\<exists>k \<in> set secret_keys. strip_ci k key = Some [])
     \<and> value_len (key @ ''='') = Suc (length key)"

definition secret_value :: "string \<Rightarrow> string \<Rightarrow> bool" where
  "secret_value v post \<longleftrightarrow> v \<noteq> [] \<and> value_len (v @ post) = length v"

lemma redact_hides:
  assumes key: "secret_field key" and v: "secret_value v post" and v': "secret_value v' post"
  shows "redact_sensitive_values (pre @ key @ CHR ''='' # v @ post) =
         redact_sensitive_values (pre @ key @ CHR ''='' # v' @ post)"
  using v v'
proof (induction "length pre" arbitrary: pre rule: less_induct)
  case less
  let ?s = "\<lambda>v. pre @ key @ CHR ''='' # v @ post"
  have IH: "redact_sensitive_values (q @ key @ CHR ''='' # v @ post) =
      redact_sensitive_values (q @ key @ CHR ''='' # v' @ post)" if "length q < length pre" for q
    using less.hyps[OF that] less.prems by blast
  have step: ?case if "match_first secret_keys (?s v) = None" "match_first secret_keys (?s v') = None" "pre \<noteq> []"
    using that IH[of "tl pre"] by (cases pre) (simp_all add: redact_unmatched)
  show ?case
  proof (cases "no_eq pre")
    case True
    then have x: "no_eq (pre @ key)"
      using key by (auto simp: secret_field_def no_eq_def)
    have m: "match_first secret_keys (?s u) =
        (if \<exists>k \<in> set secret_keys. strip_ci k (pre @ key) = Some [] then Some (length (pre @ key), length u) else None)"
      if "secret_value u post" for u
      using match_first_eq[OF secret_keys_no_eq x, of "u @ post"] that by (simp add: secret_value_def)
    show ?thesis
    proof (cases "\<exists>k \<in> set secret_keys. strip_ci k (pre @ key) = Some []")
      case True
      have "redact_sensitive_values (?s u) = (pre @ key) @ ''='' @ REDACTED @ redact_sensitive_values post"
        if "secret_value u post" for u
        using redact_matched[of "?s u" "length (pre @ key)" "length u"] m[OF that] True by simp
      then show ?thesis
        using less.prems by simp
    next
      case False
      then have "pre \<noteq> []"
        using key by (auto simp: secret_field_def)
      then show ?thesis
        using step m less.prems False by presburger
    qed
  next
    case False
    then obtain a b where pre: "pre = a @ CHR ''='' # b" and a: "no_eq a"
      by (auto simp: no_eq_def dest: split_list_first)
    define L where "L = value_len ((b @ key) @ [CHR ''=''])"
    have L: "L < length b \<or> L = Suc (length (b @ key))"
      using value_len_split[of b "key @ [CHR ''='']"] key by (auto simp: L_def secret_field_def)
    have vl: "value_len ((b @ key) @ CHR ''='' # u @ post) =
        (if L < length b then L else Suc (length (b @ key)) + length u)" if "secret_value u post" for u
      using value_len_eq[of "b @ key" "u @ post"] L that by (auto simp: L_def secret_value_def)
    have m: "match_first secret_keys (?s u) =
        (if (\<exists>k \<in> set secret_keys. strip_ci k a = Some []) \<and> 0 < value_len ((b @ key) @ CHR ''='' # u @ post)
         then Some (length a, value_len ((b @ key) @ CHR ''='' # u @ post)) else None)" for u
      using match_first_eq[OF secret_keys_no_eq a, of "(b @ key) @ CHR ''='' # u @ post"] by (simp add: pre)
    show ?thesis
    proof (cases "(\<exists>k \<in> set secret_keys. strip_ci k a = Some []) \<and> (L < length b \<longrightarrow> 0 < L)")
      case True
      have "redact_sensitive_values (?s u) = a @ ''='' @ REDACTED @ redact_sensitive_values
          (if L < length b then drop L b @ key @ CHR ''='' # u @ post else post)"
        if "secret_value u post" for u
        using redact_matched[of "?s u" "length a" "value_len ((b @ key) @ CHR ''='' # u @ post)"]
          m[of u] vl[OF that] True L by (auto simp: pre)
      then show ?thesis
        using less.prems IH[of "drop L b"] by (simp add: pre)
    next
      case False
      then have "match_first secret_keys (?s u) = None" if "secret_value u post" for u
        using m[of u] vl[OF that] by auto
      then show ?thesis
        using step less.prems pre by simp
    qed
  qed
qed

text \<open>
  C39: redaction is independent of the secret: wherever a field of a secret key stands in a text,
  the redacted text is the same for any two values of the field. In particular no character of
  the value can be recovered from the message.
\<close>

theorem redaction_noninterference:
  assumes "secret_field key" "secret_value v post" "secret_value v' post"
  shows "redact_sensitive_values (pre @ key @ ''='' @ v @ post) =
         redact_sensitive_values (pre @ key @ ''='' @ v' @ post)"
  using redact_hides[OF assms, of pre] by simp

lemma demo_secret_field: "secret_field ''access_token''"
  by (simp add: secret_field_def no_eq_def secret_keys_def eat_ci_def to_lower_def is_upper_def
      value_stop_def ws_len_def)

theorem redaction_noninterference_witness:
  "redact_sensitive_values (''GET /?'' @ ''access_token'' @ ''='' @ ''abc'' @ ''&x=1'') =
   redact_sensitive_values (''GET /?'' @ ''access_token'' @ ''='' @ ''s3cr3t!'' @ ''&x=1'')"
  by (rule redaction_noninterference)
     (simp_all add: demo_secret_field secret_value_def value_stop_def ws_len_def)

end
