(* ===== verification/Types_Core.thy ===== *)
theory Types_Core
  imports Env
begin

text \<open>
  The data model of \<open>types/\<close>: credential types and payloads, stored records, health state, sync
  status, audit operations, the field limits, and the recovery words.
\<close>

section \<open>Characters and trimming\<close>

text \<open>\<open>str::chars\<close> on UTF-8 bytes: a lead byte with its continuation bytes; \<open>str::trim\<close>.\<close>

function chars_of :: "string \<Rightarrow> string list" where
  "chars_of [] = []"
| "chars_of (c # s) =
     (c # takeWhile is_continuation_byte s) # chars_of (dropWhile is_continuation_byte s)"
  by pat_completeness auto
termination
  by (relation "measure length") (auto intro: le_imp_less_Suc length_dropWhile_le)

definition is_whitespace :: "string \<Rightarrow> bool" where
  "is_whitespace ch \<longleftrightarrow> 0 < ws_len ch \<and> ws_len ch = length ch"

definition trim :: "string \<Rightarrow> string" where
  "trim s = concat (rev (dropWhile is_whitespace (rev (dropWhile is_whitespace (chars_of s)))))"

lemma concat_chars_of [simp]: "concat (chars_of s) = s"
  by (induction s rule: chars_of.induct) simp_all

section \<open>Credentials (types/credential.rs)\<close>

datatype data_error =
    InvalidCredentialType string
  | InvalidAuditOperation string
  | InvalidSyncStatus int
  | InvalidUuid string
  | InvalidTimestamp int
  | MissingField string
  | FieldTooLong (ftl_field: string) (ftl_max: nat) (ftl_actual: nat)
  | EmptyField string

definition show_int :: "int \<Rightarrow> string" where
  "show_int i = (if i < 0 then CHR ''-'' # show_nat (nat (- i)) else show_nat (nat i))"

definition data_error_to_string :: "data_error \<Rightarrow> string" where
  "data_error_to_string e = (case e of
     InvalidCredentialType s \<Rightarrow> ''Invalid credential type: '' @ s
   | InvalidAuditOperation s \<Rightarrow> ''Invalid audit operation: '' @ s
   | InvalidSyncStatus i \<Rightarrow> ''Invalid sync status value: '' @ show_int i
   | InvalidUuid s \<Rightarrow> ''Invalid UUID: '' @ s
   | InvalidTimestamp i \<Rightarrow> ''Invalid timestamp: '' @ show_int i
   | MissingField s \<Rightarrow> ''Missing field: '' @ s
   | FieldTooLong f m a \<Rightarrow>
       ''Field too long: '' @ f @ '', max '' @ show_nat m @ '', actual '' @ show_nat a
   | EmptyField s \<Rightarrow> ''Empty field: '' @ s)"

datatype credential_type = Login | Api | Ssh | SecureNote

definition cred_to_db_str :: "credential_type \<Rightarrow> string" where
  "cred_to_db_str c = (case c of
     Login \<Rightarrow> ''login'' | Api \<Rightarrow> ''api'' | Ssh \<Rightarrow> ''ssh'' | SecureNote \<Rightarrow> ''secure_note'')"

definition cred_from_db_str :: "string \<Rightarrow> data_error + credential_type" where
  "cred_from_db_str s =
     (if s = ''login'' then Inr Login
      else if s = ''api'' then Inr Api
      else if s = ''ssh'' then Inr Ssh
      else if s = ''secure_note'' then Inr SecureNote
      else Inl (InvalidCredentialType s))"

definition list_prefix :: "credential_type \<Rightarrow> string" where
  "list_prefix c = (case c of
     Login \<Rightarrow> ''[L]'' | Api \<Rightarrow> ''[A]'' | Ssh \<Rightarrow> ''[S]'' | SecureNote \<Rightarrow> ''[N]'')"

text \<open>\<open>EncryptedPayload\<close>; a \<open>SecureStr\<close> is the string it protects.\<close>

datatype encrypted_payload =
    LoginPayload (pl_name: string) (lp_username: string) (lp_password: string)
      (lp_url: "string option") (pl_notes: "string option")
  | ApiPayload (pl_name: string) (ap_app_id: string) (ap_secret_key: string)
      (ap_url: "string option") (pl_notes: "string option")
  | SshPayload (pl_name: string) (sp_public_key: string) (sp_private_key: "string option")
      (sp_passphrase: "string option") (pl_notes: "string option")
  | SecureNotePayload (pl_name: string) (pl_notes: "string option")

definition payload_credential_type :: "encrypted_payload \<Rightarrow> credential_type" where
  "payload_credential_type p = (case p of
     LoginPayload _ _ _ _ _ \<Rightarrow> Login | ApiPayload _ _ _ _ _ \<Rightarrow> Api
   | SshPayload _ _ _ _ _ \<Rightarrow> Ssh | SecureNotePayload _ _ \<Rightarrow> SecureNote)"

section \<open>Sync status (types/sync.rs)\<close>

datatype sync_status = StPending | StSynced | StConflict

definition sync_status_to_int :: "sync_status \<Rightarrow> int" where
  "sync_status_to_int s = (case s of StPending \<Rightarrow> 0 | StSynced \<Rightarrow> 1 | StConflict \<Rightarrow> 2)"

section \<open>Records and health (types/record.rs, types/health.rs)\<close>

record stored_record =
  sr_id :: uuid
  sr_credential_type :: credential_type
  sr_encrypted_data :: bytes
  sr_nonce :: bytes
  sr_dek_version :: u32
  sr_aad :: bytes
  sr_is_favorite :: bool
  sr_expires_at :: "timestamp option"
  sr_created_at :: timestamp
  sr_updated_at :: timestamp
  sr_updated_by :: string
  sr_version :: u64
  sr_deleted :: bool
  sr_deleted_at :: "timestamp option"
  sr_tags :: "string list"

record record_health_state =
  hs_record_id :: uuid
  hs_record_version :: u64
  hs_evaluated_at :: "timestamp option"
  hs_weak_password :: "bool option"
  hs_duplicate_group_size :: "u64 option"
  hs_compromised :: "bool option"
  hs_expired :: "bool option"

section \<open>Audit operations (types/audit.rs)\<close>

datatype audit_operation =
    RecordCreate
  | RecordUpdate
  | RecordDelete
  | RecordRestore
  | RecordDestroy
  | RecordViewPassword
  | RecordCopyPassword
  | RecordCopyField
  | VaultUnlock
  | VaultLock
  | VaultExport
  | VaultImport
  | MasterPasswordChange
  | TrashEmpty
  | SyncConflictResolved
  | SyncBatchConflictsResolved
  | DekRotated
  | DekRotationFailed
  | SshSign

definition audit_to_db_str :: "audit_operation \<Rightarrow> string" where
  "audit_to_db_str a = (case a of
     RecordCreate \<Rightarrow> ''record.create''
   | RecordUpdate \<Rightarrow> ''record.update''
   | RecordDelete \<Rightarrow> ''record.delete''
   | RecordRestore \<Rightarrow> ''record.restore''
   | RecordDestroy \<Rightarrow> ''record.destroy''
   | RecordViewPassword \<Rightarrow> ''record.view_password''
   | RecordCopyPassword \<Rightarrow> ''record.copy_password''
   | RecordCopyField \<Rightarrow> ''record.copy_field''
   | VaultUnlock \<Rightarrow> ''vault.unlock''
   | VaultLock \<Rightarrow> ''vault.lock''
   | VaultExport \<Rightarrow> ''vault.export''
   | VaultImport \<Rightarrow> ''vault.import''
   | MasterPasswordChange \<Rightarrow> ''master_password.change''
   | TrashEmpty \<Rightarrow> ''trash.empty''
   | SyncConflictResolved \<Rightarrow> ''sync.conflict_resolved''
   | SyncBatchConflictsResolved \<Rightarrow> ''sync.batch_conflicts_resolved''
   | DekRotated \<Rightarrow> ''dek.rotated''
   | DekRotationFailed \<Rightarrow> ''dek.rotation_failed''
   | SshSign \<Rightarrow> ''ssh.sign'')"

definition audit_from_db_str :: "string \<Rightarrow> data_error + audit_operation" where
  "audit_from_db_str s =
     (if s = ''record.create'' then Inr RecordCreate
      else if s = ''record.update'' then Inr RecordUpdate
      else if s = ''record.delete'' then Inr RecordDelete
      else if s = ''record.restore'' then Inr RecordRestore
      else if s = ''record.destroy'' then Inr RecordDestroy
      else if s = ''record.view_password'' then Inr RecordViewPassword
      else if s = ''record.copy_password'' then Inr RecordCopyPassword
      else if s = ''record.copy_field'' then Inr RecordCopyField
      else if s = ''vault.unlock'' then Inr VaultUnlock
      else if s = ''vault.lock'' then Inr VaultLock
      else if s = ''vault.export'' then Inr VaultExport
      else if s = ''vault.import'' then Inr VaultImport
      else if s = ''master_password.change'' then Inr MasterPasswordChange
      else if s = ''trash.empty'' then Inr TrashEmpty
      else if s = ''sync.conflict_resolved'' then Inr SyncConflictResolved
      else if s = ''sync.batch_conflicts_resolved'' then Inr SyncBatchConflictsResolved
      else if s = ''dek.rotated'' then Inr DekRotated
      else if s = ''dek.rotation_failed'' then Inr DekRotationFailed
      else if s = ''ssh.sign'' then Inr SshSign
      else Inl (InvalidAuditOperation s))"

section \<open>Field limits (types/record_limits.rs)\<close>

definition MAX_RECORD_NAME_CHARS :: nat where "MAX_RECORD_NAME_CHARS = 120"
definition MAX_LOGIN_USERNAME_CHARS :: nat where "MAX_LOGIN_USERNAME_CHARS = 320"
definition MAX_LOGIN_PASSWORD_CHARS :: nat where "MAX_LOGIN_PASSWORD_CHARS = 1024"
definition MAX_URL_CHARS :: nat where "MAX_URL_CHARS = 2048"
definition MAX_API_APP_ID_CHARS :: nat where "MAX_API_APP_ID_CHARS = 512"
definition MAX_API_SECRET_CHARS :: nat where "MAX_API_SECRET_CHARS = 8192"
definition MAX_SSH_PUBLIC_KEY_CHARS :: nat where "MAX_SSH_PUBLIC_KEY_CHARS = 16384"
definition MAX_SSH_PRIVATE_KEY_CHARS :: nat where "MAX_SSH_PRIVATE_KEY_CHARS = 65536"
definition MAX_SSH_PASSPHRASE_CHARS :: nat where "MAX_SSH_PASSPHRASE_CHARS = 1024"
definition MAX_NOTES_CHARS :: nat where "MAX_NOTES_CHARS = 16384"
definition MAX_SECURE_NOTE_CHARS :: nat where "MAX_SECURE_NOTE_CHARS = 65536"
definition MAX_TAG_CHARS :: nat where "MAX_TAG_CHARS = 50"
definition MAX_TAGS_PER_RECORD :: nat where "MAX_TAGS_PER_RECORD = 10"

lemmas limit_defs = MAX_RECORD_NAME_CHARS_def MAX_LOGIN_USERNAME_CHARS_def
  MAX_LOGIN_PASSWORD_CHARS_def MAX_URL_CHARS_def MAX_API_APP_ID_CHARS_def MAX_API_SECRET_CHARS_def
  MAX_SSH_PUBLIC_KEY_CHARS_def MAX_SSH_PRIVATE_KEY_CHARS_def MAX_SSH_PASSPHRASE_CHARS_def
  MAX_NOTES_CHARS_def MAX_SECURE_NOTE_CHARS_def MAX_TAG_CHARS_def MAX_TAGS_PER_RECORD_def

definition validate_len :: "string \<Rightarrow> string \<Rightarrow> nat \<Rightarrow> data_error + unit" where
  "validate_len field val mx =
     (let actual = char_count val
      in if actual > mx then Inl (FieldTooLong field mx actual) else Inr ())"

definition validate_optional_len :: "string \<Rightarrow> string option \<Rightarrow> nat \<Rightarrow> data_error + unit" where
  "validate_optional_len field val mx =
     (case val of None \<Rightarrow> Inr () | Some v \<Rightarrow> try_res (validate_len field v mx) (\<lambda>_. Inr ()))"

definition validate_payload :: "encrypted_payload \<Rightarrow> data_error + unit" where
  "validate_payload payload = (case payload of
     LoginPayload name username password url notes \<Rightarrow>
       try_res (validate_len ''name'' name MAX_RECORD_NAME_CHARS) (\<lambda>_.
       try_res (validate_len ''username'' username MAX_LOGIN_USERNAME_CHARS) (\<lambda>_.
       try_res (validate_len ''password'' password MAX_LOGIN_PASSWORD_CHARS) (\<lambda>_.
       try_res (validate_optional_len ''url'' url MAX_URL_CHARS) (\<lambda>_.
       validate_optional_len ''notes'' notes MAX_NOTES_CHARS))))
   | ApiPayload name app_id secret_key url notes \<Rightarrow>
       try_res (validate_len ''name'' name MAX_RECORD_NAME_CHARS) (\<lambda>_.
       try_res (validate_len ''app_id'' app_id MAX_API_APP_ID_CHARS) (\<lambda>_.
       try_res (validate_len ''secret_key'' secret_key MAX_API_SECRET_CHARS) (\<lambda>_.
       try_res (validate_optional_len ''url'' url MAX_URL_CHARS) (\<lambda>_.
       validate_optional_len ''notes'' notes MAX_NOTES_CHARS))))
   | SshPayload name public_key private_key passphrase notes \<Rightarrow>
       try_res (validate_len ''name'' name MAX_RECORD_NAME_CHARS) (\<lambda>_.
       try_res (validate_len ''public_key'' public_key MAX_SSH_PUBLIC_KEY_CHARS) (\<lambda>_.
       try_res (case private_key of None \<Rightarrow> Inr ()
                | Some k \<Rightarrow> validate_len ''private_key'' k MAX_SSH_PRIVATE_KEY_CHARS) (\<lambda>_.
       try_res (case passphrase of None \<Rightarrow> Inr ()
                | Some k \<Rightarrow> validate_len ''passphrase'' k MAX_SSH_PASSPHRASE_CHARS) (\<lambda>_.
       validate_optional_len ''notes'' notes MAX_NOTES_CHARS))))
   | SecureNotePayload name notes \<Rightarrow>
       try_res (validate_len ''name'' name MAX_RECORD_NAME_CHARS) (\<lambda>_.
       validate_optional_len ''notes'' notes MAX_SECURE_NOTE_CHARS))"

fun validate_each_tag :: "string list \<Rightarrow> data_error + unit" where
  "validate_each_tag [] = Inr ()"
| "validate_each_tag (tag # tags) =
     (let trimmed = trim tag
      in if trimmed = [] then Inl (EmptyField ''tag'')
         else try_res (validate_len ''tag'' trimmed MAX_TAG_CHARS) (\<lambda>_. validate_each_tag tags))"

definition validate_tags :: "string list \<Rightarrow> data_error + unit" where
  "validate_tags tags =
     (if length tags > MAX_TAGS_PER_RECORD
      then Inl (FieldTooLong ''tags'' MAX_TAGS_PER_RECORD (length tags))
      else validate_each_tag tags)"

section \<open>Recovery words (types/recovery_words.rs)\<close>

datatype recovery_words_error =
    InvalidWordCount (rw_expected: nat) (rw_actual: nat)
  | EmptyWord nat

definition WORD_COUNT :: nat where "WORD_COUNT = 24"

fun position_empty :: "nat \<Rightarrow> string list \<Rightarrow> nat option" where
  "position_empty i [] = None"
| "position_empty i (w # ws) = (if w = [] then Some i else position_empty (i + 1) ws)"

definition recovery_words_new :: "string list \<Rightarrow> recovery_words_error + string list" where
  "recovery_words_new words =
     (if length words \<noteq> WORD_COUNT then Inl (InvalidWordCount WORD_COUNT (length words))
      else case position_empty 0 words of
             Some i \<Rightarrow> Inl (EmptyWord i)
           | None \<Rightarrow> Inr words)"

fun join_words :: "string list \<Rightarrow> string" where
  "join_words [] = []"
| "join_words [w] = w"
| "join_words (w # ws) = w @ '' '' @ join_words ws"

section \<open>Codecs\<close>

definition ok_option :: "'e + 'a \<Rightarrow> 'a option" where
  "ok_option r = (case r of Inl _ \<Rightarrow> None | Inr a \<Rightarrow> Some a)"

lemma ok_option_eq [simp]: "ok_option r = Some a \<longleftrightarrow> r = Inr a"
  by (cases r) (auto simp: ok_option_def)

interpretation cred: tight_codec cred_to_db_str "\<lambda>s. ok_option (cred_from_db_str s)"
proof unfold_locales
  show "ok_option (cred_from_db_str (cred_to_db_str a)) = Some a" for a
    by (cases a) (simp_all add: cred_to_db_str_def cred_from_db_str_def)
  show "cred_to_db_str a = s" if "ok_option (cred_from_db_str s) = Some a" for a s
    using that by (auto simp: cred_to_db_str_def cred_from_db_str_def split: if_splits)
qed

interpretation audit_op: tight_codec audit_to_db_str "\<lambda>s. ok_option (audit_from_db_str s)"
proof unfold_locales
  show "ok_option (audit_from_db_str (audit_to_db_str a)) = Some a" for a
    by (cases a) (simp_all add: audit_to_db_str_def audit_from_db_str_def)
  show "audit_to_db_str a = s" if "ok_option (audit_from_db_str s) = Some a" for a s
    using that by (auto simp: audit_to_db_str_def audit_from_db_str_def split: if_splits)
qed

text \<open>
  The database strings of credential types and audit operations round-trip, are pairwise
  different, and the parsers accept nothing else; a rejected string is returned in the error.
\<close>

theorem db_strings_roundtrip:
  "cred_from_db_str (cred_to_db_str c) = Inr c
   \<and> audit_from_db_str (audit_to_db_str a) = Inr a
   \<and> inj cred_to_db_str \<and> inj audit_to_db_str
   \<and> (cred_from_db_str s = Inl (InvalidCredentialType s) \<longleftrightarrow> s \<notin> range cred_to_db_str)
   \<and> (audit_from_db_str s = Inl (InvalidAuditOperation s) \<longleftrightarrow> s \<notin> range audit_to_db_str)"
proof -
  have "(cred_from_db_str s = Inl (InvalidCredentialType s)) \<longleftrightarrow> ok_option (cred_from_db_str s) = None"
    by (auto simp: cred_from_db_str_def ok_option_def)
  moreover have "(audit_from_db_str s = Inl (InvalidAuditOperation s)) \<longleftrightarrow> ok_option (audit_from_db_str s) = None"
    by (simp add: audit_from_db_str_def ok_option_def)
  ultimately show ?thesis
    using cred.dec_enc[of c] audit_op.dec_enc[of a] cred.enc_inj audit_op.enc_inj
      cred.dec_None_iff[of s] audit_op.dec_None_iff[of s] by simp
qed

section \<open>Field limits are exact\<close>

lemma validate_len_ok [simp]: "validate_len f v mx = Inr u \<longleftrightarrow> char_count v \<le> mx"
  by (auto simp: validate_len_def Let_def)

lemma validate_optional_len_ok [simp]:
  "validate_optional_len f v mx = Inr u \<longleftrightarrow> (\<forall>x. v = Some x \<longrightarrow> char_count x \<le> mx)"
  by (cases v) (auto simp: validate_optional_len_def monad_simps)

definition fits :: "string option \<Rightarrow> nat \<Rightarrow> bool" where
  "fits v mx \<longleftrightarrow> (case v of None \<Rightarrow> True | Some x \<Rightarrow> char_count x \<le> mx)"

lemma fits_iff: "fits v mx \<longleftrightarrow> (\<forall>x. v = Some x \<longrightarrow> char_count x \<le> mx)"
  by (cases v) (simp_all add: fits_def)

text \<open>
  A payload passes validation exactly when every field is within the limit of its credential
  type, counted in characters.
\<close>

theorem validate_payload_exact:
  "validate_payload p = Inr () \<longleftrightarrow> char_count (pl_name p) \<le> 120 \<and>
     (case p of
        LoginPayload _ user pw url notes \<Rightarrow>
          char_count user \<le> 320 \<and> char_count pw \<le> 1024 \<and> fits url 2048 \<and> fits notes 16384
      | ApiPayload _ app key url notes \<Rightarrow>
          char_count app \<le> 512 \<and> char_count key \<le> 8192 \<and> fits url 2048 \<and> fits notes 16384
      | SshPayload _ pub priv pass notes \<Rightarrow>
          char_count pub \<le> 16384 \<and> fits priv 65536 \<and> fits pass 1024 \<and> fits notes 16384
      | SecureNotePayload _ notes \<Rightarrow> fits notes 65536)"
  by (cases p)
     (auto simp: validate_payload_def monad_simps fits_iff limit_defs split: option.splits)

lemma validate_each_tag_ok:
  "validate_each_tag tags = Inr () \<longleftrightarrow>
     (\<forall>t \<in> set tags. trim t \<noteq> [] \<and> char_count (trim t) \<le> MAX_TAG_CHARS)"
  by (induction tags) (auto simp: Let_def monad_simps)

lemma position_empty_None: "position_empty i ws = None \<longleftrightarrow> [] \<notin> set ws"
  by (induction ws arbitrary: i) auto

end
