(* ===== verification/Cloud_Metadata.thy ===== *)
theory Cloud_Metadata
  imports Sync_Error Env
begin

text \<open>
  \<open>cloud/metadata.rs\<close>, \<open>cloud/schema.rs\<close> and the checksum and AAD checks of
  \<open>cloud/validation.rs\<close>: the shared metadata file of a synced vault. JSON encoding is serde's; it is
  the pair \<open>ser_metadata\<close>/\<open>de_metadata\<close> of the environment record.
\<close>

definition FORMAT_VERSION :: u32 where "FORMAT_VERSION = 1"
definition SCHEMA_VERSION :: string where "SCHEMA_VERSION = ''open-keyring-v1''"
definition METADATA_FILENAME :: string where "METADATA_FILENAME = ''.metadata.json''"
definition RECORDS_DIR :: string where "RECORDS_DIR = ''records''"
definition LOCK_FILENAME :: string where "LOCK_FILENAME = ''.sync.lock''"

record device_info =
  di_device_id :: string
  di_platform :: string
  di_device_name :: string
  di_last_seen :: string
  di_sync_count :: u64

record record_version_info =
  rv_version :: u64
  rv_updated_at :: string
  rv_updated_by :: string
  rv_checksum :: string
  rv_private_metadata_checksum :: "string option"
  rv_deleted :: bool

record cloud_metadata =
  cm_version :: u32
  cm_schema_version :: string
  cm_current_dek_version :: u32
  cm_min_supported_dek_version :: u32
  cm_vault_identity_token :: string
  cm_metadata_version :: u64
  cm_created_at :: string
  cm_updated_at :: string
  cm_devices :: "device_info list"
  cm_records :: "(string \<times> record_version_info) list"

text \<open>\<open>CloudMetadata::new\<close>; \<open>now\<close> is \<open>Utc::now()\<close>.\<close>

definition metadata_new :: "('x) env_scheme \<Rightarrow> timestamp \<Rightarrow> string \<Rightarrow> cloud_metadata" where
  "metadata_new E now token = (let t = rfc3339_show E now in
     \<lparr> cm_version = FORMAT_VERSION, cm_schema_version = SCHEMA_VERSION,
       cm_current_dek_version = 1, cm_min_supported_dek_version = 1,
       cm_vault_identity_token = token, cm_metadata_version = 1,
       cm_created_at = t, cm_updated_at = t, cm_devices = [], cm_records = [] \<rparr>)"

definition metadata_validate :: "('x) env_scheme \<Rightarrow> cloud_metadata \<Rightarrow> sync_error + unit" where
  "metadata_validate E m =
     (if cm_version m \<noteq> FORMAT_VERSION then
        Inl (DeserializationFailed (''version mismatch: expected '' @ show_word FORMAT_VERSION
             @ '', got '' @ show_word (cm_version m)))
      else if cm_schema_version m \<noteq> SCHEMA_VERSION then
        Inl (DeserializationFailed (''schema_version mismatch: expected '' @ SCHEMA_VERSION
             @ '', got '' @ cm_schema_version m))
      else if cm_current_dek_version m < 1 then
        Inl (DeserializationFailed ''current_dek_version must be >= 1'')
      else if cm_min_supported_dek_version m < 1 then
        Inl (DeserializationFailed ''min_supported_dek_version must be >= 1'')
      else if cm_current_dek_version m < cm_min_supported_dek_version m then
        Inl (DeserializationFailed (''current_dek_version ('' @ show_word (cm_current_dek_version m)
             @ '') must be >= min_supported_dek_version ('' @ show_word (cm_min_supported_dek_version m) @ '')''))
      else if cm_metadata_version m < 1 then
        Inl (DeserializationFailed ''metadata_version must be >= 1'')
      else if cm_vault_identity_token m = [] then
        Inl (DeserializationFailed ''vault_identity_token must be non-empty'')
      else if rfc3339_parse E (cm_created_at m) = None then
        Inl (DeserializationFailed (''invalid created_at ISO 8601: '' @ cm_created_at m))
      else if rfc3339_parse E (cm_updated_at m) = None then
        Inl (DeserializationFailed (''invalid updated_at ISO 8601: '' @ cm_updated_at m))
      else Inr ())"

definition increment_version :: "('x) env_scheme \<Rightarrow> timestamp \<Rightarrow> cloud_metadata \<Rightarrow> cloud_metadata" where
  "increment_version E now m =
     m\<lparr>cm_metadata_version := cm_metadata_version m + 1, cm_updated_at := rfc3339_show E now\<rparr>"

definition has_remote_changes :: "cloud_metadata \<Rightarrow> u64 \<Rightarrow> bool" where
  "has_remote_changes m local_version \<longleftrightarrow> cm_metadata_version m > local_version"

definition add_device :: "device_info \<Rightarrow> cloud_metadata \<Rightarrow> cloud_metadata" where
  "add_device d m =
     (if list_ex (\<lambda>d'. di_device_id d' = di_device_id d) (cm_devices m) then m
      else m\<lparr>cm_devices := cm_devices m @ [d]\<rparr>)"

text \<open>\<open>iter_mut().find(..)\<close> followed by an assignment: the first match is replaced.\<close>

fun replace_first :: "('a \<Rightarrow> bool) \<Rightarrow> 'a \<Rightarrow> 'a list \<Rightarrow> 'a list" where
  "replace_first P y [] = []"
| "replace_first P y (x # xs) = (if P x then y # xs else x # replace_first P y xs)"

definition update_device :: "device_info \<Rightarrow> cloud_metadata \<Rightarrow> cloud_metadata" where
  "update_device d m =
     m\<lparr>cm_devices := replace_first (\<lambda>d'. di_device_id d' = di_device_id d) d (cm_devices m)\<rparr>"

definition upsert_record :: "string \<Rightarrow> record_version_info \<Rightarrow> cloud_metadata \<Rightarrow> cloud_metadata" where
  "upsert_record rid info m = m\<lparr>cm_records := AList.update rid info (cm_records m)\<rparr>"

text \<open>The JSON codec of the metadata file, \<open>Inl\<close> with serde's message.\<close>

record meta_env = env +
  ser_metadata :: "cloud_metadata \<Rightarrow> string + string"
  de_metadata :: "string \<Rightarrow> string + cloud_metadata"

definition serialize_metadata :: "('x) meta_env_scheme \<Rightarrow> cloud_metadata \<Rightarrow> sync_error + string" where
  "serialize_metadata E m = map_err SerializationFailed (ser_metadata E m)"

definition deserialize_metadata :: "('x) meta_env_scheme \<Rightarrow> string \<Rightarrow> sync_error + cloud_metadata" where
  "deserialize_metadata E json = map_err DeserializationFailed (de_metadata E json)"

text \<open>What the code relies on of serde: reading back what was written.\<close>

definition meta_json_laws :: "('x) meta_env_scheme \<Rightarrow> bool" where
  "meta_json_laws E \<longleftrightarrow> (\<forall>m. \<exists>s. ser_metadata E m = Inr s \<and> de_metadata E s = Inr m
     \<and> utf8_check 0 s = Inr ())"

section \<open>Checksums and AAD (cloud/validation.rs)\<close>

record aad_fields =
  aad_record_id :: string
  aad_dek_version :: u32

definition compute_checksum :: "('x) env_scheme \<Rightarrow> string \<Rightarrow> sync_error + string" where
  "compute_checksum E encrypted_data_base64 =
     try_res (map_err (\<lambda>e. DeserializationFailed (''failed to decode encrypted_data as base64: '' @ e))
                (b64_decode E encrypted_data_base64))
       (\<lambda>decoded. Inr (hex_encode E (sha256 E decoded)))"

definition validate_aad :: "string \<Rightarrow> u32 \<Rightarrow> aad_fields \<Rightarrow> sync_error + unit" where
  "validate_aad rid dek aad =
     (if aad_record_id aad \<noteq> rid then Inl (AadInconsistent ''record_id'' rid (aad_record_id aad))
      else if aad_dek_version aad \<noteq> dek then
        Inl (AadInconsistent ''dek_version'' (show_word dek) (show_word (aad_dek_version aad)))
      else Inr ())"

definition validate_uuid :: "('x) env_scheme \<Rightarrow> string \<Rightarrow> bool" where
  "validate_uuid E s \<longleftrightarrow> uuid_parse E s \<noteq> None"

section \<open>The well-formedness invariant of the metadata file\<close>

definition metadata_ok :: "('x) env_scheme \<Rightarrow> cloud_metadata \<Rightarrow> bool" where
  "metadata_ok E m \<longleftrightarrow> cm_version m = 1 \<and> cm_schema_version m = ''open-keyring-v1''
     \<and> 1 \<le> cm_min_supported_dek_version m \<and> cm_min_supported_dek_version m \<le> cm_current_dek_version m
     \<and> 1 \<le> cm_metadata_version m \<and> cm_vault_identity_token m \<noteq> []
     \<and> rfc3339_parse E (cm_created_at m) \<noteq> None \<and> rfc3339_parse E (cm_updated_at m) \<noteq> None"

lemma word_one_le_iff: "(1 :: 'a::len word) \<le> w \<longleftrightarrow> w \<noteq> 0"
  by (metis linorder_not_le word_less_1)

lemma metadata_validate_ok: "metadata_validate E m = Inr () \<longleftrightarrow> metadata_ok E m"
proof -
  have "1 \<le> cm_min_supported_dek_version m \<Longrightarrow> cm_min_supported_dek_version m \<le> cm_current_dek_version m
        \<Longrightarrow> 1 \<le> cm_current_dek_version m"
    by (rule order_trans)
  then show ?thesis
    by (auto simp: metadata_validate_def metadata_ok_def FORMAT_VERSION_def SCHEMA_VERSION_def not_less word_one_le_iff)
qed

lemma metadata_new_ok [inv_intros]:
  "env_laws E \<Longrightarrow> printable_time now \<Longrightarrow> token \<noteq> [] \<Longrightarrow> metadata_ok E (metadata_new E now token)"
  by (simp add: metadata_ok_def metadata_new_def Let_def env_laws_def FORMAT_VERSION_def SCHEMA_VERSION_def)

lemma increment_version_ok [inv_intros]:
  assumes "env_laws E" "printable_time now" "metadata_ok E m" "cm_metadata_version m \<noteq> - 1"
  shows "metadata_ok E (increment_version E now m)"
proof -
  have "cm_metadata_version m + 1 \<noteq> 0"
    using assms(4) by (metis add_eq_0_iff2)
  then show ?thesis
    using assms by (simp add: metadata_ok_def increment_version_def env_laws_def word_one_le_iff)
qed

lemma add_device_ok [inv_intros]: "metadata_ok E m \<Longrightarrow> metadata_ok E (add_device d m)"
  by (simp add: metadata_ok_def add_device_def)

lemma update_device_ok [inv_intros]: "metadata_ok E m \<Longrightarrow> metadata_ok E (update_device d m)"
  by (simp add: metadata_ok_def update_device_def)

lemma upsert_record_ok [inv_intros]: "metadata_ok E m \<Longrightarrow> metadata_ok E (upsert_record rid info m)"
  by (simp add: metadata_ok_def upsert_record_def)

text \<open>The edits of the metadata file, for sequences of them.\<close>

datatype metadata_edit =
    AddDevice device_info
  | UpdateDevice device_info
  | UpsertRecord string record_version_info

definition apply_edit :: "metadata_edit \<Rightarrow> cloud_metadata \<Rightarrow> cloud_metadata" where
  "apply_edit e m = (case e of
     AddDevice d \<Rightarrow> add_device d m | UpdateDevice d \<Rightarrow> update_device d m
   | UpsertRecord rid info \<Rightarrow> upsert_record rid info m)"

definition device_ids_distinct :: "cloud_metadata \<Rightarrow> bool" where
  "device_ids_distinct m \<longleftrightarrow> distinct (map di_device_id (cm_devices m)) \<and> distinct (map fst (cm_records m))"

lemma replace_first_ids:
  "map di_device_id (replace_first (\<lambda>d'. di_device_id d' = di_device_id d) d ds) = map di_device_id ds"
  by (induction ds) auto

lemma apply_edit_distinct: "device_ids_distinct m \<Longrightarrow> device_ids_distinct (apply_edit e m)"
  by (cases e)
     (auto simp: device_ids_distinct_def apply_edit_def add_device_def update_device_def
        upsert_record_def replace_first_ids distinct_update list_ex_iff)

lemma apply_edit_ok: "metadata_ok E m \<Longrightarrow> metadata_ok E (apply_edit e m)"
  by (cases e) (auto simp: apply_edit_def intro: inv_intros)

text \<open>Every edit keeps the dek versions, the token and the counter, and the records of other ids.\<close>

lemma apply_edit_frame:
  "cm_metadata_version (apply_edit e m) = cm_metadata_version m"
  "cm_vault_identity_token (apply_edit e m) = cm_vault_identity_token m"
  by (cases e; simp add: apply_edit_def add_device_def update_device_def upsert_record_def)+

interpretation meta: invariant_system
  "\<lambda>m. \<exists>E now token. env_laws E \<and> printable_time now \<and> token \<noteq> [] \<and> m = metadata_new (E :: env) now token"
  apply_edit
  "\<lambda>m. device_ids_distinct m \<and> (\<exists>E :: env. env_laws E \<and> metadata_ok E m)"
proof unfold_locales
  fix m
  assume "\<exists>E now token. env_laws E \<and> printable_time now \<and> token \<noteq> [] \<and> m = metadata_new (E :: env) now token"
  then obtain E now token where *: "env_laws E" "printable_time now" "token \<noteq> []"
    "m = metadata_new (E :: env) now token" by blast
  then show "device_ids_distinct m \<and> (\<exists>E :: env. env_laws E \<and> metadata_ok E m)"
    using metadata_new_ok[OF *(1-3)] by (auto simp: device_ids_distinct_def metadata_new_def Let_def)
next
  show "device_ids_distinct (apply_edit e m) \<and> (\<exists>E :: env. env_laws E \<and> metadata_ok E (apply_edit e m))"
    if "device_ids_distinct m \<and> (\<exists>E :: env. env_laws E \<and> metadata_ok E m)" for e m
    using that apply_edit_distinct apply_edit_ok by blast
qed

text \<open>
  metadata created for a non-empty token and edited by any sequence of device and record
  edits passes its own validation, lists every device once and every record id once, and keeps
  its identity token; the edits alone never move the version counter.
\<close>

theorem metadata_edits_validate:
  fixes E :: env
  assumes "env_laws E" "printable_time now" "token \<noteq> []"
  shows "let m = fold apply_edit es (metadata_new E now token)
         in metadata_validate E m = Inr () \<and> device_ids_distinct m
            \<and> cm_vault_identity_token m = token \<and> cm_metadata_version m = 1"
proof -
  have ok: "metadata_ok E (fold apply_edit es m)" if "metadata_ok E m" for m
    using that by (induction es arbitrary: m) (auto intro: apply_edit_ok)
  have frame: "cm_metadata_version (fold apply_edit es m) = cm_metadata_version m
      \<and> cm_vault_identity_token (fold apply_edit es m) = cm_vault_identity_token m" for m
    by (induction es arbitrary: m) (auto simp: apply_edit_frame)
  have "device_ids_distinct (fold apply_edit es (metadata_new E now token))"
    using meta.run_inv[of "metadata_new E now token" es] assms by blast
  then show ?thesis
    using ok[OF metadata_new_ok[OF assms]] frame[of "metadata_new E now token"]
    by (simp add: Let_def metadata_validate_ok metadata_new_def)
qed

theorem metadata_edits_validate_witness:
  "let d = \<lparr> di_device_id = ''d'', di_platform = ''linux'', di_device_name = ''n'',
             di_last_seen = ''t0'', di_sync_count = 0 \<rparr>;
       m = fold apply_edit [AddDevice d, AddDevice d] (metadata_new demo_env 5 ''tok'')
   in metadata_validate demo_env m = Inr () \<and> length (cm_devices m) = 1 \<and> device_ids_distinct m"
  using metadata_edits_validate[OF demo_env_laws, of 5 "''tok''"
      "[AddDevice \<lparr> di_device_id = ''d'', di_platform = ''linux'', di_device_name = ''n'',
             di_last_seen = ''t0'', di_sync_count = 0 \<rparr>,
        AddDevice \<lparr> di_device_id = ''d'', di_platform = ''linux'', di_device_name = ''n'',
             di_last_seen = ''t0'', di_sync_count = 0 \<rparr>]"]
  by (simp add: printable_time_def Let_def apply_edit_def add_device_def metadata_new_def)

end
