(* ===== verification/Cloud_Record.thy ===== *)
theory Cloud_Record
  imports Cloud_Metadata Types_Core
begin

text \<open>
  \<open>cloud/record.rs\<close>: the record file of a synced vault, its validation, its checksums, the health
  metadata conversion, and the conflict payload kept for a record in conflict. JSON encoding is
  again serde's, as parameters.
\<close>

definition XCHACHA20_POLY1305_NONCE_LEN :: nat where "XCHACHA20_POLY1305_NONCE_LEN = 24"

record record_health_metadata =
  hm_evaluated_at :: "string option"
  hm_weak_password :: "bool option"
  hm_duplicate_group_size :: "u32 option"
  hm_compromised :: "bool option"
  hm_expired :: "bool option"

text \<open>\<open>v as u32\<close> truncates the 64-bit \<open>usize\<close>.\<close>

definition health_from_state :: "('x) env_scheme \<Rightarrow> record_health_state \<Rightarrow> record_health_metadata" where
  "health_from_state E st =
     \<lparr> hm_evaluated_at = map_option (rfc3339_show E) (hs_evaluated_at st),
       hm_weak_password = hs_weak_password st,
       hm_duplicate_group_size = map_option ucast (hs_duplicate_group_size st),
       hm_compromised = hs_compromised st,
       hm_expired = hs_expired st \<rparr>"

definition health_to_state ::
  "('x) env_scheme \<Rightarrow> uuid \<Rightarrow> u64 \<Rightarrow> record_health_metadata \<Rightarrow> record_health_state" where
  "health_to_state E rid ver h =
     \<lparr> hs_record_id = rid, hs_record_version = ver,
       hs_evaluated_at = (case hm_evaluated_at h of None \<Rightarrow> None | Some s \<Rightarrow> rfc3339_parse E s),
       hs_weak_password = hm_weak_password h,
       hs_duplicate_group_size = map_option ucast (hm_duplicate_group_size h),
       hs_compromised = hm_compromised h,
       hs_expired = hm_expired h \<rparr>"

record encrypted_record_metadata =
  em_encrypted_data :: string
  em_nonce :: string
  em_dek_version :: u32

record cloud_private_metadata =
  pm_name :: string
  pm_tags :: "string list"
  pm_credential_type :: "credential_type option"
  pm_is_favorite :: "bool option"
  pm_expires_at :: "string option"
  pm_updated_by :: "string option"
  pm_health :: "record_health_metadata option"

record record_metadata =
  rm_name :: string
  rm_tags :: "string list"
  rm_updated_at :: string
  rm_credential_type :: "credential_type option"
  rm_is_favorite :: "bool option"
  rm_expires_at :: "string option"
  rm_updated_by :: "string option"
  rm_health :: "record_health_metadata option"
  rm_encrypted_metadata :: "encrypted_record_metadata option"

record cloud_record =
  cr_id :: string
  cr_version :: u64
  cr_encrypted_data :: string
  cr_nonce :: string
  cr_dek_version :: u32
  cr_aad :: aad_fields
  cr_metadata :: record_metadata
  cr_deleted :: "bool option"
  cr_deleted_at :: "string option"

definition cloud_record_validate :: "('x) env_scheme \<Rightarrow> cloud_record \<Rightarrow> sync_error + unit" where
  "cloud_record_validate E r =
     (if cr_id r = [] then Inl (DeserializationFailed ''id must be non-empty'')
      else if \<not> validate_uuid E (cr_id r) then
        Inl (DeserializationFailed (''id must be a valid UUID: '' @ cr_id r))
      else if cr_version r < 1 then
        Inl (DeserializationFailed (''version must be >= 1, got '' @ show_word (cr_version r)))
      else if cr_encrypted_data r = [] then
        Inl (DeserializationFailed ''encrypted_data must be non-empty'')
      else if cr_nonce r = [] then Inl (DeserializationFailed ''nonce must be non-empty'')
      else
        try_res (map_err (\<lambda>e. DeserializationFailed (''nonce must be valid base64: '' @ e))
                   (b64_decode E (cr_nonce r)))
          (\<lambda>nonce.
             if length nonce \<noteq> XCHACHA20_POLY1305_NONCE_LEN then
               Inl (DeserializationFailed (''nonce must decode to '' @ show_nat XCHACHA20_POLY1305_NONCE_LEN
                    @ '' bytes, got '' @ show_nat (length nonce)))
             else if cr_dek_version r < 1 then
               Inl (DeserializationFailed (''dek_version must be >= 1, got '' @ show_word (cr_dek_version r)))
             else if aad_record_id (cr_aad r) \<noteq> cr_id r then
               Inl (AadInconsistent ''record_id'' (cr_id r) (aad_record_id (cr_aad r)))
             else if aad_dek_version (cr_aad r) \<noteq> cr_dek_version r then
               Inl (AadInconsistent ''dek_version'' (show_word (cr_dek_version r))
                      (show_word (aad_dek_version (cr_aad r))))
             else if rm_name (cr_metadata r) = [] then
               Inl (DeserializationFailed ''metadata.name must be non-empty'')
             else if rm_updated_at (cr_metadata r) = [] then
               Inl (DeserializationFailed ''metadata.updated_at must be non-empty'')
             else Inr ()))"

definition record_checksum :: "('x) env_scheme \<Rightarrow> cloud_record \<Rightarrow> sync_error + string" where
  "record_checksum E r = compute_checksum E (cr_encrypted_data r)"

text \<open>serde's encodings of the record file, of its parts and of the conflict payload.\<close>

record conflict_payload =
  cp_cloud_record :: cloud_record
  cp_checksum :: string

record cloud_env = meta_env +
  ser_record :: "cloud_record \<Rightarrow> string + string"
  de_record :: "string \<Rightarrow> string + cloud_record"
  ser_enc_metadata :: "encrypted_record_metadata \<Rightarrow> string + string"
  ser_aad :: "aad_fields \<Rightarrow> string + string"
  ser_conflict :: "conflict_payload \<Rightarrow> string + bytes"
  de_conflict :: "bytes \<Rightarrow> string + conflict_payload"

definition cloud_json_laws :: "('x) cloud_env_scheme \<Rightarrow> bool" where
  "cloud_json_laws E \<longleftrightarrow> meta_json_laws E
     \<and> (\<forall>r. \<exists>s. ser_record E r = Inr s \<and> de_record E s = Inr r)
     \<and> (\<forall>x. \<exists>s. ser_enc_metadata E x = Inr s)
     \<and> (\<forall>a. \<exists>s. ser_aad E a = Inr s)
     \<and> (\<forall>p. \<exists>s. ser_conflict E p = Inr s \<and> de_conflict E s = Inr p)"

definition private_metadata_checksum :: "('x) cloud_env_scheme \<Rightarrow> cloud_record \<Rightarrow> sync_error + string option" where
  "private_metadata_checksum E r = (case rm_encrypted_metadata (cr_metadata r) of
     None \<Rightarrow> Inr None
   | Some em \<Rightarrow>
       try_res (map_err (\<lambda>e. SerializationFailed (''failed to serialize encrypted private metadata: '' @ e))
                  (ser_enc_metadata E em))
         (\<lambda>b. Inr (Some (hex_encode E (sha256 E b)))))"

text \<open>\<open>Uuid::parse_str(..).unwrap_or_default()\<close> is the nil UUID on failure.\<close>

definition to_health_state :: "('x) env_scheme \<Rightarrow> cloud_record \<Rightarrow> record_health_state option" where
  "to_health_state E r =
     map_option (health_to_state E (case uuid_parse E (cr_id r) of None \<Rightarrow> 0 | Some u \<Rightarrow> u) (cr_version r))
       (rm_health (cr_metadata r))"

definition has_encrypted_private_metadata :: "cloud_record \<Rightarrow> bool" where
  "has_encrypted_private_metadata r \<longleftrightarrow> rm_encrypted_metadata (cr_metadata r) \<noteq> None"

definition build_cloud_record ::
  "('x) env_scheme \<Rightarrow> stored_record \<Rightarrow> string \<Rightarrow> string \<Rightarrow> string \<Rightarrow> aad_fields
   \<Rightarrow> record_health_state option \<Rightarrow> cloud_record" where
  "build_cloud_record E r name data_b64 nonce_b64 aad health =
     \<lparr> cr_id = uuid_show E (sr_id r), cr_version = sr_version r, cr_encrypted_data = data_b64,
       cr_nonce = nonce_b64, cr_dek_version = sr_dek_version r, cr_aad = aad,
       cr_metadata =
         \<lparr> rm_name = name, rm_tags = sr_tags r, rm_updated_at = rfc3339_show E (sr_updated_at r),
           rm_credential_type = Some (sr_credential_type r), rm_is_favorite = Some (sr_is_favorite r),
           rm_expires_at = map_option (rfc3339_show E) (sr_expires_at r),
           rm_updated_by = Some (sr_updated_by r),
           rm_health = map_option (health_from_state E) health,
           rm_encrypted_metadata = None \<rparr>,
       cr_deleted = (if sr_deleted r then Some True else None),
       cr_deleted_at = map_option (rfc3339_show E) (sr_deleted_at r) \<rparr>"

section \<open>Conflict payloads\<close>

definition conflict_serialize :: "('x) cloud_env_scheme \<Rightarrow> conflict_payload \<Rightarrow> sync_error + bytes" where
  "conflict_serialize E p = map_err SerializationFailed (ser_conflict E p)"

definition conflict_deserialize :: "('x) cloud_env_scheme \<Rightarrow> bytes \<Rightarrow> sync_error + conflict_payload" where
  "conflict_deserialize E b = map_err DeserializationFailed (de_conflict E b)"

definition conflict_validate :: "('x) env_scheme \<Rightarrow> conflict_payload \<Rightarrow> sync_error + unit" where
  "conflict_validate E p =
     try_res (cloud_record_validate E (cp_cloud_record p)) (\<lambda>_.
     try_res (record_checksum E (cp_cloud_record p)) (\<lambda>computed.
       if computed \<noteq> cp_checksum p
       then Inl (ChecksumMismatch (cp_checksum p) computed (cr_id (cp_cloud_record p)))
       else Inr ()))"

section \<open>What validation means\<close>

definition record_wf :: "('x) env_scheme \<Rightarrow> cloud_record \<Rightarrow> bool" where
  "record_wf E r \<longleftrightarrow> cr_id r \<noteq> [] \<and> uuid_parse E (cr_id r) \<noteq> None \<and> 1 \<le> cr_version r
     \<and> cr_encrypted_data r \<noteq> [] \<and> cr_nonce r \<noteq> []
     \<and> (\<exists>n. b64_decode E (cr_nonce r) = Inr n \<and> length n = 24)
     \<and> 1 \<le> cr_dek_version r
     \<and> cr_aad r = \<lparr> aad_record_id = cr_id r, aad_dek_version = cr_dek_version r \<rparr>
     \<and> rm_name (cr_metadata r) \<noteq> [] \<and> rm_updated_at (cr_metadata r) \<noteq> []"

lemma aad_fields_eq_iff:
  "(a :: aad_fields) = \<lparr> aad_record_id = i, aad_dek_version = d \<rparr> \<longleftrightarrow> aad_record_id a = i \<and> aad_dek_version a = d"
  by (cases a) auto

lemma cloud_record_validate_ok: "cloud_record_validate E r = Inr () \<longleftrightarrow> record_wf E r"
  by (auto simp: cloud_record_validate_def record_wf_def monad_simps validate_uuid_def
      XCHACHA20_POLY1305_NONCE_LEN_def aad_fields_eq_iff not_less word_one_le_iff
      split: if_splits)

lemma record_wf_aad: "record_wf E r \<Longrightarrow> validate_aad (cr_id r) (cr_dek_version r) (cr_aad r) = Inr ()"
  by (auto simp: record_wf_def validate_aad_def)

text \<open>
  The upload-side bridge produces valid records: for a stored record with a 24-byte nonce,
  version and key version at least 1, a non-empty name and non-empty ciphertext, and the AAD of
  the record, the built cloud record passes \<open>validate\<close>, and its checksum is the digest of the
  ciphertext, whatever health state is attached.
\<close>

theorem built_record_validates:
  assumes "env_laws E" "length (sr_nonce r) = 24" "1 \<le> sr_version r" "1 \<le> sr_dek_version r"
    "sr_encrypted_data r \<noteq> []" "name \<noteq> []"
  shows "let c = build_cloud_record E r name (b64_encode E (sr_encrypted_data r)) (b64_encode E (sr_nonce r))
    \<lparr> aad_record_id = uuid_show E (sr_id r), aad_dek_version = sr_dek_version r \<rparr> health
    in cloud_record_validate E c = Inr ()
    \<and> record_checksum E c = Inr (hex_encode E (sha256 E (sr_encrypted_data r)))
    \<and> uuid_parse E (cr_id c) = Some (sr_id r)"
proof -
  let ?c = "build_cloud_record E r name (b64_encode E (sr_encrypted_data r)) (b64_encode E (sr_nonce r))
    \<lparr> aad_record_id = uuid_show E (sr_id r), aad_dek_version = sr_dek_version r \<rparr> health"
  have "sr_nonce r \<noteq> []" using assms(2) by auto
  then have "record_wf E ?c"
    using assms by (auto simp: record_wf_def build_cloud_record_def env_laws_def)
  then have "cloud_record_validate E ?c = Inr ()"
    by (simp add: cloud_record_validate_ok)
  then show ?thesis
    using assms(1)
    by (simp add: Let_def record_checksum_def compute_checksum_def build_cloud_record_def env_laws_def)
qed

definition demo_stored :: stored_record where
  "demo_stored = \<lparr> sr_id = 7, sr_credential_type = Login, sr_encrypted_data = ''cipher'',
     sr_nonce = replicate 24 (CHR ''n''), sr_dek_version = 1, sr_aad = ''aad'', sr_is_favorite = False,
     sr_expires_at = None, sr_created_at = 1, sr_updated_at = 2, sr_updated_by = ''dev'', sr_version = 3,
     sr_deleted = False, sr_deleted_at = None, sr_tags = [''work''] \<rparr>"

theorem built_record_validates_witness:
  "cloud_record_validate demo_env (build_cloud_record demo_env demo_stored ''mail'' (b64_encode demo_env ''cipher'')
      (b64_encode demo_env (replicate 24 (CHR ''n''))) \<lparr> aad_record_id = uuid_show demo_env 7, aad_dek_version = 1 \<rparr> None)
    = Inr ()"
  using built_record_validates[OF demo_env_laws, of demo_stored "''mail''" None]
  by (simp add: demo_stored_def Let_def)

text \<open>
  Health metadata survives a cloud round trip: converting a record's health state to its cloud
  form and back gives the state of the same record and version, provided its evaluation time is a
  printable timestamp and its duplicate group fits 32 bits.
\<close>

theorem health_metadata_roundtrip:
  assumes "env_laws E"
    and "\<And>t. hs_evaluated_at st = Some t \<Longrightarrow> printable_time t"
    and "\<And>n. hs_duplicate_group_size st = Some n \<Longrightarrow> unat n < 2 ^ 32"
  shows "health_to_state E (hs_record_id st) (hs_record_version st) (health_from_state E st) = st"
proof -
  have "ucast (ucast n :: u32) = n" if "hs_duplicate_group_size st = Some n" for n :: u64
  proof -
    have "unat (ucast (ucast n :: u32) :: u64) = unat n"
      using assms(3)[OF that] by (simp add: unsigned_ucast_eq unsigned_take_bit_eq take_bit_nat_eq_self)
    then show ?thesis by (simp only: word_unat_eq_iff)
  qed
  then have "map_option ucast (map_option ucast (hs_duplicate_group_size st) :: u32 option)
      = hs_duplicate_group_size st"
    by (cases "hs_duplicate_group_size st") simp_all
  moreover have "(case map_option (rfc3339_show E) (hs_evaluated_at st) of None \<Rightarrow> None
      | Some s \<Rightarrow> rfc3339_parse E s) = hs_evaluated_at st"
    using assms(1,2) by (cases "hs_evaluated_at st") (simp_all add: env_laws_def)
  ultimately show ?thesis
    by (simp add: health_to_state_def health_from_state_def)
qed

theorem health_metadata_roundtrip_witness:
  "let st = \<lparr> hs_record_id = 7, hs_record_version = 3, hs_evaluated_at = Some 42, hs_weak_password = Some True,
             hs_duplicate_group_size = Some 2, hs_compromised = None, hs_expired = Some False \<rparr>
   in health_to_state demo_env 7 3 (health_from_state demo_env st) = st"
  using health_metadata_roundtrip[OF demo_env_laws, of
    "\<lparr> hs_record_id = 7, hs_record_version = 3, hs_evaluated_at = Some 42, hs_weak_password = Some True,
       hs_duplicate_group_size = Some 2, hs_compromised = None, hs_expired = Some False \<rparr>"]
  by (simp add: printable_time_def Let_def)

end
