(* ===== verification/Demo_Env.thy ===== *)
theory Demo_Env
  imports Cloud_Record "HOL-Library.Countable"
begin

text \<open>
  A concrete environment for the witnesses: the pure functions of \<open>demo_env\<close>, and for JSON a codec
  that numbers the values of a countable type and writes the number in unary. It satisfies the
  laws the properties assume of serde, so their hypotheses can hold.
\<close>

section \<open>Countable data\<close>

instance credential_type :: countable
  by countable_datatype

instance device_info_ext :: (countable) countable
proof
  show "\<exists>f :: 'a device_info_scheme \<Rightarrow> nat. inj f"
    by (rule exI[of _ "\<lambda>r. to_nat (di_device_id r, di_platform r, di_device_name r, di_last_seen r, di_sync_count r, device_info.more r)"])
       (auto intro!: injI device_info.equality)
qed

instance record_version_info_ext :: (countable) countable
proof
  show "\<exists>f :: 'a record_version_info_scheme \<Rightarrow> nat. inj f"
    by (rule exI[of _ "\<lambda>r. to_nat (rv_version r, rv_updated_at r, rv_updated_by r, rv_checksum r, rv_private_metadata_checksum r, rv_deleted r, record_version_info.more r)"])
       (auto intro!: injI record_version_info.equality)
qed

instance cloud_metadata_ext :: (countable) countable
proof
  show "\<exists>f :: 'a cloud_metadata_scheme \<Rightarrow> nat. inj f"
    by (rule exI[of _ "\<lambda>r. to_nat (cm_version r, cm_schema_version r, cm_current_dek_version r, cm_min_supported_dek_version r, cm_vault_identity_token r, cm_metadata_version r, cm_created_at r, cm_updated_at r, cm_devices r, cm_records r, cloud_metadata.more r)"])
       (auto intro!: injI cloud_metadata.equality)
qed

instance aad_fields_ext :: (countable) countable
proof
  show "\<exists>f :: 'a aad_fields_scheme \<Rightarrow> nat. inj f"
    by (rule exI[of _ "\<lambda>r. to_nat (aad_record_id r, aad_dek_version r, aad_fields.more r)"])
       (auto intro!: injI aad_fields.equality)
qed

instance record_health_metadata_ext :: (countable) countable
proof
  show "\<exists>f :: 'a record_health_metadata_scheme \<Rightarrow> nat. inj f"
    by (rule exI[of _ "\<lambda>r. to_nat (hm_evaluated_at r, hm_weak_password r, hm_duplicate_group_size r, hm_compromised r, hm_expired r, record_health_metadata.more r)"])
       (auto intro!: injI record_health_metadata.equality)
qed

instance encrypted_record_metadata_ext :: (countable) countable
proof
  show "\<exists>f :: 'a encrypted_record_metadata_scheme \<Rightarrow> nat. inj f"
    by (rule exI[of _ "\<lambda>r. to_nat (em_encrypted_data r, em_nonce r, em_dek_version r, encrypted_record_metadata.more r)"])
       (auto intro!: injI encrypted_record_metadata.equality)
qed

instance record_metadata_ext :: (countable) countable
proof
  show "\<exists>f :: 'a record_metadata_scheme \<Rightarrow> nat. inj f"
    by (rule exI[of _ "\<lambda>r. to_nat (rm_name r, rm_tags r, rm_updated_at r, rm_credential_type r, rm_is_favorite r, rm_expires_at r, rm_updated_by r, rm_health r, rm_encrypted_metadata r, record_metadata.more r)"])
       (auto intro!: injI record_metadata.equality)
qed

instance cloud_record_ext :: (countable) countable
proof
  show "\<exists>f :: 'a cloud_record_scheme \<Rightarrow> nat. inj f"
    by (rule exI[of _ "\<lambda>r. to_nat (cr_id r, cr_version r, cr_encrypted_data r, cr_nonce r, cr_dek_version r, cr_aad r, cr_metadata r, cr_deleted r, cr_deleted_at r, cloud_record.more r)"])
       (auto intro!: injI cloud_record.equality)
qed

instance conflict_payload_ext :: (countable) countable
proof
  show "\<exists>f :: 'a conflict_payload_scheme \<Rightarrow> nat. inj f"
    by (rule exI[of _ "\<lambda>r. to_nat (cp_cloud_record r, cp_checksum r, conflict_payload.more r)"])
       (auto intro!: injI conflict_payload.equality)
qed

section \<open>The codec\<close>

definition unary_enc :: "'a::countable \<Rightarrow> string" where
  "unary_enc x = replicate (to_nat x) (CHR ''a'')"

definition unary_dec :: "string \<Rightarrow> 'a::countable" where
  "unary_dec s = from_nat (length s)"

lemma unary_dec_enc [simp]: "unary_dec (unary_enc x) = x"
  by (simp add: unary_dec_def unary_enc_def)

lemma unary_enc_utf8 [simp]: "utf8_check i (unary_enc x) = Inr ()"
  by (rule utf8_check_ascii) (simp add: unary_enc_def list_all_iff)

interpretation unary: codec unary_enc "\<lambda>s. Some (unary_dec s)"
  by unfold_locales simp

definition demo_cloud_env :: cloud_env where
  "demo_cloud_env = \<lparr>
     uuid_parse = uuid_parse demo_env, uuid_show = uuid_show demo_env,
     b64_encode = b64_encode demo_env, b64_decode = b64_decode demo_env,
     sha256 = sha256 demo_env, hex_encode = hex_encode demo_env,
     rfc3339_parse = rfc3339_parse demo_env, rfc3339_show = rfc3339_show demo_env,
     ser_metadata = (\<lambda>m. Inr (unary_enc m)), de_metadata = (\<lambda>s. Inr (unary_dec s)),
     ser_record = (\<lambda>r. Inr (unary_enc r)), de_record = (\<lambda>s. Inr (unary_dec s)),
     ser_enc_metadata = (\<lambda>x. Inr (unary_enc x)), ser_aad = (\<lambda>a. Inr (unary_enc a)),
     ser_conflict = (\<lambda>p. Inr (unary_enc p)), de_conflict = (\<lambda>s. Inr (unary_dec s)) \<rparr>"

lemma demo_cloud_env_laws: "env_laws demo_cloud_env"
  using demo_env_laws by (simp add: env_laws_def demo_cloud_env_def)

lemma demo_cloud_json_laws: "cloud_json_laws demo_cloud_env"
  by (simp add: cloud_json_laws_def meta_json_laws_def demo_cloud_env_def)

lemma demo_meta_json_laws: "meta_json_laws demo_cloud_env"
  using demo_cloud_json_laws by (simp add: cloud_json_laws_def)

end
