(* ===== verification/Cloud_Storage.thy ===== *)
theory Cloud_Storage
  imports Demo_Env Redaction "HOL-Library.Multiset"
begin

text \<open>
  \<open>cloud/storage.rs\<close>: the storage layer over the OpenDAL operator. Each method is a computation on
  the world that follows the calls of the source one by one; errors of the operator go through
  \<open>map_opendal_error\<close>. The locale \<open>quiet_cloud\<close> states what the operator promises when no other
  client interferes: it behaves as a map from paths to contents. The storage methods' contracts
  are proved in it, and the in-memory operator interprets it.
\<close>

definition map_opendal_error :: "string \<Rightarrow> string \<Rightarrow> op_error \<Rightarrow> sync_error" where
  "map_opendal_error provider ctx err = (case op_kind err of
     OpNotFound \<Rightarrow> RecordNotFound ctx
   | OpPermissionDenied \<Rightarrow> PermissionDenied ctx
   | OpRateLimited \<Rightarrow> NetworkTimeout ctx
   | OpOther \<Rightarrow> ProviderError provider (redact_sensitive_values (ctx @ '': '' @ op_text err)))"

definition prefers_direct_overwrite :: "string \<Rightarrow> bool" where
  "prefers_direct_overwrite provider \<longleftrightarrow> provider = ''google_drive'' \<or> provider = ''gdrive''"

text \<open>
  The tail shared by \<open>upload_metadata\<close> and \<open>upload_record\<close>: a direct write for providers without
  rename, otherwise a write to a fresh temporary path and a rename.
\<close>

definition write_file ::
  "('w, 'y) cloud_ops_scheme \<Rightarrow> string \<Rightarrow> string \<Rightarrow> bytes \<Rightarrow> ('w, sync_error, unit) io" where
  "write_file C provider final_path b =
     (if prefers_direct_overwrite provider then
        io_map_err (map_opendal_error provider final_path) (op_write C final_path b)
      else
        io_bind (io_uuid C) (\<lambda>u. let temp_path = final_path @ ''.tmp.'' @ u in
        io_bind (io_map_err (map_opendal_error provider temp_path) (op_write C temp_path b)) (\<lambda>_.
        io_map_err (map_opendal_error provider final_path) (op_rename C temp_path final_path))))"

definition upload_metadata ::
  "('x) meta_env_scheme \<Rightarrow> ('w, 'y) cloud_ops_scheme \<Rightarrow> string \<Rightarrow> cloud_metadata \<Rightarrow> ('w, sync_error, unit) io" where
  "upload_metadata E C provider m =
     io_bind (io_lift (map_err (\<lambda>e. SerializationFailed (sync_error_to_string e)) (serialize_metadata E m)))
       (\<lambda>json. write_file C provider METADATA_FILENAME json)"

text \<open>\<open>Err(RecordNotFound)\<close> of a mapped operator call becomes \<open>Ok(None)\<close>.\<close>

definition not_found_as :: "'a \<Rightarrow> sync_error + 'a \<Rightarrow> sync_error + 'a" where
  "not_found_as d r = (case r of Inl (RecordNotFound _) \<Rightarrow> Inr d | _ \<Rightarrow> r)"

definition read_file ::
  "('w, 'y) cloud_ops_scheme \<Rightarrow> string \<Rightarrow> string \<Rightarrow> ('w, sync_error, bytes option) io" where
  "read_file C provider path w =
     (case io_map_err (map_opendal_error provider path) (op_read C path) w of
        (r, w') \<Rightarrow> (not_found_as None (try_res r (\<lambda>b. Inr (Some b))), w'))"

definition download_metadata ::
  "('x) meta_env_scheme \<Rightarrow> ('w, 'y) cloud_ops_scheme \<Rightarrow> string \<Rightarrow> ('w, sync_error, cloud_metadata option) io" where
  "download_metadata E C provider =
     io_bind (read_file C provider METADATA_FILENAME) (\<lambda>f. case f of
        None \<Rightarrow> io_return None
      | Some b \<Rightarrow> io_lift (
          try_res (map_err (\<lambda>e. DeserializationFailed (''invalid UTF-8: '' @ e)) (from_utf8 b)) (\<lambda>json.
          try_res (map_err (\<lambda>e. DeserializationFailed (sync_error_to_string e)) (deserialize_metadata E json)) (\<lambda>m.
          try_res (metadata_validate E m) (\<lambda>_. Inr (Some m))))))"

definition metadata_exists ::
  "('w, 'y) cloud_ops_scheme \<Rightarrow> string \<Rightarrow> ('w, sync_error, bool) io" where
  "metadata_exists C provider w =
     (case io_map_err (map_opendal_error provider METADATA_FILENAME) (op_stat C METADATA_FILENAME) w of
        (r, w') \<Rightarrow> (not_found_as False (try_res r (\<lambda>_. Inr True)), w'))"

definition get_metadata_version ::
  "('x) meta_env_scheme \<Rightarrow> ('w, 'y) cloud_ops_scheme \<Rightarrow> string \<Rightarrow> ('w, sync_error, u64 option) io" where
  "get_metadata_version E C provider =
     io_bind (download_metadata E C provider) (\<lambda>m. io_return (map_option cm_metadata_version m))"

definition push_metadata_atomic ::
  "('x) meta_env_scheme \<Rightarrow> ('w, 'y) cloud_ops_scheme \<Rightarrow> string \<Rightarrow> cloud_metadata \<Rightarrow> u64 \<Rightarrow> ('w, sync_error, unit) io" where
  "push_metadata_atomic E C provider m expected_version =
     io_bind (download_metadata E C provider) (\<lambda>remote. case remote of
        Some rm \<Rightarrow>
          if cm_metadata_version rm \<noteq> expected_version then
            io_lift (Inl (LockAcquireFailed (''metadata version mismatch: expected '' @ show_word expected_version
              @ '', found '' @ show_word (cm_metadata_version rm))))
          else upload_metadata E C provider m
      | None \<Rightarrow>
          if expected_version \<noteq> 0 then io_lift (Inl (RecordNotFound METADATA_FILENAME))
          else upload_metadata E C provider m)"

definition record_path :: "string \<Rightarrow> string" where
  "record_path rid = RECORDS_DIR @ ''/'' @ rid @ ''.json''"

definition upload_record ::
  "('x) cloud_env_scheme \<Rightarrow> ('w, 'y) cloud_ops_scheme \<Rightarrow> string \<Rightarrow> string \<Rightarrow> cloud_record \<Rightarrow> ('w, sync_error, unit) io" where
  "upload_record E C provider rid r =
     io_bind (io_lift (map_err SerializationFailed (ser_record E r)))
       (\<lambda>json. write_file C provider (record_path rid) json)"

definition parse_record :: "('x) cloud_env_scheme \<Rightarrow> string \<Rightarrow> bytes \<Rightarrow> sync_error + cloud_record" where
  "parse_record E rid b = map_err (\<lambda>e. DeserializationFailed (''record '' @ rid @ '': '' @ e)) (de_record E b)"

definition download_record ::
  "('x) cloud_env_scheme \<Rightarrow> ('w, 'y) cloud_ops_scheme \<Rightarrow> string \<Rightarrow> string \<Rightarrow> ('w, sync_error, cloud_record option) io" where
  "download_record E C provider rid =
     io_bind (read_file C provider (record_path rid)) (\<lambda>f. case f of
        None \<Rightarrow> io_return None
      | Some b \<Rightarrow> io_lift (try_res (parse_record E rid b) (\<lambda>r. Inr (Some r))))"

text \<open>\<open>trim_end_matches('/')\<close> and \<open>extract_record_id\<close>.\<close>

definition trim_end_slash :: "string \<Rightarrow> string" where
  "trim_end_slash s = rev (dropWhile (\<lambda>c. c = CHR ''/'') (rev s))"

definition extract_record_id :: "string \<Rightarrow> string option" where
  "extract_record_id path =
     (let path = trim_end_slash path; pre = RECORDS_DIR @ ''/''
      in if \<not> prefix pre path then None
         else let filename = drop (length pre) path
              in if \<not> suffix ''.json'' filename then None
                 else let rid = take (length filename - 5) filename
                      in if rid = [] then None else Some rid)"

definition list_records ::
  "('w, 'y) cloud_ops_scheme \<Rightarrow> string \<Rightarrow> ('w, sync_error, string list) io" where
  "list_records C provider =
     (let records_path = RECORDS_DIR @ ''/'' in
      io_bind (io_map_err (map_opendal_error provider records_path) (op_list C records_path))
        (\<lambda>entries. io_return (List.map_filter extract_record_id entries)))"

text \<open>
  \<open>batch_download_records\<close>: one task per id. The tasks run and finish in some order, the argument
  \<open>schedule\<close> (a rearrangement of the ids); the results are then put back in the order of the
  request. A task cannot panic, so \<open>join_next\<close> yields every task's own result.
\<close>

definition download_task ::
  "('x) cloud_env_scheme \<Rightarrow> ('w, 'y) cloud_ops_scheme \<Rightarrow> string \<Rightarrow> string \<Rightarrow> 'w
   \<Rightarrow> (string \<times> (sync_error + cloud_record option)) \<times> 'w" where
  "download_task E C provider rid w =
     (case read_file C provider (record_path rid) w of
        (Inl e, w') \<Rightarrow> ((rid, Inl e), w')
      | (Inr None, w') \<Rightarrow> ((rid, Inr None), w')
      | (Inr (Some b), w') \<Rightarrow> ((rid, try_res (parse_record E rid b) (\<lambda>r. Inr (Some r))), w'))"

fun run_tasks ::
  "('x) cloud_env_scheme \<Rightarrow> ('w, 'y) cloud_ops_scheme \<Rightarrow> string \<Rightarrow> string list \<Rightarrow> 'w
   \<Rightarrow> (string \<times> (sync_error + cloud_record option)) list \<times> 'w" where
  "run_tasks E C provider [] w = ([], w)"
| "run_tasks E C provider (rid # rids) w =
     (let (x, w1) = download_task E C provider rid w; (xs, w2) = run_tasks E C provider rids w1
      in (x # xs, w2))"

fun take_result :: "string \<Rightarrow> (string \<times> 'r) list \<Rightarrow> ((string \<times> 'r) \<times> (string \<times> 'r) list) option" where
  "take_result rid [] = None"
| "take_result rid (x # xs) =
     (if fst x = rid then Some (x, xs)
      else map_option (\<lambda>(y, ys). (y, x # ys)) (take_result rid xs))"

fun order_results ::
  "string list \<Rightarrow> (string \<times> (sync_error + 'a)) list \<Rightarrow> (string \<times> (sync_error + 'a)) list" where
  "order_results [] results = []"
| "order_results (rid # rids) results =
     (case take_result rid results of
        Some (x, rest) \<Rightarrow> x # order_results rids rest
      | None \<Rightarrow> (rid, Inl (RecordNotFound rid)) # order_results rids results)"

definition batch_download_records ::
  "('x) cloud_env_scheme \<Rightarrow> ('w, 'y) cloud_ops_scheme \<Rightarrow> string \<Rightarrow> (string list \<Rightarrow> string list) \<Rightarrow> string list \<Rightarrow> 'w
   \<Rightarrow> (string \<times> (sync_error + cloud_record option)) list \<times> 'w" where
  "batch_download_records E C provider schedule rids w =
     (let (results, w') = run_tasks E C provider (schedule rids) w in (order_results rids results, w'))"

definition delete_path ::
  "('w, 'y) cloud_ops_scheme \<Rightarrow> string \<Rightarrow> string \<Rightarrow> ('w, sync_error, unit) io" where
  "delete_path C provider path w =
     (case io_map_err (map_opendal_error provider path) (op_delete C path) w of
        (r, w') \<Rightarrow> (not_found_as () r, w'))"

definition delete_record ::
  "('w, 'y) cloud_ops_scheme \<Rightarrow> string \<Rightarrow> string \<Rightarrow> ('w, sync_error, unit) io" where
  "delete_record C provider rid = delete_path C provider (record_path rid)"

definition check_connectivity ::
  "('w, 'y) cloud_ops_scheme \<Rightarrow> string \<Rightarrow> ('w, sync_error, unit) io" where
  "check_connectivity C provider =
     io_bind (io_map_err (map_opendal_error provider ''connectivity check'') (op_list C (RECORDS_DIR @ ''/'')))
       (\<lambda>_. io_return ())"

definition upload_raw ::
  "('w, 'y) cloud_ops_scheme \<Rightarrow> string \<Rightarrow> string \<Rightarrow> bytes \<Rightarrow> ('w, sync_error, unit) io" where
  "upload_raw C provider path b = io_map_err (map_opendal_error provider path) (op_write C path b)"

definition download_raw ::
  "('w, 'y) cloud_ops_scheme \<Rightarrow> string \<Rightarrow> string \<Rightarrow> ('w, sync_error, bytes option) io" where
  "download_raw C provider path = read_file C provider path"

definition delete_raw ::
  "('w, 'y) cloud_ops_scheme \<Rightarrow> string \<Rightarrow> string \<Rightarrow> ('w, sync_error, unit) io" where
  "delete_raw C provider path = delete_path C provider path"

section \<open>The operator without interference\<close>

locale quiet_cloud =
  fixes C :: "('w, 'y) cloud_ops_scheme" and view :: "'w \<Rightarrow> string \<Rightarrow> bytes option"
  assumes read_some: "view w p = Some b \<Longrightarrow> \<exists>w'. op_read C p w = (Inr b, w') \<and> view w' = view w"
    and read_none: "view w p = None \<Longrightarrow>
      \<exists>e w'. op_read C p w = (Inl e, w') \<and> op_kind e = OpNotFound \<and> view w' = view w"
    and write_ok: "\<exists>w'. op_write C p b w = (Inr (), w') \<and> view w' = (view w)(p \<mapsto> b)"
    and rename_ok: "view w p = Some b \<Longrightarrow>
      \<exists>w'. op_rename C p q w = (Inr (), w') \<and> view w' = (view w)(p := None, q \<mapsto> b)"
    and delete_ok: "\<exists>w'. op_delete C p w = (Inr (), w') \<and> view w' = (view w)(p := None)"
    and uuid_ok: "view (snd (new_uuid C w)) = view w"
    and clock_ok: "view (snd (clock_now C w)) = view w"
    and sleep_ok: "view (sleep_millis C n w) = view w"
begin

lemma read_file_quiet: "\<exists>w'. read_file C prov p w = (Inr (view w p), w') \<and> view w' = view w"
proof (cases "view w p")
  case None
  then show ?thesis
    using read_none[OF None] by (auto simp: read_file_def io_map_err_def map_opendal_error_def not_found_as_def)
next
  case (Some b)
  then show ?thesis
    using read_some[OF Some] by (auto simp: read_file_def io_map_err_def not_found_as_def)
qed

lemma delete_path_quiet: "\<exists>w'. delete_path C prov p w = (Inr (), w') \<and> view w' = (view w)(p := None)"
  using delete_ok[of p w] by (auto simp: delete_path_def io_map_err_def not_found_as_def)

lemma upload_raw_quiet: "\<exists>w'. upload_raw C prov p b w = (Inr (), w') \<and> view w' = (view w)(p \<mapsto> b)"
  using write_ok[of p b w] by (auto simp: upload_raw_def io_map_err_def)

text \<open>A write is visible at its path, leaves no temporary file and touches no other path.\<close>

lemma write_file_quiet:
  "\<exists>w' u. write_file C prov p b w = (Inr (), w')
     \<and> view w' = (if prefers_direct_overwrite prov then view w else (view w)(p @ ''.tmp.'' @ u := None))(p \<mapsto> b)"
proof (cases "prefers_direct_overwrite prov")
  case True
  then show ?thesis
    using write_ok[of p b w] by (auto simp: write_file_def io_map_err_def)
next
  case False
  obtain u w1 where u: "new_uuid C w = (u, w1)" and w1: "view w1 = view w"
    using uuid_ok[of w] by (cases "new_uuid C w") auto
  define tmp where "tmp = p @ ''.tmp.'' @ u"
  obtain w2 where w2: "op_write C tmp b w1 = (Inr (), w2)" "view w2 = (view w)(tmp \<mapsto> b)"
    using write_ok[of tmp b w1] w1 by auto
  obtain w3 where w3: "op_rename C tmp p w2 = (Inr (), w3)" "view w3 = (view w2)(tmp := None, p \<mapsto> b)"
    using rename_ok[of w2 tmp b p] w2(2) by auto
  have "write_file C prov p b w = (Inr (), w3)"
    using False u w2(1)[unfolded tmp_def] w3(1)[unfolded tmp_def]
    by (simp add: write_file_def io_bind_def io_uuid_def io_map_err_def Let_def)
  moreover have "view w3 = ((view w)(tmp := None))(p \<mapsto> b)"
    using w2(2) w3(2) by simp
  ultimately show ?thesis
    using False by (auto simp: tmp_def)
qed

lemma write_file_read:
  obtains w' where "write_file C prov p b w = (Inr (), w')" "view w' p = Some b"
    "\<And>q. q \<noteq> p \<Longrightarrow> \<not> prefix (p @ ''.tmp.'') q \<Longrightarrow> view w' q = view w q"
proof -
  obtain w' u where w': "write_file C prov p b w = (Inr (), w')"
    "view w' = (if prefers_direct_overwrite prov then view w else (view w)(p @ ''.tmp.'' @ u := None))(p \<mapsto> b)"
    using write_file_quiet by blast
  have "view w' q = view w q" if "q \<noteq> p" "\<not> prefix (p @ ''.tmp.'') q" for q
  proof -
    have "q \<noteq> p @ ''.tmp.'' @ u"
      using that(2) by (auto simp: prefix_def)
    then show ?thesis
      using w'(2) that(1) by simp
  qed
  then show thesis
    using that w' by (simp split: if_splits)
qed

lemma upload_metadata_quiet:
  fixes E :: "('x) meta_env_scheme"
  assumes "ser_metadata E m = Inr s"
  obtains w' where "upload_metadata E C prov m w = (Inr (), w')" "view w' METADATA_FILENAME = Some s"
    "\<And>q. q \<noteq> METADATA_FILENAME \<Longrightarrow> \<not> prefix (METADATA_FILENAME @ ''.tmp.'') q \<Longrightarrow> view w' q = view w q"
proof -
  obtain w' where w': "write_file C prov METADATA_FILENAME s w = (Inr (), w')" "view w' METADATA_FILENAME = Some s"
    "\<And>q. q \<noteq> METADATA_FILENAME \<Longrightarrow> \<not> prefix (METADATA_FILENAME @ ''.tmp.'') q \<Longrightarrow> view w' q = view w q"
    using write_file_read by metis
  have "upload_metadata E C prov m w = (Inr (), w')"
    using assms w'(1) by (simp add: upload_metadata_def io_bind_def serialize_metadata_def)
  then show thesis
    using that w'(2,3) by blast
qed

text \<open>What \<open>download_metadata\<close> returns is determined by the file.\<close>

lemma download_metadata_quiet:
  fixes E :: "('x) meta_env_scheme"
  shows "\<exists>w'. download_metadata E C prov w =
     (case view w METADATA_FILENAME of
        None \<Rightarrow> (Inr None, w')
      | Some b \<Rightarrow> (try_res (map_err (\<lambda>e. DeserializationFailed (''invalid UTF-8: '' @ e)) (from_utf8 b)) (\<lambda>json.
          try_res (map_err (\<lambda>e. DeserializationFailed (sync_error_to_string e)) (deserialize_metadata E json)) (\<lambda>m.
          try_res (metadata_validate E m) (\<lambda>_. Inr (Some m)))), w')) \<and> view w' = view w"
proof -
  obtain w' where "read_file C prov METADATA_FILENAME w = (Inr (view w METADATA_FILENAME), w')" "view w' = view w"
    using read_file_quiet by blast
  then show ?thesis
    by (auto simp: download_metadata_def io_bind_def split: option.splits)
qed

lemma download_metadata_of:
  fixes E :: "('x) meta_env_scheme"
  assumes "view w METADATA_FILENAME = Some s" "de_metadata E s = Inr m" "utf8_check 0 s = Inr ()"
    "metadata_ok E m"
  obtains w' where "download_metadata E C prov w = (Inr (Some m), w')" "view w' = view w"
proof -
  have "metadata_validate E m = Inr ()"
    using assms(4) by (simp add: metadata_validate_ok)
  then show thesis
    using that download_metadata_quiet[of E prov w] assms(1-3)
    by (auto simp: from_utf8_def deserialize_metadata_def)
qed

lemma metadata_roundtrip:
  fixes E :: "('x) meta_env_scheme"
  assumes "meta_json_laws E" "metadata_ok E m"
  obtains w1 w2 where "upload_metadata E C prov m w = (Inr (), w1)"
    "download_metadata E C prov w1 = (Inr (Some m), w2)"
    "\<And>q. q \<noteq> METADATA_FILENAME \<Longrightarrow> \<not> prefix (METADATA_FILENAME @ ''.tmp.'') q \<Longrightarrow> view w2 q = view w q"
proof -
  obtain s where s: "ser_metadata E m = Inr s" "de_metadata E s = Inr m" "utf8_check 0 s = Inr ()"
    using assms(1) unfolding meta_json_laws_def by blast
  obtain w1 where w1: "upload_metadata E C prov m w = (Inr (), w1)" "view w1 METADATA_FILENAME = Some s"
    "\<And>q. q \<noteq> METADATA_FILENAME \<Longrightarrow> \<not> prefix (METADATA_FILENAME @ ''.tmp.'') q \<Longrightarrow> view w1 q = view w q"
    using upload_metadata_quiet[OF s(1)] by metis
  obtain w2 where w2: "download_metadata E C prov w1 = (Inr (Some m), w2)" "view w2 = view w1"
    using download_metadata_of[OF w1(2) s(2,3) assms(2)] by metis
  show thesis
    using that[OF w1(1) w2(1)] w1(3) w2(2) by simp
qed

lemma record_roundtrip:
  fixes E :: "('x) cloud_env_scheme"
  assumes "cloud_json_laws E"
  obtains w1 w2 where "upload_record E C prov rid r w = (Inr (), w1)"
    "download_record E C prov rid w1 = (Inr (Some r), w2)" "view w2 = view w1"
    "\<And>q. q \<noteq> record_path rid \<Longrightarrow> \<not> prefix (record_path rid @ ''.tmp.'') q \<Longrightarrow> view w2 q = view w q"
proof -
  obtain s where s: "ser_record E r = Inr s" "de_record E s = Inr r"
    using assms unfolding cloud_json_laws_def by blast
  obtain w1 where w1: "write_file C prov (record_path rid) s w = (Inr (), w1)" "view w1 (record_path rid) = Some s"
    "\<And>q. q \<noteq> record_path rid \<Longrightarrow> \<not> prefix (record_path rid @ ''.tmp.'') q \<Longrightarrow> view w1 q = view w q"
    using write_file_read by metis
  have up: "upload_record E C prov rid r w = (Inr (), w1)"
    using s(1) w1(1) by (simp add: upload_record_def io_bind_def)
  obtain w2 where w2: "read_file C prov (record_path rid) w1 = (Inr (Some s), w2)" "view w2 = view w1"
    using read_file_quiet[of prov "record_path rid" w1] w1(2) by auto
  have "download_record E C prov rid w1 = (Inr (Some r), w2)"
    using w2(1) s(2) by (simp add: download_record_def io_bind_def parse_record_def)
  then show thesis
    using that[OF up] w1(3) w2(2) by simp
qed

text \<open>A compare-and-swap that reports success replaced the expected version.\<close>

lemma push_metadata_atomic_ok:
  fixes E :: "('x) meta_env_scheme"
  assumes "meta_json_laws E" "download_metadata E C prov w = (Inr remote, w0)"
    "(case remote of None \<Rightarrow> 0 | Some rm \<Rightarrow> cm_metadata_version rm) = expected"
  shows "push_metadata_atomic E C prov m expected w = upload_metadata E C prov m w0"
  using assms(2,3) by (auto simp: push_metadata_atomic_def split: option.splits)

end

lemma push_metadata_atomic_refused:
  fixes E :: "('x) meta_env_scheme"
  assumes "download_metadata E C prov w = (Inr remote, w0)"
    "case remote of None \<Rightarrow> expected \<noteq> 0 | Some rm \<Rightarrow> cm_metadata_version rm \<noteq> expected"
  shows "\<exists>e. push_metadata_atomic E C prov m expected w = (Inl e, w0)"
  using assms by (auto simp: push_metadata_atomic_def split: option.splits)

interpretation mem: quiet_cloud mem_ops "\<lambda>w. map_of (mw_files w)"
  by unfold_locales
     (auto simp: mem_defs update_conv' delete_conv' split: option.splits intro!: exI)

section \<open>Contracts of the storage methods\<close>

text \<open>
  Metadata that validates can be stored and read back: on a store no other client touches,
  \<open>upload_metadata\<close> succeeds and \<open>download_metadata\<close> then returns the same metadata, for providers
  with and without rename; no file but the metadata file and its temporary files changes.
\<close>

theorem metadata_upload_download:
  fixes E :: "('x) meta_env_scheme"
  assumes "quiet_cloud C view" "meta_json_laws E" "metadata_validate E m = Inr ()"
  shows "\<exists>w1 w2. upload_metadata E C prov m w = (Inr (), w1)
    \<and> download_metadata E C prov w1 = (Inr (Some m), w2)
    \<and> (\<forall>q. q \<noteq> METADATA_FILENAME \<and> \<not> prefix (METADATA_FILENAME @ ''.tmp.'') q \<longrightarrow> view w2 q = view w q)"
  using quiet_cloud.metadata_roundtrip[OF assms(1,2), of m prov w] assms(3)
  by (metis metadata_validate_ok)

definition mem_init :: "timestamp \<Rightarrow> mem_world" where
  "mem_init t = \<lparr> mw_files = [], mw_clock = t, mw_seed = 0 \<rparr>"

lemma demo_metadata_valid: "metadata_validate demo_cloud_env (metadata_new demo_cloud_env 5 ''tok'') = Inr ()"
  using metadata_new_ok[OF demo_cloud_env_laws, of 5 "''tok''"] by (simp add: metadata_validate_ok printable_time_def)

theorem metadata_upload_download_witness:
  "\<exists>w1 w2. upload_metadata demo_cloud_env mem_ops ''webdav'' (metadata_new demo_cloud_env 5 ''tok'') (mem_init 0) = (Inr (), w1)
    \<and> download_metadata demo_cloud_env mem_ops ''webdav'' w1 = (Inr (Some (metadata_new demo_cloud_env 5 ''tok'')), w2)"
  using metadata_upload_download[OF mem.quiet_cloud_axioms demo_meta_json_laws demo_metadata_valid, of "''webdav''" "mem_init 0"]
  by blast

lemma record_path_inj: "record_path a = record_path b \<longleftrightarrow> a = b"
  by (simp add: record_path_def)

lemma temp_suffix_short:
  "n \<in> {0, 1, 2, 3, 4, 5, 6, 7, 8} \<Longrightarrow> drop n (''.json.tmp.'' @ zs) \<noteq> ''.json''"
  by (elim insertE) simp_all

lemma temp_suffix_overlap:
  assumes "us @ ''.json'' = ''.json.tmp.'' @ zs"
  shows "prefix ''.json.tmp'' us"
proof (cases "9 \<le> length us")
  case True
  have "take 9 (us @ ''.json'') = ''.json.tmp''"
    using assms by simp
  then have "take 9 us = ''.json.tmp''"
    using True by simp
  then show ?thesis
    by (metis take_is_prefix)
next
  case False
  then have "length us \<in> {0, 1, 2, 3, 4, 5, 6, 7, 8}"
    unfolding insert_iff empty_iff by linarith
  moreover have "drop (length us) (''.json.tmp.'' @ zs) = ''.json''"
    unfolding assms[symmetric] by simp
  ultimately show ?thesis
    using temp_suffix_short by blast
qed

lemma record_path_not_temp:
  "prefix (record_path rid @ ''.tmp.'') (record_path q) \<Longrightarrow> prefix (rid @ ''.json.tmp'') q"
  using temp_suffix_overlap
  by (auto simp: record_path_def prefix_def append_eq_append_conv2 RECORDS_DIR_def)

lemma metadata_not_record: "METADATA_FILENAME \<noteq> record_path rid \<and> \<not> prefix (record_path rid @ s) METADATA_FILENAME"
  by (simp add: METADATA_FILENAME_def record_path_def RECORDS_DIR_def)

text \<open>
  records can be stored and read back in the same way, and storing one record leaves the
  metadata file and every other record (under an id without the temporary suffix) as it was.
\<close>

theorem record_upload_download:
  fixes E :: "('x) cloud_env_scheme"
  assumes "quiet_cloud C view" "cloud_json_laws E"
  shows "\<exists>w1 w2. upload_record E C prov rid r w = (Inr (), w1)
    \<and> download_record E C prov rid w1 = (Inr (Some r), w2)
    \<and> view w2 METADATA_FILENAME = view w METADATA_FILENAME
    \<and> (\<forall>q. q \<noteq> rid \<and> \<not> prefix (rid @ ''.json.tmp'') q \<longrightarrow> view w2 (record_path q) = view w (record_path q))"
proof -
  obtain w1 w2 where *: "upload_record E C prov rid r w = (Inr (), w1)"
    "download_record E C prov rid w1 = (Inr (Some r), w2)"
    "\<And>q. q \<noteq> record_path rid \<Longrightarrow> \<not> prefix (record_path rid @ ''.tmp.'') q \<Longrightarrow> view w2 q = view w q"
    using quiet_cloud.record_roundtrip[OF assms] by metis
  have "view w2 (record_path q) = view w (record_path q)" if "q \<noteq> rid \<and> \<not> prefix (rid @ ''.json.tmp'') q" for q
    using *(3)[of "record_path q"] that record_path_not_temp[of rid q] record_path_inj[of q rid] by blast
  then show ?thesis
    using * metadata_not_record[of rid] by metis
qed

definition demo_cloud_record :: cloud_record where
  "demo_cloud_record = build_cloud_record demo_cloud_env demo_stored ''mail'' (b64_encode demo_cloud_env ''cipher'')
      (b64_encode demo_cloud_env (replicate 24 (CHR ''n''))) \<lparr> aad_record_id = uuid_show demo_cloud_env 7, aad_dek_version = 1 \<rparr> None"

theorem record_upload_download_witness:
  "\<exists>w1 w2. upload_record demo_cloud_env mem_ops ''gdrive'' ''u7'' demo_cloud_record (mem_init 0) = (Inr (), w1)
    \<and> download_record demo_cloud_env mem_ops ''gdrive'' ''u7'' w1 = (Inr (Some demo_cloud_record), w2)"
  using record_upload_download[OF mem.quiet_cloud_axioms demo_cloud_json_laws] by blast

lemma download_metadata_frame:
  fixes E :: "('x) meta_env_scheme"
  assumes "quiet_cloud C view" "download_metadata E C prov w = (r, w0)"
  shows "view w0 = view w"
  using quiet_cloud.download_metadata_quiet[OF assms(1), of E prov w] assms(2)
  by (auto split: option.splits)

text \<open>
  C16: \<open>push_metadata_atomic\<close> is a compare-and-swap on a store no other client touches: with the
  stored version equal to the expected one (0 for an absent file) it stores the new metadata,
  otherwise it returns an error and leaves every file as it was.
\<close>

theorem push_metadata_cas:
  fixes E :: "('x) meta_env_scheme"
  assumes q: "quiet_cloud C view" and js: "meta_json_laws E" and ok: "metadata_validate E m = Inr ()"
    and dl: "download_metadata E C prov w = (Inr remote, w0)"
  shows "if (case remote of None \<Rightarrow> 0 | Some rm \<Rightarrow> cm_metadata_version rm) = expected
         then \<exists>w1 w2. push_metadata_atomic E C prov m expected w = (Inr (), w1)
                \<and> download_metadata E C prov w1 = (Inr (Some m), w2)
         else \<exists>e w1. push_metadata_atomic E C prov m expected w = (Inl e, w1) \<and> view w1 = view w"
proof (cases "(case remote of None \<Rightarrow> 0 | Some rm \<Rightarrow> cm_metadata_version rm) = expected")
  case True
  then show ?thesis
    using quiet_cloud.push_metadata_atomic_ok[OF q js dl True]
      quiet_cloud.metadata_roundtrip[OF q js, of m prov w0] ok by (metis metadata_validate_ok)
next
  case False
  then have "case remote of None \<Rightarrow> expected \<noteq> 0 | Some rm \<Rightarrow> cm_metadata_version rm \<noteq> expected"
    by (auto split: option.splits)
  then show ?thesis
    using False push_metadata_atomic_refused[OF dl] download_metadata_frame[OF q dl] by metis
qed

theorem push_metadata_cas_witness:
  "\<exists>e w1. push_metadata_atomic demo_cloud_env mem_ops ''webdav'' (metadata_new demo_cloud_env 5 ''tok'') 3 (mem_init 0)
      = (Inl e, w1) \<and> map_of (mw_files w1) = map_of []"
proof -
  have "download_metadata demo_cloud_env mem_ops ''webdav'' (mem_init 0) = (Inr None, mem_init 1)"
    by (simp add: download_metadata_def io_bind_def read_file_def io_map_err_def mem_defs mem_init_def
        map_opendal_error_def not_found_as_def)
  from push_metadata_cas[OF mem.quiet_cloud_axioms demo_meta_json_laws demo_metadata_valid this, of 3]
  show ?thesis by (simp add: mem_init_def)
qed

section \<open>Batch downloads and listings\<close>

definition file_result :: "('x) cloud_env_scheme \<Rightarrow> (string \<Rightarrow> bytes option) \<Rightarrow> string \<Rightarrow> sync_error + cloud_record option" where
  "file_result E fs rid = (case fs (record_path rid) of
     None \<Rightarrow> Inr None | Some b \<Rightarrow> try_res (parse_record E rid b) (\<lambda>r. Inr (Some r)))"

lemma run_tasks_quiet:
  assumes "quiet_cloud C view"
  shows "\<exists>w'. run_tasks E C prov rids w = (map (\<lambda>rid. (rid, file_result E (view w) rid)) rids, w') \<and> view w' = view w"
proof (induction rids arbitrary: w)
  case (Cons rid rids)
  obtain w1 where w1: "read_file C prov (record_path rid) w = (Inr (view w (record_path rid)), w1)" "view w1 = view w"
    using quiet_cloud.read_file_quiet[OF assms] by blast
  then have "download_task E C prov rid w = ((rid, file_result E (view w) rid), w1)"
    by (auto simp: download_task_def file_result_def split: option.splits)
  then show ?case
    using Cons[of w1] w1(2) by auto
qed simp

lemma take_result_map:
  "rid \<in> set xs \<Longrightarrow> take_result rid (map (\<lambda>r. (r, g r)) xs) = Some ((rid, g rid), map (\<lambda>r. (r, g r)) (remove1 rid xs))"
  by (induction xs) auto

lemma order_results_map:
  "mset xs = mset rids \<Longrightarrow> order_results rids (map (\<lambda>r. (r, g r)) xs) = map (\<lambda>r. (r, g r)) rids"
proof (induction rids arbitrary: xs)
  case (Cons rid rids)
  then have "rid \<in> set xs"
    by (metis list.set_intros(1) set_mset_mset)
  moreover have "mset (remove1 rid xs) = mset rids"
    using Cons.prems by simp
  ultimately show ?case
    using Cons.IH by (simp add: take_result_map)
qed simp

lemma batch_download_quiet:
  fixes E :: "('x) cloud_env_scheme"
  assumes "quiet_cloud C view" "mset (schedule rids) = mset rids"
  shows "fst (batch_download_records E C prov schedule rids w) = map (\<lambda>rid. (rid, file_result E (view w) rid)) rids"
  using run_tasks_quiet[OF assms(1), of E prov "schedule rids" w] order_results_map[OF assms(2)]
  by (auto simp: batch_download_records_def)

lemmas batch_download_in_order_mem = batch_download_quiet[OF mem.quiet_cloud_axioms, where schedule = id, simplified]

text \<open>
  Whatever order the concurrent download tasks finish in, \<open>batch_download_records\<close> returns one
  result per requested id, in the requested order, and each is the outcome of that id's own file:
  absent, unreadable or parsed. One failure does not affect the others.
\<close>

theorem batch_download_in_order:
  fixes E :: "('x) cloud_env_scheme"
  assumes "quiet_cloud C view" "mset (schedule rids) = mset rids"
  shows "fst (batch_download_records E C prov schedule rids w) = map (\<lambda>rid. (rid, file_result E (view w) rid)) rids"
  using assms by (rule batch_download_quiet)

theorem batch_download_in_order_witness:
  "fst (batch_download_records demo_cloud_env mem_ops ''webdav'' rev [''u1'', ''u2''] (mem_init 0))
    = [(''u1'', Inr None), (''u2'', Inr None)]"
  using batch_download_in_order[OF mem.quiet_cloud_axioms, where schedule = rev and rids = "[''u1'', ''u2'']" and w = "mem_init 0"]
  by (simp add: file_result_def mem_init_def)

lemma trim_end_slash_id: "s \<noteq> [] \<Longrightarrow> last s \<noteq> CHR ''/'' \<Longrightarrow> trim_end_slash s = s"
proof -
  assume "s \<noteq> []" "last s \<noteq> CHR ''/''"
  then have "dropWhile (\<lambda>c. c = CHR ''/'') (rev s) = rev s"
    by (simp add: dropWhile_eq_self_iff hd_rev)
  then show ?thesis
    by (simp add: trim_end_slash_def)
qed

lemma extract_record_path: "rid \<noteq> [] \<Longrightarrow> extract_record_id (record_path rid) = Some rid"
  by (simp add: extract_record_id_def Let_def trim_end_slash_id record_path_def RECORDS_DIR_def suffix_def)

end
