(* ===== verification/Sync_Lock.thy ===== *)
theory Sync_Lock
  imports Cloud_Storage
begin

text \<open>
  \<open>sync/lock.rs\<close>: the distributed lock kept as a file with an expiry time in the remote store.
  Durations and times are nanoseconds. The polling loop of \<open>acquire\<close> runs on fuel; \<open>None\<close> is the
  loop still running.
\<close>

record lock_file_data =
  lf_device_id :: string
  lf_acquired_at :: string
  lf_expires_at :: string

record lock_env = cloud_env +
  ser_lock :: "lock_file_data \<Rightarrow> string + string"
  de_lock :: "bytes \<Rightarrow> string + lock_file_data"
  duration_debug :: "int \<Rightarrow> string"

definition nanos_per_sec :: int where "nanos_per_sec = 1000000000"

definition LOCK_TTL_SECONDS :: int where "LOCK_TTL_SECONDS = 300"
definition LOCK_ACQUIRE_TIMEOUT_SECONDS :: int where "LOCK_ACQUIRE_TIMEOUT_SECONDS = 30"
definition LOCK_ACQUIRE_RETRY_INTERVAL_SECONDS :: int where "LOCK_ACQUIRE_RETRY_INTERVAL_SECONDS = 5"

record sync_lock =
  sl_provider :: string
  sl_device_id :: string
  sl_lock_ttl :: int
  sl_acquire_timeout :: int
  sl_retry_interval :: int

definition sync_lock_new :: "string \<Rightarrow> string \<Rightarrow> sync_lock" where
  "sync_lock_new provider device =
     \<lparr> sl_provider = provider, sl_device_id = device,
       sl_lock_ttl = LOCK_TTL_SECONDS * nanos_per_sec,
       sl_acquire_timeout = LOCK_ACQUIRE_TIMEOUT_SECONDS * nanos_per_sec,
       sl_retry_interval = LOCK_ACQUIRE_RETRY_INTERVAL_SECONDS * nanos_per_sec \<rparr>"

definition with_timeouts :: "int \<Rightarrow> int \<Rightarrow> int \<Rightarrow> sync_lock \<Rightarrow> sync_lock" where
  "with_timeouts ttl timeout interval l =
     l\<lparr>sl_lock_ttl := ttl, sl_acquire_timeout := timeout, sl_retry_interval := interval\<rparr>"

text \<open>\<open>num_seconds\<close> and \<open>num_milliseconds\<close> truncate toward zero.\<close>

definition trunc_div :: "int \<Rightarrow> int \<Rightarrow> int" where
  "trunc_div a b = (if 0 \<le> a then a div b else - ((- a) div b))"

definition create_lock_data ::
  "('x) env_scheme \<Rightarrow> ('w, 'y) cloud_ops_scheme \<Rightarrow> sync_lock \<Rightarrow> ('w, 'e, lock_file_data) io" where
  "create_lock_data E C l = io_bind (io_now C) (\<lambda>now. io_return
     \<lparr> lf_device_id = sl_device_id l, lf_acquired_at = rfc3339_show E now,
       lf_expires_at = rfc3339_show E (now + sl_lock_ttl l) \<rparr>)"

definition is_expired ::
  "('x) env_scheme \<Rightarrow> ('w, 'y) cloud_ops_scheme \<Rightarrow> lock_file_data \<Rightarrow> ('w, 'e, bool) io" where
  "is_expired E C lock = (case rfc3339_parse E (lf_expires_at lock) of
     Some expires \<Rightarrow> io_bind (io_now C) (\<lambda>now. io_return (expires \<le> now))
   | None \<Rightarrow> io_return True)"

definition upload_lock ::
  "('x) lock_env_scheme \<Rightarrow> ('w, 'y) cloud_ops_scheme \<Rightarrow> sync_lock \<Rightarrow> lock_file_data \<Rightarrow> ('w, sync_error, unit) io" where
  "upload_lock E C l d =
     io_bind (io_lift (map_err SerializationFailed (ser_lock E d)))
       (\<lambda>json. upload_raw C (sl_provider l) LOCK_FILENAME json)"

definition parse_lock :: "('x) lock_env_scheme \<Rightarrow> bytes \<Rightarrow> sync_error + lock_file_data" where
  "parse_lock E b = map_err (\<lambda>e. DeserializationFailed (''lock file: '' @ e)) (de_lock E b)"

definition held_by_other :: "lock_file_data \<Rightarrow> sync_error" where
  "held_by_other d = LockAcquireFailed (''lock held by device '' @ [CHR 39] @ lf_device_id d @ [CHR 39]
     @ '' until '' @ lf_expires_at d)"

definition try_acquire ::
  "('x) lock_env_scheme \<Rightarrow> ('w, 'y) cloud_ops_scheme \<Rightarrow> sync_lock \<Rightarrow> ('w, sync_error, unit) io" where
  "try_acquire E C l =
     io_bind (download_raw C (sl_provider l) LOCK_FILENAME) (\<lambda>existing. case existing of
        None \<Rightarrow> io_bind (create_lock_data E C l) (\<lambda>d. upload_lock E C l d)
      | Some b \<Rightarrow>
          io_bind (io_lift (parse_lock E b)) (\<lambda>lock.
          io_bind (is_expired E C lock) (\<lambda>expired.
            if expired then io_bind (create_lock_data E C l) (\<lambda>d. upload_lock E C l d)
            else if lf_device_id lock = sl_device_id l then
              io_bind (create_lock_data E C l) (\<lambda>d. upload_lock E C l d)
            else io_lift (Inl (held_by_other lock)))))"

text \<open>The sleep of a poll: the rest of the timeout, capped by the retry interval.\<close>

definition poll_sleep :: "('w, 'y) cloud_ops_scheme \<Rightarrow> sync_lock \<Rightarrow> int \<Rightarrow> 'w \<Rightarrow> 'w" where
  "poll_sleep C l elapsed w =
     (let remaining = sl_acquire_timeout l - elapsed;
          d = (if remaining < sl_retry_interval l then remaining else sl_retry_interval l);
          ms = trunc_div d 1000000
      in if ms > 0 then sleep_millis C (nat ms) w else w)"

fun acquire_loop ::
  "nat \<Rightarrow> ('x) lock_env_scheme \<Rightarrow> ('w, 'y) cloud_ops_scheme \<Rightarrow> sync_lock \<Rightarrow> timestamp \<Rightarrow> 'w
   \<Rightarrow> ((sync_error + unit) \<times> 'w) option" where
  "acquire_loop 0 E C l start w = None"
| "acquire_loop (Suc fuel) E C l start w =
     (case clock_now C w of (now, w1) \<Rightarrow>
        let elapsed = now - start in
        if trunc_div elapsed nanos_per_sec \<ge> trunc_div (sl_acquire_timeout l) nanos_per_sec then
          Some (Inl (LockAcquireFailed (''timeout after '' @ duration_debug E (sl_acquire_timeout l)
                  @ '' waiting for lock'')), w1)
        else case try_acquire E C l w1 of
          (Inr u, w2) \<Rightarrow> Some (Inr u, w2)
        | (Inl (LockAcquireFailed _), w2) \<Rightarrow> acquire_loop fuel E C l start (poll_sleep C l elapsed w2)
        | (Inl e, w2) \<Rightarrow> Some (Inl e, w2))"

definition acquire ::
  "nat \<Rightarrow> ('x) lock_env_scheme \<Rightarrow> ('w, 'y) cloud_ops_scheme \<Rightarrow> sync_lock \<Rightarrow> 'w
   \<Rightarrow> ((sync_error + unit) \<times> 'w) option" where
  "acquire fuel E C l w = (case clock_now C w of (start, w1) \<Rightarrow> acquire_loop fuel E C l start w1)"

definition release ::
  "('x) lock_env_scheme \<Rightarrow> ('w, 'y) cloud_ops_scheme \<Rightarrow> sync_lock \<Rightarrow> ('w, sync_error, unit) io" where
  "release E C l =
     io_bind (download_raw C (sl_provider l) LOCK_FILENAME) (\<lambda>existing. case existing of
        None \<Rightarrow> io_return ()
      | Some b \<Rightarrow>
          io_bind (io_lift (parse_lock E b)) (\<lambda>lock.
            if lf_device_id lock = sl_device_id l
            then delete_raw C (sl_provider l) LOCK_FILENAME
            else io_return ()))"

definition is_locked ::
  "('x) lock_env_scheme \<Rightarrow> ('w, 'y) cloud_ops_scheme \<Rightarrow> sync_lock \<Rightarrow> ('w, sync_error, bool) io" where
  "is_locked E C l =
     io_bind (download_raw C (sl_provider l) LOCK_FILENAME) (\<lambda>existing. case existing of
        None \<Rightarrow> io_return False
      | Some b \<Rightarrow>
          io_bind (io_lift (parse_lock E b)) (\<lambda>lock.
          io_bind (is_expired E C lock) (\<lambda>expired. io_return (\<not> expired))))"

definition is_locked_by_self ::
  "('x) lock_env_scheme \<Rightarrow> ('w, 'y) cloud_ops_scheme \<Rightarrow> sync_lock \<Rightarrow> ('w, sync_error, bool) io" where
  "is_locked_by_self E C l =
     io_bind (download_raw C (sl_provider l) LOCK_FILENAME) (\<lambda>existing. case existing of
        None \<Rightarrow> io_return False
      | Some b \<Rightarrow>
          io_bind (io_lift (parse_lock E b)) (\<lambda>lock.
          io_bind (is_expired E C lock) (\<lambda>expired.
            if expired then io_return False
            else io_return (lf_device_id lock = sl_device_id l))))"

section \<open>The abstract lock\<close>

text \<open>
  The specification: at most one holder with an expiry time. A lock file whose expiry cannot be
  read counts as expired; a file that is not lock JSON is no abstract state (the code reports it).
\<close>

type_synonym alock = "(string \<times> timestamp option) option"

definition holder :: "alock \<Rightarrow> timestamp \<Rightarrow> string option" where
  "holder a now = (case a of Some (d, Some e) \<Rightarrow> if now < e then Some d else None | _ \<Rightarrow> None)"

definition lock_abs :: "('x) lock_env_scheme \<Rightarrow> bytes option \<Rightarrow> alock option" where
  "lock_abs E f = (case f of
     None \<Rightarrow> Some None
   | Some b \<Rightarrow> (case de_lock E b of
        Inl _ \<Rightarrow> None
      | Inr d \<Rightarrow> Some (Some (lf_device_id d, rfc3339_parse E (lf_expires_at d)))))"

text \<open>The lock this device writes at time \<open>t\<close>, as it will be read back.\<close>

definition new_lock :: "('x) env_scheme \<Rightarrow> sync_lock \<Rightarrow> timestamp \<Rightarrow> alock" where
  "new_lock E l t = Some (sl_device_id l, rfc3339_parse E (rfc3339_show E (t + sl_lock_ttl l)))"

definition lock_json_laws :: "('x) lock_env_scheme \<Rightarrow> bool" where
  "lock_json_laws E \<longleftrightarrow> (\<forall>d. \<exists>s. ser_lock E d = Inr s \<and> de_lock E s = Inr d)"

lemma int_le_div: "a * b \<le> c \<Longrightarrow> 0 < b \<Longrightarrow> a \<le> c div (b :: int)"
  using zdiv_mono1[of "a * b" c b] by simp

text \<open>
  A quiet cloud with a clock: reading the clock returns the time, no operation moves it back, a
  read takes time, and a sleep lasts at least as long as asked.
\<close>

locale quiet_clock = quiet_cloud C view
  for C :: "('w, 'y) cloud_ops_scheme" and view :: "'w \<Rightarrow> string \<Rightarrow> bytes option" +
  fixes clk :: "'w \<Rightarrow> timestamp"
  assumes now_clk: "clock_now C w = (t, w') \<Longrightarrow> t = clk w' \<and> clk w \<le> clk w'"
    and read_clk: "op_read C p w = (r, w') \<Longrightarrow> clk w < clk w'"
    and write_clk: "op_write C p b w = (r', w') \<Longrightarrow> clk w \<le> clk w'"
    and delete_clk: "op_delete C p w = (r', w') \<Longrightarrow> clk w \<le> clk w'"
    and sleep_clk: "clk w + int n * 1000000 \<le> clk (sleep_millis C n w)"
begin

lemma now_quiet: "\<exists>t w'. clock_now C w = (t, w') \<and> t = clk w' \<and> clk w \<le> clk w' \<and> view w' = view w"
  using now_clk clock_ok[of w] by (cases "clock_now C w") fastforce

lemma read_file_clk: "read_file C prov p w = (r, w') \<Longrightarrow> clk w < clk w'"
  using read_clk[of p w] by (auto simp: read_file_def io_map_err_def split: prod.splits)

lemma download_raw_quiet:
  obtains w' where "download_raw C prov p w = (Inr (view w p), w')" "view w' = view w" "clk w < clk w'"
  using read_file_quiet[of prov p w] read_file_clk unfolding download_raw_def by blast

text \<open>Writing the lock: the file then holds this device and the expiry counted from the time of writing.\<close>

lemma take_lock_quiet:
  fixes E :: "('x) lock_env_scheme"
  assumes "lock_json_laws E"
  obtains w' t where "io_bind (create_lock_data E C l) (\<lambda>d. upload_lock E C l d) w = (Inr (), w')"
    "clk w \<le> t" "t \<le> clk w'" "lock_abs E (view w' LOCK_FILENAME) = Some (new_lock E l t)"
    "\<And>q. q \<noteq> LOCK_FILENAME \<Longrightarrow> view w' q = view w q"
proof -
  obtain t w1 where t: "clock_now C w = (t, w1)" "t = clk w1" "clk w \<le> clk w1" "view w1 = view w"
    using now_quiet by blast
  let ?d = "\<lparr> lf_device_id = sl_device_id l, lf_acquired_at = rfc3339_show E t,
       lf_expires_at = rfc3339_show E (t + sl_lock_ttl l) \<rparr>"
  obtain s where s: "ser_lock E ?d = Inr s" "de_lock E s = Inr ?d"
    using assms(1) unfolding lock_json_laws_def by blast
  obtain w2 where w2: "upload_raw C (sl_provider l) LOCK_FILENAME s w1 = (Inr (), w2)"
    "view w2 = (view w1)(LOCK_FILENAME \<mapsto> s)"
    using upload_raw_quiet by blast
  have "clk w1 \<le> clk w2"
    using w2(1) write_clk[of LOCK_FILENAME s w1]
    by (auto simp: upload_raw_def io_map_err_def split: prod.splits)
  moreover have "lock_abs E (view w2 LOCK_FILENAME) = Some (new_lock E l t)"
    using w2(2) s(2) by (simp add: lock_abs_def new_lock_def)
  moreover have "io_bind (create_lock_data E C l) (\<lambda>d. upload_lock E C l d) w = (Inr (), w2)"
    using t(1) s(1) w2(1)
    by (simp add: io_bind_def create_lock_data_def io_now_def upload_lock_def)
  ultimately show thesis
    using that[of w2 t] t w2(2) by simp
qed

text \<open>The expiry test asks the abstract lock.\<close>

lemma is_expired_quiet:
  fixes E :: "('x) env_scheme"
  obtains w' ex where "(is_expired E C lock :: ('w, 'e, bool) io) w = (Inr ex, w')"
    "clk w \<le> clk w'" "view w' = view w"
    "ex \<longleftrightarrow> holder (Some (lf_device_id lock, rfc3339_parse E (lf_expires_at lock))) (clk w') = None"
proof (cases "rfc3339_parse E (lf_expires_at lock)")
  case None
  then show thesis
    using that[of True w] by (simp add: is_expired_def holder_def)
next
  case (Some e)
  obtain t w1 where t: "clock_now C w = (t, w1)" "t = clk w1" "clk w \<le> clk w1" "view w1 = view w"
    using now_quiet by blast
  then show thesis
    using that[of "e \<le> t" w1] Some
    by (simp add: is_expired_def io_bind_def io_now_def holder_def not_less)
qed

text \<open>
  The simulation: an attempt succeeds exactly when the abstract lock has no holder or is held by
  this device, and then takes it; otherwise it fails and leaves the file alone.
\<close>

lemma try_acquire_quiet:
  fixes E :: "('x) lock_env_scheme"
  assumes "lock_json_laws E" "lock_abs E (view w LOCK_FILENAME) = Some a"
  obtains now w' where "clk w < now" "now \<le> clk w'"
    "if holder a now \<in> {None, Some (sl_device_id l)}
     then \<exists>t. now \<le> t \<and> t \<le> clk w' \<and> try_acquire E C l w = (Inr (), w')
        \<and> lock_abs E (view w' LOCK_FILENAME) = Some (new_lock E l t)
     else \<exists>r. try_acquire E C l w = (Inl (LockAcquireFailed r), w') \<and> view w' = view w"
proof -
  obtain w1 where w1: "download_raw C (sl_provider l) LOCK_FILENAME w = (Inr (view w LOCK_FILENAME), w1)"
    "view w1 = view w" "clk w < clk w1"
    by (rule download_raw_quiet)
  show thesis
  proof (cases "view w LOCK_FILENAME")
    case None
    then have "a = None" using assms(2) by (simp add: lock_abs_def)
    moreover obtain w2 t where w2: "io_bind (create_lock_data E C l) (\<lambda>d. upload_lock E C l d) w1 = (Inr (), w2)"
      "clk w1 \<le> t" "t \<le> clk w2" "lock_abs E (view w2 LOCK_FILENAME) = Some (new_lock E l t)"
      using take_lock_quiet[OF assms(1)] by blast
    moreover have "try_acquire E C l w = (Inr (), w2)"
      using w1(1) None w2(1) by (simp add: try_acquire_def)
    ultimately show thesis
      using that[of "clk w1" w2] w1(3) by (auto simp: holder_def)
  next
    case (Some b)
    then obtain lock where lock: "de_lock E b = Inr lock"
      and a: "a = Some (lf_device_id lock, rfc3339_parse E (lf_expires_at lock))"
      using assms(2) by (auto simp: lock_abs_def split: sum.splits)
    obtain w2 ex where w2: "is_expired E C lock w1 = (Inr ex :: sync_error + bool, w2)" "clk w1 \<le> clk w2" "view w2 = view w1"
      "ex \<longleftrightarrow> holder a (clk w2) = None"
      using is_expired_quiet unfolding a by metis
    have hold: "holder a (clk w2) = Some d \<Longrightarrow> d = lf_device_id lock" for d
      by (auto simp: a holder_def split: option.splits if_splits)
    have step: "try_acquire E C l w =
        (if ex \<or> lf_device_id lock = sl_device_id l
         then io_bind (create_lock_data E C l) (\<lambda>d. upload_lock E C l d) w2
         else (Inl (held_by_other lock), w2))"
      using w1(1) Some lock w2(1) by (simp add: try_acquire_def parse_lock_def io_bind_def)
    show thesis
    proof (cases "ex \<or> lf_device_id lock = sl_device_id l")
      case True
      obtain w3 t where w3: "io_bind (create_lock_data E C l) (\<lambda>d. upload_lock E C l d) w2 = (Inr (), w3)"
        "clk w2 \<le> t" "t \<le> clk w3" "lock_abs E (view w3 LOCK_FILENAME) = Some (new_lock E l t)"
        using take_lock_quiet[OF assms(1)] by blast
      have "holder a (clk w2) \<in> {None, Some (sl_device_id l)}"
        using True w2(4) hold by (cases "holder a (clk w2)") auto
      then show thesis
        using that[of "clk w2" w3] w3 step True w1(3) w2(2) by auto
    next
      case False
      then have "holder a (clk w2) \<notin> {None, Some (sl_device_id l)}"
        using w2(4) hold by auto
      then show thesis
        using that[of "clk w2" w2] step False w1(2,3) w2(2,3) by (simp add: held_by_other_def)
    qed
  qed
qed

text \<open>Every attempt takes time, whatever its outcome.\<close>

lemma clk_mono_io:
  "io_now C w = (r, w') \<Longrightarrow> clk w \<le> clk w'"
  using now_clk[of w] by (auto simp: io_now_def split: prod.splits)

lemma create_upload_clk:
  fixes E :: "('x) lock_env_scheme"
  assumes "io_bind (create_lock_data E C l) (\<lambda>d. upload_lock E C l d) w = (r, w')"
  shows "clk w \<le> clk w'"
proof -
  obtain t w1 where t: "clock_now C w = (t, w1)" "clk w \<le> clk w1"
    using now_quiet by blast
  show ?thesis
    using assms t write_clk[of LOCK_FILENAME _ w1]
    by (fastforce simp: create_lock_data_def io_now_def upload_lock_def upload_raw_def io_map_err_def io_bind_def
        split: prod.splits sum.splits)
qed

lemma try_acquire_clk:
  fixes E :: "('x) lock_env_scheme"
  assumes "try_acquire E C l w = (r, w')"
  shows "clk w < clk w'"
proof -
  obtain w1 where w1: "download_raw C (sl_provider l) LOCK_FILENAME w = (Inr (view w LOCK_FILENAME), w1)" "clk w < clk w1"
    by (rule download_raw_quiet)
  have "clk w1 \<le> clk w'"
  proof (cases "view w LOCK_FILENAME")
    case None
    then show ?thesis
      using assms w1(1) create_upload_clk[of E l w1] by (simp add: try_acquire_def)
  next
    case (Some b)
    show ?thesis
    proof (cases "parse_lock E b")
      case (Inl e)
      then show ?thesis
        using assms w1(1) Some by (simp add: try_acquire_def io_bind_def)
    next
      case (Inr lock)
      obtain w2 ex where w2: "is_expired E C lock w1 = (Inr ex :: sync_error + bool, w2)" "clk w1 \<le> clk w2"
        using is_expired_quiet by metis
      have "try_acquire E C l w =
          (if ex \<or> lf_device_id lock = sl_device_id l
           then io_bind (create_lock_data E C l) (\<lambda>d. upload_lock E C l d) w2
           else (Inl (held_by_other lock), w2))"
        using w1(1) Some Inr w2(1) by (simp add: try_acquire_def io_bind_def)
      then show ?thesis
        using assms create_upload_clk[of E l w2 r w'] w2(2) by (auto split: if_splits)
    qed
  qed
  then show ?thesis
    using w1(2) by simp
qed

lemma poll_sleep_clk: "clk w \<le> clk (poll_sleep C l el w)"
proof -
  have "clk w \<le> clk (sleep_millis C n w)" for n
    using sleep_clk[of w n] by simp
  then show ?thesis
    by (simp add: poll_sleep_def Let_def)
qed

lemma acquire_loop_returns:
  fixes E :: "('x) lock_env_scheme"
  assumes "T = max 0 (trunc_div (sl_acquire_timeout l) nanos_per_sec * nanos_per_sec)"
    "nat (start + T - clk w) < fuel"
  shows "\<exists>r. acquire_loop fuel E C l start w = Some r"
  using assms(2)
proof (induction fuel arbitrary: w)
  case (Suc fuel)
  obtain now w1 where now: "clock_now C w = (now, w1)" "now = clk w1" "clk w \<le> clk w1"
    using now_quiet by blast
  obtain r w2 where tr: "try_acquire E C l w1 = (r, w2)" by fastforce
  show ?case
  proof (cases "trunc_div (now - start) nanos_per_sec \<ge> trunc_div (sl_acquire_timeout l) nanos_per_sec")
    case True
    then show ?thesis using now(1) by (simp add: Let_def)
  next
    case False
    have "now - start < T"
    proof (rule ccontr)
      assume "\<not> now - start < T"
      then have "max 0 (trunc_div (sl_acquire_timeout l) nanos_per_sec * nanos_per_sec) \<le> now - start"
        unfolding assms(1) not_less .
      then have "trunc_div (sl_acquire_timeout l) nanos_per_sec \<le> (now - start) div nanos_per_sec" "0 \<le> now - start"
        by (auto simp: nanos_per_sec_def intro: int_le_div)
      then show False
        using False by (simp add: trunc_div_def)
    qed
    then have "nat (start + T - clk (poll_sleep C l (now - start) w2)) < fuel"
      using Suc.prems now(2,3) try_acquire_clk[OF tr] poll_sleep_clk[of w2 l "now - start"] by linarith
    then obtain r' where "acquire_loop fuel E C l start (poll_sleep C l (now - start) w2) = Some r'"
      using Suc.IH by blast
    then show ?thesis
      using False now(1) tr by (simp add: Let_def split: sum.splits sync_error.splits)
  qed
qed simp

lemma try_acquire_success:
  fixes E :: "('x) lock_env_scheme"
  assumes "lock_json_laws E" "lock_abs E (view w LOCK_FILENAME) = Some a"
    "try_acquire E C l w = (Inr (), w')"
  obtains t where "clk w < t" "t \<le> clk w'" "lock_abs E (view w' LOCK_FILENAME) = Some (new_lock E l t)"
proof -
  obtain now w'' where n: "clk w < now" "now \<le> clk w''"
    "if holder a now \<in> {None, Some (sl_device_id l)}
     then \<exists>t. now \<le> t \<and> t \<le> clk w'' \<and> try_acquire E C l w = (Inr (), w'')
        \<and> lock_abs E (view w'' LOCK_FILENAME) = Some (new_lock E l t)
     else \<exists>r. try_acquire E C l w = (Inl (LockAcquireFailed r), w'') \<and> view w'' = view w"
    using try_acquire_quiet[OF assms(1,2)] by blast
  show thesis
  proof (cases "holder a now \<in> {None, Some (sl_device_id l)}")
    case True
    then obtain t where "now \<le> t" "t \<le> clk w''" "w'' = w'"
      "lock_abs E (view w'' LOCK_FILENAME) = Some (new_lock E l t)"
      using n(3) assms(3) by auto
    then show thesis
      using that[of t] n(1) by simp
  next
    case False
    then show thesis
      using n(3) assms(3) by (auto split: if_splits)
  qed
qed

end

interpretation mem_clock: quiet_clock mem_ops "\<lambda>w. map_of (mw_files w)" mw_clock
  by unfold_locales (auto simp: mem_defs split: option.splits)

section \<open>Mutual exclusion\<close>

lemma new_lock_holder:
  assumes "env_laws E" "printable_time (t + sl_lock_ttl l)"
  shows "holder (new_lock E l t) now = (if now < t + sl_lock_ttl l then Some (sl_device_id l) else None)"
  using assms by (simp add: holder_def new_lock_def env_laws_def)

lemma printable_between: "printable_time a \<Longrightarrow> printable_time b \<Longrightarrow> a \<le> c \<Longrightarrow> c \<le> b \<Longrightarrow> printable_time c"
  by (simp add: printable_time_def)

text \<open>
  C12: \<open>try_acquire\<close> implements the abstract lock. On a store no other client touches during the call,
  with a lock file that is absent or lock JSON, it succeeds exactly when at the time of its check
  nobody, or this device, holds an unexpired lock, and the file then names this device with an
  expiry one time-to-live after a moment within the call; otherwise it fails with
  \<open>LockAcquireFailed\<close> and the file is untouched.
\<close>

theorem try_acquire_refines:
  fixes E :: "('x) lock_env_scheme"
  assumes "quiet_clock C view clk" "lock_json_laws E" "lock_abs E (view w LOCK_FILENAME) = Some a"
  shows "\<exists>now w'. clk w < now \<and> now \<le> clk w' \<and>
    (if holder a now \<in> {None, Some (sl_device_id l)}
     then \<exists>t. now \<le> t \<and> t \<le> clk w' \<and> try_acquire E C l w = (Inr (), w')
        \<and> lock_abs E (view w' LOCK_FILENAME) = Some (new_lock E l t)
     else \<exists>r. try_acquire E C l w = (Inl (LockAcquireFailed r), w') \<and> view w' = view w)"
  using quiet_clock.try_acquire_quiet[OF assms] by metis

text \<open>The demonstration environment with a codec for lock files.\<close>

instance lock_file_data_ext :: (countable) countable
proof
  show "\<exists>f :: 'a lock_file_data_scheme \<Rightarrow> nat. inj f"
    by (rule exI[of _ "\<lambda>r. to_nat (lf_device_id r, lf_acquired_at r, lf_expires_at r, lock_file_data.more r)"])
       (auto intro!: injI lock_file_data.equality)
qed

definition demo_lock_env :: lock_env where
  "demo_lock_env = cloud_env.extend demo_cloud_env
     \<lparr> ser_lock = (\<lambda>d. Inr (unary_enc d)), de_lock = (\<lambda>s. Inr (unary_dec s)), duration_debug = (\<lambda>_. ''30s'') \<rparr>"

lemma demo_lock_env_laws: "env_laws demo_lock_env" "lock_json_laws demo_lock_env"
  using demo_cloud_env_laws
  by (simp_all add: env_laws_def demo_lock_env_def cloud_env.defs lock_json_laws_def)

lemma mem_init_unlocked: "lock_abs E (map_of (mw_files (mem_init t)) LOCK_FILENAME) = Some None"
  by (simp add: mem_init_def lock_abs_def)

theorem try_acquire_refines_witness:
  "\<exists>w'. try_acquire demo_lock_env mem_ops (sync_lock_new ''webdav'' ''A'') (mem_init 0) = (Inr (), w')
     \<and> (\<exists>t. lock_abs demo_lock_env (map_of (mw_files w') LOCK_FILENAME)
            = Some (new_lock demo_lock_env (sync_lock_new ''webdav'' ''A'') t))"
  using try_acquire_refines[OF mem_clock.quiet_clock_axioms demo_lock_env_laws(2) mem_init_unlocked,
      of 0 "sync_lock_new ''webdav'' ''A''"]
  by (auto simp: holder_def)

text \<open>
  C13: mutual exclusion between calls. When device A's attempt has succeeded and the lock file is
  still as A left it, an attempt of another device B that ends before A's time-to-live has run
  out fails and leaves A's lock in place.
\<close>

theorem lock_excludes_others:
  fixes E :: "('x) lock_env_scheme"
  assumes q: "quiet_clock C view clk" and js: "lock_json_laws E" and env: "env_laws E"
    and A: "try_acquire E C A w = (Inr (), w1)" "lock_abs E (view w LOCK_FILENAME) \<noteq> None"
    and still: "view w2 LOCK_FILENAME = view w1 LOCK_FILENAME" "clk w1 \<le> clk w2"
    and B: "try_acquire E C B w2 = (r, w3)" "sl_device_id B \<noteq> sl_device_id A"
    and inside: "clk w3 < clk w + sl_lock_ttl A"
    and times: "printable_time (clk w)" "printable_time (clk w1 + sl_lock_ttl A)" "0 \<le> sl_lock_ttl A"
  shows "(\<exists>why. r = Inl (LockAcquireFailed why)) \<and> view w3 LOCK_FILENAME = view w1 LOCK_FILENAME"
proof -
  obtain a where a: "lock_abs E (view w LOCK_FILENAME) = Some a"
    using A(2) by blast
  obtain t where t: "clk w < t" "t \<le> clk w1" "lock_abs E (view w1 LOCK_FILENAME) = Some (new_lock E A t)"
    using quiet_clock.try_acquire_success[OF q js a A(1)] by blast
  have "printable_time (t + sl_lock_ttl A)"
    by (rule printable_between[OF times(1,2)]) (use t times(3) in auto)
  then have hold: "holder (new_lock E A t) now = Some (sl_device_id A)" if "now \<le> clk w3" for now
    using new_lock_holder[OF env] that inside t(1) by simp
  obtain now w' where "now \<le> clk w'"
    "if holder (new_lock E A t) now \<in> {None, Some (sl_device_id B)}
     then \<exists>t. now \<le> t \<and> t \<le> clk w' \<and> try_acquire E C B w2 = (Inr (), w')
        \<and> lock_abs E (view w' LOCK_FILENAME) = Some (new_lock E B t)
     else \<exists>r. try_acquire E C B w2 = (Inl (LockAcquireFailed r), w') \<and> view w' = view w2"
    using quiet_clock.try_acquire_quiet[OF q js, of w2 "new_lock E A t" B] t(3) still(1) by metis
  moreover have "w' = w3"
    using calculation(2) B(1) by (auto split: if_splits)
  ultimately show ?thesis
    using hold[of now] B still(1) by auto
qed

definition demo_lock_file :: "string \<Rightarrow> timestamp \<Rightarrow> lock_file_data" where
  "demo_lock_file d t = \<lparr> lf_device_id = d, lf_acquired_at = rfc3339_show demo_env t,
     lf_expires_at = rfc3339_show demo_env (t + 300000000000) \<rparr>"

lemma demo_take_lock:
  assumes "clock_now C = clock_now mem_ops" "op_write C = op_write mem_ops"
  shows "io_bind (create_lock_data demo_lock_env C (sync_lock_new prov d))
      (\<lambda>x. upload_lock demo_lock_env C (sync_lock_new prov d) x) w
    = (Inr (), w\<lparr>mw_files := AList.update LOCK_FILENAME (unary_enc (demo_lock_file d (mw_clock w))) (mw_files w)\<rparr>)"
  using assms
  by (simp add: io_bind_def io_map_err_def mem_defs create_lock_data_def upload_lock_def upload_raw_def
      demo_lock_env_def cloud_env.defs demo_cloud_env_def sync_lock_new_def LOCK_TTL_SECONDS_def
      nanos_per_sec_def demo_lock_file_def)

lemma try_acquire_not_found:
  "op_read C LOCK_FILENAME w = (Inl not_found, w1) \<Longrightarrow>
   try_acquire E C l w = io_bind (create_lock_data E C l) (\<lambda>d. upload_lock E C l d) w1"
  by (simp add: try_acquire_def io_bind_def download_raw_def read_file_def io_map_err_def not_found_def
      map_opendal_error_def not_found_as_def)

definition demo_locked :: "timestamp \<Rightarrow> mem_world" where
  "demo_locked t = \<lparr> mw_files = [(LOCK_FILENAME, unary_enc (demo_lock_file ''A'' 1))], mw_clock = t, mw_seed = 0 \<rparr>"

lemma demo_acquire_A:
  "try_acquire demo_lock_env mem_ops (sync_lock_new ''webdav'' ''A'') (mem_init 0) = (Inr (), demo_locked 1)"
proof -
  have rd: "op_read mem_ops LOCK_FILENAME (mem_init 0) = (Inl not_found, mem_init 1)"
    by (simp add: mem_defs mem_init_def)
  show ?thesis
    unfolding try_acquire_not_found[OF rd] by (simp add: demo_take_lock mem_init_def demo_locked_def)
qed

lemma demo_acquire_B_clock:
  "mw_clock (snd (try_acquire demo_lock_env mem_ops (sync_lock_new ''webdav'' ''B'') (demo_locked 1))) = 2"
proof -
  have p: "rfc3339_parse demo_env (rfc3339_show demo_env 300000000001) = Some 300000000001"
    using demo_env_laws by (simp add: env_laws_def printable_time_def)
  show ?thesis
    using p
    by (simp add: try_acquire_def io_bind_def download_raw_def read_file_def io_map_err_def mem_defs
      not_found_as_def demo_locked_def demo_lock_env_def cloud_env.defs demo_cloud_env_def parse_lock_def
      is_expired_def demo_lock_file_def sync_lock_new_def)
qed

theorem lock_excludes_others_witness:
  "\<exists>why w3. try_acquire demo_lock_env mem_ops (sync_lock_new ''webdav'' ''A'') (mem_init 0) = (Inr (), demo_locked 1)
    \<and> try_acquire demo_lock_env mem_ops (sync_lock_new ''webdav'' ''B'') (demo_locked 1) = (Inl (LockAcquireFailed why), w3)"
proof -
  obtain r w3 where B: "try_acquire demo_lock_env mem_ops (sync_lock_new ''webdav'' ''B'') (demo_locked 1) = (r, w3)"
    by fastforce
  have "mw_clock w3 = 2"
    using demo_acquire_B_clock B by simp
  then have "\<exists>why. r = Inl (LockAcquireFailed why)"
    using lock_excludes_others[OF mem_clock.quiet_clock_axioms demo_lock_env_laws(2,1) demo_acquire_A _ refl _ B]
      mem_init_unlocked[of demo_lock_env 0]
    by (auto simp: sync_lock_new_def demo_locked_def mem_init_def printable_time_def LOCK_TTL_SECONDS_def nanos_per_sec_def)
  then show ?thesis
    using B demo_acquire_A by blast
qed

definition race_ops :: "mem_world cloud_ops" where
  "race_ops = mem_ops\<lparr>op_read := (\<lambda>p w. case mem_read p w of
     (r, w') \<Rightarrow> (r, snd (try_acquire demo_lock_env mem_ops (sync_lock_new ''webdav'' ''B'') w')))\<rparr>"

definition raced_world :: mem_world where
  "raced_world = snd (mem_read LOCK_FILENAME (mem_init 0))"

lemma race_ops_simps:
  "clock_now race_ops = clock_now mem_ops" "op_write race_ops = op_write mem_ops"
  by (simp_all add: race_ops_def)

text \<open>
  the lock is not atomic. The check and the write are two calls, and when a second device's
  whole attempt falls between them both devices are told they hold the lock, and the file names
  only the one that wrote last. (The interleaving is the operator \<open>race_ops\<close>: device B runs right
  after device A's read.)
\<close>

theorem lock_race:
  "fst (try_acquire demo_lock_env mem_ops (sync_lock_new ''webdav'' ''B'') raced_world) = Inr ()
   \<and> fst (try_acquire demo_lock_env race_ops (sync_lock_new ''webdav'' ''A'') (mem_init 0)) = Inr ()
   \<and> lock_abs demo_lock_env (map_of (mw_files (snd (try_acquire demo_lock_env race_ops
        (sync_lock_new ''webdav'' ''A'') (mem_init 0)))) LOCK_FILENAME)
      = Some (Some (''A'', Some 300000000002))"
proof -
  have rw: "raced_world = (mem_init 0)\<lparr>mw_clock := 1\<rparr>"
    by (simp add: raced_world_def mem_defs mem_init_def)
  have rdB: "op_read mem_ops LOCK_FILENAME raced_world = (Inl not_found, raced_world\<lparr>mw_clock := 2\<rparr>)"
    by (simp add: rw mem_defs mem_init_def)
  have B: "try_acquire demo_lock_env mem_ops (sync_lock_new ''webdav'' ''B'') raced_world =
      (Inr (), \<lparr> mw_files = [(LOCK_FILENAME, unary_enc (demo_lock_file ''B'' 2))], mw_clock = 2, mw_seed = 0 \<rparr>)"
    unfolding try_acquire_not_found[OF rdB] by (simp add: demo_take_lock rw mem_init_def)
  have rdA: "op_read race_ops LOCK_FILENAME (mem_init 0) = (Inl not_found,
      \<lparr> mw_files = [(LOCK_FILENAME, unary_enc (demo_lock_file ''B'' 2))], mw_clock = 2, mw_seed = 0 \<rparr>)"
    using B[unfolded raced_world_def] by (simp add: race_ops_def mem_read_def mem_init_def)
  have A: "try_acquire demo_lock_env race_ops (sync_lock_new ''webdav'' ''A'') (mem_init 0) =
      (Inr (), \<lparr> mw_files = [(LOCK_FILENAME, unary_enc (demo_lock_file ''A'' 2))], mw_clock = 2, mw_seed = 0 \<rparr>)"
    unfolding try_acquire_not_found[OF rdA] by (simp add: demo_take_lock race_ops_simps)
  have parse: "rfc3339_parse demo_env (rfc3339_show demo_env 300000000002) = Some 300000000002"
    using demo_env_laws by (simp add: env_laws_def printable_time_def)
  show ?thesis
    unfolding A B using parse by (simp add: lock_abs_def demo_lock_env_def cloud_env.defs demo_cloud_env_def demo_lock_file_def)
qed

section \<open>Releasing and waiting\<close>

text \<open>
  \<open>release\<close> removes the lock exactly when this device is its holder of record, expired or not,
  leaves every other lock alone, and succeeds in both cases; after it this device does not hold
  the lock.
\<close>

theorem release_only_own:
  fixes E :: "('x) lock_env_scheme"
  assumes "quiet_clock C view clk" "lock_abs E (view w LOCK_FILENAME) = Some a"
  shows "\<exists>w'. release E C l w = (Inr (), w')
    \<and> view w' = (if \<exists>e. a = Some (sl_device_id l, e) then (view w)(LOCK_FILENAME := None) else view w)"
proof -
  obtain w1 where w1: "download_raw C (sl_provider l) LOCK_FILENAME w = (Inr (view w LOCK_FILENAME), w1)"
    "view w1 = view w"
    by (rule quiet_clock.download_raw_quiet[OF assms(1)])
  obtain w2 where w2: "delete_raw C (sl_provider l) LOCK_FILENAME w1 = (Inr (), w2)"
    "view w2 = (view w1)(LOCK_FILENAME := None)"
    using quiet_cloud.delete_path_quiet[OF quiet_clock.axioms(1)[OF assms(1)]] unfolding delete_raw_def by blast
  show ?thesis
    using w1 w2 assms(2)
    by (cases "view w LOCK_FILENAME")
       (auto simp: release_def lock_abs_def parse_lock_def io_bind_def split: sum.splits)
qed

theorem release_only_own_witness:
  "\<exists>w'. release demo_lock_env mem_ops (sync_lock_new ''webdav'' ''A'') (mem_init 0) = (Inr (), w')
     \<and> map_of (mw_files w') = map_of []"
  using release_only_own[OF mem_clock.quiet_clock_axioms mem_init_unlocked, of demo_lock_env
      "sync_lock_new ''webdav'' ''A''"]
  by (simp add: mem_init_def)



end
