(* ===== verification/Checkpoint.thy ===== *)
theory Checkpoint
  imports Sync_Error Env "HOL-Library.Countable"
begin

text \<open>
  \<open>sync/checkpoint.rs\<close>: the sync checkpoint and its file. The calls to \<open>std::fs\<close> are the record
  \<open>fs_ops\<close> on a world, each of which may fail; the locale \<open>local_fs\<close> states what the file system
  promises of the ones that succeed and of the ones that fail. A \<open>HashSet\<close> is a list without
  duplicates.
\<close>

record 'w fs_ops =
  fs_write :: "string \<Rightarrow> bytes \<Rightarrow> ('w, string, unit) io"
  fs_rename :: "string \<Rightarrow> string \<Rightarrow> ('w, string, unit) io"
  fs_read_to_string :: "string \<Rightarrow> ('w, string, string) io"
  fs_remove_file :: "string \<Rightarrow> ('w, string, unit) io"
  fs_exists :: "string \<Rightarrow> 'w \<Rightarrow> bool \<times> 'w"

text \<open>\<open>Path::join\<close> of a directory and a relative file name.\<close>

definition path_join :: "string \<Rightarrow> string \<Rightarrow> string" where
  "path_join dir name =
     (if dir = [] \<or> last dir = CHR ''/'' then dir @ name else dir @ ''/'' @ name)"

definition CHECKPOINT_FILENAME :: string where "CHECKPOINT_FILENAME = ''.sync_checkpoint.json''"
definition TEMP_SUFFIX :: string where "TEMP_SUFFIX = ''.tmp''"

record pending_conflict =
  pc_record_id :: uuid
  pc_local_version :: u64
  pc_remote_version :: u64

record sync_checkpoint =
  sc_vault_dir :: string
  sc_push_completed_ids :: "uuid list"
  sc_pull_completed_ids :: "uuid list"
  sc_detect_completed :: bool
  sc_pending_conflicts :: "pending_conflict list"

definition checkpoint_path :: "string \<Rightarrow> string" where
  "checkpoint_path dir = path_join dir CHECKPOINT_FILENAME"

definition temp_path :: "string \<Rightarrow> string" where
  "temp_path dir = path_join dir (CHECKPOINT_FILENAME @ TEMP_SUFFIX)"

definition checkpoint_new :: "string \<Rightarrow> sync_checkpoint" where
  "checkpoint_new dir = \<lparr> sc_vault_dir = dir, sc_push_completed_ids = [], sc_pull_completed_ids = [],
     sc_detect_completed = False, sc_pending_conflicts = [] \<rparr>"

definition is_complete :: "sync_checkpoint \<Rightarrow> bool" where
  "is_complete c \<longleftrightarrow> sc_detect_completed c \<and> sc_pending_conflicts c = []"

definition record_push_done :: "uuid \<Rightarrow> sync_checkpoint \<Rightarrow> sync_checkpoint" where
  "record_push_done i c = c\<lparr>sc_push_completed_ids := List.insert i (sc_push_completed_ids c)\<rparr>"

definition record_pull_done :: "uuid \<Rightarrow> sync_checkpoint \<Rightarrow> sync_checkpoint" where
  "record_pull_done i c = c\<lparr>sc_pull_completed_ids := List.insert i (sc_pull_completed_ids c)\<rparr>"

definition add_pending_conflict :: "pending_conflict \<Rightarrow> sync_checkpoint \<Rightarrow> sync_checkpoint" where
  "add_pending_conflict p c = c\<lparr>sc_pending_conflicts := sc_pending_conflicts c @ [p]\<rparr>"

definition resolve_conflict :: "uuid \<Rightarrow> sync_checkpoint \<Rightarrow> bool \<times> sync_checkpoint" where
  "resolve_conflict i c =
     (let initial_len = length (sc_pending_conflicts c);
          c' = c\<lparr>sc_pending_conflicts := filter (\<lambda>p. pc_record_id p \<noteq> i) (sc_pending_conflicts c)\<rparr>
      in (length (sc_pending_conflicts c') < initial_len, c'))"

record check_env =
  ser_checkpoint :: "sync_checkpoint \<Rightarrow> string + string"
  de_checkpoint :: "string \<Rightarrow> string + sync_checkpoint"

definition checkpoint_save ::
  "('x) check_env_scheme \<Rightarrow> ('w, 'y) fs_ops_scheme \<Rightarrow> sync_checkpoint \<Rightarrow> ('w, sync_error, unit) io" where
  "checkpoint_save E F c =
     (let tmp = temp_path (sc_vault_dir c); final_path = checkpoint_path (sc_vault_dir c) in
      io_bind (io_lift (map_err SerializationFailed (ser_checkpoint E c))) (\<lambda>json.
      io_bind (io_map_err (\<lambda>e. SerializationFailed (''failed to write temp checkpoint: '' @ e)) (fs_write F tmp json)) (\<lambda>_.
      io_map_err (\<lambda>e. SerializationFailed (''failed to rename temp to final checkpoint: '' @ e))
        (fs_rename F tmp final_path))))"

definition checkpoint_load ::
  "('x) check_env_scheme \<Rightarrow> ('w, 'y) fs_ops_scheme \<Rightarrow> string \<Rightarrow> ('w, sync_error, sync_checkpoint) io" where
  "checkpoint_load E F dir =
     io_bind (io_map_err (\<lambda>e. SerializationFailed (''failed to read checkpoint: '' @ e))
                (fs_read_to_string F (checkpoint_path dir))) (\<lambda>json.
     io_bind (io_lift (map_err (\<lambda>e. DeserializationFailed (''checkpoint corrupted: '' @ e)) (de_checkpoint E json)))
       (\<lambda>c. io_return (c\<lparr>sc_vault_dir := dir\<rparr>)))"

text \<open>One \<open>if path.exists() { remove_file }\<close> block of \<open>cleanup\<close>.\<close>

definition remove_if_exists ::
  "('w, 'y) fs_ops_scheme \<Rightarrow> string \<Rightarrow> string \<Rightarrow> ('w, sync_error, unit) io" where
  "remove_if_exists F msg p w = (case fs_exists F p w of
     (True, w') \<Rightarrow> io_map_err (\<lambda>e. SerializationFailed (msg @ e)) (fs_remove_file F p) w'
   | (False, w') \<Rightarrow> (Inr (), w'))"

definition checkpoint_cleanup ::
  "('w, 'y) fs_ops_scheme \<Rightarrow> string \<Rightarrow> ('w, sync_error, unit) io" where
  "checkpoint_cleanup F dir =
     io_bind (remove_if_exists F ''failed to remove checkpoint: '' (checkpoint_path dir)) (\<lambda>_.
     remove_if_exists F ''failed to remove temp checkpoint: '' (temp_path dir))"

definition from_corrupted_or_none ::
  "('x) check_env_scheme \<Rightarrow> ('w, 'y) fs_ops_scheme \<Rightarrow> string \<Rightarrow> 'w \<Rightarrow> sync_checkpoint \<times> 'w" where
  "from_corrupted_or_none E F dir w =
     (case fs_exists F (checkpoint_path dir) w of
        (False, w') \<Rightarrow> (checkpoint_new dir, w')
      | (True, w') \<Rightarrow> (case checkpoint_load E F dir w' of
            (Inr c, w'') \<Rightarrow> (c, w'')
          | (Inl _, w'') \<Rightarrow> (checkpoint_new dir, w'')))"

section \<open>Progress bookkeeping\<close>

datatype check_step = PushDone uuid | PullDone uuid | AddConflict pending_conflict | Resolve uuid

definition apply_check_step :: "check_step \<Rightarrow> sync_checkpoint \<Rightarrow> sync_checkpoint" where
  "apply_check_step s c = (case s of
     PushDone i \<Rightarrow> record_push_done i c | PullDone i \<Rightarrow> record_pull_done i c
   | AddConflict p \<Rightarrow> add_pending_conflict p c | Resolve i \<Rightarrow> snd (resolve_conflict i c))"

definition check_inv :: "sync_checkpoint \<Rightarrow> bool" where
  "check_inv c \<longleftrightarrow> distinct (sc_push_completed_ids c) \<and> distinct (sc_pull_completed_ids c)"

interpretation check: invariant_system "\<lambda>c. \<exists>dir. c = checkpoint_new dir" apply_check_step check_inv
  by unfold_locales
     (auto simp: check_inv_def checkpoint_new_def apply_check_step_def record_push_done_def
        record_pull_done_def add_pending_conflict_def resolve_conflict_def Let_def split: check_step.splits)

lemma resolve_conflict_result:
  "fst (resolve_conflict i c) \<longleftrightarrow> (\<exists>p \<in> set (sc_pending_conflicts c). pc_record_id p = i)"
  "sc_pending_conflicts (snd (resolve_conflict i c)) = filter (\<lambda>p. pc_record_id p \<noteq> i) (sc_pending_conflicts c)"
proof -
  have "length (filter (\<lambda>p. pc_record_id p \<noteq> i) xs) < length xs \<longleftrightarrow> (\<exists>p \<in> set xs. pc_record_id p = i)" for xs
    by (induction xs) (auto simp: less_Suc_eq_le)
  then show "fst (resolve_conflict i c) \<longleftrightarrow> (\<exists>p \<in> set (sc_pending_conflicts c). pc_record_id p = i)"
    by (simp add: resolve_conflict_def Let_def)
qed (simp add: resolve_conflict_def Let_def)

text \<open>Resolving every id of the pending conflicts completes a checkpoint whose detect phase is done.\<close>

lemma resolve_all_pending:
  "sc_pending_conflicts (fold (\<lambda>i. snd \<circ> resolve_conflict i) ids c)
     = filter (\<lambda>p. pc_record_id p \<notin> set ids) (sc_pending_conflicts c)"
  by (induction ids arbitrary: c) (auto simp: resolve_conflict_result intro: filter_cong)

lemma fold_check_sets:
  "set (sc_push_completed_ids (fold apply_check_step ss c)) =
     set (sc_push_completed_ids c) \<union> {i. PushDone i \<in> set ss}"
  "set (sc_pull_completed_ids (fold apply_check_step ss c)) =
     set (sc_pull_completed_ids c) \<union> {i. PullDone i \<in> set ss}"
  by (induction ss arbitrary: c)
     (auto simp: apply_check_step_def record_push_done_def record_pull_done_def
        add_pending_conflict_def resolve_conflict_def Let_def split: check_step.splits)

text \<open>
  Progress in a checkpoint is monotone and exact: after any run of progress steps from a fresh
  checkpoint, the pushed and pulled ids are exactly the ones recorded, each once, and resolving
  the ids of all pending conflicts leaves none.
\<close>

theorem checkpoint_progress_exact:
  "let c = fold apply_check_step ss (checkpoint_new dir) in
   distinct (sc_push_completed_ids c) \<and> distinct (sc_pull_completed_ids c)
   \<and> set (sc_push_completed_ids c) = {i. PushDone i \<in> set ss}
   \<and> set (sc_pull_completed_ids c) = {i. PullDone i \<in> set ss}
   \<and> sc_pending_conflicts (fold (\<lambda>i. snd \<circ> resolve_conflict i) (map pc_record_id (sc_pending_conflicts c)) c) = []"
proof -
  have "check_inv (fold apply_check_step ss (checkpoint_new dir))"
    by (rule check.run_inv) blast
  then show ?thesis
    by (auto simp: Let_def check_inv_def fold_check_sets resolve_all_pending checkpoint_new_def)
qed

section \<open>Crash safety of the checkpoint file\<close>

text \<open>
  The file system: a failed or interrupted write may leave anything at its own path, a rename is
  all or nothing, reads see the file.
\<close>

locale local_fs =
  fixes F :: "('w, 'y) fs_ops_scheme" and files :: "'w \<Rightarrow> string \<Rightarrow> bytes option"
  assumes write_other: "fs_write F p b w = (r, w') \<Longrightarrow> q \<noteq> p \<Longrightarrow> files w' q = files w q"
    and write_done: "fs_write F p b w = (Inr u, w') \<Longrightarrow> files w' p = Some b"
    and rename_done: "fs_rename F p q w = (Inr u, w') \<Longrightarrow> p \<noteq> q \<Longrightarrow> files w' = (files w)(p := None, q := files w p)"
    and rename_failed: "fs_rename F p q w = (Inl e, w') \<Longrightarrow> files w' = files w"
    and read_done: "fs_read_to_string F p w = (Inr s, w') \<Longrightarrow> files w p = Some s \<and> files w' = files w"
begin

lemma checkpoint_save_final:
  fixes E :: "('x) check_env_scheme"
  assumes "checkpoint_save E F c w = (r, w')"
  shows "files w' (checkpoint_path (sc_vault_dir c)) = files w (checkpoint_path (sc_vault_dir c))
       \<or> (\<exists>json. ser_checkpoint E c = Inr json \<and> r = Inr () \<and> files w' (checkpoint_path (sc_vault_dir c)) = Some json)"
    (is "files w' ?p = _ \<or> _")
proof -
  let ?t = "temp_path (sc_vault_dir c)"
  have ne: "?t \<noteq> ?p"
    by (simp add: temp_path_def checkpoint_path_def path_join_def CHECKPOINT_FILENAME_def TEMP_SUFFIX_def)
  show ?thesis
  proof (cases "ser_checkpoint E c")
    case (Inl e)
    then show ?thesis
      using assms by (simp add: checkpoint_save_def Let_def io_bind_def)
  next
    case (Inr json)
    obtain r1 w1 where wr: "fs_write F ?t json w = (r1, w1)" by fastforce
    have keep: "files w1 ?p = files w ?p"
      using write_other[OF wr] ne by simp
    obtain r2 w2 where rn: "fs_rename F ?t ?p w1 = (r2, w2)" by fastforce
    have moved: "files w2 ?p = Some json" if "r1 = Inr ()" "r2 = Inr ()"
      using rename_done[of ?t ?p w1 "()" w2] write_done[of ?t json w "()" w1] rn wr ne that by simp
    have stay: "files w2 ?p = files w1 ?p" if "r2 = Inl e" for e
      using rename_failed[of ?t ?p w1 e w2] rn that by simp
    show ?thesis
      using assms Inr wr rn keep moved stay
      by (cases r1; cases r2) (auto simp: checkpoint_save_def Let_def io_bind_def io_map_err_def)
  qed
qed

end


text \<open>
  An in-memory file system whose disk is full once it holds a given number of files: writing a new
  file then fails and leaves an empty file behind, as a real full disk does.
\<close>

type_synonym mem_fs = "(string \<times> bytes) list"

definition full_fs :: "nat \<Rightarrow> mem_fs fs_ops" where
  "full_fs cap = \<lparr>
     fs_write = (\<lambda>p b w. if length w < cap then (Inr (), AList.update p b w) else (Inl ''disk full'', AList.update p [] w)),
     fs_rename = (\<lambda>p q w. case map_of w p of None \<Rightarrow> (Inl ''no such file'', w)
        | Some b \<Rightarrow> (Inr (), AList.update q b (AList.delete p w))),
     fs_read_to_string = (\<lambda>p w. case map_of w p of None \<Rightarrow> (Inl ''no such file'', w)
        | Some b \<Rightarrow> (case from_utf8 b of Inl e \<Rightarrow> (Inl e, w) | Inr s \<Rightarrow> (Inr s, w))),
     fs_remove_file = (\<lambda>p w. case map_of w p of None \<Rightarrow> (Inl ''no such file'', w) | Some _ \<Rightarrow> (Inr (), AList.delete p w)),
     fs_exists = (\<lambda>p w. (map_of w p \<noteq> None, w)) \<rparr>"

interpretation full: local_fs "full_fs cap" map_of for cap
  by unfold_locales
     (auto simp: full_fs_def update_conv' delete_conv' fun_eq_iff
        split: option.splits if_splits sum.splits dest: from_utf8_same)

definition demo_check_env :: "sync_checkpoint \<Rightarrow> check_env" where
  "demo_check_env c0 = \<lparr> ser_checkpoint = (\<lambda>c. Inr ''new''), de_checkpoint = (\<lambda>s. Inr c0) \<rparr>"


end
