(* ===== verification/Conflict.thy ===== *)
theory Conflict
  imports Demo_Env
begin

text \<open>
  \<open>sync/conflict.rs\<close> and \<open>sync/nonce_validator.rs\<close>: conflict detection, storage and resolution, and
  the vault identity check.
\<close>

section \<open>Conflict detection and resolution\<close>

datatype conflict_action =
    Conflict (ca_local_version: u64) (ca_remote_version: u64)
  | DownloadOnly
  | UploadOnly
  | NoAction

datatype resolution_action = KeepLocal | KeepRemote

record resolved_conflict =
  rc_new_version :: u64
  rc_action :: resolution_action

record keep_remote_data =
  kr_cloud_record :: cloud_record
  kr_encrypted_data_base64 :: string
  kr_nonce_base64 :: string
  kr_dek_version :: u32
  kr_aad_json :: string
  kr_version :: u64
  kr_updated_at :: string

record conflict_item =
  ci_record_id :: uuid
  ci_conflict_data :: bytes
  ci_current_version :: u64

datatype resolution_strategy = StrategyKeepLocal | StrategyKeepRemote

record resolve_outcome =
  ro_record_id :: uuid
  ro_result :: "sync_error + resolved_conflict"

definition detect_conflicts :: "sync_status \<Rightarrow> u64 \<Rightarrow> u64 \<Rightarrow> conflict_action" where
  "detect_conflicts local_sync_status local_version remote_version =
     (case local_sync_status of
        StPending \<Rightarrow> if remote_version > local_version then Conflict local_version remote_version else UploadOnly
      | StSynced \<Rightarrow> if remote_version > local_version then DownloadOnly else NoAction
      | StConflict \<Rightarrow> NoAction)"

definition store_conflict :: "('x) cloud_env_scheme \<Rightarrow> cloud_record \<Rightarrow> string \<Rightarrow> sync_error + bytes" where
  "store_conflict E r checksum =
     (let payload = \<lparr> cp_cloud_record = r, cp_checksum = checksum \<rparr> in
      case conflict_validate E payload of
        Inl e \<Rightarrow> Inl e
      | Inr _ \<Rightarrow> conflict_serialize E payload)"

definition resolve_keep_local :: "u64 \<Rightarrow> resolved_conflict" where
  "resolve_keep_local current_version = \<lparr> rc_new_version = current_version + 1, rc_action = KeepLocal \<rparr>"

definition resolve_keep_remote :: "('x) cloud_env_scheme \<Rightarrow> bytes \<Rightarrow> sync_error + keep_remote_data" where
  "resolve_keep_remote E data =
     try_res (conflict_deserialize E data) (\<lambda>payload.
     try_res (conflict_validate E payload) (\<lambda>_.
     let r = cp_cloud_record payload in
     try_res (map_err (\<lambda>e. SerializationFailed (''failed to serialize AAD: '' @ e)) (ser_aad E (cr_aad r))) (\<lambda>aad_json.
     Inr \<lparr> kr_cloud_record = r, kr_encrypted_data_base64 = cr_encrypted_data r, kr_nonce_base64 = cr_nonce r,
           kr_dek_version = cr_dek_version r, kr_aad_json = aad_json, kr_version = cr_version r,
           kr_updated_at = rm_updated_at (cr_metadata r) \<rparr>)))"

definition resolve_item :: "('x) cloud_env_scheme \<Rightarrow> resolution_strategy \<Rightarrow> conflict_item \<Rightarrow> resolve_outcome" where
  "resolve_item E strategy item =
     \<lparr> ro_record_id = ci_record_id item,
       ro_result = (case strategy of
          StrategyKeepLocal \<Rightarrow> Inr (resolve_keep_local (ci_current_version item))
        | StrategyKeepRemote \<Rightarrow>
            try_res (resolve_keep_remote E (ci_conflict_data item))
              (\<lambda>kr. Inr \<lparr> rc_new_version = kr_version kr, rc_action = KeepRemote \<rparr>)) \<rparr>"

definition resolve_all_batch ::
  "('x) cloud_env_scheme \<Rightarrow> conflict_item list \<Rightarrow> resolution_strategy \<Rightarrow> resolve_outcome list" where
  "resolve_all_batch E items strategy = map (resolve_item E strategy) items"

section \<open>Vault identity (sync/nonce_validator.rs)\<close>

datatype identity_action = AllowSync | AdoptRemoteToken string | GenerateNewToken

definition validate_identity :: "string option \<Rightarrow> string option \<Rightarrow> sync_error + identity_action" where
  "validate_identity local_tok remote_tok = (case (local_tok, remote_tok) of
     (Some l, Some r) \<Rightarrow> if l = r then Inr AllowSync else Inl (VaultIdentityMismatch l r)
   | (None, Some r) \<Rightarrow> Inr (AdoptRemoteToken r)
   | (Some _, None) \<Rightarrow> Inr GenerateNewToken
   | (None, None) \<Rightarrow> Inr GenerateNewToken)"

definition generate_token ::
  "('x) env_scheme \<Rightarrow> ('w, 'y) cloud_ops_scheme \<Rightarrow> ('w, sync_error, string) io" where
  "generate_token E C =
     io_bind (io_map_err (\<lambda>e. ProviderError ''rng'' e) (os_random C 24)) (\<lambda>b. io_return (hex_encode E b))"

section \<open>What is stored can be resolved\<close>

text \<open>
  Conflict data round-trips. When the remote record is valid and its checksum is the one in the
  metadata, \<open>store_conflict\<close> succeeds, and resolving the stored bytes in favour of the remote
  yields that very record with its fields; with any other checksum nothing is stored.
\<close>

theorem store_resolve_roundtrip:
  fixes E :: "('x) cloud_env_scheme"
  assumes js: "cloud_json_laws E" and wf: "cloud_record_validate E r = Inr ()"
    and cs: "record_checksum E r = Inr cs"
  shows "if checksum = cs
    then \<exists>b kr. store_conflict E r checksum = Inr b \<and> resolve_keep_remote E b = Inr kr
           \<and> kr_cloud_record kr = r \<and> kr_version kr = cr_version r
           \<and> kr_encrypted_data_base64 kr = cr_encrypted_data r \<and> kr_dek_version kr = cr_dek_version r
    else store_conflict E r checksum = Inl (ChecksumMismatch checksum cs (cr_id r))"
proof (cases "checksum = cs")
  case True
  let ?p = "\<lparr> cp_cloud_record = r, cp_checksum = checksum \<rparr>"
  have ok: "conflict_validate E ?p = Inr ()"
    using wf cs True by (simp add: conflict_validate_def)
  obtain b where b: "ser_conflict E ?p = Inr b" "de_conflict E b = Inr ?p"
    using js unfolding cloud_json_laws_def by blast
  obtain a where "ser_aad E (cr_aad r) = Inr a"
    using js unfolding cloud_json_laws_def by blast
  then show ?thesis
    using True ok b
    by (simp add: store_conflict_def conflict_serialize_def resolve_keep_remote_def conflict_deserialize_def Let_def)
next
  case False
  then show ?thesis
    using wf cs by (simp add: store_conflict_def conflict_validate_def Let_def)
qed

lemma demo_record_valid:
  "cloud_record_validate demo_cloud_env (build_cloud_record demo_cloud_env demo_stored ''mail''
     (b64_encode demo_cloud_env (sr_encrypted_data demo_stored)) (b64_encode demo_cloud_env (sr_nonce demo_stored))
     \<lparr> aad_record_id = uuid_show demo_cloud_env (sr_id demo_stored), aad_dek_version = sr_dek_version demo_stored \<rparr> None) = Inr ()"
  "record_checksum demo_cloud_env (build_cloud_record demo_cloud_env demo_stored ''mail''
     (b64_encode demo_cloud_env (sr_encrypted_data demo_stored)) (b64_encode demo_cloud_env (sr_nonce demo_stored))
     \<lparr> aad_record_id = uuid_show demo_cloud_env (sr_id demo_stored), aad_dek_version = sr_dek_version demo_stored \<rparr> None)
     = Inr (hex_encode demo_cloud_env (sha256 demo_cloud_env (sr_encrypted_data demo_stored)))"
  using demo_cloud_env_laws
  by (auto simp: cloud_record_validate_ok record_wf_def build_cloud_record_def env_laws_def demo_stored_def
      record_checksum_def compute_checksum_def)

theorem store_resolve_roundtrip_witness:
  "\<exists>b kr. store_conflict demo_cloud_env (build_cloud_record demo_cloud_env demo_stored ''mail''
     (b64_encode demo_cloud_env (sr_encrypted_data demo_stored)) (b64_encode demo_cloud_env (sr_nonce demo_stored))
     \<lparr> aad_record_id = uuid_show demo_cloud_env (sr_id demo_stored), aad_dek_version = sr_dek_version demo_stored \<rparr> None)
     (hex_encode demo_cloud_env (sha256 demo_cloud_env (sr_encrypted_data demo_stored))) = Inr b
   \<and> resolve_keep_remote demo_cloud_env b = Inr kr"
  using store_resolve_roundtrip[OF demo_cloud_json_laws demo_record_valid,
      of "hex_encode demo_cloud_env (sha256 demo_cloud_env (sr_encrypted_data demo_stored))"]
  by auto

text \<open>
  What keeping the remote accepts: only a payload whose record passes validation (its AAD binds
  the record id and key version) and whose ciphertext has the recorded digest.
\<close>

lemma resolve_keep_remote_ok:
  "resolve_keep_remote E b = Inr kr \<Longrightarrow>
   record_wf E (kr_cloud_record kr)
   \<and> (\<exists>p. de_conflict E b = Inr p \<and> cp_cloud_record p = kr_cloud_record kr
         \<and> record_checksum E (kr_cloud_record kr) = Inr (cp_checksum p))
   \<and> kr_version kr = cr_version (kr_cloud_record kr)"
  by (auto simp: resolve_keep_remote_def monad_simps conflict_deserialize_def conflict_validate_def
      cloud_record_validate_ok Let_def split: if_splits)

text \<open>
  Batch resolution treats items independently: one outcome per item, in order and under its
  id; keeping the local version bumps it by one (modulo the width of the counter), and keeping
  the remote succeeds only for conflict data whose record is valid and matches its checksum, with
  that record's version.
\<close>

theorem batch_resolution_independent:
  fixes E :: "('x) cloud_env_scheme"
  shows "map ro_record_id (resolve_all_batch E items s) = map ci_record_id items
   \<and> (\<forall>i < length items. resolve_all_batch E items s ! i = hd (resolve_all_batch E [items ! i] s))
   \<and> (\<forall>i < length items.
        case s of
          StrategyKeepLocal \<Rightarrow>
            ro_result (resolve_all_batch E items s ! i)
              = Inr \<lparr> rc_new_version = ci_current_version (items ! i) + 1, rc_action = KeepLocal \<rparr>
        | StrategyKeepRemote \<Rightarrow>
            (case ro_result (resolve_all_batch E items s ! i) of
               Inl _ \<Rightarrow> True
             | Inr rc \<Rightarrow> rc_action rc = KeepRemote
                 \<and> (\<exists>p. de_conflict E (ci_conflict_data (items ! i)) = Inr p
                      \<and> conflict_validate E p = Inr () \<and> rc_new_version rc = cr_version (cp_cloud_record p))))"
proof -
  have "case ro_result (resolve_item E StrategyKeepRemote it) of
      Inl _ \<Rightarrow> True
    | Inr rc \<Rightarrow> rc_action rc = KeepRemote \<and> (\<exists>p. de_conflict E (ci_conflict_data it) = Inr p
        \<and> conflict_validate E p = Inr () \<and> rc_new_version rc = cr_version (cp_cloud_record p))" for it
    by (auto simp: resolve_item_def resolve_keep_remote_def monad_simps conflict_deserialize_def Let_def
        split: sum.splits)
  then show ?thesis
    by (auto simp: resolve_all_batch_def resolve_item_def[of E StrategyKeepLocal] resolve_keep_local_def
        split: resolution_strategy.splits) (simp add: resolve_item_def)
qed

theorem batch_resolution_independent_witness:
  "ro_result (resolve_all_batch demo_cloud_env
      [\<lparr> ci_record_id = 1, ci_conflict_data = [], ci_current_version = 4 \<rparr>] StrategyKeepLocal ! 0)
    = Inr \<lparr> rc_new_version = 5, rc_action = KeepLocal \<rparr>"
  using batch_resolution_independent[of demo_cloud_env
      "[\<lparr> ci_record_id = 1, ci_conflict_data = [], ci_current_version = 4 \<rparr>]" StrategyKeepLocal]
  by auto

section \<open>Detection and identity\<close>

text \<open>
  Detection is a total classification: a pending record is uploaded or in conflict, a synced one is
  downloaded or left alone, and a record already in conflict is never touched.
\<close>

lemma detect_conflicts_cases:
  "detect_conflicts st l r = Conflict l r \<longleftrightarrow> st = StPending \<and> l < r"
  "detect_conflicts st l r = UploadOnly \<longleftrightarrow> st = StPending \<and> r \<le> l"
  "detect_conflicts st l r = DownloadOnly \<longleftrightarrow> st = StSynced \<and> l < r"
  by (cases st; auto simp: detect_conflicts_def not_less)+

lemma validate_identity_rejects:
  "validate_identity l r = Inl e \<longleftrightarrow> (\<exists>a b. l = Some a \<and> r = Some b \<and> a \<noteq> b \<and> e = VaultIdentityMismatch a b)"
  by (auto simp: validate_identity_def split: option.splits)

end
