(* ===== verification/Pipeline.thy ===== *)
theory Pipeline
  imports Cloud_Storage Checkpoint Conflict
begin

text \<open>
  \<open>sync/pipeline.rs\<close>: the four-stage sync pipeline (pull metadata, detect, push, resolve) over the
  storage layer. A stage maps the pipeline context and the world to an outcome, the context and
  the world after it. The loops of the push stage are recursive functions over the lists they
  iterate; \<open>continue\<close> after a failed check is the branch that records the failed id.
\<close>

datatype stage_outcome =
    Continue
  | ConflictDetected (so_conflict_ids: "string list")
  | StageError sync_error
  | StageNoChanges

record local_record_info =
  li_record_id :: string
  li_sync_status :: sync_status
  li_version :: u64

record pipeline_context =
  px_provider :: string
  px_checkpoint :: sync_checkpoint
  px_remote_metadata :: "cloud_metadata option"
  px_last_remote_metadata :: "cloud_metadata option"
  px_local_metadata_version :: u64
  px_local_vault_token :: string
  px_to_upload :: "string list"
  px_to_download :: "string list"
  px_conflicts :: "string list"
  px_failed_ids :: "string list"
  px_uploads :: "cloud_record list"
  px_downloads :: "(string \<times> cloud_record) list"
  px_uploaded_ids :: "string list"
  px_final_metadata :: "cloud_metadata option"
  px_conflict_data_map :: "(string \<times> bytes) list"
  px_local_records :: "local_record_info list"
  px_downloaded_health_states :: "record_health_state list"
  px_downloaded_health_deleted :: "uuid list"

definition pipeline_context_new :: "string \<Rightarrow> sync_checkpoint \<Rightarrow> u64 \<Rightarrow> string \<Rightarrow> pipeline_context" where
  "pipeline_context_new provider cp ver token =
     \<lparr> px_provider = provider, px_checkpoint = cp, px_remote_metadata = None,
       px_last_remote_metadata = None, px_local_metadata_version = ver, px_local_vault_token = token,
       px_to_upload = [], px_to_download = [], px_conflicts = [], px_failed_ids = [], px_uploads = [],
       px_downloads = [], px_uploaded_ids = [], px_final_metadata = None, px_conflict_data_map = [],
       px_local_records = [], px_downloaded_health_states = [], px_downloaded_health_deleted = [] \<rparr>"

definition set_local_records :: "local_record_info list \<Rightarrow> pipeline_context \<Rightarrow> pipeline_context" where
  "set_local_records rs px = px\<lparr>px_local_records := rs\<rparr>"

definition set_uploads :: "cloud_record list \<Rightarrow> pipeline_context \<Rightarrow> pipeline_context" where
  "set_uploads rs px = px\<lparr>px_uploads := rs\<rparr>"

definition set_last_remote_metadata :: "cloud_metadata option \<Rightarrow> pipeline_context \<Rightarrow> pipeline_context" where
  "set_last_remote_metadata m px = px\<lparr>px_last_remote_metadata := m\<rparr>"

definition private_metadata_changed_since_last_snapshot ::
  "pipeline_context \<Rightarrow> string \<Rightarrow> record_version_info \<Rightarrow> bool" where
  "private_metadata_changed_since_last_snapshot px rid remote =
     (case rv_private_metadata_checksum remote of
        None \<Rightarrow> False
      | Some remote_checksum \<Rightarrow>
          (let previous = Option.bind (px_last_remote_metadata px) (\<lambda>m.
                 Option.bind (map_of (cm_records m) rid) rv_private_metadata_checksum)
           in case previous of
                Some p \<Rightarrow> p \<noteq> remote_checksum
              | None \<Rightarrow> (case px_remote_metadata px of
                    None \<Rightarrow> False
                  | Some m \<Rightarrow> cm_metadata_version m > px_local_metadata_version px)))"

type_synonym 'w stage = "pipeline_context \<Rightarrow> 'w \<Rightarrow> stage_outcome \<times> pipeline_context \<times> 'w"

section \<open>Stage 1: pull metadata\<close>

definition has_pending_uploads :: "pipeline_context \<Rightarrow> bool" where
  "has_pending_uploads px \<longleftrightarrow> list_ex (\<lambda>r. li_sync_status r = StPending) (px_local_records px)"

definition has_missing_remote_records :: "pipeline_context \<Rightarrow> cloud_metadata \<Rightarrow> bool" where
  "has_missing_remote_records px m \<longleftrightarrow>
     list_ex (\<lambda>(rid, info). \<not> rv_deleted info \<and> rid \<notin> set (map li_record_id (px_local_records px))) (cm_records m)"

definition pull_metadata_stage ::
  "('x) meta_env_scheme \<Rightarrow> ('w, 'y) cloud_ops_scheme \<Rightarrow> 'w stage" where
  "pull_metadata_stage E C px w =
     (case download_metadata E C (px_provider px) w of
        (Inr (Some m), w') \<Rightarrow>
          if cm_metadata_version m = px_local_metadata_version px
             \<and> \<not> has_pending_uploads px \<and> \<not> has_missing_remote_records px m
          then (StageNoChanges, px, w')
          else if cm_vault_identity_token m \<noteq> px_local_vault_token px
          then (StageError (VaultIdentityMismatch (px_local_vault_token px) (cm_vault_identity_token m)), px, w')
          else (Continue, px\<lparr>px_final_metadata := Some m, px_remote_metadata := Some m\<rparr>, w')
      | (Inr None, w') \<Rightarrow> (Continue, px\<lparr>px_remote_metadata := None\<rparr>, w')
      | (Inl e, w') \<Rightarrow> (StageError e, px, w'))"

section \<open>Stage 2: detect\<close>

definition detect_action :: "pipeline_context \<Rightarrow> cloud_metadata \<Rightarrow> local_record_info \<Rightarrow> conflict_action" where
  "detect_action px m l = (case map_of (cm_records m) (li_record_id l) of
     Some remote \<Rightarrow>
       if li_sync_status l = StSynced \<and> rv_version remote = li_version l
          \<and> private_metadata_changed_since_last_snapshot px (li_record_id l) remote
       then DownloadOnly
       else detect_conflicts (li_sync_status l) (li_version l) (rv_version remote)
   | None \<Rightarrow> if li_sync_status l = StPending then UploadOnly else NoAction)"

definition classify_local :: "cloud_metadata \<Rightarrow> local_record_info \<Rightarrow> pipeline_context \<Rightarrow> pipeline_context" where
  "classify_local m l px = (case detect_action px m l of
     UploadOnly \<Rightarrow> px\<lparr>px_to_upload := px_to_upload px @ [li_record_id l]\<rparr>
   | DownloadOnly \<Rightarrow> px\<lparr>px_to_download := px_to_download px @ [li_record_id l]\<rparr>
   | Conflict _ _ \<Rightarrow> px\<lparr>px_conflicts := px_conflicts px @ [li_record_id l]\<rparr>
   | NoAction \<Rightarrow> px)"

definition classify_remote :: "string \<times> record_version_info \<Rightarrow> pipeline_context \<Rightarrow> pipeline_context" where
  "classify_remote r px =
     (if rv_deleted (snd r) \<or> fst r \<in> set (map li_record_id (px_local_records px)) then px
      else px\<lparr>px_to_download := px_to_download px @ [fst r]\<rparr>)"

definition detect_stage :: "'w stage" where
  "detect_stage px w = (case px_remote_metadata px of
     None \<Rightarrow>
       (Continue,
        px\<lparr>px_to_upload := px_to_upload px
            @ map li_record_id (filter (\<lambda>l. li_sync_status l = StPending) (px_local_records px))\<rparr>, w)
   | Some m \<Rightarrow>
       (let px1 = fold (classify_local m) (px_local_records px) px;
            px2 = fold classify_remote (cm_records m) px1
        in if px_to_upload px2 = [] \<and> px_to_download px2 = [] \<and> px_conflicts px2 = []
           then (StageNoChanges, px2, w) else (Continue, px2, w)))"

section \<open>Stage 3: push\<close>

fun push_uploads ::
  "('x) cloud_env_scheme \<Rightarrow> ('w, 'y) cloud_ops_scheme \<Rightarrow> cloud_record list \<Rightarrow> pipeline_context \<Rightarrow> 'w
   \<Rightarrow> pipeline_context \<times> 'w" where
  "push_uploads E C [] px w = (px, w)"
| "push_uploads E C (r # rs) px w =
     (case upload_record E C (px_provider px) (cr_id r) r w of
        (Inr _, w') \<Rightarrow>
          (let px' = px\<lparr>px_uploaded_ids := px_uploaded_ids px @ [cr_id r]\<rparr>;
               px'' = (case uuid_parse E (cr_id r) of
                         None \<Rightarrow> px'
                       | Some i \<Rightarrow> px'\<lparr>px_checkpoint := record_push_done i (px_checkpoint px')\<rparr>)
           in push_uploads E C rs px'' w')
      | (Inl _, w') \<Rightarrow> push_uploads E C rs (px\<lparr>px_failed_ids := px_failed_ids px @ [cr_id r]\<rparr>) w')"

text \<open>The checks a downloaded record goes through before it is accepted.\<close>

definition download_acceptable ::
  "('x) cloud_env_scheme \<Rightarrow> pipeline_context \<Rightarrow> string \<Rightarrow> cloud_record \<Rightarrow> bool" where
  "download_acceptable E px rid r =
     (case cloud_record_validate E r of
        Inl _ \<Rightarrow> False
      | Inr _ \<Rightarrow>
         (case px_remote_metadata px of
            None \<Rightarrow> True
          | Some m \<Rightarrow>
             (case map_of (cm_records m) rid of
                None \<Rightarrow> True
              | Some info \<Rightarrow>
                  (case compute_checksum E (cr_encrypted_data r) of
                     Inl _ \<Rightarrow> False
                   | Inr computed \<Rightarrow>
                       if computed \<noteq> rv_checksum info then False
                       else (case rv_private_metadata_checksum info of
                           None \<Rightarrow> True
                         | Some expected \<Rightarrow>
                            (case private_metadata_checksum E r of
                               Inr (Some c) \<Rightarrow> c = expected
                             | Inr None \<Rightarrow> False
                             | Inl _ \<Rightarrow> False))))))"

definition accept_download ::
  "('x) cloud_env_scheme \<Rightarrow> string \<Rightarrow> cloud_record \<Rightarrow> pipeline_context \<Rightarrow> pipeline_context" where
  "accept_download E rid r px =
     (let px1 = (case uuid_parse E rid of
                   None \<Rightarrow> px
                 | Some i \<Rightarrow> px\<lparr>px_checkpoint := record_pull_done i (px_checkpoint px)\<rparr>);
          px2 = (case to_health_state E r of
                   Some h \<Rightarrow> px1\<lparr>px_downloaded_health_states := px_downloaded_health_states px1 @ [h]\<rparr>
                 | None \<Rightarrow>
                     if \<not> has_encrypted_private_metadata r then
                       (case uuid_parse E rid of
                          None \<Rightarrow> px1
                        | Some i \<Rightarrow> px1\<lparr>px_downloaded_health_deleted := px_downloaded_health_deleted px1 @ [i]\<rparr>)
                     else px1)
      in px2\<lparr>px_downloads := AList.update rid r (px_downloads px2)\<rparr>)"

definition process_download ::
  "('x) cloud_env_scheme \<Rightarrow> string \<times> (sync_error + cloud_record option) \<Rightarrow> pipeline_context \<Rightarrow> pipeline_context" where
  "process_download E x px = (case x of
     (rid, Inr (Some r)) \<Rightarrow>
        if download_acceptable E px rid r then accept_download E rid r px
        else px\<lparr>px_failed_ids := px_failed_ids px @ [rid]\<rparr>
   | (rid, Inr None) \<Rightarrow> px
   | (rid, Inl _) \<Rightarrow> px\<lparr>px_failed_ids := px_failed_ids px @ [rid]\<rparr>)"

definition local_version_of :: "pipeline_context \<Rightarrow> string \<Rightarrow> u64" where
  "local_version_of px rid = (case find (\<lambda>l. li_record_id l = rid) (px_local_records px) of
     None \<Rightarrow> 0 | Some l \<Rightarrow> li_version l)"

definition process_conflict ::
  "('x) cloud_env_scheme \<Rightarrow> ('w, 'y) cloud_ops_scheme \<Rightarrow> string \<Rightarrow> pipeline_context \<Rightarrow> 'w
   \<Rightarrow> pipeline_context \<times> 'w" where
  "process_conflict E C rid px w =
     (case Option.bind (px_remote_metadata px) (\<lambda>m. map_of (cm_records m) rid) of
        None \<Rightarrow> (px, w)
      | Some info \<Rightarrow>
         (case download_record E C (px_provider px) rid w of
            (Inr (Some r), w') \<Rightarrow>
              (case store_conflict E r (rv_checksum info) of
                 Inr b \<Rightarrow>
                   (let px1 = px\<lparr>px_conflict_data_map := AList.update rid b (px_conflict_data_map px)\<rparr>
                    in (case uuid_parse E rid of
                          None \<Rightarrow> px1
                        | Some i \<Rightarrow> px1\<lparr>px_checkpoint := add_pending_conflict
                            \<lparr> pc_record_id = i, pc_local_version = local_version_of px1 rid,
                              pc_remote_version = rv_version info \<rparr> (px_checkpoint px1)\<rparr>, w'))
               | Inl _ \<Rightarrow> (px\<lparr>px_failed_ids := px_failed_ids px @ [rid]\<rparr>, w'))
          | (Inr None, w') \<Rightarrow> (px, w')
          | (Inl _, w') \<Rightarrow> (px\<lparr>px_failed_ids := px_failed_ids px @ [rid]\<rparr>, w')))"

fun process_conflicts ::
  "('x) cloud_env_scheme \<Rightarrow> ('w, 'y) cloud_ops_scheme \<Rightarrow> string list \<Rightarrow> pipeline_context \<Rightarrow> 'w
   \<Rightarrow> pipeline_context \<times> 'w" where
  "process_conflicts E C [] px w = (px, w)"
| "process_conflicts E C (rid # rids) px w =
     (case process_conflict E C rid px w of (px', w') \<Rightarrow> process_conflicts E C rids px' w')"

definition verify_uploaded_record ::
  "('x) cloud_env_scheme \<Rightarrow> ('w, 'y) cloud_ops_scheme \<Rightarrow> string \<Rightarrow> cloud_record \<Rightarrow> ('w, sync_error, unit) io" where
  "verify_uploaded_record E C provider expected =
     io_bind (download_record E C provider (cr_id expected)) (\<lambda>d. io_lift (
       try_res (ok_or (RecordNotFound (cr_id expected)) d) (\<lambda>downloaded.
       try_res (cloud_record_validate E downloaded) (\<lambda>_.
       if cr_id downloaded \<noteq> cr_id expected then
         Inl (AadInconsistent ''record_id'' (cr_id expected) (cr_id downloaded))
       else if cr_version downloaded \<noteq> cr_version expected then
         Inl (MetadataVersionConflict (cr_version expected) (cr_version downloaded))
       else
         try_res (record_checksum E expected) (\<lambda>expected_checksum.
         try_res (record_checksum E downloaded) (\<lambda>actual_checksum.
         if actual_checksum \<noteq> expected_checksum then
           Inl (ChecksumMismatch expected_checksum actual_checksum (cr_id expected))
         else
           try_res (private_metadata_checksum E expected) (\<lambda>expected_private.
           try_res (private_metadata_checksum E downloaded) (\<lambda>actual_private.
           if actual_private \<noteq> expected_private then
             Inl (ChecksumMismatch (case expected_private of None \<Rightarrow> ''missing'' | Some c \<Rightarrow> c)
                    (case actual_private of None \<Rightarrow> ''missing'' | Some c \<Rightarrow> c) (cr_id expected))
           else Inr ()))))))))"

text \<open>The version entry written for an uploaded record.\<close>

definition uploaded_info ::
  "('x) cloud_env_scheme \<Rightarrow> string \<Rightarrow> cloud_record \<Rightarrow> sync_error + record_version_info" where
  "uploaded_info E now r =
     try_res (compute_checksum E (cr_encrypted_data r)) (\<lambda>checksum.
     try_res (private_metadata_checksum E r) (\<lambda>private_checksum.
     Inr \<lparr> rv_version = cr_version r, rv_updated_at = now, rv_updated_by = ''local-device'',
           rv_checksum = checksum, rv_private_metadata_checksum = private_checksum,
           rv_deleted = (case cr_deleted r of None \<Rightarrow> False | Some d \<Rightarrow> d) \<rparr>))"

fun update_metadata_entries ::
  "('x) cloud_env_scheme \<Rightarrow> ('w, 'y) cloud_ops_scheme \<Rightarrow> string \<Rightarrow> string \<Rightarrow> string list \<Rightarrow> cloud_record list
   \<Rightarrow> cloud_metadata \<Rightarrow> ('w, sync_error, cloud_metadata) io" where
  "update_metadata_entries E C provider now uploaded [] m = io_return m"
| "update_metadata_entries E C provider now uploaded (r # rs) m =
     (if cr_id r \<notin> set uploaded then update_metadata_entries E C provider now uploaded rs m
      else io_bind (verify_uploaded_record E C provider r) (\<lambda>_.
           io_bind (io_lift (uploaded_info E now r)) (\<lambda>info.
           update_metadata_entries E C provider now uploaded rs (upsert_record (cr_id r) info m))))"

definition push_updated_metadata ::
  "('x) cloud_env_scheme \<Rightarrow> ('w, 'y) cloud_ops_scheme \<Rightarrow> pipeline_context \<Rightarrow> ('w, sync_error, cloud_metadata) io" where
  "push_updated_metadata E C px =
     io_bind (io_now C) (\<lambda>t0.
     io_bind (case px_remote_metadata px of
         Some remote \<Rightarrow> io_return (remote, cm_metadata_version remote)
       | None \<Rightarrow> io_bind (io_now C) (\<lambda>t. io_return (metadata_new E t (px_local_vault_token px), 0)))
       (\<lambda>(base, expected_version).
     io_bind (update_metadata_entries E C (px_provider px) (rfc3339_show E t0) (px_uploaded_ids px) (px_uploads px) base)
       (\<lambda>m1.
     io_bind (io_now C) (\<lambda>t1.
     let m2 = increment_version E t1 m1 in
     io_bind (push_metadata_atomic E C (px_provider px) m2 expected_version) (\<lambda>_. io_return m2)))))"

definition push_stage ::
  "('x) cloud_env_scheme \<Rightarrow> ('w, 'y) cloud_ops_scheme \<Rightarrow> (string list \<Rightarrow> string list) \<Rightarrow> 'w stage" where
  "push_stage E C schedule px w =
     (case push_uploads E C (filter (\<lambda>r. cr_id r \<in> set (px_to_upload px)) (px_uploads px)) px w of (px1, w1) \<Rightarrow>
      case (if px_to_download px1 = [] then (px1, w1)
            else case batch_download_records E C (px_provider px1) schedule (px_to_download px1) w1 of
                   (results, w') \<Rightarrow> (fold (process_download E) results px1, w')) of (px2, w2) \<Rightarrow>
      case process_conflicts E C (px_conflicts px2) px2 w2 of (px3, w3) \<Rightarrow>
      let finish = (\<lambda>px w. if px_conflicts px \<noteq> [] then (ConflictDetected (px_conflicts px), px, w)
                           else (Continue, px, w))
      in if px_uploaded_ids px3 \<noteq> [] then
           (case push_updated_metadata E C px3 w3 of
              (Inr m, w4) \<Rightarrow> finish (px3\<lparr>px_final_metadata := Some m\<rparr>) w4
            | (Inl e, w4) \<Rightarrow> (StageError e, px3, w4))
         else finish px3 w3)"

section \<open>Stage 4 and the pipeline\<close>

definition resolve_stage :: "'w stage" where
  "resolve_stage px w =
     (if px_conflicts px \<noteq> [] then (ConflictDetected (px_conflicts px), px, w) else (Continue, px, w))"

datatype pipeline_result =
    Completed
  | PipelineNoChanges
  | ConflictsDetected "string list"
  | PipelineError sync_error

fun run_stages :: "'w stage list \<Rightarrow> pipeline_context \<Rightarrow> 'w \<Rightarrow> pipeline_result \<times> pipeline_context \<times> 'w" where
  "run_stages [] px w = (Completed, px, w)"
| "run_stages (s # ss) px w = (case s px w of
     (Continue, px', w') \<Rightarrow> run_stages ss px' w'
   | (StageNoChanges, px', w') \<Rightarrow> (PipelineNoChanges, px', w')
   | (ConflictDetected ids, px', w') \<Rightarrow> (ConflictsDetected ids, px', w')
   | (StageError e, px', w') \<Rightarrow> (PipelineError e, px', w'))"

definition pipeline_execute ::
  "('x) cloud_env_scheme \<Rightarrow> ('w, 'y) cloud_ops_scheme \<Rightarrow> (string list \<Rightarrow> string list) \<Rightarrow> pipeline_context \<Rightarrow> 'w
   \<Rightarrow> pipeline_result \<times> pipeline_context \<times> 'w" where
  "pipeline_execute E C schedule px w =
     run_stages [pull_metadata_stage E C, detect_stage, push_stage E C schedule, resolve_stage] px w"

section \<open>Detection is an exact partition\<close>

lemma detect_action_cong:
  assumes "px_last_remote_metadata px' = px_last_remote_metadata px" "px_remote_metadata px' = px_remote_metadata px"
    "px_local_metadata_version px' = px_local_metadata_version px"
  shows "detect_action px' = detect_action px"
proof -
  have "private_metadata_changed_since_last_snapshot px' = private_metadata_changed_since_last_snapshot px"
    by (intro ext) (unfold private_metadata_changed_since_last_snapshot_def assms, rule refl)
  then show ?thesis
    by (intro ext) (unfold detect_action_def, simp only:)
qed

lemma classify_local_frame:
  "px_local_records (classify_local m l px) = px_local_records px"
  "detect_action (classify_local m l px) = detect_action px"
proof -
  show "px_local_records (classify_local m l px) = px_local_records px"
    by (cases "detect_action px m l") (simp_all add: classify_local_def)
  show "detect_action (classify_local m l px) = detect_action px"
    by (rule detect_action_cong; cases "detect_action px m l"; simp add: classify_local_def)
qed

lemma fold_classify_local:
  "px_local_records (fold (classify_local m) ls px) = px_local_records px"
  "px_to_upload (fold (classify_local m) ls px) = px_to_upload px
     @ map li_record_id (filter (\<lambda>l. detect_action px m l = UploadOnly) ls)"
  "px_to_download (fold (classify_local m) ls px) = px_to_download px
     @ map li_record_id (filter (\<lambda>l. detect_action px m l = DownloadOnly) ls)"
  "px_conflicts (fold (classify_local m) ls px) = px_conflicts px
     @ map li_record_id (filter (\<lambda>l. \<exists>a b. detect_action px m l = Conflict a b) ls)"
  by (induction ls arbitrary: px)
     (simp_all add: classify_local_frame, simp_all add: classify_local_def split: conflict_action.splits)

lemma fold_classify_remote:
  "px_to_upload (fold classify_remote rs px) = px_to_upload px"
  "px_conflicts (fold classify_remote rs px) = px_conflicts px"
  "px_local_records (fold classify_remote rs px) = px_local_records px"
  "px_to_download (fold classify_remote rs px) = px_to_download px
     @ map fst (filter (\<lambda>r. \<not> rv_deleted (snd r) \<and> fst r \<notin> set (map li_record_id (px_local_records px))) rs)"
  by (induction rs arbitrary: px) (auto simp: classify_remote_def)

lemma detect_stage_sets:
  assumes "px_remote_metadata px = Some m" "px_to_upload px = []" "px_to_download px = []" "px_conflicts px = []"
    "detect_stage px w = (out, px', w')"
  shows "px_to_upload px' = map li_record_id (filter (\<lambda>l. detect_action px m l = UploadOnly) (px_local_records px))"
    and "px_conflicts px' = map li_record_id (filter (\<lambda>l. \<exists>a b. detect_action px m l = Conflict a b) (px_local_records px))"
    and "px_to_download px' = map li_record_id (filter (\<lambda>l. detect_action px m l = DownloadOnly) (px_local_records px))
      @ map fst (filter (\<lambda>r. \<not> rv_deleted (snd r) \<and> fst r \<notin> set (map li_record_id (px_local_records px))) (cm_records m))"
    and "w' = w"
  using assms
  by (auto simp: detect_stage_def fold_classify_local fold_classify_remote Let_def split: if_splits)

lemma detect_action_cases:
  "detect_action px m l = UploadOnly \<longleftrightarrow> li_sync_status l = StPending
     \<and> (\<forall>info. map_of (cm_records m) (li_record_id l) = Some info \<longrightarrow> rv_version info \<le> li_version l)"
  "(\<exists>a b. detect_action px m l = Conflict a b) \<longleftrightarrow> li_sync_status l = StPending
     \<and> (\<exists>info. map_of (cm_records m) (li_record_id l) = Some info \<and> li_version l < rv_version info)"
  "detect_action px m l = DownloadOnly \<longleftrightarrow> li_sync_status l = StSynced
     \<and> (\<exists>info. map_of (cm_records m) (li_record_id l) = Some info \<and>
          (li_version l < rv_version info \<or> rv_version info = li_version l
             \<and> private_metadata_changed_since_last_snapshot px (li_record_id l) info))"
  by (auto simp: detect_action_def detect_conflicts_def not_less split: option.splits sync_status.splits)

definition disjoint_lists :: "'a list \<Rightarrow> 'a list \<Rightarrow> bool" where
  "disjoint_lists xs ys \<longleftrightarrow> set xs \<inter> set ys = {}"

lemma map_filter_disjoint:
  assumes "distinct (map f ls)" "\<And>l. \<not> (P l \<and> Q l)"
  shows "disjoint_lists (map f (filter P ls)) (map f (filter Q ls))"
  using assms by (auto simp: disjoint_lists_def distinct_map inj_on_def)

lemma unknown_downloads:
  "{i \<in> set (map f (filter P ls) @ map fst (filter (\<lambda>r. \<not> del (snd r) \<and> fst r \<notin> set (map f ls)) rs)). i \<notin> set (map f ls)}
    = {i. \<exists>x. (i, x) \<in> set rs \<and> \<not> del x \<and> i \<notin> set (map f ls)}"
  by (auto simp: image_iff)

lemma disjoint_append:
  "disjoint_lists xs ys \<Longrightarrow> set xs \<inter> set zs = {} \<Longrightarrow> disjoint_lists xs (ys @ zs)"
  by (auto simp: disjoint_lists_def)


definition demo_px :: pipeline_context where
  "demo_px = (pipeline_context_new ''webdav'' (checkpoint_new ''v'') 1 ''tok'')\<lparr>
     px_remote_metadata := Some (metadata_new demo_cloud_env 5 ''tok''),
     px_local_records := [\<lparr> li_record_id = ''u7'', li_sync_status = StPending, li_version = 3 \<rparr>]\<rparr>"


section \<open>Only verified records are accepted\<close>

text \<open>What a download must satisfy against the metadata the pipeline pulled.\<close>

definition matches_metadata :: "('x) cloud_env_scheme \<Rightarrow> cloud_metadata option \<Rightarrow> string \<Rightarrow> cloud_record \<Rightarrow> bool" where
  "matches_metadata E meta rid r \<longleftrightarrow> record_wf E r \<and>
     (\<forall>m info. meta = Some m \<longrightarrow> map_of (cm_records m) rid = Some info \<longrightarrow>
        record_checksum E r = Inr (rv_checksum info)
        \<and> (\<forall>c. rv_private_metadata_checksum info = Some c \<longrightarrow> private_metadata_checksum E r = Inr (Some c)))"

lemma download_acceptable_iff:
  "download_acceptable E px rid r \<longleftrightarrow> matches_metadata E (px_remote_metadata px) rid r"
proof -
  have "cloud_record_validate E r = Inr () \<longleftrightarrow> record_wf E r"
    by (rule cloud_record_validate_ok)
  then show ?thesis
    by (cases "compute_checksum E (cr_encrypted_data r)"; cases "private_metadata_checksum E r")
       (auto simp: download_acceptable_def matches_metadata_def record_checksum_def
         split: sum.splits option.splits)
qed

lemma accept_download_fields:
  "px_downloads (accept_download E rid r px) = AList.update rid r (px_downloads px)"
  "px_remote_metadata (accept_download E rid r px) = px_remote_metadata px"
  "px_conflicts (accept_download E rid r px) = px_conflicts px"
  "px_uploaded_ids (accept_download E rid r px) = px_uploaded_ids px"
  by (auto simp: accept_download_def Let_def split: option.splits)

lemma process_download_fields:
  "px_remote_metadata (process_download E x px) = px_remote_metadata px"
  "px_conflicts (process_download E x px) = px_conflicts px"
  "px_uploaded_ids (process_download E x px) = px_uploaded_ids px"
  by (auto simp: process_download_def accept_download_fields split: prod.splits sum.splits option.splits)

definition downloads_verified :: "('x) cloud_env_scheme \<Rightarrow> pipeline_context \<Rightarrow> bool" where
  "downloads_verified E px \<longleftrightarrow>
     (\<forall>rid r. map_of (px_downloads px) rid = Some r \<longrightarrow> matches_metadata E (px_remote_metadata px) rid r)"

lemma process_download_verified [inv_intros]:
  "downloads_verified E px \<Longrightarrow> downloads_verified E (process_download E x px)"
  unfolding downloads_verified_def process_download_fields
  by (auto simp: process_download_def accept_download_fields download_acceptable_iff update_conv'
      split: prod.splits sum.splits option.splits if_splits)

lemma fold_process_download_verified:
  "downloads_verified E px \<Longrightarrow> downloads_verified E (fold (process_download E) xs px)"
  by (induction xs arbitrary: px) (auto intro: inv_intros)

lemma push_uploads_fields:
  "push_uploads E C rs px w = (px', w') \<Longrightarrow>
   px_downloads px' = px_downloads px \<and> px_remote_metadata px' = px_remote_metadata px
   \<and> px_to_download px' = px_to_download px \<and> px_conflicts px' = px_conflicts px
   \<and> px_uploads px' = px_uploads px \<and> px_provider px' = px_provider px
   \<and> px_local_vault_token px' = px_local_vault_token px
   \<and> px_local_records px' = px_local_records px"
  by (induction E C rs px w rule: push_uploads.induct)
     (auto simp: Let_def split: prod.splits sum.splits option.splits)

lemma process_conflict_fields:
  "process_conflict E C rid px w = (px', w') \<Longrightarrow>
   px_downloads px' = px_downloads px \<and> px_remote_metadata px' = px_remote_metadata px
   \<and> px_conflicts px' = px_conflicts px"
  by (auto simp: process_conflict_def Let_def split: prod.splits sum.splits option.splits)

lemma process_conflicts_fields:
  "process_conflicts E C rids px w = (px', w') \<Longrightarrow>
   px_downloads px' = px_downloads px \<and> px_remote_metadata px' = px_remote_metadata px
   \<and> px_conflicts px' = px_conflicts px"
proof (induction E C rids px w rule: process_conflicts.induct)
  case (2 E C rid rids px w)
  then show ?case
    by (cases "process_conflict E C rid px w") (auto dest!: process_conflict_fields)
qed auto

lemma push_stage_verified:
  assumes "downloads_verified E px" "push_stage E C schedule px w = (out, px', w')"
  shows "downloads_verified E px' \<and> px_remote_metadata px' = px_remote_metadata px \<and> px_conflicts px' = px_conflicts px"
proof -
  obtain px1 w1 where u: "push_uploads E C (filter (\<lambda>r. cr_id r \<in> set (px_to_upload px)) (px_uploads px)) px w = (px1, w1)"
    by fastforce
  note f1 = push_uploads_fields[OF u]
  obtain px2 w2 where d: "(if px_to_download px1 = [] then (px1, w1)
            else case batch_download_records E C (px_provider px1) schedule (px_to_download px1) w1 of
                   (results, w') \<Rightarrow> (fold (process_download E) results px1, w')) = (px2, w2)"
    by fastforce
  have v1: "downloads_verified E px1"
    using assms(1) f1 by (simp add: downloads_verified_def)
  have frame: "px_remote_metadata (fold (process_download E) xs p) = px_remote_metadata p
      \<and> px_conflicts (fold (process_download E) xs p) = px_conflicts p" for xs p
    by (induction xs arbitrary: p) (simp_all add: process_download_fields)
  have v2: "downloads_verified E px2 \<and> px_remote_metadata px2 = px_remote_metadata px \<and> px_conflicts px2 = px_conflicts px"
    using d v1 f1 frame fold_process_download_verified by (auto split: if_splits prod.splits)
  obtain px3 w3 where c: "process_conflicts E C (px_conflicts px2) px2 w2 = (px3, w3)"
    by fastforce
  note f3 = process_conflicts_fields[OF c]
  have v3: "downloads_verified E px3 \<and> px_remote_metadata px3 = px_remote_metadata px \<and> px_conflicts px3 = px_conflicts px"
    using v2 f3 unfolding downloads_verified_def by metis
  show ?thesis
    using assms(2) u d c v3
    by (auto simp: push_stage_def downloads_verified_def Let_def split: prod.splits sum.splits if_splits)
qed

text \<open>
  C1: integrity against an arbitrary store. Whatever the operator returns, every record the
  pipeline hands over as downloaded is structurally valid (its AAD names its own id and key
  version), has the ciphertext digest the pulled metadata lists for it, and, where the metadata
  lists a private-metadata digest, matches that too.
\<close>

theorem pipeline_downloads_verified:
  fixes E :: "('x) cloud_env_scheme" and C :: "('w, 'y) cloud_ops_scheme"
  assumes "px_downloads px = []" "pipeline_execute E C schedule px w = (res, px', w')"
  shows "\<forall>rid r. map_of (px_downloads px') rid = Some r \<longrightarrow> matches_metadata E (px_remote_metadata px') rid r"
proof -
  obtain o1 px1 w1 where p: "pull_metadata_stage E C px w = (o1, px1, w1)" by (metis prod_cases3)
  have p1: "px_downloads px1 = []"
    using p assms(1) by (auto simp: pull_metadata_stage_def split: prod.splits sum.splits option.splits if_splits)
  obtain o2 px2 w2 where d: "detect_stage px1 w1 = (o2, px2, w2)" by (metis prod_cases3)
  have "px_downloads (classify_local m l p) = px_downloads p" "px_downloads (classify_remote x p) = px_downloads p" for m l p x
    by (auto simp: classify_local_def classify_remote_def split: conflict_action.splits)
  then have "px_downloads (fold (classify_local m) ls p) = px_downloads p"
    "px_downloads (fold classify_remote rs p) = px_downloads p" for m ls p rs
    by (induction ls arbitrary: p, simp_all) (induction rs arbitrary: p, simp_all)
  then have p2: "px_downloads px2 = []"
    using d p1 by (auto simp: detect_stage_def Let_def split: option.splits if_splits)
  then have p2': "downloads_verified E px2"
    by (simp add: downloads_verified_def)
  obtain o3 px3 w3 where s: "push_stage E C schedule px2 w2 = (o3, px3, w3)" by (metis prod_cases3)
  have v3: "downloads_verified E px3"
    using push_stage_verified[OF p2' s] by blast
  have "px' \<in> {px1, px2, px3}"
    using assms(2) p d s by (auto simp: pipeline_execute_def resolve_stage_def split: stage_outcome.splits if_splits)
  then show ?thesis
    using v3 p1 p2 by (auto simp: downloads_verified_def)
qed

text \<open>A remote vault with one record, for the concrete runs.\<close>

definition demo_rec :: cloud_record where
  "demo_rec = build_cloud_record demo_cloud_env demo_stored ''mail''
     (b64_encode demo_cloud_env (sr_encrypted_data demo_stored)) (b64_encode demo_cloud_env (sr_nonce demo_stored))
     \<lparr> aad_record_id = uuid_show demo_cloud_env (sr_id demo_stored), aad_dek_version = sr_dek_version demo_stored \<rparr> None"

definition demo_checksum :: string where
  "demo_checksum = hex_encode demo_cloud_env (sha256 demo_cloud_env (sr_encrypted_data demo_stored))"

definition demo_meta :: cloud_metadata where
  "demo_meta = upsert_record ''r7'' \<lparr> rv_version = 3, rv_updated_at = ''t2'', rv_updated_by = ''dev'',
      rv_checksum = demo_checksum, rv_private_metadata_checksum = None, rv_deleted = False \<rparr>
      (metadata_new demo_cloud_env 5 ''tok'')"

definition demo_remote :: mem_world where
  "demo_remote = \<lparr> mw_files = [(METADATA_FILENAME, unary_enc demo_meta), (record_path ''r7'', unary_enc demo_rec)],
     mw_clock = 10, mw_seed = 0 \<rparr>"

lemma demo_rec_ok:
  "cloud_record_validate demo_cloud_env demo_rec = Inr ()" "record_checksum demo_cloud_env demo_rec = Inr demo_checksum"
  using demo_record_valid by (simp_all add: demo_rec_def demo_checksum_def)

lemma demo_meta_ok: "metadata_validate demo_cloud_env demo_meta = Inr ()"
  using metadata_new_ok[OF demo_cloud_env_laws, of 5 "''tok''"]
  by (simp add: metadata_validate_ok demo_meta_def upsert_record_ok printable_time_def)

lemma demo_meta_fields:
  "cm_metadata_version demo_meta = 1" "cm_vault_identity_token demo_meta = ''tok''"
  "cm_records demo_meta = [(''r7'', \<lparr> rv_version = 3, rv_updated_at = ''t2'', rv_updated_by = ''dev'',
      rv_checksum = demo_checksum, rv_private_metadata_checksum = None, rv_deleted = False \<rparr>)]"
  by (simp_all add: demo_meta_def upsert_record_def metadata_new_def Let_def)

lemma demo_files:
  "map_of (mw_files demo_remote) METADATA_FILENAME = Some (unary_enc demo_meta)"
  "map_of (mw_files demo_remote) (record_path rid) = (if rid = ''r7'' then Some (unary_enc demo_rec) else None)"
  using metadata_not_record[of rid] by (auto simp: demo_remote_def record_path_inj)

lemma demo_codec:
  "de_metadata demo_cloud_env (unary_enc m) = Inr m" "de_record demo_cloud_env (unary_enc r) = Inr r"
  by (simp_all add: demo_cloud_env_def)

lemma demo_download_metadata:
  assumes "map_of (mw_files w) METADATA_FILENAME = Some (unary_enc demo_meta)"
  obtains w' where "download_metadata demo_cloud_env mem_ops prov w = (Inr (Some demo_meta), w')"
    "map_of (mw_files w') = map_of (mw_files w)"
  using mem.download_metadata_of[of w "unary_enc demo_meta" demo_cloud_env demo_meta prov] assms demo_meta_ok
  by (auto simp: demo_codec metadata_validate_ok)

definition demo_px_pull :: pipeline_context where
  "demo_px_pull = pipeline_context_new ''webdav'' (checkpoint_new ''v'') 0 ''tok''"

theorem pipeline_downloads_verified_witness:
  "\<exists>px' w'. pipeline_execute demo_cloud_env mem_ops id demo_px_pull demo_remote = (Completed, px', w')
     \<and> map_of (px_downloads px') ''r7'' = Some demo_rec
     \<and> matches_metadata demo_cloud_env (px_remote_metadata px') ''r7'' demo_rec"
proof -
  obtain w1 where w1: "download_metadata demo_cloud_env mem_ops ''webdav'' demo_remote = (Inr (Some demo_meta), w1)"
    "map_of (mw_files w1) = map_of (mw_files demo_remote)"
    using demo_download_metadata demo_files(1) by blast
  let ?p1 = "demo_px_pull\<lparr>px_final_metadata := Some demo_meta, px_remote_metadata := Some demo_meta\<rparr>"
  have s1: "pull_metadata_stage demo_cloud_env mem_ops demo_px_pull demo_remote = (Continue, ?p1, w1)"
    using w1(1) by (simp add: pull_metadata_stage_def demo_px_pull_def pipeline_context_new_def demo_meta_fields)
  let ?p2 = "?p1\<lparr>px_to_download := [''r7'']\<rparr>"
  have s2: "detect_stage ?p1 w1 = (Continue, ?p2, w1)"
    by (simp add: detect_stage_def demo_px_pull_def pipeline_context_new_def demo_meta_fields classify_remote_def Let_def)
  have fr: "file_result demo_cloud_env (map_of (mw_files w1)) ''r7'' = Inr (Some demo_rec)"
    by (simp add: file_result_def w1(2) demo_files parse_record_def demo_codec)
  obtain rs w2 where b: "batch_download_records demo_cloud_env mem_ops ''webdav'' id [''r7''] w1 = (rs, w2)"
    by fastforce
  have rs: "rs = [(''r7'', Inr (Some demo_rec))]"
    using batch_download_in_order_mem[of demo_cloud_env "''webdav''" "[''r7'']" w1] b fr by simp
  have acc: "download_acceptable demo_cloud_env ?p2 ''r7'' demo_rec"
    using demo_rec_ok by (simp add: download_acceptable_def demo_meta_fields record_checksum_def)
  let ?p3 = "accept_download demo_cloud_env ''r7'' demo_rec ?p2"
  have f3: "px_conflicts ?p3 = []" "px_uploaded_ids ?p3 = []" "map_of (px_downloads ?p3) ''r7'' = Some demo_rec"
    by (simp_all add: accept_download_fields demo_px_pull_def pipeline_context_new_def)
  have s3: "push_stage demo_cloud_env mem_ops id ?p2 w1 = (Continue, ?p3, w2)"
    using b rs acc f3
    by (simp add: push_stage_def process_download_def demo_px_pull_def pipeline_context_new_def Let_def)
  have run: "pipeline_execute demo_cloud_env mem_ops id demo_px_pull demo_remote = (Completed, ?p3, w2)"
    using s1 s2 s3 f3(1) by (simp add: pipeline_execute_def resolve_stage_def)
  have "px_downloads demo_px_pull = []"
    by (simp add: demo_px_pull_def pipeline_context_new_def)
  from pipeline_downloads_verified[OF this run] show ?thesis
    using run f3(3) by blast
qed

section \<open>What the metadata advertises\<close>

lemma verify_uploaded_record_ok:
  "verify_uploaded_record E C prov r w = (Inr u, w') \<Longrightarrow>
   \<exists>d cs. download_record E C prov (cr_id r) w = (Inr (Some d), w')
      \<and> record_wf E d \<and> cr_id d = cr_id r \<and> cr_version d = cr_version r
      \<and> record_checksum E r = Inr cs \<and> record_checksum E d = Inr cs
      \<and> private_metadata_checksum E d = private_metadata_checksum E r"
  by (auto simp: verify_uploaded_record_def monad_simps cloud_record_validate_ok split: if_splits)

lemma uploaded_info_fields:
  "uploaded_info E now r = Inr info \<Longrightarrow> rv_version info = cr_version r
     \<and> record_checksum E r = Inr (rv_checksum info)
     \<and> private_metadata_checksum E r = Inr (rv_private_metadata_checksum info)
     \<and> rv_deleted info = (cr_deleted r = Some True)"
  by (auto simp: uploaded_info_def monad_simps record_checksum_def split: option.splits)

lemma update_metadata_entries_frame:
  "update_metadata_entries E C prov now up rs m w = (Inr m', w') \<Longrightarrow>
   cm_metadata_version m' = cm_metadata_version m \<and> cm_vault_identity_token m' = cm_vault_identity_token m
   \<and> cm_current_dek_version m' = cm_current_dek_version m
   \<and> (\<forall>rid. rid \<notin> set up \<or> rid \<notin> set (map cr_id rs) \<longrightarrow> map_of (cm_records m') rid = map_of (cm_records m) rid)"
proof (induction rs arbitrary: m w)
  case (Cons r rs)
  show ?case
  proof (cases "cr_id r \<in> set up")
    case False
    then show ?thesis
      using Cons.IH[of m w] Cons.prems by auto
  next
    case True
    obtain info w1 where "update_metadata_entries E C prov now up rs (upsert_record (cr_id r) info m) w1 = (Inr m', w')"
      using Cons.prems True by (auto simp: monad_simps)
    from Cons.IH[OF this] True show ?thesis
      by (auto simp: upsert_record_def update_conv')
  qed
qed simp

lemma update_metadata_entries_new:
  "update_metadata_entries E C prov now up rs m w = (Inr m', w') \<Longrightarrow> distinct (map cr_id rs) \<Longrightarrow>
   r \<in> set rs \<Longrightarrow> cr_id r \<in> set up \<Longrightarrow>
   \<exists>info d w1 w2. map_of (cm_records m') (cr_id r) = Some info \<and> rv_version info = cr_version r
     \<and> record_checksum E r = Inr (rv_checksum info)
     \<and> private_metadata_checksum E r = Inr (rv_private_metadata_checksum info)
     \<and> rv_deleted info = (cr_deleted r = Some True)
     \<and> download_record E C prov (cr_id r) w1 = (Inr (Some d), w2)
     \<and> record_checksum E d = Inr (rv_checksum info) \<and> cr_version d = cr_version r"
proof (induction rs arbitrary: m w)
  case (Cons x rs)
  show ?case
  proof (cases "r = x")
    case False
    then have r: "r \<in> set rs" "distinct (map cr_id rs)"
      using Cons.prems by auto
    obtain m1 w1 where "update_metadata_entries E C prov now up rs m1 w1 = (Inr m', w')"
      using Cons.prems(1) by (auto simp: monad_simps split: if_splits)
    then show ?thesis
      using Cons.IH r Cons.prems(4) by blast
  next
    case True
    obtain w1 info where v: "verify_uploaded_record E C prov r w = (Inr (), w1)"
      and i: "uploaded_info E now r = Inr info"
      and rest: "update_metadata_entries E C prov now up rs (upsert_record (cr_id r) info m) w1 = (Inr m', w')"
      using Cons.prems(1,4) True by (auto simp: monad_simps)
    have "cr_id r \<notin> set (map cr_id rs)"
      using Cons.prems(2) True by auto
    then have "map_of (cm_records m') (cr_id r) = Some info"
      using update_metadata_entries_frame[OF rest] by (simp add: upsert_record_def)
    then show ?thesis
      using uploaded_info_fields[OF i] verify_uploaded_record_ok[OF v] by fastforce
  qed
qed simp


definition demo_px_push :: pipeline_context where
  "demo_px_push = (pipeline_context_new ''webdav'' (checkpoint_new ''v'') 1 ''tok'')\<lparr>
     px_remote_metadata := Some demo_meta, px_uploads := [], px_uploaded_ids := [''r9'']\<rparr>"


section \<open>Identity and idle runs\<close>

text \<open>
  A run that ends with "no changes" or in an identity mismatch has done nothing but download
  the metadata: the context holds no upload, download or conflict, and no file has changed.
\<close>

theorem idle_pipeline_changes_nothing:
  fixes E :: "('x) cloud_env_scheme" and C :: "('w, 'y) cloud_ops_scheme"
  assumes q: "quiet_cloud C view"
    and fresh: "px_to_upload px = []" "px_to_download px = []" "px_conflicts px = []" "px_uploaded_ids px = []" "px_downloads px = []"
    and run: "pipeline_execute E C schedule px w = (res, px', w')"
    and idle: "res = PipelineNoChanges \<or> (\<exists>l r. fst (pull_metadata_stage E C px w) = StageError (VaultIdentityMismatch l r))"
  shows "view w' = view w \<and> px_to_upload px' = [] \<and> px_to_download px' = [] \<and> px_conflicts px' = []
    \<and> px_uploaded_ids px' = [] \<and> px_downloads px' = []"
proof -
  obtain o1 px1 w1 where p: "pull_metadata_stage E C px w = (o1, px1, w1)" by (metis prod_cases3)
  obtain r0 w0 where dl: "download_metadata E C (px_provider px) w = (r0, w0)" by fastforce
  have v1: "view w1 = view w"
    using download_metadata_frame[OF q dl] p dl
    by (auto simp: pull_metadata_stage_def split: sum.splits option.splits if_splits)
  have p1: "px_to_upload px1 = []" "px_to_download px1 = []" "px_conflicts px1 = []" "px_uploaded_ids px1 = []" "px_downloads px1 = []"
    using p fresh by (auto simp: pull_metadata_stage_def split: prod.splits sum.splits option.splits if_splits)
  show ?thesis
  proof (cases "o1 = Continue")
    case False
    then have "px' = px1" "w' = w1"
      using run p by (auto simp: pipeline_execute_def split: stage_outcome.splits)
    then show ?thesis using v1 p1 by simp
  next
    case True
    then have res: "res = PipelineNoChanges"
      using idle p by simp
    obtain o2 px2 w2 where d: "detect_stage px1 w1 = (o2, px2, w2)" by (metis prod_cases3)
    have o2: "o2 = Continue \<or> o2 = StageNoChanges"
      using d by (auto simp: detect_stage_def Let_def split: option.splits if_splits)
    have o3: "fst (push_stage E C schedule px2 w2) \<noteq> StageNoChanges"
      by (auto simp: push_stage_def Let_def split: prod.splits sum.splits)
    have o4: "fst (resolve_stage p v) \<noteq> StageNoChanges" for p :: pipeline_context and v :: 'w
      by (simp add: resolve_stage_def)
    have nc: "o2 = StageNoChanges"
      using run p d True res o2 o3 o4
      by (auto simp: pipeline_execute_def split: stage_outcome.splits prod.splits) (metis fst_conv)
    then have eq: "px' = px2" "w' = w2"
      using run p d True by (auto simp: pipeline_execute_def)
    have "px_uploaded_ids (classify_local m l p) = px_uploaded_ids p \<and> px_downloads (classify_local m l p) = px_downloads p" for m l p
      by (auto simp: classify_local_def split: conflict_action.splits)
    then have "px_uploaded_ids (fold (classify_local m) ls p) = px_uploaded_ids p \<and> px_downloads (fold (classify_local m) ls p) = px_downloads p" for m ls p
      by (induction ls arbitrary: p) simp_all
    moreover have "px_uploaded_ids (fold classify_remote rs p) = px_uploaded_ids p \<and> px_downloads (fold classify_remote rs p) = px_downloads p" for rs p
      by (induction rs arbitrary: p) (simp_all add: classify_remote_def)
    ultimately show ?thesis
      using d nc eq v1 p1 by (auto simp: detect_stage_def Let_def split: option.splits if_splits)
  qed
qed

definition demo_px_idle :: "string \<Rightarrow> pipeline_context" where
  "demo_px_idle token = (pipeline_context_new ''webdav'' (checkpoint_new ''v'') 1 token)\<lparr>
     px_local_records := [\<lparr> li_record_id = ''r7'', li_sync_status = StSynced, li_version = 3 \<rparr>]\<rparr>"

lemma demo_idle_fields:
  "px_provider (demo_px_idle t) = ''webdav''" "px_local_metadata_version (demo_px_idle t) = 1"
  "has_pending_uploads (demo_px_idle t) = False" "has_missing_remote_records (demo_px_idle t) demo_meta = False"
  "px_to_upload (demo_px_idle t) = []" "px_to_download (demo_px_idle t) = []" "px_conflicts (demo_px_idle t) = []"
  "px_uploaded_ids (demo_px_idle t) = []" "px_downloads (demo_px_idle t) = []" "px_local_vault_token (demo_px_idle t) = t"
  by (simp_all add: demo_px_idle_def pipeline_context_new_def has_pending_uploads_def has_missing_remote_records_def
      demo_meta_fields)

theorem idle_pipeline_changes_nothing_witness:
  "\<exists>px' w'. pipeline_execute demo_cloud_env mem_ops id (demo_px_idle ''tok'') demo_remote = (PipelineNoChanges, px', w')
     \<and> map_of (mw_files w') = map_of (mw_files demo_remote)"
proof -
  obtain w1 where w1: "download_metadata demo_cloud_env mem_ops ''webdav'' demo_remote = (Inr (Some demo_meta), w1)"
    using demo_download_metadata demo_files(1) by blast
  then have run: "pipeline_execute demo_cloud_env mem_ops id (demo_px_idle ''tok'') demo_remote = (PipelineNoChanges, demo_px_idle ''tok'', w1)"
    by (simp add: pipeline_execute_def pull_metadata_stage_def demo_idle_fields demo_meta_fields)
  from idle_pipeline_changes_nothing[OF mem.quiet_cloud_axioms _ _ _ _ _ run] run show ?thesis
    by (simp add: demo_idle_fields)
qed

text \<open>
  the fast path comes before the identity check. When the remote version equals the local one,
  nothing is pending and no remote record is missing locally, the pull stage reports "no changes"
  whatever vault identity the remote metadata carries; the mismatch is reported only otherwise.
\<close>

theorem fast_path_ignores_identity:
  fixes E :: "('x) meta_env_scheme"
  assumes "download_metadata E C (px_provider px) w = (Inr (Some m), w')"
  shows "fst (pull_metadata_stage E C px w) =
    (if cm_metadata_version m = px_local_metadata_version px \<and> \<not> has_pending_uploads px \<and> \<not> has_missing_remote_records px m
     then StageNoChanges
     else if cm_vault_identity_token m = px_local_vault_token px then Continue
     else StageError (VaultIdentityMismatch (px_local_vault_token px) (cm_vault_identity_token m)))"
  using assms by (auto simp: pull_metadata_stage_def)

theorem fast_path_ignores_identity_witness:
  "cm_vault_identity_token demo_meta \<noteq> px_local_vault_token (demo_px_idle ''other-vault'')
   \<and> fst (pull_metadata_stage demo_cloud_env mem_ops (demo_px_idle ''other-vault'') demo_remote) = StageNoChanges"
proof -
  obtain w1 where "download_metadata demo_cloud_env mem_ops (px_provider (demo_px_idle ''other-vault'')) demo_remote = (Inr (Some demo_meta), w1)"
    using demo_download_metadata demo_files(1) by blast
  from fast_path_ignores_identity[OF this] show ?thesis
    by (simp add: demo_idle_fields demo_meta_fields)
qed

end
