(* ===== verification/Sync_Task.thy ===== *)
theory Sync_Task
  imports Pipeline Retry State_Machine
begin

text \<open>
  \<open>sync/task.rs\<close>: the sync task, the loop that owns the state machine, the backoff timer and the
  pipeline. A handler maps the task and the world to the task and the world after it; the events
  it sends are appended to \<open>st_events\<close>. One turn of the loop is \<open>task_step\<close>: the \<open>select!\<close> either
  receives a command, finds the channel closed, or its sleep ends.
\<close>

record sync_vault_data =
  vd_local_records :: "local_record_info list"
  vd_uploads :: "cloud_record list"
  vd_local_metadata_version :: u64
  vd_last_remote_metadata :: "cloud_metadata option"
  vd_local_vault_token :: string

datatype sync_command =
    CmdTriggerSync "sync_vault_data option"
  | CmdPullOnly
  | CmdResolveConflict string resolution_strategy
  | CmdResolveAllConflicts resolution_strategy
  | CmdPause
  | CmdResume
  | CmdPushMetadataAtomic cloud_metadata u64
  | CmdDownloadMetadata
  | CmdShutdown

record sync_report =
  rp_uploaded :: u32
  rp_downloaded :: u32
  rp_conflicts :: u32
  rp_failed :: u32
  rp_duration_ms :: u64

datatype sync_event =
    EvCompleted sync_report "record_health_state list" "uuid list" "cloud_record list" "string list"
      "(string \<times> bytes) list" "cloud_metadata option"
  | EvFailed string sync_state
  | EvConflictResolved string
  | EvAllConflictsResolved nat
  | EvStateChanged sync_state sync_state
  | EvMetadataPushed
  | EvMetadataDownloaded "cloud_metadata option"
  | EvShutdownComplete
  | EvPaused
  | EvResumed

record pipeline_execution_outcome =
  po_result :: pipeline_result
  po_health_states :: "record_health_state list"
  po_health_deleted :: "uuid list"
  po_downloaded_records :: "cloud_record list"
  po_uploaded_ids :: "string list"
  po_failed_count :: u32
  po_conflict_data :: "(string \<times> bytes) list"
  po_final_metadata :: "cloud_metadata option"

record 'f sync_task =
  st_machine :: sync_state_machine
  st_provider :: string
  st_backoff :: "'f backoff_timer"
  st_events :: "sync_event list"
  st_paused :: bool
  st_next_retry :: "timestamp option"
  st_vault_data :: "sync_vault_data option"
  st_pending :: "conflict_item list"
  st_running :: bool

text \<open>
  What the task uses besides the store: floating point, the jitter sample, the schedule of the
  download tasks, the temporary directory, and whether the event channel is full (\<open>try_send\<close>).
\<close>

record ('w, 'f) task_ops = "'w cloud_ops" +
  to_f64 :: "'f f64_ops"
  to_rand :: "int \<Rightarrow> int \<Rightarrow> int"
  to_schedule :: "string list \<Rightarrow> string list"
  to_temp_dir :: string
  to_channel_full :: "'w \<Rightarrow> bool"

definition sync_task_new :: "'f \<Rightarrow> 'f \<Rightarrow> string \<Rightarrow> sync_state_machine \<Rightarrow> 'f sync_task" where
  "sync_task_new two fifth provider machine =
     \<lparr> st_machine = machine, st_provider = provider,
       st_backoff = backoff_new (retry_policy_default two fifth), st_events = [], st_paused = False,
       st_next_retry = None, st_vault_data = None, st_pending = [], st_running = True \<rparr>"

definition emit :: "sync_event \<Rightarrow> 'f sync_task \<Rightarrow> 'f sync_task" where
  "emit ev t = t\<lparr>st_events := st_events t @ [ev]\<rparr>"

abbreviation st_state :: "'f sync_task \<Rightarrow> sync_state" where
  "st_state t \<equiv> sm_state (st_machine t)"

section \<open>Errors and backoff\<close>

definition error_trigger :: "'f sync_task \<Rightarrow> sync_error \<Rightarrow> sync_trigger" where
  "error_trigger t e =
     (let retry = (if backoff_should_retry (st_backoff t) e then OtherError else MaxRetriesExceeded)
      in case e of
           NetworkTimeout _ \<Rightarrow> retry
         | NetworkUnreachable _ \<Rightarrow> retry
         | ConnectionRefused _ \<Rightarrow> retry
         | LockAcquireFailed _ \<Rightarrow> retry
         | ProviderError _ _ \<Rightarrow> retry
         | _ \<Rightarrow> OtherError)"

definition handle_error ::
  "('w, 'f, 'y) task_ops_scheme \<Rightarrow> sync_error \<Rightarrow> 'f sync_task \<Rightarrow> 'w \<Rightarrow> 'f sync_task \<times> 'w" where
  "handle_error C e t w =
     (let from_state = st_state t in
      case transition (error_trigger t e) (st_machine t) of
        (Inr to_state, m) \<Rightarrow>
          (let t1 = emit (EvStateChanged from_state to_state) (t\<lparr>st_machine := m\<rparr>) in
           if to_state = Error \<or> to_state = Offline then
             (case (if backoff_should_retry (st_backoff t1) e then
                      (case backoff_next_delay (to_f64 C) (to_rand C) (st_backoff t1) of (delay, b) \<Rightarrow>
                       case clock_now C w of (now, w') \<Rightarrow>
                         (t1\<lparr>st_backoff := b, st_next_retry := Some (now + int delay)\<rparr>, w'))
                    else (t1, w)) of (t2, w2) \<Rightarrow>
                (emit (EvFailed (sync_error_to_string e) to_state) t2, w2))
           else (t1, w))
      | (Inl te, m) \<Rightarrow>
          (emit (EvFailed (sync_error_to_string e @ ''; transition error: '' @ sync_error_to_string te)
                  (sm_state m)) (t\<lparr>st_machine := m\<rparr>), w))"

section \<open>Running the pipeline\<close>

definition conflict_item_of ::
  "('x) env_scheme \<Rightarrow> (string \<times> bytes) list \<Rightarrow> local_record_info list \<Rightarrow> string \<Rightarrow> conflict_item option" where
  "conflict_item_of E data locals rid =
     Option.bind (map_of data rid) (\<lambda>b.
     Option.bind (find (\<lambda>l. li_record_id l = rid) locals) (\<lambda>l.
     Option.bind (uuid_parse E rid) (\<lambda>u.
     Some \<lparr> ci_record_id = u, ci_conflict_data = b, ci_current_version = li_version l \<rparr>)))"

definition pipeline_start :: "('w, 'f, 'y) task_ops_scheme \<Rightarrow> 'f sync_task \<Rightarrow> pipeline_context" where
  "pipeline_start C t =
     (let checkpoint = checkpoint_new (to_temp_dir C) in
      case st_vault_data t of
        Some d \<Rightarrow>
          (let px = set_last_remote_metadata (vd_last_remote_metadata d)
                     (pipeline_context_new (st_provider t) checkpoint (vd_local_metadata_version d) (vd_local_vault_token d));
               px = (if vd_local_records d \<noteq> [] then set_local_records (vd_local_records d) px else px)
           in if vd_uploads d \<noteq> [] then set_uploads (vd_uploads d) px else px)
      | None \<Rightarrow> set_last_remote_metadata None (pipeline_context_new (st_provider t) checkpoint 0 []))"

definition execute_pipeline ::
  "('x) cloud_env_scheme \<Rightarrow> ('w, 'f, 'y) task_ops_scheme \<Rightarrow> 'f sync_task \<Rightarrow> 'w
   \<Rightarrow> pipeline_execution_outcome \<times> 'f sync_task \<times> 'w" where
  "execute_pipeline E C t w =
     (case pipeline_execute E C (to_schedule C) (pipeline_start C t) w of (res, px, w') \<Rightarrow>
      let failed_count = of_nat (length (px_failed_ids px));
          t' = (if px_conflicts px \<noteq> [] then
                  t\<lparr>st_pending := List.map_filter (conflict_item_of E (px_conflict_data_map px) (px_local_records px)) (px_conflicts px)\<rparr>
                else t)
      in (\<lparr> po_result = res, po_health_states = px_downloaded_health_states px,
            po_health_deleted = px_downloaded_health_deleted px,
            po_downloaded_records = map snd (px_downloads px), po_uploaded_ids = px_uploaded_ids px,
            po_failed_count = failed_count, po_conflict_data = px_conflict_data_map px,
            po_final_metadata = (if failed_count = 0 then px_final_metadata px else None) \<rparr>, t', w'))"

text \<open>The common tail of the three successful results: reset, report the state and the cycle.\<close>

definition complete_cycle ::
  "pipeline_execution_outcome \<Rightarrow> sync_report \<Rightarrow> 'f sync_task \<Rightarrow> 'f sync_task" where
  "complete_cycle out rep t =
     (let from_state = st_state t;
          t1 = t\<lparr>st_backoff := backoff_reset (st_backoff t), st_machine := sm_reset (st_machine t)\<rparr>
      in emit (EvCompleted rep (po_health_states out) (po_health_deleted out) (po_downloaded_records out)
                 (po_uploaded_ids out) (po_conflict_data out) (po_final_metadata out))
           (emit (EvStateChanged from_state (st_state t1)) t1))"

definition handle_pipeline_result ::
  "('w, 'f, 'y) task_ops_scheme \<Rightarrow> pipeline_execution_outcome \<Rightarrow> timestamp \<Rightarrow> 'f sync_task \<Rightarrow> 'w \<Rightarrow> 'f sync_task \<times> 'w" where
  "handle_pipeline_result C out start t w =
     (case clock_now C w of (now, w') \<Rightarrow>
      let duration_ms = word_of_int ((now - start) div 1000000);
          uploaded = of_nat (length (po_uploaded_ids out));
          downloaded = of_nat (length (po_downloaded_records out))
      in case po_result out of
           Completed \<Rightarrow>
             (complete_cycle out \<lparr> rp_uploaded = uploaded, rp_downloaded = downloaded, rp_conflicts = 0,
                rp_failed = po_failed_count out, rp_duration_ms = duration_ms \<rparr> t, w')
         | PipelineNoChanges \<Rightarrow>
             (complete_cycle out \<lparr> rp_uploaded = 0, rp_downloaded = 0, rp_conflicts = 0,
                rp_failed = po_failed_count out, rp_duration_ms = duration_ms \<rparr> t, w')
         | ConflictsDetected ids \<Rightarrow>
             (complete_cycle out \<lparr> rp_uploaded = uploaded, rp_downloaded = downloaded, rp_conflicts = of_nat (length ids),
                rp_failed = po_failed_count out, rp_duration_ms = duration_ms \<rparr> t, w')
         | PipelineError e \<Rightarrow> handle_error C e t w')"

text \<open>The cycle shared by the trigger, pull-only and retry handlers once the machine is pulling.\<close>

definition run_cycle ::
  "('x) cloud_env_scheme \<Rightarrow> ('w, 'f, 'y) task_ops_scheme \<Rightarrow> 'f sync_task \<Rightarrow> 'w \<Rightarrow> 'f sync_task \<times> 'w" where
  "run_cycle E C t w =
     (case check_connectivity C (st_provider t) w of
        (Inl e, w1) \<Rightarrow> handle_error C e t w1
      | (Inr _, w1) \<Rightarrow>
         (case clock_now C w1 of (start, w2) \<Rightarrow>
          case execute_pipeline E C t w2 of (out, t1, w3) \<Rightarrow> handle_pipeline_result C out start t1 w3))"

section \<open>Command handlers\<close>

definition start_cycle ::
  "('x) cloud_env_scheme \<Rightarrow> ('w, 'f, 'y) task_ops_scheme \<Rightarrow> sync_trigger \<Rightarrow> 'f sync_task \<Rightarrow> 'w \<Rightarrow> 'f sync_task \<times> 'w" where
  "start_cycle E C trigger t w =
     (if st_paused t then (t, w)
      else if \<not> can_accept_commands (st_machine t) then (t, w)
      else
        (let from_state = st_state t in
         case transition trigger (st_machine t) of
           (Inr to_state, m) \<Rightarrow> run_cycle E C (emit (EvStateChanged from_state to_state) (t\<lparr>st_machine := m\<rparr>)) w
         | (Inl e, m) \<Rightarrow> (emit (EvFailed (sync_error_to_string e) (sm_state m)) (t\<lparr>st_machine := m\<rparr>), w)))"

definition handle_trigger_sync ::
  "('x) cloud_env_scheme \<Rightarrow> ('w, 'f, 'y) task_ops_scheme \<Rightarrow> 'f sync_task \<Rightarrow> 'w \<Rightarrow> 'f sync_task \<times> 'w" where
  "handle_trigger_sync E C = start_cycle E C TriggerSync"

definition handle_pull_only ::
  "('x) cloud_env_scheme \<Rightarrow> ('w, 'f, 'y) task_ops_scheme \<Rightarrow> 'f sync_task \<Rightarrow> 'w \<Rightarrow> 'f sync_task \<times> 'w" where
  "handle_pull_only E C = start_cycle E C PullOnly"

definition handle_retry_after_backoff ::
  "('x) cloud_env_scheme \<Rightarrow> ('w, 'f, 'y) task_ops_scheme \<Rightarrow> 'f sync_task \<Rightarrow> 'w \<Rightarrow> 'f sync_task \<times> 'w" where
  "handle_retry_after_backoff E C t w =
     (let from_state = st_state t in
      case transition BackoffExpired (st_machine t) of
        (Inr to_state, m) \<Rightarrow>
          (let t1 = emit (EvStateChanged from_state to_state) (t\<lparr>st_machine := m\<rparr>)
           in if to_state = Pulling then run_cycle E C t1 w else (t1, w))
      | (Inl e, m) \<Rightarrow> (emit (EvFailed (sync_error_to_string e) (sm_state m)) (t\<lparr>st_machine := m\<rparr>), w))"

text \<open>Uploading the local version of a conflicting record with its version raised.\<close>

definition upload_resolved ::
  "('x) cloud_env_scheme \<Rightarrow> ('w, 'y) cloud_ops_scheme \<Rightarrow> 'f sync_task \<Rightarrow> string \<Rightarrow> conflict_item \<Rightarrow> ('w, sync_error, unit) io" where
  "upload_resolved E C t rid item =
     (case Option.bind (st_vault_data t) (\<lambda>d. find (\<lambda>r. cr_id r = rid) (vd_uploads d)) of
        Some r \<Rightarrow> upload_record E C (st_provider t) rid (r\<lparr>cr_version := ci_current_version item + 1\<rparr>)
      | None \<Rightarrow> io_return ())"

definition handle_resolve_conflict ::
  "('x) cloud_env_scheme \<Rightarrow> ('w, 'f, 'y) task_ops_scheme \<Rightarrow> string \<Rightarrow> resolution_strategy \<Rightarrow> 'f sync_task \<Rightarrow> 'w \<Rightarrow> 'f sync_task \<times> 'w" where
  "handle_resolve_conflict E C rid strategy t w =
     (case uuid_parse E rid of
        None \<Rightarrow> (emit (EvFailed (''invalid record_id: '' @ rid) (st_state t)) t, w)
      | Some u \<Rightarrow>
         (case find (\<lambda>c. ci_record_id c = u) (st_pending t) of
            None \<Rightarrow> (emit (EvFailed (''no pending conflict for record '' @ rid) (st_state t)) t, w)
          | Some item \<Rightarrow>
              (case (case strategy of
                       StrategyKeepLocal \<Rightarrow>
                         io_map_err (\<lambda>e. ''upload failed for resolved record '' @ rid @ '': '' @ sync_error_to_string e)
                           (upload_resolved E C t rid item) w
                     | StrategyKeepRemote \<Rightarrow>
                         (map_err sync_error_to_string (try_res (resolve_keep_remote E (ci_conflict_data item)) (\<lambda>_. Inr ())), w)) of
                 (Inr _, w') \<Rightarrow>
                   (emit (EvConflictResolved rid) (t\<lparr>st_pending := filter (\<lambda>c. ci_record_id c \<noteq> u) (st_pending t)\<rparr>), w')
               | (Inl e, w') \<Rightarrow> (emit (EvFailed e (st_state t)) t, w'))))"

text \<open>The loop over outcomes and items: \<open>keep\<close> collects the items pushed back.\<close>

fun resolve_all_loop ::
  "('x) cloud_env_scheme \<Rightarrow> ('w, 'y) cloud_ops_scheme \<Rightarrow> 'f sync_task \<Rightarrow> resolution_strategy
   \<Rightarrow> (resolve_outcome \<times> conflict_item) list \<Rightarrow> nat \<Rightarrow> conflict_item list \<Rightarrow> 'w \<Rightarrow> nat \<times> conflict_item list \<times> 'w" where
  "resolve_all_loop E C t strategy [] n keep w = (n, keep, w)"
| "resolve_all_loop E C t strategy ((out, item) # xs) n keep w =
     (if is_ok (ro_result out) then
        (case (if strategy = StrategyKeepLocal
               then (case upload_resolved E C t (uuid_show E (ci_record_id item)) item w of (r, w') \<Rightarrow> (is_ok r, w'))
               else (True, w)) of (upload_ok, w') \<Rightarrow>
           if upload_ok then resolve_all_loop E C t strategy xs (n + 1) keep w'
           else resolve_all_loop E C t strategy xs n (keep @ [item]) w')
      else resolve_all_loop E C t strategy xs n (keep @ [item]) w)"

definition handle_resolve_all ::
  "('x) cloud_env_scheme \<Rightarrow> ('w, 'f, 'y) task_ops_scheme \<Rightarrow> resolution_strategy \<Rightarrow> 'f sync_task \<Rightarrow> 'w \<Rightarrow> 'f sync_task \<times> 'w" where
  "handle_resolve_all E C strategy t w =
     (let items = st_pending t; t0 = t\<lparr>st_pending := []\<rparr> in
      if items = [] then (emit (EvAllConflictsResolved 0) t0, w)
      else case resolve_all_loop E C t0 strategy (zip (resolve_all_batch E items strategy) items) 0 [] w of
        (n, keep, w') \<Rightarrow> (emit (EvAllConflictsResolved n) (t0\<lparr>st_pending := keep\<rparr>), w'))"

definition handle_pause :: "('w, 'f, 'y) task_ops_scheme \<Rightarrow> 'f sync_task \<Rightarrow> 'w \<Rightarrow> 'f sync_task \<times> 'w" where
  "handle_pause C t w =
     (let t1 = t\<lparr>st_paused := True\<rparr> in (if to_channel_full C w then t1 else emit EvPaused t1, w))"

definition handle_resume :: "('w, 'f, 'y) task_ops_scheme \<Rightarrow> 'f sync_task \<Rightarrow> 'w \<Rightarrow> 'f sync_task \<times> 'w" where
  "handle_resume C t w =
     (let t1 = t\<lparr>st_paused := False\<rparr> in (if to_channel_full C w then t1 else emit EvResumed t1, w))"

definition handle_download_metadata ::
  "('x) cloud_env_scheme \<Rightarrow> ('w, 'f, 'y) task_ops_scheme \<Rightarrow> 'f sync_task \<Rightarrow> 'w \<Rightarrow> 'f sync_task \<times> 'w" where
  "handle_download_metadata E C t w =
     (case download_metadata E C (st_provider t) w of
        (Inr m, w') \<Rightarrow> (emit (EvMetadataDownloaded m) t, w')
      | (Inl e, w') \<Rightarrow> (emit (EvFailed (sync_error_to_string e) (st_state t)) t, w'))"

definition handle_push_metadata_atomic ::
  "('x) cloud_env_scheme \<Rightarrow> ('w, 'f, 'y) task_ops_scheme \<Rightarrow> cloud_metadata \<Rightarrow> u64 \<Rightarrow> 'f sync_task \<Rightarrow> 'w \<Rightarrow> 'f sync_task \<times> 'w" where
  "handle_push_metadata_atomic E C m expected t w =
     (case push_metadata_atomic E C (st_provider t) m expected w of
        (Inr _, w') \<Rightarrow> (emit EvMetadataPushed t, w')
      | (Inl e, w') \<Rightarrow> (emit (EvFailed (sync_error_to_string e) (st_state t)) t, w'))"

definition handle_shutdown :: "'f sync_task \<Rightarrow> 'f sync_task" where
  "handle_shutdown t =
     (let from_state = st_state t; t1 = t\<lparr>st_machine := snd (transition Shutdown (st_machine t))\<rparr>
      in emit EvShutdownComplete (emit (EvStateChanged from_state (st_state t1)) t1))"

section \<open>The loop\<close>

datatype task_input = Received sync_command | ChannelClosed | SleepEnded

definition handle_command ::
  "('x) cloud_env_scheme \<Rightarrow> ('w, 'f, 'y) task_ops_scheme \<Rightarrow> sync_command \<Rightarrow> 'f sync_task \<Rightarrow> 'w \<Rightarrow> 'f sync_task \<times> 'w" where
  "handle_command E C cmd t w = (case cmd of
     CmdTriggerSync data \<Rightarrow> handle_trigger_sync E C (t\<lparr>st_vault_data := data\<rparr>) w
   | CmdPullOnly \<Rightarrow> handle_pull_only E C t w
   | CmdResolveConflict rid strategy \<Rightarrow> handle_resolve_conflict E C rid strategy t w
   | CmdResolveAllConflicts strategy \<Rightarrow> handle_resolve_all E C strategy t w
   | CmdPause \<Rightarrow> handle_pause C t w
   | CmdResume \<Rightarrow> handle_resume C t w
   | CmdPushMetadataAtomic m expected \<Rightarrow> handle_push_metadata_atomic E C m expected t w
   | CmdDownloadMetadata \<Rightarrow> handle_download_metadata E C t w
   | CmdShutdown \<Rightarrow> (\<lambda>t'. (t'\<lparr>st_running := False\<rparr>, w)) (handle_shutdown t))"

definition handle_sleep ::
  "('x) cloud_env_scheme \<Rightarrow> ('w, 'f, 'y) task_ops_scheme \<Rightarrow> 'f sync_task \<Rightarrow> 'w \<Rightarrow> 'f sync_task \<times> 'w" where
  "handle_sleep E C t w = (case st_next_retry t of
     None \<Rightarrow> (t, w)
   | Some next_retry \<Rightarrow>
       (case clock_now C w of (now, w') \<Rightarrow>
          if next_retry \<le> now then handle_retry_after_backoff E C (t\<lparr>st_next_retry := None\<rparr>) w' else (t, w')))"

definition task_step ::
  "('x) cloud_env_scheme \<Rightarrow> ('w, 'f, 'y) task_ops_scheme \<Rightarrow> task_input \<Rightarrow> 'f sync_task \<times> 'w \<Rightarrow> 'f sync_task \<times> 'w" where
  "task_step E C inp s = (case s of (t, w) \<Rightarrow>
     if \<not> st_running t then (t, w)
     else case inp of
       Received cmd \<Rightarrow> handle_command E C cmd t w
     | ChannelClosed \<Rightarrow> (t\<lparr>st_running := False\<rparr>, w)
     | SleepEnded \<Rightarrow> handle_sleep E C t w)"

section \<open>A store that is down\<close>

text \<open>The in-memory store with every listing refused with the given kind of error.\<close>

definition down_ops :: "op_error_kind \<Rightarrow> (mem_world, int) task_ops" where
  "down_ops kind = \<lparr> op_read = mem_read, op_write = mem_write, op_rename = mem_rename,
     op_stat = (\<lambda>p w. case mem_read p w of (r, w') \<Rightarrow> (try_res r (\<lambda>_. Inr ()), w')), op_delete = mem_delete,
     op_list = (\<lambda>_ w. (Inl \<lparr> op_kind = kind, op_text = ''down'' \<rparr>, w)),
     clock_now = clock_now mem_ops, new_uuid = new_uuid mem_ops, os_random = os_random mem_ops,
     sleep_millis = sleep_millis mem_ops, to_f64 = demo_f64, to_rand = (\<lambda>lo hi. hi), to_schedule = (\<lambda>xs. xs),
     to_temp_dir = ''/tmp'', to_channel_full = (\<lambda>_. False) \<rparr>"

definition demo_wake :: "int sync_task \<times> mem_world \<Rightarrow> mem_world" where
  "demo_wake s = (snd s)\<lparr>mw_clock := (case st_next_retry (fst s) of Some r \<Rightarrow> r | None \<Rightarrow> mw_clock (snd s))\<rparr>"

abbreviation demo_task :: "int sync_task" where
  "demo_task \<equiv> sync_task_new 2000 200 ''webdav'' (sm_new 5)"

section \<open>The states of a running task\<close>

lemma emit_fields [simp]:
  "st_machine (emit ev t) = st_machine t" "st_next_retry (emit ev t) = st_next_retry t"
  "st_running (emit ev t) = st_running t" "st_paused (emit ev t) = st_paused t"
  "st_backoff (emit ev t) = st_backoff t" "st_provider (emit ev t) = st_provider t"
  "st_pending (emit ev t) = st_pending t" "st_vault_data (emit ev t) = st_vault_data t"
  "st_events (emit ev t) = st_events t @ [ev]"
  by (simp_all add: emit_def)

lemma error_trigger_eq:
  "error_trigger t e = (if transient e \<and> \<not> bt_attempt (st_backoff t) < rp_max_retries (bt_policy (st_backoff t))
     then MaxRetriesExceeded else OtherError)"
  by (cases e) (auto simp: error_trigger_def Let_def backoff_should_retry_def should_retry_iff transient_def unreachable_def)

text \<open>What an error does to a pulling task.\<close>

lemma handle_error_pulling:
  assumes "st_state t = Pulling" "handle_error C e t w = (t', w')"
  shows "st_running t' = st_running t \<and> st_paused t' = st_paused t \<and> st_provider t' = st_provider t
    \<and> (if transient e \<and> \<not> bt_attempt (st_backoff t) < rp_max_retries (bt_policy (st_backoff t))
       then st_machine t' = st_machine t \<and> st_next_retry t' = st_next_retry t \<and> st_backoff t' = st_backoff t
       else st_state t' = Error \<and> sm_attempt (st_machine t') = sm_attempt (st_machine t) + 1
          \<and> sm_max_retries (st_machine t') = sm_max_retries (st_machine t)
          \<and> (if unreachable e \<or> transient e
             then st_next_retry t' \<noteq> None \<and> st_backoff t' = (st_backoff t)\<lparr>bt_attempt := bt_attempt (st_backoff t) + 1\<rparr>
             else st_next_retry t' = st_next_retry t \<and> st_backoff t' = st_backoff t))"
proof (cases "transient e \<and> \<not> bt_attempt (st_backoff t) < rp_max_retries (bt_policy (st_backoff t))")
  case True
  then have tr: "error_trigger t e = MaxRetriesExceeded"
    by (simp add: error_trigger_eq)
  show ?thesis
    using assms True by (auto simp: handle_error_def tr sm_defs)
next
  case False
  then have tr: "error_trigger t e = OtherError"
    by (auto simp: error_trigger_eq)
  have sr: "should_retry (bt_policy (st_backoff t)) e (bt_attempt (st_backoff t)) \<longleftrightarrow> unreachable e \<or> transient e"
    using False by (auto simp: should_retry_iff)
  show ?thesis
    using assms False sr
    by (auto simp: handle_error_def tr sm_defs Let_def backoff_should_retry_def backoff_next_delay_def
        split: prod.splits if_splits)
qed

lemma execute_pipeline_fields:
  "execute_pipeline E C t w = (out, t', w') \<Longrightarrow>
   st_machine t' = st_machine t \<and> st_next_retry t' = st_next_retry t \<and> st_running t' = st_running t
   \<and> st_paused t' = st_paused t \<and> st_backoff t' = st_backoff t"
  by (auto simp: execute_pipeline_def Let_def split: prod.splits if_splits)

lemma complete_cycle_fields:
  "st_state (complete_cycle out rep t) = Idle" "st_next_retry (complete_cycle out rep t) = st_next_retry t"
  "st_running (complete_cycle out rep t) = st_running t" "st_paused (complete_cycle out rep t) = st_paused t"
  by (simp_all add: complete_cycle_def Let_def sm_reset_def)

definition task_inv :: "'f sync_task \<Rightarrow> bool" where
  "task_inv t \<longleftrightarrow> (st_running t \<longrightarrow> st_state t \<in> {Idle, Pulling, Error})
     \<and> st_state t \<in> {Idle, Pulling, Error, ShuttingDown}
     \<and> (st_running t \<and> st_next_retry t \<noteq> None \<longrightarrow> st_state t = Error)"

lemma handle_error_inv:
  assumes "st_state t = Pulling" "st_next_retry t = None" "handle_error C e t w = (t', w')"
  shows "task_inv t'"
  using handle_error_pulling[OF assms(1,3)] assms(1,2)
  by (auto simp: task_inv_def split: if_splits)

lemma run_cycle_inv:
  assumes "st_state t = Pulling" "st_next_retry t = None" "run_cycle E C t w = (t', w')"
  shows "task_inv t'"
proof (cases "check_connectivity C (st_provider t) w")
  case (Pair r w1)
  show ?thesis
  proof (cases r)
    case (Inl e)
    then show ?thesis
      using assms Pair handle_error_inv[OF assms(1,2), of C e w1] by (simp add: run_cycle_def)
  next
    case (Inr u)
    obtain start w2 where c: "clock_now C w1 = (start, w2)" by fastforce
    obtain out t1 w3 where p: "execute_pipeline E C t w2 = (out, t1, w3)" by (metis prod_cases3)
    have t1: "st_state t1 = Pulling" "st_next_retry t1 = None"
      using execute_pipeline_fields[OF p] assms(1,2) by simp_all
    obtain now w4 where n: "clock_now C w3 = (now, w4)" by fastforce
    have res: "handle_pipeline_result C out start t1 w3 = (t', w')"
      using assms(3) Pair Inr c p by (simp add: run_cycle_def)
    then have h: "handle_error C e t1 w4 = (t', w')" if "po_result out = PipelineError e" for e
      using that n by (simp add: handle_pipeline_result_def Let_def)
    show ?thesis
    proof (cases "\<exists>e. po_result out = PipelineError e")
      case True
      then obtain e where "handle_error C e t1 w4 = (t', w')" using h by blast
      then show ?thesis by (rule handle_error_inv[OF t1])
    next
      case False
      then obtain rep where "t' = complete_cycle out rep t1"
        using res n by (cases "po_result out") (auto simp: handle_pipeline_result_def Let_def)
      then show ?thesis
        using t1 by (simp add: task_inv_def complete_cycle_fields)
    qed
  qed
qed

text \<open>Handlers that do not run a cycle leave the machine and the retry alone.\<close>

definition same_core :: "'f sync_task \<Rightarrow> 'f sync_task \<Rightarrow> bool" where
  "same_core t t' \<longleftrightarrow> st_machine t' = st_machine t \<and> st_next_retry t' = st_next_retry t
     \<and> st_running t' = st_running t \<and> st_backoff t' = st_backoff t
     \<and> (\<exists>evs. st_events t' = st_events t @ evs \<and> list_all (\<lambda>ev. case ev of EvCompleted _ _ _ _ _ _ _ \<Rightarrow> False | EvStateChanged _ _ \<Rightarrow> False | _ \<Rightarrow> True) evs)"

lemma other_handlers_same_core:
  "same_core t (fst (handle_resolve_conflict E C rid s t w))"
  "same_core t (fst (handle_resolve_all E C s t w))"
  "same_core t (fst (handle_pause C t w))"
  "same_core t (fst (handle_resume C t w))"
  "same_core t (fst (handle_download_metadata E C t w))"
  "same_core t (fst (handle_push_metadata_atomic E C m v t w))"
  by (auto simp: same_core_def handle_resolve_conflict_def handle_resolve_all_def handle_pause_def handle_resume_def
      handle_download_metadata_def handle_push_metadata_atomic_def Let_def split: option.splits prod.splits sum.splits)

lemma same_core_inv: "same_core t t' \<Longrightarrow> task_inv t \<Longrightarrow> task_inv t'"
  by (simp add: same_core_def task_inv_def)

lemma start_cycle_inv:
  assumes "task_inv t" "st_running t" "trigger = TriggerSync \<or> trigger = PullOnly"
  shows "task_inv (fst (start_cycle E C trigger t w))"
proof (cases "st_paused t \<or> \<not> can_accept_commands (st_machine t)")
  case True
  then show ?thesis using assms(1) by (auto simp: start_cycle_def)
next
  case False
  show ?thesis
  proof (cases "st_state t = Idle")
    case True
    let ?m = "(st_machine t)\<lparr>sm_attempt := 0, sm_state := Pulling\<rparr>"
    have tr: "transition trigger (st_machine t) = (Inr Pulling, ?m)"
      using True assms(3) by (auto simp: sm_defs)
    have "st_next_retry t = None"
      using assms(1,2) True by (auto simp: task_inv_def)
    then show ?thesis
      using False tr run_cycle_inv[of "emit (EvStateChanged Idle Pulling) (t\<lparr>st_machine := ?m\<rparr>)" E C w]
      by (cases "run_cycle E C (emit (EvStateChanged Idle Pulling) (t\<lparr>st_machine := ?m\<rparr>)) w") (simp add: start_cycle_def True)
  next
    case other: False
    then have "st_state t = Error"
      using assms(1,2) False by (auto simp: task_inv_def can_accept_commands_def)
    then have "transition trigger (st_machine t) = (Inl (invalid_transition Error), st_machine t)"
      using assms(3) by (auto simp: sm_defs)
    then show ?thesis
      using False assms(1) by (simp add: start_cycle_def task_inv_def)
  qed
qed

lemma retry_inv:
  assumes "st_state t = Error" "st_next_retry t = None"
  shows "task_inv (fst (handle_retry_after_backoff E C t w))"
proof (cases "sm_attempt (st_machine t) \<le> sm_max_retries (st_machine t)")
  case True
  let ?t = "emit (EvStateChanged Error Pulling) (t\<lparr>st_machine := (st_machine t)\<lparr>sm_state := Pulling\<rparr>\<rparr>)"
  have "transition BackoffExpired (st_machine t) = (Inr Pulling, (st_machine t)\<lparr>sm_state := Pulling\<rparr>)"
    using True assms(1) by (simp add: sm_defs)
  then show ?thesis
    using assms run_cycle_inv[of ?t E C w]
    by (cases "run_cycle E C ?t w") (simp add: handle_retry_after_backoff_def)
next
  case False
  then have "transition BackoffExpired (st_machine t) = (Inl (invalid_transition Error), st_machine t)"
    using assms(1) by (simp add: sm_defs)
  then show ?thesis
    using assms by (simp add: handle_retry_after_backoff_def task_inv_def)
qed

lemma task_step_inv:
  assumes "task_inv (fst s)"
  shows "task_inv (fst (task_step E C inp s))"
proof (cases s)
  case (Pair t w)
  then have inv: "task_inv t" using assms by simp
  show ?thesis
  proof (cases "st_running t")
    case False
    then show ?thesis using inv Pair by (simp add: task_step_def)
  next
    case True
    have core: "same_core t t' \<Longrightarrow> task_inv t'" for t'
      using same_core_inv inv by blast
    show ?thesis
    proof (cases inp)
      case (Received cmd)
      have vd: "task_inv (t\<lparr>st_vault_data := d\<rparr>)" for d
        using inv by (simp add: task_inv_def)
      have sd: "task_inv ((handle_shutdown t)\<lparr>st_running := False\<rparr>)"
        by (simp add: handle_shutdown_def Let_def task_inv_def sm_defs split: sync_state.splits)
      have sc: "task_inv (fst (start_cycle E C TriggerSync (t\<lparr>st_vault_data := d\<rparr>) w))"
        "task_inv (fst (start_cycle E C PullOnly t w))" for d
        by (rule start_cycle_inv; use inv vd True in simp)+
      show ?thesis
        unfolding Pair Received using True sd sc
        by (cases cmd) (simp_all add: task_step_def handle_command_def handle_trigger_sync_def handle_pull_only_def
            core other_handlers_same_core)
    next
      case ChannelClosed
      then show ?thesis
        using Pair True inv by (simp add: task_step_def task_inv_def)
    next
      case SleepEnded
      have "st_next_retry t = Some r \<Longrightarrow> st_state t = Error" for r
        using inv True by (simp add: task_inv_def)
      then show ?thesis
        using Pair True SleepEnded inv retry_inv[of "t\<lparr>st_next_retry := None\<rparr>" E C]
        by (auto simp: task_step_def handle_sleep_def split: option.splits prod.splits)
    qed
  qed
qed

interpretation task: invariant_system "\<lambda>s. \<exists>two fifth prov k. fst s = sync_task_new two fifth prov (sm_new k)"
  "task_step E C" "\<lambda>s. task_inv (fst s)" for E :: "('x) cloud_env_scheme" and C :: "('w, 'f, 'y) task_ops_scheme"
proof unfold_locales
  show "task_inv (fst s)" if "\<exists>two fifth prov k. fst s = sync_task_new two fifth prov (sm_new k)" for s :: "'f sync_task \<times> 'w"
    using that by (auto simp: task_inv_def sync_task_new_def sm_new_def)
qed (rule task_step_inv)



section \<open>Tasks no command can restart\<close>

definition stuck :: "'f sync_task \<Rightarrow> bool" where
  "stuck t \<longleftrightarrow> st_running t \<and> st_next_retry t = None \<and> (st_state t = Pulling \<or> st_state t = Error)"

lemma same_core_refl [simp]: "same_core t t"
  by (simp add: same_core_def)

lemma same_core_trans: "same_core a b \<Longrightarrow> same_core b c \<Longrightarrow> same_core a c"
  unfolding same_core_def by fastforce

lemma same_core_failed: "same_core t (emit (EvFailed msg st) t)"
  by (simp add: same_core_def)

lemma same_core_vault_data [simp]: "same_core (t\<lparr>st_vault_data := d\<rparr>) t' \<longleftrightarrow> same_core t t'"
  by (simp add: same_core_def)

lemma start_cycle_stuck:
  assumes "stuck t" "trigger = TriggerSync \<or> trigger = PullOnly"
  shows "same_core t (fst (start_cycle E C trigger t w))"
proof (cases "st_state t = Error")
  case True
  then have "transition trigger (st_machine t) = (Inl (invalid_transition Error), st_machine t)"
    using assms(2) by (auto simp: sm_defs)
  then show ?thesis
    by (simp add: start_cycle_def same_core_failed)
next
  case False
  then show ?thesis
    using assms(1) by (simp add: start_cycle_def stuck_def can_accept_commands_def)
qed

definition keeps_running :: "task_input \<Rightarrow> bool" where
  "keeps_running inp \<longleftrightarrow> inp \<noteq> ChannelClosed \<and> inp \<noteq> Received CmdShutdown"

lemma task_step_stuck:
  assumes "stuck t" "keeps_running inp"
  shows "same_core t (fst (task_step E C inp (t, w)))"
proof (cases inp)
  case (Received cmd)
  have sc: "same_core t (fst (start_cycle E C TriggerSync (t\<lparr>st_vault_data := d\<rparr>) w))"
    "same_core t (fst (start_cycle E C PullOnly t w))" for d
    using start_cycle_stuck[of "t\<lparr>st_vault_data := d\<rparr>" TriggerSync E C w] start_cycle_stuck[of t PullOnly E C w] assms(1)
    by (simp_all add: stuck_def)
  show ?thesis
    using assms Received sc
    by (cases cmd) (simp_all add: task_step_def handle_command_def handle_trigger_sync_def handle_pull_only_def
        other_handlers_same_core keeps_running_def)
qed (use assms in \<open>simp_all add: task_step_def handle_sleep_def stuck_def keeps_running_def\<close>)

lemma same_core_stuck: "same_core t t' \<Longrightarrow> stuck t \<Longrightarrow> stuck t'"
  by (simp add: same_core_def stuck_def)

lemma run_stuck:
  assumes "stuck (fst s)" "list_all keeps_running inputs"
  shows "same_core (fst s) (fst (fold (task_step E C) inputs s))"
  using assms
proof (induction inputs arbitrary: s)
  case (Cons inp inputs)
  have "same_core (fst s) (fst (task_step E C inp s))"
    using task_step_stuck[of "fst s" inp E C "snd s"] Cons.prems by simp
  then show ?case
    using Cons.IH[of "task_step E C inp s"] Cons.prems same_core_stuck same_core_trans by fastforce
qed simp

text \<open>
  C19: a running task that is \<open>Pulling\<close> or \<open>Error\<close> between turns with no retry scheduled never
  syncs again: whatever commands other than shutdown it receives, and whatever the store does from
  then on, its state machine and its retry stay as they are and it reports neither a completed
  sync nor a change of state.
\<close>

theorem stuck_task_never_syncs:
  assumes "stuck t" "list_all keeps_running inputs"
  shows "let t' = fst (fold (task_step E C) inputs (t, w))
   in stuck t' \<and> st_machine t' = st_machine t
      \<and> (\<exists>evs. st_events t' = st_events t @ evs
           \<and> (\<forall>r hs hd ds us cs m. EvCompleted r hs hd ds us cs m \<notin> set evs)
           \<and> (\<forall>a b. EvStateChanged a b \<notin> set evs))"
proof -
  let ?t = "fst (fold (task_step E C) inputs (t, w))"
  have core: "same_core t ?t"
    using run_stuck[of "(t, w)" inputs E C] assms by simp
  then have "\<exists>evs. st_events ?t = st_events t @ evs \<and> (\<forall>r hs hd ds us cs m. EvCompleted r hs hd ds us cs m \<notin> set evs)
           \<and> (\<forall>a b. EvStateChanged a b \<notin> set evs)"
    unfolding same_core_def list_all_iff by fastforce
  then show ?thesis
    using core same_core_stuck[OF core assms(1)] by (simp add: Let_def same_core_def)
qed

theorem stuck_task_never_syncs_witness:
  "stuck (demo_task\<lparr>st_machine := (sm_new 5)\<lparr>sm_state := Error\<rparr>\<rparr>)
   \<and> stuck (fst (fold (task_step demo_cloud_env (down_ops OpOther)) [Received CmdPullOnly, SleepEnded]
        (demo_task\<lparr>st_machine := (sm_new 5)\<lparr>sm_state := Error\<rparr>\<rparr>, mem_init 0)))"
proof
  show s: "stuck (demo_task\<lparr>st_machine := (sm_new 5)\<lparr>sm_state := Error\<rparr>\<rparr>)"
    by (simp add: stuck_def sync_task_new_def)
  show "stuck (fst (fold (task_step demo_cloud_env (down_ops OpOther)) [Received CmdPullOnly, SleepEnded]
        (demo_task\<lparr>st_machine := (sm_new 5)\<lparr>sm_state := Error\<rparr>\<rparr>, mem_init 0)))"
    using stuck_task_never_syncs[OF s, of "[Received CmdPullOnly, SleepEnded]" demo_cloud_env "down_ops OpOther" "mem_init 0"]
    by (simp add: keeps_running_def Let_def)
qed

section \<open>An outage\<close>

text \<open>
  A turn of the loop in which the sleep of the backoff ends: \<open>wake\<close> gives the world at that moment,
  any world whose clock has reached the scheduled retry.
\<close>

definition retry_turn ::
  "('x) cloud_env_scheme \<Rightarrow> ('w, 'f, 'y) task_ops_scheme \<Rightarrow> ('f sync_task \<times> 'w \<Rightarrow> 'w) \<Rightarrow> 'f sync_task \<times> 'w \<Rightarrow> 'f sync_task \<times> 'w" where
  "retry_turn E C wake s = task_step E C SleepEnded (fst s, wake s)"

definition wakes_up :: "('w, 'f, 'y) task_ops_scheme \<Rightarrow> ('f sync_task \<times> 'w \<Rightarrow> 'w) \<Rightarrow> bool" where
  "wakes_up C wake \<longleftrightarrow> (\<forall>s r. st_next_retry (fst s) = Some r \<longrightarrow> r \<le> fst (clock_now C (wake s)))"

text \<open>The store answers the connectivity check with a rate limit or an unclassified error.\<close>

definition outage :: "('w, 'f, 'y) task_ops_scheme \<Rightarrow> bool" where
  "outage C \<longleftrightarrow> (\<forall>w. \<exists>err. fst (op_list C (RECORDS_DIR @ ''/'') w) = Inl err
     \<and> (op_kind err = OpRateLimited \<or> op_kind err = OpOther))"

text \<open>A task that has failed \<open>n\<close> times in a row and waits for its retry.\<close>

definition failing :: "u32 \<Rightarrow> 'f sync_task \<Rightarrow> bool" where
  "failing n t \<longleftrightarrow> st_running t \<and> st_state t = Error \<and> st_next_retry t \<noteq> None
     \<and> sm_attempt (st_machine t) = n \<and> sm_max_retries (st_machine t) = 5
     \<and> bt_attempt (st_backoff t) = n \<and> rp_max_retries (bt_policy (st_backoff t)) = 5"

lemma check_connectivity_fails:
  assumes "fst (op_list C (RECORDS_DIR @ ''/'') w) = Inl err"
  shows "fst (run_cycle E C t w) = fst (handle_error C (map_opendal_error (st_provider t) ''connectivity check'' err) t
    (snd (op_list C (RECORDS_DIR @ ''/'') w)))"
  using assms by (cases "op_list C (RECORDS_DIR @ ''/'') w")
    (simp add: run_cycle_def check_connectivity_def io_bind_def io_map_err_def map_err_def)

lemma run_cycle_outage:
  assumes "outage C" "st_state t = Pulling" "st_running t" "st_next_retry t = None"
    "sm_attempt (st_machine t) = n" "sm_max_retries (st_machine t) = 5"
    "bt_attempt (st_backoff t) = n" "rp_max_retries (bt_policy (st_backoff t)) = 5"
  shows "if n < 5 then failing (n + 1) (fst (run_cycle E C t w))
    else stuck (fst (run_cycle E C t w)) \<and> st_state (fst (run_cycle E C t w)) = Pulling"
proof -
  obtain err where err: "fst (op_list C (RECORDS_DIR @ ''/'') w) = Inl err" "op_kind err = OpRateLimited \<or> op_kind err = OpOther"
    using assms(1) unfolding outage_def by blast
  let ?e = "map_opendal_error (st_provider t) ''connectivity check'' err"
  obtain t' w' where h: "handle_error C ?e t (snd (op_list C (RECORDS_DIR @ ''/'') w)) = (t', w')" by fastforce
  have tr: "transient ?e"
    using err(2) by (auto simp: map_opendal_error_def transient_def)
  have r: "fst (run_cycle E C t w) = t'"
    using check_connectivity_fails[OF err(1), of E t] h by simp
  show ?thesis
    using handle_error_pulling[OF assms(2) h] tr assms unfolding r
    by (auto simp: stuck_def failing_def split: if_splits)
qed

lemma retry_turn_outage:
  assumes "outage C" "wakes_up C wake" "failing n (fst s)" "n \<le> 5"
  shows "if n < 5 then failing (n + 1) (fst (retry_turn E C wake s))
    else stuck (fst (retry_turn E C wake s)) \<and> st_state (fst (retry_turn E C wake s)) = Pulling"
proof -
  let ?t = "(fst s)\<lparr>st_next_retry := None\<rparr>"
  let ?p = "emit (EvStateChanged Error Pulling) (?t\<lparr>st_machine := (st_machine (fst s))\<lparr>sm_state := Pulling\<rparr>\<rparr>)"
  obtain r where r: "st_next_retry (fst s) = Some r"
    using assms(3) by (auto simp: failing_def)
  obtain now w' where c: "clock_now C (wake s) = (now, w')" by fastforce
  have "r \<le> now"
    using assms(2) r c unfolding wakes_up_def by fastforce
  then have step: "retry_turn E C wake s = handle_retry_after_backoff E C ?t w'"
    using r c assms(3) by (simp add: retry_turn_def task_step_def handle_sleep_def failing_def)
  have "transition BackoffExpired (st_machine ?t) = (Inr Pulling, (st_machine ?t)\<lparr>sm_state := Pulling\<rparr>)"
    using assms(3,4) by (auto simp: sm_defs failing_def)
  then have "handle_retry_after_backoff E C ?t w' = run_cycle E C ?p w'"
    using assms(3) by (simp add: handle_retry_after_backoff_def failing_def)
  then show ?thesis
    using run_cycle_outage[of C ?p n E w'] assms(1,3) unfolding step
    by (simp only: failing_def) (simp split: if_splits)
qed

text \<open>The first turn: the command takes a new task to \<open>Pulling\<close> and runs the cycle.\<close>

lemma trigger_runs_cycle:
  obtains t where "task_step E C (Received (CmdTriggerSync d)) (sync_task_new two fifth p (sm_new k), w) = run_cycle E C t w"
    "st_state t = Pulling" "sm_attempt (st_machine t) = 0" "sm_max_retries (st_machine t) = k" "st_next_retry t = None" "st_running t"
    "st_backoff t = backoff_new (retry_policy_default two fifth)"
proof
  let ?m = "(sm_new k)\<lparr>sm_attempt := 0, sm_state := Pulling\<rparr>"
  let ?t = "emit (EvStateChanged Idle Pulling) (sync_task_new two fifth p (sm_new k)\<lparr>st_vault_data := d, st_machine := ?m\<rparr>)"
  have "transition TriggerSync (sm_new k) = (Inr Pulling, ?m)"
    by (simp add: sm_defs sm_new_def)
  then show "task_step E C (Received (CmdTriggerSync d)) (sync_task_new two fifth p (sm_new k), w) = run_cycle E C ?t w"
    by (simp add: task_step_def handle_command_def handle_trigger_sync_def start_cycle_def sync_task_new_def
        can_accept_commands_def sm_new_def)
qed (simp_all add: sync_task_new_def sm_new_def)

lemma trigger_outage:
  assumes "outage C"
  shows "failing 1 (fst (task_step E C (Received (CmdTriggerSync d)) (sync_task_new two fifth p (sm_new 5), w)))"
proof -
  obtain t where "task_step E C (Received (CmdTriggerSync d)) (sync_task_new two fifth p (sm_new 5), w) = run_cycle E C t w"
    "st_state t = Pulling" "sm_attempt (st_machine t) = 0" "sm_max_retries (st_machine t) = 5" "st_next_retry t = None" "st_running t"
    "st_backoff t = backoff_new (retry_policy_default two fifth)"
    by (rule trigger_runs_cycle)
  then show ?thesis
    using run_cycle_outage[of C t 0 E w] assms by (simp add: backoff_new_def retry_policy_default_def)
qed

lemma failing_turns:
  assumes "outage C" "wakes_up C wake" "failing 1 (fst s)"
  shows "failing 5 (fst ((retry_turn E C wake ^^ 4) s))"
proof -
  let ?f = "retry_turn E C wake"
  have step: "failing (n + 1) (fst (?f s))" if "failing n (fst s)" "n < 5" for n s
    using retry_turn_outage[OF assms(1,2) that(1), of E] that(2) by (simp split: if_splits)
  have "failing 2 (fst (?f s))" using step[OF assms(3)] by simp
  then have "failing 3 (fst (?f (?f s)))" using step[of 2 "?f s"] by simp
  then have "failing 4 (fst (?f (?f (?f s))))" using step[of 3 "?f (?f s)"] by simp
  then have "failing 5 (fst (?f (?f (?f (?f s)))))" using step[of 4 "?f (?f (?f s))"] by simp
  moreover have "(?f ^^ 4) s = ?f (?f (?f (?f s)))"
    by (simp add: eval_nat_numeral)
  ultimately show ?thesis by simp
qed



text \<open>
  A connectivity check refused with "not found" or "permission denied" is not retried, and
  leaves the task stuck in \<open>Error\<close> at once, whatever the retry limit of the state machine.
\<close>

theorem refused_check_wedges_task:
  assumes "fst (op_list C (RECORDS_DIR @ ''/'') w) = Inl err" "op_kind err = OpNotFound \<or> op_kind err = OpPermissionDenied"
  shows "let t = fst (task_step E C (Received (CmdTriggerSync d)) (sync_task_new two fifth p (sm_new k), w))
   in st_state t = Error \<and> stuck t"
proof -
  obtain t where t: "task_step E C (Received (CmdTriggerSync d)) (sync_task_new two fifth p (sm_new k), w) = run_cycle E C t w"
    "st_state t = Pulling" "sm_attempt (st_machine t) = 0" "sm_max_retries (st_machine t) = k" "st_next_retry t = None" "st_running t"
    by (rule trigger_runs_cycle)
  let ?e = "map_opendal_error (st_provider t) ''connectivity check'' err"
  obtain t' w' where h: "handle_error C ?e t (snd (op_list C (RECORDS_DIR @ ''/'') w)) = (t', w')" by fastforce
  have ne: "\<not> transient ?e" "\<not> unreachable ?e"
    using assms(2) by (auto simp: map_opendal_error_def transient_def unreachable_def)
  from handle_error_pulling[OF t(2) h] show ?thesis
    using check_connectivity_fails[OF assms(1), of E t] h ne t by (simp add: stuck_def)
qed

theorem refused_check_wedges_task_witness:
  "stuck (fst (task_step demo_cloud_env (down_ops OpPermissionDenied) (Received (CmdTriggerSync None)) (demo_task, mem_init 0)))"
proof -
  have "fst (op_list (down_ops OpPermissionDenied) (RECORDS_DIR @ ''/'') (mem_init 0))
      = Inl \<lparr> op_kind = OpPermissionDenied, op_text = ''down'' \<rparr>"
    by (simp add: down_ops_def)
  from refused_check_wedges_task[OF this, of demo_cloud_env None 2000 200 "''webdav''" 5] show ?thesis
    by (simp add: Let_def)
qed

section \<open>Resolving conflicts\<close>

lemma resolve_all_loop_count:
  "resolve_all_loop E C t s xs n keep w = (n', keep', w') \<Longrightarrow>
   n' + length keep' = n + length keep + length xs \<and> (\<exists>ks. keep' = keep @ ks \<and> subseq ks (map snd xs))"
proof (induction E C t s xs n keep w rule: resolve_all_loop.induct)
  case (2 E C t s out item xs n keep w)
  obtain ok w1 where up: "(if s = StrategyKeepLocal
      then (case upload_resolved E C t (uuid_show E (ci_record_id item)) item w of (r, w') \<Rightarrow> (is_ok r, w'))
      else (True, w)) = (ok, w1)" by fastforce
  show ?case
  proof (cases "is_ok (ro_result out) \<and> ok")
    case True
    then have "resolve_all_loop E C t s xs (n + 1) keep w1 = (n', keep', w')"
      using 2(4) up by simp
    from 2(1)[OF _ up[symmetric] _ this] True show ?thesis
      by (auto intro: list_emb_Cons)
  next
    case False
    then obtain w2 where k: "resolve_all_loop E C t s xs n (keep @ [item]) w2 = (n', keep', w')"
      and w2: "is_ok (ro_result out) \<Longrightarrow> w2 = w1" "\<not> is_ok (ro_result out) \<Longrightarrow> w2 = w"
      using 2(4) up by (cases "is_ok (ro_result out)") auto
    have "n' + length keep' = n + length (keep @ [item]) + length xs
        \<and> (\<exists>ks. keep' = (keep @ [item]) @ ks \<and> subseq ks (map snd xs))"
    proof (cases "is_ok (ro_result out)")
      case True
      then show ?thesis using 2(2)[OF True up[symmetric]] False k w2 by simp
    next
      case False
      then show ?thesis using 2(3)[OF False] k w2 by simp
    qed
    then show ?thesis by auto
  qed
qed auto

lemma resolve_all_loop_remote:
  "resolve_all_loop E C t StrategyKeepRemote (zip (map (resolve_item E StrategyKeepRemote) items) items) n keep w
   = (n + length (filter (\<lambda>i. is_ok (resolve_keep_remote E (ci_conflict_data i))) items),
      keep @ filter (\<lambda>i. \<not> is_ok (resolve_keep_remote E (ci_conflict_data i))) items, w)"
  by (induction items arbitrary: n keep) (auto simp: resolve_item_def is_ok_def monad_simps split: sum.splits)

text \<open>
  Resolving every pending conflict loses none of them. The number reported as resolved and the
  items kept add up to the items that were pending, what is kept is kept in order, and the state
  machine, the schedule of retries and the pause flag are not touched. Keeping the remote version resolves exactly
  the items whose stored payload decodes and validates, without any access to the store.
\<close>

theorem resolve_all_accounts_for_every_conflict:
  "let (t', w') = handle_resolve_all E C s t w
   in (\<exists>n. st_events t' = st_events t @ [EvAllConflictsResolved n] \<and> n + length (st_pending t') = length (st_pending t))
      \<and> subseq (st_pending t') (st_pending t)
      \<and> st_machine t' = st_machine t \<and> st_next_retry t' = st_next_retry t \<and> st_paused t' = st_paused t
      \<and> (s = StrategyKeepRemote \<longrightarrow> w' = w
          \<and> st_pending t' = filter (\<lambda>i. \<not> is_ok (resolve_keep_remote E (ci_conflict_data i))) (st_pending t))"
proof -
  let ?t0 = "t\<lparr>st_pending := []\<rparr>"
  obtain n keep w' where l:
    "resolve_all_loop E C ?t0 s (zip (resolve_all_batch E (st_pending t) s) (st_pending t)) 0 [] w = (n, keep, w')"
    by (metis prod_cases3)
  have c: "n + length keep = length (st_pending t)" "subseq keep (st_pending t)"
    using resolve_all_loop_count[OF l] by (simp_all add: resolve_all_batch_def)
  have r: "w' = w \<and> keep = filter (\<lambda>i. \<not> is_ok (resolve_keep_remote E (ci_conflict_data i))) (st_pending t)"
    if "s = StrategyKeepRemote"
    using l that by (simp add: resolve_all_batch_def resolve_all_loop_remote)
  show ?thesis
    using l c r by (cases "st_pending t = []") (auto simp: handle_resolve_all_def Let_def)
qed

theorem resolve_all_accounts_for_every_conflict_witness:
  "let t = demo_task\<lparr>st_pending := [\<lparr> ci_record_id = 1, ci_conflict_data = [], ci_current_version = 4 \<rparr>]\<rparr>;
       t' = fst (handle_resolve_all demo_cloud_env (down_ops OpOther) StrategyKeepRemote t (mem_init 0))
   in st_pending t' = filter (\<lambda>i. \<not> is_ok (resolve_keep_remote demo_cloud_env (ci_conflict_data i))) (st_pending t)"
  using resolve_all_accounts_for_every_conflict[of demo_cloud_env "down_ops OpOther" StrategyKeepRemote
      "demo_task\<lparr>st_pending := [\<lparr> ci_record_id = 1, ci_conflict_data = [], ci_current_version = 4 \<rparr>]\<rparr>" "mem_init 0"]
  by (simp add: Let_def split_beta)

end
