(* ===== verification/Vault_Db.thy ===== *)
theory Vault_Db
  imports Cloud_Record
begin

text \<open>
  The vault database: the tables of \<open>db/migrations\<close> and the queries of \<open>db/queries\<close>. A statement is
  a function on the tables that either fails, leaving them as they are, or gives its result and the
  tables after it; SQLite's uniqueness, \<open>CHECK\<close> and foreign-key constraints and the cascades of a
  delete are written out (\<open>PRAGMA foreign_keys\<close> is on), failures of the disk are not modelled.
  A key column that holds a printed UUID is the UUID. Rows are kept in insertion order, which
  stands for the order SQLite picks where a query does not ask for one. The effects outside the
  tables (the clock) are those of a world.
\<close>

section \<open>Tables\<close>

datatype sqlite_error = UniqueFailed string | CheckFailed string | ForeignKeyFailed | QueryReturnedNoRows
  | FromSqlConversionFailure nat

datatype db_error = Sqlite sqlite_error | DataErr data_error

record record_row =
  rr_credential_type :: string
  rr_encrypted_data :: bytes
  rr_nonce :: bytes
  rr_dek_version :: int
  rr_aad :: "bytes option"
  rr_is_favorite :: int
  rr_expires_at :: "int option"
  rr_created_at :: int
  rr_updated_at :: int
  rr_updated_by :: string
  rr_version :: int
  rr_deleted :: int
  rr_deleted_at :: "int option"

record history_row =
  hr_id :: int
  hr_record_id :: uuid
  hr_encrypted_password :: bytes
  hr_nonce :: bytes
  hr_dek_version :: int
  hr_changed_at :: int

record audit_row =
  al_operation :: string
  al_record_id :: "uuid option"
  al_record_name :: "string option"
  al_detail :: "string option"
  al_occurred_at :: int

record sync_row =
  sy_cloud_updated_at :: "int option"
  sy_local_updated_at :: int
  sy_sync_status :: int
  sy_conflict_data :: "bytes option"

record health_row =
  hw_record_version :: int
  hw_evaluated_at :: "int option"
  hw_weak_password :: "int option"
  hw_duplicate_group_size :: "int option"
  hw_compromised :: "int option"
  hw_expired :: "int option"

record index_row =
  ix_name :: string
  ix_subtitle :: string
  ix_search_text :: string
  ix_name_sort_key :: string

record vault_db =
  tb_records :: "(uuid \<times> record_row) list"
  tb_tags :: "(int \<times> string) list"
  tb_tags_seq :: int
  tb_record_tags :: "(uuid \<times> int) list"
  tb_history :: "history_row list"
  tb_history_seq :: int
  tb_audit :: "audit_row list"
  tb_sync :: "(uuid \<times> sync_row) list"
  tb_metadata :: "(string \<times> string) list"
  tb_health :: "(uuid \<times> health_row) list"
  tb_index :: "(uuid \<times> index_row) list"

record 'w vault =
  v_db :: vault_db
  v_ext :: 'w

text \<open>The third-party functions the database layer uses: the clock, Unicode lower case, and the
  range of timestamps \<open>chrono\<close> accepts.\<close>

record ('w) db_ops =
  dbo_now :: "'w \<Rightarrow> timestamp \<times> 'w"
  to_lowercase :: "string \<Rightarrow> string"
  chrono_range :: "int \<Rightarrow> bool"

type_synonym 'a stmt = "(vault_db, sqlite_error, 'a) io"
type_synonym ('w, 'a) query = "('w vault, db_error, 'a) io"

definition exec :: "'a stmt \<Rightarrow> ('w, 'a) query" where
  "exec st v = (case st (v_db v) of (r, d) \<Rightarrow> (map_err Sqlite r, v\<lparr>v_db := d\<rparr>))"

definition select :: "(vault_db \<Rightarrow> 'a) \<Rightarrow> 'a stmt" where
  "select f d = (Inr (f d), d)"

definition change :: "(vault_db \<Rightarrow> vault_db) \<Rightarrow> unit stmt" where
  "change f d = (Inr (), f d)"

text \<open>A transaction that is not committed when an error leaves it is rolled back.\<close>

definition in_tx :: "('w, 'a) query \<Rightarrow> ('w, 'a) query" where
  "in_tx m v = (case m v of (Inl e, v') \<Rightarrow> (Inl e, v'\<lparr>v_db := v_db v\<rparr>) | (Inr a, v') \<Rightarrow> (Inr a, v'))"

definition utc_now :: "('w, 'y) db_ops_scheme \<Rightarrow> ('w vault, 'e, timestamp) io" where
  "utc_now C v = (case dbo_now C (v_ext v) of (t, w) \<Rightarrow> (Inr t, v\<lparr>v_ext := w\<rparr>))"

fun for_each :: "('a \<Rightarrow> ('w, 'e, unit) io) \<Rightarrow> 'a list \<Rightarrow> ('w, 'e, unit) io" where
  "for_each f [] = io_return ()"
| "for_each f (x # xs) = io_bind (f x) (\<lambda>_. for_each f xs)"

section \<open>Rows and domain values (db/models.rs)\<close>

definition datetime_to_timestamp :: "timestamp \<Rightarrow> int" where
  "datetime_to_timestamp t = t div 1000000000"

definition timestamp_to_datetime :: "('w, 'y) db_ops_scheme \<Rightarrow> int \<Rightarrow> data_error + timestamp" where
  "timestamp_to_datetime C ts = (if chrono_range C ts then Inr (ts * 1000000000) else Inl (InvalidTimestamp ts))"

definition opt_timestamp :: "('w, 'y) db_ops_scheme \<Rightarrow> int option \<Rightarrow> data_error + timestamp option" where
  "opt_timestamp C ts = (case ts of None \<Rightarrow> Inr None | Some s \<Rightarrow> try_res (timestamp_to_datetime C s) (\<lambda>t. Inr (Some t)))"

definition bool_int :: "bool \<Rightarrow> int" where
  "bool_int b = (if b then 1 else 0)"

definition to_stored_record ::
  "('w, 'y) db_ops_scheme \<Rightarrow> uuid \<Rightarrow> record_row \<Rightarrow> string list \<Rightarrow> data_error + stored_record" where
  "to_stored_record C rid row tags =
     try_res (cred_from_db_str (rr_credential_type row)) (\<lambda>credential_type.
     try_res (if length (rr_nonce row) = 24 then Inr (rr_nonce row)
              else Inl (FieldTooLong ''nonce'' 24 (length (rr_nonce row)))) (\<lambda>nonce.
     try_res (opt_timestamp C (rr_expires_at row)) (\<lambda>expires_at.
     try_res (timestamp_to_datetime C (rr_created_at row)) (\<lambda>created_at.
     try_res (timestamp_to_datetime C (rr_updated_at row)) (\<lambda>updated_at.
     try_res (opt_timestamp C (rr_deleted_at row)) (\<lambda>deleted_at.
       Inr \<lparr> sr_id = rid, sr_credential_type = credential_type, sr_encrypted_data = rr_encrypted_data row,
             sr_nonce = nonce, sr_dek_version = word_of_int (rr_dek_version row),
             sr_aad = (case rr_aad row of None \<Rightarrow> [] | Some a \<Rightarrow> a), sr_is_favorite = (rr_is_favorite row \<noteq> 0),
             sr_expires_at = expires_at, sr_created_at = created_at, sr_updated_at = updated_at,
             sr_updated_by = rr_updated_by row, sr_version = word_of_int (rr_version row),
             sr_deleted = (rr_deleted row \<noteq> 0), sr_deleted_at = deleted_at, sr_tags = tags \<rparr>))))))"

definition aad_param :: "stored_record \<Rightarrow> bytes option" where
  "aad_param r = (if sr_aad r = [] then None else Some (sr_aad r))"

definition row_of_record :: "stored_record \<Rightarrow> record_row" where
  "row_of_record r =
     \<lparr> rr_credential_type = cred_to_db_str (sr_credential_type r), rr_encrypted_data = sr_encrypted_data r,
       rr_nonce = sr_nonce r, rr_dek_version = uint (sr_dek_version r), rr_aad = aad_param r,
       rr_is_favorite = bool_int (sr_is_favorite r),
       rr_expires_at = map_option datetime_to_timestamp (sr_expires_at r),
       rr_created_at = datetime_to_timestamp (sr_created_at r), rr_updated_at = datetime_to_timestamp (sr_updated_at r),
       rr_updated_by = sr_updated_by r, rr_version = sint (sr_version r), rr_deleted = bool_int (sr_deleted r),
       rr_deleted_at = map_option datetime_to_timestamp (sr_deleted_at r) \<rparr>"

section \<open>Tags (db/queries/tag.rs)\<close>

text \<open>SQLite's \<open>length\<close> counts the characters before the first NUL.\<close>

definition sql_length :: "string \<Rightarrow> nat" where
  "sql_length s = char_count (takeWhile (\<lambda>c. c \<noteq> CHR 0x00) s)"

definition tag_id_of :: "vault_db \<Rightarrow> string \<Rightarrow> int option" where
  "tag_id_of d name = map_option fst (find (\<lambda>t. snd t = name) (tb_tags d))"

definition add_tag :: "string \<Rightarrow> vault_db \<Rightarrow> vault_db" where
  "add_tag name d = d\<lparr>tb_tags := tb_tags d @ [(tb_tags_seq d + 1, name)], tb_tags_seq := tb_tags_seq d + 1\<rparr>"

definition insert_or_ignore_tag :: "string \<Rightarrow> unit stmt" where
  "insert_or_ignore_tag name = change (\<lambda>d. if tag_id_of d name \<noteq> None \<or> 50 < sql_length name then d else add_tag name d)"

definition select_tag_id :: "string \<Rightarrow> int stmt" where
  "select_tag_id name d = (ok_or QueryReturnedNoRows (tag_id_of d name), d)"

definition insert_tag :: "string \<Rightarrow> ('w, int) query" where
  "insert_tag name = exec (\<lambda>d.
     if 50 < sql_length name then (Inl (CheckFailed ''tags.name''), d)
     else if tag_id_of d name \<noteq> None then (Inl (UniqueFailed ''tags.name''), d)
     else (Inr (tb_tags_seq d + 1), add_tag name d))"

definition get_tag_by_name :: "string \<Rightarrow> ('w, int option) query" where
  "get_tag_by_name name = exec (select (\<lambda>d. tag_id_of d name))"

definition get_or_create_tag :: "string \<Rightarrow> ('w, int) query" where
  "get_or_create_tag name =
     io_bind (exec (select (\<lambda>d. tag_id_of d name))) (\<lambda>existing. case existing of
        Some tag_id \<Rightarrow> io_return tag_id
      | None \<Rightarrow> insert_tag name)"

definition attach_tag :: "uuid \<Rightarrow> int \<Rightarrow> ('w, unit) query" where
  "attach_tag rid tag_id = exec (\<lambda>d.
     if (rid, tag_id) \<in> set (tb_record_tags d) then (Inr (), d)
     else if rid \<in> fst ` set (tb_records d) \<and> tag_id \<in> fst ` set (tb_tags d)
       then (Inr (), d\<lparr>tb_record_tags := tb_record_tags d @ [(rid, tag_id)]\<rparr>)
     else (Inl ForeignKeyFailed, d))"

definition detach_tag :: "uuid \<Rightarrow> int \<Rightarrow> ('w, unit) query" where
  "detach_tag rid tag_id = exec (change (\<lambda>d. d\<lparr>tb_record_tags := filter (\<lambda>rt. rt \<noteq> (rid, tag_id)) (tb_record_tags d)\<rparr>))"

definition detach_all_tags_for_record :: "uuid \<Rightarrow> ('w, unit) query" where
  "detach_all_tags_for_record rid = exec (change (\<lambda>d. d\<lparr>tb_record_tags := filter (\<lambda>rt. fst rt \<noteq> rid) (tb_record_tags d)\<rparr>))"

text \<open>The join of \<open>get_record_tags_inner\<close>.\<close>

definition record_tag_names :: "vault_db \<Rightarrow> uuid \<Rightarrow> string list" where
  "record_tag_names d rid = List.map_filter (\<lambda>rt. if fst rt = rid then map_of (tb_tags d) (snd rt) else None) (tb_record_tags d)"

definition rename_tag_row :: "string \<Rightarrow> string \<Rightarrow> ('w, bool) query" where
  "rename_tag_row old_name new_name = exec (\<lambda>d.
     if tag_id_of d old_name = None then (Inr False, d)
     else if 50 < sql_length new_name then (Inl (CheckFailed ''tags.name''), d)
     else if new_name \<noteq> old_name \<and> tag_id_of d new_name \<noteq> None then (Inl (UniqueFailed ''tags.name''), d)
     else (Inr True, d\<lparr>tb_tags := map (\<lambda>t. if snd t = old_name then (fst t, new_name) else t) (tb_tags d)\<rparr>))"

definition delete_tags :: "int set \<Rightarrow> vault_db \<Rightarrow> vault_db" where
  "delete_tags ids d = d\<lparr>tb_tags := filter (\<lambda>t. fst t \<notin> ids) (tb_tags d),
     tb_record_tags := filter (\<lambda>rt. snd rt \<notin> ids) (tb_record_tags d)\<rparr>"

definition delete_tag_by_name :: "string \<Rightarrow> ('w, bool) query" where
  "delete_tag_by_name name = exec (\<lambda>d. case tag_id_of d name of
     None \<Rightarrow> (Inr False, d)
   | Some tag_id \<Rightarrow> (Inr True, delete_tags {tag_id} d))"

section \<open>Records (db/queries/record.rs)\<close>

definition insert_record :: "stored_record \<Rightarrow> ('w, unit) query" where
  "insert_record r = in_tx (
     io_bind (exec (\<lambda>d. if sr_id r \<in> fst ` set (tb_records d) then (Inl (UniqueFailed ''records.id''), d)
                        else (Inr (), d\<lparr>tb_records := tb_records d @ [(sr_id r, row_of_record r)]\<rparr>))) (\<lambda>_.
     for_each (\<lambda>tag_name.
       io_bind (exec (insert_or_ignore_tag tag_name)) (\<lambda>_.
       io_bind (exec (select_tag_id tag_name)) (\<lambda>tag_id.
       attach_tag (sr_id r) tag_id))) (sr_tags r)))"

definition data_err :: "data_error + 'a \<Rightarrow> ('w, 'a) query" where
  "data_err r = io_lift (map_err DataErr r)"

definition get_record :: "('w, 'y) db_ops_scheme \<Rightarrow> uuid \<Rightarrow> ('w, stored_record option) query" where
  "get_record C rid =
     io_bind (exec (select (\<lambda>d. map_of (tb_records d) rid))) (\<lambda>result. case result of
        None \<Rightarrow> io_return None
      | Some row \<Rightarrow>
          io_bind (exec (select (\<lambda>d. record_tag_names d rid))) (\<lambda>tags.
          io_bind (data_err (to_stored_record C rid row tags)) (\<lambda>record. io_return (Some record))))"

fun convert_rows ::
  "('w, 'y) db_ops_scheme \<Rightarrow> (uuid \<times> record_row) list \<Rightarrow> ('w, stored_record list) query" where
  "convert_rows C [] = io_return []"
| "convert_rows C ((rid, row) # rows) =
     io_bind (exec (select (\<lambda>d. record_tag_names d rid))) (\<lambda>tags.
     io_bind (data_err (to_stored_record C rid row tags)) (\<lambda>record.
     io_bind (convert_rows C rows) (\<lambda>records. io_return (record # records))))"

definition list_active_records :: "('w, 'y) db_ops_scheme \<Rightarrow> ('w, stored_record list) query" where
  "list_active_records C =
     io_bind (exec (select (\<lambda>d. sort_key (\<lambda>r. - rr_updated_at (snd r)) (filter (\<lambda>r. rr_deleted (snd r) = 0) (tb_records d)))))
       (convert_rows C)"

definition list_deleted_records :: "('w, 'y) db_ops_scheme \<Rightarrow> ('w, stored_record list) query" where
  "list_deleted_records C =
     io_bind (exec (select (\<lambda>d. sort_key (\<lambda>r. rr_deleted_at (snd r) = None)
        (sort_key (\<lambda>r. case rr_deleted_at (snd r) of None \<Rightarrow> 0 | Some t \<Rightarrow> - t) (filter (\<lambda>r. rr_deleted (snd r) = 1) (tb_records d))))))
       (convert_rows C)"

definition list_records_by_dek_version :: "('w, 'y) db_ops_scheme \<Rightarrow> u32 \<Rightarrow> ('w, stored_record list) query" where
  "list_records_by_dek_version C target =
     io_bind (exec (select (\<lambda>d. filter (\<lambda>r. rr_dek_version (snd r) < uint target) (tb_records d)))) (convert_rows C)"

text \<open>An \<open>UPDATE\<close> of the rows that satisfy a condition, with the number of rows changed.\<close>

definition update_rows :: "(uuid \<Rightarrow> record_row \<Rightarrow> bool) \<Rightarrow> (record_row \<Rightarrow> record_row) \<Rightarrow> nat stmt" where
  "update_rows cond f d =
     (Inr (length (filter (\<lambda>(i, row). cond i row) (tb_records d))),
      d\<lparr>tb_records := map (\<lambda>(i, row). (i, if cond i row then f row else row)) (tb_records d)\<rparr>)"

text \<open>A \<open>DELETE\<close> on \<open>records\<close>, with the cascades of the foreign keys.\<close>

definition cascade_delete :: "(uuid \<Rightarrow> bool) \<Rightarrow> vault_db \<Rightarrow> vault_db" where
  "cascade_delete gone d = d\<lparr>
     tb_records := filter (\<lambda>r. \<not> gone (fst r)) (tb_records d),
     tb_record_tags := filter (\<lambda>rt. \<not> gone (fst rt)) (tb_record_tags d),
     tb_history := filter (\<lambda>h. \<not> gone (hr_record_id h)) (tb_history d),
     tb_sync := filter (\<lambda>s. \<not> gone (fst s)) (tb_sync d),
     tb_health := filter (\<lambda>h. \<not> gone (fst h)) (tb_health d),
     tb_index := filter (\<lambda>i. \<not> gone (fst i)) (tb_index d)\<rparr>"

definition delete_rows :: "(uuid \<Rightarrow> record_row \<Rightarrow> bool) \<Rightarrow> nat stmt" where
  "delete_rows cond d =
     (let hit = filter (\<lambda>(i, row). cond i row) (tb_records d)
      in (Inr (length hit), cascade_delete (\<lambda>i. i \<in> fst ` set hit) d))"

definition update_record :: "stored_record \<Rightarrow> u64 \<Rightarrow> ('w, bool) query" where
  "update_record r expected_version =
     io_bind (exec (update_rows (\<lambda>i row. i = sr_id r \<and> rr_version row = sint expected_version) (\<lambda>row.
       row\<lparr> rr_encrypted_data := sr_encrypted_data r, rr_nonce := sr_nonce r, rr_dek_version := uint (sr_dek_version r),
            rr_aad := aad_param r, rr_is_favorite := bool_int (sr_is_favorite r),
            rr_expires_at := map_option datetime_to_timestamp (sr_expires_at r),
            rr_updated_at := datetime_to_timestamp (sr_updated_at r), rr_updated_by := sr_updated_by r,
            rr_version := sint (sr_version r) \<rparr>))) (\<lambda>affected. io_return (0 < affected))"

definition soft_delete_row :: "('w, 'y) db_ops_scheme \<Rightarrow> uuid \<Rightarrow> ('w, unit) query" where
  "soft_delete_row C rid =
     io_bind (utc_now C) (\<lambda>now.
     io_bind (exec (update_rows (\<lambda>i _. i = rid) (\<lambda>row. row\<lparr>rr_deleted := 1, rr_deleted_at := Some (datetime_to_timestamp now)\<rparr>)))
       (\<lambda>_. io_return ()))"

definition restore_row :: "uuid \<Rightarrow> ('w, unit) query" where
  "restore_row rid =
     io_bind (exec (update_rows (\<lambda>i _. i = rid) (\<lambda>row. row\<lparr>rr_deleted := 0, rr_deleted_at := None\<rparr>))) (\<lambda>_. io_return ())"

definition hard_delete_row :: "uuid \<Rightarrow> ('w, unit) query" where
  "hard_delete_row rid = io_bind (exec (delete_rows (\<lambda>i _. i = rid))) (\<lambda>_. io_return ())"

definition update_record_version :: "uuid \<Rightarrow> u64 \<Rightarrow> ('w, unit) query" where
  "update_record_version rid version =
     io_bind (exec (update_rows (\<lambda>i _. i = rid) (\<lambda>row. row\<lparr>rr_version := sint version\<rparr>))) (\<lambda>_. io_return ())"

definition update_record_deleted_state :: "uuid \<Rightarrow> bool \<Rightarrow> timestamp option \<Rightarrow> ('w, unit) query" where
  "update_record_deleted_state rid deleted deleted_at =
     io_bind (exec (update_rows (\<lambda>i _. i = rid)
       (\<lambda>row. row\<lparr>rr_deleted := bool_int deleted, rr_deleted_at := map_option datetime_to_timestamp deleted_at\<rparr>))) (\<lambda>_. io_return ())"

definition batch_soft_delete_records :: "('w, 'y) db_ops_scheme \<Rightarrow> uuid list \<Rightarrow> string \<Rightarrow> ('w, nat) query" where
  "batch_soft_delete_records C ids deleted_by =
     (if ids = [] then io_return 0
      else io_bind (utc_now C) (\<lambda>now. exec (update_rows (\<lambda>i _. i \<in> set ids)
        (\<lambda>row. row\<lparr>rr_deleted := 1, rr_deleted_at := Some (datetime_to_timestamp now), rr_updated_by := deleted_by\<rparr>))))"

definition batch_restore_records :: "uuid list \<Rightarrow> ('w, nat) query" where
  "batch_restore_records ids =
     (if ids = [] then io_return 0
      else exec (update_rows (\<lambda>i row. i \<in> set ids \<and> rr_deleted row = 1) (\<lambda>row. row\<lparr>rr_deleted := 0, rr_deleted_at := None\<rparr>)))"

definition batch_hard_delete_records :: "uuid list \<Rightarrow> ('w, nat) query" where
  "batch_hard_delete_records ids =
     (if ids = [] then io_return 0 else exec (delete_rows (\<lambda>i row. i \<in> set ids \<and> rr_deleted row = 1)))"

text \<open>A row of a table keyed by the record, replaced or added; the record must exist.\<close>

definition upsert_record_list_index :: "('w, 'y) db_ops_scheme \<Rightarrow> uuid \<Rightarrow> string \<Rightarrow> string \<Rightarrow> ('w, unit) query" where
  "upsert_record_list_index C rid name subtitle = exec (\<lambda>d.
     if rid \<in> fst ` set (tb_records d) then
       (Inr (), d\<lparr>tb_index := AList.update rid \<lparr> ix_name = name, ix_subtitle = subtitle,
          ix_search_text = to_lowercase C name @ '' '' @ to_lowercase C subtitle,
          ix_name_sort_key = to_lowercase C name \<rparr> (tb_index d)\<rparr>)
     else (Inl ForeignKeyFailed, d))"

section \<open>The other tables\<close>

definition insert_password_history :: "uuid \<Rightarrow> bytes \<Rightarrow> bytes \<Rightarrow> u32 \<Rightarrow> int \<Rightarrow> ('w, unit) query" where
  "insert_password_history rid encrypted_password nonce dek_version changed_at = exec (\<lambda>d.
     if rid \<in> fst ` set (tb_records d) then
       (Inr (), d\<lparr>tb_history := tb_history d @ [\<lparr> hr_id = tb_history_seq d + 1, hr_record_id = rid,
            hr_encrypted_password = encrypted_password, hr_nonce = nonce, hr_dek_version = uint dek_version,
            hr_changed_at = changed_at \<rparr>], tb_history_seq := tb_history_seq d + 1\<rparr>)
     else (Inl ForeignKeyFailed, d))"

definition count_password_history :: "uuid \<Rightarrow> ('w, nat) query" where
  "count_password_history rid = exec (select (\<lambda>d. length (filter (\<lambda>h. hr_record_id h = rid) (tb_history d))))"

definition delete_oldest_password_history :: "uuid \<Rightarrow> ('w, unit) query" where
  "delete_oldest_password_history rid = exec (change (\<lambda>d.
     case sort_key hr_changed_at (filter (\<lambda>h. hr_record_id h = rid) (tb_history d)) of
       [] \<Rightarrow> d
     | oldest # _ \<Rightarrow> d\<lparr>tb_history := filter (\<lambda>h. hr_id h \<noteq> hr_id oldest) (tb_history d)\<rparr>))"

text \<open>Reading a row of the history: the nonce must have 24 bytes and the time must be in range.\<close>

definition history_entry :: "('w, 'y) db_ops_scheme \<Rightarrow> history_row \<Rightarrow> sqlite_error + history_row" where
  "history_entry C h =
     (if length (hr_nonce h) \<noteq> 24 then Inl (FromSqlConversionFailure 24)
      else if \<not> chrono_range C (hr_changed_at h) then Inl (FromSqlConversionFailure 5)
      else Inr h)"

fun convert_history :: "('w, 'y) db_ops_scheme \<Rightarrow> history_row list \<Rightarrow> sqlite_error + history_row list" where
  "convert_history C [] = Inr []"
| "convert_history C (h # hs) =
     try_res (history_entry C h) (\<lambda>e. try_res (convert_history C hs) (\<lambda>es. Inr (e # es)))"

definition get_password_history :: "('w, 'y) db_ops_scheme \<Rightarrow> uuid \<Rightarrow> nat \<Rightarrow> ('w, history_row list) query" where
  "get_password_history C rid limit = exec (\<lambda>d.
     (convert_history C (take limit (sort_key (\<lambda>h. - hr_changed_at h) (filter (\<lambda>h. hr_record_id h = rid) (tb_history d)))), d))"

definition get_password_history_by_id :: "('w, 'y) db_ops_scheme \<Rightarrow> int \<Rightarrow> ('w, history_row option) query" where
  "get_password_history_by_id C hid = exec (\<lambda>d. case find (\<lambda>h. hr_id h = hid) (tb_history d) of
     None \<Rightarrow> (Inr None, d)
   | Some h \<Rightarrow> (try_res (history_entry C h) (\<lambda>e. Inr (Some e)), d))"

definition insert_audit_entry ::
  "('w, 'y) db_ops_scheme \<Rightarrow> audit_operation \<Rightarrow> uuid option \<Rightarrow> string option \<Rightarrow> string option \<Rightarrow> ('w, unit) query" where
  "insert_audit_entry C operation rid record_name detail =
     io_bind (utc_now C) (\<lambda>now. exec (change (\<lambda>d. d\<lparr>tb_audit := tb_audit d @
       [\<lparr> al_operation = audit_to_db_str operation, al_record_id = rid, al_record_name = record_name,
          al_detail = detail, al_occurred_at = datetime_to_timestamp now \<rparr>]\<rparr>)))"

definition upsert_sync :: "uuid \<Rightarrow> (sync_row option \<Rightarrow> sync_row) \<Rightarrow> unit stmt" where
  "upsert_sync rid f d =
     (if rid \<in> fst ` set (tb_records d)
      then (Inr (), d\<lparr>tb_sync := AList.update rid (f (map_of (tb_sync d) rid)) (tb_sync d)\<rparr>)
      else (Inl ForeignKeyFailed, d))"

definition upsert_sync_state_pending :: "('w, 'y) db_ops_scheme \<Rightarrow> uuid \<Rightarrow> ('w, unit) query" where
  "upsert_sync_state_pending C rid =
     io_bind (utc_now C) (\<lambda>now. let ts = datetime_to_timestamp now in
       exec (upsert_sync rid (\<lambda>old. case old of
         None \<Rightarrow> \<lparr> sy_cloud_updated_at = None, sy_local_updated_at = ts, sy_sync_status = sync_status_to_int StPending, sy_conflict_data = None \<rparr>
       | Some s \<Rightarrow> s\<lparr>sy_local_updated_at := ts, sy_sync_status := sync_status_to_int StPending\<rparr>)))"

definition mark_sync_state_synced :: "('w, 'y) db_ops_scheme \<Rightarrow> uuid \<Rightarrow> ('w, unit) query" where
  "mark_sync_state_synced C rid =
     io_bind (utc_now C) (\<lambda>now. let ts = datetime_to_timestamp now in
       exec (upsert_sync rid (\<lambda>_. \<lparr> sy_cloud_updated_at = Some ts, sy_local_updated_at = ts,
         sy_sync_status = sync_status_to_int StSynced, sy_conflict_data = None \<rparr>)))"

definition mark_sync_state_conflict :: "('w, 'y) db_ops_scheme \<Rightarrow> uuid \<Rightarrow> bytes \<Rightarrow> ('w, unit) query" where
  "mark_sync_state_conflict C rid conflict_data =
     io_bind (utc_now C) (\<lambda>now. let ts = datetime_to_timestamp now in
       exec (upsert_sync rid (\<lambda>old. case old of
         None \<Rightarrow> \<lparr> sy_cloud_updated_at = None, sy_local_updated_at = ts, sy_sync_status = sync_status_to_int StConflict, sy_conflict_data = Some conflict_data \<rparr>
       | Some s \<Rightarrow> s\<lparr>sy_local_updated_at := ts, sy_sync_status := sync_status_to_int StConflict, sy_conflict_data := Some conflict_data\<rparr>)))"

definition set_metadata :: "string \<Rightarrow> string \<Rightarrow> ('w, unit) query" where
  "set_metadata key value = exec (change (\<lambda>d. d\<lparr>tb_metadata := AList.update key value (tb_metadata d)\<rparr>))"

definition get_metadata :: "string \<Rightarrow> ('w, string option) query" where
  "get_metadata key = exec (select (\<lambda>d. map_of (tb_metadata d) key))"

definition delete_metadata :: "string \<Rightarrow> ('w, bool) query" where
  "delete_metadata key = exec (\<lambda>d. (Inr (key \<in> fst ` set (tb_metadata d)), d\<lparr>tb_metadata := AList.delete key (tb_metadata d)\<rparr>))"

definition upsert_record_health_state :: "record_health_state \<Rightarrow> ('w, unit) query" where
  "upsert_record_health_state h = exec (\<lambda>d.
     if hs_record_id h \<in> fst ` set (tb_records d) then
       (Inr (), d\<lparr>tb_health := AList.update (hs_record_id h)
          \<lparr> hw_record_version = sint (hs_record_version h),
            hw_evaluated_at = map_option datetime_to_timestamp (hs_evaluated_at h),
            hw_weak_password = map_option bool_int (hs_weak_password h),
            hw_duplicate_group_size = map_option sint (hs_duplicate_group_size h),
            hw_compromised = map_option bool_int (hs_compromised h),
            hw_expired = map_option bool_int (hs_expired h) \<rparr> (tb_health d)\<rparr>)
     else (Inl ForeignKeyFailed, d))"

definition delete_record_health_state :: "uuid \<Rightarrow> ('w, unit) query" where
  "delete_record_health_state rid = exec (change (\<lambda>d. d\<lparr>tb_health := AList.delete rid (tb_health d)\<rparr>))"

definition copy_record_health_state_version :: "uuid \<Rightarrow> u64 \<Rightarrow> ('w, unit) query" where
  "copy_record_health_state_version rid version = exec (change (\<lambda>d.
     d\<lparr>tb_health := map (\<lambda>(i, h). (i, if i = rid then h\<lparr>hw_record_version := sint version\<rparr> else h)) (tb_health d)\<rparr>))"

section \<open>Integrity\<close>

text \<open>
  What the schema promises: keys are unique, every row of a child table names a record (and a tag)
  that exists, tags are short and their ids were handed out by the sequence.
\<close>

definition db_wf :: "vault_db \<Rightarrow> bool" where
  "db_wf d \<longleftrightarrow>
     distinct (map fst (tb_records d))
     \<and> distinct (map fst (tb_tags d)) \<and> distinct (map snd (tb_tags d))
     \<and> (\<forall>t \<in> set (tb_tags d). fst t \<le> tb_tags_seq d \<and> sql_length (snd t) \<le> 50)
     \<and> distinct (tb_record_tags d)
     \<and> (\<forall>rt \<in> set (tb_record_tags d). fst rt \<in> fst ` set (tb_records d) \<and> snd rt \<in> fst ` set (tb_tags d))
     \<and> distinct (map hr_id (tb_history d))
     \<and> (\<forall>h \<in> set (tb_history d). hr_id h \<le> tb_history_seq d \<and> hr_record_id h \<in> fst ` set (tb_records d))
     \<and> distinct (map fst (tb_sync d)) \<and> fst ` set (tb_sync d) \<subseteq> fst ` set (tb_records d)
     \<and> distinct (map fst (tb_health d)) \<and> fst ` set (tb_health d) \<subseteq> fst ` set (tb_records d)
     \<and> distinct (map fst (tb_index d)) \<and> fst ` set (tb_index d) \<subseteq> fst ` set (tb_records d)
     \<and> distinct (map fst (tb_metadata d))"

text \<open>Preservation of a property of the tables, by a statement and by a query.\<close>

definition stmt_keeps :: "(vault_db \<Rightarrow> bool) \<Rightarrow> 'a stmt \<Rightarrow> bool" where
  "stmt_keeps P st \<longleftrightarrow> (\<forall>d. P d \<longrightarrow> P (snd (st d)))"

definition keeps :: "(vault_db \<Rightarrow> bool) \<Rightarrow> ('w vault, 'e, 'a) io \<Rightarrow> bool" where
  "keeps P m \<longleftrightarrow> (\<forall>v. P (v_db v) \<longrightarrow> P (v_db (snd (m v))))"

lemma keeps_exec [inv_intros]: "stmt_keeps P st \<Longrightarrow> keeps P (exec st)"
  by (auto simp: keeps_def stmt_keeps_def exec_def split: prod.splits)

lemma keeps_bind [inv_intros]: "keeps P m \<Longrightarrow> (\<And>a. keeps P (f a)) \<Longrightarrow> keeps P (io_bind m f)"
  by (auto simp: keeps_def io_bind_def split: prod.splits sum.splits)

lemma keeps_return [inv_intros]: "keeps P (io_return a)"
  by (simp add: keeps_def)

lemma keeps_lift [inv_intros]: "keeps P (io_lift r)"
  by (simp add: keeps_def)

lemma keeps_map_err [inv_intros]: "keeps P m \<Longrightarrow> keeps P (io_map_err h m)"
  by (auto simp: keeps_def io_map_err_def split: prod.splits)

lemma keeps_utc_now [inv_intros]: "keeps P (utc_now C)"
  by (auto simp: keeps_def utc_now_def split: prod.splits)

lemma keeps_in_tx [inv_intros]: "keeps P m \<Longrightarrow> keeps P (in_tx m)"
  by (auto simp: keeps_def in_tx_def split: prod.splits sum.splits)

lemma keeps_for_each [inv_intros]: "(\<And>x. keeps P (f x)) \<Longrightarrow> keeps P (for_each f xs)"
  by (induction xs) (auto intro: inv_intros)

lemma keeps_if [inv_intros]: "keeps P m \<Longrightarrow> keeps P m' \<Longrightarrow> keeps P (if b then m else m')"
  by simp

lemma keeps_option [inv_intros]: "keeps P m \<Longrightarrow> (\<And>a. keeps P (f a)) \<Longrightarrow> keeps P (case x of None \<Rightarrow> m | Some a \<Rightarrow> f a)"
  by (cases x) simp_all

lemma keeps_let [inv_intros]: "(\<And>x. keeps P (f x)) \<Longrightarrow> keeps P (let x = t in f x)"
  by simp

lemma stmt_keeps_select [inv_intros]: "stmt_keeps P (select f)"
  by (simp add: stmt_keeps_def select_def)

lemma keeps_data_err [inv_intros]: "keeps P (data_err r)"
  by (simp add: data_err_def inv_intros)

lemma keeps_convert_rows [inv_intros]: "keeps P (convert_rows C rows)"
  by (induction C rows rule: convert_rows.induct) (simp_all only: convert_rows.simps; intro inv_intros; assumption?)+

lemma keeps_get_record [inv_intros]: "keeps P (get_record C rid)"
  by (auto simp: get_record_def intro!: inv_intros split: option.splits)

text \<open>The statements preserve the schema's promises.\<close>

lemma tag_id_of_iff: "tag_id_of d name = None \<longleftrightarrow> name \<notin> snd ` set (tb_tags d)"
  by (auto simp: tag_id_of_def find_None_iff image_iff)

lemma tag_id_of_Some: "tag_id_of d name = Some i \<Longrightarrow> (i, name) \<in> set (tb_tags d)"
  by (auto simp: tag_id_of_def find_Some_iff) (metis nth_mem prod.collapse fst_conv)

lemma add_tag_wf: "db_wf d \<Longrightarrow> tag_id_of d name = None \<Longrightarrow> sql_length name \<le> 50 \<Longrightarrow> db_wf (add_tag name d)"
  by (fastforce simp: db_wf_def add_tag_def tag_id_of_iff)

lemma wf_insert_or_ignore_tag [inv_intros]: "stmt_keeps db_wf (insert_or_ignore_tag name)"
  by (auto simp: stmt_keeps_def insert_or_ignore_tag_def change_def intro: add_tag_wf)

lemma wf_select_tag_id [inv_intros]: "stmt_keeps P (select_tag_id name)"
  by (simp add: stmt_keeps_def select_tag_id_def)

lemma wf_insert_tag [inv_intros]: "keeps db_wf (insert_tag name)"
  unfolding insert_tag_def by (rule keeps_exec) (auto simp: stmt_keeps_def intro: add_tag_wf)

lemma wf_get_or_create_tag [inv_intros]: "keeps db_wf (get_or_create_tag name)"
  unfolding get_or_create_tag_def by (intro inv_intros)

lemma wf_attach_tag [inv_intros]: "keeps db_wf (attach_tag rid tag_id)"
  unfolding attach_tag_def by (rule keeps_exec) (auto simp: stmt_keeps_def db_wf_def)

lemma wf_detach_tag [inv_intros]: "keeps db_wf (detach_tag rid tag_id)"
  unfolding detach_tag_def by (rule keeps_exec) (auto simp: stmt_keeps_def change_def db_wf_def)

lemma wf_detach_all [inv_intros]: "keeps db_wf (detach_all_tags_for_record rid)"
  unfolding detach_all_tags_for_record_def by (rule keeps_exec) (auto simp: stmt_keeps_def change_def db_wf_def)

lemma map_fst_update: "map fst (map (\<lambda>(i, row). (i, f i row)) xs) = map fst xs"
  by (induction xs) auto

lemma fst_set_update: "fst ` set (map (\<lambda>(i, row). (i, f i row)) xs) = fst ` set xs"
  by (metis map_fst_update list.set_map)

lemma wf_update_rows [inv_intros]: "stmt_keeps db_wf (update_rows cond f)"
  unfolding stmt_keeps_def update_rows_def db_wf_def
  by (simp add: map_fst_update fst_set_update del: map_map set_map) 

lemma distinct_map_filter_fst: "distinct (map f xs) \<Longrightarrow> distinct (map f (filter P xs))"
  by (induction xs) auto

lemma fst_filter_gone: "fst ` {r \<in> set xs. P (fst r)} = {i \<in> fst ` set xs. P i}"
  by auto

lemma wf_cascade_delete: "db_wf d \<Longrightarrow> db_wf (cascade_delete gone d)"
  unfolding db_wf_def cascade_delete_def
  by (auto simp: distinct_map_filter_fst fst_filter_gone[where P = "\<lambda>i. \<not> gone i"])

lemma wf_delete_rows [inv_intros]: "stmt_keeps db_wf (delete_rows cond)"
  by (simp add: stmt_keeps_def delete_rows_def Let_def wf_cascade_delete)

lemma wf_delete_tags: "db_wf d \<Longrightarrow> db_wf (delete_tags ids d)"
  unfolding db_wf_def delete_tags_def
  by (auto simp: distinct_map_filter_fst fst_filter_gone[where P = "\<lambda>i. i \<notin> ids"])

lemma wf_delete_tag_by_name [inv_intros]: "keeps db_wf (delete_tag_by_name name)"
  unfolding delete_tag_by_name_def
  by (rule keeps_exec) (auto simp: stmt_keeps_def wf_delete_tags split: option.splits)

lemma wf_rename_tag_row [inv_intros]: "keeps db_wf (rename_tag_row old_name new_name)"
proof -
  have "db_wf (d\<lparr>tb_tags := map (\<lambda>t. if snd t = old_name then (fst t, new_name) else t) (tb_tags d)\<rparr>)"
    if wf: "db_wf d" and fresh: "new_name = old_name \<or> new_name \<notin> snd ` set (tb_tags d)" and len: "sql_length new_name \<le> 50" for d
  proof -
    let ?f = "\<lambda>t :: int \<times> string. if snd t = old_name then (fst t, new_name) else t"
    have f: "map fst (map ?f ts) = map fst ts" for ts by (induction ts) auto
    then have fs: "fst ` set (map ?f ts) = fst ` set ts" for ts by (metis list.set_map)
    have "distinct (map snd (map ?f ts))" if "distinct (map snd ts)" "new_name = old_name \<or> new_name \<notin> snd ` set ts" for ts
      using that by (induction ts) (auto simp: image_iff)
    moreover have "\<forall>t \<in> set (map ?f (tb_tags d)). fst t \<le> tb_tags_seq d \<and> sql_length (snd t) \<le> 50"
      using wf len by (auto simp: db_wf_def)
    ultimately show ?thesis
      using wf fresh f[of "tb_tags d"] fs[of "tb_tags d"] unfolding db_wf_def by (simp del: map_map set_map)
  qed
  then show ?thesis
    unfolding rename_tag_row_def by (intro keeps_exec) (auto simp: stmt_keeps_def tag_id_of_iff)
qed

lemma wf_insert_record [inv_intros]: "keeps db_wf (insert_record r)"
proof -
  have "stmt_keeps db_wf (\<lambda>d. if sr_id r \<in> fst ` set (tb_records d) then (Inl (UniqueFailed ''records.id''), d)
      else (Inr (), d\<lparr>tb_records := tb_records d @ [(sr_id r, row_of_record r)]\<rparr>))"
    by (auto simp: stmt_keeps_def db_wf_def)
  then show ?thesis
    unfolding insert_record_def by (intro inv_intros)
qed

lemmas row_query_defs = update_record_def soft_delete_row_def restore_row_def hard_delete_row_def update_record_version_def
  update_record_deleted_state_def batch_soft_delete_records_def batch_restore_records_def batch_hard_delete_records_def

lemma wf_row_queries [inv_intros]:
  "keeps db_wf (update_record r v)" "keeps db_wf (soft_delete_row C rid)" "keeps db_wf (restore_row rid)"
  "keeps db_wf (hard_delete_row rid)" "keeps db_wf (update_record_version rid v)"
  "keeps db_wf (update_record_deleted_state rid b at)" "keeps db_wf (batch_soft_delete_records C ids by')"
  "keeps db_wf (batch_restore_records ids)" "keeps db_wf (batch_hard_delete_records ids)"
  unfolding row_query_defs by (intro inv_intros)+

lemma list_queries_keep [inv_intros]:
  "keeps P (list_active_records C)" "keeps P (list_deleted_records C)" "keeps P (list_records_by_dek_version C u)"
  "keeps P (get_tag_by_name name)" "keeps P (count_password_history rid)" "keeps P (get_metadata key)"
  unfolding list_active_records_def list_deleted_records_def list_records_by_dek_version_def get_tag_by_name_def
    count_password_history_def get_metadata_def
  by (intro inv_intros)+

lemma history_queries_keep [inv_intros]:
  "keeps P (get_password_history_by_id C hid)" "keeps P (get_password_history C rid n)"
  unfolding get_password_history_by_id_def get_password_history_def
  by (rule keeps_exec; simp add: stmt_keeps_def split: option.splits)+

lemma alist_update_keys: "fst ` set (AList.update k v xs) = insert k (fst ` set xs)"
  by (induction xs) auto

lemma wf_insert_password_history [inv_intros]: "keeps db_wf (insert_password_history rid p n u at)"
  unfolding insert_password_history_def
  by (rule keeps_exec) (fastforce simp: stmt_keeps_def db_wf_def)

lemma wf_delete_oldest [inv_intros]: "keeps db_wf (delete_oldest_password_history rid)"
  unfolding delete_oldest_password_history_def
  by (rule keeps_exec) (auto simp: stmt_keeps_def change_def db_wf_def distinct_map_filter_fst split: list.splits)

lemma wf_insert_audit_entry [inv_intros]: "keeps db_wf (insert_audit_entry C op rid n x)"
proof -
  have "stmt_keeps db_wf (change (\<lambda>d. d\<lparr>tb_audit := f d\<rparr>))" for f
    by (auto simp: stmt_keeps_def change_def db_wf_def)
  then show ?thesis
    unfolding insert_audit_entry_def by (intro inv_intros)
qed

lemma wf_upsert_sync [inv_intros]: "stmt_keeps db_wf (upsert_sync rid f)"
  by (auto simp: stmt_keeps_def upsert_sync_def db_wf_def alist_update_keys distinct_update)

lemma wf_sync_queries [inv_intros]:
  "keeps db_wf (upsert_sync_state_pending C rid)" "keeps db_wf (mark_sync_state_synced C rid)"
  "keeps db_wf (mark_sync_state_conflict C rid b)"
  unfolding upsert_sync_state_pending_def mark_sync_state_synced_def mark_sync_state_conflict_def
  by (intro inv_intros)+

lemma wf_metadata_queries [inv_intros]: "keeps db_wf (set_metadata k x)" "keeps db_wf (delete_metadata k)"
  unfolding set_metadata_def delete_metadata_def
  by (rule keeps_exec; auto simp: stmt_keeps_def change_def db_wf_def distinct_update distinct_delete)+

lemma wf_health_queries [inv_intros]:
  "keeps db_wf (upsert_record_health_state h)" "keeps db_wf (delete_record_health_state rid)"
  "keeps db_wf (copy_record_health_state_version rid v)"
  unfolding upsert_record_health_state_def delete_record_health_state_def copy_record_health_state_version_def
  subgoal by (rule keeps_exec) (auto simp: stmt_keeps_def db_wf_def alist_update_keys distinct_update)
  subgoal by (rule keeps_exec) (auto simp: stmt_keeps_def change_def db_wf_def distinct_delete AList.delete_eq distinct_map_filter_fst)
  subgoal by (rule keeps_exec) (simp add: stmt_keeps_def change_def db_wf_def map_fst_update fst_set_update del: map_map set_map)
  done

lemma wf_upsert_record_list_index [inv_intros]: "keeps db_wf (upsert_record_list_index C rid n x)"
  unfolding upsert_record_list_index_def
  by (rule keeps_exec) (auto simp: stmt_keeps_def db_wf_def alist_update_keys distinct_update)

end
