(* ===== verification/Vault_Crypto.thy ===== *)
theory Vault_Crypto
  imports Vault_Db "HOL-Library.Char_ord" "HOL-Library.List_Lexorder"
begin

text \<open>
  The encryption of record payloads: \<open>crypto/payload.rs\<close>, \<open>crypto/crypto_manager.rs\<close>, the key
  derivation of \<open>crypto/hkdf.rs\<close> and the cipher calls of \<open>crypto/xchacha20.rs\<close>. HKDF-SHA256, the AEAD
  and the JSON text format come from crates and are parameters; the derived \<open>serde\<close> form of the
  payload (an externally tagged object) is defined. A secret in locked memory is its bytes.
\<close>

section \<open>JSON values\<close>

datatype json = JNull | JBool bool | JNum string | JStr string | JArr "json list" | JObj "(string \<times> json) list"

definition as_str :: "json \<Rightarrow> string option" where
  "as_str j = (case j of JStr s \<Rightarrow> Some s | _ \<Rightarrow> None)"

text \<open>
  An object is listed as it stands in the text. As a \<open>serde_json::Value\<close> it is a \<open>BTreeMap\<close>, in which
  the last of several entries of a key counts and the entries are ordered by key.
  \<open>value[field]\<close> is \<open>Null\<close> for a missing field or a value that is not an object.
\<close>

definition json_index :: "json \<Rightarrow> string \<Rightarrow> json" where
  "json_index j field = (case j of
     JObj kvs \<Rightarrow> (case map_of (rev kvs) field of Some v \<Rightarrow> v | None \<Rightarrow> JNull)
   | _ \<Rightarrow> JNull)"

section \<open>Third-party cryptography\<close>

record crypto_env = cloud_env +
  json_print :: "json \<Rightarrow> string + string"
  json_parse :: "string \<Rightarrow> string + json"
  hkdf_sha256 :: "string \<Rightarrow> bytes \<Rightarrow> string \<Rightarrow> bytes option"
  aead_seal :: "bytes \<Rightarrow> bytes \<Rightarrow> bytes \<Rightarrow> bytes \<Rightarrow> bytes option"
  aead_open :: "bytes \<Rightarrow> bytes \<Rightarrow> bytes \<Rightarrow> bytes \<Rightarrow> bytes option"
  lock_memory :: "bytes \<Rightarrow> string + unit"
  uuid_error :: "string \<Rightarrow> string"
  ser_private :: "cloud_private_metadata \<Rightarrow> string + bytes"
  de_private :: "bytes \<Rightarrow> string + cloud_private_metadata"

record ('w) vault_ops = "'w db_ops" +
  vo_uuid :: "'w \<Rightarrow> uuid \<times> 'w"
  vo_nonce :: "'w \<Rightarrow> bytes \<times> 'w"

text \<open>
  What the code relies on: printed JSON is UTF-8 text and parses back (the strings of a value being UTF-8; payloads hold no numbers),
  key derivation and locking succeed, the cipher opens what it sealed under the same key, nonce and
  associated data, and nonces are 24 bytes.
\<close>

fun json_utf8 :: "json \<Rightarrow> bool" where
  "json_utf8 (JStr s) = (from_utf8 s = Inr s)"
| "json_utf8 (JArr js) = list_all json_utf8 js"
| "json_utf8 (JObj kvs) = list_all (\<lambda>kv. from_utf8 (fst kv) = Inr (fst kv) \<and> json_utf8 (snd kv)) kvs"
| "json_utf8 (JNum s) = False"
| "json_utf8 _ = True"

definition crypto_laws :: "('x) crypto_env_scheme \<Rightarrow> bool" where
  "crypto_laws E \<longleftrightarrow>
     (\<forall>j. json_utf8 j \<longrightarrow> (\<exists>s. json_print E j = Inr s \<and> from_utf8 s = Inr s \<and> json_parse E s = Inr j))
     \<and> (\<forall>salt ikm info. \<exists>k. hkdf_sha256 E salt ikm info = Some k \<and> length k = 32)
     \<and> (\<forall>k. lock_memory E k = Inr ())
     \<and> (\<forall>k n a p. length k = 32 \<and> length n = 24 \<longrightarrow> (\<exists>c. aead_seal E k n a p = Some c \<and> c \<noteq> [] \<and> aead_open E k n a c = Some p))
     \<and> (\<forall>m. \<exists>b. ser_private E m = Inr b \<and> de_private E b = Inr m)"

definition vault_ops_laws :: "('w, 'y) vault_ops_scheme \<Rightarrow> bool" where
  "vault_ops_laws C \<longleftrightarrow> (\<forall>w. length (fst (vo_nonce C w)) = 24)
     \<and> (\<forall>t. printable_time t \<longrightarrow> chrono_range C (t div 1000000000))
     \<and> (\<forall>w. printable_time (fst (dbo_now C w)))"

section \<open>Keys (crypto/hkdf.rs, crypto/keystore.rs, crypto/crypto_manager.rs)\<close>

record keystore =
  ks_kek :: "bytes option"
  ks_current_dek_version :: u32
  ks_device_id :: string

record crypto_manager =
  cg_keystore :: "keystore option"
  cg_current_dek_version :: u32

definition derive_dek :: "('x) crypto_env_scheme \<Rightarrow> bytes \<Rightarrow> u32 \<Rightarrow> string + bytes" where
  "derive_dek E kek version =
     ok_or ''key derivation failed'' (hkdf_sha256 E ''open-keyring-dek'' kek (''dek-v'' @ show_word version))"

definition keystore_get_dek :: "('x) crypto_env_scheme \<Rightarrow> keystore \<Rightarrow> u32 \<Rightarrow> string + bytes" where
  "keystore_get_dek E ks version =
     try_res (ok_or ''KeyStore not unlocked'' (ks_kek ks)) (\<lambda>kek.
     try_res (derive_dek E kek version) (\<lambda>dek.
     try_res (lock_memory E dek) (\<lambda>_. Inr dek)))"

definition crypto_manager_new :: crypto_manager where
  "crypto_manager_new = \<lparr> cg_keystore = None, cg_current_dek_version = 1 \<rparr>"

definition from_unlocked_keystore :: "keystore \<Rightarrow> crypto_manager" where
  "from_unlocked_keystore ks = \<lparr> cg_keystore = Some ks, cg_current_dek_version = ks_current_dek_version ks \<rparr>"

definition crypto_lock :: "crypto_manager \<Rightarrow> crypto_manager" where
  "crypto_lock cm = cm\<lparr>cg_keystore := None\<rparr>"

definition is_unlocked :: "crypto_manager \<Rightarrow> bool" where
  "is_unlocked cm \<longleftrightarrow> cg_keystore cm \<noteq> None"

definition get_dek :: "('x) crypto_env_scheme \<Rightarrow> crypto_manager \<Rightarrow> u32 \<Rightarrow> string + bytes" where
  "get_dek E cm version =
     try_res (ok_or ''CryptoManager not unlocked'' (cg_keystore cm)) (\<lambda>ks. keystore_get_dek E ks version)"

text \<open>A source of randomness or the identifier generator inside a fallible computation.\<close>

definition draw :: "('w \<Rightarrow> 'a \<times> 'w) \<Rightarrow> ('w vault, 'e, 'a) io" where
  "draw f v = (case f (v_ext v) of (a, w) \<Rightarrow> (Inr a, v\<lparr>v_ext := w\<rparr>))"

definition encrypt_with_aad ::
  "('x) crypto_env_scheme \<Rightarrow> ('w, 'y) vault_ops_scheme \<Rightarrow> bytes \<Rightarrow> bytes \<Rightarrow> bytes \<Rightarrow> ('w vault, string, bytes \<times> bytes) io" where
  "encrypt_with_aad E C plaintext aad key =
     (if length key \<noteq> 32 then io_lift (Inl ''Invalid Length'')
      else io_bind (draw (vo_nonce C)) (\<lambda>nonce.
        io_lift (try_res (ok_or ''aead::Error'' (aead_seal E key nonce aad plaintext)) (\<lambda>ciphertext. Inr (ciphertext, nonce)))))"

definition decrypt_with_aad :: "('x) crypto_env_scheme \<Rightarrow> bytes \<Rightarrow> bytes \<Rightarrow> bytes \<Rightarrow> bytes \<Rightarrow> string + bytes" where
  "decrypt_with_aad E ciphertext nonce aad key =
     (if length key \<noteq> 32 then Inl ''Invalid Length'' else ok_or ''aead::Error'' (aead_open E key nonce aad ciphertext))"

definition crypto_encrypt ::
  "('x) crypto_env_scheme \<Rightarrow> ('w, 'y) vault_ops_scheme \<Rightarrow> crypto_manager \<Rightarrow> bytes \<Rightarrow> bytes \<Rightarrow> ('w vault, string, bytes \<times> bytes) io" where
  "crypto_encrypt E C cm plaintext aad =
     io_bind (io_lift (get_dek E cm (cg_current_dek_version cm))) (\<lambda>dek. encrypt_with_aad E C plaintext aad dek)"

definition crypto_decrypt ::
  "('x) crypto_env_scheme \<Rightarrow> crypto_manager \<Rightarrow> bytes \<Rightarrow> bytes \<Rightarrow> bytes \<Rightarrow> u32 \<Rightarrow> string + bytes" where
  "crypto_decrypt E cm ciphertext nonce aad version =
     try_res (get_dek E cm version) (\<lambda>dek. decrypt_with_aad E ciphertext nonce aad dek)"

section \<open>Payloads (crypto/payload.rs)\<close>

definition opt_json :: "string option \<Rightarrow> json" where
  "opt_json x = (case x of None \<Rightarrow> JNull | Some s \<Rightarrow> JStr s)"

text \<open>The derived \<open>Serialize\<close> of the plaintext form: the variant's name around an object of its fields.\<close>

definition payload_to_json :: "encrypted_payload \<Rightarrow> json" where
  "payload_to_json p = (case p of
     LoginPayload name username password url notes \<Rightarrow>
       JObj [(''Login'', JObj [(''name'', JStr name), (''username'', JStr username), (''password'', JStr password),
         (''url'', opt_json url), (''notes'', opt_json notes)])]
   | ApiPayload name app_id secret_key url notes \<Rightarrow>
       JObj [(''Api'', JObj [(''name'', JStr name), (''app_id'', JStr app_id), (''secret_key'', JStr secret_key),
         (''url'', opt_json url), (''notes'', opt_json notes)])]
   | SshPayload name public_key private_key passphrase notes \<Rightarrow>
       JObj [(''Ssh'', JObj [(''name'', JStr name), (''public_key'', JStr public_key), (''private_key'', opt_json private_key),
         (''passphrase'', opt_json passphrase), (''notes'', opt_json notes)])]
   | SecureNotePayload name notes \<Rightarrow>
       JObj [(''SecureNote'', JObj [(''name'', JStr name), (''notes'', opt_json notes)])])"

text \<open>The derived \<open>Deserialize\<close>: a required string, and an optional one that may be absent or null.\<close>

definition req_field :: "(string \<times> json) list \<Rightarrow> string \<Rightarrow> string + string" where
  "req_field kvs f = (case map_of kvs f of
     Some (JStr s) \<Rightarrow> Inr s
   | Some _ \<Rightarrow> Inl (''invalid type for field '' @ f)
   | None \<Rightarrow> Inl (''missing field '' @ f))"

definition opt_field :: "(string \<times> json) list \<Rightarrow> string \<Rightarrow> string + string option" where
  "opt_field kvs f = (case map_of kvs f of
     Some (JStr s) \<Rightarrow> Inr (Some s)
   | Some JNull \<Rightarrow> Inr None
   | Some _ \<Rightarrow> Inl (''invalid type for field '' @ f)
   | None \<Rightarrow> Inr None)"

definition fields_of :: "string list \<Rightarrow> json \<Rightarrow> string + (string \<times> json) list" where
  "fields_of names j = (case j of
     JObj kvs \<Rightarrow> if distinct (filter (\<lambda>k. k \<in> set names) (map fst kvs)) then Inr kvs else Inl ''duplicate field''
   | _ \<Rightarrow> Inl ''invalid type, expected struct variant'')"

definition payload_of_json :: "json \<Rightarrow> string + encrypted_payload" where
  "payload_of_json j = (case j of
     JObj [(tag, inner)] \<Rightarrow>
       if tag = ''Login'' then
         try_res (fields_of [''name'', ''username'', ''password'', ''url'', ''notes''] inner) (\<lambda>kvs.
         try_res (req_field kvs ''name'') (\<lambda>name. try_res (req_field kvs ''username'') (\<lambda>username.
         try_res (req_field kvs ''password'') (\<lambda>password. try_res (opt_field kvs ''url'') (\<lambda>url.
         try_res (opt_field kvs ''notes'') (\<lambda>notes. Inr (LoginPayload name username password url notes)))))))
       else if tag = ''Api'' then
         try_res (fields_of [''name'', ''app_id'', ''secret_key'', ''url'', ''notes''] inner) (\<lambda>kvs.
         try_res (req_field kvs ''name'') (\<lambda>name. try_res (req_field kvs ''app_id'') (\<lambda>app_id.
         try_res (req_field kvs ''secret_key'') (\<lambda>secret_key. try_res (opt_field kvs ''url'') (\<lambda>url.
         try_res (opt_field kvs ''notes'') (\<lambda>notes. Inr (ApiPayload name app_id secret_key url notes)))))))
       else if tag = ''Ssh'' then
         try_res (fields_of [''name'', ''public_key'', ''private_key'', ''passphrase'', ''notes''] inner) (\<lambda>kvs.
         try_res (req_field kvs ''name'') (\<lambda>name. try_res (req_field kvs ''public_key'') (\<lambda>public_key.
         try_res (opt_field kvs ''private_key'') (\<lambda>private_key. try_res (opt_field kvs ''passphrase'') (\<lambda>passphrase.
         try_res (opt_field kvs ''notes'') (\<lambda>notes. Inr (SshPayload name public_key private_key passphrase notes)))))))
       else if tag = ''SecureNote'' then
         try_res (fields_of [''name'', ''notes''] inner) (\<lambda>kvs.
         try_res (req_field kvs ''name'') (\<lambda>name.
         try_res (opt_field kvs ''notes'') (\<lambda>notes. Inr (SecureNotePayload name notes))))
       else Inl (''unknown variant '' @ tag)
   | _ \<Rightarrow> Inl ''expected enum'')"

definition encrypt_payload ::
  "('x) crypto_env_scheme \<Rightarrow> ('w, 'y) vault_ops_scheme \<Rightarrow> crypto_manager \<Rightarrow> encrypted_payload \<Rightarrow> bytes
   \<Rightarrow> ('w vault, string, bytes \<times> bytes) io" where
  "encrypt_payload E C cm payload aad =
     io_bind (io_lift (json_print E (payload_to_json payload))) (\<lambda>json. crypto_encrypt E C cm json aad)"

definition decrypt_json :: "('x) crypto_env_scheme \<Rightarrow> crypto_manager \<Rightarrow> bytes \<Rightarrow> bytes \<Rightarrow> bytes \<Rightarrow> u32 \<Rightarrow> string + json" where
  "decrypt_json E cm ciphertext nonce aad version =
     try_res (crypto_decrypt E cm ciphertext nonce aad version) (\<lambda>plaintext.
     try_res (from_utf8 plaintext) (\<lambda>json. json_parse E json))"

definition decrypt_payload ::
  "('x) crypto_env_scheme \<Rightarrow> crypto_manager \<Rightarrow> bytes \<Rightarrow> bytes \<Rightarrow> bytes \<Rightarrow> u32 \<Rightarrow> string + encrypted_payload" where
  "decrypt_payload E cm ciphertext nonce aad version =
     try_res (decrypt_json E cm ciphertext nonce aad version) payload_of_json"

definition unwrap_enum_variant :: "json \<Rightarrow> string + json" where
  "unwrap_enum_variant j = (case j of
     JObj kvs \<Rightarrow> (case sort_key fst (AList.clearjunk (rev kvs)) of
        (_, v) # _ \<Rightarrow> Inr v
      | [] \<Rightarrow> Inl ''expected externally-tagged enum JSON'')
   | _ \<Rightarrow> Inl ''expected externally-tagged enum JSON'')"

definition decrypt_name_only ::
  "('x) crypto_env_scheme \<Rightarrow> crypto_manager \<Rightarrow> bytes \<Rightarrow> bytes \<Rightarrow> bytes \<Rightarrow> u32 \<Rightarrow> string + string" where
  "decrypt_name_only E cm ciphertext nonce aad version =
     try_res (decrypt_json E cm ciphertext nonce aad version) (\<lambda>value.
     try_res (unwrap_enum_variant value) (\<lambda>inner.
     ok_or ''name field not found'' (as_str (json_index inner ''name''))))"

definition ssh_subtitle :: "string \<Rightarrow> string" where
  "ssh_subtitle s = (if char_count s > 32 then concat (take 32 (chars_of s)) @ ''...'' else s)"

definition decrypt_subtitle ::
  "('x) crypto_env_scheme \<Rightarrow> crypto_manager \<Rightarrow> bytes \<Rightarrow> bytes \<Rightarrow> bytes \<Rightarrow> credential_type \<Rightarrow> u32 \<Rightarrow> string + string" where
  "decrypt_subtitle E cm ciphertext nonce aad ct version =
     try_res (decrypt_json E cm ciphertext nonce aad version) (\<lambda>value.
     try_res (unwrap_enum_variant value) (\<lambda>inner.
       let field_str = (\<lambda>f. case as_str (json_index inner f) of None \<Rightarrow> [] | Some s \<Rightarrow> s)
       in case ct of
            Login \<Rightarrow> Inr (field_str ''username'')
          | Api \<Rightarrow> Inr (field_str ''app_id'')
          | Ssh \<Rightarrow> Inr (ssh_subtitle (field_str ''public_key''))
          | SecureNote \<Rightarrow> Inr []))"

end
