(* ===== verification/Vault_Service.thy ===== *)
theory Vault_Service
  imports Vault_Crypto
begin

text \<open>
  \<open>VaultServiceImpl\<close> (\<open>services/vault\<close>): creating, reading, updating, deleting and restoring records,
  the trash, tags, password history, re-encryption and the application of downloaded records. A
  method is a fallible function on the database and the world; the key store and the device id of
  the service do not change and are an argument.
\<close>

record vault_service =
  vs_crypto :: crypto_manager
  vs_device_id :: string

datatype field_selector = SelPassword | SelUsername | SelUrl | SelNotes | SelPassphrase

datatype vault_error =
    VaultRecordNotFound uuid
  | VersionConflict (vc_expected: u64) (vc_actual: u64)
  | TagAlreadyExists string
  | TagNotFound string
  | NotUnlocked
  | DatabaseError sqlite_error
  | CryptoError string
  | VaultDataError data_error
  | InvalidField credential_type field_selector

type_synonym ('w, 'a) vault_io = "('w vault, vault_error, 'a) io"

section \<open>Helpers (services/vault/record/helpers.rs, list.rs, health_state.rs)\<close>

definition db_error_to_vault :: "db_error \<Rightarrow> vault_error" where
  "db_error_to_vault e = (case e of
     Sqlite se \<Rightarrow> DatabaseError se
   | DataErr d \<Rightarrow> CryptoError (''data conversion error: '' @ data_error_to_string d))"

abbreviation dbq :: "('w, 'a) query \<Rightarrow> ('w, 'a) vault_io" where
  "dbq \<equiv> io_map_err db_error_to_vault"

definition crypto_res :: "string + 'a \<Rightarrow> ('w, 'a) vault_io" where
  "crypto_res r = io_lift (map_err CryptoError r)"

definition data_res :: "data_error + 'a \<Rightarrow> ('w, 'a) vault_io" where
  "data_res r = io_lift (map_err VaultDataError r)"

definition require_unlocked :: "vault_service \<Rightarrow> ('w, unit) vault_io" where
  "require_unlocked S = io_lift (ensure (is_unlocked (vs_crypto S)) NotUnlocked)"

definition record_aad :: "('x) env_scheme \<Rightarrow> uuid \<Rightarrow> bytes" where
  "record_aad E rid = ''record:'' @ uuid_show E rid"

definition decrypt_stored :: "('x) crypto_env_scheme \<Rightarrow> vault_service \<Rightarrow> stored_record \<Rightarrow> string + encrypted_payload" where
  "decrypt_stored E S r = decrypt_payload E (vs_crypto S) (sr_encrypted_data r) (sr_nonce r) (sr_aad r) (sr_dek_version r)"

definition decrypt_record_name :: "('x) crypto_env_scheme \<Rightarrow> vault_service \<Rightarrow> stored_record \<Rightarrow> ('w, string) vault_io" where
  "decrypt_record_name E S stored =
     io_bind (crypto_res (decrypt_stored E S stored)) (\<lambda>payload. io_return (pl_name payload))"

definition extract_field :: "credential_type \<Rightarrow> encrypted_payload \<Rightarrow> field_selector \<Rightarrow> vault_error + string" where
  "extract_field ct payload field = (case (ct, payload, field) of
     (Login, LoginPayload _ _ password _ _, SelPassword) \<Rightarrow> Inr password
   | (Login, LoginPayload _ username _ _ _, SelUsername) \<Rightarrow> Inr username
   | (Login, LoginPayload _ _ _ (Some url) _, SelUrl) \<Rightarrow> Inr url
   | (Login, LoginPayload _ _ _ _ (Some notes), SelNotes) \<Rightarrow> Inr notes
   | (Api, ApiPayload _ _ secret_key _ _, SelPassword) \<Rightarrow> Inr secret_key
   | (Api, ApiPayload _ app_id _ _ _, SelUsername) \<Rightarrow> Inr app_id
   | (Api, ApiPayload _ _ _ (Some url) _, SelUrl) \<Rightarrow> Inr url
   | (Api, ApiPayload _ _ _ _ (Some notes), SelNotes) \<Rightarrow> Inr notes
   | (Ssh, SshPayload _ _ (Some pk) _ _, SelPassword) \<Rightarrow> Inr pk
   | (Ssh, SshPayload _ public_key _ _ _, SelUsername) \<Rightarrow> Inr public_key
   | (Ssh, SshPayload _ _ _ _ (Some notes), SelNotes) \<Rightarrow> Inr notes
   | (Ssh, SshPayload _ _ _ (Some pp) _, SelPassphrase) \<Rightarrow> Inr pp
   | _ \<Rightarrow> Inl (InvalidField ct field))"

definition password_changed :: "encrypted_payload \<Rightarrow> encrypted_payload \<Rightarrow> bool" where
  "password_changed old new = (case (old, new) of
     (LoginPayload _ _ old_pw _ _, LoginPayload _ _ new_pw _ _) \<Rightarrow> old_pw \<noteq> new_pw
   | _ \<Rightarrow> False)"

definition mark_record_list_index_dirty :: "('w, unit) vault_io" where
  "mark_record_list_index_dirty = dbq (set_metadata ''record_list_index_dirty'' ''1'')"

definition mark_record_list_index_clean :: "('w, unit) vault_io" where
  "mark_record_list_index_clean = dbq (set_metadata ''record_list_index_dirty'' ''0'')"

definition record_index_fields_from_payload :: "encrypted_payload \<Rightarrow> string \<times> string" where
  "record_index_fields_from_payload p = (case p of
     LoginPayload name username _ _ _ \<Rightarrow> (name, username)
   | ApiPayload name app_id _ _ _ \<Rightarrow> (name, app_id)
   | SshPayload name public_key _ _ _ \<Rightarrow> (name, ssh_subtitle public_key)
   | SecureNotePayload name _ \<Rightarrow> (name, []))"

definition upsert_record_list_index_for_payload ::
  "('w, 'y) vault_ops_scheme \<Rightarrow> uuid \<Rightarrow> encrypted_payload \<Rightarrow> ('w, unit) vault_io" where
  "upsert_record_list_index_for_payload C rid payload =
     (case record_index_fields_from_payload payload of (name, subtitle) \<Rightarrow> dbq (upsert_record_list_index C rid name subtitle))"

definition upsert_record_list_index_for_stored ::
  "('x) crypto_env_scheme \<Rightarrow> ('w, 'y) vault_ops_scheme \<Rightarrow> vault_service \<Rightarrow> stored_record \<Rightarrow> ('w, unit) vault_io" where
  "upsert_record_list_index_for_stored E C S r =
     io_bind (crypto_res (decrypt_name_only E (vs_crypto S) (sr_encrypted_data r) (sr_nonce r) (sr_aad r) (sr_dek_version r))) (\<lambda>name.
     io_bind (crypto_res (decrypt_subtitle E (vs_crypto S) (sr_encrypted_data r) (sr_nonce r) (sr_aad r)
                (sr_credential_type r) (sr_dek_version r))) (\<lambda>subtitle.
     dbq (upsert_record_list_index C (sr_id r) name subtitle)))"

definition mark_records_pending_sync :: "('w, 'y) vault_ops_scheme \<Rightarrow> uuid list \<Rightarrow> ('w, unit) vault_io" where
  "mark_records_pending_sync C ids = for_each (\<lambda>rid. dbq (upsert_sync_state_pending C rid)) ids"

definition attach_tags :: "uuid \<Rightarrow> string list \<Rightarrow> ('w, unit) vault_io" where
  "attach_tags rid tags = for_each (\<lambda>tag_name.
     io_bind (dbq (get_or_create_tag tag_name)) (\<lambda>tag_id. dbq (attach_tag rid tag_id))) tags"

section \<open>Records (services/vault/record/crud.rs)\<close>

record create_record_params =
  cp_credential_type :: credential_type
  cp_payload :: encrypted_payload
  cp_tags :: "string list"
  cp_is_favorite :: bool
  cp_expires_at :: "timestamp option"

record update_record_params =
  up_id :: uuid
  up_payload :: encrypted_payload
  up_tags :: "string list"
  up_is_favorite :: bool
  up_expires_at :: "timestamp option"
  up_expected_version :: u64

definition get_stored_record :: "('w, 'y) vault_ops_scheme \<Rightarrow> uuid \<Rightarrow> ('w, stored_record) vault_io" where
  "get_stored_record C rid =
     io_bind (dbq (get_record C rid)) (\<lambda>r. io_lift (ok_or (VaultRecordNotFound rid) r))"

definition create_record ::
  "('x) crypto_env_scheme \<Rightarrow> ('w, 'y) vault_ops_scheme \<Rightarrow> vault_service \<Rightarrow> create_record_params \<Rightarrow> ('w, uuid) vault_io" where
  "create_record E C S params =
     io_bind (require_unlocked S) (\<lambda>_.
     io_bind (data_res (validate_payload (cp_payload params))) (\<lambda>_.
     io_bind (data_res (validate_tags (cp_tags params))) (\<lambda>_.
     io_bind (draw (vo_uuid C)) (\<lambda>rid.
     io_bind (io_map_err CryptoError (encrypt_payload E C (vs_crypto S) (cp_payload params) (record_aad E rid))) (\<lambda>(encrypted_data, nonce).
     io_bind (utc_now C) (\<lambda>now.
     let record = \<lparr> sr_id = rid, sr_credential_type = cp_credential_type params, sr_encrypted_data = encrypted_data,
           sr_nonce = nonce, sr_dek_version = cg_current_dek_version (vs_crypto S), sr_aad = record_aad E rid,
           sr_is_favorite = cp_is_favorite params, sr_expires_at = cp_expires_at params, sr_created_at = now,
           sr_updated_at = now, sr_updated_by = vs_device_id S, sr_version = 1, sr_deleted = False,
           sr_deleted_at = None, sr_tags = cp_tags params \<rparr> in
     io_bind mark_record_list_index_dirty (\<lambda>_.
     io_bind (dbq (insert_record record)) (\<lambda>_.
     io_bind (upsert_record_list_index_for_payload C rid (cp_payload params)) (\<lambda>_.
     io_bind mark_record_list_index_clean (\<lambda>_.
     io_bind (dbq (insert_audit_entry C RecordCreate (Some rid) (Some (pl_name (cp_payload params))) None)) (\<lambda>_.
     io_return rid)))))))))))"

text \<open>A decrypted record (types/record.rs): the attributes all variants share, and the fields of the type.\<close>

record record_attrs =
  at_id :: uuid
  at_is_favorite :: bool
  at_expires_at :: "timestamp option"
  at_created_at :: timestamp
  at_updated_at :: timestamp
  at_version :: u64
  at_deleted :: bool
  at_deleted_at :: "timestamp option"
  at_tags :: "string list"

datatype decrypted_record =
    LoginRecord (dr_attrs: record_attrs) (dr_name: string) (dr_username: string) (dr_password: string)
      (dr_url: "string option") (dr_notes: "string option")
  | ApiRecord (dr_attrs: record_attrs) (dr_name: string) (dr_app_id: string) (dr_secret_key: string)
      (dr_url: "string option") (dr_notes: "string option")
  | SshRecord (dr_attrs: record_attrs) (dr_name: string) (dr_public_key: string) (dr_private_key: "string option")
      (dr_passphrase: "string option") (dr_notes: "string option")
  | SecureNoteRecord (dr_attrs: record_attrs) (dr_name: string) (dr_notes: "string option")

definition dr_credential_type :: "decrypted_record \<Rightarrow> credential_type" where
  "dr_credential_type d = (case d of
     LoginRecord _ _ _ _ _ _ \<Rightarrow> Login | ApiRecord _ _ _ _ _ _ \<Rightarrow> Api
   | SshRecord _ _ _ _ _ _ \<Rightarrow> Ssh | SecureNoteRecord _ _ _ \<Rightarrow> SecureNote)"

definition dr_is_expired :: "timestamp \<Rightarrow> decrypted_record \<Rightarrow> bool" where
  "dr_is_expired now d = (case at_expires_at (dr_attrs d) of None \<Rightarrow> False | Some t \<Rightarrow> t < now)"

definition attrs_of :: "stored_record \<Rightarrow> record_attrs" where
  "attrs_of stored =
     \<lparr> at_id = sr_id stored, at_is_favorite = sr_is_favorite stored, at_expires_at = sr_expires_at stored,
       at_created_at = sr_created_at stored, at_updated_at = sr_updated_at stored, at_version = sr_version stored,
       at_deleted = sr_deleted stored, at_deleted_at = sr_deleted_at stored, at_tags = sr_tags stored \<rparr>"

definition decrypted_of :: "stored_record \<Rightarrow> encrypted_payload \<Rightarrow> vault_error + decrypted_record" where
  "decrypted_of stored payload = (case (sr_credential_type stored, payload) of
     (Login, LoginPayload name username password url notes) \<Rightarrow>
       Inr (LoginRecord (attrs_of stored) name username password url notes)
   | (Api, ApiPayload name app_id secret_key url notes) \<Rightarrow>
       Inr (ApiRecord (attrs_of stored) name app_id secret_key url notes)
   | (Ssh, SshPayload name public_key private_key passphrase notes) \<Rightarrow>
       Inr (SshRecord (attrs_of stored) name public_key private_key passphrase notes)
   | (SecureNote, SecureNotePayload name notes) \<Rightarrow>
       Inr (SecureNoteRecord (attrs_of stored) name notes)
   | _ \<Rightarrow> Inl (CryptoError ''credential type / payload mismatch''))"

definition get_decrypted_record ::
  "('x) crypto_env_scheme \<Rightarrow> ('w, 'y) vault_ops_scheme \<Rightarrow> vault_service \<Rightarrow> uuid \<Rightarrow> ('w, decrypted_record) vault_io" where
  "get_decrypted_record E C S rid =
     io_bind (require_unlocked S) (\<lambda>_.
     io_bind (get_stored_record C rid) (\<lambda>stored.
     io_bind (crypto_res (decrypt_stored E S stored)) (\<lambda>payload.
     io_bind (io_lift (decrypted_of stored payload)) (\<lambda>decrypted.
     io_bind (dbq (insert_audit_entry C RecordViewPassword (Some (sr_id stored)) (Some (dr_name decrypted)) None)) (\<lambda>_.
     io_return decrypted)))))"

definition save_password_history :: "('w, 'y) vault_ops_scheme \<Rightarrow> uuid \<Rightarrow> bytes \<Rightarrow> bytes \<Rightarrow> u32 \<Rightarrow> ('w, unit) vault_io" where
  "save_password_history C rid old_encrypted_data old_nonce old_dek_version =
     io_bind (dbq (count_password_history rid)) (\<lambda>count.
     io_bind (if 10 \<le> count then dbq (delete_oldest_password_history rid) else io_return ()) (\<lambda>_.
     io_bind (utc_now C) (\<lambda>now.
     dbq (insert_password_history rid old_encrypted_data old_nonce old_dek_version (datetime_to_timestamp now)))))"

definition update_record_service ::
  "('x) crypto_env_scheme \<Rightarrow> ('w, 'y) vault_ops_scheme \<Rightarrow> vault_service \<Rightarrow> update_record_params \<Rightarrow> ('w, unit) vault_io" where
  "update_record_service E C S params =
     io_bind (require_unlocked S) (\<lambda>_.
     io_bind (get_stored_record C (up_id params)) (\<lambda>stored.
     if sr_version stored \<noteq> up_expected_version params
     then io_lift (Inl (VersionConflict (up_expected_version params) (sr_version stored)))
     else
     io_bind (data_res (validate_payload (up_payload params))) (\<lambda>_.
     io_bind (data_res (validate_tags (up_tags params))) (\<lambda>_.
     io_bind (crypto_res (decrypt_stored E S stored)) (\<lambda>old_payload.
     let pw_changed = password_changed old_payload (up_payload params);
         exp_changed = (sr_expires_at stored \<noteq> up_expires_at params) in
     io_bind (if sr_credential_type stored = Login \<and> pw_changed
              then save_password_history C (up_id params) (sr_encrypted_data stored) (sr_nonce stored) (sr_dek_version stored)
              else io_return ()) (\<lambda>_.
     io_bind (io_map_err CryptoError (encrypt_payload E C (vs_crypto S) (up_payload params) (record_aad E (up_id params)))) (\<lambda>(encrypted_data, nonce).
     io_bind (utc_now C) (\<lambda>now.
     let new_version = sr_version stored + 1;
         updated_record = stored\<lparr> sr_id := up_id params, sr_encrypted_data := encrypted_data, sr_nonce := nonce,
           sr_dek_version := cg_current_dek_version (vs_crypto S), sr_aad := record_aad E (up_id params),
           sr_is_favorite := up_is_favorite params, sr_expires_at := up_expires_at params, sr_updated_at := now,
           sr_updated_by := vs_device_id S, sr_version := new_version, sr_tags := up_tags params \<rparr> in
     io_bind mark_record_list_index_dirty (\<lambda>_.
     io_bind (dbq (update_record updated_record (up_expected_version params))) (\<lambda>updated.
     if \<not> updated then io_lift (Inl (VersionConflict (up_expected_version params) (sr_version stored)))
     else
     io_bind (dbq (detach_all_tags_for_record (up_id params))) (\<lambda>_.
     io_bind (attach_tags (up_id params) (up_tags params)) (\<lambda>_.
     io_bind (upsert_record_list_index_for_payload C (up_id params) (up_payload params)) (\<lambda>_.
     io_bind mark_record_list_index_clean (\<lambda>_.
     io_bind (if pw_changed \<or> exp_changed then dbq (delete_record_health_state (up_id params))
              else dbq (copy_record_health_state_version (up_id params) new_version)) (\<lambda>_.
     io_bind (dbq (insert_audit_entry C RecordUpdate (Some (up_id params)) (Some (pl_name (up_payload params))) None)) (\<lambda>_.
     mark_records_pending_sync C [up_id params]))))))))))))))))"

definition soft_delete_record ::
  "('x) crypto_env_scheme \<Rightarrow> ('w, 'y) vault_ops_scheme \<Rightarrow> vault_service \<Rightarrow> uuid \<Rightarrow> ('w, unit) vault_io" where
  "soft_delete_record E C S rid =
     io_bind (require_unlocked S) (\<lambda>_.
     io_bind (get_stored_record C rid) (\<lambda>stored.
     io_bind (decrypt_record_name E S stored) (\<lambda>record_name.
     io_bind (dbq (soft_delete_row C rid)) (\<lambda>_.
     io_bind (dbq (delete_record_health_state rid)) (\<lambda>_.
     io_bind (dbq (insert_audit_entry C RecordDelete (Some rid) (Some record_name) None)) (\<lambda>_.
     mark_records_pending_sync C [rid]))))))"

definition restore_record ::
  "('x) crypto_env_scheme \<Rightarrow> ('w, 'y) vault_ops_scheme \<Rightarrow> vault_service \<Rightarrow> uuid \<Rightarrow> ('w, unit) vault_io" where
  "restore_record E C S rid =
     io_bind (require_unlocked S) (\<lambda>_.
     io_bind (get_stored_record C rid) (\<lambda>stored.
     io_bind (decrypt_record_name E S stored) (\<lambda>record_name.
     io_bind (dbq (restore_row rid)) (\<lambda>_.
     io_bind (dbq (insert_audit_entry C RecordRestore (Some rid) (Some record_name) None)) (\<lambda>_.
     mark_records_pending_sync C [rid])))))"

definition hard_delete_record ::
  "('x) crypto_env_scheme \<Rightarrow> ('w, 'y) vault_ops_scheme \<Rightarrow> vault_service \<Rightarrow> uuid \<Rightarrow> ('w, unit) vault_io" where
  "hard_delete_record E C S rid =
     io_bind (require_unlocked S) (\<lambda>_.
     io_bind (get_stored_record C rid) (\<lambda>stored.
     io_bind (decrypt_record_name E S stored) (\<lambda>record_name.
     io_bind (dbq (hard_delete_row rid)) (\<lambda>_.
     io_bind (dbq (delete_record_health_state rid)) (\<lambda>_.
     dbq (insert_audit_entry C RecordDestroy (Some rid) (Some record_name) None))))))"

definition toggle_favorite ::
  "('w, 'y) vault_ops_scheme \<Rightarrow> vault_service \<Rightarrow> uuid \<Rightarrow> bool \<Rightarrow> ('w, unit) vault_io" where
  "toggle_favorite C S rid is_favorite =
     io_bind (require_unlocked S) (\<lambda>_.
     io_bind (get_stored_record C rid) (\<lambda>_.
     io_bind (dbq (exec (update_rows (\<lambda>i _. i = rid) (\<lambda>row. row\<lparr>rr_is_favorite := bool_int is_favorite\<rparr>)))) (\<lambda>_.
     mark_records_pending_sync C [rid])))"

section \<open>Single fields (services/vault/record/field.rs)\<close>

definition decrypt_field_with_audit ::
  "('x) crypto_env_scheme \<Rightarrow> ('w, 'y) vault_ops_scheme \<Rightarrow> vault_service \<Rightarrow> uuid \<Rightarrow> field_selector
   \<Rightarrow> audit_operation option \<Rightarrow> ('w, string) vault_io" where
  "decrypt_field_with_audit E C S rid field audit_operation =
     io_bind (require_unlocked S) (\<lambda>_.
     io_bind (get_stored_record C rid) (\<lambda>stored.
     io_bind (crypto_res (decrypt_stored E S stored)) (\<lambda>payload.
     io_bind (io_lift (extract_field (sr_credential_type stored) payload field)) (\<lambda>value.
     io_bind (case audit_operation of
                Some operation \<Rightarrow> dbq (insert_audit_entry C operation (Some rid) (Some (pl_name payload)) None)
              | None \<Rightarrow> io_return ()) (\<lambda>_. io_return value)))))"

definition decrypt_field ::
  "('x) crypto_env_scheme \<Rightarrow> ('w, 'y) vault_ops_scheme \<Rightarrow> vault_service \<Rightarrow> uuid \<Rightarrow> field_selector \<Rightarrow> ('w, string) vault_io" where
  "decrypt_field E C S rid field =
     decrypt_field_with_audit E C S rid field
       (if field = SelPassword \<or> field = SelPassphrase then Some RecordViewPassword else None)"

definition decrypt_field_for_copy ::
  "('x) crypto_env_scheme \<Rightarrow> ('w, 'y) vault_ops_scheme \<Rightarrow> vault_service \<Rightarrow> uuid \<Rightarrow> field_selector \<Rightarrow> ('w, string) vault_io" where
  "decrypt_field_for_copy E C S rid field =
     decrypt_field_with_audit E C S rid field
       (Some (if field = SelPassword \<or> field = SelPassphrase then RecordCopyPassword else RecordCopyField))"

definition decrypt_field_no_audit ::
  "('x) crypto_env_scheme \<Rightarrow> ('w, 'y) vault_ops_scheme \<Rightarrow> vault_service \<Rightarrow> uuid \<Rightarrow> field_selector \<Rightarrow> ('w, string) vault_io" where
  "decrypt_field_no_audit E C S rid field = decrypt_field_with_audit E C S rid field None"

section \<open>Re-encryption (services/vault/record/migration.rs)\<close>

definition list_records_for_migration :: "('w, 'y) vault_ops_scheme \<Rightarrow> u32 \<Rightarrow> ('w, stored_record list) vault_io" where
  "list_records_for_migration C target = dbq (list_records_by_dek_version C target)"

definition re_encrypt_record ::
  "('x) crypto_env_scheme \<Rightarrow> ('w, 'y) vault_ops_scheme \<Rightarrow> vault_service \<Rightarrow> uuid \<Rightarrow> u32 \<Rightarrow> ('w, unit) vault_io" where
  "re_encrypt_record E C S rid old_dek_version =
     io_bind (get_stored_record C rid) (\<lambda>record.
     io_bind (crypto_res (crypto_decrypt E (vs_crypto S) (sr_encrypted_data record) (sr_nonce record) (sr_aad record) old_dek_version)) (\<lambda>plaintext.
     io_bind (io_map_err CryptoError (crypto_encrypt E C (vs_crypto S) plaintext (sr_aad record))) (\<lambda>(new_encrypted_data, new_nonce).
     io_bind (utc_now C) (\<lambda>now.
     let updated_record = record\<lparr> sr_encrypted_data := new_encrypted_data, sr_nonce := new_nonce,
           sr_dek_version := cg_current_dek_version (vs_crypto S), sr_updated_at := now, sr_version := sr_version record + 1 \<rparr> in
     io_bind (dbq (update_record updated_record (sr_version record))) (\<lambda>updated.
     if \<not> updated then io_lift (Inl (VersionConflict (sr_version record) (sr_version record))) else io_return ())))))"

end
