(* ===== verification/Vault_Trash.thy ===== *)
theory Vault_Trash
  imports Vault_Service
begin

text \<open>
  The batch operations of the vault: the trash (\<open>services/vault/trash.rs\<close>), tags
  (\<open>services/vault/tag/state.rs\<close>) and password history (\<open>services/vault/history.rs\<close>).
\<close>

section \<open>The trash\<close>

text \<open>A method whose error is swallowed (\<open>.ok()\<close>); its effects stay.\<close>

definition io_ok :: "('w, 'e, 'a) io \<Rightarrow> ('w, 'f, 'a option) io" where
  "io_ok m w = (case m w of (Inr a, w') \<Rightarrow> (Inr (Some a), w') | (Inl _, w') \<Rightarrow> (Inr None, w'))"

definition stored_name :: "('x) crypto_env_scheme \<Rightarrow> vault_service \<Rightarrow> stored_record \<Rightarrow> string + string" where
  "stored_name E S r =
     decrypt_name_only E (vs_crypto S) (sr_encrypted_data r) (sr_nonce r) (record_aad E (sr_id r)) (sr_dek_version r)"

definition name_or_unknown :: "string + string \<Rightarrow> string" where
  "name_or_unknown r = (case r of Inr n \<Rightarrow> n | Inl _ \<Rightarrow> ''<unknown>'')"

record tui_record =
  tr_id :: uuid
  tr_credential_type :: credential_type
  tr_name :: string
  tr_subtitle :: string
  tr_is_favorite :: bool
  tr_is_expired :: bool
  tr_expires_at :: "timestamp option"
  tr_has_weak_password :: bool
  tr_is_compromised :: bool
  tr_duplicate_group_size :: "nat option"
  tr_created_at :: timestamp
  tr_updated_at :: timestamp
  tr_deleted :: bool
  tr_deleted_at :: "timestamp option"
  tr_tags :: "string list"
  tr_sync_status :: "sync_status option"

definition trash_row :: "('x) crypto_env_scheme \<Rightarrow> vault_service \<Rightarrow> stored_record \<Rightarrow> string + tui_record" where
  "trash_row E S r =
     try_res (stored_name E S r) (\<lambda>name.
     try_res (decrypt_subtitle E (vs_crypto S) (sr_encrypted_data r) (sr_nonce r) (record_aad E (sr_id r))
                (sr_credential_type r) (sr_dek_version r)) (\<lambda>subtitle.
     Inr \<lparr> tr_id = sr_id r, tr_credential_type = sr_credential_type r, tr_name = name, tr_subtitle = subtitle,
           tr_is_favorite = sr_is_favorite r, tr_is_expired = False, tr_expires_at = sr_expires_at r,
           tr_has_weak_password = False, tr_is_compromised = False, tr_duplicate_group_size = None,
           tr_created_at = sr_created_at r, tr_updated_at = sr_updated_at r, tr_deleted = sr_deleted r,
           tr_deleted_at = sr_deleted_at r, tr_tags = sr_tags r, tr_sync_status = None \<rparr>))"

fun map_res :: "('a \<Rightarrow> 'e + 'b) \<Rightarrow> 'a list \<Rightarrow> 'e + 'b list" where
  "map_res f [] = Inr []"
| "map_res f (x # xs) = try_res (f x) (\<lambda>y. try_res (map_res f xs) (\<lambda>ys. Inr (y # ys)))"

definition list_trash ::
  "('x) crypto_env_scheme \<Rightarrow> ('w, 'y) vault_ops_scheme \<Rightarrow> vault_service \<Rightarrow> ('w, tui_record list) vault_io" where
  "list_trash E C S =
     io_bind (require_unlocked S) (\<lambda>_.
     io_bind (dbq (list_deleted_records C)) (\<lambda>stored_records.
     crypto_res (map_res (trash_row E S) stored_records)))"

definition hard_delete_all :: "stored_record list \<Rightarrow> ('w, unit) vault_io" where
  "hard_delete_all records = for_each (\<lambda>r. dbq (hard_delete_row (sr_id r))) records"

definition empty_trash :: "('w, 'y) vault_ops_scheme \<Rightarrow> vault_service \<Rightarrow> ('w, nat) vault_io" where
  "empty_trash C S =
     io_bind (require_unlocked S) (\<lambda>_.
     io_bind (dbq (list_deleted_records C)) (\<lambda>deleted_records.
     io_bind (hard_delete_all deleted_records) (\<lambda>_.
     io_bind (if deleted_records \<noteq> [] then
                dbq (insert_audit_entry C TrashEmpty None None
                  (Some (''permanently deleted '' @ show_nat (length deleted_records) @ '' record(s)'')))
              else io_return ()) (\<lambda>_.
     io_return (length deleted_records)))))"

definition trash_expired :: "timestamp \<Rightarrow> stored_record \<Rightarrow> bool" where
  "trash_expired cutoff r = (case sr_deleted_at r of None \<Rightarrow> False | Some deleted_at \<Rightarrow> deleted_at < cutoff)"

definition cleanup_expired_trash :: "('w, 'y) vault_ops_scheme \<Rightarrow> vault_service \<Rightarrow> u32 \<Rightarrow> ('w, nat) vault_io" where
  "cleanup_expired_trash C S retention_days =
     io_bind (require_unlocked S) (\<lambda>_.
     io_bind (dbq (list_deleted_records C)) (\<lambda>deleted_records.
     io_bind (utc_now C) (\<lambda>now.
     let cutoff = now - int (unat retention_days) * 86400 * 1000000000;
         expired = filter (trash_expired cutoff) deleted_records in
     io_bind (hard_delete_all expired) (\<lambda>_. io_return (length expired)))))"

definition batch_soft_delete ::
  "('x) crypto_env_scheme \<Rightarrow> ('w, 'y) vault_ops_scheme \<Rightarrow> vault_service \<Rightarrow> uuid list \<Rightarrow> ('w, nat) vault_io" where
  "batch_soft_delete E C S ids =
     io_bind (require_unlocked S) (\<lambda>_.
     if ids = [] then io_return 0
     else
     io_bind (dbq (batch_soft_delete_records C ids (vs_device_id S))) (\<lambda>affected.
     io_bind (for_each (\<lambda>rid.
       io_bind (io_ok (get_stored_record C rid)) (\<lambda>stored.
       let record_name = (case stored of Some r \<Rightarrow> name_or_unknown (stored_name E S r) | None \<Rightarrow> ''<unknown>'') in
       dbq (insert_audit_entry C RecordDelete (Some rid) (Some record_name) None))) ids) (\<lambda>_.
     io_bind (if 0 < affected then mark_records_pending_sync C ids else io_return ()) (\<lambda>_.
     io_return affected))))"

fun deleted_with_names ::
  "('x) crypto_env_scheme \<Rightarrow> ('w, 'y) vault_ops_scheme \<Rightarrow> vault_service \<Rightarrow> uuid list \<Rightarrow> ('w, (uuid \<times> string) list) vault_io" where
  "deleted_with_names E C S [] = io_return []"
| "deleted_with_names E C S (rid # ids) =
     io_bind (io_ok (get_stored_record C rid)) (\<lambda>stored.
     io_bind (deleted_with_names E C S ids) (\<lambda>rest.
     io_return (case stored of
       Some r \<Rightarrow> if sr_deleted r then (rid, name_or_unknown (stored_name E S r)) # rest else rest
     | None \<Rightarrow> rest)))"

definition audit_each :: "('w, 'y) vault_ops_scheme \<Rightarrow> audit_operation \<Rightarrow> (uuid \<times> string) list \<Rightarrow> ('w, unit) vault_io" where
  "audit_each C operation xs = for_each (\<lambda>(rid, name). dbq (insert_audit_entry C operation (Some rid) (Some name) None)) xs"

definition batch_restore ::
  "('x) crypto_env_scheme \<Rightarrow> ('w, 'y) vault_ops_scheme \<Rightarrow> vault_service \<Rightarrow> uuid list \<Rightarrow> ('w, nat) vault_io" where
  "batch_restore E C S ids =
     io_bind (require_unlocked S) (\<lambda>_.
     if ids = [] then io_return 0
     else
     io_bind (deleted_with_names E C S ids) (\<lambda>named.
     io_bind (dbq (batch_restore_records ids)) (\<lambda>affected.
     io_bind (audit_each C RecordRestore named) (\<lambda>_.
     io_bind (if 0 < affected then mark_records_pending_sync C (map fst named) else io_return ()) (\<lambda>_.
     io_return affected)))))"

definition batch_hard_delete ::
  "('x) crypto_env_scheme \<Rightarrow> ('w, 'y) vault_ops_scheme \<Rightarrow> vault_service \<Rightarrow> uuid list \<Rightarrow> ('w, nat) vault_io" where
  "batch_hard_delete E C S ids =
     io_bind (require_unlocked S) (\<lambda>_.
     if ids = [] then io_return 0
     else
     io_bind (deleted_with_names E C S ids) (\<lambda>named.
     io_bind (dbq (batch_hard_delete_records ids)) (\<lambda>affected.
     io_bind (audit_each C RecordDestroy named) (\<lambda>_.
     io_return affected))))"

section \<open>Tags\<close>

definition record_ids_for_tag :: "string \<Rightarrow> ('w, uuid list) vault_io" where
  "record_ids_for_tag tag_name = dbq (exec (select (\<lambda>d.
     map fst (filter (\<lambda>rt. map_of (tb_tags d) (snd rt) = Some tag_name) (tb_record_tags d)))))"

definition count_record_tags :: "uuid \<Rightarrow> ('w, nat) vault_io" where
  "count_record_tags rid = dbq (exec (select (\<lambda>d. length (filter (\<lambda>rt. fst rt = rid) (tb_record_tags d)))))"

definition rename_tag :: "('w, 'y) vault_ops_scheme \<Rightarrow> string \<Rightarrow> string \<Rightarrow> ('w, unit) vault_io" where
  "rename_tag C old_name new_name =
     io_bind (record_ids_for_tag old_name) (\<lambda>affected_record_ids.
     io_bind (dbq (get_tag_by_name new_name)) (\<lambda>existing.
     if existing \<noteq> None then io_lift (Inl (TagAlreadyExists new_name))
     else
     io_bind (dbq (rename_tag_row old_name new_name)) (\<lambda>updated.
     if \<not> updated then io_lift (Inl (TagNotFound old_name))
     else if affected_record_ids \<noteq> [] then mark_records_pending_sync C affected_record_ids
     else io_return ())))"

definition delete_tag :: "('w, 'y) vault_ops_scheme \<Rightarrow> string \<Rightarrow> ('w, unit) vault_io" where
  "delete_tag C name =
     io_bind (record_ids_for_tag name) (\<lambda>affected_record_ids.
     io_bind (dbq (delete_tag_by_name name)) (\<lambda>deleted.
     if \<not> deleted then io_lift (Inl (TagNotFound name))
     else if affected_record_ids \<noteq> [] then mark_records_pending_sync C affected_record_ids
     else io_return ()))"

text \<open>The transaction of a batch, at the level of the service's errors.\<close>

definition in_tx_service :: "('w, 'a) vault_io \<Rightarrow> ('w, 'a) vault_io" where
  "in_tx_service m v = (case m v of (Inl e, v') \<Rightarrow> (Inl e, v'\<lparr>v_db := v_db v\<rparr>) | (Inr a, v') \<Rightarrow> (Inr a, v'))"

text \<open>The loop over the records: the number of them whose count of tags changed.\<close>

fun count_changes :: "(uuid \<Rightarrow> ('w, unit) vault_io) \<Rightarrow> (nat \<Rightarrow> nat \<Rightarrow> bool) \<Rightarrow> uuid list \<Rightarrow> nat \<Rightarrow> ('w, nat) vault_io" where
  "count_changes step changed [] n = io_return n"
| "count_changes step changed (rid # ids) n =
     io_bind (count_record_tags rid) (\<lambda>rows_before.
     io_bind (step rid) (\<lambda>_.
     io_bind (count_record_tags rid) (\<lambda>rows_after.
     count_changes step changed ids (if changed rows_before rows_after then n + 1 else n))))"

definition batch_add_tag :: "('w, 'y) vault_ops_scheme \<Rightarrow> uuid list \<Rightarrow> string \<Rightarrow> ('w, nat) vault_io" where
  "batch_add_tag C ids tag_name =
     io_bind (in_tx_service (
       io_bind (dbq (get_or_create_tag tag_name)) (\<lambda>tag_id.
       count_changes (\<lambda>rid. dbq (attach_tag rid tag_id)) (\<lambda>before after. before < after) ids 0))) (\<lambda>added.
     io_bind (if 0 < added then mark_records_pending_sync C ids else io_return ()) (\<lambda>_.
     io_return added))"

definition batch_remove_tag :: "('w, 'y) vault_ops_scheme \<Rightarrow> uuid list \<Rightarrow> string \<Rightarrow> ('w, nat) vault_io" where
  "batch_remove_tag C ids tag_name =
     io_bind (in_tx_service (
       io_bind (dbq (get_tag_by_name tag_name)) (\<lambda>found.
       io_bind (io_lift (ok_or (TagNotFound tag_name) found)) (\<lambda>tag_id.
       io_bind (count_changes (\<lambda>rid. dbq (detach_tag rid tag_id)) (\<lambda>before after. after < before) ids 0) (\<lambda>removed.
       io_bind (dbq (exec (select (\<lambda>d. length (filter (\<lambda>rt. snd rt = tag_id) (tb_record_tags d)))))) (\<lambda>remaining.
       io_bind (if remaining = 0 then dbq (exec (change (delete_tags {tag_id}))) else io_return ()) (\<lambda>_.
       io_return removed))))))) (\<lambda>removed.
     io_bind (if 0 < removed then mark_records_pending_sync C ids else io_return ()) (\<lambda>_.
     io_return removed))"

section \<open>Password history\<close>

definition password_history :: "('w, 'y) vault_ops_scheme \<Rightarrow> vault_service \<Rightarrow> uuid \<Rightarrow> ('w, history_row list) vault_io" where
  "password_history C S rid =
     io_bind (require_unlocked S) (\<lambda>_. dbq (get_password_history C rid 10))"

definition decrypt_history_password ::
  "('x) crypto_env_scheme \<Rightarrow> ('w, 'y) vault_ops_scheme \<Rightarrow> vault_service \<Rightarrow> int \<Rightarrow> ('w, string) vault_io" where
  "decrypt_history_password E C S history_id =
     io_bind (require_unlocked S) (\<lambda>_.
     io_bind (dbq (get_password_history_by_id C history_id)) (\<lambda>found.
     io_bind (io_lift (ok_or (VaultRecordNotFound 0) found)) (\<lambda>entry.
     io_bind (crypto_res (crypto_decrypt E (vs_crypto S) (hr_encrypted_password entry) (hr_nonce entry)
                (record_aad E (hr_record_id entry)) (word_of_int (hr_dek_version entry)))) (\<lambda>plaintext.
     io_bind (crypto_res (map_err (\<lambda>e. ''invalid utf8: '' @ e) (from_utf8 plaintext))) (\<lambda>json_str.
     io_bind (crypto_res (map_err (\<lambda>e. ''failed to parse payload JSON: '' @ e) (json_parse E json_str))) (\<lambda>value.
     io_bind (crypto_res (unwrap_enum_variant value)) (\<lambda>inner.
     crypto_res (ok_or ''password field missing in decrypted payload'' (as_str (json_index inner ''password''))))))))))"

definition save_conflict_history :: "('w, 'y) vault_ops_scheme \<Rightarrow> vault_service \<Rightarrow> uuid \<Rightarrow> ('w, unit) vault_io" where
  "save_conflict_history C S rid =
     (if \<not> is_unlocked (vs_crypto S) then io_return ()
      else io_bind (io_ok (get_stored_record C rid)) (\<lambda>stored. case stored of
          None \<Rightarrow> io_return ()
        | Some r \<Rightarrow>
            if sr_credential_type r \<noteq> Login then io_return ()
            else io_bind (io_ok (save_password_history C rid (sr_encrypted_data r) (sr_nonce r) (sr_dek_version r)))
                   (\<lambda>_. io_return ())))"

end
