(* ===== verification/Vault_Download.thy ===== *)
theory Vault_Download
  imports Vault_Trash
begin

text \<open>
  The bridge between the vault and the sync engine (\<open>services/vault/record/crud.rs\<close>): the cloud
  record built for upload, with the private metadata encrypted, and the application of a
  downloaded record to the database.
\<close>

definition decrypt_record_name_for_sync :: "('x) crypto_env_scheme \<Rightarrow> vault_service \<Rightarrow> stored_record \<Rightarrow> ('w, string) vault_io" where
  "decrypt_record_name_for_sync E S r = crypto_res (stored_name E S r)"

definition metadata_aad :: "string \<Rightarrow> bytes" where
  "metadata_aad rid = ''cloud-metadata:'' @ rid"

definition private_metadata_of ::
  "('x) crypto_env_scheme \<Rightarrow> stored_record \<Rightarrow> string \<Rightarrow> record_health_state option \<Rightarrow> cloud_private_metadata" where
  "private_metadata_of E r name health =
     \<lparr> pm_name = name, pm_tags = sr_tags r, pm_credential_type = Some (sr_credential_type r),
       pm_is_favorite = Some (sr_is_favorite r), pm_expires_at = map_option (rfc3339_show E) (sr_expires_at r),
       pm_updated_by = Some (sr_updated_by r), pm_health = map_option (health_from_state E) health \<rparr>"

definition build_cloud_record_for_sync ::
  "('x) crypto_env_scheme \<Rightarrow> ('w, 'y) vault_ops_scheme \<Rightarrow> vault_service \<Rightarrow> stored_record \<Rightarrow> record_health_state option
   \<Rightarrow> ('w, cloud_record) vault_io" where
  "build_cloud_record_for_sync E C S r health =
     io_bind (decrypt_record_name_for_sync E S r) (\<lambda>name.
     io_bind (crypto_res (ser_private E (private_metadata_of E r name health))) (\<lambda>private_json.
     io_bind (io_map_err CryptoError (crypto_encrypt E C (vs_crypto S) private_json (metadata_aad (uuid_show E (sr_id r)))))
       (\<lambda>(private_encrypted, private_nonce).
     io_return
       \<lparr> cr_id = uuid_show E (sr_id r), cr_version = sr_version r, cr_encrypted_data = b64_encode E (sr_encrypted_data r),
         cr_nonce = b64_encode E (sr_nonce r), cr_dek_version = sr_dek_version r,
         cr_aad = \<lparr> aad_record_id = uuid_show E (sr_id r), aad_dek_version = sr_dek_version r \<rparr>,
         cr_metadata =
           \<lparr> rm_name = ''encrypted'', rm_tags = [], rm_updated_at = rfc3339_show E (sr_updated_at r),
             rm_credential_type = None, rm_is_favorite = None, rm_expires_at = None, rm_updated_by = None, rm_health = None,
             rm_encrypted_metadata = Some \<lparr> em_encrypted_data = b64_encode E private_encrypted,
               em_nonce = b64_encode E private_nonce, em_dek_version = cg_current_dek_version (vs_crypto S) \<rparr> \<rparr>,
         cr_deleted = (if sr_deleted r then Some True else None),
         cr_deleted_at = map_option (rfc3339_show E) (sr_deleted_at r) \<rparr>)))"

definition decode_nonce :: "string \<Rightarrow> bytes \<Rightarrow> string + bytes" where
  "decode_nonce msg b = (if length b = 24 then Inr b else Inl msg)"

definition decrypt_cloud_private_metadata ::
  "('x) crypto_env_scheme \<Rightarrow> vault_service \<Rightarrow> cloud_record \<Rightarrow> string + cloud_private_metadata option" where
  "decrypt_cloud_private_metadata E S cr = (case rm_encrypted_metadata (cr_metadata cr) of
     None \<Rightarrow> Inr None
   | Some em \<Rightarrow>
       try_res (map_err (\<lambda>e. ''invalid encrypted_metadata base64: '' @ e) (b64_decode E (em_encrypted_data em))) (\<lambda>encrypted_data.
       try_res (map_err (\<lambda>e. ''invalid encrypted_metadata nonce base64: '' @ e) (b64_decode E (em_nonce em))) (\<lambda>nonce_bytes.
       try_res (decode_nonce ''encrypted_metadata nonce must be 24 bytes'' nonce_bytes) (\<lambda>nonce.
       try_res (crypto_decrypt E (vs_crypto S) encrypted_data nonce (metadata_aad (cr_id cr)) (em_dek_version em)) (\<lambda>plaintext.
       map_err (\<lambda>e. ''invalid encrypted_metadata json: '' @ e) (try_res (de_private E plaintext) (\<lambda>m. Inr (Some m))))))))"

text \<open>\<open>a.or(b)\<close> on options.\<close>

definition opt_or :: "'a option \<Rightarrow> 'a option \<Rightarrow> 'a option" where
  "opt_or a b = (case a of Some x \<Rightarrow> Some x | None \<Rightarrow> b)"

definition opt_default :: "'a \<Rightarrow> 'a option \<Rightarrow> 'a" where
  "opt_default d x = (case x of Some a \<Rightarrow> a | None \<Rightarrow> d)"

text \<open>The row a downloaded record becomes; \<open>existing\<close> is the local row under the same id.\<close>

definition downloaded_stored_record ::
  "('x) crypto_env_scheme \<Rightarrow> timestamp \<Rightarrow> uuid \<Rightarrow> bytes \<Rightarrow> bytes \<Rightarrow> cloud_private_metadata option \<Rightarrow> stored_record option
   \<Rightarrow> cloud_record \<Rightarrow> stored_record" where
  "downloaded_stored_record E now rid encrypted_data nonce priv existing cr =
     (let deleted = opt_default False (cr_deleted cr) in
      \<lparr> sr_id = rid,
        sr_credential_type = opt_default Login (opt_or (Option.bind priv pm_credential_type) (rm_credential_type (cr_metadata cr))),
        sr_encrypted_data = encrypted_data, sr_nonce = nonce, sr_dek_version = cr_dek_version cr, sr_aad = record_aad E rid,
        sr_is_favorite = opt_default False (opt_or (Option.bind priv pm_is_favorite) (rm_is_favorite (cr_metadata cr))),
        sr_expires_at = Option.bind (opt_or (Option.bind priv pm_expires_at) (rm_expires_at (cr_metadata cr))) (rfc3339_parse E),
        sr_created_at = (case existing of None \<Rightarrow> now | Some r \<Rightarrow> sr_created_at r),
        sr_updated_at = opt_default now (rfc3339_parse E (rm_updated_at (cr_metadata cr))),
        sr_updated_by = opt_default ''sync'' (opt_or (Option.bind priv pm_updated_by) (rm_updated_by (cr_metadata cr))),
        sr_version = cr_version cr, sr_deleted = deleted,
        sr_deleted_at = (if deleted then Option.bind (cr_deleted_at cr) (rfc3339_parse E) else None),
        sr_tags = (case priv of Some m \<Rightarrow> pm_tags m | None \<Rightarrow> rm_tags (cr_metadata cr)) \<rparr>)"

text \<open>The fallback when the list index cannot be built from the payload.\<close>

definition index_or_fallback ::
  "('x) crypto_env_scheme \<Rightarrow> ('w, 'y) vault_ops_scheme \<Rightarrow> vault_service \<Rightarrow> stored_record \<Rightarrow> cloud_private_metadata option
   \<Rightarrow> cloud_record \<Rightarrow> ('w, unit) vault_io" where
  "index_or_fallback E C S stored priv cr v =
     (case upsert_record_list_index_for_stored E C S stored v of
        (Inl (CryptoError _), v') \<Rightarrow>
          (let fallback_name = (case priv of
                 Some m \<Rightarrow> if pm_name m \<noteq> [] then pm_name m else rm_name (cr_metadata cr)
               | None \<Rightarrow> rm_name (cr_metadata cr))
           in dbq (upsert_record_list_index C (sr_id stored) fallback_name []) v')
      | r \<Rightarrow> r)"

definition apply_downloaded_cloud_record ::
  "('x) crypto_env_scheme \<Rightarrow> ('w, 'y) vault_ops_scheme \<Rightarrow> vault_service \<Rightarrow> cloud_record \<Rightarrow> ('w, bool) vault_io" where
  "apply_downloaded_cloud_record E C S cr =
     io_bind (crypto_res (ok_or (''invalid record id: '' @ uuid_error E (cr_id cr)) (uuid_parse E (cr_id cr)))) (\<lambda>rid.
     io_bind (crypto_res (map_err (\<lambda>e. ''invalid encrypted_data base64: '' @ e) (b64_decode E (cr_encrypted_data cr)))) (\<lambda>encrypted_data.
     io_bind (crypto_res (map_err (\<lambda>e. ''invalid nonce base64: '' @ e) (b64_decode E (cr_nonce cr)))) (\<lambda>nonce_bytes.
     io_bind (crypto_res (decode_nonce ''nonce must be 24 bytes'' nonce_bytes)) (\<lambda>nonce.
     io_bind (dbq (get_record C rid)) (\<lambda>existing.
     io_bind (utc_now C) (\<lambda>now.
     io_bind (crypto_res (decrypt_cloud_private_metadata E S cr)) (\<lambda>priv.
     let stored = downloaded_stored_record E now rid encrypted_data nonce priv existing cr in
     io_bind (data_res (validate_tags (sr_tags stored))) (\<lambda>_.
     io_bind (if \<not> sr_deleted stored then
                io_bind (crypto_res (decrypt_stored E S stored)) (\<lambda>payload. data_res (validate_payload payload))
              else io_return ()) (\<lambda>_.
     io_bind mark_record_list_index_dirty (\<lambda>_.
     io_bind (case existing of
                None \<Rightarrow> dbq (insert_record stored)
              | Some local \<Rightarrow>
                  io_bind (dbq (update_record stored (sr_version local))) (\<lambda>_.
                  io_bind (dbq (update_record_deleted_state rid (sr_deleted stored) (sr_deleted_at stored))) (\<lambda>_.
                  io_bind (dbq (detach_all_tags_for_record rid)) (\<lambda>_.
                  attach_tags rid (sr_tags stored))))) (\<lambda>_.
     io_bind (case priv of
                None \<Rightarrow> io_return ()
              | Some m \<Rightarrow> (case pm_health m of
                    Some h \<Rightarrow> dbq (upsert_record_health_state (health_to_state E rid (cr_version cr) h))
                  | None \<Rightarrow> dbq (delete_record_health_state rid))) (\<lambda>_.
     io_bind (index_or_fallback E C S stored priv cr) (\<lambda>_.
     io_bind mark_record_list_index_clean (\<lambda>_.
     io_return (existing = None)))))))))))))))"

definition mark_record_synced :: "('w, 'y) vault_ops_scheme \<Rightarrow> uuid \<Rightarrow> ('w, unit) vault_io" where
  "mark_record_synced C rid = dbq (mark_sync_state_synced C rid)"

definition mark_record_conflict :: "('w, 'y) vault_ops_scheme \<Rightarrow> uuid \<Rightarrow> bytes \<Rightarrow> ('w, unit) vault_io" where
  "mark_record_conflict C rid conflict_data = dbq (mark_sync_state_conflict C rid conflict_data)"

definition update_record_version_for_sync :: "uuid \<Rightarrow> u64 \<Rightarrow> ('w, unit) vault_io" where
  "update_record_version_for_sync rid version = dbq (update_record_version rid version)"

end
