(* ===== verification/Vault_Inv.thy ===== *)
theory Vault_Inv
  imports Vault_Download
begin

text \<open>
  Invariants of the vault database over every sequence of service calls. The locale \<open>table_property\<close>
  is the contract between the queries and the methods: a property of the tables that every query
  keeps. Its lemmas lift the property to every method; it is interpreted on the integrity of the
  schema and on the bound of the password history.
\<close>

section \<open>From queries to methods\<close>

lemma keeps_draw [inv_intros]: "keeps P (draw f)"
  by (auto simp: keeps_def draw_def split: prod.splits)

lemma keeps_prod [inv_intros]: "(\<And>a b. keeps P (f a b)) \<Longrightarrow> keeps P (case x of (a, b) \<Rightarrow> f a b)"
  by (cases x) simp

lemma keeps_io_ok [inv_intros]: "keeps P m \<Longrightarrow> keeps P (io_ok m)"
  by (auto simp: keeps_def io_ok_def split: prod.splits sum.splits)

lemma keeps_in_tx_service [inv_intros]: "keeps P m \<Longrightarrow> keeps P (in_tx_service m)"
  by (auto simp: keeps_def in_tx_service_def split: prod.splits sum.splits)

lemma keeps_results [inv_intros]: "keeps P (crypto_res r)" "keeps P (data_res r')" "keeps P (require_unlocked S)"
  by (simp_all add: crypto_res_def data_res_def require_unlocked_def inv_intros)

lemma keeps_encrypt [inv_intros]:
  "keeps P (crypto_encrypt E C cm b aad)" "keeps P (encrypt_payload E C cm p aad)"
  unfolding crypto_encrypt_def encrypt_payload_def encrypt_with_aad_def by (intro inv_intros)+

lemma keeps_reads [inv_intros]:
  "keeps P (get_stored_record C rid)" "keeps P (decrypt_record_name E S r)" "keeps P (record_ids_for_tag n)"
  "keeps P (count_record_tags rid)" "keeps P (decrypt_record_name_for_sync E S r)"
  unfolding get_stored_record_def decrypt_record_name_def record_ids_for_tag_def count_record_tags_def
    decrypt_record_name_for_sync_def
  by (intro inv_intros)+

lemma keeps_deleted_with_names [inv_intros]: "keeps P (deleted_with_names E C S ids)"
  by (induction E C S ids rule: deleted_with_names.induct) (simp_all only: deleted_with_names.simps; intro inv_intros; assumption?)+

lemma keeps_count_changes [inv_intros]:
  "(\<And>rid. keeps P (step rid)) \<Longrightarrow> keeps P (count_changes step changed ids n)"
proof (induction step changed ids n rule: count_changes.induct)
  case (2 step changed rid ids n)
  show ?case
    unfolding count_changes.simps by (intro inv_intros 2)
qed (simp only: count_changes.simps; rule keeps_return)

locale table_property =
  fixes P :: "vault_db \<Rightarrow> bool" and C :: "('w, 'y) vault_ops_scheme"
  assumes insert_record_law: "keeps P (insert_record r :: ('w, unit) query)"
    and update_rows_law: "stmt_keeps P (update_rows cond f)"
    and delete_rows_law: "stmt_keeps P (delete_rows cond)"
    and get_or_create_tag_law: "keeps P (get_or_create_tag name :: ('w, int) query)"
    and attach_tag_law: "keeps P (attach_tag rid tag_id :: ('w, unit) query)"
    and detach_tag_law: "keeps P (detach_tag rid tag_id :: ('w, unit) query)"
    and detach_all_law: "keeps P (detach_all_tags_for_record rid :: ('w, unit) query)"
    and rename_tag_row_law: "keeps P (rename_tag_row old new :: ('w, bool) query)"
    and delete_tags_law: "P d \<Longrightarrow> P (delete_tags ids d)"
    and index_law: "keeps P (upsert_record_list_index C rid name subtitle)"
    and history_law: "keeps P (save_password_history C rid b nonce dek)"
    and audit_law: "keeps P (insert_audit_entry C op rid' name' detail)"
    and sync_law: "stmt_keeps P (upsert_sync rid sf)"
    and metadata_law: "keeps P (set_metadata k x :: ('w, unit) query)"
    and health_law: "keeps P (upsert_record_health_state h :: ('w, unit) query)"
    and health_delete_law: "keeps P (delete_record_health_state rid :: ('w, unit) query)"
    and health_copy_law: "keeps P (copy_record_health_state_version rid ver :: ('w, unit) query)"
begin

lemmas laws = insert_record_law update_rows_law delete_rows_law get_or_create_tag_law attach_tag_law detach_tag_law
  detach_all_law rename_tag_row_law index_law history_law audit_law sync_law metadata_law health_law health_delete_law
  health_copy_law

lemma row_queries:
  "keeps P (update_record r ver :: ('w, bool) query)" "keeps P (soft_delete_row C rid)" "keeps P (restore_row rid :: ('w, unit) query)"
  "keeps P (hard_delete_row rid :: ('w, unit) query)" "keeps P (update_record_version rid ver :: ('w, unit) query)"
  "keeps P (update_record_deleted_state rid b at :: ('w, unit) query)" "keeps P (batch_soft_delete_records C ids dev)"
  "keeps P (batch_restore_records ids :: ('w, nat) query)" "keeps P (batch_hard_delete_records ids :: ('w, nat) query)"
  unfolding row_query_defs by (intro inv_intros laws)+

lemma delete_tag_by_name_keeps: "keeps P (delete_tag_by_name name :: ('w, bool) query)"
  unfolding delete_tag_by_name_def
  by (rule keeps_exec) (auto simp: stmt_keeps_def delete_tags_law split: option.splits)

lemma sync_queries:
  "keeps P (mark_records_pending_sync C ids)" "keeps P (mark_record_synced C rid)" "keeps P (mark_record_conflict C rid b)"
  unfolding mark_records_pending_sync_def upsert_sync_state_pending_def mark_record_synced_def mark_record_conflict_def
    mark_sync_state_synced_def mark_sync_state_conflict_def
  by (intro inv_intros laws)+

lemma index_methods:
  "keeps P (mark_record_list_index_dirty :: ('w, unit) vault_io)" "keeps P (mark_record_list_index_clean :: ('w, unit) vault_io)"
  "keeps P (upsert_record_list_index_for_payload C rid p)" "keeps P (upsert_record_list_index_for_stored E C S r)"
  unfolding mark_record_list_index_dirty_def mark_record_list_index_clean_def upsert_record_list_index_for_payload_def
    upsert_record_list_index_for_stored_def
  by (intro inv_intros laws)+

lemma attach_tags_keeps: "keeps P (attach_tags rid tags :: ('w, unit) vault_io)"
  unfolding attach_tags_def by (intro inv_intros laws)

lemma index_or_fallback_keeps: "keeps P (index_or_fallback E C S r priv cr)"
  using index_methods(4)[of E S r] index_law[THEN keeps_map_err]
  by (fastforce simp: keeps_def index_or_fallback_def Let_def split: prod.splits sum.splits vault_error.splits)

lemmas helpers = row_queries delete_tag_by_name_keeps sync_queries index_methods attach_tags_keeps index_or_fallback_keeps

lemma record_methods:
  "keeps P (create_record E C S cp)" "keeps P (get_decrypted_record E C S rid)" "keeps P (update_record_service E C S up)"
  "keeps P (soft_delete_record E C S rid)" "keeps P (restore_record E C S rid)" "keeps P (hard_delete_record E C S rid)"
  "keeps P (toggle_favorite C S rid b)" "keeps P (re_encrypt_record E C S rid u)"
  unfolding create_record_def get_decrypted_record_def update_record_service_def soft_delete_record_def restore_record_def
    hard_delete_record_def toggle_favorite_def re_encrypt_record_def
  by (intro inv_intros laws helpers)+

lemma field_methods: "keeps P (decrypt_field_with_audit E C S rid fld op)"
  unfolding decrypt_field_with_audit_def by (intro inv_intros laws)

lemma trash_methods:
  "keeps P (empty_trash C S)" "keeps P (cleanup_expired_trash C S days)" "keeps P (batch_soft_delete E C S ids)"
  "keeps P (batch_restore E C S ids)" "keeps P (batch_hard_delete E C S ids)"
  unfolding empty_trash_def cleanup_expired_trash_def batch_soft_delete_def batch_restore_def batch_hard_delete_def
    hard_delete_all_def audit_each_def
  by (intro inv_intros laws helpers)+

lemma delete_tags_stmt: "stmt_keeps P (change (delete_tags ids))"
  by (simp add: stmt_keeps_def change_def delete_tags_law)

lemma tag_methods:
  "keeps P (rename_tag C old new)" "keeps P (delete_tag C name)" "keeps P (batch_add_tag C ids name)"
  "keeps P (batch_remove_tag C ids name)" "keeps P (save_conflict_history C S rid)"
  unfolding rename_tag_def delete_tag_def batch_add_tag_def batch_remove_tag_def save_conflict_history_def
  by (intro inv_intros laws helpers delete_tags_stmt)+

lemma download_methods:
  "keeps P (apply_downloaded_cloud_record E C S cr)" "keeps P (update_record_version_for_sync rid ver :: ('w, unit) vault_io)"
  "keeps P (build_cloud_record_for_sync E C S r h)"
  unfolding apply_downloaded_cloud_record_def update_record_version_for_sync_def build_cloud_record_for_sync_def
  by (intro inv_intros laws helpers)+

end

interpretation wf: table_property db_wf C for C :: "('w, 'y) vault_ops_scheme"
proof unfold_locales
  show "keeps db_wf (save_password_history C rid b nonce dek)" for rid b nonce dek
    unfolding save_password_history_def by (intro inv_intros)
qed (intro inv_intros wf_delete_tags; assumption)+

section \<open>The password history is bounded\<close>

definition history_of :: "vault_db \<Rightarrow> uuid \<Rightarrow> history_row list" where
  "history_of d rid = filter (\<lambda>h. hr_record_id h = rid) (tb_history d)"

definition history_bounded :: "vault_db \<Rightarrow> bool" where
  "history_bounded d \<longleftrightarrow> (\<forall>rid. length (history_of d rid) \<le> 10)"

text \<open>Only three statements touch the history; the others frame it.\<close>

definition history_frame :: "'a stmt \<Rightarrow> bool" where
  "history_frame st \<longleftrightarrow> (\<forall>d. tb_history (snd (st d)) = tb_history d)"

lemma frame_bounded [inv_intros]: "history_frame st \<Longrightarrow> stmt_keeps history_bounded st"
  by (simp add: history_frame_def stmt_keeps_def history_bounded_def history_of_def)

lemma frame_change [inv_intros]: "(\<And>d. tb_history (f d) = tb_history d) \<Longrightarrow> history_frame (change f)"
  by (simp add: history_frame_def change_def)

lemma frames [inv_intros]:
  "history_frame (insert_or_ignore_tag name)" "history_frame (update_rows cond f)" "history_frame (upsert_sync rid sf)"
  "history_frame (select g)"
  by (auto simp: history_frame_def insert_or_ignore_tag_def change_def add_tag_def update_rows_def upsert_sync_def select_def)

lemma history_filter_le: "length (filter Q (filter R xs)) \<le> length (filter Q xs)"
  by (induction xs) auto

lemma filtered_bounded:
  assumes "history_bounded d" "tb_history d' = filter R (tb_history d)"
  shows "history_bounded d'"
  unfolding history_bounded_def history_of_def assms(2)
proof
  fix rid
  have "length (filter (\<lambda>h. hr_record_id h = rid) (tb_history d)) \<le> 10"
    using assms(1) unfolding history_bounded_def history_of_def by blast
  then show "length (filter (\<lambda>h. hr_record_id h = rid) (filter R (tb_history d))) \<le> 10"
    by (rule le_trans[OF history_filter_le])
qed

lemma cascade_delete_history:
  "tb_history (cascade_delete gone d) = filter (\<lambda>h. \<not> gone (hr_record_id h)) (tb_history d)"
  by (simp add: cascade_delete_def)

lemma delete_rows_bounded [inv_intros]: "stmt_keeps history_bounded (delete_rows cond)"
  unfolding stmt_keeps_def
proof (intro allI impI)
  fix d assume bd: "history_bounded d"
  show "history_bounded (snd (delete_rows cond d))"
    unfolding delete_rows_def Let_def snd_conv
    by (rule filtered_bounded[OF bd], rule cascade_delete_history)
qed

text \<open>Deleting the oldest entry of a record frees a slot.\<close>

lemma delete_oldest_spec:
  assumes "delete_oldest_password_history rid v = (r, v')" "history_bounded (v_db v)"
  shows "r = Inr () \<and> history_bounded (v_db v')
    \<and> (history_of (v_db v) rid \<noteq> [] \<longrightarrow> length (history_of (v_db v') rid) < length (history_of (v_db v) rid))"
proof (cases "sort_key hr_changed_at (history_of (v_db v) rid)")
  case Nil
  then have "history_of (v_db v) rid = []"
    by (metis length_0_conv length_sort)
  then show ?thesis
    using assms Nil by (auto simp: delete_oldest_password_history_def exec_def change_def history_of_def)
next
  case (Cons h hs)
  then have "h \<in> set (history_of (v_db v) rid)"
    by (metis list.set_intros(1) set_sort)
  then have "length (filter (\<lambda>x. hr_id x \<noteq> hr_id h) (history_of (v_db v) rid)) < length (history_of (v_db v) rid)"
    by (auto intro: length_filter_less)
  moreover have v': "r = Inr ()" "tb_history (v_db v') = filter (\<lambda>x. hr_id x \<noteq> hr_id h) (tb_history (v_db v))"
    using assms(1) Cons by (auto simp: delete_oldest_password_history_def exec_def change_def history_of_def)
  moreover have "history_of (v_db v') rid = filter (\<lambda>x. hr_id x \<noteq> hr_id h) (history_of (v_db v) rid)"
    by (simp add: v'(2) history_of_def conj_commute)
  ultimately show ?thesis
    using filtered_bounded[OF assms(2) v'(2)] by simp
qed

lemma insert_history_bounded:
  assumes "insert_password_history rid b n u t v = (r, v')" "history_bounded (v_db v)" "length (history_of (v_db v) rid) < 10"
  shows "history_bounded (v_db v')"
  using assms by (auto simp: insert_password_history_def exec_def history_bounded_def history_of_def split: if_splits)

lemma save_history_bounded [inv_intros]:
  fixes C :: "('w, 'y) vault_ops_scheme"
  shows "keeps history_bounded (save_password_history C rid b n u)"
  unfolding keeps_def
proof (intro allI impI)
  fix v :: "'w vault"
  assume bd: "history_bounded (v_db v)"
  let ?k = "length (history_of (v_db v) rid)"
  obtain r1 v1 where m1: "(if 10 \<le> ?k then dbq (delete_oldest_password_history rid) else io_return ()) v = (r1, v1)"
    by fastforce
  have 1: "r1 = Inr () \<and> history_bounded (v_db v1) \<and> length (history_of (v_db v1) rid) < 10"
  proof (cases "10 \<le> ?k")
    case True
    then obtain r where "delete_oldest_password_history rid v = (r, v1)" "r1 = map_err db_error_to_vault r"
      using m1 by (auto simp: io_map_err_def split: prod.splits)
    moreover have "?k \<le> 10" "history_of (v_db v) rid \<noteq> []" using bd True by (auto simp: history_bounded_def)
    ultimately show ?thesis using delete_oldest_spec[of rid v r v1] bd by auto
  next
    case False
    then show ?thesis using m1 bd by auto
  qed
  obtain now w where "dbo_now C (v_ext v1) = (now, w)"
    by fastforce
  then obtain v2 where m2: "(utc_now C :: ('w, timestamp) vault_io) v1 = (Inr now, v2)" "v_db v2 = v_db v1"
    by (simp add: utc_now_def)
  obtain r3 v3 where m3: "insert_password_history rid b n u (datetime_to_timestamp now) v2 = (r3, v3)"
    by fastforce
  have c: "dbq (count_password_history rid) v = (Inr ?k, v)"
    by (simp add: io_map_err_def count_password_history_def exec_def select_def history_of_def)
  have "snd (save_password_history C rid b n u v) = v3"
    using m1 m2 m3 1 c by (simp add: save_password_history_def) (simp add: io_map_err_def)
  then show "history_bounded (v_db (snd (save_password_history C rid b n u v)))"
    using insert_history_bounded[OF m3] 1 m2(2) by simp
qed

lemma history_statements [inv_intros]:
  "keeps history_bounded (insert_record r)" "keeps history_bounded (get_or_create_tag name)"
  "keeps history_bounded (attach_tag rid tag_id)" "keeps history_bounded (detach_tag rid tag_id)"
  "keeps history_bounded (detach_all_tags_for_record rid)" "keeps history_bounded (rename_tag_row old new)"
  "keeps history_bounded (upsert_record_list_index C rid n x)" "keeps history_bounded (insert_audit_entry C op rid' n' dt)"
  "keeps history_bounded (set_metadata k y)" "keeps history_bounded (upsert_record_health_state h)"
  "keeps history_bounded (delete_record_health_state rid)" "keeps history_bounded (copy_record_health_state_version rid ver)"
  unfolding insert_record_def get_or_create_tag_def insert_tag_def attach_tag_def detach_tag_def detach_all_tags_for_record_def
    rename_tag_row_def upsert_record_list_index_def insert_audit_entry_def set_metadata_def upsert_record_health_state_def
    delete_record_health_state_def copy_record_health_state_version_def
  by (intro inv_intros; auto simp: history_frame_def add_tag_def select_tag_id_def)+

interpretation hist: table_property history_bounded C for C :: "('w, 'y) vault_ops_scheme"
proof unfold_locales
  show "history_bounded (delete_tags ids d)" if "history_bounded d" for d ids
    using that by (simp add: delete_tags_def history_bounded_def history_of_def)
qed (intro inv_intros)+

end
