(* ===== verification/Vault_Laws.thy ===== *)
theory Vault_Laws
  imports Vault_Service Demo_Env
begin

text \<open>
  Laws of the payload encryption: the serialised payload parses back, what was encrypted under a key
  version decrypts to the same payload, and the shortcuts that decrypt only the name or the subtitle
  agree with the full decryption. A concrete environment with a toy cipher shows that the assumed
  laws can hold.
\<close>

section \<open>Serialisation\<close>

lemma payload_json_roundtrip: "payload_of_json (payload_to_json p) = Inr p"
  by (cases p) (simp_all add: payload_of_json_def payload_to_json_def fields_of_def req_field_def opt_field_def
    opt_json_def split: option.splits)

text \<open>The strings of a payload are Rust strings.\<close>

definition payload_utf8 :: "encrypted_payload \<Rightarrow> bool" where
  "payload_utf8 p \<longleftrightarrow> json_utf8 (payload_to_json p)"

section \<open>Keys\<close>

text \<open>A manager that holds an unlocked key store.\<close>

definition has_kek :: "crypto_manager \<Rightarrow> bool" where
  "has_kek cm \<longleftrightarrow> (case cg_keystore cm of None \<Rightarrow> False | Some ks \<Rightarrow> ks_kek ks \<noteq> None)"

lemma has_kek_unlocked: "has_kek cm \<Longrightarrow> is_unlocked cm"
  by (auto simp: has_kek_def is_unlocked_def split: option.splits)

lemma get_dek_ok:
  assumes "crypto_laws E" "has_kek cm"
  obtains k where "get_dek E cm u = Inr k" "length k = 32"
proof -
  obtain ks kek where k: "cg_keystore cm = Some ks" "ks_kek ks = Some kek"
    using assms(2) by (auto simp: has_kek_def split: option.splits)
  obtain d where d: "hkdf_sha256 E ''open-keyring-dek'' kek (''dek-v'' @ show_word u) = Some d" "length d = 32"
    using assms(1) unfolding crypto_laws_def by blast
  have "lock_memory E d = Inr ()"
    using assms(1) unfolding crypto_laws_def by blast
  then have "get_dek E cm u = Inr d"
    using d(1) by (simp add: get_dek_def keystore_get_dek_def derive_dek_def k)
  with d(2) show thesis
    using that by blast
qed

lemma get_dek_locked: "\<not> is_unlocked cm \<Longrightarrow> get_dek E cm u = Inl ''CryptoManager not unlocked''"
  by (simp add: is_unlocked_def get_dek_def)

section \<open>Encryption and decryption\<close>

lemma encrypt_ok:
  assumes "crypto_laws E" "vault_ops_laws C" "has_kek cm"
  obtains c n w where
    "\<And>v. v_ext v = x \<Longrightarrow> crypto_encrypt E C cm b aad v = (Inr (c, n), v\<lparr>v_ext := w\<rparr>)"
    "length n = 24" "c \<noteq> []" "crypto_decrypt E cm c n aad (cg_current_dek_version cm) = Inr b"
    "vo_nonce C x = (n, w)"
proof -
  obtain k where k: "get_dek E cm (cg_current_dek_version cm) = Inr k" "length k = 32"
    using get_dek_ok[OF assms(1,3)] by blast
  obtain n w where n: "vo_nonce C x = (n, w)" by fastforce
  then have len: "length n = 24"
    using assms(2) unfolding vault_ops_laws_def by (metis fst_conv)
  obtain c where c: "aead_seal E k n aad b = Some c" "c \<noteq> []" "aead_open E k n aad c = Some b"
    using assms(1) k(2) len unfolding crypto_laws_def by blast
  show thesis
  proof (rule that[OF _ len c(2) _ n])
    show "crypto_encrypt E C cm b aad v = (Inr (c, n), v\<lparr>v_ext := w\<rparr>)" if "v_ext v = x" for v
      using k n c that by (simp add: crypto_encrypt_def encrypt_with_aad_def io_bind_def draw_def)
    show "crypto_decrypt E cm c n aad (cg_current_dek_version cm) = Inr b"
      using k c by (simp add: crypto_decrypt_def decrypt_with_aad_def)
  qed
qed

lemma encrypt_payload_ok:
  assumes "crypto_laws E" "vault_ops_laws C" "has_kek cm" "payload_utf8 p"
  obtains c n w where
    "\<And>v. v_ext v = x \<Longrightarrow> encrypt_payload E C cm p aad v = (Inr (c, n), v\<lparr>v_ext := w\<rparr>)"
    "length n = 24" "c \<noteq> []" "decrypt_payload E cm c n aad (cg_current_dek_version cm) = Inr p"
    "vo_nonce C x = (n, w)"
proof -
  obtain s where s: "json_print E (payload_to_json p) = Inr s" "from_utf8 s = Inr s" "json_parse E s = Inr (payload_to_json p)"
    using assms(1,4) unfolding crypto_laws_def payload_utf8_def by blast
  obtain c n w where e: "\<And>v. v_ext v = x \<Longrightarrow> crypto_encrypt E C cm s aad v = (Inr (c, n), v\<lparr>v_ext := w\<rparr>)"
    "length n = 24" "c \<noteq> []" "crypto_decrypt E cm c n aad (cg_current_dek_version cm) = Inr s" "vo_nonce C x = (n, w)"
    using encrypt_ok[OF assms(1-3), where x = x and b = s and aad = aad] by metis
  show thesis
  proof (rule that[OF _ e(2,3) _ e(5)])
    show "encrypt_payload E C cm p aad v = (Inr (c, n), v\<lparr>v_ext := w\<rparr>)" if "v_ext v = x" for v
      using e(1)[OF that] s by (simp add: encrypt_payload_def io_bind_def)
    show "decrypt_payload E cm c n aad (cg_current_dek_version cm) = Inr p"
      using e(4) s by (simp add: decrypt_payload_def decrypt_json_def payload_json_roundtrip)
  qed
qed

section \<open>Name and subtitle without the payload\<close>

lemma map_of_rev_once:
  assumes "f \<in> N" "distinct (filter (\<lambda>k. k \<in> N) (map fst kvs))"
  shows "map_of (rev kvs) f = map_of kvs f"
  using assms(2)
proof (induction kvs)
  case (Cons kv kvs)
  then have "fst kv = f \<Longrightarrow> f \<notin> fst ` set kvs"
    using assms(1) by (auto simp: image_iff filter_map)
  moreover have "map_of (rev kvs) f = map_of kvs f"
    using Cons by (simp split: if_splits)
  ultimately show ?case
    by (cases kv; cases "fst kv = f") (simp_all add: map_add_def map_of_eq_None_iff[THEN iffD2] split: option.splits)
qed simp

lemma field_index:
  assumes "fields_of names j = Inr kvs" "f \<in> set names"
  shows "req_field kvs f = Inr s \<Longrightarrow> as_str (json_index j f) = Some s"
proof -
  assume r: "req_field kvs f = Inr s"
  have j: "j = JObj kvs" "distinct (filter (\<lambda>k. k \<in> set names) (map fst kvs))"
    using assms(1) by (auto simp: fields_of_def split: json.splits if_splits)
  have "map_of kvs f = Some (JStr s)"
    using r by (auto simp: req_field_def split: option.splits json.splits)
  then show ?thesis
    using map_of_rev_once[OF assms(2) j(2)] by (simp add: j(1) json_index_def as_str_def)
qed

text \<open>What a parsed payload says of the JSON it was parsed from.\<close>

lemma payload_of_json_shape:
  assumes "payload_of_json j = Inr p"
  obtains inner where "unwrap_enum_variant j = Inr inner" "as_str (json_index inner ''name'') = Some (pl_name p)"
    "\<And>n u w x y. p = LoginPayload n u w x y \<Longrightarrow> as_str (json_index inner ''username'') = Some u"
    "\<And>n u w x y. p = ApiPayload n u w x y \<Longrightarrow> as_str (json_index inner ''app_id'') = Some u"
    "\<And>n u w x y. p = SshPayload n u w x y \<Longrightarrow> as_str (json_index inner ''public_key'') = Some u"
proof -
  obtain tag inner where j: "j = JObj [(tag, inner)]"
    using assms by (auto simp: payload_of_json_def split: json.splits list.splits prod.splits)
  have u: "unwrap_enum_variant j = Inr inner"
    by (simp add: j unwrap_enum_variant_def)
  show thesis
    using assms unfolding j payload_of_json_def
    by (intro that[OF u]) (auto simp: monad_simps dest: field_index split: if_splits)
qed

lemma name_and_subtitle:
  assumes "decrypt_payload E cm c n aad u = Inr p"
  shows "decrypt_name_only E cm c n aad u = Inr (fst (record_index_fields_from_payload p))
    \<and> decrypt_subtitle E cm c n aad (payload_credential_type p) u = Inr (snd (record_index_fields_from_payload p))"
proof -
  obtain j where j: "decrypt_json E cm c n aad u = Inr j" "payload_of_json j = Inr p"
    using assms by (auto simp: decrypt_payload_def monad_simps)
  obtain inner where i: "unwrap_enum_variant j = Inr inner" "as_str (json_index inner ''name'') = Some (pl_name p)"
    "\<And>n u w x y. p = LoginPayload n u w x y \<Longrightarrow> as_str (json_index inner ''username'') = Some u"
    "\<And>n u w x y. p = ApiPayload n u w x y \<Longrightarrow> as_str (json_index inner ''app_id'') = Some u"
    "\<And>n u w x y. p = SshPayload n u w x y \<Longrightarrow> as_str (json_index inner ''public_key'') = Some u"
    using payload_of_json_shape[OF j(2)] by blast
  show ?thesis
    using i by (cases p) (simp_all add: decrypt_name_only_def decrypt_subtitle_def j(1) payload_credential_type_def
      record_index_fields_from_payload_def)
qed

text \<open>
  the list view's shortcuts agree with the full decryption. Whenever a ciphertext decrypts to a
  payload, decrypting only the name gives the payload's name, and decrypting only the subtitle gives
  the subtitle the index derives from the payload of that credential type, so that the index built
  from stored rows equals the index built from payloads.
\<close>

theorem name_and_subtitle_agree:
  assumes "decrypt_payload E cm c n aad u = Inr p"
  shows "decrypt_name_only E cm c n aad u = Inr (fst (record_index_fields_from_payload p))
    \<and> decrypt_subtitle E cm c n aad (payload_credential_type p) u = Inr (snd (record_index_fields_from_payload p))"
  using name_and_subtitle[OF assms] .

section \<open>A concrete environment\<close>

instance json :: countable
  by countable_datatype

instance cloud_private_metadata_ext :: (countable) countable
proof
  show "\<exists>f :: 'a cloud_private_metadata_scheme \<Rightarrow> nat. inj f"
    by (rule exI[of _ "\<lambda>r. to_nat (pm_name r, pm_tags r, pm_credential_type r, pm_is_favorite r, pm_expires_at r,
          pm_updated_by r, pm_health r, cloud_private_metadata.more r)"])
       (auto intro!: injI cloud_private_metadata.equality)
qed

definition demo_crypto_env :: crypto_env where
  "demo_crypto_env = cloud_env.extend demo_cloud_env (crypto_env.fields
     (\<lambda>j. Inr (unary_enc j)) (\<lambda>s. Inr (unary_dec s))
     (\<lambda>_ _ _. Some (replicate 32 (CHR ''k'')))
     (\<lambda>_ _ _ p. Some (CHR ''#'' # p))
     (\<lambda>_ _ _ c. case c of [] \<Rightarrow> None | x # p \<Rightarrow> if x = CHR ''#'' then Some p else None)
     (\<lambda>_. Inr ()) (\<lambda>s. s)
     (\<lambda>m. Inr (unary_enc m)) (\<lambda>b. Inr (unary_dec b)))"

lemma demo_crypto_laws: "crypto_laws demo_crypto_env"
  by (simp add: crypto_laws_def demo_crypto_env_def crypto_env.defs cloud_env.defs from_utf8_def)

lemma demo_crypto_env_laws: "env_laws demo_crypto_env"
  using demo_env_laws by (simp add: env_laws_def demo_crypto_env_def demo_cloud_env_def crypto_env.defs cloud_env.defs)

text \<open>A world that is a counter: it feeds the identifiers and, in seconds, the clock.\<close>

definition demo_vault_ops :: "nat vault_ops" where
  "demo_vault_ops = \<lparr> dbo_now = (\<lambda>w. (0, w)), to_lowercase = (\<lambda>s. s),
     chrono_range = (\<lambda>s. - 8334601228800 \<le> s \<and> s \<le> 8210266876799),
     vo_uuid = (\<lambda>w. (of_nat w, w + 1)), vo_nonce = (\<lambda>w. (replicate 24 (CHR ''n''), w + 1)) \<rparr>"

lemma demo_vault_ops_laws: "vault_ops_laws demo_vault_ops"
  by (auto simp: vault_ops_laws_def demo_vault_ops_def printable_time_def)

definition demo_service :: vault_service where
  "demo_service = \<lparr> vs_crypto = from_unlocked_keystore \<lparr> ks_kek = Some ''kek'', ks_current_dek_version = 1, ks_device_id = ''laptop'' \<rparr>,
     vs_device_id = ''laptop'' \<rparr>"

definition demo_login :: encrypted_payload where
  "demo_login = LoginPayload ''mail'' ''alice'' ''s3cret'' None None"

lemma ascii_from_utf8: "list_all (\<lambda>c. byte_of c < 128) s \<Longrightarrow> from_utf8 s = Inr s"
  by (simp add: from_utf8_def utf8_check_ascii)

lemma demo_login_ok: "payload_utf8 demo_login" "validate_payload demo_login = Inr ()"
  "has_kek (vs_crypto demo_service)" "is_unlocked (vs_crypto demo_service)"
  by (simp_all add: payload_utf8_def demo_login_def payload_to_json_def opt_json_def ascii_from_utf8 validate_payload_def
    validate_len_def validate_optional_len_def char_count_def limit_defs is_continuation_byte_def
    has_kek_def demo_service_def from_unlocked_keystore_def is_unlocked_def)

theorem name_and_subtitle_agree_witness:
  "decrypt_name_only demo_crypto_env (vs_crypto demo_service) (CHR ''#'' # unary_enc (payload_to_json demo_login))
     (replicate 24 (CHR ''n'')) [] 1 = Inr ''mail''"
proof -
  have "decrypt_payload demo_crypto_env (vs_crypto demo_service) (CHR ''#'' # unary_enc (payload_to_json demo_login))
     (replicate 24 (CHR ''n'')) [] 1 = Inr demo_login"
    by (simp add: decrypt_payload_def decrypt_json_def crypto_decrypt_def get_dek_def keystore_get_dek_def derive_dek_def
      decrypt_with_aad_def demo_crypto_env_def crypto_env.defs cloud_env.defs demo_service_def from_unlocked_keystore_def
      from_utf8_def payload_json_roundtrip)
  from name_and_subtitle_agree[OF this] show ?thesis
    by (simp add: record_index_fields_from_payload_def demo_login_def)
qed

end
