(* ===== verification/Vault_Wp.thy ===== *)
theory Vault_Wp
  imports Vault_Inv Vault_Laws
begin

text \<open>
  Two weakest preconditions for the methods of the vault: \<open>wp\<close> asks the postcondition of a successful
  run, \<open>wpt\<close> also that the run succeeds. Both are computed through the combinators of the methods;
  a query that does not touch the records is stepped over with its frame.
\<close>

named_theorems wp_simps \<open>the weakest precondition of a combinator\<close>
named_theorems frame_intros \<open>queries that leave a component of the tables alone\<close>

definition wp :: "('w, 'e, 'a) io \<Rightarrow> ('a \<Rightarrow> 'w \<Rightarrow> bool) \<Rightarrow> 'w \<Rightarrow> bool" where
  "wp m Q v \<longleftrightarrow> (\<forall>a v'. m v = (Inr a, v') \<longrightarrow> Q a v')"

definition wpt :: "('w, 'e, 'a) io \<Rightarrow> ('a \<Rightarrow> 'w \<Rightarrow> bool) \<Rightarrow> 'w \<Rightarrow> bool" where
  "wpt m Q v \<longleftrightarrow> (\<exists>a v'. m v = (Inr a, v') \<and> Q a v')"

lemma wpD: "wp m Q v \<Longrightarrow> m v = (Inr a, v') \<Longrightarrow> Q a v'"
  by (simp add: wp_def)

lemma wptD: "wpt m Q v \<Longrightarrow> \<exists>a v'. m v = (Inr a, v') \<and> Q a v'"
  by (simp add: wpt_def)

lemma wp_mono: "wp m Q v \<Longrightarrow> (\<And>a v'. Q a v' \<Longrightarrow> Q' a v') \<Longrightarrow> wp m Q' v"
  unfolding wp_def by blast

lemma wpt_mono: "wpt m Q v \<Longrightarrow> (\<And>a v'. Q a v' \<Longrightarrow> Q' a v') \<Longrightarrow> wpt m Q' v"
  unfolding wpt_def by blast

section \<open>Combinators\<close>

lemma wp_combinators [wp_simps]:
  "wp (io_bind m f) Q = wp m (\<lambda>a. wp (f a) Q)"
  "wp (io_return a) Q'' = Q'' a"
  "wp (io_map_err h m') Q' = wp m' Q'"
  "wpt (io_bind m f) Q = wpt m (\<lambda>a. wpt (f a) Q)"
  "wpt (io_return a) Q'' = Q'' a"
  "wpt (io_map_err h m') Q' = wpt m' Q'"
  by (auto simp: fun_eq_iff wp_def wpt_def monad_simps io_map_err_def split: sum.splits prod.splits)

lemma wp_lift [wp_simps]:
  "wp (io_lift r) Q v \<longleftrightarrow> (case r of Inl _ \<Rightarrow> True | Inr a \<Rightarrow> Q a v)"
  "wpt (io_lift r) Q v \<longleftrightarrow> (case r of Inl _ \<Rightarrow> False | Inr a \<Rightarrow> Q a v)"
  by (auto simp: wp_def wpt_def split: sum.splits)

lemma wp_world [wp_simps]:
  "wp (utc_now C) Q v \<longleftrightarrow> Q (fst (dbo_now C (v_ext v))) (v\<lparr>v_ext := snd (dbo_now C (v_ext v))\<rparr>)"
  "wp (draw f) Q' v \<longleftrightarrow> Q' (fst (f (v_ext v))) (v\<lparr>v_ext := snd (f (v_ext v))\<rparr>)"
  "wpt (utc_now C) Q v \<longleftrightarrow> Q (fst (dbo_now C (v_ext v))) (v\<lparr>v_ext := snd (dbo_now C (v_ext v))\<rparr>)"
  "wpt (draw f) Q' v \<longleftrightarrow> Q' (fst (f (v_ext v))) (v\<lparr>v_ext := snd (f (v_ext v))\<rparr>)"
  by (auto simp: wp_def wpt_def utc_now_def draw_def split: prod.splits)

lemma wp_exec [wp_simps]:
  "wp (exec st) Q v \<longleftrightarrow> (case st (v_db v) of (Inl _, _) \<Rightarrow> True | (Inr a, d) \<Rightarrow> Q a (v\<lparr>v_db := d\<rparr>))"
  "wpt (exec st) Q v \<longleftrightarrow> (case st (v_db v) of (Inl _, _) \<Rightarrow> False | (Inr a, d) \<Rightarrow> Q a (v\<lparr>v_db := d\<rparr>))"
  by (auto simp: wp_def wpt_def exec_def split: prod.splits sum.splits)

lemma wpt_in_tx [wp_simps]: "wpt (in_tx m) Q v \<longleftrightarrow> wpt m Q v" "wp (in_tx m) Q v \<longleftrightarrow> wp m Q v"
  by (auto simp: wp_def wpt_def in_tx_def split: prod.splits sum.splits)

lemma wp_results [wp_simps]:
  "wp (crypto_res r) Q v \<longleftrightarrow> (case r of Inl _ \<Rightarrow> True | Inr a \<Rightarrow> Q a v)"
  "wp (data_res r') Q' v \<longleftrightarrow> (case r' of Inl _ \<Rightarrow> True | Inr a \<Rightarrow> Q' a v)"
  "wp (data_err r') Q' v \<longleftrightarrow> (case r' of Inl _ \<Rightarrow> True | Inr a \<Rightarrow> Q' a v)"
  "wp (require_unlocked S) Q'' v \<longleftrightarrow> (is_unlocked (vs_crypto S) \<longrightarrow> Q'' () v)"
  "wpt (crypto_res r) Q v \<longleftrightarrow> (case r of Inl _ \<Rightarrow> False | Inr a \<Rightarrow> Q a v)"
  "wpt (data_res r') Q' v \<longleftrightarrow> (case r' of Inl _ \<Rightarrow> False | Inr a \<Rightarrow> Q' a v)"
  "wpt (data_err r') Q' v \<longleftrightarrow> (case r' of Inl _ \<Rightarrow> False | Inr a \<Rightarrow> Q' a v)"
  "wpt (require_unlocked S) Q'' v \<longleftrightarrow> (is_unlocked (vs_crypto S) \<and> Q'' () v)"
  by (auto simp: wp_def wpt_def crypto_res_def data_res_def data_err_def require_unlocked_def ensure_def split: sum.splits)

text \<open>Reading a record.\<close>

lemma wp_get_record [wp_simps]:
  "wp (get_record C rid) Q v \<longleftrightarrow> (case map_of (tb_records (v_db v)) rid of
     None \<Rightarrow> Q None v
   | Some row \<Rightarrow> (case to_stored_record C rid row (record_tag_names (v_db v) rid) of Inl _ \<Rightarrow> True | Inr r \<Rightarrow> Q (Some r) v))"
  "wpt (get_record C rid) Q v \<longleftrightarrow> (case map_of (tb_records (v_db v)) rid of
     None \<Rightarrow> Q None v
   | Some row \<Rightarrow> (case to_stored_record C rid row (record_tag_names (v_db v) rid) of Inl _ \<Rightarrow> False | Inr r \<Rightarrow> Q (Some r) v))"
  by (auto simp: get_record_def wp_simps select_def split: option.splits sum.splits)

lemma wp_get_stored_record [wp_simps]:
  "wp (get_stored_record C rid) Q' v \<longleftrightarrow> (case map_of (tb_records (v_db v)) rid of
     None \<Rightarrow> True
   | Some row \<Rightarrow> (case to_stored_record C rid row (record_tag_names (v_db v) rid) of Inl _ \<Rightarrow> True | Inr r \<Rightarrow> Q' r v))"
  "wpt (get_stored_record C rid) Q' v \<longleftrightarrow> (case map_of (tb_records (v_db v)) rid of
     None \<Rightarrow> False
   | Some row \<Rightarrow> (case to_stored_record C rid row (record_tag_names (v_db v) rid) of Inl _ \<Rightarrow> False | Inr r \<Rightarrow> Q' r v))"
  by (auto simp: get_stored_record_def wp_simps split: option.splits sum.splits)

lemma wp_decrypt_record_name [wp_simps]:
  "wp (decrypt_record_name E S r) Q v \<longleftrightarrow> (case decrypt_stored E S r of Inl _ \<Rightarrow> True | Inr p \<Rightarrow> Q (pl_name p) v)"
  "wpt (decrypt_record_name E S r) Q v \<longleftrightarrow> (case decrypt_stored E S r of Inl _ \<Rightarrow> False | Inr p \<Rightarrow> Q (pl_name p) v)"
  by (auto simp: decrypt_record_name_def wp_simps split: sum.splits)

section \<open>Steps of a proof\<close>

lemma wp_step_bind: "wp m (\<lambda>a. wp (f a) Q) v \<Longrightarrow> wp (io_bind m f) Q v"
  by (simp add: wp_simps)

lemma wp_step_if: "(b \<Longrightarrow> wp m Q v) \<Longrightarrow> (\<not> b \<Longrightarrow> wp m' Q v) \<Longrightarrow> wp (if b then m else m') Q v"
  by simp

lemma wp_step_error: "wp (io_lift (Inl e)) Q v"
  by (simp add: wp_def)

lemma wp_step_let: "wp (f t) Q v \<Longrightarrow> wp (let x = t in f x) Q v"
  by simp

lemma wp_step_prod: "(\<And>a b. x = (a, b) \<Longrightarrow> wp (f a b) Q v) \<Longrightarrow> wp (case x of (a, b) \<Rightarrow> f a b) Q v"
  by (cases x) simp

text \<open>A method that keeps a component of the tables, whatever its result.\<close>

definition frame :: "(vault_db \<Rightarrow> 'c) \<Rightarrow> ('w vault, 'e, 'a) io \<Rightarrow> bool" where
  "frame g m \<longleftrightarrow> (\<forall>v. g (v_db (snd (m v))) = g (v_db v))"

lemma frame_keeps: "frame g m \<longleftrightarrow> (\<forall>c. keeps (\<lambda>d. g d = c) m)"
  by (auto simp: frame_def keeps_def)

lemma frame_rule: "(\<And>c. keeps (\<lambda>d. g d = c) m) \<Longrightarrow> frame g m"
  by (simp add: frame_keeps)

lemma wp_step_frame:
  assumes "frame g m" "\<And>a v'. g (v_db v') = g (v_db v) \<Longrightarrow> Q a v'"
  shows "wp m Q v"
  using assms unfolding wp_def frame_def by (metis snd_conv)

lemma wp_step_over:
  assumes "frame g m" "\<And>a v'. g (v_db v') = g (v_db v) \<Longrightarrow> wp (f a) Q v'"
  shows "wp (io_bind m f) Q v"
  by (rule wp_step_bind, rule wp_step_frame[OF assms(1)], rule assms(2))

lemma wp_step_stored:
  assumes "\<And>row r. map_of (tb_records (v_db v)) rid = Some row
      \<Longrightarrow> to_stored_record C rid row (record_tag_names (v_db v) rid) = Inr r \<Longrightarrow> wp (f r) Q v"
  shows "wp (io_bind (get_stored_record C rid) f) Q v"
  using assms by (auto simp: wp_simps split: option.splits sum.splits)

text \<open>The queries that only touch other tables frame the records.\<close>

lemma records_stmts [inv_intros]:
  "stmt_keeps (\<lambda>d. tb_records d = R) (insert_or_ignore_tag name)"
  "stmt_keeps (\<lambda>d. tb_records d = R) (upsert_sync rid sf)"
  by (auto simp: stmt_keeps_def insert_or_ignore_tag_def change_def add_tag_def upsert_sync_def)

lemma records_queries [inv_intros]:
  "keeps (\<lambda>d. tb_records d = R) (insert_tag name)"
  "keeps (\<lambda>d. tb_records d = R) (attach_tag rid tag_id)"
  "keeps (\<lambda>d. tb_records d = R) (detach_all_tags_for_record rid)"
  "keeps (\<lambda>d. tb_records d = R) (upsert_record_list_index C rid n x)"
  "keeps (\<lambda>d. tb_records d = R) (set_metadata k y)"
  "keeps (\<lambda>d. tb_records d = R) (delete_record_health_state rid)"
  "keeps (\<lambda>d. tb_records d = R) (upsert_record_health_state h)"
  "keeps (\<lambda>d. tb_records d = R) (copy_record_health_state_version rid ver)"
  "keeps (\<lambda>d. tb_records d = R) (insert_password_history rid b nn u t)"
  "keeps (\<lambda>d. tb_records d = R) (delete_oldest_password_history rid)"
  unfolding insert_tag_def attach_tag_def detach_all_tags_for_record_def upsert_record_list_index_def set_metadata_def
    delete_record_health_state_def upsert_record_health_state_def copy_record_health_state_version_def
    insert_password_history_def delete_oldest_password_history_def
  by (rule keeps_exec; auto simp: stmt_keeps_def change_def add_tag_def split: list.splits)+

lemma records_audit [inv_intros]: "keeps (\<lambda>d. tb_records d = R) (insert_audit_entry C op rid n x)"
proof -
  have "stmt_keeps (\<lambda>d. tb_records d = R) (change (\<lambda>d. d\<lparr>tb_audit := f d\<rparr>))" for f
    by (simp add: stmt_keeps_def change_def)
  then show ?thesis
    unfolding insert_audit_entry_def by (intro inv_intros)
qed

lemma records_get_or_create_tag [inv_intros]: "keeps (\<lambda>d. tb_records d = R) (get_or_create_tag name)"
  unfolding get_or_create_tag_def by (intro inv_intros)

lemma records_helpers [inv_intros]:
  "keeps (\<lambda>d. tb_records d = R) (save_password_history C rid b nn u)"
  "keeps (\<lambda>d. tb_records d = R) (mark_records_pending_sync C ids)"
  "keeps (\<lambda>d. tb_records d = R) mark_record_list_index_dirty"
  "keeps (\<lambda>d. tb_records d = R) mark_record_list_index_clean"
  "keeps (\<lambda>d. tb_records d = R) (upsert_record_list_index_for_payload C rid p)"
  "keeps (\<lambda>d. tb_records d = R) (attach_tags rid tags)"
  unfolding save_password_history_def mark_records_pending_sync_def upsert_sync_state_pending_def
    mark_record_list_index_dirty_def mark_record_list_index_clean_def upsert_record_list_index_for_payload_def attach_tags_def
  by (intro inv_intros)+

section \<open>Rows of the record table\<close>

lemma map_of_update_rows:
  "map_of (map (\<lambda>(i, row). (i, if cond i row then f row else row)) rs) k =
     map_option (\<lambda>row. if cond k row then f row else row) (map_of rs k)"
  by (induction rs) auto

text \<open>An update guarded by the key and a condition on the row, with the number of rows it changed.\<close>

lemma update_rows_count:
  assumes "distinct (map fst rs)"
  shows "length (filter (\<lambda>(i, row). i = k \<and> c row) rs) =
    (case map_of rs k of None \<Rightarrow> 0 | Some row \<Rightarrow> if c row then 1 else 0)"
  using assms
proof (induction rs)
  case (Cons r rs)
  show ?case
  proof (cases "fst r = k")
    case True
    then have "k \<notin> fst ` set rs" using Cons.prems by auto
    then have "filter (\<lambda>(i, row). i = k \<and> c row) rs = []" by (auto simp: filter_empty_conv image_iff)
    with True show ?thesis by (cases r) auto
  qed (use Cons in \<open>cases r; simp\<close>)
qed simp

text \<open>The row an \<open>UPDATE\<close> of a whole record leaves.\<close>

definition updated_row :: "stored_record \<Rightarrow> record_row \<Rightarrow> record_row" where
  "updated_row r row =
     row\<lparr> rr_encrypted_data := sr_encrypted_data r, rr_nonce := sr_nonce r, rr_dek_version := uint (sr_dek_version r),
          rr_aad := aad_param r, rr_is_favorite := bool_int (sr_is_favorite r),
          rr_expires_at := map_option datetime_to_timestamp (sr_expires_at r),
          rr_updated_at := datetime_to_timestamp (sr_updated_at r), rr_updated_by := sr_updated_by r,
          rr_version := sint (sr_version r) \<rparr>"

lemma update_record_spec:
  assumes "distinct (map fst (tb_records (v_db v)))" "map_of (tb_records (v_db v)) (sr_id r) = Some row"
  obtains v' where "update_record r ver v = (Inr (rr_version row = sint ver), v')"
    "v' = v\<lparr>v_db := (v_db v)\<lparr>tb_records := tb_records (v_db v')\<rparr>\<rparr>"
    "map_of (tb_records (v_db v')) (sr_id r) = Some (if rr_version row = sint ver then updated_row r row else row)"
    "\<And>k. k \<noteq> sr_id r \<Longrightarrow> map_of (tb_records (v_db v')) k = map_of (tb_records (v_db v)) k"
proof -
  let ?rs = "tb_records (v_db v)" and ?c = "\<lambda>i row. i = sr_id r \<and> rr_version row = sint ver"
  let ?rs' = "map (\<lambda>(i, row). (i, if ?c i row then updated_row r row else row)) ?rs"
  have "update_record r ver v = (Inr (rr_version row = sint ver), v\<lparr>v_db := (v_db v)\<lparr>tb_records := ?rs'\<rparr>\<rparr>)"
    using assms unfolding update_record_def updated_row_def[symmetric]
    by (simp add: io_bind_def exec_def update_rows_def update_rows_count)
  moreover have "map_of ?rs' k = map_option (\<lambda>row. if ?c k row then updated_row r row else row) (map_of ?rs k)" for k
    by (rule map_of_update_rows)
  ultimately show thesis
    using that assms(2) by (simp add: option.map_ident)
qed

section \<open>Rows of typed records\<close>

definition to_seconds :: "timestamp \<Rightarrow> timestamp" where
  "to_seconds t = t div 1000000000 * 1000000000"

text \<open>The record a row gives back.\<close>

definition stored_as :: "stored_record \<Rightarrow> string list \<Rightarrow> stored_record" where
  "stored_as r tags = r\<lparr> sr_expires_at := map_option to_seconds (sr_expires_at r), sr_created_at := to_seconds (sr_created_at r),
     sr_updated_at := to_seconds (sr_updated_at r), sr_deleted_at := map_option to_seconds (sr_deleted_at r), sr_tags := tags \<rparr>"

definition opt_printable :: "timestamp option \<Rightarrow> bool" where
  "opt_printable x \<longleftrightarrow> (case x of None \<Rightarrow> True | Some t \<Rightarrow> printable_time t)"

definition record_typed :: "stored_record \<Rightarrow> bool" where
  "record_typed r \<longleftrightarrow> length (sr_nonce r) = 24 \<and> opt_printable (sr_expires_at r) \<and> printable_time (sr_created_at r)
     \<and> printable_time (sr_updated_at r) \<and> opt_printable (sr_deleted_at r)"

lemma timestamp_roundtrip:
  "vault_ops_laws C \<Longrightarrow> printable_time t \<Longrightarrow> timestamp_to_datetime C (datetime_to_timestamp t) = Inr (to_seconds t)"
  by (simp add: vault_ops_laws_def timestamp_to_datetime_def datetime_to_timestamp_def to_seconds_def)

lemma opt_timestamp_roundtrip:
  "vault_ops_laws C \<Longrightarrow> opt_printable x \<Longrightarrow> opt_timestamp C (map_option datetime_to_timestamp x) = Inr (map_option to_seconds x)"
  by (cases x) (simp_all add: opt_timestamp_def opt_printable_def timestamp_roundtrip)

lemma cred_roundtrip [simp]: "cred_from_db_str (cred_to_db_str c) = Inr c"
  using cred.dec_enc[of c] by simp

lemma row_roundtrip:
  assumes "vault_ops_laws C" "record_typed r"
  shows "to_stored_record C (sr_id r) (row_of_record r) tags = Inr (stored_as r tags)"
  using assms
  by (cases r) (auto simp: to_stored_record_def row_of_record_def record_typed_def timestamp_roundtrip opt_timestamp_roundtrip
    stored_as_def aad_param_def bool_int_def)

lemma now_printable: "vault_ops_laws C \<Longrightarrow> printable_time (fst (dbo_now C w))"
  by (simp add: vault_ops_laws_def)

lemma stored_as_simps [simp]:
  "sr_id (stored_as r tags) = sr_id r" "sr_credential_type (stored_as r tags) = sr_credential_type r"
  "sr_encrypted_data (stored_as r tags) = sr_encrypted_data r" "sr_nonce (stored_as r tags) = sr_nonce r"
  "sr_dek_version (stored_as r tags) = sr_dek_version r" "sr_aad (stored_as r tags) = sr_aad r"
  "sr_is_favorite (stored_as r tags) = sr_is_favorite r" "sr_version (stored_as r tags) = sr_version r"
  "sr_deleted (stored_as r tags) = sr_deleted r" "sr_tags (stored_as r tags) = tags"
  "sr_expires_at (stored_as r tags) = map_option to_seconds (sr_expires_at r)"
  by (simp_all add: stored_as_def)

lemma decrypt_stored_as [simp]: "decrypt_stored E S (stored_as r tags) = decrypt_stored E S r"
  by (simp add: decrypt_stored_def)

lemma get_stored_record_row:
  assumes "vault_ops_laws C" "record_typed r" "map_of (tb_records (v_db v)) (sr_id r) = Some (row_of_record r)"
  shows "get_stored_record C (sr_id r) v = (Inr (stored_as r (record_tag_names (v_db v) (sr_id r))), v)"
  using row_roundtrip[OF assms(1,2)] assms(3)
  by (simp add: get_stored_record_def get_record_def io_map_err_def io_bind_def exec_def select_def data_err_def)

end
