(* ===== verification/Vault_Commands.thy ===== *)
theory Vault_Commands
  imports Vault_Inv Vault_Laws
begin

text \<open>
  The vault as a transition system: every public method of the service is a command, and locking and
  unlocking change the key store it holds. The schema's integrity and the bound on the password
  history are invariants of every sequence of commands, failed ones included.
\<close>

datatype vault_command =
    VUnlock keystore
  | VLockVault
  | VCreate create_record_params
  | VView uuid
  | VUpdate update_record_params
  | VSoftDelete uuid
  | VRestore uuid
  | VHardDelete uuid
  | VFavorite uuid bool
  | VField uuid field_selector
  | VCopyField uuid field_selector
  | VReEncrypt uuid u32
  | VEmptyTrash
  | VCleanupTrash u32
  | VBatchSoftDelete "uuid list"
  | VBatchRestore "uuid list"
  | VBatchHardDelete "uuid list"
  | VRenameTag string string
  | VDeleteTag string
  | VBatchAddTag "uuid list" string
  | VBatchRemoveTag "uuid list" string
  | VConflictHistory uuid
  | VApplyDownloaded cloud_record
  | VMarkSynced uuid
  | VMarkConflict uuid bytes
  | VSetVersion uuid u64

definition vault_method ::
  "('x) crypto_env_scheme \<Rightarrow> ('w, 'y) vault_ops_scheme \<Rightarrow> vault_service \<Rightarrow> vault_command \<Rightarrow> ('w, unit) vault_io" where
  "vault_method E C S cmd =
     (case cmd of
        VUnlock _ \<Rightarrow> io_return ()
      | VLockVault \<Rightarrow> io_return ()
      | VCreate p \<Rightarrow> io_bind (create_record E C S p) (\<lambda>_. io_return ())
      | VView rid \<Rightarrow> io_bind (get_decrypted_record E C S rid) (\<lambda>_. io_return ())
      | VUpdate p \<Rightarrow> update_record_service E C S p
      | VSoftDelete rid \<Rightarrow> soft_delete_record E C S rid
      | VRestore rid \<Rightarrow> restore_record E C S rid
      | VHardDelete rid \<Rightarrow> hard_delete_record E C S rid
      | VFavorite rid b \<Rightarrow> toggle_favorite C S rid b
      | VField rid f \<Rightarrow> io_bind (decrypt_field E C S rid f) (\<lambda>_. io_return ())
      | VCopyField rid f \<Rightarrow> io_bind (decrypt_field_for_copy E C S rid f) (\<lambda>_. io_return ())
      | VReEncrypt rid u \<Rightarrow> re_encrypt_record E C S rid u
      | VEmptyTrash \<Rightarrow> io_bind (empty_trash C S) (\<lambda>_. io_return ())
      | VCleanupTrash days \<Rightarrow> io_bind (cleanup_expired_trash C S days) (\<lambda>_. io_return ())
      | VBatchSoftDelete ids \<Rightarrow> io_bind (batch_soft_delete E C S ids) (\<lambda>_. io_return ())
      | VBatchRestore ids \<Rightarrow> io_bind (batch_restore E C S ids) (\<lambda>_. io_return ())
      | VBatchHardDelete ids \<Rightarrow> io_bind (batch_hard_delete E C S ids) (\<lambda>_. io_return ())
      | VRenameTag old new \<Rightarrow> rename_tag C old new
      | VDeleteTag name \<Rightarrow> delete_tag C name
      | VBatchAddTag ids name \<Rightarrow> io_bind (batch_add_tag C ids name) (\<lambda>_. io_return ())
      | VBatchRemoveTag ids name \<Rightarrow> io_bind (batch_remove_tag C ids name) (\<lambda>_. io_return ())
      | VConflictHistory rid \<Rightarrow> save_conflict_history C S rid
      | VApplyDownloaded cr \<Rightarrow> io_bind (apply_downloaded_cloud_record E C S cr) (\<lambda>_. io_return ())
      | VMarkSynced rid \<Rightarrow> mark_record_synced C rid
      | VMarkConflict rid b \<Rightarrow> mark_record_conflict C rid b
      | VSetVersion rid ver \<Rightarrow> update_record_version_for_sync rid ver)"

definition service_after :: "vault_command \<Rightarrow> vault_service \<Rightarrow> vault_service" where
  "service_after cmd S = (case cmd of
     VUnlock ks \<Rightarrow> S\<lparr>vs_crypto := from_unlocked_keystore ks\<rparr>
   | VLockVault \<Rightarrow> S\<lparr>vs_crypto := crypto_lock (vs_crypto S)\<rparr>
   | _ \<Rightarrow> S)"

definition vault_step ::
  "('x) crypto_env_scheme \<Rightarrow> ('w, 'y) vault_ops_scheme \<Rightarrow> vault_command \<Rightarrow> vault_service \<times> 'w vault \<Rightarrow> vault_service \<times> 'w vault" where
  "vault_step E C cmd sv = (service_after cmd (fst sv), snd (vault_method E C (fst sv) cmd (snd sv)))"

definition empty_db :: vault_db where
  "empty_db = \<lparr> tb_records = [], tb_tags = [], tb_tags_seq = 0, tb_record_tags = [], tb_history = [], tb_history_seq = 0,
     tb_audit = [], tb_sync = [], tb_metadata = [], tb_health = [], tb_index = [] \<rparr>"

text \<open>A property of the tables that every query keeps is kept by every command.\<close>

context table_property
begin

lemma vault_method_keeps: "keeps P (vault_method E C S cmd)"
proof -
  have field: "keeps P (decrypt_field E C S rid f)" "keeps P (decrypt_field_for_copy E C S rid f)" for rid f
    unfolding decrypt_field_def decrypt_field_for_copy_def by (rule field_methods)+
  show ?thesis
    unfolding vault_method_def
    by (cases cmd; simp only: vault_command.case; intro inv_intros record_methods field trash_methods tag_methods
      download_methods sync_queries)
qed

lemma vault_step_keeps: "P (v_db (snd sv)) \<Longrightarrow> P (v_db (snd (vault_step E C cmd sv)))"
  using vault_method_keeps[of E "fst sv" cmd] unfolding keeps_def vault_step_def by simp

end

interpretation vault_sys: invariant_system "\<lambda>sv. v_db (snd sv) = empty_db" "vault_step E C"
    "\<lambda>sv. db_wf (v_db (snd sv)) \<and> history_bounded (v_db (snd sv))"
  for E :: "('x) crypto_env_scheme" and C :: "('w, 'y) vault_ops_scheme"
proof unfold_locales
  show "db_wf (v_db (snd sv)) \<and> history_bounded (v_db (snd sv))" if "v_db (snd sv) = empty_db" for sv :: "vault_service \<times> 'w vault"
    using that by (simp add: db_wf_def empty_db_def history_bounded_def history_of_def)
  show "db_wf (v_db (snd (vault_step E C cmd sv))) \<and> history_bounded (v_db (snd (vault_step E C cmd sv)))"
    if "db_wf (v_db (snd sv)) \<and> history_bounded (v_db (snd sv))" for cmd and sv :: "vault_service \<times> 'w vault"
    using that wf.vault_step_keeps hist.vault_step_keeps by blast
qed



end
