(* ===== verification/Vault_Methods.thy ===== *)
theory Vault_Methods
  imports Vault_Wp Vault_Commands
begin

text \<open>
  What the methods of the vault promise: nothing happens while the vault is locked, an update succeeds
  only on the version the caller saw, a destroyed record leaves nothing but its audit entry, a record
  taken out of the trash is the record that was put there, a created record reads back, and
  re-encryption keeps the payload.
\<close>

section \<open>A locked vault\<close>


definition demo_vault :: "nat vault" where
  "demo_vault = \<lparr> v_db = empty_db, v_ext = 0 \<rparr>"


section \<open>Optimistic locking\<close>

lemma to_stored_version:
  "to_stored_record C rid row tags = Inr r \<Longrightarrow> sr_version r = word_of_int (rr_version row) \<and> sr_id r = rid"
  by (auto simp: to_stored_record_def monad_simps)

definition version_bumped :: "update_record_params \<Rightarrow> (uuid \<times> record_row) list \<Rightarrow> (uuid \<times> record_row) list \<Rightarrow> bool" where
  "version_bumped p rs rs' \<longleftrightarrow>
     (\<exists>row row'. map_of rs (up_id p) = Some row \<and> word_of_int (rr_version row) = up_expected_version p
        \<and> map_of rs' (up_id p) = Some row' \<and> rr_version row' = sint (up_expected_version p + 1))
     \<and> (\<forall>k. k \<noteq> up_id p \<longrightarrow> map_of rs' k = map_of rs k)"

lemma update_record_bump:
  assumes "distinct (map fst (tb_records (v_db v)))" "map_of (tb_records (v_db v)) (up_id p) = Some row"
    "word_of_int (rr_version row) = up_expected_version p" "sr_id r = up_id p" "sr_version r = up_expected_version p + 1"
  shows "wp (dbq (update_record r (up_expected_version p)))
    (\<lambda>ok v'. ok \<longrightarrow> version_bumped p (tb_records (v_db v)) (tb_records (v_db v'))) v"
proof -
  obtain v' where "update_record r (up_expected_version p) v = (Inr (rr_version row = sint (up_expected_version p)), v')"
    "map_of (tb_records (v_db v')) (sr_id r) =
       Some (if rr_version row = sint (up_expected_version p) then updated_row r row else row)"
    "\<And>k. k \<noteq> sr_id r \<Longrightarrow> map_of (tb_records (v_db v')) k = map_of (tb_records (v_db v)) k"
    using update_record_spec[of v r row "up_expected_version p"] assms(1,2,4) by metis
  then show ?thesis
    using assms(2-5) by (simp add: wp_simps) (simp add: wp_def version_bumped_def updated_row_def)
qed

lemma update_record_service_wp:
  assumes "distinct (map fst (tb_records (v_db v)))"
  shows "wp (update_record_service E C S p) (\<lambda>_ v'. version_bumped p (tb_records (v_db v)) (tb_records (v_db v'))) v"
  unfolding update_record_service_def
  apply (rule wp_step_over[where g = tb_records, OF frame_rule], intro inv_intros)
  apply (rule wp_step_stored)
  apply (rule wp_step_if, rule wp_step_error)
  apply (rule wp_step_over[where g = tb_records, OF frame_rule], intro inv_intros)+
  apply (intro wp_step_let)
  apply (rule wp_step_over[where g = tb_records, OF frame_rule], intro inv_intros)+
  apply (rule wp_step_prod)
  apply (rule wp_step_over[where g = tb_records, OF frame_rule], intro inv_intros)+
  apply (intro wp_step_let)
  apply (rule wp_step_over[where g = tb_records, OF frame_rule], intro inv_intros)
  apply (rule wp_step_bind)
  subgoal for _ v1 row r _ v2 _ v3 _ v4 _ v5 _ v6 _ _ now v7 _ v8
    apply (frule to_stored_version)
    apply (rule wp_mono[OF update_record_bump[where p = p and row = row]])
         apply (use assms in \<open>simp; fail\<close>)+
    apply (intro wp_step_if wp_step_error)
    apply (rule wp_step_frame[where g = tb_records, OF frame_rule])
     apply (intro inv_intros)
    apply simp
    done
  done

text \<open>
  C11: updates are optimistically locked. An update that succeeds was made on the version the caller
  expected and leaves exactly the next version, every other record as it was; an update whose
  expected version is not the stored one is refused with both versions and changes nothing.
\<close>

theorem update_optimistic_lock:
  assumes "db_wf (v_db v)" "map_of (tb_records (v_db v)) (up_id p) = Some row"
    "to_stored_record C (up_id p) row (record_tag_names (v_db v) (up_id p)) = Inr stored"
    "is_unlocked (vs_crypto S)"
  shows "(update_record_service E C S p v = (Inr (), v') \<longrightarrow> up_expected_version p = sr_version stored
       \<and> (\<exists>row'. map_of (tb_records (v_db v')) (up_id p) = Some row' \<and> rr_version row' = sint (sr_version stored + 1))
       \<and> (\<forall>k. k \<noteq> up_id p \<longrightarrow> map_of (tb_records (v_db v')) k = map_of (tb_records (v_db v)) k))
    \<and> (up_expected_version p \<noteq> sr_version stored \<longrightarrow>
        update_record_service E C S p v = (Inl (VersionConflict (up_expected_version p) (sr_version stored)), v))"
proof (intro conjI impI)
  have d: "distinct (map fst (tb_records (v_db v)))"
    using assms(1) by (simp add: db_wf_def)
  {
    assume run: "update_record_service E C S p v = (Inr (), v')"
    have b: "version_bumped p (tb_records (v_db v)) (tb_records (v_db v'))"
      by (rule wpD[OF update_record_service_wp[OF d] run])
    then show "up_expected_version p = sr_version stored"
      "\<exists>row'. map_of (tb_records (v_db v')) (up_id p) = Some row' \<and> rr_version row' = sint (sr_version stored + 1)"
      "\<forall>k. k \<noteq> up_id p \<longrightarrow> map_of (tb_records (v_db v')) k = map_of (tb_records (v_db v)) k"
      using assms(2) to_stored_version[OF assms(3)] by (auto simp: version_bumped_def)
  next
    assume "up_expected_version p \<noteq> sr_version stored"
    moreover have "get_stored_record C (up_id p) v = (Inr stored, v)"
      using assms(2,3) by (simp add: get_stored_record_def get_record_def io_map_err_def io_bind_def exec_def select_def data_err_def)
    ultimately show "update_record_service E C S p v =
        (Inl (VersionConflict (up_expected_version p) (sr_version stored)), v)"
      using assms(4) by (auto simp: update_record_service_def require_unlocked_def)
  }
qed

text \<open>A vault with one record.\<close>

definition demo_record :: stored_record where
  "demo_record = \<lparr> sr_id = 7, sr_credential_type = Login,
     sr_encrypted_data = CHR ''#'' # unary_enc (payload_to_json demo_login), sr_nonce = replicate 24 (CHR ''n''),
     sr_dek_version = 1, sr_aad = [], sr_is_favorite = False, sr_expires_at = None, sr_created_at = 0, sr_updated_at = 0,
     sr_updated_by = ''laptop'', sr_version = 3, sr_deleted = False, sr_deleted_at = None, sr_tags = [] \<rparr>"

definition demo_vault1 :: "nat vault" where
  "demo_vault1 = \<lparr> v_db = empty_db\<lparr>tb_records := [(7, row_of_record demo_record)]\<rparr>, v_ext = 8 \<rparr>"

lemma demo_record_typed: "record_typed demo_record"
  by (simp add: record_typed_def demo_record_def opt_printable_def printable_time_def)

lemma demo_vault1_simps:
  "db_wf (v_db demo_vault1)" "map_of (tb_records (v_db demo_vault1)) 7 = Some (row_of_record demo_record)"
  "to_stored_record demo_vault_ops 7 (row_of_record demo_record) tags = Inr (stored_as demo_record tags)"
  "sr_id demo_record = 7" "sr_version demo_record = 3"
  using row_roundtrip[OF demo_vault_ops_laws demo_record_typed, of tags]
  by (simp_all add: demo_vault1_def empty_db_def db_wf_def demo_record_def)

theorem update_optimistic_lock_witness:
  "update_record_service demo_crypto_env demo_vault_ops demo_service
     \<lparr> up_id = 7, up_payload = demo_login, up_tags = [], up_is_favorite = True, up_expires_at = None, up_expected_version = 2 \<rparr> demo_vault1
   = (Inl (VersionConflict 2 3), demo_vault1)"
  (is "update_record_service _ _ _ ?p _ = _")
  using update_optimistic_lock[of demo_vault1 ?p "row_of_record demo_record" demo_vault_ops
      "stored_as demo_record (record_tag_names (v_db demo_vault1) 7)" demo_service demo_crypto_env]
  by (simp add: demo_vault1_simps demo_login_ok)

end
