(* ===== verification/Vault_Delete.thy ===== *)
theory Vault_Delete
  imports Vault_Methods
begin

text \<open>
  Deletion: a destroyed record leaves no row behind, the trash gives back what was put into it, and
  re-encryption under a new key keeps what a record says.
\<close>

section \<open>Destroying a record\<close>

definition no_trace :: "vault_db \<Rightarrow> uuid \<Rightarrow> bool" where
  "no_trace d rid \<longleftrightarrow> rid \<notin> fst ` set (tb_records d) \<and> rid \<notin> fst ` set (tb_record_tags d)
     \<and> rid \<notin> hr_record_id ` set (tb_history d) \<and> rid \<notin> fst ` set (tb_sync d)
     \<and> rid \<notin> fst ` set (tb_health d) \<and> rid \<notin> fst ` set (tb_index d)"

lemma cascade_no_trace: "gone rid \<Longrightarrow> no_trace (cascade_delete gone d) rid"
  by (auto simp: no_trace_def cascade_delete_def)

lemma hard_delete_row_run:
  assumes "rid \<in> fst ` set (tb_records (v_db v))"
  shows "hard_delete_row rid v = (Inr (), v\<lparr>v_db := cascade_delete (\<lambda>i. i = rid) (v_db v)\<rparr>)"
proof -
  have "(\<lambda>i. i \<in> fst ` set (filter (\<lambda>(i, row). i = rid) (tb_records (v_db v)))) = (\<lambda>i. i = rid)"
    using assms by (auto simp: fun_eq_iff image_iff)
  then show ?thesis
    by (simp add: hard_delete_row_def io_bind_def exec_def delete_rows_def Let_def)
qed

lemma wp_hard_delete_row:
  "rid \<in> fst ` set (tb_records (v_db v)) \<Longrightarrow>
     wp (hard_delete_row rid) Q v \<longleftrightarrow> Q () (v\<lparr>v_db := cascade_delete (\<lambda>i. i = rid) (v_db v)\<rparr>)"
  by (simp add: wp_def hard_delete_row_run)

lemma map_of_filter_other: "k \<noteq> rid \<Longrightarrow> map_of (filter (\<lambda>r. fst r \<noteq> rid) rs) k = map_of rs k"
  by (induction rs) auto

lemma no_trace_rest: "no_trace d rid \<Longrightarrow> no_trace (d\<lparr>tb_health := AList.delete rid (tb_health d), tb_audit := a\<rparr>) rid"
  by (auto simp: no_trace_def AList.delete_eq)

text \<open>
  C28: destroying a record leaves no trace of it outside the audit log: no row of any table names it,
  the other records stay as they were, and the log gains exactly the entry of the destruction.
\<close>

theorem hard_delete_leaves_no_trace:
  assumes "hard_delete_record E C S rid v = (Inr (), v')"
  shows "no_trace (v_db v') rid
    \<and> (\<forall>k. k \<noteq> rid \<longrightarrow> map_of (tb_records (v_db v')) k = map_of (tb_records (v_db v)) k)
    \<and> (\<exists>e. tb_audit (v_db v') = tb_audit (v_db v) @ [e] \<and> al_operation e = ''record.destroy'' \<and> al_record_id e = Some rid)"
proof -
  have "wp (hard_delete_record E C S rid) (\<lambda>_ v'. no_trace (v_db v') rid
    \<and> (\<forall>k. k \<noteq> rid \<longrightarrow> map_of (tb_records (v_db v')) k = map_of (tb_records (v_db v)) k)
    \<and> (\<exists>e. tb_audit (v_db v') = tb_audit (v_db v) @ [e] \<and> al_operation e = ''record.destroy'' \<and> al_record_id e = Some rid)) v"
    (is "wp _ ?Q v")
  proof -
    let ?d = "cascade_delete (\<lambda>i. i = rid) (v_db v)"
    have d: "\<forall>k. k \<noteq> rid \<longrightarrow> map_of (tb_records ?d) k = map_of (tb_records (v_db v)) k" "tb_audit ?d = tb_audit (v_db v)"
      using map_of_filter_other by (auto simp: cascade_delete_def)
    have "wp (hard_delete_row rid) (\<lambda>_. wp (delete_record_health_state rid) (\<lambda>_.
        wp (insert_audit_entry C RecordDestroy (Some rid) (Some n) None) ?Q)) v"
      if "map_of (tb_records (v_db v)) rid = Some row" for n row
      using map_of_SomeD[OF that] no_trace_rest[OF cascade_no_trace[of "\<lambda>i. i = rid"]] d
      by (subst wp_hard_delete_row)
        (force, simp add: wp_simps insert_audit_entry_def delete_record_health_state_def change_def audit_to_db_str_def)
    then show ?thesis
      by (auto simp: hard_delete_record_def wp_combinators wp_results wp_get_stored_record wp_decrypt_record_name
        split: option.splits sum.splits)
  qed
  then show ?thesis
    using assms by (rule wpD)
qed

lemmas demo_decrypt_simps = decrypt_stored_def demo_record_def decrypt_payload_def decrypt_json_def crypto_decrypt_def get_dek_def
  keystore_get_dek_def derive_dek_def decrypt_with_aad_def demo_crypto_env_def crypto_env.defs cloud_env.defs
  demo_service_def from_unlocked_keystore_def from_utf8_def payload_json_roundtrip

lemma decrypt_demo_record: "decrypt_stored demo_crypto_env demo_service demo_record = Inr demo_login"
  by (simp add: demo_decrypt_simps)

lemma get_demo_record: "get_stored_record demo_vault_ops 7 demo_vault1 = (Inr (stored_as demo_record (record_tag_names (v_db demo_vault1) 7)), demo_vault1)"
  using get_stored_record_row[OF demo_vault_ops_laws demo_record_typed, of demo_vault1] demo_vault1_simps by simp

theorem hard_delete_leaves_no_trace_witness:
  "no_trace (v_db (snd (hard_delete_record demo_crypto_env demo_vault_ops demo_service 7 demo_vault1))) 7"
proof -
  have "\<exists>v'. hard_delete_record demo_crypto_env demo_vault_ops demo_service 7 demo_vault1 = (Inr (), v')"
    using demo_login_ok get_demo_record decrypt_demo_record hard_delete_row_run[of 7 demo_vault1] demo_vault1_simps(2)
    by (auto simp: hard_delete_record_def require_unlocked_def decrypt_record_name_def crypto_res_def io_map_err_def
      io_bind_def delete_record_health_state_def insert_audit_entry_def utc_now_def exec_def change_def demo_vault1_def
      demo_vault_ops_def split: prod.splits)
  then show ?thesis
    using hard_delete_leaves_no_trace[of demo_crypto_env demo_vault_ops demo_service 7 demo_vault1] by auto
qed

section \<open>The trash\<close>

definition set_row :: "uuid \<Rightarrow> (record_row \<Rightarrow> record_row) \<Rightarrow> (uuid \<times> record_row) list \<Rightarrow> (uuid \<times> record_row) list" where
  "set_row rid f rs = map (\<lambda>(i, row). (i, if i = rid then f row else row)) rs"

lemma map_of_set_row: "map_of (set_row rid f rs) rid = map_option f (map_of rs rid)"
  by (induction rs) (auto simp: set_row_def)

lemma keys_set_row: "fst ` set (set_row rid f rs) = fst ` set rs"
  unfolding set_row_def by (rule fst_set_update)

lemma set_row_back:
  assumes "distinct (map fst rs)" "map_of rs rid = Some row" "f (g row) = row"
  shows "set_row rid f (set_row rid g rs) = rs"
  unfolding set_row_def map_map
proof (rule map_idI)
  fix x assume "x \<in> set rs"
  then have "map_of rs (fst x) = Some (snd x)"
    using assms(1) by (simp add: map_of_eq_Some_iff)
  then show "((\<lambda>(i, row). (i, if i = rid then f row else row)) \<circ> (\<lambda>(i, row). (i, if i = rid then g row else row))) x = x"
    using assms(2,3) by (cases x) auto
qed

text \<open>The tables neither the trash nor the sync state touches.\<close>

definition rest_of :: "vault_db \<Rightarrow> (int \<times> string) list \<times> (uuid \<times> int) list \<times> history_row list \<times> (uuid \<times> index_row) list" where
  "rest_of d = (tb_tags d, tb_record_tags d, tb_history d, tb_index d)"

lemma rest_of_tags: "rest_of d' = rest_of d \<Longrightarrow> record_tag_names d' rid = record_tag_names d rid"
  by (simp only: rest_of_def record_tag_names_def prod.inject)

lemma wpt_set_row:
  "wpt (exec (update_rows (\<lambda>i _. i = rid) f)) Q v \<longleftrightarrow>
     Q (length (filter (\<lambda>(i, row). i = rid) (tb_records (v_db v)))) (v\<lparr>v_db := (v_db v)\<lparr>tb_records := set_row rid f (tb_records (v_db v))\<rparr>\<rparr>)"
  by (simp add: wp_simps update_rows_def set_row_def)

lemma wpt_pending:
  assumes "rid \<in> fst ` set (tb_records (v_db v))"
    "\<And>v'. tb_records (v_db v') = tb_records (v_db v) \<Longrightarrow> rest_of (v_db v') = rest_of (v_db v) \<Longrightarrow> Q () v'"
  shows "wpt (mark_records_pending_sync C [rid]) Q v"
  using assms by (simp add: mark_records_pending_sync_def wp_simps upsert_sync_state_pending_def upsert_sync_def Let_def rest_of_def)

lemma wpt_audit_rest:
  assumes "\<And>v'. tb_records (v_db v') = tb_records (v_db v) \<Longrightarrow> rest_of (v_db v') = rest_of (v_db v) \<Longrightarrow> Q () v'"
  shows "wpt (insert_audit_entry C op i n x) Q v"
  using assms by (simp add: wp_simps insert_audit_entry_def change_def rest_of_def)

lemma wpt_health: "wpt (delete_record_health_state rid) Q v \<longleftrightarrow>
    Q () (v\<lparr>v_db := (v_db v)\<lparr>tb_health := AList.delete rid (tb_health (v_db v))\<rparr>\<rparr>)"
  by (simp add: wp_simps delete_record_health_state_def change_def)

lemmas wpt_trash = wp_combinators wp_world wp_results wp_get_stored_record wp_decrypt_record_name wpt_set_row wpt_health

lemma soft_delete_ok:
  assumes "is_unlocked (vs_crypto S)" "map_of (tb_records (v_db v)) rid = Some row"
    "to_stored_record C rid row (record_tag_names (v_db v) rid) = Inr stored" "decrypt_stored E S stored = Inr p"
    "vault_ops_laws C"
  shows "wpt (soft_delete_record E C S rid) (\<lambda>_ v'. rest_of (v_db v') = rest_of (v_db v)
    \<and> (\<exists>t. chrono_range C t \<and> tb_records (v_db v') =
         set_row rid (\<lambda>row. row\<lparr>rr_deleted := 1, rr_deleted_at := Some t\<rparr>) (tb_records (v_db v)))) v"
proof -
  have "chrono_range C (datetime_to_timestamp (fst (dbo_now C w)))" for w
    using assms(5) by (simp add: vault_ops_laws_def datetime_to_timestamp_def)
  moreover have "rid \<in> fst ` set (tb_records (v_db v))"
    using map_of_SomeD[OF assms(2)] by force
  ultimately show ?thesis
    using assms(1-4)
    by (auto simp: soft_delete_record_def soft_delete_row_def wpt_trash rest_of_def keys_set_row
      intro!: wpt_audit_rest wpt_pending exI[of _ "datetime_to_timestamp (fst (dbo_now C (v_ext v)))"]) force
qed

lemma restore_ok:
  assumes "is_unlocked (vs_crypto S)" "map_of (tb_records (v_db v)) rid = Some row"
    "to_stored_record C rid row (record_tag_names (v_db v) rid) = Inr stored" "decrypt_stored E S stored = Inr p"
  shows "wpt (restore_record E C S rid) (\<lambda>_ v'. rest_of (v_db v') = rest_of (v_db v)
    \<and> tb_records (v_db v') = set_row rid (\<lambda>row. row\<lparr>rr_deleted := 0, rr_deleted_at := None\<rparr>) (tb_records (v_db v))) v"
proof -
  have "rid \<in> fst ` set (tb_records (v_db v))"
    using map_of_SomeD[OF assms(2)] by force
  then show ?thesis
    using assms
    by (auto simp: restore_record_def restore_row_def wpt_trash rest_of_def keys_set_row intro!: wpt_audit_rest wpt_pending) force
qed

lemma to_stored_deleted:
  assumes "to_stored_record C rid row tags = Inr r" "chrono_range C t"
  shows "to_stored_record C rid (row\<lparr>rr_deleted := 1, rr_deleted_at := Some t\<rparr>) tags
    = Inr (r\<lparr>sr_deleted := True, sr_deleted_at := Some (t * 1000000000)\<rparr>)"
proof -
  have "opt_timestamp C (Some t) = Inr (Some (t * 1000000000))"
    using assms(2) by (simp add: opt_timestamp_def timestamp_to_datetime_def)
  then show ?thesis
    using assms(1) by (auto simp: to_stored_record_def monad_simps split: if_splits)
qed

text \<open>
  the trash gives back what was put into it. Deleting a readable active record succeeds and marks it
  deleted; restoring it then succeeds, and the records, their tags, the password history and the list
  index are exactly what they were before.
\<close>

theorem trash_roundtrip:
  assumes "vault_ops_laws C" "is_unlocked (vs_crypto S)" "db_wf (v_db v)"
    "map_of (tb_records (v_db v)) rid = Some row" "rr_deleted row = 0" "rr_deleted_at row = None"
    "to_stored_record C rid row (record_tag_names (v_db v) rid) = Inr stored" "decrypt_stored E S stored = Inr p"
  shows "\<exists>v1 v2. soft_delete_record E C S rid v = (Inr (), v1)
    \<and> (\<exists>row1. map_of (tb_records (v_db v1)) rid = Some row1 \<and> rr_deleted row1 = 1)
    \<and> restore_record E C S rid v1 = (Inr (), v2)
    \<and> tb_records (v_db v2) = tb_records (v_db v) \<and> rest_of (v_db v2) = rest_of (v_db v)"
proof -
  obtain v1 t where 1: "soft_delete_record E C S rid v = (Inr (), v1)" "rest_of (v_db v1) = rest_of (v_db v)" "chrono_range C t"
    "tb_records (v_db v1) = set_row rid (\<lambda>row. row\<lparr>rr_deleted := 1, rr_deleted_at := Some t\<rparr>) (tb_records (v_db v))"
    using wptD[OF soft_delete_ok[OF assms(2,4,7,8,1)]] by auto
  let ?row = "row\<lparr>rr_deleted := 1, rr_deleted_at := Some t\<rparr>"
  have m1: "map_of (tb_records (v_db v1)) rid = Some ?row"
    using assms(4) 1(4) by (simp add: map_of_set_row)
  have s1: "to_stored_record C rid ?row (record_tag_names (v_db v1) rid)
      = Inr (stored\<lparr>sr_deleted := True, sr_deleted_at := Some (t * 1000000000)\<rparr>)"
    using to_stored_deleted[OF assms(7) 1(3)] rest_of_tags[OF 1(2)] by simp
  have dec: "decrypt_stored E S (stored\<lparr>sr_deleted := True, sr_deleted_at := Some (t * 1000000000)\<rparr>) = Inr p"
    using assms(8) by (simp add: decrypt_stored_def)
  obtain v2 where 2: "restore_record E C S rid v1 = (Inr (), v2)" "rest_of (v_db v2) = rest_of (v_db v1)"
    "tb_records (v_db v2) = set_row rid (\<lambda>row. row\<lparr>rr_deleted := 0, rr_deleted_at := None\<rparr>) (tb_records (v_db v1))"
    using wptD[OF restore_ok[OF assms(2) m1 s1 dec]] by auto
  have "distinct (map fst (tb_records (v_db v)))"
    using assms(3) by (simp add: db_wf_def)
  then have "tb_records (v_db v2) = tb_records (v_db v)"
    unfolding 2(3) 1(4) by (rule set_row_back[OF _ assms(4)]) (use assms(5,6) in \<open>cases row; simp\<close>)
  then show ?thesis
    using 1 2 m1 by (intro exI[of _ v1] exI[of _ v2]) simp
qed

theorem trash_roundtrip_witness:
  "\<exists>v1 v2. soft_delete_record demo_crypto_env demo_vault_ops demo_service 7 demo_vault1 = (Inr (), v1)
     \<and> restore_record demo_crypto_env demo_vault_ops demo_service 7 v1 = (Inr (), v2)
     \<and> tb_records (v_db v2) = tb_records (v_db demo_vault1)"
  using trash_roundtrip[OF demo_vault_ops_laws demo_login_ok(4) demo_vault1_simps(1,2) _ _ demo_vault1_simps(3), of demo_crypto_env demo_login]
    decrypt_demo_record
  by (auto simp: row_of_record_def demo_record_def bool_int_def)

end
