(* ===== verification/Vault_Rotate.thy ===== *)
theory Vault_Rotate
  imports Vault_Delete
begin

text \<open>
  Re-encryption of a record under the current key version (\<open>services/vault/record/migration.rs\<close>): what
  the record says stays, only its ciphertext, nonce, key version, version and time change.
\<close>

lemma seconds_of_seconds [simp]: "datetime_to_timestamp (to_seconds t) = datetime_to_timestamp t"
  by (simp add: datetime_to_timestamp_def to_seconds_def)

lemma printable_seconds: "printable_time t \<Longrightarrow> printable_time (to_seconds t)"
proof -
  assume t: "printable_time t"
  have "- 62135596800 \<le> t div 1000000000"
    using t zdiv_mono1[of "- 62135596800000000000" t 1000000000] by (simp add: printable_time_def)
  moreover have "t div 1000000000 * 1000000000 \<le> t"
    using div_mult_mod_eq[of t 1000000000] pos_mod_sign[of 1000000000 t] by linarith
  ultimately show ?thesis
    using t by (simp add: printable_time_def to_seconds_def)
qed

lemma opt_printable_seconds: "opt_printable x \<Longrightarrow> opt_printable (map_option to_seconds x)"
  by (cases x) (simp_all add: opt_printable_def printable_seconds)

lemma opt_seconds [simp]: "map_option datetime_to_timestamp (map_option to_seconds x) = map_option datetime_to_timestamp x"
  by (cases x) simp_all

text \<open>The re-encrypted form of a record.\<close>

definition re_encrypted :: "stored_record \<Rightarrow> string list \<Rightarrow> bytes \<Rightarrow> bytes \<Rightarrow> u32 \<Rightarrow> timestamp \<Rightarrow> stored_record" where
  "re_encrypted r tags c n u now = (stored_as r tags)\<lparr> sr_encrypted_data := c, sr_nonce := n, sr_dek_version := u,
     sr_updated_at := now, sr_version := sr_version r + 1 \<rparr>"

lemma re_encrypted_row: "updated_row (re_encrypted r tags c n u now) (row_of_record r) = row_of_record (re_encrypted r tags c n u now)"
  by (simp add: updated_row_def row_of_record_def re_encrypted_def stored_as_def aad_param_def)

lemma re_encrypted_typed:
  "record_typed r \<Longrightarrow> length n = 24 \<Longrightarrow> printable_time now \<Longrightarrow> record_typed (re_encrypted r tags c n u now)"
  by (simp add: record_typed_def re_encrypted_def stored_as_def printable_seconds opt_printable_seconds)

lemma decrypt_plaintext:
  assumes "decrypt_payload E cm c n aad u = Inr p"
  obtains b where "crypto_decrypt E cm c n aad u = Inr b"
    "\<And>c' n' u'. crypto_decrypt E cm c' n' aad u' = Inr b \<Longrightarrow> decrypt_payload E cm c' n' aad u' = Inr p"
  using assms by (auto simp: decrypt_payload_def decrypt_json_def monad_simps)

lemma re_encrypt_ok:
  assumes laws: "crypto_laws E" "vault_ops_laws C" and kek: "has_kek (vs_crypto S)" and wf: "db_wf (v_db v)"
    and r: "record_typed r" "map_of (tb_records (v_db v)) (sr_id r) = Some (row_of_record r)" "decrypt_stored E S r = Inr p"
  shows "\<exists>v' r'. re_encrypt_record E C S (sr_id r) (sr_dek_version r) v = (Inr (), v')
    \<and> map_of (tb_records (v_db v')) (sr_id r) = Some (row_of_record r') \<and> record_typed r'
    \<and> decrypt_stored E S r' = Inr p \<and> sr_dek_version r' = cg_current_dek_version (vs_crypto S)
    \<and> sr_version r' = sr_version r + 1 \<and> sr_credential_type r' = sr_credential_type r
    \<and> (\<forall>k. k \<noteq> sr_id r \<longrightarrow> map_of (tb_records (v_db v')) k = map_of (tb_records (v_db v)) k)
    \<and> sr_id r' = sr_id r \<and> v_db v' = (v_db v)\<lparr>tb_records := tb_records (v_db v')\<rparr>"
proof -
  let ?cm = "vs_crypto S" and ?tags = "record_tag_names (v_db v) (sr_id r)"
  have g: "get_stored_record C (sr_id r) v = (Inr (stored_as r ?tags), v)"
    by (rule get_stored_record_row[OF laws(2) r(1,2)])
  obtain b where b: "crypto_decrypt E ?cm (sr_encrypted_data r) (sr_nonce r) (sr_aad r) (sr_dek_version r) = Inr b"
    "\<And>c' n' u'. crypto_decrypt E ?cm c' n' (sr_aad r) u' = Inr b \<Longrightarrow> decrypt_payload E ?cm c' n' (sr_aad r) u' = Inr p"
    using r(3) decrypt_plaintext unfolding decrypt_stored_def by metis
  obtain c n w where e: "crypto_encrypt E C ?cm b (sr_aad r) v = (Inr (c, n), v\<lparr>v_ext := w\<rparr>)" "length n = 24"
    "crypto_decrypt E ?cm c n (sr_aad r) (cg_current_dek_version ?cm) = Inr b"
    using encrypt_ok[OF laws kek, where x = "v_ext v" and b = b and aad = "sr_aad r"] by metis
  define r' where "r' = re_encrypted r ?tags c n (cg_current_dek_version ?cm) (fst (dbo_now C w))"
  define v1 where "v1 = v\<lparr>v_ext := snd (dbo_now C w)\<rparr>"
  have row: "rr_version (row_of_record r) = sint (sr_version r)" "sr_id r' = sr_id r"
    by (simp_all add: row_of_record_def r'_def re_encrypted_def)
  have upd: "updated_row r' (row_of_record r) = row_of_record r'"
    unfolding r'_def by (rule re_encrypted_row)
  obtain v' where u: "update_record r' (sr_version r) v1 = (Inr True, v')"
    "map_of (tb_records (v_db v')) (sr_id r) = Some (row_of_record r')"
    "\<And>k. k \<noteq> sr_id r \<Longrightarrow> map_of (tb_records (v_db v')) k = map_of (tb_records (v_db v)) k"
    "v_db v' = (v_db v)\<lparr>tb_records := tb_records (v_db v')\<rparr>"
  proof (rule update_record_spec[of v1 r' "row_of_record r" "sr_version r"])
    show "distinct (map fst (tb_records (v_db v1)))"
      using wf by (simp add: v1_def db_wf_def)
    show "map_of (tb_records (v_db v1)) (sr_id r') = Some (row_of_record r)"
      using r(2) by (simp add: v1_def row)
    fix v' assume "update_record r' (sr_version r) v1 = (Inr (rr_version (row_of_record r) = sint (sr_version r)), v')"
      "map_of (tb_records (v_db v')) (sr_id r') = Some (if rr_version (row_of_record r) = sint (sr_version r)
         then updated_row r' (row_of_record r) else row_of_record r)"
      "\<And>k. k \<noteq> sr_id r' \<Longrightarrow> map_of (tb_records (v_db v')) k = map_of (tb_records (v_db v1)) k"
      and db: "v' = v1\<lparr>v_db := (v_db v1)\<lparr>tb_records := tb_records (v_db v')\<rparr>\<rparr>"
    moreover have "v_db v' = (v_db v)\<lparr>tb_records := tb_records (v_db v')\<rparr>"
      using db by (metis v1_def vault.select_convs(1) vault.surjective vault.update_convs(1) vault.update_convs(2))
    ultimately show ?thesis
      by (intro that[of v']) (simp_all add: row v1_def upd)
  qed
  have "re_encrypt_record E C S (sr_id r) (sr_dek_version r) v = (Inr (), v')"
    using g b(1) e(1) u(1)
    by (cases "dbo_now C w") (simp add: re_encrypt_record_def crypto_res_def io_map_err_def io_bind_def utc_now_def Let_def
      v1_def r'_def re_encrypted_def)
  moreover have "record_typed r'"
    using re_encrypted_typed[OF r(1) e(2) now_printable[OF laws(2)]] by (simp add: r'_def)
  moreover have "decrypt_stored E S r' = Inr p"
    using b(2)[OF e(3)] by (simp add: decrypt_stored_def r'_def re_encrypted_def)
  ultimately show ?thesis
    using u(2-4) by (intro exI[of _ v'] exI[of _ r']) (simp add: r'_def re_encrypted_def)
qed

text \<open>
  re-encryption keeps what a record says. Re-encrypting a readable record under the version it was
  encrypted with succeeds; the record then carries the current key version and the next record
  version, decrypts to the same payload, and every other record is as it was.
\<close>

theorem re_encrypt_keeps_payload:
  assumes laws: "crypto_laws E" "vault_ops_laws C" and kek: "has_kek (vs_crypto S)" and wf: "db_wf (v_db v)"
    and r: "record_typed r" "map_of (tb_records (v_db v)) (sr_id r) = Some (row_of_record r)" "decrypt_stored E S r = Inr p"
  shows "\<exists>v' r'. re_encrypt_record E C S (sr_id r) (sr_dek_version r) v = (Inr (), v')
    \<and> map_of (tb_records (v_db v')) (sr_id r) = Some (row_of_record r') \<and> record_typed r'
    \<and> decrypt_stored E S r' = Inr p \<and> sr_dek_version r' = cg_current_dek_version (vs_crypto S)
    \<and> sr_version r' = sr_version r + 1 \<and> sr_credential_type r' = sr_credential_type r
    \<and> (\<forall>k. k \<noteq> sr_id r \<longrightarrow> map_of (tb_records (v_db v')) k = map_of (tb_records (v_db v)) k)"
  using re_encrypt_ok[OF assms] by meson

theorem re_encrypt_keeps_payload_witness:
  "\<exists>v' r'. re_encrypt_record demo_crypto_env demo_vault_ops demo_service 7 1 demo_vault1 = (Inr (), v')
     \<and> map_of (tb_records (v_db v')) 7 = Some (row_of_record r') \<and> decrypt_stored demo_crypto_env demo_service r' = Inr demo_login"
  using re_encrypt_keeps_payload[OF demo_crypto_laws demo_vault_ops_laws demo_login_ok(3) demo_vault1_simps(1) demo_record_typed _
      decrypt_demo_record] demo_vault1_simps(2)
  by (auto simp: demo_record_def)

end
