(* ===== verification/Vault_Create.thy ===== *)
theory Vault_Create
  imports Vault_Methods
begin

text \<open>
  A created record reads back: the tags of an insert are the tags of the record, and the payload decrypts.
\<close>

section \<open>Tags of an insert\<close>

text \<open>The tables other than those of the tags.\<close>

definition untagged :: "vault_db \<Rightarrow> vault_db" where
  "untagged d = d\<lparr>tb_tags := [], tb_tags_seq := 0, tb_record_tags := []\<rparr>"

lemma record_tag_names_set:
  assumes "db_wf d"
  shows "set (record_tag_names d rid) = {n. \<exists>i. (rid, i) \<in> set (tb_record_tags d) \<and> (i, n) \<in> set (tb_tags d)}"
  using assms unfolding record_tag_names_def db_wf_def
  by (auto simp: List.map_filter_def image_iff map_of_eq_Some_iff split: if_splits) force

definition insert_tag_step :: "uuid \<Rightarrow> string \<Rightarrow> ('w, unit) query" where
  "insert_tag_step rid name = io_bind (exec (insert_or_ignore_tag name)) (\<lambda>_.
     io_bind (exec (select_tag_id name)) (\<lambda>tag_id. attach_tag rid tag_id))"

lemma add_tag_names:
  assumes "db_wf d" "tag_id_of d name = None" "sql_length name \<le> 50"
  shows "set (record_tag_names (add_tag name d) rid) = set (record_tag_names d rid)"
proof -
  have "(a, tb_tags_seq d + 1) \<notin> set (tb_record_tags d)" for a
    using assms(1) unfolding db_wf_def by fastforce
  then show ?thesis
    unfolding record_tag_names_set[OF assms(1)] record_tag_names_set[OF add_tag_wf[OF assms]]
    by (auto simp: add_tag_def)
qed

lemma attach_names:
  assumes "db_wf d" "(i, name) \<in> set (tb_tags d)" "rid \<in> fst ` set (tb_records d)"
  obtains d' where "\<And>v :: 'w vault. v_db v = d \<Longrightarrow> attach_tag rid i v = (Inr (), v\<lparr>v_db := d'\<rparr>)"
    "db_wf d'" "untagged d' = untagged d" "set (record_tag_names d' rid) = insert name (set (record_tag_names d rid))"
proof -
  define d' where "d' = (if (rid, i) \<in> set (tb_record_tags d) then d else d\<lparr>tb_record_tags := tb_record_tags d @ [(rid, i)]\<rparr>)"
  have "i \<in> fst ` set (tb_tags d)"
    using assms(2) by force
  then have run: "attach_tag rid i v = (Inr (), v\<lparr>v_db := d'\<rparr>)" if "v_db v = d" for v :: "'w vault"
    using assms(3) that by (auto simp: attach_tag_def exec_def d'_def)
  have wf: "db_wf d'"
    using assms \<open>i \<in> _\<close> by (auto simp: d'_def db_wf_def)
  have uniq: "m = name" if "(i, m) \<in> set (tb_tags d)" for m
    by (rule eq_key_imp_eq_value[OF _ that assms(2)]) (use assms(1) in \<open>simp add: db_wf_def\<close>)
  have d': "tb_tags d' = tb_tags d" "set (tb_record_tags d') = insert (rid, i) (set (tb_record_tags d))"
    by (auto simp: d'_def)
  have "set (record_tag_names d' rid) = insert name (set (record_tag_names d rid))"
    unfolding record_tag_names_set[OF assms(1)] record_tag_names_set[OF wf] d'
    using assms(2) uniq by blast
  moreover have "untagged d' = untagged d"
    by (simp add: d'_def untagged_def)
  ultimately show thesis
    using that[OF run wf] by blast
qed

definition tagged_with :: "uuid \<Rightarrow> string set \<Rightarrow> 'w vault \<Rightarrow> 'w vault \<Rightarrow> bool" where
  "tagged_with rid names v v' \<longleftrightarrow> db_wf (v_db v') \<and> v_ext v' = v_ext v \<and> untagged (v_db v') = untagged (v_db v)
     \<and> set (record_tag_names (v_db v') rid) = names \<union> set (record_tag_names (v_db v) rid)"

lemma insert_tag_step_ok:
  fixes v :: "'w vault"
  assumes "db_wf (v_db v)" "rid \<in> fst ` set (tb_records (v_db v))" "sql_length name \<le> 50"
  shows "wpt (insert_tag_step rid name) (\<lambda>_. tagged_with rid {name} v) v"
proof -
  let ?d = "v_db v"
  define d1 where "d1 = (if tag_id_of ?d name = None then add_tag name ?d else ?d)"
  have 1: "insert_or_ignore_tag name ?d = (Inr (), d1)"
    using assms(3) by (auto simp: insert_or_ignore_tag_def change_def d1_def)
  have wf1: "db_wf d1"
    using assms add_tag_wf by (simp add: d1_def)
  have same: "untagged d1 = untagged ?d" "tb_records d1 = tb_records ?d"
    by (simp_all add: d1_def add_tag_def untagged_def)
  have names1: "set (record_tag_names d1 rid) = set (record_tag_names ?d rid)"
    using add_tag_names assms by (simp add: d1_def)
  have "name \<in> snd ` set (tb_tags d1)"
    using tag_id_of_iff[of ?d name] by (auto simp: d1_def add_tag_def)
  then obtain i where i: "tag_id_of d1 name = Some i" "(i, name) \<in> set (tb_tags d1)"
    using tag_id_of_iff[of d1 name] tag_id_of_Some by fastforce
  obtain d' where d': "\<And>v :: 'w vault. v_db v = d1 \<Longrightarrow> attach_tag rid i v = (Inr (), v\<lparr>v_db := d'\<rparr>)"
    "db_wf d'" "untagged d' = untagged d1" "set (record_tag_names d' rid) = insert name (set (record_tag_names d1 rid))"
    using attach_names[OF wf1 i(2), of rid] assms(2) same(2) by metis
  have "insert_tag_step rid name v = (Inr (), v\<lparr>v_db := d'\<rparr>)"
    using 1 i d'(1) by (simp add: insert_tag_step_def io_bind_def exec_def select_tag_id_def)
  then show ?thesis
    using d' same names1 by (simp add: wpt_def tagged_with_def)
qed

lemma untagged_records: "untagged d' = untagged d \<Longrightarrow> tb_records d' = tb_records d"
  by (metis (no_types, lifting) untagged_def vault_db.select_convs(1) vault_db.surjective vault_db.update_convs)

lemma insert_tags_ok:
  assumes "db_wf (v_db v)" "rid \<in> fst ` set (tb_records (v_db v))" "\<forall>t \<in> set tags. sql_length t \<le> 50"
  shows "wpt (for_each (insert_tag_step rid) tags) (\<lambda>_. tagged_with rid (set tags) v) v"
  using assms
proof (induction tags arbitrary: v)
  case Nil
  then show ?case by (simp add: wpt_def tagged_with_def)
next
  case (Cons t tags)
  have "wpt (insert_tag_step rid t) (\<lambda>_. tagged_with rid {t} v) v"
    using Cons.prems by (intro insert_tag_step_ok) auto
  then show ?case
    unfolding for_each.simps wp_combinators
  proof (rule wpt_mono)
    fix u v' assume t: "tagged_with rid {t} v v'"
    then have "db_wf (v_db v')" "tb_records (v_db v') = tb_records (v_db v)"
      using untagged_records[of "v_db v'" "v_db v"] by (simp_all add: tagged_with_def)
    then have "wpt (for_each (insert_tag_step rid) tags) (\<lambda>_. tagged_with rid (set tags) v') v'"
      using Cons.prems by (intro Cons.IH) simp_all
    then show "wpt (for_each (insert_tag_step rid) tags) (\<lambda>_. tagged_with rid (set (t # tags)) v) v'"
      by (rule wpt_mono) (use t in \<open>auto simp: tagged_with_def\<close>)
  qed
qed

lemma wf_record_tags: "db_wf d \<Longrightarrow> rt \<in> set (tb_record_tags d) \<Longrightarrow> fst rt \<in> fst ` set (tb_records d)"
  by (simp add: db_wf_def)

lemma insert_record_ok:
  assumes "db_wf (v_db v)" "sr_id r \<notin> fst ` set (tb_records (v_db v))" "\<forall>t \<in> set (sr_tags r). sql_length t \<le> 50"
  defines "d1 \<equiv> (v_db v)\<lparr>tb_records := tb_records (v_db v) @ [(sr_id r, row_of_record r)]\<rparr>"
  shows "wpt (insert_record r) (\<lambda>_ v'. db_wf (v_db v') \<and> v_ext v' = v_ext v \<and> untagged (v_db v') = untagged d1
    \<and> set (record_tag_names (v_db v') (sr_id r)) = set (sr_tags r)) v"
proof -
  have wf: "db_wf d1"
    using assms(1,2) by (auto simp: d1_def db_wf_def)
  have none: "set (record_tag_names d1 (sr_id r)) = {}"
  proof -
    have "(sr_id r, i) \<notin> set (tb_record_tags d1)" for i
      using wf_record_tags[OF assms(1), of "(sr_id r, i)"] assms(2) by (auto simp: d1_def)
    then show ?thesis
      unfolding record_tag_names_set[OF wf] by blast
  qed
  have "wpt (for_each (insert_tag_step (sr_id r)) (sr_tags r)) (\<lambda>_. tagged_with (sr_id r) (set (sr_tags r)) (v\<lparr>v_db := d1\<rparr>)) (v\<lparr>v_db := d1\<rparr>)"
    by (rule insert_tags_ok) (use wf assms(3) in \<open>simp_all add: d1_def\<close>)
  then have "wpt (for_each (insert_tag_step (sr_id r)) (sr_tags r)) (\<lambda>_ v'. db_wf (v_db v') \<and> v_ext v' = v_ext v
      \<and> untagged (v_db v') = untagged d1 \<and> set (record_tag_names (v_db v') (sr_id r)) = set (sr_tags r)) (v\<lparr>v_db := d1\<rparr>)"
    by (rule wpt_mono) (simp add: tagged_with_def none)
  then show ?thesis
    using assms(2) by (simp add: insert_record_def insert_tag_step_def[abs_def] wp_combinators wpt_in_tx wp_exec d1_def)
qed

text \<open>The row and the tags of a record are in the tables.\<close>

definition stored_with :: "stored_record \<Rightarrow> 'w vault \<Rightarrow> bool" where
  "stored_with r v \<longleftrightarrow> map_of (tb_records (v_db v)) (sr_id r) = Some (row_of_record r)
     \<and> set (record_tag_names (v_db v) (sr_id r)) = set (sr_tags r)"

lemma record_tag_names_cong: "tb_tags d' = tb_tags d \<Longrightarrow> tb_record_tags d' = tb_record_tags d \<Longrightarrow> record_tag_names d' rid = record_tag_names d rid"
  by (simp only: record_tag_names_def)

lemma stored_with_cong [cong]:
  "tb_records (v_db v) = tb_records (v_db v') \<Longrightarrow> tb_tags (v_db v) = tb_tags (v_db v')
     \<Longrightarrow> tb_record_tags (v_db v) = tb_record_tags (v_db v') \<Longrightarrow> stored_with r v = stored_with r v'"
  by (simp add: stored_with_def record_tag_names_cong[of "v_db v" "v_db v'"])

lemma stored_with_key: "stored_with r v \<Longrightarrow> sr_id r \<in> fst ` set (tb_records (v_db v))"
  by (force simp: stored_with_def dest: map_of_SomeD)

lemma insert_record_stored:
  assumes "db_wf (v_db v)" "sr_id r \<notin> fst ` set (tb_records (v_db v))" "\<forall>t \<in> set (sr_tags r). sql_length t \<le> 50"
  shows "wpt (insert_record r) (\<lambda>_. stored_with r) v"
  using insert_record_ok[OF assms]
proof (rule wpt_mono)
  fix u :: unit and v' :: "'a vault"
  assume a: "db_wf (v_db v') \<and> v_ext v' = v_ext v
   \<and> untagged (v_db v') = untagged ((v_db v)\<lparr>tb_records := tb_records (v_db v) @ [(sr_id r, row_of_record r)]\<rparr>)
   \<and> set (record_tag_names (v_db v') (sr_id r)) = set (sr_tags r)"
  then have "tb_records (v_db v') = tb_records (v_db v) @ [(sr_id r, row_of_record r)]"
    using untagged_records[of "v_db v'"] by fastforce
  then show "stored_with r v'"
    using a assms(2) by (simp add: stored_with_def map_add_def map_of_eq_None_iff[THEN iffD2])
qed

section \<open>Creating and viewing\<close>

text \<open>What a new record needs beyond the checks of the service: Rust strings, tags within the limit as
  stored, an expiry in the range of dates, and an identifier that is not in use.\<close>

definition creatable :: "('w, 'y) vault_ops_scheme \<Rightarrow> create_record_params \<Rightarrow> 'w vault \<Rightarrow> bool" where
  "creatable C cp v \<longleftrightarrow> payload_utf8 (cp_payload cp) \<and> validate_payload (cp_payload cp) = Inr ()
     \<and> validate_tags (cp_tags cp) = Inr () \<and> (\<forall>t \<in> set (cp_tags cp). sql_length t \<le> 50)
     \<and> opt_printable (cp_expires_at cp) \<and> fst (vo_uuid C (v_ext v)) \<notin> fst ` set (tb_records (v_db v))"

lemma wpt_set_metadata: "wpt (dbq (set_metadata k x)) Q v \<longleftrightarrow> Q () (v\<lparr>v_db := (v_db v)\<lparr>tb_metadata := AList.update k x (tb_metadata (v_db v))\<rparr>\<rparr>)"
  by (simp add: wp_simps set_metadata_def change_def)

lemma wpt_marks:
  "wpt mark_record_list_index_dirty Q v \<longleftrightarrow>
     Q () (v\<lparr>v_db := (v_db v)\<lparr>tb_metadata := AList.update ''record_list_index_dirty'' ''1'' (tb_metadata (v_db v))\<rparr>\<rparr>)"
  "wpt mark_record_list_index_clean Q v \<longleftrightarrow>
     Q () (v\<lparr>v_db := (v_db v)\<lparr>tb_metadata := AList.update ''record_list_index_dirty'' ''0'' (tb_metadata (v_db v))\<rparr>\<rparr>)"
  unfolding mark_record_list_index_dirty_def mark_record_list_index_clean_def wpt_set_metadata by (rule refl)+

lemma insert_after_dirty:
  assumes "db_wf (v_db v)" "sr_id r \<notin> fst ` set (tb_records (v_db v))" "\<forall>t \<in> set (sr_tags r). sql_length t \<le> 50"
    "\<And>v'. stored_with r v' \<Longrightarrow> Q v'"
  shows "wpt mark_record_list_index_dirty (\<lambda>_. wpt (insert_record r) (\<lambda>_. Q)) v"
  unfolding wpt_marks using assms by (intro wpt_mono[OF insert_record_stored]) (simp_all add: db_wf_def distinct_update)

lemma wpt_audit:
  "(\<And>a w. Q () (v\<lparr>v_ext := w, v_db := (v_db v)\<lparr>tb_audit := a\<rparr>\<rparr>)) \<Longrightarrow> wpt (dbq (insert_audit_entry C op rid n x)) Q v"
  by (simp add: wp_simps insert_audit_entry_def change_def)

lemma wpt_index:
  "rid \<in> fst ` set (tb_records (v_db v)) \<Longrightarrow> (\<And>i. Q () (v\<lparr>v_db := (v_db v)\<lparr>tb_index := i\<rparr>\<rparr>))
     \<Longrightarrow> wpt (upsert_record_list_index_for_payload C rid p) Q v"
  by (cases "record_index_fields_from_payload p")
    (auto simp: wp_simps upsert_record_list_index_for_payload_def upsert_record_list_index_def)

lemma create_record_ok:
  fixes v :: "'w vault"
  assumes laws: "crypto_laws E" "vault_ops_laws C" and kek: "has_kek (vs_crypto S)" and wf: "db_wf (v_db v)"
    and ok: "creatable C cp v"
  shows "wpt (create_record E C S cp) (\<lambda>rid v'. \<exists>r. record_typed r \<and> sr_id r = rid \<and> stored_with r v'
      \<and> decrypt_stored E S r = Inr (cp_payload cp) \<and> sr_credential_type r = cp_credential_type cp \<and> sr_tags r = cp_tags cp
      \<and> sr_version r = 1 \<and> \<not> sr_deleted r \<and> sr_is_favorite r = cp_is_favorite cp
      \<and> sr_expires_at r = cp_expires_at cp) v"
    (is "wpt _ ?Q v")
proof -
  define rid where "rid = fst (vo_uuid C (v_ext v))"
  define v1 where "v1 = v\<lparr>v_ext := snd (vo_uuid C (v_ext v))\<rparr>"
  obtain c n w where e: "encrypt_payload E C (vs_crypto S) (cp_payload cp) (record_aad E rid) v1 = (Inr (c, n), v1\<lparr>v_ext := w\<rparr>)"
    "length n = 24" "decrypt_payload E (vs_crypto S) c n (record_aad E rid) (cg_current_dek_version (vs_crypto S)) = Inr (cp_payload cp)"
    using encrypt_payload_ok[OF laws kek, where x = "v_ext v1" and p = "cp_payload cp" and aad = "record_aad E rid"] ok
    unfolding creatable_def by metis
  define now where "now = fst (dbo_now C w)"
  define r where "r = \<lparr> sr_id = rid, sr_credential_type = cp_credential_type cp, sr_encrypted_data = c,
           sr_nonce = n, sr_dek_version = cg_current_dek_version (vs_crypto S), sr_aad = record_aad E rid,
           sr_is_favorite = cp_is_favorite cp, sr_expires_at = cp_expires_at cp, sr_created_at = now,
           sr_updated_at = now, sr_updated_by = vs_device_id S, sr_version = 1, sr_deleted = False,
           sr_deleted_at = None, sr_tags = cp_tags cp \<rparr>"
  have typed: "record_typed r"
    using e(2) ok now_printable[OF laws(2)] by (simp add: record_typed_def r_def now_def opt_printable_def creatable_def)
  have dec: "decrypt_stored E S r = Inr (cp_payload cp)"
    using e(3) by (simp add: decrypt_stored_def r_def)
  have Q: "?Q rid v'" if "stored_with r v'" for v'
    using that typed dec by (intro exI[of _ r]) (simp add: r_def)
  have tail: "wpt (upsert_record_list_index_for_payload C rid (cp_payload cp)) (\<lambda>_. wpt mark_record_list_index_clean (\<lambda>_.
      wpt (insert_audit_entry C RecordCreate (Some rid) (Some (pl_name (cp_payload cp))) None) (\<lambda>_. ?Q rid))) v'"
    if st: "stored_with r v'" for v'
    unfolding wpt_marks
  proof (intro wpt_index wpt_audit[unfolded wp_combinators] Q)
    show "rid \<in> fst ` set (tb_records (v_db v'))"
      using stored_with_key[OF st] by (simp add: r_def)
  qed (use st in \<open>simp cong: stored_with_cong\<close>)
  have "wpt mark_record_list_index_dirty (\<lambda>_. wpt (insert_record r) (\<lambda>_.
      wpt (upsert_record_list_index_for_payload C rid (cp_payload cp)) (\<lambda>_. wpt mark_record_list_index_clean (\<lambda>_.
      wpt (insert_audit_entry C RecordCreate (Some rid) (Some (pl_name (cp_payload cp))) None) (\<lambda>_. ?Q rid)))))
      (v\<lparr>v_ext := snd (dbo_now C w)\<rparr>)"
    using wf ok by (intro insert_after_dirty tail) (simp_all add: creatable_def r_def rid_def)
  moreover have "validate_payload (cp_payload cp) = Inr ()" "validate_tags (cp_tags cp) = Inr ()" "is_unlocked (vs_crypto S)"
    using ok kek has_kek_unlocked by (auto simp: creatable_def)
  moreover have "wpt (encrypt_payload E C (vs_crypto S) (cp_payload cp) (record_aad E rid)) Q v1 \<longleftrightarrow> Q (c, n) (v1\<lparr>v_ext := w\<rparr>)" for Q
    using e(1) by (simp add: wpt_def)
  ultimately show ?thesis
    unfolding create_record_def Let_def
    by (simp add: wp_combinators wp_results wp_world r_def[symmetric] rid_def[symmetric] v1_def[symmetric] now_def[symmetric])
      (simp add: v1_def)
qed

text \<open>The payload a decrypted record shows.\<close>

definition payload_of_view :: "decrypted_record \<Rightarrow> encrypted_payload" where
  "payload_of_view d = (case d of
     LoginRecord _ name username password url notes \<Rightarrow> LoginPayload name username password url notes
   | ApiRecord _ name app_id secret_key url notes \<Rightarrow> ApiPayload name app_id secret_key url notes
   | SshRecord _ name public_key private_key passphrase notes \<Rightarrow> SshPayload name public_key private_key passphrase notes
   | SecureNoteRecord _ name notes \<Rightarrow> SecureNotePayload name notes)"

lemma decrypted_of_match:
  assumes "sr_credential_type r = payload_credential_type p"
  obtains d where "decrypted_of r p = Inr d" "payload_of_view d = p" "dr_attrs d = attrs_of r" "dr_name d = pl_name p"
  using assms by (cases p) (auto simp: decrypted_of_def payload_credential_type_def payload_of_view_def)

lemma decrypted_of_mismatch:
  "sr_credential_type r \<noteq> payload_credential_type p
     \<Longrightarrow> decrypted_of r p = Inl (CryptoError ''credential type / payload mismatch'')"
  by (cases p; cases "sr_credential_type r") (auto simp: decrypted_of_def payload_credential_type_def)

text \<open>
  C6: a created record reads back. Creating a record under a fresh identifier succeeds and viewing it
  returns the payload, the tags, the flags and the expiry (in seconds) it was created with, at version
  1. If the credential type given for the record is not the payload's, creation succeeds all the same
  and the record can never be viewed.
\<close>

theorem create_then_view:
  assumes "crypto_laws E" "vault_ops_laws C" "has_kek (vs_crypto S)" "db_wf (v_db v)" "creatable C cp v"
  shows "\<exists>rid v1. create_record E C S cp v = (Inr rid, v1) \<and>
    (if cp_credential_type cp = payload_credential_type (cp_payload cp)
     then \<exists>dr v2. get_decrypted_record E C S rid v1 = (Inr dr, v2) \<and> payload_of_view dr = cp_payload cp
       \<and> at_id (dr_attrs dr) = rid \<and> set (at_tags (dr_attrs dr)) = set (cp_tags cp) \<and> at_version (dr_attrs dr) = 1
       \<and> at_is_favorite (dr_attrs dr) = cp_is_favorite cp \<and> \<not> at_deleted (dr_attrs dr)
       \<and> at_expires_at (dr_attrs dr) = map_option to_seconds (cp_expires_at cp)
     else get_decrypted_record E C S rid v1 = (Inl (CryptoError ''credential type / payload mismatch''), v1))"
proof -
  obtain rid v1 r where c: "create_record E C S cp v = (Inr rid, v1)" and r: "record_typed r" "sr_id r = rid"
    "map_of (tb_records (v_db v1)) rid = Some (row_of_record r)"
    "set (record_tag_names (v_db v1) rid) = set (cp_tags cp)"
    "decrypt_stored E S r = Inr (cp_payload cp)" "sr_credential_type r = cp_credential_type cp"
    "sr_version r = 1" "\<not> sr_deleted r" "sr_is_favorite r = cp_is_favorite cp" "sr_expires_at r = cp_expires_at cp"
    using wptD[OF create_record_ok[OF assms]] unfolding stored_with_def by metis
  have g: "get_stored_record C rid v1 = (Inr (stored_as r (record_tag_names (v_db v1) rid)), v1)"
    using get_stored_record_row[OF assms(2) r(1)] r(2,3) by simp
  have u: "is_unlocked (vs_crypto S)"
    using assms(3) by (rule has_kek_unlocked)
  let ?r = "stored_as r (record_tag_names (v_db v1) rid)" and ?p = "cp_payload cp"
  show ?thesis
  proof (cases "cp_credential_type cp = payload_credential_type ?p")
    case True
    obtain d where d: "decrypted_of ?r ?p = Inr d" "payload_of_view d = ?p" "dr_attrs d = attrs_of ?r" "dr_name d = pl_name ?p"
      using decrypted_of_match[of ?r ?p] True r(6) by auto
    obtain v2 where "dbq (insert_audit_entry C RecordViewPassword (Some rid) (Some (pl_name ?p)) None) v1 = (Inr (), v2)"
      using wptD[OF wpt_audit[where Q = "\<lambda>_ _. True"], of C RecordViewPassword "Some rid"] by fastforce
    then have "get_decrypted_record E C S rid v1 = (Inr d, v2)"
      using g u r d by (simp add: get_decrypted_record_def require_unlocked_def crypto_res_def)
    then show ?thesis
      using c r d True by (intro exI[of _ rid] exI[of _ v1]) (auto simp: attrs_of_def)
  next
    case False
    then have "get_decrypted_record E C S rid v1 = (Inl (CryptoError ''credential type / payload mismatch''), v1)"
      using g u r by (simp add: get_decrypted_record_def require_unlocked_def crypto_res_def decrypted_of_mismatch)
    then show ?thesis
      using c False by auto
  qed
qed

definition demo_create :: create_record_params where
  "demo_create = \<lparr> cp_credential_type = Login, cp_payload = demo_login, cp_tags = [], cp_is_favorite = True, cp_expires_at = None \<rparr>"

lemma demo_creatable: "creatable demo_vault_ops demo_create demo_vault"
  using demo_login_ok
  by (simp add: creatable_def demo_create_def validate_tags_def limit_defs opt_printable_def demo_vault_def empty_db_def)

lemma demo_vault_wf: "db_wf (v_db demo_vault)"
  by (simp add: demo_vault_def empty_db_def db_wf_def)

theorem create_then_view_witness:
  "\<exists>rid v1 dr v2. create_record demo_crypto_env demo_vault_ops demo_service demo_create demo_vault = (Inr rid, v1)
     \<and> get_decrypted_record demo_crypto_env demo_vault_ops demo_service rid v1 = (Inr dr, v2) \<and> payload_of_view dr = demo_login"
  using create_then_view[OF demo_crypto_laws demo_vault_ops_laws demo_login_ok(3) demo_vault_wf demo_creatable]
  by (auto simp: demo_create_def demo_login_def payload_credential_type_def)

end
