(* ===== verification/Vault_Sync.thy ===== *)
theory Vault_Sync
  imports Vault_Rotate Vault_Create
begin

text \<open>
  The vault side of a sync: a record built for upload on one device and applied on another one with
  the same key is the same record there.
\<close>

definition same_kek :: "crypto_manager \<Rightarrow> crypto_manager \<Rightarrow> bool" where
  "same_kek cm cm' \<longleftrightarrow> has_kek cm \<and> map_option ks_kek (cg_keystore cm) = map_option ks_kek (cg_keystore cm')"

lemma same_kek_dek: "same_kek cm cm' \<Longrightarrow> get_dek E cm u = get_dek E cm' u"
  by (cases "cg_keystore cm"; cases "cg_keystore cm'") (auto simp: same_kek_def has_kek_def get_dek_def keystore_get_dek_def)

lemma same_kek_decrypt:
  "same_kek cm cm' \<Longrightarrow> crypto_decrypt E cm c n aad u = crypto_decrypt E cm' c n aad u"
  "same_kek cm cm' \<Longrightarrow> decrypt_payload E cm c n aad u = decrypt_payload E cm' c n aad u"
  by (simp_all add: crypto_decrypt_def decrypt_payload_def decrypt_json_def same_kek_dek[of cm cm'])

section \<open>Building\<close>

text \<open>The cloud record of a stored record, with the private metadata sealed as \<open>c\<close> under the nonce \<open>n\<close>.\<close>

definition cloud_form :: "('x) crypto_env_scheme \<Rightarrow> stored_record \<Rightarrow> bytes \<Rightarrow> bytes \<Rightarrow> u32 \<Rightarrow> cloud_record" where
  "cloud_form E r c n u =
     \<lparr> cr_id = uuid_show E (sr_id r), cr_version = sr_version r, cr_encrypted_data = b64_encode E (sr_encrypted_data r),
       cr_nonce = b64_encode E (sr_nonce r), cr_dek_version = sr_dek_version r,
       cr_aad = \<lparr> aad_record_id = uuid_show E (sr_id r), aad_dek_version = sr_dek_version r \<rparr>,
       cr_metadata =
         \<lparr> rm_name = ''encrypted'', rm_tags = [], rm_updated_at = rfc3339_show E (sr_updated_at r),
           rm_credential_type = None, rm_is_favorite = None, rm_expires_at = None, rm_updated_by = None, rm_health = None,
           rm_encrypted_metadata = Some \<lparr> em_encrypted_data = b64_encode E c, em_nonce = b64_encode E n, em_dek_version = u \<rparr> \<rparr>,
       cr_deleted = (if sr_deleted r then Some True else None),
       cr_deleted_at = map_option (rfc3339_show E) (sr_deleted_at r) \<rparr>"

text \<open>A record whose fields the service wrote: typed, bound to its id, with a deletion time only when deleted.\<close>

definition syncable :: "('x) crypto_env_scheme \<Rightarrow> stored_record \<Rightarrow> bool" where
  "syncable E r \<longleftrightarrow> record_typed r \<and> sr_aad r = record_aad E (sr_id r) \<and> (sr_deleted_at r \<noteq> None \<longrightarrow> sr_deleted r)
     \<and> validate_tags (sr_tags r) = Inr () \<and> (\<forall>t \<in> set (sr_tags r). sql_length t \<le> 50)"

lemma build_ok:
  assumes laws: "crypto_laws E" "vault_ops_laws C" and kek: "has_kek (vs_crypto S)"
    and r: "syncable E r" "decrypt_stored E S r = Inr p"
  obtains c n w m where "build_cloud_record_for_sync E C S r h v = (Inr (cloud_form E r c n (cg_current_dek_version (vs_crypto S))), v\<lparr>v_ext := w\<rparr>)"
    "length n = 24" "m = private_metadata_of E r (pl_name p) h"
    "try_res (crypto_decrypt E (vs_crypto S) c n (metadata_aad (uuid_show E (sr_id r))) (cg_current_dek_version (vs_crypto S)))
       (de_private E) = Inr m"
proof -
  let ?m = "private_metadata_of E r (pl_name p) h"
  have name: "stored_name E S r = Inr (pl_name p)"
    using name_and_subtitle r unfolding stored_name_def decrypt_stored_def syncable_def
    by (cases p) (force simp: record_index_fields_from_payload_def)+
  obtain b where b: "ser_private E ?m = Inr b" "de_private E b = Inr ?m"
    using laws(1) unfolding crypto_laws_def by blast
  obtain c n w where e: "crypto_encrypt E C (vs_crypto S) b (metadata_aad (uuid_show E (sr_id r))) v = (Inr (c, n), v\<lparr>v_ext := w\<rparr>)"
    "length n = 24" "crypto_decrypt E (vs_crypto S) c n (metadata_aad (uuid_show E (sr_id r))) (cg_current_dek_version (vs_crypto S)) = Inr b"
    using encrypt_ok[OF laws kek, where x = "v_ext v" and b = b and aad = "metadata_aad (uuid_show E (sr_id r))"] by metis
  show thesis
  proof (rule that[OF _ e(2) refl])
    show "build_cloud_record_for_sync E C S r h v = (Inr (cloud_form E r c n (cg_current_dek_version (vs_crypto S))), v\<lparr>v_ext := w\<rparr>)"
      using name b(1) e(1)
      by (simp add: build_cloud_record_for_sync_def decrypt_record_name_for_sync_def crypto_res_def io_map_err_def io_bind_def cloud_form_def)
  qed (simp add: e(3) b(2))
qed

section \<open>Applying\<close>

lemma downloaded_form:
  assumes "env_laws E" "syncable E r" "m = private_metadata_of E r name h"
  shows "downloaded_stored_record E now (sr_id r) (sr_encrypted_data r) (sr_nonce r) (Some m) None (cloud_form E r c n u)
    = r\<lparr>sr_created_at := now\<rparr>"
proof -
  have time: "printable_time t \<Longrightarrow> rfc3339_parse E (rfc3339_show E t) = Some t" for t
    using assms(1) unfolding env_laws_def by blast
  have opt: "Option.bind (map_option (rfc3339_show E) x) (rfc3339_parse E) = x" if "opt_printable x" for x
    using that time by (cases x) (simp_all add: opt_printable_def)
  have or: "opt_or x None = x" for x :: "'b option"
    by (cases x) (simp_all add: opt_or_def)
  show ?thesis
    using assms(2,3) time opt
    by (cases r) (auto simp: downloaded_stored_record_def Let_def cloud_form_def private_metadata_of_def or opt_default_def
      syncable_def record_typed_def)
qed

lemma wpt_index_or_fallback:
  assumes "sr_id r \<in> fst ` set (tb_records (v_db v))" "\<And>i. Q () (v\<lparr>v_db := (v_db v)\<lparr>tb_index := i\<rparr>\<rparr>)"
  shows "wpt (index_or_fallback E C S r priv cr) Q v"
proof -
  have "\<exists>i. dbq (upsert_record_list_index C (sr_id r) n x) v = (Inr (), v\<lparr>v_db := (v_db v)\<lparr>tb_index := i\<rparr>\<rparr>)" for n x
    using assms(1) by (auto simp: upsert_record_list_index_def io_map_err_def exec_def)
  then obtain f where up: "\<And>n x. dbq (upsert_record_list_index C (sr_id r) n x) v = (Inr (), v\<lparr>v_db := (v_db v)\<lparr>tb_index := f n x\<rparr>\<rparr>)"
    by metis
  have "\<exists>i. index_or_fallback E C S r priv cr v = (Inr (), v\<lparr>v_db := (v_db v)\<lparr>tb_index := i\<rparr>\<rparr>)"
    using up
    by (cases "decrypt_name_only E (vs_crypto S) (sr_encrypted_data r) (sr_nonce r) (sr_aad r) (sr_dek_version r)";
        cases "decrypt_subtitle E (vs_crypto S) (sr_encrypted_data r) (sr_nonce r) (sr_aad r) (sr_credential_type r) (sr_dek_version r)")
      (auto simp: index_or_fallback_def upsert_record_list_index_for_stored_def Let_def crypto_res_def io_bind_def)
  then show ?thesis
    using assms(2) by (auto simp: wpt_def)
qed

lemma wpt_health_of:
  assumes "rid \<in> fst ` set (tb_records (v_db v))" "\<And>h. Q () (v\<lparr>v_db := (v_db v)\<lparr>tb_health := h\<rparr>\<rparr>)"
  shows "wpt (case pm_health m of
      Some h \<Rightarrow> dbq (upsert_record_health_state (health_to_state E rid ver h))
    | None \<Rightarrow> dbq (delete_record_health_state rid)) Q v"
  using assms
  by (cases "pm_health m")
    (simp_all add: wpt_health wp_combinators wp_exec upsert_record_health_state_def health_to_state_def)

lemma open_private:
  assumes "env_laws E" "same_kek cm (vs_crypto S2)" "length n = 24"
    "try_res (crypto_decrypt E cm c n (metadata_aad (uuid_show E (sr_id r))) u) (de_private E) = Inr m"
  shows "decrypt_cloud_private_metadata E S2 (cloud_form E r c n u) = Inr (Some m)"
proof -
  have "b64_decode E (b64_encode E x) = Inr x" for x
    using assms(1) unfolding env_laws_def by blast
  then show ?thesis
    using assms(3,4) same_kek_decrypt(1)[OF assms(2), of E]
    by (auto simp: decrypt_cloud_private_metadata_def cloud_form_def decode_nonce_def monad_simps)
qed

lemma apply_ok:
  fixes v :: "'w vault"
  assumes laws: "env_laws E" and r: "syncable E r" "decrypt_stored E S2 r = Inr p" "validate_payload p = Inr ()"
    and v: "db_wf (v_db v)" "sr_id r \<notin> fst ` set (tb_records (v_db v))"
    and m: "m = private_metadata_of E r name h" "decrypt_cloud_private_metadata E S2 (cloud_form E r c n u) = Inr (Some m)"
  shows "wpt (apply_downloaded_cloud_record E C2 S2 (cloud_form E r c n u))
    (\<lambda>new. \<lambda>v'. new \<and> stored_with (r\<lparr>sr_created_at := fst (dbo_now C2 (v_ext v))\<rparr>) v') v"
proof -
  let ?cr = "cloud_form E r c n u" and ?rid = "sr_id r"
  define now where "now = fst (dbo_now C2 (v_ext v))"
  define r' where "r' = r\<lparr>sr_created_at := now\<rparr>"
  have r': "sr_id r' = ?rid" "decrypt_stored E S2 r' = Inr p" "validate_tags (sr_tags r') = Inr ()" "length (sr_nonce r) = 24"
    using r by (simp_all add: r'_def decrypt_stored_def syncable_def record_typed_def)
  have form: "downloaded_stored_record E now ?rid (sr_encrypted_data r) (sr_nonce r) (Some m) None ?cr = r'"
    unfolding r'_def by (rule downloaded_form[OF laws r(1) m(1)])
  have b64: "b64_decode E (b64_encode E x) = Inr x" and id: "uuid_parse E (uuid_show E ?rid) = Some ?rid" for x
    using laws unfolding env_laws_def by blast+
  have cf: "cr_id ?cr = uuid_show E ?rid" "cr_encrypted_data ?cr = b64_encode E (sr_encrypted_data r)"
    "cr_nonce ?cr = b64_encode E (sr_nonce r)"
    by (simp_all add: cloud_form_def)
  have none: "map_of (tb_records (v_db v)) ?rid = None"
    using v(2) by (simp add: map_of_eq_None_iff)
  have tail: "wpt (case pm_health m of
        Some h \<Rightarrow> dbq (upsert_record_health_state (health_to_state E ?rid (cr_version ?cr) h))
      | None \<Rightarrow> dbq (delete_record_health_state ?rid)) (\<lambda>_. wpt (index_or_fallback E C2 S2 r' (Some m) ?cr)
      (\<lambda>_. wpt mark_record_list_index_clean (\<lambda>_. stored_with r'))) v'" if st: "stored_with r' v'" for v' :: "'w vault"
    unfolding wpt_marks
    using stored_with_key[OF st] r'(1)
    by (intro wpt_health_of wpt_index_or_fallback) (use st in \<open>simp_all cong: stored_with_cong\<close>)
  have "wpt mark_record_list_index_dirty (\<lambda>_. wpt (insert_record r') (\<lambda>_. wpt (case pm_health m of
        Some h \<Rightarrow> dbq (upsert_record_health_state (health_to_state E ?rid (cr_version ?cr) h))
      | None \<Rightarrow> dbq (delete_record_health_state ?rid)) (\<lambda>_. wpt (index_or_fallback E C2 S2 r' (Some m) ?cr)
      (\<lambda>_. wpt mark_record_list_index_clean (\<lambda>_. stored_with r'))))) (v\<lparr>v_ext := snd (dbo_now C2 (v_ext v))\<rparr>)"
    using v r(1) by (intro insert_after_dirty tail) (simp_all add: r'_def syncable_def)
  then show ?thesis
    using r(3) r'
    by (simp add: apply_downloaded_cloud_record_def Let_def wp_combinators wp_results wp_world wp_get_record none cf b64 id
      decode_nonce_def m(2) form now_def[symmetric] r'_def[symmetric])
qed

text \<open>
  C5: a record survives the sync. Built for upload on one device and applied on another that holds the
  same key and does not have the record yet, it is there the same record: same payload, type, tags,
  flags, times, author and version; only the creation time is that of the download.
\<close>

theorem sync_roundtrip:
  fixes v2 :: "'v vault"
  assumes laws: "crypto_laws E" "env_laws E" "vault_ops_laws C" "vault_ops_laws C2"
    and keys: "same_kek (vs_crypto S) (vs_crypto S2)"
    and r: "syncable E r" "decrypt_stored E S r = Inr p" "validate_payload p = Inr ()"
    and v2: "db_wf (v_db v2)" "sr_id r \<notin> fst ` set (tb_records (v_db v2))"
  shows "\<exists>cr w v2' now. build_cloud_record_for_sync E C S r h v = (Inr cr, v\<lparr>v_ext := w\<rparr>)
    \<and> apply_downloaded_cloud_record E C2 S2 cr v2 = (Inr True, v2')
    \<and> map_of (tb_records (v_db v2')) (sr_id r) = Some (row_of_record (r\<lparr>sr_created_at := now\<rparr>))
    \<and> set (record_tag_names (v_db v2') (sr_id r)) = set (sr_tags r)
    \<and> decrypt_stored E S2 r = Inr p"
proof -
  have kek: "has_kek (vs_crypto S)"
    using keys by (simp add: same_kek_def)
  let ?u = "cg_current_dek_version (vs_crypto S)"
  obtain c n w m where b: "build_cloud_record_for_sync E C S r h v = (Inr (cloud_form E r c n ?u), v\<lparr>v_ext := w\<rparr>)"
    "length n = 24" "m = private_metadata_of E r (pl_name p) h"
    "try_res (crypto_decrypt E (vs_crypto S) c n (metadata_aad (uuid_show E (sr_id r))) ?u) (de_private E) = Inr m"
    using build_ok[OF laws(1,3) kek r(1,2), where v = v and h = h] by metis
  have dec: "decrypt_stored E S2 r = Inr p"
    using r(2) same_kek_decrypt(2)[OF keys, of E] by (simp add: decrypt_stored_def)
  obtain v2' where "apply_downloaded_cloud_record E C2 S2 (cloud_form E r c n ?u) v2 = (Inr True, v2')"
    "stored_with (r\<lparr>sr_created_at := fst (dbo_now C2 (v_ext v2))\<rparr>) v2'"
    using wptD[OF apply_ok[OF laws(2) r(1) dec r(3) v2 b(3) open_private[OF laws(2) keys b(2,4)], of C2]] by auto
  then show ?thesis
    using b(1) dec unfolding stored_with_def by fastforce
qed

definition demo_synced :: stored_record where
  "demo_synced = demo_record\<lparr>sr_aad := record_aad demo_crypto_env 7\<rparr>"

theorem sync_roundtrip_witness:
  "\<exists>cr w v2' now. build_cloud_record_for_sync demo_crypto_env demo_vault_ops demo_service demo_synced None demo_vault
      = (Inr cr, demo_vault\<lparr>v_ext := w\<rparr>)
    \<and> apply_downloaded_cloud_record demo_crypto_env demo_vault_ops demo_service cr demo_vault = (Inr True, v2')
    \<and> map_of (tb_records (v_db v2')) 7 = Some (row_of_record (demo_synced\<lparr>sr_created_at := now\<rparr>))"
proof -
  have s: "syncable demo_crypto_env demo_synced"
    using demo_record_typed by (simp add: syncable_def demo_synced_def record_typed_def demo_record_def validate_tags_def limit_defs)
  have k: "same_kek (vs_crypto demo_service) (vs_crypto demo_service)"
    using demo_login_ok(3) by (simp add: same_kek_def)
  have d: "decrypt_stored demo_crypto_env demo_service demo_synced = Inr demo_login"
    by (simp add: demo_decrypt_simps demo_synced_def)
  have i: "sr_id demo_synced = 7" "sr_id demo_synced \<notin> fst ` set (tb_records (v_db demo_vault))"
    by (simp_all add: demo_synced_def demo_record_def demo_vault_def empty_db_def)
  show ?thesis
    using sync_roundtrip[OF demo_crypto_laws demo_crypto_env_laws demo_vault_ops_laws demo_vault_ops_laws k s d demo_login_ok(2)
      demo_vault_wf i(2), of None demo_vault]
    unfolding i(1) by blast
qed

end
