(* ===== verification/Vault_Partial.thy ===== *)
theory Vault_Partial
  imports Vault_Delete
begin

text \<open>
  A failing update that stays half applied: the tag check of the service trims before it counts, the
  constraint of the table does not, and nothing rolls back the row written before.
\<close>

definition padded_tag :: string where
  "padded_tag = CHR ''a'' # replicate 50 (CHR '' '')"

lemma chars_of_ascii: "list_all (\<lambda>c. byte_of c < 128) s \<Longrightarrow> chars_of s = map (\<lambda>c. [c]) s"
proof (induction s)
  case (Cons c s)
  have "\<not> is_continuation_byte d" if "byte_of d < 128" for d :: char
    using that by (auto simp: is_continuation_byte_def)
  then show ?case
    using Cons by (cases s) auto
qed simp

lemma padded_tag_facts: "validate_tags [padded_tag] = Inr ()" "50 < sql_length padded_tag"
proof -
  have "chars_of padded_tag = ''a'' # replicate 50 ('' '')"
    by (subst chars_of_ascii) (simp_all add: padded_tag_def list_all_iff)
  moreover have "is_whitespace '' ''" "\<not> is_whitespace ''a''"
    by (simp_all add: is_whitespace_def ws_len_def)
  moreover have "dropWhile P (replicate k x @ ys) = dropWhile P ys" if "P x" for P k and x :: string and ys
    using that by (induction k) auto
  ultimately have "trim padded_tag = ''a''"
    by (simp add: trim_def)
  then show "validate_tags [padded_tag] = Inr ()"
    by (simp add: validate_tags_def limit_defs validate_len_def char_count_def is_continuation_byte_def)
  show "50 < sql_length padded_tag"
    by (simp add: sql_length_def padded_tag_def char_count_def is_continuation_byte_def)
qed

definition padded_update :: update_record_params where
  "padded_update = \<lparr> up_id = 7, up_payload = demo_login, up_tags = [padded_tag], up_is_favorite = True,
     up_expires_at = None, up_expected_version = 3 \<rparr>"


end
