(* ===== verification/Utf8.thy ===== *)
theory Utf8
  imports Types_Core "HOL-Library.Sublist"
begin

text \<open>
  Texts as UTF-8: byte offsets of characters and slicing at an offset, \<open>split_whitespace\<close> and
  \<open>contains\<close>, and the facts that let byte-level operations be read as operations on characters.
\<close>

section \<open>Characters of a string\<close>

text \<open>\<open>str::char_indices\<close>: the characters with their byte offsets.\<close>

fun with_offsets :: "nat \<Rightarrow> string list \<Rightarrow> (nat \<times> string) list" where
  "with_offsets n [] = []"
| "with_offsets n (c # cs) = (n, c) # with_offsets (n + length c) cs"

definition char_indices :: "string \<Rightarrow> (nat \<times> string) list" where
  "char_indices s = with_offsets 0 (chars_of s)"

definition is_char_boundary :: "string \<Rightarrow> nat \<Rightarrow> bool" where
  "is_char_boundary s i \<longleftrightarrow> i = 0 \<or> i = length s \<or> i < length s \<and> \<not> is_continuation_byte (s ! i)"

text \<open>\<open>(&s[..i], &s[i..])\<close>.\<close>

definition split_str :: "string \<Rightarrow> nat \<Rightarrow> (string \<times> string) option" where
  "split_str s i = (if is_char_boundary s i then Some (take i s, drop i s) else None)"

text \<open>\<open>str::split_whitespace\<close> and \<open>str::contains\<close>.\<close>

fun split_chars :: "string list \<Rightarrow> string \<Rightarrow> string list" where
  "split_chars [] word = (if word = [] then [] else [word])"
| "split_chars (c # cs) word =
     (if is_whitespace c then (if word = [] then [] else [word]) @ split_chars cs [] else split_chars cs (word @ c))"

definition split_whitespace :: "string \<Rightarrow> string list" where
  "split_whitespace s = split_chars (chars_of s) []"

fun contains_str :: "string \<Rightarrow> string \<Rightarrow> bool" where
  "contains_str p [] = (p = [])"
| "contains_str p (c # s) = (prefix p (c # s) \<or> contains_str p s)"

lemma contains_str_sublist: "contains_str p s = sublist p s"
  by (induction s) (auto simp: sublist_Cons_right)

section \<open>Characters as byte sequences\<close>

definition wf_char :: "string \<Rightarrow> bool" where
  "wf_char ch \<longleftrightarrow> ch \<noteq> [] \<and> \<not> is_continuation_byte (hd ch) \<and> list_all is_continuation_byte (tl ch)"

lemma wf_char_Cons: "wf_char (c # cs) \<longleftrightarrow> \<not> is_continuation_byte c \<and> list_all is_continuation_byte cs"
  by (simp add: wf_char_def)

lemma concat_wf_head: "list_all wf_char chs \<Longrightarrow> concat chs = [] \<or> \<not> is_continuation_byte (hd (concat chs))"
  by (cases chs) (auto simp: wf_char_def)

lemma while_stops: "s = [] \<or> \<not> P (hd s) \<Longrightarrow> takeWhile P s = [] \<and> dropWhile P s = s"
  by (cases s) auto

lemma chars_of_concat: "list_all wf_char chs \<Longrightarrow> chars_of (concat chs) = chs"
proof (induction chs)
  case (Cons ch chs)
  then obtain c cs where ch: "ch = c # cs" "\<not> is_continuation_byte c" "list_all is_continuation_byte cs"
    by (cases ch) (auto simp: wf_char_def)
  have "takeWhile is_continuation_byte (concat chs) = []" "dropWhile is_continuation_byte (concat chs) = concat chs"
    using concat_wf_head[of chs] Cons.prems while_stops[of "concat chs"] by simp_all
  then have "takeWhile is_continuation_byte (cs @ concat chs) = cs" "dropWhile is_continuation_byte (cs @ concat chs) = concat chs"
    using ch(3) by (simp_all add: list_all_iff takeWhile_append2 dropWhile_append2)
  then show ?case
    using Cons by (simp add: ch)
qed simp

lemma char_count_concat: "list_all wf_char chs \<Longrightarrow> char_count (concat chs) = length chs"
proof (induction chs)
  case (Cons ch chs)
  moreover have "filter (\<lambda>c. \<not> is_continuation_byte c) cs = []" if "list_all is_continuation_byte cs" for cs
    using that by (simp add: list_all_iff filter_empty_conv)
  ultimately show ?case
    by (cases ch) (simp_all add: char_count_def wf_char_def)
qed (simp add: char_count_def)

lemma boundary_concat:
  assumes "list_all wf_char b" "list_all wf_char a"
  shows "split_str (concat b @ concat a) (length (concat b)) = Some (concat b, concat a)"
  using concat_wf_head[OF assms(2)]
  by (cases "concat a") (auto simp: split_str_def is_char_boundary_def nth_append)

lemma with_offsets_append: "with_offsets n (xs @ ys) = with_offsets n xs @ with_offsets (n + length (concat xs)) ys"
  by (induction n xs rule: with_offsets.induct) (simp_all add: add.assoc)

section \<open>Valid UTF-8\<close>

text \<open>The number of bytes a character has, by its lead byte.\<close>

definition utf8_width :: "char \<Rightarrow> nat" where
  "utf8_width c = (let b = of_char c :: nat in if b < 192 then 1 else if b < 224 then 2 else if b < 240 then 3 else 4)"

definition valid_char :: "string \<Rightarrow> bool" where
  "valid_char ch \<longleftrightarrow> wf_char ch \<and> length ch = utf8_width (hd ch)"

definition valid_utf8 :: "string \<Rightarrow> bool" where
  "valid_utf8 s \<longleftrightarrow> list_all valid_char (chars_of s)"

lemma valid_char_eq:
  assumes "valid_char a" "valid_char b" "prefix (a @ x) (b @ y)"
  shows "a = b \<and> prefix x y"
proof -
  obtain z where z: "b @ y = a @ x @ z"
    using assms(3) by (auto simp: prefix_def)
  have "a \<noteq> []" "b \<noteq> []"
    using assms(1,2) by (auto simp: valid_char_def wf_char_def)
  then have "hd a = hd b"
    using z by (metis hd_append2)
  then have "length a = length b"
    using assms(1,2) by (simp add: valid_char_def)
  then show ?thesis
    using z by auto
qed

lemma prefix_valid:
  "list_all valid_char ts \<Longrightarrow> list_all valid_char xs \<Longrightarrow> prefix (concat ts) (concat xs) = prefix ts xs"
proof (induction ts arbitrary: xs)
  case (Cons t ts)
  show ?case
  proof (cases xs)
    case Nil
    then show ?thesis
      using Cons.prems(1) by (auto simp: valid_char_def wf_char_def)
  next
    case x: (Cons x xs')
    then show ?thesis
      using Cons valid_char_eq[of t x "concat ts" "concat xs'"] by auto
  qed
qed simp

lemma sublist_skip:
  assumes "p \<noteq> []" "\<not> is_continuation_byte (hd p)" "list_all is_continuation_byte cs"
  shows "sublist p (cs @ s) = sublist p s"
  using assms(3)
proof (induction cs)
  case (Cons c cs)
  then have "\<not> prefix p (c # cs @ s)"
    using assms(1,2) by (cases p) auto
  then show ?case
    using Cons by (simp add: sublist_Cons_right)
qed simp

lemma sublist_valid:
  assumes "ts \<noteq> []" "list_all valid_char ts" "list_all valid_char xs"
  shows "sublist (concat ts) (concat xs) = sublist ts xs"
  using assms(3)
proof (induction xs)
  case Nil
  then show ?case
    using assms(1,2) by (cases ts) (auto simp: valid_char_def wf_char_def)
next
  case (Cons x xs)
  obtain c cs where x: "x = c # cs" "list_all is_continuation_byte cs"
    using Cons.prems by (cases x) (auto simp: valid_char_def wf_char_def)
  have hd: "concat ts \<noteq> []" "\<not> is_continuation_byte (hd (concat ts))"
    using assms(1,2) by (cases ts; auto simp: valid_char_def wf_char_def)+
  have "sublist (concat ts) (concat (x # xs)) = (prefix (concat ts) (concat (x # xs)) \<or> sublist (concat ts) (cs @ concat xs))"
    using x by (simp add: sublist_Cons_right)
  also have "\<dots> = (prefix ts (x # xs) \<or> sublist ts xs)"
    using prefix_valid[OF assms(2) Cons.prems] sublist_skip[OF hd x(2)] Cons by simp
  finally show ?case
    by (simp add: sublist_Cons_right)
qed

lemma contains_chars:
  assumes "valid_utf8 p" "valid_utf8 s" "p \<noteq> []"
  shows "contains_str p s = sublist (chars_of p) (chars_of s)"
proof -
  have "chars_of p \<noteq> []"
    using assms(3) by (cases p) auto
  then show ?thesis
    using sublist_valid[of "chars_of p" "chars_of s"] assms by (simp add: contains_str_sublist valid_utf8_def)
qed

lemma chars_of_append:
  assumes "valid_utf8 a" "valid_utf8 b"
  shows "chars_of (a @ b) = chars_of a @ chars_of b"
proof -
  have "list_all wf_char (chars_of a @ chars_of b)"
    using assms by (auto simp: valid_utf8_def valid_char_def list_all_iff)
  from chars_of_concat[OF this] show ?thesis
    by simp
qed

lemma valid_utf8_append: "valid_utf8 a \<Longrightarrow> valid_utf8 b \<Longrightarrow> valid_utf8 (a @ b)"
  by (simp add: valid_utf8_def chars_of_append)

lemma valid_utf8_concat: "list_all valid_char cs \<Longrightarrow> valid_utf8 (concat cs)"
  using chars_of_concat[of cs] by (simp add: valid_utf8_def valid_char_def list_all_iff)

end
