(* ===== verification/Vault_Errors.thy ===== *)
theory Vault_Errors
  imports Vault_Trash Error_Codes Utf8
begin

text \<open>
  How the errors of the vault and of key rotation reach the user: messages, codes, contexts and
  fallback texts (\<open>errors/mapping/vault.rs\<close>, \<open>errors/mapping/rotation.rs\<close>). The text of an SQLite
  error is the crate's and is a parameter.
\<close>

section \<open>Vault errors (errors/mapping/vault.rs)\<close>

record error_env = crypto_env +
  show_sqlite :: "sqlite_error \<Rightarrow> string"
  lowercase :: "string \<Rightarrow> string"

definition credential_type_debug :: "credential_type \<Rightarrow> string" where
  "credential_type_debug ct = (case ct of
     Login \<Rightarrow> ''Login'' | Api \<Rightarrow> ''Api'' | Ssh \<Rightarrow> ''Ssh'' | SecureNote \<Rightarrow> ''SecureNote'')"

definition field_selector_debug :: "field_selector \<Rightarrow> string" where
  "field_selector_debug f = (case f of
     SelPassword \<Rightarrow> ''Password'' | SelUsername \<Rightarrow> ''Username'' | SelUrl \<Rightarrow> ''Url''
   | SelNotes \<Rightarrow> ''Notes'' | SelPassphrase \<Rightarrow> ''Passphrase'')"

definition vault_error_to_string :: "('x) error_env_scheme \<Rightarrow> vault_error \<Rightarrow> string" where
  "vault_error_to_string E e = (case e of
     VaultRecordNotFound i \<Rightarrow> ''record not found: '' @ uuid_show E i
   | VersionConflict ex ac \<Rightarrow> ''version conflict: expected '' @ show_word ex @ '', actual '' @ show_word ac
   | TagAlreadyExists t \<Rightarrow> ''tag already exists: '' @ t
   | TagNotFound t \<Rightarrow> ''tag not found: '' @ t
   | NotUnlocked \<Rightarrow> ''vault is not unlocked''
   | DatabaseError se \<Rightarrow> ''database error: '' @ show_sqlite E se
   | CryptoError m \<Rightarrow> ''crypto error: '' @ m
   | VaultDataError d \<Rightarrow> ''data validation error: '' @ data_error_to_string d
   | InvalidField ct f \<Rightarrow>
       ''invalid field '' @ field_selector_debug f @ '' for credential type '' @ credential_type_debug ct)"

text \<open>
  The column-type error the code also tests for is not an error of the model's tables, whose columns
  have their declared types.
\<close>

definition vault_error_code :: "('x) error_env_scheme \<Rightarrow> vault_error \<Rightarrow> error_code" where
  "vault_error_code E e = (case e of
     VaultRecordNotFound _ \<Rightarrow> Error_Codes.VaultRecordNotFound
   | VersionConflict _ _ \<Rightarrow> VaultVersionConflict
   | TagAlreadyExists _ \<Rightarrow> VaultTagAlreadyExists
   | TagNotFound _ \<Rightarrow> VaultTagNotFound
   | NotUnlocked \<Rightarrow> VaultNotUnlocked
   | DatabaseError se \<Rightarrow>
       (let error_msg = lowercase E (show_sqlite E se) in
        if contains_str ''corrupt'' error_msg \<or> contains_str ''corrupted'' error_msg \<or> contains_str ''malformed'' error_msg
        then VaultDatabaseCorrupted else VaultDatabaseIoError)
   | CryptoError _ \<Rightarrow> CryptoDecryptionFailed
   | VaultDataError d \<Rightarrow> (case d of
        InvalidCredentialType _ \<Rightarrow> DataInvalidCredentialType
      | InvalidAuditOperation _ \<Rightarrow> DataInvalidAuditOperation
      | InvalidUuid _ \<Rightarrow> DataInvalidUuid
      | MissingField _ \<Rightarrow> DataMissingField
      | FieldTooLong _ _ _ \<Rightarrow> DataFieldTooLong
      | EmptyField _ \<Rightarrow> DataEmptyField
      | InvalidSyncStatus _ \<Rightarrow> DataInvalidCredentialType
      | InvalidTimestamp _ \<Rightarrow> DataInvalidCredentialType)
   | InvalidField _ _ \<Rightarrow> VaultInvalidField)"

definition vault_error_context :: "('x) error_env_scheme \<Rightarrow> vault_error \<Rightarrow> error_context" where
  "vault_error_context E e = (case e of
     VaultRecordNotFound i \<Rightarrow> error_context_new\<lparr>ctx_record_id := Some (uuid_show E i)\<rparr>
   | VersionConflict ex ac \<Rightarrow> error_context_new\<lparr>ctx_expected_version := Some ex, ctx_actual_version := Some ac\<rparr>
   | TagAlreadyExists t \<Rightarrow> error_context_new\<lparr>ctx_field_name := Some t\<rparr>
   | TagNotFound t \<Rightarrow> error_context_new\<lparr>ctx_field_name := Some t\<rparr>
   | NotUnlocked \<Rightarrow> error_context_new
   | DatabaseError _ \<Rightarrow> error_context_new
   | CryptoError _ \<Rightarrow> error_context_new
   | VaultDataError d \<Rightarrow> (case d of
        FieldTooLong f _ _ \<Rightarrow> error_context_new\<lparr>ctx_field_name := Some f\<rparr>
      | MissingField f \<Rightarrow> error_context_new\<lparr>ctx_field_name := Some f\<rparr>
      | EmptyField f \<Rightarrow> error_context_new\<lparr>ctx_field_name := Some f\<rparr>
      | _ \<Rightarrow> error_context_new)
   | InvalidField _ f \<Rightarrow> error_context_new\<lparr>ctx_field_name := Some (field_selector_debug f)\<rparr>)"

definition quoted :: "string \<Rightarrow> string" where
  "quoted s = CHR 39 # s @ [CHR 39]"

definition vault_error_fallback :: "('x) error_env_scheme \<Rightarrow> vault_error \<Rightarrow> string" where
  "vault_error_fallback E e = (case e of
     VaultRecordNotFound _ \<Rightarrow> ''The requested vault record was not found''
   | VersionConflict ex ac \<Rightarrow>
       ''Version conflict: expected version '' @ show_word ex @ '', but found version '' @ show_word ac
   | TagAlreadyExists t \<Rightarrow> ''Tag '' @ quoted t @ '' already exists''
   | TagNotFound t \<Rightarrow> ''Tag '' @ quoted t @ '' not found''
   | NotUnlocked \<Rightarrow> ''Vault is not unlocked. Please provide the master password''
   | DatabaseError se \<Rightarrow> ''Database error: '' @ show_sqlite E se
   | CryptoError m \<Rightarrow> ''Cryptographic operation failed: '' @ m
   | VaultDataError d \<Rightarrow> ''Invalid record data: '' @ data_error_to_string d
   | InvalidField ct f \<Rightarrow>
       ''Field '' @ quoted (field_selector_debug f) @ '' is not valid for credential type '' @ quoted (credential_type_debug ct))"

text \<open>No error of the vault is reported under another module than the vault's, the data's or the cipher's.\<close>

lemma vault_error_module:
  "module_prefix (vault_error_code E e) \<in> {''vault'', ''data'', ''crypto''}"
  by (cases e) (simp_all add: vault_error_code_def module_prefix_def Let_def split: data_error.split)

section \<open>Rotation errors (errors/mapping/rotation.rs)\<close>

datatype rotation_error =
    RotOffline
  | SyncBusy
  | ConflictDetected (cd_cloud: u32) (cd_local: u32)
  | RecordMigrationFailed string string
  | PushFailed string
  | CheckpointCorrupted string
  | MaxVersionExceeded u32 u32
  | RotVaultNotUnlocked
  | RotInternal string

definition rotation_error_to_string :: "rotation_error \<Rightarrow> string" where
  "rotation_error_to_string e = (case e of
     RotOffline \<Rightarrow> ''offline: cannot rotate without network''
   | SyncBusy \<Rightarrow> ''sync busy: could not pause sync within 30s''
   | ConflictDetected c l \<Rightarrow>
       ''conflict detected: cloud version is '' @ show_word c @ '', local version is '' @ show_word l
   | RecordMigrationFailed i r \<Rightarrow> ''record migration failed for '' @ i @ '': '' @ r
   | PushFailed m \<Rightarrow> ''push failed: '' @ m
   | CheckpointCorrupted m \<Rightarrow> ''checkpoint corrupted: '' @ m
   | MaxVersionExceeded c m \<Rightarrow> ''max DEK version exceeded: current='' @ show_word c @ '', max='' @ show_word m
   | RotVaultNotUnlocked \<Rightarrow> ''vault not unlocked''
   | RotInternal m \<Rightarrow> ''internal error: '' @ m)"

definition rotation_error_code :: "rotation_error \<Rightarrow> error_code" where
  "rotation_error_code e = (case e of
     ConflictDetected _ _ \<Rightarrow> RotationConflictDetected
   | RotVaultNotUnlocked \<Rightarrow> ExecutorVaultLocked
   | _ \<Rightarrow> error_code.DekRotationFailed)"

definition rotation_error_context :: "rotation_error \<Rightarrow> error_context" where
  "rotation_error_context e = (case e of
     ConflictDetected c l \<Rightarrow>
       error_context_new\<lparr>ctx_expected_version := Some (ucast c), ctx_actual_version := Some (ucast l)\<rparr>
   | _ \<Rightarrow> error_context_new)"

end
