(* ===== verification/Rotation.thy ===== *)
theory Rotation
  imports Vault_Errors "HOL-Library.Signed_Division"
begin

text \<open>
  Rotation of the data encryption key: \<open>types/rotation.rs\<close>, \<open>services/rotation.rs\<close> and the metadata
  methods of the vault it stores its checkpoint, its pending trigger and its configuration with
  (\<open>services/vault/metadata.rs\<close>). The service's state is threaded beside the vault. The JSON text of
  the derived serde formats and the text format of a timestamp are parameters.
\<close>

section \<open>Types (types/rotation.rs)\<close>

datatype rotation_trigger = AutoTime u32 | AutoCount u32 | PostRecovery | Manual

record rotation_checkpoint =
  rc_trigger :: rotation_trigger
  rc_old_dek_version :: u32
  rc_new_dek_version :: u32
  rc_total_records :: u32
  rc_migrated_records :: u32
  rc_last_migrated_record_id :: "string option"
  rc_started_at :: timestamp
  rc_cloud_metadata_revision :: string

datatype rotation_state =
    RotIdle
  | RotPending timestamp rotation_trigger
  | Rotating rotation_checkpoint
  | RotCompleted timestamp u32
  | RotFailed string rotation_checkpoint

record rotation_config =
  rg_auto_rotate :: bool
  rg_rotate_after_days :: "u32 option"
  rg_rotate_after_records :: "u32 option"
  rg_last_rotation_at :: "timestamp option"
  rg_current_dek_record_count :: u32

definition rotation_config_default :: rotation_config where
  "rotation_config_default = \<lparr> rg_auto_rotate = True, rg_rotate_after_days = Some 90, rg_rotate_after_records = Some 1000,
     rg_last_rotation_at = None, rg_current_dek_record_count = 0 \<rparr>"

record rotation_config_update =
  ru_auto_rotate :: "bool option"
  ru_rotate_after_days :: "u32 option option"
  ru_rotate_after_records :: "u32 option option"

record rotation_result =
  rr_old_dek_version :: u32
  rr_new_dek_version :: u32
  rr_records_migrated :: u32
  rr_duration_secs :: u64
  rr_trigger :: rotation_trigger

definition GRACE_PERIOD_HOURS :: u32 where "GRACE_PERIOD_HOURS = 24"
definition MAX_DEK_VERSION :: u32 where "MAX_DEK_VERSION = 10000"

definition trigger_debug :: "rotation_trigger \<Rightarrow> string" where
  "trigger_debug t = (case t of
     AutoTime d \<Rightarrow> ''AutoTime { days_since_last: '' @ show_word d @ '' }''
   | AutoCount n \<Rightarrow> ''AutoCount { record_count: '' @ show_word n @ '' }''
   | PostRecovery \<Rightarrow> ''PostRecovery''
   | Manual \<Rightarrow> ''Manual'')"

section \<open>Metadata of the vault (services/vault/metadata.rs)\<close>

record rotation_env = error_env +
  ser_rot_checkpoint :: "rotation_checkpoint \<Rightarrow> string + string"
  de_rot_checkpoint :: "string \<Rightarrow> string + rotation_checkpoint"
  ser_trigger :: "rotation_trigger \<Rightarrow> string + string"
  de_trigger :: "string \<Rightarrow> string + rotation_trigger"
  ser_rot_config :: "rotation_config \<Rightarrow> string + string"
  de_rot_config :: "string \<Rightarrow> string + rotation_config"
  datetime_parse :: "string \<Rightarrow> string + timestamp"

definition metadata_error :: "db_error \<Rightarrow> vault_error" where
  "metadata_error e = (case e of Sqlite se \<Rightarrow> DatabaseError se
     | DataErr d \<Rightarrow> CryptoError (''data conversion error: '' @ data_error_to_string d))"

definition vault_get_metadata :: "string \<Rightarrow> ('w, string option) vault_io" where
  "vault_get_metadata key = io_map_err metadata_error (get_metadata key)"

definition vault_set_metadata :: "string \<Rightarrow> string \<Rightarrow> ('w, unit) vault_io" where
  "vault_set_metadata key value = io_map_err metadata_error (set_metadata key value)"

definition vault_delete_metadata :: "string \<Rightarrow> ('w, unit) vault_io" where
  "vault_delete_metadata key = io_bind (io_map_err metadata_error (delete_metadata key)) (\<lambda>_. io_return ())"

definition get_timestamp_metadata :: "('x) rotation_env_scheme \<Rightarrow> string \<Rightarrow> ('w, timestamp option) vault_io" where
  "get_timestamp_metadata E key = io_bind (vault_get_metadata key) (\<lambda>raw. io_return (case raw of
     Some s \<Rightarrow> (case datetime_parse E s of Inr dt \<Rightarrow> Some dt | Inl _ \<Rightarrow> None)
   | None \<Rightarrow> None))"

definition get_last_health_check_at :: "('x) rotation_env_scheme \<Rightarrow> ('w, timestamp option) vault_io" where
  "get_last_health_check_at E = get_timestamp_metadata E ''last_health_check_at''"

definition set_last_health_check_at :: "('x) rotation_env_scheme \<Rightarrow> timestamp \<Rightarrow> ('w, unit) vault_io" where
  "set_last_health_check_at E at = vault_set_metadata ''last_health_check_at'' (rfc3339_show E at)"

definition get_last_hibp_degraded_at :: "('x) rotation_env_scheme \<Rightarrow> ('w, timestamp option) vault_io" where
  "get_last_hibp_degraded_at E = get_timestamp_metadata E ''last_hibp_degraded_at''"

definition set_last_hibp_degraded_at :: "('x) rotation_env_scheme \<Rightarrow> timestamp \<Rightarrow> ('w, unit) vault_io" where
  "set_last_hibp_degraded_at E at = vault_set_metadata ''last_hibp_degraded_at'' (rfc3339_show E at)"

definition log_dek_rotated :: "('w, 'y) vault_ops_scheme \<Rightarrow> string \<Rightarrow> ('w, unit) vault_io" where
  "log_dek_rotated C detail = dbq (insert_audit_entry C DekRotated None None (Some detail))"

definition log_dek_rotation_failed :: "('w, 'y) vault_ops_scheme \<Rightarrow> string \<Rightarrow> ('w, unit) vault_io" where
  "log_dek_rotation_failed C detail = dbq (insert_audit_entry C audit_operation.DekRotationFailed None None (Some detail))"

section \<open>Checkpoint and pending trigger (services/rotation.rs)\<close>

type_synonym ('w, 'a) rotation_io = "('w vault, rotation_error, 'a) io"

definition CHECKPOINT_KEY :: string where "CHECKPOINT_KEY = ''rotation_checkpoint''"
definition PENDING_TRIGGER_KEY :: string where "PENDING_TRIGGER_KEY = ''pending_rotation_trigger''"
definition PENDING_SINCE_KEY :: string where "PENDING_SINCE_KEY = ''pending_rotation_since''"

definition internal :: "('x) error_env_scheme \<Rightarrow> ('w, 'a) vault_io \<Rightarrow> ('w, 'a) rotation_io" where
  "internal E m = io_map_err (\<lambda>e. RotInternal (vault_error_to_string E e)) m"

definition rot_res :: "(string \<Rightarrow> rotation_error) \<Rightarrow> string + 'a \<Rightarrow> ('w, 'a) rotation_io" where
  "rot_res h r = io_lift (map_err h r)"

definition save_checkpoint :: "('x) rotation_env_scheme \<Rightarrow> rotation_checkpoint \<Rightarrow> ('w, unit) rotation_io" where
  "save_checkpoint E cp =
     io_bind (rot_res CheckpointCorrupted (ser_rot_checkpoint E cp)) (\<lambda>json.
     internal E (vault_set_metadata CHECKPOINT_KEY json))"

definition load_checkpoint :: "('x) rotation_env_scheme \<Rightarrow> ('w, rotation_checkpoint option) rotation_io" where
  "load_checkpoint E =
     io_bind (internal E (vault_get_metadata CHECKPOINT_KEY)) (\<lambda>json. case json of
       Some (c # s) \<Rightarrow> io_bind (rot_res CheckpointCorrupted (de_rot_checkpoint E (c # s))) (\<lambda>cp. io_return (Some cp))
     | _ \<Rightarrow> io_return None)"

definition delete_checkpoint :: "('x) rotation_env_scheme \<Rightarrow> ('w, unit) rotation_io" where
  "delete_checkpoint E = internal E (vault_delete_metadata CHECKPOINT_KEY)"

definition save_pending_trigger ::
  "('x) rotation_env_scheme \<Rightarrow> rotation_trigger \<Rightarrow> timestamp \<Rightarrow> ('w, unit) rotation_io" where
  "save_pending_trigger E trigger triggered_at =
     io_bind (rot_res RotInternal (ser_trigger E trigger)) (\<lambda>trigger_json.
     io_bind (internal E (vault_set_metadata PENDING_TRIGGER_KEY trigger_json)) (\<lambda>_.
     internal E (vault_set_metadata PENDING_SINCE_KEY (rfc3339_show E triggered_at))))"

definition load_pending_trigger ::
  "('x) rotation_env_scheme \<Rightarrow> ('w, (rotation_trigger \<times> timestamp) option) rotation_io" where
  "load_pending_trigger E =
     io_bind (internal E (vault_get_metadata PENDING_TRIGGER_KEY)) (\<lambda>json. case json of
       Some (c # s) \<Rightarrow>
         io_bind (internal E (vault_get_metadata PENDING_SINCE_KEY)) (\<lambda>since. case since of
           Some (c' # s') \<Rightarrow>
             io_bind (rot_res CheckpointCorrupted (de_trigger E (c # s))) (\<lambda>trigger.
             io_bind (rot_res (\<lambda>e. CheckpointCorrupted (''invalid datetime: '' @ e)) (datetime_parse E (c' # s'))) (\<lambda>triggered_at.
             io_return (Some (trigger, triggered_at))))
         | _ \<Rightarrow> io_lift (Inl (CheckpointCorrupted ''pending_trigger present but pending_since absent'')))
     | _ \<Rightarrow> io_return None)"

definition clear_pending_trigger :: "('x) rotation_env_scheme \<Rightarrow> ('w, unit) rotation_io" where
  "clear_pending_trigger E =
     io_bind (internal E (vault_delete_metadata PENDING_TRIGGER_KEY)) (\<lambda>_.
     internal E (vault_delete_metadata PENDING_SINCE_KEY))"

section \<open>When to rotate\<close>

definition check_trigger :: "rotation_config \<Rightarrow> bool \<Rightarrow> u32 option \<Rightarrow> u32 \<Rightarrow> rotation_trigger option" where
  "check_trigger config online days_since_last_rotation current_dek_record_count =
     (if \<not> rg_auto_rotate config then None
      else if \<not> online then None
      else case (case (rg_rotate_after_days config, days_since_last_rotation) of
          (Some days, Some days_since) \<Rightarrow> if days \<le> days_since then Some (AutoTime days_since) else None
        | _ \<Rightarrow> None) of
        Some t \<Rightarrow> Some t
      | None \<Rightarrow> (case rg_rotate_after_records config of
          Some threshold \<Rightarrow> if threshold \<le> current_dek_record_count then Some (AutoCount current_dek_record_count) else None
        | None \<Rightarrow> None))"

text \<open>Whole seconds, hours and days of a duration in nanoseconds, rounded towards zero.\<close>

definition num_seconds :: "int \<Rightarrow> int" where "num_seconds d = d sdiv 1000000000"
definition num_hours :: "int \<Rightarrow> int" where "num_hours d = num_seconds d sdiv 3600"
definition num_days :: "int \<Rightarrow> int" where "num_days d = num_seconds d sdiv 86400"

definition is_past_grace_period :: "('w, 'y) vault_ops_scheme \<Rightarrow> timestamp \<Rightarrow> 'w vault \<Rightarrow> bool \<times> 'w vault" where
  "is_past_grace_period C triggered_at v = (case dbo_now C (v_ext v) of
     (now, w) \<Rightarrow> (uint GRACE_PERIOD_HOURS \<le> num_hours (now - triggered_at), v\<lparr>v_ext := w\<rparr>))"

section \<open>Migration of the records\<close>

definition migrate_record ::
  "('x) rotation_env_scheme \<Rightarrow> ('w, 'y) vault_ops_scheme \<Rightarrow> vault_service \<Rightarrow> uuid \<Rightarrow> u32 \<Rightarrow> ('w, unit) rotation_io" where
  "migrate_record E C S record_id old_dek_version =
     io_map_err (\<lambda>e. RecordMigrationFailed (uuid_show E record_id) (vault_error_to_string E e))
       (re_encrypt_record E C S record_id old_dek_version)"

definition lazy_migrate_record ::
  "('x) rotation_env_scheme \<Rightarrow> ('w, 'y) vault_ops_scheme \<Rightarrow> vault_service \<Rightarrow> uuid \<Rightarrow> u32 \<Rightarrow> ('w, unit) rotation_io" where
  "lazy_migrate_record E C S record_id record_dek_version =
     (let current_version = cg_current_dek_version (vs_crypto S) in
      if record_dek_version < current_version then
        io_bind (migrate_record E C S record_id record_dek_version) (\<lambda>_.
        io_bind (io_ok (log_dek_rotated C (''lazy migration: record '' @ uuid_show E record_id @ '' v'' @ show_word record_dek_version
          @ '' -> v'' @ show_word current_version))) (\<lambda>_. io_return ()))
      else io_return ())"

text \<open>The loop of \<open>migrate_all_records\<close>; \<open>migrated\<close> is its counter, the checkpoint is updated in place.\<close>

fun migrate_loop ::
  "('x) rotation_env_scheme \<Rightarrow> ('w, 'y) vault_ops_scheme \<Rightarrow> vault_service \<Rightarrow> stored_record list \<Rightarrow> u32 \<Rightarrow> rotation_checkpoint
     \<Rightarrow> ('w, u32 \<times> rotation_checkpoint) rotation_io" where
  "migrate_loop E C S [] migrated cp = io_return (migrated, cp)"
| "migrate_loop E C S (record # records) migrated cp =
     (if 0 < migrated \<and> rc_last_migrated_record_id cp = Some (uuid_show E (sr_id record))
      then migrate_loop E C S records migrated cp
      else
        io_bind (migrate_record E C S (sr_id record) (sr_dek_version record)) (\<lambda>_.
        let migrated' = migrated + 1;
            cp' = cp\<lparr>rc_migrated_records := migrated', rc_last_migrated_record_id := Some (uuid_show E (sr_id record))\<rparr> in
        io_bind (save_checkpoint E cp') (\<lambda>_. migrate_loop E C S records migrated' cp')))"

definition migrate_all_records ::
  "('x) rotation_env_scheme \<Rightarrow> ('w, 'y) vault_ops_scheme \<Rightarrow> vault_service \<Rightarrow> rotation_checkpoint
     \<Rightarrow> ('w, u32 \<times> rotation_checkpoint) rotation_io" where
  "migrate_all_records E C S cp =
     io_bind (internal E (list_records_for_migration C (rc_new_dek_version cp))) (\<lambda>records.
     migrate_loop E C S records (rc_migrated_records cp) cp)"

section \<open>The service\<close>

text \<open>The service borrows the vault and holds its state; a method works on both.\<close>

type_synonym ('w, 'a) service_io = "('w vault \<times> rotation_state, rotation_error, 'a) io"

definition on_vault :: "('w, 'a) rotation_io \<Rightarrow> ('w, 'a) service_io" where
  "on_vault m vs = (case m (fst vs) of (r, v) \<Rightarrow> (r, (v, snd vs)))"

definition set_state :: "rotation_state \<Rightarrow> ('w, unit) service_io" where
  "set_state s vs = (Inr (), (fst vs, s))"

definition rot_now :: "('w, 'y) vault_ops_scheme \<Rightarrow> ('w, timestamp) service_io" where
  "rot_now C = on_vault (utc_now C)"

definition get_config :: "('x) rotation_env_scheme \<Rightarrow> ('w, rotation_config) service_io" where
  "get_config E = on_vault (
     io_bind (internal E (vault_get_metadata ''rotation_config'')) (\<lambda>json. case json of
       Some (c # s) \<Rightarrow> rot_res RotInternal (de_rot_config E (c # s))
     | _ \<Rightarrow> io_return rotation_config_default))"

definition put_config :: "('x) rotation_env_scheme \<Rightarrow> rotation_config \<Rightarrow> ('w, unit) service_io" where
  "put_config E config = on_vault (
     io_bind (rot_res RotInternal (ser_rot_config E config)) (\<lambda>json.
     internal E (vault_set_metadata ''rotation_config'' json)))"

definition updated_config :: "rotation_config_update \<Rightarrow> rotation_config \<Rightarrow> rotation_config" where
  "updated_config update config =
     (let config = (case ru_auto_rotate update of Some b \<Rightarrow> config\<lparr>rg_auto_rotate := b\<rparr> | None \<Rightarrow> config);
          config = (case ru_rotate_after_days update of Some d \<Rightarrow> config\<lparr>rg_rotate_after_days := d\<rparr> | None \<Rightarrow> config)
      in (case ru_rotate_after_records update of Some n \<Rightarrow> config\<lparr>rg_rotate_after_records := n\<rparr> | None \<Rightarrow> config))"

definition update_config :: "('x) rotation_env_scheme \<Rightarrow> rotation_config_update \<Rightarrow> ('w, unit) service_io" where
  "update_config E update = io_bind (get_config E) (\<lambda>config. put_config E (updated_config update config))"

definition has_pending_checkpoint :: "('x) rotation_env_scheme \<Rightarrow> ('w, bool) service_io" where
  "has_pending_checkpoint E = io_bind (on_vault (load_checkpoint E)) (\<lambda>cp. io_return (cp \<noteq> None))"

definition rotation_result_of ::
  "rotation_checkpoint \<Rightarrow> rotation_trigger \<Rightarrow> u32 \<Rightarrow> timestamp \<Rightarrow> timestamp \<Rightarrow> rotation_result" where
  "rotation_result_of cp trigger migrated start_time now =
     \<lparr> rr_old_dek_version = rc_old_dek_version cp, rr_new_dek_version = rc_new_dek_version cp, rr_records_migrated = migrated,
       rr_duration_secs = word_of_int (num_seconds (now - start_time)), rr_trigger = trigger \<rparr>"

definition resume_rotation ::
  "('x) rotation_env_scheme \<Rightarrow> ('w, 'y) vault_ops_scheme \<Rightarrow> vault_service \<Rightarrow> ('w, rotation_result) service_io" where
  "resume_rotation E C S =
     io_bind (on_vault (load_checkpoint E)) (\<lambda>loaded.
     io_bind (io_lift (ok_or (RotInternal ''no checkpoint to resume'') loaded)) (\<lambda>checkpoint.
     io_bind (rot_now C) (\<lambda>start_time.
     io_bind (set_state (Rotating checkpoint)) (\<lambda>_.
     io_bind (on_vault (migrate_all_records E C S checkpoint)) (\<lambda>(records_migrated, checkpoint).
     io_bind (rot_now C) (\<lambda>now.
     let result = rotation_result_of checkpoint (rc_trigger checkpoint) records_migrated start_time now in
     io_bind (rot_now C) (\<lambda>completed_at.
     io_bind (set_state (RotCompleted completed_at (rr_records_migrated result))) (\<lambda>_.
     io_bind (on_vault (delete_checkpoint E)) (\<lambda>_.
     io_return result)))))))))"

definition rotation_checkpoint_new :: "rotation_trigger \<Rightarrow> u32 \<Rightarrow> timestamp \<Rightarrow> u64 \<Rightarrow> rotation_checkpoint" where
  "rotation_checkpoint_new trigger current_version now expected =
     \<lparr> rc_trigger = trigger, rc_old_dek_version = current_version, rc_new_dek_version = current_version + 1,
       rc_total_records = 0, rc_migrated_records = 0, rc_last_migrated_record_id = None, rc_started_at = now,
       rc_cloud_metadata_revision = ''cas-'' @ show_word expected \<rparr>"

definition rotate_key ::
  "('x) rotation_env_scheme \<Rightarrow> ('w, 'y) vault_ops_scheme \<Rightarrow> vault_service \<Rightarrow> rotation_trigger \<Rightarrow> u64 \<Rightarrow> ('w, rotation_result) service_io" where
  "rotate_key E C S trigger expected_metadata_version =
     (let current_version = cg_current_dek_version (vs_crypto S) in
     io_bind (rot_now C) (\<lambda>start_time.
     if MAX_DEK_VERSION \<le> current_version then io_lift (Inl (MaxVersionExceeded current_version MAX_DEK_VERSION)) else
     io_bind (rot_now C) (\<lambda>triggered_at.
     io_bind (set_state (RotPending triggered_at trigger)) (\<lambda>_.
     io_bind (rot_now C) (\<lambda>started_at.
     let checkpoint = rotation_checkpoint_new trigger current_version started_at expected_metadata_version in
     io_bind (set_state (Rotating checkpoint)) (\<lambda>_.
     io_bind (on_vault (save_checkpoint E checkpoint)) (\<lambda>_.
     io_bind (on_vault (migrate_all_records E C S checkpoint)) (\<lambda>(records_migrated, checkpoint).
     io_bind (rot_now C) (\<lambda>now.
     let result = rotation_result_of checkpoint trigger records_migrated start_time now in
     io_bind (rot_now C) (\<lambda>completed_at.
     io_bind (set_state (RotCompleted completed_at (rr_records_migrated result))) (\<lambda>_.
     io_bind (on_vault (delete_checkpoint E)) (\<lambda>_.
     io_bind (get_config E) (\<lambda>config.
     io_bind (rot_now C) (\<lambda>last.
     io_bind (put_config E (config\<lparr>rg_last_rotation_at := Some last, rg_current_dek_record_count := 0\<rparr>)) (\<lambda>_.
     io_bind (on_vault (internal E (log_dek_rotated C (''DEK v'' @ show_word (rr_old_dek_version result) @ '' -> v''
         @ show_word (rr_new_dek_version result) @ '' ('' @ trigger_debug (rr_trigger result) @ '')'')))) (\<lambda>_.
     io_return result))))))))))))))))"

definition trigger_rotation ::
  "('x) rotation_env_scheme \<Rightarrow> ('w, 'y) vault_ops_scheme \<Rightarrow> vault_service \<Rightarrow> u64 \<Rightarrow> ('w, rotation_result) service_io" where
  "trigger_rotation E C S expected_metadata_version = rotate_key E C S Manual expected_metadata_version"

end
