(* ===== verification/Rotation_Laws.thy ===== *)
theory Rotation_Laws
  imports Rotation Vault_Rotate
begin

text \<open>
  What key rotation achieves. A rotation re-encrypts every record it lists and keeps what the records
  say, but under the version the vault already had: the version it reports as new is used by no
  record, so the next rotation lists the same records again.
\<close>

section \<open>Preconditions on the service's state\<close>

lemma wp_on_vault [wp_simps]:
  "wp (on_vault m) Q vs \<longleftrightarrow> wp m (\<lambda>a v. Q a (v, snd vs)) (fst vs)"
  "wpt (on_vault m) Q vs \<longleftrightarrow> wpt m (\<lambda>a v. Q a (v, snd vs)) (fst vs)"
  by (auto simp: wp_def wpt_def on_vault_def split: prod.splits)

lemma wp_set_state [wp_simps]:
  "wp (set_state s) Q vs \<longleftrightarrow> Q () (fst vs, s)"
  "wpt (set_state s) Q vs \<longleftrightarrow> Q () (fst vs, s)"
  by (auto simp: wp_def wpt_def set_state_def)

lemma wp_rot_now [wp_simps]:
  "wp (rot_now C) Q vs \<longleftrightarrow> (let (t, w) = dbo_now C (v_ext (fst vs)) in Q t ((fst vs)\<lparr>v_ext := w\<rparr>, snd vs))"
  "wpt (rot_now C) Q vs \<longleftrightarrow> (let (t, w) = dbo_now C (v_ext (fst vs)) in Q t ((fst vs)\<lparr>v_ext := w\<rparr>, snd vs))"
  unfolding rot_now_def by (simp_all add: wp_simps split: prod.splits)

lemma wp_rot_res [wp_simps]:
  "wp (rot_res h r) Q v \<longleftrightarrow> (case r of Inl _ \<Rightarrow> True | Inr a \<Rightarrow> Q a v)"
  "wpt (rot_res h r) Q v \<longleftrightarrow> (case r of Inl _ \<Rightarrow> False | Inr a \<Rightarrow> Q a v)"
  by (auto simp: rot_res_def wp_simps split: sum.splits)

lemma wp_metadata [wp_simps]:
  "wp (vault_get_metadata key) Q v \<longleftrightarrow> Q (map_of (tb_metadata (v_db v)) key) v"
  "wpt (vault_get_metadata key) Q v \<longleftrightarrow> Q (map_of (tb_metadata (v_db v)) key) v"
  "wp (vault_set_metadata key x) Q' v \<longleftrightarrow> Q' () (v\<lparr>v_db := (v_db v)\<lparr>tb_metadata := AList.update key x (tb_metadata (v_db v))\<rparr>\<rparr>)"
  "wpt (vault_set_metadata key x) Q' v \<longleftrightarrow> Q' () (v\<lparr>v_db := (v_db v)\<lparr>tb_metadata := AList.update key x (tb_metadata (v_db v))\<rparr>\<rparr>)"
  "wp (vault_delete_metadata key) Q' v \<longleftrightarrow> Q' () (v\<lparr>v_db := (v_db v)\<lparr>tb_metadata := AList.delete key (tb_metadata (v_db v))\<rparr>\<rparr>)"
  "wpt (vault_delete_metadata key) Q' v \<longleftrightarrow> Q' () (v\<lparr>v_db := (v_db v)\<lparr>tb_metadata := AList.delete key (tb_metadata (v_db v))\<rparr>\<rparr>)"
  by (simp_all add: vault_get_metadata_def vault_set_metadata_def vault_delete_metadata_def get_metadata_def set_metadata_def
    delete_metadata_def wp_simps select_def change_def)

lemma wp_internal [wp_simps]: "wp (internal E m) Q = wp m Q" "wpt (internal E m) Q = wpt m Q"
  by (simp_all add: internal_def wp_simps)

text \<open>The laws of the text formats.\<close>

definition rotation_laws :: "('x) rotation_env_scheme \<Rightarrow> bool" where
  "rotation_laws E \<longleftrightarrow>
     (\<forall>cp. \<exists>c s. ser_rot_checkpoint E cp = Inr (c # s) \<and> de_rot_checkpoint E (c # s) = Inr cp)
     \<and> (\<forall>t. \<exists>c s. ser_trigger E t = Inr (c # s) \<and> de_trigger E (c # s) = Inr t)
     \<and> (\<forall>g. \<exists>c s. ser_rot_config E g = Inr (c # s) \<and> de_rot_config E (c # s) = Inr g)
     \<and> (\<forall>t. printable_time t \<longrightarrow> datetime_parse E (rfc3339_show E t) = Inr t)"

section \<open>Checkpoint and pending trigger\<close>

lemma checkpoint_saved:
  assumes "rotation_laws E"
  shows "wpt (save_checkpoint E cp) (\<lambda>_ v'. load_checkpoint E v' = (Inr (Some cp), v')
    \<and> (\<exists>x. v_db v' = (v_db v)\<lparr>tb_metadata := AList.update CHECKPOINT_KEY x (tb_metadata (v_db v))\<rparr>)) v"
proof -
  obtain c s where cs: "ser_rot_checkpoint E cp = Inr (c # s)" "de_rot_checkpoint E (c # s) = Inr cp"
    using assms unfolding rotation_laws_def by metis
  then show ?thesis
    by (auto simp: save_checkpoint_def wp_simps load_checkpoint_def internal_def rot_res_def vault_get_metadata_def get_metadata_def
      io_map_err_def io_bind_def exec_def select_def)
qed

text \<open>
  A pending trigger that was saved is loaded with its time, and clearing it leaves none; the two
  calls touch no other key.
\<close>

lemma pending_trigger_saved:
  assumes "rotation_laws E" "env_laws E" "printable_time t"
  shows "wpt (save_pending_trigger E trg t) (\<lambda>_ v'. load_pending_trigger E v' = (Inr (Some (trg, t)), v')
    \<and> (\<forall>k. k \<notin> {PENDING_TRIGGER_KEY, PENDING_SINCE_KEY} \<longrightarrow> map_of (tb_metadata (v_db v')) k = map_of (tb_metadata (v_db v)) k)) v"
proof -
  obtain c s where cs: "ser_trigger E trg = Inr (c # s)" "de_trigger E (c # s) = Inr trg"
    using assms(1) unfolding rotation_laws_def by metis
  obtain c' s' where t: "rfc3339_show E t = c' # s'" "datetime_parse E (c' # s') = Inr t"
    using assms unfolding rotation_laws_def env_laws_def by (metis list.exhaust)
  show ?thesis
    using cs t by (auto simp: save_pending_trigger_def wp_simps load_pending_trigger_def internal_def rot_res_def vault_get_metadata_def
      get_metadata_def io_map_err_def io_bind_def exec_def select_def PENDING_TRIGGER_KEY_def PENDING_SINCE_KEY_def)
qed

lemma pending_trigger_cleared:
  "wpt (clear_pending_trigger E) (\<lambda>_ v'. load_pending_trigger E v' = (Inr None, v')) v"
  by (simp add: clear_pending_trigger_def wp_simps load_pending_trigger_def internal_def vault_get_metadata_def
      get_metadata_def io_map_err_def io_bind_def exec_def select_def delete_conv' PENDING_TRIGGER_KEY_def PENDING_SINCE_KEY_def)

section \<open>A rotation does not advance the version\<close>

definition needs_migration :: "vault_db \<Rightarrow> u32 \<Rightarrow> uuid \<Rightarrow> bool" where
  "needs_migration d target rid \<longleftrightarrow> (\<exists>row. map_of (tb_records d) rid = Some row \<and> rr_dek_version row < uint target)"

lemma needs_migration_cong: "tb_records d = tb_records d' \<Longrightarrow> needs_migration d = needs_migration d'"
  by (simp add: needs_migration_def fun_eq_iff)

text \<open>What happens to the rows: those of \<open>ids\<close> are at the version \<open>cur\<close>, no other row changes.\<close>

definition rekeyed :: "u32 \<Rightarrow> uuid set \<Rightarrow> (uuid \<times> record_row) list \<Rightarrow> (uuid \<times> record_row) list \<Rightarrow> bool" where
  "rekeyed cur ids rs rs' \<longleftrightarrow> (\<forall>k. if k \<in> ids then (map_of rs k \<noteq> None \<and> (\<exists>row'. map_of rs' k = Some row' \<and> rr_dek_version row' = uint cur))
     else map_of rs' k = map_of rs k)"

lemma rekeyed_empty [simp]: "rekeyed cur {} rs rs"
  by (simp add: rekeyed_def)

lemma rekeyed_trans: "rekeyed cur A rs rs' \<Longrightarrow> rekeyed cur B rs' rs'' \<Longrightarrow> rekeyed cur (A \<union> B) rs rs''"
  unfolding rekeyed_def by (smt (verit) Un_iff)

lemma rekeyed_insert: "rekeyed cur {i} rs rs' \<Longrightarrow> rekeyed cur B rs' rs'' \<Longrightarrow> rekeyed cur (insert i B) rs rs''"
  using rekeyed_trans[of cur "{i}"] by simp

lemma wp_keeps:
  assumes "keeps P m" "P (v_db v)" "wp m Q v"
  shows "wp m (\<lambda>a v'. Q a v' \<and> P (v_db v')) v"
  using assms unfolding wp_def keeps_def by (metis snd_conv)

lemma re_encrypt_rekeys:
  assumes "distinct (map fst (tb_records (v_db v)))"
  shows "wp (re_encrypt_record E C S rid u)
    (\<lambda>_ v'. rekeyed (cg_current_dek_version (vs_crypto S)) {rid} (tb_records (v_db v)) (tb_records (v_db v'))) v"
proof -
  let ?R = "\<lambda>v'. rekeyed (cg_current_dek_version (vs_crypto S)) {rid} (tb_records (v_db v)) (tb_records (v_db v'))"
  have upd: "wp (dbq (update_record r ver)) (\<lambda>ok v'. ok \<longrightarrow> ?R v') v1"
    if "tb_records (v_db v1) = tb_records (v_db v)" "map_of (tb_records (v_db v)) rid = Some row" "sr_id r = rid"
      "sr_dek_version r = cg_current_dek_version (vs_crypto S)" for r ver v1 row
  proof -
    note row = that
    obtain v2 where "update_record r ver v1 = (Inr (rr_version row = sint ver), v2)"
      "map_of (tb_records (v_db v2)) (sr_id r) = Some (if rr_version row = sint ver then updated_row r row else row)"
      "\<And>k. k \<noteq> sr_id r \<Longrightarrow> map_of (tb_records (v_db v2)) k = map_of (tb_records (v_db v1)) k"
      by (rule update_record_spec[of v1 r row ver]) (use assms row in simp_all)
    then show ?thesis
      using row by (simp add: wp_simps) (auto simp: wp_def rekeyed_def updated_row_def)
  qed
  show ?thesis
    unfolding re_encrypt_record_def
    apply (rule wp_step_stored)
    apply (rule wp_step_over[where g = tb_records, OF frame_rule], intro inv_intros)+
    apply (rule wp_step_prod)
    apply (rule wp_step_over[where g = tb_records, OF frame_rule], intro inv_intros)
    apply (intro wp_step_let wp_step_bind)
    apply (rule wp_mono[OF upd])
        apply (auto simp: wp_simps dest: to_stored_version)
    done
qed

lemma migrate_record_rekeys:
  assumes "db_wf (v_db v)"
  shows "wp (migrate_record E C S rid u) (\<lambda>_ v'. rekeyed (cg_current_dek_version (vs_crypto S)) {rid} (tb_records (v_db v)) (tb_records (v_db v'))
    \<and> db_wf (v_db v')) v"
  unfolding migrate_record_def wp_simps
  using assms by (intro wp_keeps wf.record_methods re_encrypt_rekeys) (simp_all add: db_wf_def)

lemma save_checkpoint_rows: "wp (save_checkpoint E cp) (\<lambda>_ v'. tb_records (v_db v') = tb_records (v_db v) \<and> (db_wf (v_db v) \<longrightarrow> db_wf (v_db v'))) v"
  by (auto simp: save_checkpoint_def wp_simps db_wf_def distinct_update split: sum.splits)

text \<open>The loop. No record is skipped when it starts with the counter at zero.\<close>

definition skips_none :: "('x) env_scheme \<Rightarrow> u32 \<Rightarrow> rotation_checkpoint \<Rightarrow> stored_record list \<Rightarrow> bool" where
  "skips_none E migrated cp records \<longleftrightarrow> migrated = 0
     \<or> rc_last_migrated_record_id cp \<notin> (Some \<circ> uuid_show E \<circ> sr_id) ` set (take 1 records)"

lemma migrate_loop_rekeys:
  assumes "env_laws E" "db_wf (v_db v)" "distinct (map sr_id records)" "skips_none E migrated cp records"
  shows "wp (migrate_loop E C S records migrated cp)
    (\<lambda>(n, cp') v'. rekeyed (cg_current_dek_version (vs_crypto S)) (sr_id ` set records) (tb_records (v_db v)) (tb_records (v_db v'))
      \<and> db_wf (v_db v') \<and> n = migrated + of_nat (length records)
      \<and> rc_old_dek_version cp' = rc_old_dek_version cp \<and> rc_new_dek_version cp' = rc_new_dek_version cp) v"
  using assms(2-)
proof (induction records arbitrary: migrated cp v)
  case Nil
  then show ?case by (simp add: wp_def)
next
  case (Cons r records)
  let ?cur = "cg_current_dek_version (vs_crypto S)"
  let ?cp = "cp\<lparr>rc_migrated_records := migrated + 1, rc_last_migrated_record_id := Some (uuid_show E (sr_id r))\<rparr>"
  have go: "\<not> (0 < migrated \<and> rc_last_migrated_record_id cp = Some (uuid_show E (sr_id r)))"
    using Cons.prems(3) by (auto simp: skips_none_def)
  have "uuid_show E i = uuid_show E j \<longleftrightarrow> i = j" for i j
    using assms(1) unfolding env_laws_def by (metis option.inject)
  then have rest: "skips_none E (migrated + 1) ?cp records"
    using Cons.prems(2) by (cases records) (auto simp: skips_none_def)
  show ?case
    apply (simp only: migrate_loop.simps go if_False)
    apply (rule wp_step_bind, rule wp_mono[OF migrate_record_rekeys[OF Cons.prems(1)]])
    apply (intro wp_step_let, rule wp_step_bind, rule wp_mono[OF save_checkpoint_rows])
    apply (rule wp_mono[OF Cons.IH])
    using Cons.prems(2) rest by (auto intro: rekeyed_insert)
qed

text \<open>The first record the migration to a version lists.\<close>

definition first_listed :: "vault_db \<Rightarrow> u32 \<Rightarrow> uuid option" where
  "first_listed d u = (case filter (\<lambda>r. rr_dek_version (snd r) < uint u) (tb_records d) of [] \<Rightarrow> None | r # _ \<Rightarrow> Some (fst r))"

lemma convert_rows_ids: "wp (convert_rows C rows) (\<lambda>records v'. v' = v \<and> map sr_id records = map fst rows) v"
proof (induction rows)
  case (Cons r rows)
  show ?case
  proof (cases r)
    case (Pair rid row)
    have "wp (io_bind (convert_rows C rows) (\<lambda>records. io_return (r1 # records)))
        (\<lambda>records v'. v' = v \<and> map sr_id records = rid # map fst rows) v" if "sr_id r1 = rid" for r1
      by (rule wp_step_bind, rule wp_mono[OF Cons]) (auto simp: wp_simps that)
    then show ?thesis
      unfolding Pair by (auto simp: wp_simps select_def split: sum.splits dest: to_stored_version)
  qed
qed (simp add: wp_def)

lemma listed_ids:
  assumes "distinct (map fst rs)"
  shows "fst ` set (filter (\<lambda>r. P (snd r)) rs) = {rid. \<exists>row. map_of rs rid = Some row \<and> P row}"
proof -
  have "(rid, row) \<in> set rs \<longleftrightarrow> map_of rs rid = Some row" for rid row
    using assms by (simp add: map_of_eq_Some_iff)
  then show ?thesis
    by (force simp: image_iff)
qed

lemma list_migration_ids:
  assumes "db_wf (v_db v)"
  shows "wp (list_records_for_migration C u)
    (\<lambda>records v'. v' = v \<and> distinct (map sr_id records) \<and> sr_id ` set records = Collect (needs_migration (v_db v) u)
       \<and> length records = card (Collect (needs_migration (v_db v) u))
       \<and> (\<forall>r \<in> set (take 1 records). first_listed (v_db v) u = Some (sr_id r))) v"
proof -
  let ?rows = "filter (\<lambda>r. rr_dek_version (snd r) < uint u) (tb_records (v_db v))"
  have d: "distinct (map fst (tb_records (v_db v)))"
    using assms by (simp add: db_wf_def)
  have "wp (convert_rows C ?rows)
     (\<lambda>records v'. v' = v \<and> distinct (map sr_id records) \<and> sr_id ` set records = Collect (needs_migration (v_db v) u)
       \<and> length records = card (Collect (needs_migration (v_db v) u))
       \<and> (\<forall>r \<in> set (take 1 records). first_listed (v_db v) u = Some (sr_id r))) v"
  proof (rule wp_mono[OF convert_rows_ids])
    fix records :: "stored_record list" and v'
    assume *: "v' = v \<and> map sr_id records = map fst ?rows"
    then have "sr_id ` set records = fst ` set ?rows"
      by (metis list.set_map)
    also have "\<dots> = Collect (needs_migration (v_db v) u)"
      unfolding listed_ids[OF d, of "\<lambda>row. rr_dek_version row < uint u"] needs_migration_def ..
    finally have ids: "sr_id ` set records = Collect (needs_migration (v_db v) u)" .
    moreover have "distinct (map sr_id records)"
      using * d by (simp add: distinct_map_filter_fst)
    moreover from this have "length records = card (Collect (needs_migration (v_db v) u))"
      using ids by (metis distinct_card length_map list.set_map)
    ultimately show "v' = v \<and> distinct (map sr_id records) \<and> sr_id ` set records = Collect (needs_migration (v_db v) u)
       \<and> length records = card (Collect (needs_migration (v_db v) u))
       \<and> (\<forall>r \<in> set (take 1 records). first_listed (v_db v) u = Some (sr_id r))"
      using * by (cases records; cases ?rows) (auto simp: first_listed_def)
  qed
  then show ?thesis
    by (simp add: list_records_for_migration_def list_records_by_dek_version_def wp_simps select_def)
qed

lemma migrate_all_rekeys:
  assumes "env_laws E" "db_wf (v_db v)"
    "rc_migrated_records cp = 0 \<or> rc_last_migrated_record_id cp \<noteq> map_option (uuid_show E) (first_listed (v_db v) (rc_new_dek_version cp))"
  shows "wp (migrate_all_records E C S cp)
    (\<lambda>(n, cp') v'. rekeyed (cg_current_dek_version (vs_crypto S)) (Collect (needs_migration (v_db v) (rc_new_dek_version cp)))
         (tb_records (v_db v)) (tb_records (v_db v'))
      \<and> n = rc_migrated_records cp + of_nat (card (Collect (needs_migration (v_db v) (rc_new_dek_version cp))))
      \<and> rc_old_dek_version cp' = rc_old_dek_version cp \<and> rc_new_dek_version cp' = rc_new_dek_version cp) v"
  unfolding migrate_all_records_def
  apply (rule wp_step_bind, unfold wp_internal, rule wp_mono[OF list_migration_ids[OF assms(2)]])
  subgoal for records v'
    apply (rule wp_mono[OF migrate_loop_rekeys[OF assms(1), of v' records "rc_migrated_records cp" cp]])
    using assms(2,3) by (auto simp: skips_none_def distinct_map card_image)
  done

text \<open>At the highest version a rotation is refused; only the clock was read.\<close>

lemma rotate_key_max:
  "MAX_DEK_VERSION \<le> cg_current_dek_version (vs_crypto S) \<Longrightarrow>
   rotate_key E C S trigger ev vs = (Inl (MaxVersionExceeded (cg_current_dek_version (vs_crypto S)) MAX_DEK_VERSION), snd (rot_now C vs))"
  by (simp add: rotate_key_def Let_def io_bind_def rot_now_def on_vault_def utc_now_def split: prod.splits)

lemma wp_get_config: "wp (get_config E) (\<lambda>_ vs'. vs' = vs) vs"
  by (auto simp: get_config_def wp_simps split: option.splits list.splits sum.splits)

lemma wp_put_config: "wp (put_config E g) (\<lambda>_ vs'. tb_records (v_db (fst vs')) = tb_records (v_db (fst vs))) vs"
  by (auto simp: put_config_def wp_simps split: sum.splits)

lemma wp_log_dek_rotated: "wp (log_dek_rotated C m) (\<lambda>_ v'. tb_records (v_db v') = tb_records (v_db v)) v"
  by (simp add: log_dek_rotated_def wp_simps insert_audit_entry_def change_def)

end
