(* ===== verification/Rotation_Total.thy ===== *)
theory Rotation_Total
  imports Rotation_Laws
begin

text \<open>
  Total correctness of a rotation: when the vault is unlocked and every record below the next version
  is readable, the rotation succeeds, migrates each of them once and keeps what they say. A resumed
  rotation, by contrast, migrates all of them again.
\<close>

definition holds_payload :: "('x) crypto_env_scheme \<Rightarrow> vault_service \<Rightarrow> (uuid \<times> record_row) list \<Rightarrow> uuid \<Rightarrow> encrypted_payload \<Rightarrow> bool" where
  "holds_payload E S rs rid p \<longleftrightarrow>
     (\<exists>r. map_of rs rid = Some (row_of_record r) \<and> sr_id r = rid \<and> record_typed r \<and> decrypt_stored E S r = Inr p)"

text \<open>A listed record that is still the one in the table, and reads as \<open>p\<close>.\<close>

definition listed_as :: "('x) crypto_env_scheme \<Rightarrow> vault_service \<Rightarrow> (uuid \<times> record_row) list \<Rightarrow> stored_record \<Rightarrow> encrypted_payload \<Rightarrow> bool" where
  "listed_as E S rs rec p \<longleftrightarrow> (\<exists>r. map_of rs (sr_id rec) = Some (row_of_record r) \<and> sr_id r = sr_id rec
     \<and> record_typed r \<and> decrypt_stored E S r = Inr p \<and> sr_dek_version r = sr_dek_version rec)"

lemma listed_as_cong: "map_of rs' (sr_id rec) = map_of rs (sr_id rec) \<Longrightarrow> listed_as E S rs' rec p = listed_as E S rs rec p"
  by (simp add: listed_as_def)

lemma wpt_wp_conj: "wpt m Q v \<Longrightarrow> wp m R v \<Longrightarrow> wpt m (\<lambda>a v'. Q a v' \<and> R a v') v"
  unfolding wpt_def wp_def by blast

lemma migrate_record_ok:
  assumes "crypto_laws E" "vault_ops_laws C" "has_kek (vs_crypto S)" "db_wf (v_db v)"
    "map_of (tb_records (v_db v)) rid = Some (row_of_record r)" "sr_id r = rid" "record_typed r" "decrypt_stored E S r = Inr p"
    "sr_dek_version r = u"
  shows "wpt (migrate_record E C S rid u) (\<lambda>_ v'. holds_payload E S (tb_records (v_db v')) rid p
    \<and> (\<forall>k. k \<noteq> rid \<longrightarrow> map_of (tb_records (v_db v')) k = map_of (tb_records (v_db v)) k)
    \<and> tb_metadata (v_db v') = tb_metadata (v_db v) \<and> db_wf (v_db v')) v"
proof -
  obtain v' r' where *: "re_encrypt_record E C S rid u v = (Inr (), v')"
      "map_of (tb_records (v_db v')) rid = Some (row_of_record r')" "record_typed r'" "decrypt_stored E S r' = Inr p"
      "\<forall>k. k \<noteq> rid \<longrightarrow> map_of (tb_records (v_db v')) k = map_of (tb_records (v_db v)) k" "sr_id r' = rid"
      "v_db v' = (v_db v)\<lparr>tb_records := tb_records (v_db v')\<rparr>"
    using re_encrypt_ok[OF assms(1-4,7)] assms(5,6,8,9) by metis
  moreover have "db_wf (v_db v')"
    using wf.record_methods(8) *(1) assms(4) unfolding keeps_def by (metis snd_conv)
  moreover have "tb_metadata (v_db v') = tb_metadata (v_db v)"
    by (subst *(7)) simp
  ultimately show ?thesis
    unfolding migrate_record_def by (auto simp: wp_simps) (auto simp: wpt_def holds_payload_def)
qed

lemma migrate_loop_ok:
  assumes "crypto_laws E" "vault_ops_laws C" "has_kek (vs_crypto S)" "rotation_laws E" "env_laws E"
    "db_wf (v_db v)" "distinct (map sr_id records)" "skips_none E migrated cp records"
    "\<forall>rec \<in> set records. listed_as E S (tb_records (v_db v)) rec (P (sr_id rec))"
  shows "wpt (migrate_loop E C S records migrated cp) (\<lambda>_ v'.
      (\<forall>rid \<in> sr_id ` set records. holds_payload E S (tb_records (v_db v')) rid (P rid))
      \<and> (\<forall>k. k \<notin> sr_id ` set records \<longrightarrow> map_of (tb_records (v_db v')) k = map_of (tb_records (v_db v)) k)
      \<and> (\<forall>key. key \<noteq> CHECKPOINT_KEY \<longrightarrow> map_of (tb_metadata (v_db v')) key = map_of (tb_metadata (v_db v)) key)) v"
  using assms(6-)
proof (induction records arbitrary: migrated cp v)
  case Nil
  then show ?case by (simp add: wpt_def)
next
  case (Cons rec records)
  let ?rid = "sr_id rec"
  let ?cp = "cp\<lparr>rc_migrated_records := migrated + 1, rc_last_migrated_record_id := Some (uuid_show E ?rid)\<rparr>"
  obtain r where r: "map_of (tb_records (v_db v)) ?rid = Some (row_of_record r)" "sr_id r = ?rid"
      "record_typed r" "decrypt_stored E S r = Inr (P ?rid)" "sr_dek_version r = sr_dek_version rec"
    using Cons.prems(4) by (auto simp: listed_as_def)
  have go: "\<not> (0 < migrated \<and> rc_last_migrated_record_id cp = Some (uuid_show E ?rid))"
    using Cons.prems(3) by (auto simp: skips_none_def)
  have "uuid_show E i = uuid_show E j \<longleftrightarrow> i = j" for i j
    using assms(5) unfolding env_laws_def by (metis option.inject)
  then have rest: "skips_none E (migrated + 1) ?cp records"
    using Cons.prems(2) by (cases records) (auto simp: skips_none_def)
  show ?case
    apply (simp only: migrate_loop.simps go if_False Let_def wp_simps)
    apply (rule wpt_mono[OF migrate_record_ok[OF assms(1-3) Cons.prems(1) r]])
    apply (rule wpt_mono[OF checkpoint_saved[OF assms(4)]])
    subgoal premises step for _ v1 _ v2
    proof -
      obtain x where db: "v_db v2 = (v_db v1)\<lparr>tb_metadata := AList.update CHECKPOINT_KEY x (tb_metadata (v_db v1))\<rparr>"
        using step by blast
      have "db_wf (v_db v2)"
        unfolding db using step by (auto simp: db_wf_def distinct_update)
      moreover have "\<forall>rec' \<in> set records. listed_as E S (tb_records (v_db v2)) rec' (P (sr_id rec'))"
      proof
        fix rec' assume "rec' \<in> set records"
        then have "sr_id rec' \<noteq> ?rid" "listed_as E S (tb_records (v_db v)) rec' (P (sr_id rec'))"
          using Cons.prems(2,4) by (auto simp: image_iff)
        moreover have "map_of (tb_records (v_db v2)) k = map_of (tb_records (v_db v)) k" if "k \<noteq> ?rid" for k
          unfolding db using step that by simp
        ultimately show "listed_as E S (tb_records (v_db v2)) rec' (P (sr_id rec'))"
          using listed_as_cong by metis
      qed
      ultimately show ?thesis
        apply (intro wpt_mono[OF Cons.IH[OF _ _ rest]])
        using Cons.prems(2) step by (auto simp: db holds_payload_def)
    qed
    done
qed

lemma convert_rows_ok:
  assumes "vault_ops_laws C" "\<forall>(rid, row) \<in> set rows. map_of (tb_records (v_db v)) rid = Some row \<and> holds_payload E S (tb_records (v_db v)) rid (P rid)"
  shows "wpt (convert_rows C rows) (\<lambda>records v'. v' = v \<and> (\<forall>rec \<in> set records. listed_as E S (tb_records (v_db v)) rec (P (sr_id rec)))) v"
  using assms(2)
proof (induction rows)
  case (Cons x rows)
  obtain rid row where x: "x = (rid, row)" by (cases x)
  then obtain r where r: "map_of (tb_records (v_db v)) rid = Some (row_of_record r)" "row = row_of_record r" "sr_id r = rid"
      "record_typed r" "decrypt_stored E S r = Inr (P rid)"
    using Cons.prems by (auto simp: holds_payload_def)
  let ?tags = "record_tag_names (v_db v) rid"
  have s: "to_stored_record C rid row ?tags = Inr (stored_as r ?tags)"
    using row_roundtrip[OF assms(1) r(4)] r by metis
  have "listed_as E S (tb_records (v_db v)) (stored_as r ?tags) (P rid)"
    using r by (auto simp: listed_as_def)
  then have "wpt (io_bind (convert_rows C rows) (\<lambda>records. io_return (stored_as r ?tags # records)))
     (\<lambda>records v'. v' = v \<and> (\<forall>rec \<in> set records. listed_as E S (tb_records (v_db v)) rec (P (sr_id rec)))) v"
    unfolding wp_simps using Cons.prems by (intro wpt_mono[OF Cons.IH]) (auto simp: r(3))
  then show ?case
    by (simp add: x wp_simps select_def s)
qed (simp add: wpt_def)

lemma migrate_all_ok:
  assumes "crypto_laws E" "vault_ops_laws C" "has_kek (vs_crypto S)" "rotation_laws E" "env_laws E"
    "db_wf (v_db v)"
    "rc_migrated_records cp = 0 \<or> rc_last_migrated_record_id cp \<noteq> map_option (uuid_show E) (first_listed (v_db v) (rc_new_dek_version cp))"
    "\<forall>rid. needs_migration (v_db v) (rc_new_dek_version cp) rid \<longrightarrow> holds_payload E S (tb_records (v_db v)) rid (P rid)"
  shows "wpt (migrate_all_records E C S cp) (\<lambda>_ v'.
      (\<forall>rid. needs_migration (v_db v) (rc_new_dek_version cp) rid \<longrightarrow> holds_payload E S (tb_records (v_db v')) rid (P rid))
      \<and> (\<forall>key. key \<noteq> CHECKPOINT_KEY \<longrightarrow> map_of (tb_metadata (v_db v')) key = map_of (tb_metadata (v_db v)) key)) v"
proof -
  let ?u = "rc_new_dek_version cp"
  let ?rows = "filter (\<lambda>r. rr_dek_version (snd r) < uint ?u) (tb_records (v_db v))"
  have d: "distinct (map fst (tb_records (v_db v)))"
    using assms(6) by (simp add: db_wf_def)
  have "\<forall>(rid, row) \<in> set ?rows. map_of (tb_records (v_db v)) rid = Some row \<and> holds_payload E S (tb_records (v_db v)) rid (P rid)"
    using assms(8) d by (auto simp: needs_migration_def map_of_eq_Some_iff)
  from convert_rows_ok[OF assms(2) this] have listed: "wpt (list_records_for_migration C ?u)
      (\<lambda>records v'. v' = v \<and> (\<forall>rec \<in> set records. listed_as E S (tb_records (v_db v)) rec (P (sr_id rec)))) v"
    by (simp add: list_records_for_migration_def list_records_by_dek_version_def wp_simps select_def)
  show ?thesis
    unfolding migrate_all_records_def wp_simps
    apply (rule wpt_mono[OF wpt_wp_conj[OF listed list_migration_ids[OF assms(6)]]])
    subgoal for records v'
      apply (rule wpt_mono[OF migrate_loop_ok[OF assms(1-5), of _ records "rc_migrated_records cp" cp P]])
      using assms(6,7) by (auto simp: skips_none_def)
    done
qed

definition config_readable :: "('x) rotation_env_scheme \<Rightarrow> vault_db \<Rightarrow> bool" where
  "config_readable E d \<longleftrightarrow> (case map_of (tb_metadata d) ''rotation_config'' of
     Some (c # s) \<Rightarrow> is_ok (de_rot_config E (c # s)) | _ \<Rightarrow> True)"

lemma get_config_ok: "config_readable E (v_db (fst vs)) \<Longrightarrow> wpt (get_config E) (\<lambda>_ vs'. vs' = vs) vs"
  by (auto simp: get_config_def wp_simps config_readable_def is_ok_iff split: option.splits list.splits sum.splits)

lemma put_config_ok:
  assumes "rotation_laws E"
  shows "wpt (put_config E g) (\<lambda>_ vs'. snd vs' = snd vs \<and>
    (\<exists>x. v_db (fst vs') = (v_db (fst vs))\<lparr>tb_metadata := AList.update ''rotation_config'' x (tb_metadata (v_db (fst vs)))\<rparr>)) vs"
proof -
  obtain x where "ser_rot_config E g = Inr x"
    using assms unfolding rotation_laws_def by metis
  then show ?thesis
    by (auto simp: put_config_def wp_simps)
qed

lemma log_dek_rotated_ok: "wpt (log_dek_rotated C m) (\<lambda>_ v'. \<exists>a. v_db v' = (v_db v)\<lparr>tb_audit := a\<rparr>) v"
  by (auto simp: log_dek_rotated_def wp_simps insert_audit_entry_def change_def)

lemma load_checkpoint_none:
  "map_of (tb_metadata (v_db v)) CHECKPOINT_KEY = None \<Longrightarrow> load_checkpoint E v = (Inr None, v)"
  by (simp add: load_checkpoint_def internal_def vault_get_metadata_def get_metadata_def io_map_err_def io_bind_def exec_def select_def)

lemma rotation_ok:
  assumes laws: "crypto_laws E" "vault_ops_laws C" "rotation_laws E" "env_laws E"
    and kek: "has_kek (vs_crypto S)" and wf: "db_wf (v_db v)" and cfg: "config_readable E (v_db v)"
    and below: "cg_current_dek_version (vs_crypto S) < MAX_DEK_VERSION"
    and readable: "\<forall>rid. needs_migration (v_db v) (cg_current_dek_version (vs_crypto S) + 1) rid
       \<longrightarrow> holds_payload E S (tb_records (v_db v)) rid (P rid)"
  shows "\<exists>res v' t. rotate_key E C S trigger ev (v, s) = (Inr res, (v', RotCompleted t (rr_records_migrated res)))
    \<and> rr_records_migrated res = of_nat (card (Collect (needs_migration (v_db v) (cg_current_dek_version (vs_crypto S) + 1))))
    \<and> load_checkpoint E v' = (Inr None, v')
    \<and> (\<forall>rid. needs_migration (v_db v) (cg_current_dek_version (vs_crypto S) + 1) rid
         \<longrightarrow> holds_payload E S (tb_records (v_db v')) rid (P rid))"
proof -
  let ?cur = "cg_current_dek_version (vs_crypto S)"
  let ?todo = "Collect (needs_migration (v_db v) (?cur + 1))"
  let ?Q = "\<lambda>res vs'. rr_records_migrated res = of_nat (card ?todo) \<and> (\<exists>t. snd vs' = RotCompleted t (rr_records_migrated res))
     \<and> map_of (tb_metadata (v_db (fst vs'))) CHECKPOINT_KEY = None
     \<and> (\<forall>rid. needs_migration (v_db v) (?cur + 1) rid \<longrightarrow> holds_payload E S (tb_records (v_db (fst vs'))) rid (P rid))"
  have all: "wpt (migrate_all_records E C S cp) (\<lambda>(n, cp') v'. n = of_nat (card ?todo)
      \<and> (\<forall>rid. needs_migration (v_db v) (?cur + 1) rid \<longrightarrow> holds_payload E S (tb_records (v_db v')) rid (P rid))
      \<and> config_readable E (v_db v')) v1"
    if "rc_migrated_records cp = 0" "rc_new_dek_version cp = ?cur + 1" "\<exists>x. v_db v1 = (v_db v)\<lparr>tb_metadata := AList.update CHECKPOINT_KEY x (tb_metadata (v_db v))\<rparr>"
    for cp v1
  proof -
    note hyps = that
    obtain x where db: "v_db v1 = (v_db v)\<lparr>tb_metadata := AList.update CHECKPOINT_KEY x (tb_metadata (v_db v))\<rparr>"
      using hyps(3) by blast
    have "needs_migration (v_db v1) = needs_migration (v_db v)"
      by (rule needs_migration_cong) (simp add: db)
    moreover have "db_wf (v_db v1)"
      using db wf by (simp add: db_wf_def distinct_update)
    moreover have "config_readable E d" if "map_of (tb_metadata d) ''rotation_config'' = map_of (tb_metadata (v_db v1)) ''rotation_config''" for d
      using cfg that db by (simp add: config_readable_def CHECKPOINT_KEY_def)
    ultimately show ?thesis
      apply (intro wpt_mono[OF wpt_wp_conj[OF migrate_all_ok[OF laws(1,2) kek laws(3,4)] migrate_all_rekeys[OF laws(4)]]])
      using hyps(1,2) db readable by (auto simp: CHECKPOINT_KEY_def)
  qed
  have "wpt (rotate_key E C S trigger ev) ?Q (v, s)"
    using below
    apply (simp only: rotate_key_def Let_def wp_simps split_def not_le[symmetric] if_False delete_checkpoint_def fst_conv snd_conv)
    apply (rule wpt_mono[OF checkpoint_saved[OF laws(3)]])
    apply (elim conjE exE)
    apply (rule wpt_mono[OF all])
    subgoal by (simp add: rotation_checkpoint_new_def)
    subgoal by (simp add: rotation_checkpoint_new_def)
    subgoal by auto
    subgoal
      apply (simp only: split_def)
      apply (elim conjE)
      apply (rule wpt_mono[OF get_config_ok])
       apply (simp add: config_readable_def CHECKPOINT_KEY_def delete_conv')
      apply (simp only: wp_simps Let_def split_def fst_conv snd_conv)
      apply (rule wpt_mono[OF put_config_ok[OF laws(3)]])
      apply (simp only: wp_simps)
      apply (rule wpt_mono[OF log_dek_rotated_ok])
      apply (auto simp: rotation_result_of_def holds_payload_def CHECKPOINT_KEY_def delete_conv')
      done
    done
  from wptD[OF this] obtain res vs' where both: "rotate_key E C S trigger ev (v, s) = (Inr res, vs') \<and> ?Q res vs'"
    by (elim exE)
  note run = both[THEN conjunct1] and Q = both[THEN conjunct2]
  obtain t where t: "vs' = (fst vs', RotCompleted t (rr_records_migrated res))"
    using Q by (metis prod.collapse)
  show ?thesis
    by (rule exI[of _ res], rule exI[of _ "fst vs'"], rule exI[of _ t])
       (use run t Q load_checkpoint_none in \<open>metis\<close>)
qed

lemma migrate_all_both:
  assumes "crypto_laws E" "vault_ops_laws C" "has_kek (vs_crypto S)" "rotation_laws E" "env_laws E"
    "db_wf (v_db v)"
    "rc_migrated_records cp = 0 \<or> rc_last_migrated_record_id cp \<noteq> map_option (uuid_show E) (first_listed (v_db v) (rc_new_dek_version cp))"
    "\<forall>rid. needs_migration (v_db v) (rc_new_dek_version cp) rid \<longrightarrow> holds_payload E S (tb_records (v_db v)) rid (P rid)"
  shows "wpt (migrate_all_records E C S cp) (\<lambda>(n, cp') v'.
      n = rc_migrated_records cp + of_nat (card (Collect (needs_migration (v_db v) (rc_new_dek_version cp))))
      \<and> (\<forall>rid. needs_migration (v_db v) (rc_new_dek_version cp) rid \<longrightarrow> holds_payload E S (tb_records (v_db v')) rid (P rid))) v"
  by (rule wpt_mono[OF wpt_wp_conj[OF migrate_all_ok[OF assms] migrate_all_rekeys[OF assms(5-7)]]]) auto

text \<open>
  a resumed rotation migrates everything again. The records a crashed rotation had done are still
  below the version it was to reach, so they are listed again; the one id the checkpoint remembers is
  only looked for while it is the first of the list. The resumed rotation succeeds and keeps the
  records readable, and reports the records done before the crash on top of all of them.
\<close>

theorem resume_repeats_migration:
  assumes laws: "crypto_laws E" "vault_ops_laws C" "rotation_laws E" "env_laws E"
    and kek: "has_kek (vs_crypto S)" and wf: "db_wf (v_db v)" and cp: "load_checkpoint E v = (Inr (Some cp), v)"
    and last: "rc_last_migrated_record_id cp \<noteq> map_option (uuid_show E) (first_listed (v_db v) (rc_new_dek_version cp))"
    and readable: "\<forall>rid. needs_migration (v_db v) (rc_new_dek_version cp) rid \<longrightarrow> holds_payload E S (tb_records (v_db v)) rid (P rid)"
  shows "\<exists>res v' t. resume_rotation E C S (v, s) = (Inr res, (v', RotCompleted t (rr_records_migrated res)))
    \<and> rr_records_migrated res = rc_migrated_records cp + of_nat (card (Collect (needs_migration (v_db v) (rc_new_dek_version cp))))
    \<and> (\<forall>rid. needs_migration (v_db v) (rc_new_dek_version cp) rid \<longrightarrow> holds_payload E S (tb_records (v_db v')) rid (P rid))"
proof -
  let ?n = "rc_migrated_records cp + of_nat (card (Collect (needs_migration (v_db v) (rc_new_dek_version cp))))"
  let ?keep = "\<lambda>v'. \<forall>rid. needs_migration (v_db v) (rc_new_dek_version cp) rid \<longrightarrow> holds_payload E S (tb_records (v_db v')) rid (P rid)"
  have load: "wpt (load_checkpoint E) Q v \<longleftrightarrow> Q (Some cp) v" for Q
    using cp by (auto simp: wpt_def)
  have all: "wpt (migrate_all_records E C S cp) (\<lambda>(n, cp') v'. n = ?n \<and> ?keep v') (v\<lparr>v_ext := w\<rparr>)" for w
    using migrate_all_both[OF laws(1,2) kek laws(3,4), of "v\<lparr>v_ext := w\<rparr>" cp P] wf last readable by simp
  have "wpt (resume_rotation E C S) (\<lambda>res vs'. rr_records_migrated res = ?n \<and> (\<exists>t. snd vs' = RotCompleted t (rr_records_migrated res)) \<and> ?keep (fst vs')) (v, s)"
    apply (simp only: resume_rotation_def Let_def wp_simps split_def fst_conv snd_conv load ok_or_simps sum.case delete_checkpoint_def)
    apply (rule wpt_mono[OF all])
    apply (auto simp: rotation_result_of_def holds_payload_def)
    done
  from wptD[OF this] obtain res vs' where both: "resume_rotation E C S (v, s) = (Inr res, vs') \<and> (rr_records_migrated res = ?n
      \<and> (\<exists>t. snd vs' = RotCompleted t (rr_records_migrated res)) \<and> ?keep (fst vs'))"
    by (elim exE)
  then obtain t where t: "vs' = (fst vs', RotCompleted t (rr_records_migrated res))"
    by (metis prod.collapse)
  show ?thesis
    by (rule exI[of _ res], rule exI[of _ "fst vs'"], rule exI[of _ t]) (use both t in \<open>metis\<close>)
qed

section \<open>A vault to rotate\<close>

instance rotation_trigger :: countable
  by countable_datatype

instance rotation_checkpoint_ext :: (countable) countable
proof
  show "\<exists>f :: 'a rotation_checkpoint_scheme \<Rightarrow> nat. inj f"
    by (rule exI[of _ "\<lambda>r. to_nat (rc_trigger r, rc_old_dek_version r, rc_new_dek_version r, rc_total_records r, rc_migrated_records r,
          rc_last_migrated_record_id r, rc_started_at r, rc_cloud_metadata_revision r, rotation_checkpoint.more r)"])
       (auto intro!: injI rotation_checkpoint.equality)
qed

instance rotation_config_ext :: (countable) countable
proof
  show "\<exists>f :: 'a rotation_config_scheme \<Rightarrow> nat. inj f"
    by (rule exI[of _ "\<lambda>r. to_nat (rg_auto_rotate r, rg_rotate_after_days r, rg_rotate_after_records r, rg_last_rotation_at r,
          rg_current_dek_record_count r, rotation_config.more r)"])
       (auto intro!: injI rotation_config.equality)
qed

definition demo_error_env :: error_env where
  "demo_error_env = crypto_env.extend demo_crypto_env (error_env.fields (\<lambda>_. ''sqlite'') (\<lambda>s. s))"

definition demo_rotation_env :: rotation_env where
  "demo_rotation_env = error_env.extend demo_error_env (rotation_env.fields
     (\<lambda>x. Inr (CHR ''j'' # unary_enc x)) (\<lambda>s. Inr (unary_dec (tl s)))
     (\<lambda>x. Inr (CHR ''j'' # unary_enc x)) (\<lambda>s. Inr (unary_dec (tl s)))
     (\<lambda>x. Inr (CHR ''j'' # unary_enc x)) (\<lambda>s. Inr (unary_dec (tl s)))
     (\<lambda>s. ok_or ''bad'' (rfc3339_parse demo_env s)))"

lemmas demo_rotation_defs = demo_rotation_env_def demo_error_env_def error_env.defs rotation_env.defs demo_crypto_env_def crypto_env.defs
  cloud_env.defs

lemma demo_rotation_laws:
  "rotation_laws demo_rotation_env" "crypto_laws demo_rotation_env" "env_laws demo_rotation_env"
  "decrypt_stored demo_rotation_env demo_service demo_record = Inr demo_login"
  using demo_env_laws
  by (simp_all add: rotation_laws_def crypto_laws_def env_laws_def demo_rotation_defs demo_cloud_env_def from_utf8_def demo_decrypt_simps)

lemma demo_needs: "needs_migration (v_db demo_vault1) 2 = (\<lambda>rid. rid = 7)"
  by (auto simp: needs_migration_def demo_vault1_def row_of_record_def demo_record_def fun_eq_iff)

text \<open>
  C29: a rotation keeps every secret. On an unlocked vault below the highest version, whose records
  below the next version are readable, the rotation succeeds, ends in \<open>Completed\<close> with the number of
  those records, leaves no checkpoint, and each of them still reads as it did.
\<close>

theorem rotation_keeps_payloads:
  assumes laws: "crypto_laws E" "vault_ops_laws C" "rotation_laws E" "env_laws E"
    and kek: "has_kek (vs_crypto S)" and wf: "db_wf (v_db v)" and cfg: "config_readable E (v_db v)"
    and below: "cg_current_dek_version (vs_crypto S) < MAX_DEK_VERSION"
    and readable: "\<forall>rid. needs_migration (v_db v) (cg_current_dek_version (vs_crypto S) + 1) rid
       \<longrightarrow> holds_payload E S (tb_records (v_db v)) rid (P rid)"
  shows "\<exists>res v' t. rotate_key E C S trigger ev (v, s) = (Inr res, (v', RotCompleted t (rr_records_migrated res)))
    \<and> rr_records_migrated res = of_nat (card (Collect (needs_migration (v_db v) (cg_current_dek_version (vs_crypto S) + 1))))
    \<and> load_checkpoint E v' = (Inr None, v')
    \<and> (\<forall>rid. needs_migration (v_db v) (cg_current_dek_version (vs_crypto S) + 1) rid
         \<longrightarrow> holds_payload E S (tb_records (v_db v')) rid (P rid))"
  by (rule rotation_ok[OF assms])

lemma demo_holds: "holds_payload demo_rotation_env demo_service (tb_records (v_db demo_vault1)) 7 demo_login"
  unfolding holds_payload_def using demo_vault1_simps(2,4) demo_record_typed demo_rotation_laws(4) by metis

lemma demo_config: "config_readable demo_rotation_env (v_db demo_vault1)"
  by (simp add: config_readable_def demo_vault1_def empty_db_def)

theorem rotation_keeps_payloads_witness:
  "\<exists>res v' t. rotate_key demo_rotation_env demo_vault_ops demo_service Manual 0 (demo_vault1, RotIdle)
       = (Inr res, (v', RotCompleted t (rr_records_migrated res)))
     \<and> rr_records_migrated res = 1 \<and> holds_payload demo_rotation_env demo_service (tb_records (v_db v')) 7 demo_login"
proof -
  have "cg_current_dek_version (vs_crypto demo_service) = 1"
    by (simp add: demo_service_def from_unlocked_keystore_def)
  then show ?thesis
    using rotation_keeps_payloads[OF demo_rotation_laws(2) demo_vault_ops_laws demo_rotation_laws(1,3) demo_login_ok(3) demo_vault1_simps(1),
      of "\<lambda>_. demo_login" Manual 0 RotIdle] demo_needs demo_holds demo_config
    by (simp add: MAX_DEK_VERSION_def) blast
qed

text \<open>
  C30: a rotation does not advance the key version. When a rotation reports success from version \<open>v\<close>
  to \<open>v + 1\<close>, every record that was below \<open>v + 1\<close> has been re-encrypted under \<open>v\<close>: the new version is
  used nowhere, and the records the next rotation to that version lists are the ones this one listed.
\<close>

theorem rotation_stays_behind:
  assumes "env_laws E" "db_wf (v_db v)" "rotate_key E C S trigger ev (v, s) = (Inr res, (v', s'))"
  shows "rr_old_dek_version res = cg_current_dek_version (vs_crypto S)
    \<and> uint (rr_new_dek_version res) = uint (rr_old_dek_version res) + 1
    \<and> rr_records_migrated res = of_nat (card (Collect (needs_migration (v_db v) (rr_new_dek_version res))))
    \<and> (\<forall>rid. needs_migration (v_db v') (rr_new_dek_version res) rid \<longleftrightarrow> needs_migration (v_db v) (rr_new_dek_version res) rid)
    \<and> (\<forall>rid row. needs_migration (v_db v) (rr_new_dek_version res) rid \<and> map_of (tb_records (v_db v')) rid = Some row
         \<longrightarrow> rr_dek_version row = uint (rr_old_dek_version res))"
proof -
  let ?cur = "cg_current_dek_version (vs_crypto S)"
  have lt: "?cur < 10000"
  proof (rule ccontr)
    assume "\<not> ?cur < 10000"
    then have "MAX_DEK_VERSION \<le> ?cur"
      by (simp only: MAX_DEK_VERSION_def not_less)
    from assms(3)[unfolded rotate_key_max[OF this]] show False
      by (simp only: prod.inject sum.distinct simp_thms)
  qed
  then have "unat (?cur + 1) = unat ?cur + 1"
    using unat_Suc_bounded[of ?cur 10000] by (simp add: word_less_nat_alt)
  then have new: "uint (?cur + 1) = uint ?cur + 1"
    by (simp only: uint_nat of_nat_add of_nat_1)
  let ?Q = "\<lambda>res vs'. rr_old_dek_version res = ?cur \<and> rr_new_dek_version res = ?cur + 1
      \<and> rr_records_migrated res = of_nat (card (Collect (needs_migration (v_db v) (?cur + 1))))
      \<and> rekeyed ?cur (Collect (needs_migration (v_db v) (?cur + 1))) (tb_records (v_db v)) (tb_records (v_db (fst vs')))"
  have "wp (rotate_key E C S trigger ev) ?Q (v, s)"
    apply (simp only: rotate_key_def Let_def wp_simps split_def)
    apply (rule wp_step_if, rule wp_step_error)
    apply (simp only: wp_simps Let_def split_def fst_conv snd_conv delete_checkpoint_def)
    apply (rule wp_mono[OF save_checkpoint_rows])
    apply (rule wp_mono[OF migrate_all_rekeys[OF assms(1)]])
    subgoal using assms(2) by simp
    subgoal by (simp add: rotation_checkpoint_new_def)
    apply (simp add: rotation_checkpoint_new_def rotation_result_of_def del: io_return_apply io_lift_apply)
    apply (rule wp_mono[OF wp_get_config])
    apply (simp only: wp_simps Let_def split_def fst_conv snd_conv)
    apply (rule wp_mono[OF wp_put_config])
    apply (simp only: wp_simps)
    apply (rule wp_mono[OF wp_log_dek_rotated])
    subgoal for v1
      using needs_migration_cong[of "v_db v1" "v_db v"] by simp
    done
  then have Q: "?Q res (v', s')"
    using assms(3) by (rule wpD)
  then show ?thesis
    using new by (auto simp: rekeyed_def needs_migration_def split: if_splits) 
qed

theorem rotation_stays_behind_witness:
  "\<exists>res vs'. rotate_key demo_rotation_env demo_vault_ops demo_service Manual 0 (demo_vault1, RotIdle) = (Inr res, vs')
     \<and> needs_migration (v_db (fst vs')) (rr_new_dek_version res) 7"
proof -
  have one: "cg_current_dek_version (vs_crypto demo_service) = 1"
    by (simp add: demo_service_def from_unlocked_keystore_def)
  obtain res v' s' where run: "rotate_key demo_rotation_env demo_vault_ops demo_service Manual 0 (demo_vault1, RotIdle) = (Inr res, (v', s'))"
    using rotation_ok[OF demo_rotation_laws(2) demo_vault_ops_laws demo_rotation_laws(1,3) demo_login_ok(3) demo_vault1_simps(1),
      of "\<lambda>_. demo_login" Manual 0 RotIdle] demo_needs one demo_holds demo_config
    by (simp add: MAX_DEK_VERSION_def) blast
  have "uint (rr_new_dek_version res) = uint (2 :: u32)"
    using rotation_stays_behind[OF demo_rotation_laws(3) demo_vault1_simps(1) run] one by simp
  then have "rr_new_dek_version res = 2"
    by (simp only: word_uint_eq_iff)
  then show ?thesis
    using rotation_stays_behind[OF demo_rotation_laws(3) demo_vault1_simps(1) run] run demo_needs by auto
qed

text \<open>Two records, both migrated when the process stopped; resuming reports four.\<close>

definition demo_crashed :: rotation_checkpoint where
  "demo_crashed = \<lparr> rc_trigger = Manual, rc_old_dek_version = 1, rc_new_dek_version = 2, rc_total_records = 0, rc_migrated_records = 2,
     rc_last_migrated_record_id = Some (uuid_show demo_rotation_env 8), rc_started_at = 0, rc_cloud_metadata_revision = ''cas-0'' \<rparr>"

definition demo_vault2 :: "nat vault" where
  "demo_vault2 = \<lparr> v_db = empty_db\<lparr>tb_records := [(7, row_of_record demo_record), (8, row_of_record (demo_record\<lparr>sr_id := 8\<rparr>))],
     tb_metadata := [(CHECKPOINT_KEY, CHR ''j'' # unary_enc demo_crashed)]\<rparr>, v_ext = 8 \<rparr>"

lemma demo_needs2: "needs_migration (v_db demo_vault2) 2 = (\<lambda>rid. rid = 7 \<or> rid = 8)"
  by (auto simp: needs_migration_def demo_vault2_def row_of_record_def demo_record_def fun_eq_iff)

lemma demo_holds2:
  "holds_payload demo_rotation_env demo_service (tb_records (v_db demo_vault2)) 7 demo_login"
  "holds_payload demo_rotation_env demo_service (tb_records (v_db demo_vault2)) 8 demo_login"
proof -
  have rows: "map_of (tb_records (v_db demo_vault2)) 7 = Some (row_of_record demo_record)"
    "map_of (tb_records (v_db demo_vault2)) 8 = Some (row_of_record (demo_record\<lparr>sr_id := 8\<rparr>))"
    by (simp_all add: demo_vault2_def)
  have "record_typed (demo_record\<lparr>sr_id := 8\<rparr>)"
    "decrypt_stored demo_rotation_env demo_service (demo_record\<lparr>sr_id := 8\<rparr>) = Inr demo_login"
    using demo_record_typed demo_rotation_laws(4) by (simp_all add: record_typed_def decrypt_stored_def)
  then show "holds_payload demo_rotation_env demo_service (tb_records (v_db demo_vault2)) 8 demo_login"
    unfolding holds_payload_def using rows(2) by (intro exI[of _ "demo_record\<lparr>sr_id := 8\<rparr>"]) simp
  show "holds_payload demo_rotation_env demo_service (tb_records (v_db demo_vault2)) 7 demo_login"
    unfolding holds_payload_def using rows(1) demo_record_typed demo_rotation_laws(4) demo_vault1_simps(4) by metis
qed

theorem resume_repeats_migration_witness:
  "\<exists>res vs'. resume_rotation demo_rotation_env demo_vault_ops demo_service (demo_vault2, RotIdle) = (Inr res, vs')
     \<and> rr_records_migrated res = 4"
proof -
  have "load_checkpoint demo_rotation_env demo_vault2 = (Inr (Some demo_crashed), demo_vault2)"
    by (simp add: load_checkpoint_def internal_def vault_get_metadata_def get_metadata_def io_map_err_def io_bind_def exec_def select_def
      demo_vault2_def rot_res_def demo_rotation_env_def demo_error_env_def error_env.defs rotation_env.defs)
  moreover have "db_wf (v_db demo_vault2)"
    by (simp add: demo_vault2_def empty_db_def db_wf_def)
  moreover have "first_listed (v_db demo_vault2) 2 = Some 7"
    by (simp add: first_listed_def demo_vault2_def row_of_record_def demo_record_def)
  moreover have "uuid_show demo_rotation_env 8 \<noteq> uuid_show demo_rotation_env 7"
  proof
    have p: "uuid_parse demo_rotation_env (uuid_show demo_rotation_env u) = Some u" for u
      using demo_rotation_laws(3) by (simp add: env_laws_def)
    assume "uuid_show demo_rotation_env 8 = uuid_show demo_rotation_env 7"
    then have "Some (8 :: uuid) = Some 7"
      by (metis p)
    then show False
      by simp
  qed
  moreover have "\<forall>rid. rid = 7 \<or> rid = 8 \<longrightarrow> holds_payload demo_rotation_env demo_service (tb_records (v_db demo_vault2)) rid demo_login"
    using demo_holds2 by blast
  moreover have "card {rid. rid = 7 \<or> rid = (8::uuid)} = 2"
  proof -
    have "{rid. rid = 7 \<or> rid = (8::uuid)} = {7, 8}"
      by blast
    then show ?thesis
      by simp
  qed
  ultimately show ?thesis
    using resume_repeats_migration[OF demo_rotation_laws(2) demo_vault_ops_laws demo_rotation_laws(1,3) demo_login_ok(3),
      of demo_vault2 demo_crashed "\<lambda>_. demo_login" RotIdle]
    by (simp add: demo_crashed_def demo_needs2) blast
qed

end
