(* ===== verification/Vault_List.thy ===== *)
theory Vault_List
  imports Vault_Trash Utf8
begin

text \<open>
  Listing records: filters and sort orders (\<open>commands/types.rs\<close>), the paged queries over the list
  index (\<open>db/queries/record.rs\<close>, \<open>db/queries/sync.rs\<close>), the search of \<open>services/vault/search.rs\<close> and
  the listing methods of the vault (\<open>services/vault/record/list.rs\<close>).
\<close>

section \<open>Filters and sort orders (commands/types.rs)\<close>

datatype record_filter = AllRecords | Favorites | Expired | HealthIssues | Trash | Tag string | Search string

datatype sort_field = ByName | ByCreatedAt | ByUpdatedAt | ByUsageFrequency

datatype sort_direction = Asc | Desc

record record_sort =
  rs_field :: sort_field
  rs_direction :: sort_direction

record category_counts =
  cc_all :: nat
  cc_favorites :: nat
  cc_expired :: nat
  cc_health_issues :: nat
  cc_trash :: nat

text \<open>A stable sort in either direction: rows with equal keys keep their order.\<close>

definition sort_dir :: "sort_direction \<Rightarrow> ('a \<Rightarrow> 'k::linorder) \<Rightarrow> 'a list \<Rightarrow> 'a list" where
  "sort_dir dir k xs = (case dir of Asc \<Rightarrow> sort_key k xs | Desc \<Rightarrow> rev (sort_key k (rev xs)))"

section \<open>SQLite's LIKE\<close>

text \<open>
  Letters are compared without ASCII case, \<open>%\<close> stands for any text and \<open>_\<close> for one character; a text
  ends at its first NUL.
\<close>

definition ascii_lower :: "char \<Rightarrow> char" where
  "ascii_lower c = (if CHR ''A'' \<le> c \<and> c \<le> CHR ''Z'' then char_of (of_char c + 32 :: nat) else c)"

fun like_chars :: "string list \<Rightarrow> string list \<Rightarrow> bool" where
  "like_chars [] s = (s = [])"
| "like_chars (p # ps) [] = (p = ''%'' \<and> like_chars ps [])"
| "like_chars (p # ps) (c # s) =
     (if p = ''%'' then like_chars ps (c # s) \<or> like_chars (p # ps) s
      else (p = ''_'' \<or> map ascii_lower p = map ascii_lower c) \<and> like_chars ps s)"

definition sql_text :: "string \<Rightarrow> string" where
  "sql_text s = takeWhile (\<lambda>c. c \<noteq> CHR 0x00) s"

definition sql_like :: "string \<Rightarrow> string \<Rightarrow> bool" where
  "sql_like text pat = like_chars (chars_of (sql_text pat)) (chars_of (sql_text text))"

section \<open>The paged queries (db/queries/record.rs)\<close>

definition search_terms :: "('w, 'y) db_ops_scheme \<Rightarrow> string \<Rightarrow> string list" where
  "search_terms C query = filter (\<lambda>t. t \<noteq> []) (map (to_lowercase C) (split_whitespace query))"

type_synonym joined_row = "uuid \<times> record_row \<times> index_row"

definition health_flag :: "(health_row \<Rightarrow> bool) \<Rightarrow> vault_db \<Rightarrow> uuid \<Rightarrow> bool" where
  "health_flag P d rid = (case map_of (tb_health d) rid of None \<Rightarrow> False | Some h \<Rightarrow> P h)"

definition has_issue :: "health_row \<Rightarrow> bool" where
  "has_issue h \<longleftrightarrow> hw_weak_password h = Some 1 \<or> hw_compromised h = Some 1 \<or> hw_expired h = Some 1 \<or> hw_duplicate_group_size h \<noteq> None"

text \<open>\<open>record_list_where_clause\<close>.\<close>

definition list_where :: "('w, 'y) db_ops_scheme \<Rightarrow> vault_db \<Rightarrow> record_filter \<Rightarrow> joined_row \<Rightarrow> bool" where
  "list_where C d flt r = (case r of (rid, row, ix) \<Rightarrow>
     rr_deleted row = (if flt = Trash then 1 else 0)
     \<and> (case flt of
          Favorites \<Rightarrow> rr_is_favorite row = 1
        | Tag tag_name \<Rightarrow> tag_name \<in> set (record_tag_names d rid)
        | Search query \<Rightarrow> list_all (\<lambda>term. sql_like (ix_search_text ix) (''%'' @ term @ ''%'')) (search_terms C query)
        | Expired \<Rightarrow> health_flag (\<lambda>h. hw_expired h = Some 1) d rid
        | HealthIssues \<Rightarrow> health_flag has_issue d rid
        | AllRecords \<Rightarrow> True
        | Trash \<Rightarrow> True))"

text \<open>\<open>record_list_order_clause\<close>: printed UUIDs are ordered as the numbers they print.\<close>

definition access_count :: "vault_db \<Rightarrow> uuid \<Rightarrow> nat" where
  "access_count d rid = length (filter (\<lambda>a. al_record_id a = Some rid) (tb_audit d))"

definition list_order :: "vault_db \<Rightarrow> record_sort \<Rightarrow> joined_row list \<Rightarrow> joined_row list" where
  "list_order d s rows =
     (let ties = sort_key (\<lambda>(_, row, _). - rr_updated_at row) (sort_key (\<lambda>(rid, _, _). unat rid) rows) in
      case rs_field s of
        ByName \<Rightarrow> sort_dir (rs_direction s) (\<lambda>(_, _, ix). map ascii_lower (ix_name_sort_key ix)) ties
      | ByCreatedAt \<Rightarrow> sort_dir (rs_direction s) (\<lambda>(_, row, _). rr_created_at row) ties
      | ByUpdatedAt \<Rightarrow> sort_dir (rs_direction s) (\<lambda>(_, row, _). rr_updated_at row) ties
      | ByUsageFrequency \<Rightarrow> sort_dir (rs_direction s) (\<lambda>(rid, _, _). access_count d rid) ties)"

text \<open>The join of the records with their index rows.\<close>

definition index_join :: "vault_db \<Rightarrow> joined_row list" where
  "index_join d = List.map_filter (\<lambda>(rid, row). map_option (\<lambda>ix. (rid, row, ix)) (map_of (tb_index d) rid)) (tb_records d)"

definition clear_record_list_index :: "('w, unit) query" where
  "clear_record_list_index = exec (change (\<lambda>d. d\<lparr>tb_index := []\<rparr>))"

definition count_record_list_index :: "('w, nat) query" where
  "count_record_list_index = exec (select (\<lambda>d. length (tb_index d)))"

definition count_all_records :: "('w, nat) query" where
  "count_all_records = exec (select (\<lambda>d. length (tb_records d)))"

definition list_all_records :: "('w, 'y) db_ops_scheme \<Rightarrow> ('w, stored_record list) query" where
  "list_all_records C =
     io_bind (exec (select (\<lambda>d. sort_key (\<lambda>r. - rr_updated_at (snd r)) (tb_records d)))) (convert_rows C)"

definition count_record_list_page :: "('w, 'y) db_ops_scheme \<Rightarrow> record_filter \<Rightarrow> ('w, nat) query" where
  "count_record_list_page C flt = exec (select (\<lambda>d. length (filter (list_where C d flt) (index_join d))))"

record record_list_page_row =
  pr_record :: stored_record
  pr_name :: string
  pr_subtitle :: string

definition page_row :: "('w, 'y) db_ops_scheme \<Rightarrow> vault_db \<Rightarrow> joined_row \<Rightarrow> data_error + record_list_page_row" where
  "page_row C d r = (case r of (rid, row, ix) \<Rightarrow>
     try_res (to_stored_record C rid row (record_tag_names d rid)) (\<lambda>record.
       Inr \<lparr> pr_record = record, pr_name = ix_name ix, pr_subtitle = ix_subtitle ix \<rparr>))"

definition I64_MAX :: nat where
  "I64_MAX = 2 ^ 63 - 1"

definition list_record_page_rows ::
  "('w, 'y) db_ops_scheme \<Rightarrow> record_filter \<Rightarrow> record_sort \<Rightarrow> nat \<Rightarrow> nat \<Rightarrow> ('w, record_list_page_row list) query" where
  "list_record_page_rows C flt s limit offset v =
     (let d = v_db v;
          hits = list_order d s (filter (list_where C d flt) (index_join d));
          page = take (min limit I64_MAX) (drop (min offset I64_MAX) hits)
      in data_err (map_res (page_row C d) page) v)"

definition record_category_counts_row :: "('w, category_counts) query" where
  "record_category_counts_row = exec (select (\<lambda>d. let active = filter (\<lambda>r. rr_deleted (snd r) = 0) (tb_records d) in
     \<lparr> cc_all = length active,
       cc_favorites = length (filter (\<lambda>r. rr_is_favorite (snd r) = 1) active),
       cc_expired = length (filter (\<lambda>r. health_flag (\<lambda>h. hw_expired h = Some 1) d (fst r)) active),
       cc_health_issues = length (filter (\<lambda>r. health_flag has_issue d (fst r)) active),
       cc_trash = length (filter (\<lambda>r. rr_deleted (snd r) = 1) (tb_records d)) \<rparr>))"

section \<open>Tags (types/tag.rs, services/vault/tag/state.rs)\<close>

record tag =
  tg_id :: int
  tg_name :: string

record tag_sort_meta =
  tsm_record_count :: nat
  tsm_last_used_at :: int

text \<open>The tags by name, with the number of active records and the latest change among them.\<close>

definition tag_stats :: "vault_db \<Rightarrow> int \<Rightarrow> tag_sort_meta" where
  "tag_stats d tid = (let rows = filter (\<lambda>r. rr_deleted (snd r) = 0 \<and> (fst r, tid) \<in> set (tb_record_tags d)) (tb_records d) in
     \<lparr> tsm_record_count = length rows, tsm_last_used_at = (if rows = [] then 0 else Max (set (map (rr_updated_at \<circ> snd) rows))) \<rparr>)"

definition list_tags_with_stats :: "('w, (tag \<times> tag_sort_meta) list) vault_io" where
  "list_tags_with_stats = dbq (exec (select (\<lambda>d.
     map (\<lambda>t. (\<lparr> tg_id = fst t, tg_name = snd t \<rparr>, tag_stats d (fst t))) (sort_key snd (tb_tags d)))))"

section \<open>Sync states (db/queries/sync.rs)\<close>

record sync_state_entry =
  ss_record_id :: uuid
  ss_cloud_updated_at :: "timestamp option"
  ss_local_updated_at :: timestamp
  ss_sync_status :: sync_status
  ss_conflict_data :: "bytes option"

definition to_sync_state :: "('w, 'y) db_ops_scheme \<Rightarrow> uuid \<times> sync_row \<Rightarrow> data_error + sync_state_entry" where
  "to_sync_state C r = (case r of (rid, row) \<Rightarrow>
     try_res (if sy_sync_status row = 0 then Inr StPending else if sy_sync_status row = 1 then Inr StSynced
              else if sy_sync_status row = 2 then Inr StConflict else Inl (InvalidSyncStatus (sy_sync_status row))) (\<lambda>sync_status.
     try_res (opt_timestamp C (sy_cloud_updated_at row)) (\<lambda>cloud_updated_at.
     try_res (timestamp_to_datetime C (sy_local_updated_at row)) (\<lambda>local_updated_at.
       Inr \<lparr> ss_record_id = rid, ss_cloud_updated_at = cloud_updated_at, ss_local_updated_at = local_updated_at,
             ss_sync_status = sync_status, ss_conflict_data = sy_conflict_data row \<rparr>))))"

text \<open>Rows that do not convert are skipped.\<close>

definition load_sync_states :: "('w, 'y) db_ops_scheme \<Rightarrow> vault_db \<Rightarrow> uuid \<Rightarrow> sync_state_entry option" where
  "load_sync_states C d =
     map_of (List.map_filter (\<lambda>r. case to_sync_state C r of Inr s \<Rightarrow> Some (ss_record_id s, s) | Inl _ \<Rightarrow> None) (tb_sync d))"

definition load_sync_status_map :: "('w, 'y) db_ops_scheme \<Rightarrow> vault_db \<Rightarrow> uuid \<Rightarrow> sync_status option" where
  "load_sync_status_map C d rid = map_option ss_sync_status (load_sync_states C d rid)"

section \<open>Search and sort of decrypted records (services/vault/search.rs, record/helpers.rs)\<close>

definition record_matches :: "('w, 'y) db_ops_scheme \<Rightarrow> string list \<Rightarrow> tui_record \<Rightarrow> bool" where
  "record_matches C terms r =
     (let name_lower = to_lowercase C (tr_name r); subtitle_lower = to_lowercase C (tr_subtitle r) in
      list_all (\<lambda>term. let term_lower = to_lowercase C term in
        contains_str term_lower name_lower \<or> contains_str term_lower subtitle_lower) terms)"

definition search_records :: "('w, 'y) db_ops_scheme \<Rightarrow> tui_record list \<Rightarrow> string \<Rightarrow> tui_record list" where
  "search_records C records query =
     (if trim query = [] then records else filter (record_matches C (split_whitespace query)) records)"

definition apply_sort :: "record_sort \<Rightarrow> (uuid \<Rightarrow> nat option) option \<Rightarrow> tui_record list \<Rightarrow> tui_record list" where
  "apply_sort s freq_map records = (case rs_field s of
     ByName \<Rightarrow> sort_dir (rs_direction s) tr_name records
   | ByCreatedAt \<Rightarrow> sort_dir (rs_direction s) tr_created_at records
   | ByUpdatedAt \<Rightarrow> sort_dir (rs_direction s) tr_updated_at records
   | ByUsageFrequency \<Rightarrow> sort_dir (rs_direction s)
       (\<lambda>r. case freq_map of None \<Rightarrow> 0 | Some m \<Rightarrow> (case m (tr_id r) of None \<Rightarrow> 0 | Some n \<Rightarrow> n)) records)"

section \<open>The listing methods (services/vault/record/list.rs)\<close>

definition RECORD_LIST_INDEX_VERSION :: string where
  "RECORD_LIST_INDEX_VERSION = ''1''"

definition index_up_to_date :: "string option \<Rightarrow> string option \<Rightarrow> nat \<Rightarrow> nat \<Rightarrow> bool" where
  "index_up_to_date version dirty index_rows record_rows \<longleftrightarrow>
     version = Some RECORD_LIST_INDEX_VERSION \<and> dirty \<noteq> Some ''1'' \<and> index_rows = record_rows"

definition ensure_record_list_index ::
  "('x) crypto_env_scheme \<Rightarrow> ('w, 'y) vault_ops_scheme \<Rightarrow> vault_service \<Rightarrow> ('w, unit) vault_io" where
  "ensure_record_list_index E C S =
     io_bind (require_unlocked S) (\<lambda>_.
     io_bind (dbq (get_metadata ''record_list_index_version'')) (\<lambda>version.
     io_bind (dbq (get_metadata ''record_list_index_dirty'')) (\<lambda>dirty.
     io_bind (dbq count_record_list_index) (\<lambda>index_rows.
     io_bind (dbq count_all_records) (\<lambda>record_rows.
     if index_up_to_date version dirty index_rows record_rows then io_return ()
     else
       io_bind (dbq clear_record_list_index) (\<lambda>_.
       io_bind (dbq (list_all_records C)) (\<lambda>records.
       io_bind (for_each (upsert_record_list_index_for_stored E C S) records) (\<lambda>_.
       io_bind (dbq (set_metadata ''record_list_index_version'' RECORD_LIST_INDEX_VERSION)) (\<lambda>_.
       mark_record_list_index_clean)))))))))"

definition indexed_row_to_tui_record :: "(uuid \<Rightarrow> sync_status option) \<Rightarrow> record_list_page_row \<Rightarrow> tui_record" where
  "indexed_row_to_tui_record sync_map row = (let r = pr_record row in
     \<lparr> tr_id = sr_id r, tr_credential_type = sr_credential_type r, tr_name = pr_name row, tr_subtitle = pr_subtitle row,
       tr_is_favorite = sr_is_favorite r, tr_is_expired = False, tr_expires_at = sr_expires_at r,
       tr_has_weak_password = False, tr_is_compromised = False, tr_duplicate_group_size = None,
       tr_created_at = sr_created_at r, tr_updated_at = sr_updated_at r, tr_deleted = sr_deleted r,
       tr_deleted_at = sr_deleted_at r, tr_tags = sr_tags r, tr_sync_status = sync_map (sr_id r) \<rparr>)"

definition list_records_page ::
  "('x) crypto_env_scheme \<Rightarrow> ('w, 'y) vault_ops_scheme \<Rightarrow> vault_service \<Rightarrow> record_filter \<Rightarrow> record_sort \<Rightarrow> nat \<Rightarrow> nat
     \<Rightarrow> ('w, tui_record list \<times> nat) vault_io" where
  "list_records_page E C S flt s limit offset =
     io_bind (require_unlocked S) (\<lambda>_.
     io_bind (ensure_record_list_index E C S) (\<lambda>_.
     io_bind (dbq (count_record_list_page C flt)) (\<lambda>total.
     io_bind (dbq (list_record_page_rows C flt s limit offset)) (\<lambda>rows.
     io_bind (dbq (exec (select (load_sync_status_map C)))) (\<lambda>sync_map.
     io_return (map (indexed_row_to_tui_record sync_map) rows, total))))))"

definition record_category_counts :: "('w, category_counts) vault_io" where
  "record_category_counts = dbq record_category_counts_row"

text \<open>\<open>get_access_frequencies\<close>: every listed record is in the map.\<close>

definition get_access_frequencies :: "vault_db \<Rightarrow> uuid list \<Rightarrow> uuid \<Rightarrow> nat option" where
  "get_access_frequencies d ids rid = (if rid \<in> set ids then Some (access_count d rid) else None)"

definition tui_of_stored ::
  "('x) crypto_env_scheme \<Rightarrow> vault_service \<Rightarrow> (uuid \<Rightarrow> sync_status option) \<Rightarrow> stored_record \<Rightarrow> string + tui_record" where
  "tui_of_stored E S sync_map r =
     try_res (stored_name E S r) (\<lambda>name.
     try_res (decrypt_subtitle E (vs_crypto S) (sr_encrypted_data r) (sr_nonce r) (record_aad E (sr_id r))
                (sr_credential_type r) (sr_dek_version r)) (\<lambda>subtitle.
     Inr \<lparr> tr_id = sr_id r, tr_credential_type = sr_credential_type r, tr_name = name, tr_subtitle = subtitle,
           tr_is_favorite = sr_is_favorite r, tr_is_expired = False, tr_expires_at = sr_expires_at r,
           tr_has_weak_password = False, tr_is_compromised = False, tr_duplicate_group_size = None,
           tr_created_at = sr_created_at r, tr_updated_at = sr_updated_at r, tr_deleted = sr_deleted r,
           tr_deleted_at = sr_deleted_at r, tr_tags = sr_tags r, tr_sync_status = sync_map (sr_id r) \<rparr>))"

definition sort_with_frequencies :: "record_sort \<Rightarrow> vault_db \<Rightarrow> tui_record list \<Rightarrow> tui_record list" where
  "sort_with_frequencies s d records =
     apply_sort s (if rs_field s = ByUsageFrequency then Some (get_access_frequencies d (map tr_id records)) else None) records"

definition vault_list_records ::
  "('x) crypto_env_scheme \<Rightarrow> ('w, 'y) vault_ops_scheme \<Rightarrow> vault_service \<Rightarrow> record_filter \<Rightarrow> record_sort \<Rightarrow> ('w, tui_record list) vault_io" where
  "vault_list_records E C S flt s =
     io_bind (require_unlocked S) (\<lambda>_.
     io_bind (dbq (if flt = Trash then list_deleted_records C else list_active_records C)) (\<lambda>stored_records.
     io_bind (dbq (exec (select (load_sync_status_map C)))) (\<lambda>sync_map.
     io_bind (crypto_res (map_res (tui_of_stored E S sync_map)
       (filter (\<lambda>r. case flt of Favorites \<Rightarrow> sr_is_favorite r | Tag tag_name \<Rightarrow> tag_name \<in> set (sr_tags r) | _ \<Rightarrow> True)
          stored_records))) (\<lambda>tui_records.
     dbq (exec (select (\<lambda>d. sort_with_frequencies s d
       (case flt of Search query \<Rightarrow> search_records C tui_records query | _ \<Rightarrow> tui_records))))))))"

definition list_all_stored_records :: "('w, 'y) vault_ops_scheme \<Rightarrow> ('w, stored_record list) vault_io" where
  "list_all_stored_records C = dbq (list_active_records C)"

definition list_stored_records_for_sync :: "('w, 'y) vault_ops_scheme \<Rightarrow> ('w, stored_record list) vault_io" where
  "list_stored_records_for_sync C = dbq (list_all_records C)"

end
