(* ===== verification/Vault_Paging.thy ===== *)
theory Vault_Paging
  imports Vault_List Vault_Methods "HOL-Library.Multiset"
begin

text \<open>
  The paged list of records: pages are slices of one list whose length is the reported total, the list
  index is complete when a page is read, and the counts of the sidebar are the totals of their lists.
\<close>

section \<open>Sorting\<close>

lemma mset_sort_dir [simp]: "mset (sort_dir dir k xs) = mset xs"
  by (cases dir) (simp_all add: sort_dir_def)

lemma length_sort_dir [simp]: "length (sort_dir dir k xs) = length xs"
  using mset_eq_length[OF mset_sort_dir] .

lemma length_list_order [simp]: "length (list_order d s rows) = length rows"
  by (cases "rs_field s") (simp_all add: list_order_def Let_def)

section \<open>Pages\<close>

lemma map_res_length: "map_res f xs = Inr ys \<Longrightarrow> length ys = length xs"
  by (induction xs arbitrary: ys) (auto simp: monad_simps)

lemma map_res_drop: "map_res f xs = Inr ys \<Longrightarrow> map_res f (drop n xs) = Inr (drop n ys)"
proof (induction xs arbitrary: ys n)
  case (Cons x xs)
  then show ?case
    by (cases n) (auto simp: monad_simps)
qed simp

lemma map_res_take: "map_res f xs = Inr ys \<Longrightarrow> map_res f (take n xs) = Inr (take n ys)"
proof (induction xs arbitrary: ys n)
  case (Cons x xs)
  then show ?case
    by (cases n) (auto simp: monad_simps)
qed simp

lemma take_min: "length xs \<le> m \<Longrightarrow> take (min n m) xs = take n xs"
  by (simp add: min_def)

lemma drop_min: "length xs \<le> m \<Longrightarrow> drop (min n m) xs = drop n xs"
  by (simp add: min_def)

lemma page_rows_slice:
  assumes "list_record_page_rows C flt s I64_MAX 0 v = (Inr rows, v')" "length (index_join (v_db v)) \<le> I64_MAX"
  shows "v' = v" "length rows = length (filter (list_where C (v_db v) flt) (index_join (v_db v)))"
    "list_record_page_rows C flt s limit offset v = (Inr (take limit (drop offset rows)), v)"
proof -
  define hits where "hits = list_order (v_db v) s (filter (list_where C (v_db v) flt) (index_join (v_db v)))"
  have len: "length hits \<le> I64_MAX" "length hits = length (filter (list_where C (v_db v) flt) (index_join (v_db v)))"
    using assms(2) le_trans[OF length_filter_le] by (simp_all add: hits_def)
  have rows: "list_record_page_rows C flt s limit offset v
      = (map_err DataErr (map_res (page_row C (v_db v)) (take limit (drop offset hits))), v)" for limit offset
    using len(1) by (simp add: list_record_page_rows_def Let_def data_err_def hits_def take_min drop_min)
  from this[of I64_MAX 0] show v: "v' = v"
    using assms(1) by simp
  then have "map_res (page_row C (v_db v)) hits = Inr rows"
    using assms(1) len(1) rows[of I64_MAX 0] by simp
  then show "length rows = length (filter (list_where C (v_db v) flt) (index_join (v_db v)))"
      "list_record_page_rows C flt s limit offset v = (Inr (take limit (drop offset rows)), v)"
    using map_res_length[of "page_row C (v_db v)" hits rows] len(2)
      map_res_take[OF map_res_drop, of "page_row C (v_db v)" hits rows limit offset]
    by (simp_all add: rows)
qed

lemma length_index_join: "length (index_join d) \<le> length (tb_records d)"
  by (simp add: index_join_def List.map_filter_def)

lemma dbq_ok: "dbq m v = (Inr a, v') \<longleftrightarrow> m v = (Inr a, v')"
  by (cases "m v") (simp add: io_map_err_def)

section \<open>The list index is complete\<close>

definition index_complete :: "vault_db \<Rightarrow> bool" where
  "index_complete d \<longleftrightarrow> fst ` set (tb_index d) = fst ` set (tb_records d)"

lemma convert_rows_pure: "convert_rows C rows v = (r, v') \<Longrightarrow> v' = v \<and> (\<forall>rs. r = Inr rs \<longrightarrow> map sr_id rs = map fst rows)"
proof (induction C rows arbitrary: v r v' rule: convert_rows.induct)
  case (2 C rid row rows)
  show ?case
  proof (cases "convert_rows C rows v")
    case (Pair r1 v1)
    then show ?thesis
      using 2 to_stored_version by (cases r1) (fastforce simp: io_bind_def exec_def select_def data_err_def
        split: sum.splits prod.splits)+
  qed
qed simp


lemma upsert_index_ok:
  assumes "upsert_record_list_index C rid n x v = (Inr (), v')"
  shows "tb_records (v_db v') = tb_records (v_db v) \<and> fst ` set (tb_index (v_db v')) = insert rid (fst ` set (tb_index (v_db v)))"
proof -
  obtain row where "v' = v\<lparr>v_db := (v_db v)\<lparr>tb_index := AList.update rid row (tb_index (v_db v))\<rparr>\<rparr>"
    using assms by (auto simp: upsert_record_list_index_def exec_def split: if_splits)
  then show ?thesis
    by (simp add: alist_update_keys)
qed

lemma upsert_for_stored_index:
  assumes "upsert_record_list_index_for_stored E C S r v = (Inr (), v')"
  shows "tb_records (v_db v') = tb_records (v_db v) \<and> fst ` set (tb_index (v_db v')) = insert (sr_id r) (fst ` set (tb_index (v_db v)))"
proof -
  obtain n x where "upsert_record_list_index C (sr_id r) n x v = (Inr (), v')"
    using assms by (auto simp: upsert_record_list_index_for_stored_def monad_simps crypto_res_def dbq_ok)
  then show ?thesis
    by (rule upsert_index_ok)
qed

lemma for_each_index:
  "for_each (upsert_record_list_index_for_stored E C S) rs v = (Inr (), v') \<Longrightarrow>
     tb_records (v_db v') = tb_records (v_db v) \<and> fst ` set (tb_index (v_db v')) = sr_id ` set rs \<union> fst ` set (tb_index (v_db v))"
proof (induction rs arbitrary: v)
  case (Cons r rs)
  then obtain v1 where v1: "upsert_record_list_index_for_stored E C S r v = (Inr (), v1)"
      "for_each (upsert_record_list_index_for_stored E C S) rs v1 = (Inr (), v')"
    by (auto simp: monad_simps)
  show ?case
    using upsert_for_stored_index[OF v1(1)] Cons.IH[OF v1(2)] by simp
qed simp

lemma set_metadata_ok:
  "dbq (set_metadata k x) v = (Inr (), v') \<Longrightarrow> tb_records (v_db v') = tb_records (v_db v) \<and> tb_index (v_db v') = tb_index (v_db v)"
  by (auto simp: dbq_ok set_metadata_def exec_def change_def)

lemma ensure_index:
  assumes "ensure_record_list_index E C S v = (Inr (), v')"
  shows "tb_records (v_db v') = tb_records (v_db v) \<and> (db_wf (v_db v) \<longrightarrow> index_complete (v_db v'))"
proof (cases "index_up_to_date (map_of (tb_metadata (v_db v)) ''record_list_index_version'')
    (map_of (tb_metadata (v_db v)) ''record_list_index_dirty'') (length (tb_index (v_db v))) (length (tb_records (v_db v)))")
  case True
  then have "v' = v"
    using assms by (simp add: ensure_record_list_index_def require_unlocked_def io_bind_def io_map_err_def exec_def select_def
      get_metadata_def count_record_list_index_def count_all_records_def ensure_def split: if_splits)
  moreover have "index_complete (v_db v)" if "db_wf (v_db v)"
  proof -
    have "card (fst ` set (tb_index (v_db v))) = card (fst ` set (tb_records (v_db v)))"
      using that True unfolding db_wf_def index_up_to_date_def by (metis distinct_card length_map list.set_map)
    moreover have "fst ` set (tb_index (v_db v)) \<subseteq> fst ` set (tb_records (v_db v))"
      using that by (simp add: db_wf_def)
    ultimately show ?thesis
      unfolding index_complete_def by (intro card_subset_eq) simp_all
  qed
  ultimately show ?thesis
    by simp
next
  case False
  then obtain records v1 v2 where rebuild:
      "list_all_records C (v\<lparr>v_db := (v_db v)\<lparr>tb_index := []\<rparr>\<rparr>) = (Inr records, v1)"
      "for_each (upsert_record_list_index_for_stored E C S) records v1 = (Inr (), v2)"
      "io_bind (dbq (set_metadata ''record_list_index_version'' RECORD_LIST_INDEX_VERSION)) (\<lambda>_. mark_record_list_index_clean) v2
         = (Inr (), v')"
    using assms by (auto simp: ensure_record_list_index_def require_unlocked_def monad_simps dbq_ok exec_def select_def
      change_def get_metadata_def count_record_list_index_def count_all_records_def clear_record_list_index_def
      split: if_splits)
  have v1: "v1 = v\<lparr>v_db := (v_db v)\<lparr>tb_index := []\<rparr>\<rparr>" "sr_id ` set records = fst ` set (tb_records (v_db v))"
  proof -
    have "convert_rows C (sort_key (\<lambda>r. - rr_updated_at (snd r)) (tb_records (v_db v))) (v\<lparr>v_db := (v_db v)\<lparr>tb_index := []\<rparr>\<rparr>)
        = (Inr records, v1)"
      using rebuild(1) by (auto simp: list_all_records_def io_bind_def exec_def select_def)
    from convert_rows_pure[OF this] have pure: "v1 = v\<lparr>v_db := (v_db v)\<lparr>tb_index := []\<rparr>\<rparr>"
        "map sr_id records = map fst (sort_key (\<lambda>r. - rr_updated_at (snd r)) (tb_records (v_db v)))"
      by blast+
    have "set (map sr_id records) = set (map fst (sort_key (\<lambda>r. - rr_updated_at (snd r)) (tb_records (v_db v))))"
      by (rule arg_cong[OF pure(2)])
    then show "v1 = v\<lparr>v_db := (v_db v)\<lparr>tb_index := []\<rparr>\<rparr>" "sr_id ` set records = fst ` set (tb_records (v_db v))"
      using pure(1) by simp_all
  qed
  have "tb_records (v_db v2) = tb_records (v_db v)" "fst ` set (tb_index (v_db v2)) = fst ` set (tb_records (v_db v))"
    using for_each_index[OF rebuild(2)] v1 by simp_all
  moreover obtain v3 where "dbq (set_metadata ''record_list_index_version'' RECORD_LIST_INDEX_VERSION) v2 = (Inr (), v3)"
      "dbq (set_metadata ''record_list_index_dirty'' ''0'') v3 = (Inr (), v')"
    using rebuild(3) by (auto simp: monad_simps mark_record_list_index_clean_def)
  ultimately show ?thesis
    using set_metadata_ok[of _ _ v2 v3] set_metadata_ok[of _ _ v3 v'] by (simp add: index_complete_def)
qed

text \<open>
  C32: the pages of the record list are slices of one list: when the whole list loads, any page loads,
  is the slice asked for, and reports the length of the whole list as the total.
\<close>

theorem pages_are_slices:
  assumes "list_records_page E C S flt s I64_MAX 0 v = (Inr (all, tot), v')"
    and "length (tb_records (v_db v)) \<le> I64_MAX"
  shows "length all = tot
    \<and> list_records_page E C S flt s limit offset v = (Inr (take limit (drop offset all), tot), v')"
proof -
  obtain v1 rows where steps: "is_unlocked (vs_crypto S)" "ensure_record_list_index E C S v = (Inr (), v1)"
      "list_record_page_rows C flt s I64_MAX 0 v1 = (Inr rows, v')"
      "tot = length (filter (list_where C (v_db v1) flt) (index_join (v_db v1)))"
      "all = map (indexed_row_to_tui_record (load_sync_status_map C (v_db v'))) rows"
    using assms(1) by (auto simp: list_records_page_def require_unlocked_def monad_simps dbq_ok exec_def select_def
      count_record_list_page_def)
  have "tb_records (v_db v1) = tb_records (v_db v)"
    using ensure_index[OF steps(2)] by auto
  then have "length (index_join (v_db v1)) \<le> I64_MAX"
    using assms(2) length_index_join[of "v_db v1"] by simp
  note slice = page_rows_slice[OF steps(3) this]
  show ?thesis
    using steps slice(2) slice(3)[of limit offset] slice(1)
    by (simp add: list_records_page_def require_unlocked_def io_bind_def io_map_err_def exec_def select_def
      count_record_list_page_def take_map drop_map)
qed

section \<open>Counts\<close>

definition count_of_filter :: "record_filter \<Rightarrow> category_counts \<Rightarrow> nat option" where
  "count_of_filter flt c = (case flt of
     AllRecords \<Rightarrow> Some (cc_all c) | Favorites \<Rightarrow> Some (cc_favorites c) | Expired \<Rightarrow> Some (cc_expired c)
   | HealthIssues \<Rightarrow> Some (cc_health_issues c) | Trash \<Rightarrow> Some (cc_trash c) | Tag _ \<Rightarrow> None | Search _ \<Rightarrow> None)"

text \<open>With a complete index, the rows of a filter that does not read the index are those of the records.\<close>

lemma length_filter_join:
  assumes "index_complete d" "\<And>rid row ix. P (rid, row, ix) = P' (rid, row)"
  shows "length (filter P (index_join d)) = length (filter P' (tb_records d))"
proof -
  have "length (filter P (List.map_filter (\<lambda>(rid, row). map_option (\<lambda>ix. (rid, row, ix)) (map_of (tb_index d) rid)) rs))
      = length (filter P' rs)" if "fst ` set rs \<subseteq> fst ` set (tb_index d)" for rs
    using that
  proof (induction rs)
    case (Cons r rs)
    obtain rid row where r: "r = (rid, row)"
      by (cases r)
    have "map_of (tb_index d) rid \<noteq> None"
      using Cons.prems by (auto simp: r map_of_eq_None_iff)
    then obtain ix where "map_of (tb_index d) rid = Some ix"
      by blast
    then show ?case
      using Cons assms(2)[of rid row ix] by (simp add: r List.map_filter_simps)
  qed (simp add: List.map_filter_simps)
  from this[of "tb_records d"] show ?thesis
    using assms(1) by (simp add: index_join_def index_complete_def)
qed

definition in_category :: "record_filter \<Rightarrow> vault_db \<Rightarrow> uuid \<times> record_row \<Rightarrow> bool" where
  "in_category flt d r \<longleftrightarrow> rr_deleted (snd r) = (if flt = Trash then 1 else 0)
     \<and> (case flt of Favorites \<Rightarrow> rr_is_favorite (snd r) = 1 | Expired \<Rightarrow> health_flag (\<lambda>h. hw_expired h = Some 1) d (fst r)
          | HealthIssues \<Rightarrow> health_flag has_issue d (fst r) | _ \<Rightarrow> True)"

lemma counts_by_category:
  "\<exists>c. record_category_counts_row v = (Inr c, v)
    \<and> (\<forall>n. count_of_filter flt c = Some n \<longrightarrow> length (filter (in_category flt (v_db v)) (tb_records (v_db v))) = n)"
  by (cases flt; simp add: record_category_counts_row_def exec_def select_def Let_def count_of_filter_def
    in_category_def[abs_def])

lemma where_in_category:
  "count_of_filter flt c = Some n \<Longrightarrow> list_where C d flt (rid, row, ix) = in_category flt d (rid, row)"
  by (cases flt) (simp_all add: count_of_filter_def list_where_def in_category_def)

lemma counts_are_totals:
  assumes "index_complete (v_db v)"
  shows "\<exists>c. record_category_counts_row v = (Inr c, v)
    \<and> (\<forall>n. count_of_filter flt c = Some n \<longrightarrow> length (filter (list_where C (v_db v) flt) (index_join (v_db v))) = n)"
proof -
  obtain c where c: "record_category_counts_row v = (Inr c, v)"
      "\<And>n. count_of_filter flt c = Some n \<Longrightarrow> length (filter (in_category flt (v_db v)) (tb_records (v_db v))) = n"
    using counts_by_category by blast
  have "length (filter (list_where C (v_db v) flt) (index_join (v_db v))) = n" if n: "count_of_filter flt c = Some n" for n
    by (subst length_filter_join[OF assms, of _ "in_category flt (v_db v)"]) (rule where_in_category[OF n], rule c(2)[OF n])
  then show ?thesis
    using c(1) by blast
qed

text \<open>
  the numbers of the sidebar are the totals of the lists they stand for: once a page of a category is
  loaded from a well-formed database, its total is the count of that category.
\<close>

theorem sidebar_counts_are_totals:
  assumes "db_wf (v_db v)" "list_records_page E C S flt s limit offset v = (Inr (recs, tot), v')"
  shows "\<exists>c. record_category_counts v' = (Inr c, v') \<and> (\<forall>n. count_of_filter flt c = Some n \<longrightarrow> tot = n)"
proof -
  obtain v1 rows where steps: "ensure_record_list_index E C S v = (Inr (), v1)"
      "list_record_page_rows C flt s limit offset v1 = (Inr rows, v')"
      "tot = length (filter (list_where C (v_db v1) flt) (index_join (v_db v1)))"
    using assms(2) by (auto simp: list_records_page_def require_unlocked_def monad_simps dbq_ok exec_def select_def
      count_record_list_page_def)
  have "v' = v1"
    using steps(2) by (simp add: list_record_page_rows_def Let_def data_err_def)
  moreover have "index_complete (v_db v1)"
    using ensure_index[OF steps(1)] assms(1) by blast
  ultimately show ?thesis
    using counts_are_totals[of v' flt C] steps(3) by (auto simp: record_category_counts_def dbq_ok)
qed

section \<open>An example\<close>

text \<open>Two records, one of them in the trash, whose index is up to date.\<close>

definition demo_list_vault :: "nat vault" where
  "demo_list_vault = \<lparr> v_db = empty_db\<lparr>
     tb_records := [(1, row_of_record demo_record), (2, (row_of_record demo_record)\<lparr>rr_deleted := 1\<rparr>)],
     tb_index := [(1, \<lparr> ix_name = ''mail'', ix_subtitle = ''bob'', ix_search_text = ''mail bob'', ix_name_sort_key = ''mail'' \<rparr>),
                  (2, \<lparr> ix_name = ''bank'', ix_subtitle = [], ix_search_text = ''bank '', ix_name_sort_key = ''bank'' \<rparr>)],
     tb_metadata := [(''record_list_index_version'', ''1'')]\<rparr>, v_ext = 0 \<rparr>"

definition demo_sort :: record_sort where
  "demo_sort = \<lparr> rs_field = ByName, rs_direction = Asc \<rparr>"

lemma demo_page:
  "\<exists>r. list_records_page demo_crypto_env demo_vault_ops demo_service AllRecords demo_sort I64_MAX 0 demo_list_vault
     = (Inr ([r], 1), demo_list_vault) \<and> tr_name r = ''mail''"
  by (simp add: list_records_page_def require_unlocked_def demo_service_def is_unlocked_def from_unlocked_keystore_def
    ensure_record_list_index_def io_bind_def io_map_err_def exec_def select_def get_metadata_def count_record_list_index_def
    count_all_records_def index_up_to_date_def RECORD_LIST_INDEX_VERSION_def demo_list_vault_def empty_db_def
    count_record_list_page_def index_join_def List.map_filter_simps list_where_def row_of_record_def demo_record_def bool_int_def
    list_record_page_rows_def list_order_def demo_sort_def sort_dir_def page_row_def to_stored_record_def
    data_err_def opt_timestamp_def timestamp_to_datetime_def datetime_to_timestamp_def demo_vault_ops_def I64_MAX_def
    indexed_row_to_tui_record_def Let_def ensure_def)

theorem pages_are_slices_witness:
  "\<exists>r. list_records_page demo_crypto_env demo_vault_ops demo_service AllRecords demo_sort 5 1 demo_list_vault
     = (Inr (take 5 (drop 1 [r]), 1), demo_list_vault)"
proof -
  obtain r where "list_records_page demo_crypto_env demo_vault_ops demo_service AllRecords demo_sort I64_MAX 0 demo_list_vault
     = (Inr ([r], 1), demo_list_vault)"
    using demo_page by blast
  from pages_are_slices[OF this, of 5 1] show ?thesis
    by (simp add: demo_list_vault_def I64_MAX_def)
qed

theorem sidebar_counts_are_totals_witness:
  "\<exists>c. record_category_counts demo_list_vault = (Inr c, demo_list_vault) \<and> cc_all c = 1"
proof -
  obtain r where "list_records_page demo_crypto_env demo_vault_ops demo_service AllRecords demo_sort I64_MAX 0 demo_list_vault
     = (Inr ([r], 1), demo_list_vault)"
    using demo_page by blast
  from sidebar_counts_are_totals[OF _ this] show ?thesis
    by (auto simp: demo_list_vault_def empty_db_def db_wf_def count_of_filter_def)
qed

end
