(* ===== verification/Vault_Search.thy ===== *)
theory Vault_Search
  imports Vault_List Vault_Methods
begin

text \<open>
  The two searches of the vault agree: the paged search, a \<open>LIKE\<close> over the text of the list index, and
  the search over decrypted records find the same records for terms without wildcards. A term with
  one finds more in the paged search.
\<close>

section \<open>LIKE with a literal pattern\<close>

definition plain_text :: "string \<Rightarrow> bool" where
  "plain_text s \<longleftrightarrow> valid_utf8 s \<and> list_all (\<lambda>c. c \<noteq> CHR 0x00) s \<and> list_all (\<lambda>c. ascii_lower c = c) s"

definition plain_term :: "string \<Rightarrow> bool" where
  "plain_term t \<longleftrightarrow> t \<noteq> [] \<and> plain_text t \<and> list_all (\<lambda>c. c \<notin> {CHR ''%'', CHR ''_'', CHR '' ''}) t"

lemma chars_of_nonempty: "c \<in> set (chars_of s) \<Longrightarrow> c \<noteq> [] \<and> set c \<subseteq> set s"
proof (induction s rule: chars_of.induct)
  case (2 c' s)
  then show ?case
    using set_takeWhileD[of _ is_continuation_byte s] set_dropWhileD[of _ is_continuation_byte s] by fastforce
qed simp

lemma plain_text_char:
  assumes "plain_text s" "c \<in> set (chars_of s)"
  shows "map ascii_lower c = c"
proof (rule map_idI)
  fix x
  assume "x \<in> set c"
  then have "x \<in> set s"
    using chars_of_nonempty[OF assms(2)] by blast
  then show "ascii_lower x = x"
    using assms(1) unfolding plain_text_def list_all_iff by blast
qed

lemma plain_term_char: "plain_term t \<Longrightarrow> c \<in> set (chars_of t) \<Longrightarrow> c \<notin> {''%'', ''_'', '' ''}"
proof -
  assume "plain_term t" "c \<in> set (chars_of t)"
  then have "c \<noteq> []" "set c \<subseteq> set t" "\<forall>x \<in> set t. x \<notin> {CHR ''%'', CHR ''_'', CHR '' ''}"
    using chars_of_nonempty by (simp_all add: plain_term_def list_all_iff)
  then have "c \<noteq> []" "hd c \<notin> {CHR ''%'', CHR ''_'', CHR '' ''}"
    using hd_in_set by blast+
  then show ?thesis
    by (cases c) simp_all
qed

lemma like_any: "like_chars [''%''] s"
  by (induction s) simp_all

lemma like_literal_prefix:
  assumes "\<forall>c \<in> set ts. c \<notin> {''%'', ''_''} \<and> map ascii_lower c = c" "\<forall>c \<in> set s. map ascii_lower c = c"
  shows "like_chars (ts @ [''%'']) s = prefix ts s"
  using assms
proof (induction ts arbitrary: s)
  case Nil
  then show ?case by (simp add: like_any)
next
  case (Cons t ts)
  then show ?case by (cases s) auto
qed

lemma like_any_then: "like_chars (''%'' # ps) s \<longleftrightarrow> (\<exists>s'. suffix s' s \<and> like_chars ps s')"
proof (induction s)
  case (Cons c s)
  have "like_chars (''%'' # ps) (c # s) \<longleftrightarrow> like_chars ps (c # s) \<or> (\<exists>s'. suffix s' s \<and> like_chars ps s')"
    using Cons by simp
  also have "\<dots> \<longleftrightarrow> (\<exists>s'. suffix s' (c # s) \<and> like_chars ps s')"
    by (auto simp: suffix_Cons)
  finally show ?case .
qed simp

lemma like_literal:
  assumes "\<forall>c \<in> set ts. c \<notin> {''%'', ''_''} \<and> map ascii_lower c = c" "\<forall>c \<in> set s. map ascii_lower c = c"
  shows "like_chars (''%'' # ts @ [''%'']) s = sublist ts s"
proof -
  have "like_chars (ts @ [''%'']) s' = prefix ts s'" if "suffix s' s" for s'
    using like_literal_prefix[OF assms(1)] assms(2) set_mono_suffix[OF that] by blast
  then show ?thesis
    unfolding like_any_then sublist_altdef' by metis
qed

lemma sublist_separated:
  assumes "sep \<notin> set ts" "ts \<noteq> []"
  shows "sublist ts (xs @ sep # ys) \<longleftrightarrow> sublist ts xs \<or> sublist ts ys"
proof -
  have pre: "prefix ts (zs @ sep # ys) \<Longrightarrow> prefix ts zs" for zs
    using assms(1) by (auto simp: prefix_append prefix_Cons)
  show ?thesis
  proof (induction xs)
    case Nil
    show ?case
      using pre[of "[]"] assms(2) by (auto simp: sublist_Cons_right)
  next
    case (Cons x xs)
    then show ?case
      using pre[of "x # xs"] prefix_order.order_trans[of ts "x # xs" "(x # xs) @ sep # ys"] by (auto simp: sublist_Cons_right)
  qed
qed

section \<open>The two searches\<close>

lemma sql_text_plain: "list_all (\<lambda>c. c \<noteq> CHR 0x00) s \<Longrightarrow> sql_text s = s"
  by (simp add: sql_text_def takeWhile_eq_all_conv list_all_iff)

lemma ascii_char: "of_char c < (128 :: nat) \<Longrightarrow> valid_utf8 [c]"
  by (simp add: valid_utf8_def valid_char_def wf_char_def utf8_width_def is_continuation_byte_def Let_def)

lemma like_index_text:
  assumes "plain_term t" "plain_text n" "plain_text u"
  shows "sql_like (n @ '' '' @ u) (''%'' @ t @ ''%'') = (contains_str t n \<or> contains_str t u)"
proof -
  have utf8: "valid_utf8 t" "valid_utf8 n" "valid_utf8 u" "valid_utf8 '' ''" "valid_utf8 ''%''"
    using assms by (simp_all add: plain_term_def plain_text_def ascii_char)
  have "chars_of (''%'' @ t @ ''%'') = ''%'' # chars_of t @ [''%'']"
    using chars_of_append[of "''%''" "t @ ''%''"] chars_of_append[of t "''%''"] valid_utf8_append[of t "''%''"] utf8 by simp
  moreover have "chars_of (n @ '' '' @ u) = chars_of n @ '' '' # chars_of u"
    using chars_of_append[of n "'' '' @ u"] chars_of_append[of "'' ''" u] valid_utf8_append[of "'' ''" u] utf8 by simp
  moreover have "sql_text (''%'' @ t @ ''%'') = ''%'' @ t @ ''%''" "sql_text (n @ '' '' @ u) = n @ '' '' @ u"
    by (rule sql_text_plain; use assms in \<open>simp add: plain_term_def plain_text_def\<close>)+
  ultimately have "sql_like (n @ '' '' @ u) (''%'' @ t @ ''%'')
      = like_chars (''%'' # chars_of t @ [''%'']) (chars_of n @ '' '' # chars_of u)"
    by (simp only: sql_like_def)
  also have "\<dots> = sublist (chars_of t) (chars_of n @ '' '' # chars_of u)"
  proof (rule like_literal)
    show "\<forall>c \<in> set (chars_of t). c \<notin> {''%'', ''_''} \<and> map ascii_lower c = c"
      using plain_term_char[OF assms(1)] plain_text_char[of t] assms(1) by (auto simp: plain_term_def)
    show "\<forall>c \<in> set (chars_of n @ '' '' # chars_of u). map ascii_lower c = c"
      using plain_text_char assms(2,3) by (auto simp: ascii_lower_def)
  qed
  also have "\<dots> = (sublist (chars_of t) (chars_of n) \<or> sublist (chars_of t) (chars_of u))"
  proof (rule sublist_separated)
    show "'' '' \<notin> set (chars_of t)"
      using plain_term_char[OF assms(1)] by blast
    show "chars_of t \<noteq> []"
      using assms(1) by (cases t) (auto simp: plain_term_def)
  qed
  also have "\<dots> = (contains_str t n \<or> contains_str t u)"
    using contains_chars utf8 assms(1) by (simp add: plain_term_def)
  finally show ?thesis .
qed

lemma split_chars_all_ws: "list_all is_whitespace cs \<Longrightarrow> split_chars cs [] = []"
  by (induction cs) simp_all

lemma split_whitespace_trim: "trim s = [] \<Longrightarrow> split_whitespace s = []"
proof -
  assume "trim s = []"
  then have "\<forall>x \<in> set (dropWhile is_whitespace (rev (dropWhile is_whitespace (chars_of s)))). x = []"
    by (simp add: trim_def)
  moreover have "x \<noteq> []" if "x \<in> set (dropWhile is_whitespace (rev (dropWhile is_whitespace (chars_of s))))" for x
  proof -
    have "x \<in> set (chars_of s)"
      using that by (metis set_dropWhileD set_rev)
    then show ?thesis
      using chars_of_nonempty by blast
  qed
  ultimately have "dropWhile is_whitespace (rev (dropWhile is_whitespace (chars_of s))) = []"
    by (metis list.set_sel(1))
  then have "dropWhile is_whitespace (chars_of s) = []"
    by (metis dropWhile_eq_Nil_conv hd_dropWhile list.set_sel(1) set_rev)
  then show ?thesis
    unfolding split_whitespace_def by (intro split_chars_all_ws) (simp add: list_all_iff dropWhile_eq_Nil_conv)
qed

text \<open>
  C31: the paged search over the list index and the search over decrypted records find the same records,
  as long as no search term contains one of SQLite's wildcards.
\<close>

theorem paged_search_is_search_records:
  assumes "\<forall>t \<in> set (split_whitespace query). plain_term (to_lowercase C t)"
    and "plain_text (to_lowercase C (tr_name r))" "plain_text (to_lowercase C (tr_subtitle r))"
    and "ix_search_text ix = to_lowercase C (tr_name r) @ '' '' @ to_lowercase C (tr_subtitle r)"
  shows "list_where C d (Search query) (rid, row, ix)
    \<longleftrightarrow> rr_deleted row = 0 \<and> r \<in> set (search_records C [r] query)"
proof -
  have terms: "search_terms C query = map (to_lowercase C) (split_whitespace query)"
    using assms(1) by (auto simp: search_terms_def plain_term_def intro!: filter_True)
  have "list_all (\<lambda>term. sql_like (ix_search_text ix) (''%'' @ term @ ''%'')) (search_terms C query)
    = record_matches C (split_whitespace query) r"
    using like_index_text[OF bspec[OF assms(1)] assms(2,3)] unfolding terms assms(4)
    by (simp add: record_matches_def list_all_iff Let_def del: append_Cons)
  moreover have "record_matches C (split_whitespace query) r" if "trim query = []"
    using split_whitespace_trim[OF that] by (simp add: record_matches_def)
  ultimately show ?thesis
    by (auto simp: list_where_def search_records_def)
qed

definition demo_tui :: tui_record where
  "demo_tui = \<lparr> tr_id = 1, tr_credential_type = Login, tr_name = ''mail'', tr_subtitle = ''bob'', tr_is_favorite = False,
     tr_is_expired = False, tr_expires_at = None, tr_has_weak_password = False, tr_is_compromised = False,
     tr_duplicate_group_size = None, tr_created_at = 0, tr_updated_at = 0, tr_deleted = False, tr_deleted_at = None,
     tr_tags = [], tr_sync_status = None \<rparr>"

definition demo_index :: index_row where
  "demo_index = \<lparr> ix_name = ''mail'', ix_subtitle = ''bob'', ix_search_text = ''mail bob'', ix_name_sort_key = ''mail'' \<rparr>"

lemma ascii_text: "list_all (\<lambda>c. of_char c < (128 :: nat)) s \<Longrightarrow> valid_utf8 s"
proof (induction s)
  case (Cons c s)
  then show ?case
    using valid_utf8_append[of "[c]" s] by (simp add: ascii_char)
qed (simp add: valid_utf8_def)

theorem paged_search_is_search_records_witness:
  "list_where demo_vault_ops empty_db (Search ''bo mai'') (1, row_of_record demo_record, demo_index)
    \<longleftrightarrow> demo_tui \<in> set (search_records demo_vault_ops [demo_tui] ''bo mai'')"
proof -
  have ws: "split_whitespace ''bo mai'' = [''bo'', ''mai'']"
    by (simp add: split_whitespace_def is_continuation_byte_def is_whitespace_def ws_len_def)
  have plain: "plain_text ''mail''" "plain_text ''bob''" "plain_term ''bo''" "plain_term ''mai''"
    by (simp_all add: plain_term_def plain_text_def ascii_text ascii_lower_def)
  show ?thesis
    using paged_search_is_search_records[of "''bo mai''" demo_vault_ops demo_tui demo_index empty_db 1 "row_of_record demo_record"]
    by (simp add: ws plain demo_vault_ops_def demo_tui_def demo_index_def row_of_record_def demo_record_def bool_int_def)
qed

text \<open>A term with a wildcard finds in the paged search what the text does not contain.\<close>

lemma paged_search_wildcard:
  "list_where demo_vault_ops empty_db (Search ''m_il'') (1, row_of_record demo_record, demo_index)"
  "search_records demo_vault_ops [demo_tui] ''m_il'' = []"
proof -
  have ws: "split_whitespace ''m_il'' = [''m_il'']"
    by (simp add: split_whitespace_def is_continuation_byte_def is_whitespace_def ws_len_def)
  show "list_where demo_vault_ops empty_db (Search ''m_il'') (1, row_of_record demo_record, demo_index)"
    by (simp add: list_where_def search_terms_def ws demo_vault_ops_def demo_index_def row_of_record_def demo_record_def
      bool_int_def sql_like_def sql_text_def is_continuation_byte_def)
  show "search_records demo_vault_ops [demo_tui] ''m_il'' = []"
    by (simp add: search_records_def ws record_matches_def demo_vault_ops_def demo_tui_def trim_def is_continuation_byte_def
      is_whitespace_def ws_len_def)
qed

end
