(* ===== verification/Tui_List.thy ===== *)
theory Tui_List
  imports Vault_Search
begin

text \<open>
  The list panel of the main screen (\<open>tui/state/list_state/state.rs\<close>): selection and scrolling, the
  search and visual modes with their snapshots, the live filter, the clean-up after a batch operation,
  and the texts for times. Texts of the interface come from a translation function; local times come
  from a conversion of timestamps.
\<close>

section \<open>State\<close>

record search_snapshot =
  sn_records :: "tui_record list"
  sn_selected_index :: "nat option"
  sn_scroll_offset :: nat

record search_state =
  se_query :: string
  se_cursor :: nat
  se_pre_search :: "search_snapshot option"

text \<open>The set of selected records is a list without duplicates, in the order of its iteration.\<close>

datatype list_mode = NormalMode | SearchMode search_state | VisualMode "uuid list"

record list_panel =
  lp_records :: "tui_record list"
  lp_selected_index :: "nat option"
  lp_scroll_offset :: nat
  lp_mode :: list_mode
  lp_sort :: record_sort
  lp_total_count :: nat
  lp_pending_load_offset :: "nat option"
  lp_visible_height :: nat
  lp_committed_search_snapshot :: "search_snapshot option"

definition list_panel_default :: list_panel where
  "list_panel_default = \<lparr> lp_records = [], lp_selected_index = None, lp_scroll_offset = 0, lp_mode = NormalMode,
     lp_sort = \<lparr> rs_field = ByCreatedAt, rs_direction = Desc \<rparr>, lp_total_count = 0, lp_pending_load_offset = None,
     lp_visible_height = 0, lp_committed_search_snapshot = None \<rparr>"

definition with_records :: "tui_record list \<Rightarrow> list_panel" where
  "with_records records = list_panel_default\<lparr>lp_records := records,
     lp_selected_index := (if records = [] then None else Some 0), lp_total_count := length records\<rparr>"

definition record_at :: "tui_record list \<Rightarrow> nat option \<Rightarrow> tui_record option" where
  "record_at records i = Option.bind i (\<lambda>idx. if idx < length records then Some (records ! idx) else None)"

definition selected_record :: "list_panel \<Rightarrow> tui_record option" where
  "selected_record s = record_at (lp_records s) (lp_selected_index s)"

section \<open>Selection and scrolling\<close>

definition visible_items_count :: "list_panel \<Rightarrow> nat" where
  "visible_items_count s = (if 0 < lp_visible_height s then lp_visible_height s else 8)"

definition adjust_scroll :: "list_panel \<Rightarrow> list_panel" where
  "adjust_scroll s =
     (let visible = visible_items_count s in
      if visible = 0 then s
      else case lp_selected_index s of
        None \<Rightarrow> s
      | Some idx \<Rightarrow>
          let offset = (if idx < lp_scroll_offset s then idx else lp_scroll_offset s);
              last_visible = offset + visible - 1
          in s\<lparr>lp_scroll_offset := (if last_visible < idx then idx - visible + 1 else offset)\<rparr>)"

definition opt_or_zero :: "nat option \<Rightarrow> nat" where
  "opt_or_zero i = (case i of None \<Rightarrow> 0 | Some n \<Rightarrow> n)"

definition move_down :: "list_panel \<Rightarrow> list_panel" where
  "move_down s =
     (if lp_records s = [] then s
      else let current = opt_or_zero (lp_selected_index s) in
        adjust_scroll (s\<lparr>lp_selected_index := Some (min (current + 1) (length (lp_records s) - 1))\<rparr>))"

definition move_up :: "list_panel \<Rightarrow> list_panel" where
  "move_up s =
     (if lp_records s = [] then s
      else let current = opt_or_zero (lp_selected_index s) in
        adjust_scroll (s\<lparr>lp_selected_index := Some (current - 1)\<rparr>))"

definition set_visible_height :: "16 word \<Rightarrow> list_panel \<Rightarrow> list_panel" where
  "set_visible_height height s = s\<lparr>lp_visible_height := unat height\<rparr>"

definition toggle_sort_direction :: "list_panel \<Rightarrow> list_panel" where
  "toggle_sort_direction s = s\<lparr>lp_sort := (lp_sort s)\<lparr>rs_direction :=
     (case rs_direction (lp_sort s) of Asc \<Rightarrow> Desc | Desc \<Rightarrow> Asc)\<rparr>\<rparr>"

definition cycle_sort_field :: "list_panel \<Rightarrow> list_panel" where
  "cycle_sort_field s = s\<lparr>lp_sort := (lp_sort s)\<lparr>rs_field :=
     (case rs_field (lp_sort s) of ByCreatedAt \<Rightarrow> ByUpdatedAt | ByUpdatedAt \<Rightarrow> ByName
      | ByName \<Rightarrow> ByUsageFrequency | ByUsageFrequency \<Rightarrow> ByCreatedAt)\<rparr>\<rparr>"

section \<open>Search and visual mode\<close>

definition snapshot_of :: "list_panel \<Rightarrow> search_snapshot" where
  "snapshot_of s = \<lparr> sn_records = lp_records s, sn_selected_index = lp_selected_index s, sn_scroll_offset = lp_scroll_offset s \<rparr>"

definition apply_snapshot :: "search_snapshot \<Rightarrow> list_panel \<Rightarrow> list_panel" where
  "apply_snapshot sn s = s\<lparr>lp_records := sn_records sn, lp_selected_index := sn_selected_index sn,
     lp_scroll_offset := sn_scroll_offset sn\<rparr>"

definition enter_search :: "list_panel \<Rightarrow> list_panel" where
  "enter_search s = s\<lparr>lp_mode := SearchMode \<lparr> se_query = [], se_cursor = 0, se_pre_search = Some (snapshot_of s) \<rparr>\<rparr>"

definition commit_search :: "list_panel \<Rightarrow> list_panel" where
  "commit_search s =
     (case lp_mode s of
        SearchMode st \<Rightarrow> s\<lparr>lp_committed_search_snapshot := se_pre_search st, lp_mode := NormalMode\<rparr>
      | _ \<Rightarrow> s\<lparr>lp_mode := NormalMode\<rparr>)"

definition snapshot_selected :: "search_snapshot \<Rightarrow> uuid option" where
  "snapshot_selected sn = map_option tr_id (record_at (sn_records sn) (sn_selected_index sn))"

definition restore_committed_search :: "list_panel \<Rightarrow> uuid option \<times> list_panel" where
  "restore_committed_search s =
     (case lp_committed_search_snapshot s of
        None \<Rightarrow> (None, s)
      | Some sn \<Rightarrow> (snapshot_selected sn, apply_snapshot sn (s\<lparr>lp_committed_search_snapshot := None\<rparr>)))"

definition cancel_search_restore :: "list_panel \<Rightarrow> uuid option \<times> list_panel" where
  "cancel_search_restore s =
     (case lp_mode s of
        SearchMode st \<Rightarrow> (case se_pre_search st of
            Some sn \<Rightarrow> (snapshot_selected sn, (apply_snapshot sn s)\<lparr>lp_mode := NormalMode\<rparr>)
          | None \<Rightarrow> (None, s\<lparr>lp_mode := NormalMode\<rparr>))
      | _ \<Rightarrow> (None, s\<lparr>lp_mode := NormalMode\<rparr>))"

definition enter_visual :: "list_panel \<Rightarrow> list_panel" where
  "enter_visual s = s\<lparr>lp_mode := VisualMode []\<rparr>"

definition exit_visual :: "list_panel \<Rightarrow> list_panel" where
  "exit_visual s = s\<lparr>lp_mode := NormalMode\<rparr>"

definition toggle_select_current :: "list_panel \<Rightarrow> list_panel" where
  "toggle_select_current s =
     (case map_option tr_id (selected_record s) of
        None \<Rightarrow> s
      | Some i \<Rightarrow> move_down (case lp_mode s of
            VisualMode ids \<Rightarrow> s\<lparr>lp_mode := VisualMode (if i \<in> set ids then filter (\<lambda>j. j \<noteq> i) ids else ids @ [i])\<rparr>
          | _ \<Rightarrow> s))"

definition select_all :: "list_panel \<Rightarrow> list_panel" where
  "select_all s = (case lp_mode s of
     VisualMode _ \<Rightarrow> s\<lparr>lp_mode := VisualMode (remdups (map tr_id (lp_records s)))\<rparr> | _ \<Rightarrow> s)"

definition deselect_all :: "list_panel \<Rightarrow> list_panel" where
  "deselect_all s = (case lp_mode s of VisualMode _ \<Rightarrow> s\<lparr>lp_mode := VisualMode []\<rparr> | _ \<Rightarrow> s)"

definition is_searching :: "list_panel \<Rightarrow> bool" where
  "is_searching s = (case lp_mode s of SearchMode _ \<Rightarrow> True | _ \<Rightarrow> False)"

definition is_visual :: "list_panel \<Rightarrow> bool" where
  "is_visual s = (case lp_mode s of VisualMode _ \<Rightarrow> True | _ \<Rightarrow> False)"

definition visual_selected_ids :: "list_panel \<Rightarrow> uuid list" where
  "visual_selected_ids s = (case lp_mode s of VisualMode ids \<Rightarrow> ids | _ \<Rightarrow> [])"

section \<open>The live filter\<close>

definition panel_search_terms :: "('w, 'y) db_ops_scheme \<Rightarrow> list_panel \<Rightarrow> string list option" where
  "panel_search_terms C s = (case lp_mode s of
     SearchMode st \<Rightarrow> if trim (se_query st) = [] then None else Some (split_whitespace (to_lowercase C (trim (se_query st))))
   | _ \<Rightarrow> None)"

definition lower_match :: "('w, 'y) db_ops_scheme \<Rightarrow> string list \<Rightarrow> tui_record \<Rightarrow> bool" where
  "lower_match C terms r =
     (let name_lower = to_lowercase C (tr_name r); subtitle_lower = to_lowercase C (tr_subtitle r) in
      list_all (\<lambda>term. contains_str term name_lower \<or> contains_str term subtitle_lower) terms)"

definition apply_search_filter :: "('w, 'y) db_ops_scheme \<Rightarrow> list_panel \<Rightarrow> tui_record list \<Rightarrow> tui_record list" where
  "apply_search_filter C s all_records = (case panel_search_terms C s of
     Some (t # ts) \<Rightarrow> filter (lower_match C (t # ts)) all_records
   | _ \<Rightarrow> all_records)"

definition update_search_query :: "string \<Rightarrow> list_panel \<Rightarrow> list_panel" where
  "update_search_query query s = (case lp_mode s of
     SearchMode st \<Rightarrow> s\<lparr>lp_mode := SearchMode (st\<lparr>se_cursor := length query, se_query := query\<rparr>)\<rparr> | _ \<Rightarrow> s)"

section \<open>Clean-up after a batch operation\<close>

definition cleanup_after_batch :: "uuid list \<Rightarrow> list_panel \<Rightarrow> list_panel" where
  "cleanup_after_batch removed_ids s =
     (let records = filter (\<lambda>r. tr_id r \<notin> set removed_ids) (lp_records s);
          s1 = s\<lparr>lp_records := records, lp_total_count := lp_total_count s - length removed_ids\<rparr>;
          s2 = (if records = [] then s1\<lparr>lp_selected_index := None, lp_scroll_offset := 0\<rparr>
                else case lp_selected_index s1 of
                  None \<Rightarrow> s1
                | Some idx \<Rightarrow> if length records \<le> idx then s1\<lparr>lp_selected_index := Some (length records - 1)\<rparr> else s1)
      in if is_visual s2 then exit_visual s2 else s2)"

section \<open>Texts for times\<close>

text \<open>A local time: the number of its day, and its fields.\<close>

record local_time =
  lt_day_number :: int
  lt_year :: int
  lt_month :: nat
  lt_day :: nat
  lt_hour :: nat
  lt_minute :: nat

record texts =
  translate :: "string \<Rightarrow> (string \<times> int) list \<Rightarrow> string"
  to_local :: "timestamp \<Rightarrow> local_time"

definition pad2 :: "nat \<Rightarrow> string" where
  "pad2 n = (if n < 10 then CHR ''0'' # show_nat n else show_nat n)"

definition day_diff :: "texts \<Rightarrow> timestamp \<Rightarrow> timestamp \<Rightarrow> int" where
  "day_diff T now t = lt_day_number (to_local T now) - lt_day_number (to_local T t)"

definition format_relative_time :: "texts \<Rightarrow> timestamp \<Rightarrow> timestamp \<Rightarrow> string" where
  "format_relative_time T now t =
     (let l = to_local T t; d = day_diff T now t in
      if d = 0 then pad2 (lt_hour l) @ '':'' @ pad2 (lt_minute l)
      else if d = 1 then translate T ''tui.list_state.time_yesterday'' []
      else if d < 7 then translate T ''tui.list_state.time_days_ago'' [(''n'', d)]
      else if d < 30 then translate T ''tui.list_state.time_weeks_ago'' [(''n'', d div 7)]
      else if lt_year l = lt_year (to_local T now) then pad2 (lt_month l) @ ''-'' @ pad2 (lt_day l)
      else show_int (lt_year l) @ ''-'' @ pad2 (lt_month l) @ ''-'' @ pad2 (lt_day l))"

definition format_type_prefix :: "texts \<Rightarrow> credential_type \<Rightarrow> string" where
  "format_type_prefix T ct = (case ct of
     Login \<Rightarrow> []
   | Api \<Rightarrow> translate T ''tui.list_state.type_prefix_api'' []
   | Ssh \<Rightarrow> translate T ''tui.list_state.type_prefix_ssh'' []
   | SecureNote \<Rightarrow> translate T ''tui.list_state.type_prefix_note'' [])"

datatype trash_tier = Safe | Moderate | Urgent | Critical

definition trash_warning_tier :: "int \<Rightarrow> trash_tier" where
  "trash_warning_tier remaining_days =
     (if 15 < remaining_days then Safe else if 7 \<le> remaining_days then Moderate
      else if 3 \<le> remaining_days then Urgent else Critical)"

definition format_days_since_deletion :: "texts \<Rightarrow> timestamp \<Rightarrow> timestamp \<Rightarrow> string" where
  "format_days_since_deletion T now deleted_at =
     translate T ''tui.list_state.deleted_days_ago'' [(''n'', max (day_diff T now deleted_at) 0)]"

definition calculate_remaining_days :: "texts \<Rightarrow> timestamp \<Rightarrow> timestamp \<Rightarrow> u32 \<Rightarrow> int option" where
  "calculate_remaining_days T now deleted_at retention_days =
     (if retention_days = 0 then None else Some (uint retention_days - day_diff T now deleted_at))"

definition format_remaining_days :: "texts \<Rightarrow> timestamp \<Rightarrow> timestamp \<Rightarrow> u32 \<Rightarrow> string" where
  "format_remaining_days T now deleted_at retention_days =
     (if retention_days = 0 then translate T ''tui.list_state.will_not_auto_delete'' []
      else translate T ''tui.list_state.remaining_days'' [(''n'', max (uint retention_days - day_diff T now deleted_at) 0)])"

section \<open>The selection stays in range\<close>

datatype list_op =
    MoveDown | MoveUp | SetHeight "16 word" | ToggleDirection | CycleField | EnterSearch | CommitSearch
  | RestoreCommitted | CancelSearch | EnterVisual | ExitVisual | ToggleSelect | SelectAll | DeselectAll
  | UpdateQuery string | Cleanup "uuid list"

fun list_step :: "list_op \<Rightarrow> list_panel \<Rightarrow> list_panel" where
  "list_step MoveDown s = move_down s"
| "list_step MoveUp s = move_up s"
| "list_step (SetHeight h) s = set_visible_height h s"
| "list_step ToggleDirection s = toggle_sort_direction s"
| "list_step CycleField s = cycle_sort_field s"
| "list_step EnterSearch s = enter_search s"
| "list_step CommitSearch s = commit_search s"
| "list_step RestoreCommitted s = snd (restore_committed_search s)"
| "list_step CancelSearch s = snd (cancel_search_restore s)"
| "list_step EnterVisual s = enter_visual s"
| "list_step ExitVisual s = exit_visual s"
| "list_step ToggleSelect s = toggle_select_current s"
| "list_step SelectAll s = select_all s"
| "list_step DeselectAll s = deselect_all s"
| "list_step (UpdateQuery q) s = update_search_query q s"
| "list_step (Cleanup ids) s = cleanup_after_batch ids s"

definition index_in :: "nat option \<Rightarrow> 'a list \<Rightarrow> bool" where
  "index_in i xs \<longleftrightarrow> (case i of None \<Rightarrow> True | Some n \<Rightarrow> n < length xs)"

definition snapshot_ok :: "search_snapshot \<Rightarrow> bool" where
  "snapshot_ok sn \<longleftrightarrow> index_in (sn_selected_index sn) (sn_records sn)"

definition mode_ok :: "list_mode \<Rightarrow> bool" where
  "mode_ok m \<longleftrightarrow> (case m of NormalMode \<Rightarrow> True | SearchMode st \<Rightarrow> pred_option snapshot_ok (se_pre_search st) | VisualMode ids \<Rightarrow> distinct ids)"

definition panel_ok :: "list_panel \<Rightarrow> bool" where
  "panel_ok s \<longleftrightarrow> index_in (lp_selected_index s) (lp_records s) \<and> mode_ok (lp_mode s)
     \<and> pred_option snapshot_ok (lp_committed_search_snapshot s)"

lemma adjust_scroll_frame [simp]:
  "lp_records (adjust_scroll s) = lp_records s" "lp_selected_index (adjust_scroll s) = lp_selected_index s"
  "lp_mode (adjust_scroll s) = lp_mode s" "lp_visible_height (adjust_scroll s) = lp_visible_height s"
  "lp_committed_search_snapshot (adjust_scroll s) = lp_committed_search_snapshot s"
  "lp_total_count (adjust_scroll s) = lp_total_count s" "lp_sort (adjust_scroll s) = lp_sort s"
  by (simp_all add: adjust_scroll_def Let_def split: option.splits)

lemmas panel_ok_defs = panel_ok_def mode_ok_def snapshot_ok_def index_in_def

lemma move_ok: "panel_ok s \<Longrightarrow> panel_ok (move_down s)" "panel_ok s \<Longrightarrow> panel_ok (move_up s)"
  by (auto simp: panel_ok_def index_in_def move_down_def move_up_def Let_def opt_or_zero_def min_def split: option.splits)

lemma visual_mode_ok: "panel_ok s \<Longrightarrow> lp_mode s = VisualMode ids \<Longrightarrow> distinct ids"
  by (simp add: panel_ok_def mode_ok_def)

lemma toggle_select_ok:
  assumes "panel_ok s"
  shows "panel_ok (toggle_select_current s)"
proof -
  have "panel_ok (case lp_mode s of
      VisualMode ids \<Rightarrow> s\<lparr>lp_mode := VisualMode (if i \<in> set ids then filter (\<lambda>j. j \<noteq> i) ids else ids @ [i])\<rparr> | _ \<Rightarrow> s)" for i
    using assms visual_mode_ok[OF assms] by (cases "lp_mode s") (auto simp: panel_ok_def mode_ok_def)
  then show ?thesis
    using assms by (auto simp: toggle_select_current_def intro: move_ok split: option.split)
qed

lemma cleanup_ok: "panel_ok s \<Longrightarrow> panel_ok (cleanup_after_batch ids s)"
  by (auto simp: cleanup_after_batch_def Let_def panel_ok_def mode_ok_def index_in_def is_visual_def exit_visual_def
    split: option.splits list_mode.splits)

lemma plain_steps_ok:
  assumes "panel_ok s"
  shows "panel_ok (set_visible_height h s)" "panel_ok (toggle_sort_direction s)" "panel_ok (cycle_sort_field s)"
    "panel_ok (enter_visual s)" "panel_ok (exit_visual s)" "panel_ok (enter_search s)"
  using assms by (simp_all add: set_visible_height_def toggle_sort_direction_def cycle_sort_field_def enter_visual_def
    exit_visual_def enter_search_def snapshot_of_def panel_ok_def mode_ok_def snapshot_ok_def)

lemma mode_steps_ok:
  assumes "panel_ok s"
  shows "panel_ok (commit_search s)" "panel_ok (select_all s)" "panel_ok (deselect_all s)" "panel_ok (update_search_query q s)"
  using assms by (cases "lp_mode s";
    simp add: commit_search_def select_all_def deselect_all_def update_search_query_def panel_ok_def mode_ok_def)+

lemma apply_snapshot_ok: "panel_ok s \<Longrightarrow> snapshot_ok sn \<Longrightarrow> panel_ok (apply_snapshot sn s)"
  by (simp add: panel_ok_def snapshot_ok_def apply_snapshot_def)

lemma panel_restore_ok:
  assumes "panel_ok s"
  shows "panel_ok (snd (restore_committed_search s))"
proof (cases "lp_committed_search_snapshot s")
  case (Some sn)
  then have "snapshot_ok sn" "panel_ok (s\<lparr>lp_committed_search_snapshot := None\<rparr>)"
    using assms by (simp_all add: panel_ok_def)
  then show ?thesis
    using Some by (simp add: restore_committed_search_def apply_snapshot_ok)
qed (use assms in \<open>simp add: restore_committed_search_def\<close>)

lemma cancel_ok:
  assumes "panel_ok s"
  shows "panel_ok (snd (cancel_search_restore s))"
proof -
  have normal: "panel_ok s' \<Longrightarrow> panel_ok (s'\<lparr>lp_mode := NormalMode\<rparr>)" for s'
    by (simp add: panel_ok_def mode_ok_def)
  show ?thesis
  proof (cases "lp_mode s")
    case (SearchMode st)
    then have "pred_option snapshot_ok (se_pre_search st)"
      using assms by (simp add: panel_ok_def mode_ok_def)
    then show ?thesis
      using SearchMode assms normal[OF apply_snapshot_ok[OF assms]] normal[OF assms]
      by (cases "se_pre_search st") (simp_all add: cancel_search_restore_def)
  qed (use normal[OF assms] in \<open>simp_all add: cancel_search_restore_def\<close>)
qed

lemma list_step_ok: "panel_ok s \<Longrightarrow> panel_ok (list_step op s)"
  by (cases op) (simp_all add: move_ok toggle_select_ok cleanup_ok plain_steps_ok mode_steps_ok panel_restore_ok cancel_ok)

lemma with_records_ok: "panel_ok (with_records records)"
  by (simp add: with_records_def list_panel_default_def panel_ok_def mode_ok_def index_in_def)


section \<open>Scrolling\<close>

definition selection_visible :: "list_panel \<Rightarrow> bool" where
  "selection_visible s \<longleftrightarrow> (case lp_selected_index s of None \<Rightarrow> True
     | Some i \<Rightarrow> lp_scroll_offset s \<le> i \<and> i < lp_scroll_offset s + visible_items_count s)"

lemma adjust_scroll_visible: "selection_visible (adjust_scroll s)"
  by (auto simp: selection_visible_def adjust_scroll_def visible_items_count_def Let_def split: option.splits)

lemma moves_show_selection:
  "lp_records s \<noteq> [] \<Longrightarrow> selection_visible (move_down s)" "lp_records s \<noteq> [] \<Longrightarrow> selection_visible (move_up s)"
  by (simp_all add: move_down_def move_up_def Let_def adjust_scroll_visible)

text \<open>A clean-up moves the selection but not the window: the selected record may be above it.\<close>

lemma cleanup_hides_selection:
  assumes "map tr_id (lp_records s) = [0, 1, 2, 3]" "lp_selected_index s = Some 3" "lp_scroll_offset s = 2"
  shows "\<not> selection_visible (cleanup_after_batch [2, 3] s)"
proof -
  obtain a b c d where r: "lp_records s = [a, b, c, d]" "tr_id a = 0" "tr_id b = 1" "tr_id c = 2" "tr_id d = 3"
    using assms(1) by (auto simp: map_eq_Cons_conv)
  then show ?thesis
    using assms(2,3) by (simp add: cleanup_after_batch_def Let_def selection_visible_def is_visual_def exit_visual_def
      split: list_mode.splits)
qed

section \<open>Leaving a search\<close>

text \<open>What happens during a search: the query changes, the list is filtered and the user moves in it.\<close>

datatype search_op = Query string | Refilter "tui_record list" "nat option" nat | SearchDown | SearchUp

fun search_step :: "search_op \<Rightarrow> list_panel \<Rightarrow> list_panel" where
  "search_step (Query q) s = update_search_query q s"
| "search_step (Refilter rs i off) s = s\<lparr>lp_records := rs, lp_selected_index := i, lp_scroll_offset := off\<rparr>"
| "search_step SearchDown s = move_down s"
| "search_step SearchUp s = move_up s"

text \<open>The panel without what a search changes.\<close>

definition beside_search :: "list_panel \<Rightarrow> list_panel" where
  "beside_search s = s\<lparr>lp_records := [], lp_selected_index := None, lp_scroll_offset := 0, lp_mode := NormalMode\<rparr>"

definition searching_from :: "list_panel \<Rightarrow> list_panel \<Rightarrow> bool" where
  "searching_from s s' \<longleftrightarrow> (\<exists>st. lp_mode s' = SearchMode st \<and> se_pre_search st = Some (snapshot_of s))
     \<and> beside_search s' = beside_search s"

lemma beside_adjust: "beside_search (adjust_scroll s) = beside_search s"
  by (cases "lp_selected_index s") (simp_all add: beside_search_def adjust_scroll_def Let_def)

lemma beside_moves:
  "beside_search (move_down s) = beside_search s" "beside_search (move_up s) = beside_search s"
  "lp_mode (move_down s) = lp_mode s" "lp_mode (move_up s) = lp_mode s"
  by (simp_all add: move_down_def move_up_def Let_def beside_adjust) (simp_all add: beside_search_def)

lemma search_step_from: "searching_from s s' \<Longrightarrow> searching_from s (search_step op s')"
proof (cases op)
  case (Query q)
  assume "searching_from s s'"
  then show ?thesis
    by (auto simp: Query searching_from_def update_search_query_def beside_search_def)
next
  case (Refilter rs i off)
  assume "searching_from s s'"
  then show ?thesis
    by (simp add: Refilter searching_from_def beside_search_def)
qed (simp_all add: searching_from_def beside_moves)

lemma cancel_from:
  assumes "searching_from s s'"
  shows "cancel_search_restore s' = (map_option tr_id (selected_record s), s\<lparr>lp_mode := NormalMode\<rparr>)"
proof -
  obtain st where st: "lp_mode s' = SearchMode st" "se_pre_search st = Some (snapshot_of s)"
    and same: "beside_search s' = beside_search s"
    using assms by (auto simp: searching_from_def)
  have "s'\<lparr>lp_records := lp_records s, lp_selected_index := lp_selected_index s, lp_scroll_offset := lp_scroll_offset s,
      lp_mode := NormalMode\<rparr> = s\<lparr>lp_mode := NormalMode\<rparr>"
    using same by (cases s; cases s') (simp add: beside_search_def)
  then show ?thesis
    using st by (simp add: cancel_search_restore_def snapshot_selected_def snapshot_of_def apply_snapshot_def selected_record_def)
qed

text \<open>
  leaving a search with Esc undoes it: whatever was typed, filtered and selected meanwhile, the list,
  its selection and its scroll position are those from before the search.
\<close>

theorem search_cancel_undoes:
  "cancel_search_restore (fold search_step ops (enter_search s))
     = (map_option tr_id (selected_record s), s\<lparr>lp_mode := NormalMode\<rparr>)"
proof (rule cancel_from)
  show "searching_from s (fold search_step ops (enter_search s))"
    by (rule fold_invariant[where Q = "\<lambda>_. True"]) (simp_all add: search_step_from, simp add: searching_from_def enter_search_def beside_search_def)
qed

section \<open>The live filter and the search of the vault\<close>

text \<open>
  The filter of the search box and the search of the vault select the same records, when lower-casing
  does not move the borders of words.
\<close>

theorem live_filter_is_search:
  assumes "lp_mode s = SearchMode st"
    and "split_whitespace (to_lowercase C (trim (se_query st))) = map (to_lowercase C) (split_whitespace (se_query st))"
  shows "apply_search_filter C s records = search_records C records (se_query st)"
proof -
  have match: "lower_match C (map (to_lowercase C) ts) = record_matches C ts" for ts
    by (simp add: fun_eq_iff lower_match_def record_matches_def Let_def list_all_iff)
  have "filter (record_matches C []) records = records"
    by (simp add: record_matches_def)
  then show ?thesis
    using assms(2) match[of "split_whitespace (se_query st)"]
    by (cases "split_whitespace (se_query st)")
      (simp_all add: apply_search_filter_def panel_search_terms_def assms(1) search_records_def)
qed

theorem live_filter_is_search_witness:
  "apply_search_filter demo_vault_ops (update_search_query ''bo mai'' (enter_search (with_records [demo_tui]))) [demo_tui]
     = search_records demo_vault_ops [demo_tui] ''bo mai''"
proof -
  have "split_whitespace (trim ''bo mai'') = split_whitespace ''bo mai''"
    by (simp add: split_whitespace_def is_continuation_byte_def is_whitespace_def ws_len_def trim_def)
  then show ?thesis
    using live_filter_is_search[of "update_search_query ''bo mai'' (enter_search (with_records [demo_tui]))"
      "\<lparr> se_query = ''bo mai'', se_cursor = 6, se_pre_search = Some (snapshot_of (with_records [demo_tui])) \<rparr>"
      demo_vault_ops "[demo_tui]"]
    by (simp add: update_search_query_def enter_search_def demo_vault_ops_def list.map_ident)
qed

end
