(* ===== verification/Tui_Text.thy ===== *)
theory Tui_Text
  imports Utf8
begin

text \<open>
  Text editing in the terminal interface: the inline editor of a tag name and the state of tag
  management (\<open>tui/state/tag_management.rs\<close>). The text is UTF-8 and the cursor a byte offset; slicing or
  inserting at an offset inside a character panics, which is the value None here. The editor is shown
  to be a zipper over characters that never panics.
\<close>

section \<open>The inline editor\<close>

record inline_edit =
  ie_original_name :: string
  ie_text :: string
  ie_cursor :: nat
  ie_conflict :: bool

definition inline_edit_new :: "string \<Rightarrow> inline_edit" where
  "inline_edit_new tag_name = \<lparr> ie_original_name = tag_name, ie_text = tag_name, ie_cursor = length tag_name, ie_conflict = False \<rparr>"

definition insert_char :: "string \<Rightarrow> inline_edit \<Rightarrow> inline_edit option" where
  "insert_char ch e =
     (if MAX_TAG_CHARS \<le> char_count (ie_text e) then Some e
      else case split_str (ie_text e) (ie_cursor e) of
        None \<Rightarrow> None
      | Some (before, after) \<Rightarrow> Some (e\<lparr>ie_text := before @ ch @ after, ie_cursor := ie_cursor e + length ch, ie_conflict := False\<rparr>))"

text \<open>\<open>text[..cursor].char_indices().last()\<close>.\<close>

definition prev_char :: "string \<Rightarrow> nat" where
  "prev_char before = (if char_indices before = [] then 0 else fst (last (char_indices before)))"

definition backspace :: "inline_edit \<Rightarrow> inline_edit option" where
  "backspace e =
     (if 0 < ie_cursor e then
        (case split_str (ie_text e) (ie_cursor e) of
           None \<Rightarrow> None
         | Some (before, after) \<Rightarrow>
             let prev = prev_char before in
             Some (e\<lparr>ie_text := take prev (ie_text e) @ drop (ie_cursor e) (ie_text e), ie_cursor := prev, ie_conflict := False\<rparr>))
      else Some e)"

definition cursor_left :: "inline_edit \<Rightarrow> inline_edit option" where
  "cursor_left e =
     (if 0 < ie_cursor e then
        map_option (\<lambda>(before, after). e\<lparr>ie_cursor := prev_char before\<rparr>) (split_str (ie_text e) (ie_cursor e))
      else Some e)"

definition cursor_right :: "inline_edit \<Rightarrow> inline_edit option" where
  "cursor_right e =
     (if ie_cursor e < length (ie_text e) then
        map_option (\<lambda>(before, after). e\<lparr>ie_cursor :=
            (case char_indices after of _ # (i, _) # _ \<Rightarrow> ie_cursor e + i | _ \<Rightarrow> length (ie_text e))\<rparr>)
          (split_str (ie_text e) (ie_cursor e))
      else Some e)"

definition inline_confirm :: "inline_edit \<Rightarrow> string" where
  "inline_confirm e = trim (ie_text e)"

definition check_conflict :: "(string \<Rightarrow> string) \<Rightarrow> string list \<Rightarrow> inline_edit \<Rightarrow> inline_edit" where
  "check_conflict lower existing_tags e =
     (let trimmed = lower (trim (ie_text e)) in
      e\<lparr>ie_conflict := list_ex (\<lambda>t. lower t = trimmed \<and> t \<noteq> ie_original_name e) existing_tags\<rparr>)"

section \<open>Tag management\<close>

datatype tag_sort_order = Frequency | Alphabetical | RecentlyUsed

definition cycle_order :: "tag_sort_order \<Rightarrow> tag_sort_order" where
  "cycle_order o' = (case o' of Frequency \<Rightarrow> Alphabetical | Alphabetical \<Rightarrow> RecentlyUsed | RecentlyUsed \<Rightarrow> Frequency)"

record tag_management =
  tm_sort_order :: tag_sort_order
  tm_inline_edit :: "inline_edit option"

definition tag_management_new :: tag_management where
  "tag_management_new = \<lparr> tm_sort_order = Frequency, tm_inline_edit = None \<rparr>"

definition start_rename :: "string \<Rightarrow> tag_management \<Rightarrow> tag_management" where
  "start_rename tag_name m = m\<lparr>tm_inline_edit := Some (inline_edit_new tag_name)\<rparr>"

definition cancel_rename :: "tag_management \<Rightarrow> tag_management" where
  "cancel_rename m = m\<lparr>tm_inline_edit := None\<rparr>"

definition is_renaming :: "tag_management \<Rightarrow> bool" where
  "is_renaming m \<longleftrightarrow> tm_inline_edit m \<noteq> None"

definition take_rename :: "tag_management \<Rightarrow> inline_edit option \<times> tag_management" where
  "take_rename m = (tm_inline_edit m, m\<lparr>tm_inline_edit := None\<rparr>)"

section \<open>The editor is a zipper\<close>

lemma prev_char_concat: "list_all wf_char (b @ [c]) \<Longrightarrow> prev_char (concat b @ c) = length (concat b)"
  using chars_of_concat[of "b @ [c]"]
  by (simp add: prev_char_def char_indices_def with_offsets_append)

text \<open>The abstract editor: the characters before and after the cursor.\<close>

type_synonym zipper = "string list \<times> string list"

definition edits :: "inline_edit \<Rightarrow> zipper \<Rightarrow> bool" where
  "edits e z \<longleftrightarrow> (case z of (b, a) \<Rightarrow> list_all wf_char (b @ a) \<and> ie_text e = concat (b @ a) \<and> ie_cursor e = length (concat b))"

datatype edit_op = Insert string | Backspace | CursorLeft | CursorRight

fun edit_step :: "edit_op \<Rightarrow> inline_edit \<Rightarrow> inline_edit option" where
  "edit_step (Insert ch) e = insert_char ch e"
| "edit_step Backspace e = backspace e"
| "edit_step CursorLeft e = cursor_left e"
| "edit_step CursorRight e = cursor_right e"

fun zipper_step :: "edit_op \<Rightarrow> zipper \<Rightarrow> zipper" where
  "zipper_step (Insert ch) (b, a) = (if MAX_TAG_CHARS \<le> length b + length a then (b, a) else (b @ [ch], a))"
| "zipper_step Backspace (b, a) = (butlast b, a)"
| "zipper_step CursorLeft (b, a) = (if b = [] then (b, a) else (butlast b, last b # a))"
| "zipper_step CursorRight (b, a) = (case a of [] \<Rightarrow> (b, a) | c # a' \<Rightarrow> (b @ [c], a'))"

definition wf_op :: "edit_op \<Rightarrow> bool" where
  "wf_op op \<longleftrightarrow> (\<forall>ch. op = Insert ch \<longrightarrow> wf_char ch)"

lemma wf_char_nonempty: "wf_char ch \<Longrightarrow> 0 < length ch"
  by (simp add: wf_char_def)

lemma edit_step_refines:
  assumes "edits e z" "wf_op op"
  shows "\<exists>e'. edit_step op e = Some e' \<and> edits e' (zipper_step op z) \<and> ie_original_name e' = ie_original_name e"
proof -
  obtain b a where z: "z = (b, a)" by (cases z)
  have wf: "list_all wf_char b" "list_all wf_char a" and e: "ie_text e = concat b @ concat a" "ie_cursor e = length (concat b)"
    using assms(1) by (auto simp: edits_def z)
  note sp = boundary_concat[OF wf]
  have pos: "0 < length (concat xs)" if "list_all wf_char xs" "xs \<noteq> []" for xs
    using that by (cases xs) (auto dest: wf_char_nonempty)
  show ?thesis
  proof (cases op)
    case (Insert ch)
    moreover have "char_count (concat b @ concat a) = length b + length a"
      using char_count_concat[of "b @ a"] wf by simp
    ultimately show ?thesis
      using wf assms(2) by (auto simp: z edits_def insert_char_def e sp wf_op_def)
  next
    case Backspace
    show ?thesis
    proof (cases b rule: rev_cases)
      case (snoc b' c)
      then have "prev_char (concat b) = length (concat b')"
        using prev_char_concat[of b' c] wf(1) by simp
      then show ?thesis
        using Backspace wf pos[OF wf(1)] snoc sp by (auto simp: z edits_def backspace_def e Let_def)
    qed (use Backspace wf in \<open>simp add: z edits_def backspace_def e\<close>)
  next
    case CursorLeft
    show ?thesis
    proof (cases b rule: rev_cases)
      case (snoc b' c)
      then have "prev_char (concat b) = length (concat b')"
        using prev_char_concat[of b' c] wf(1) by simp
      then show ?thesis
        using CursorLeft wf pos[OF wf(1)] snoc sp by (auto simp: z edits_def cursor_left_def e)
    qed (use CursorLeft wf in \<open>simp add: z edits_def cursor_left_def e\<close>)
  next
    case CursorRight
    show ?thesis
    proof (cases a)
      case (Cons c a')
      have "(case char_indices (c @ concat a') of _ # (i, _) # _ \<Rightarrow> ie_cursor e + i | _ \<Rightarrow> length (ie_text e)) = length (concat b) + length c"
        using chars_of_concat[OF wf(2)] by (cases a') (simp_all add: Cons char_indices_def e)
      then show ?thesis
        using CursorRight wf pos[OF wf(2)] Cons sp by (auto simp: z edits_def cursor_right_def e)
    qed (use CursorRight wf in \<open>simp add: z edits_def cursor_right_def e\<close>)
  qed
qed

text \<open>A whole editing session, which stops at a panic.\<close>

fun edit_run :: "edit_op list \<Rightarrow> inline_edit \<Rightarrow> inline_edit option" where
  "edit_run [] e = Some e"
| "edit_run (op # ops) e = Option.bind (edit_step op e) (edit_run ops)"

lemma edit_run_refines:
  "edits e z \<Longrightarrow> list_all wf_op ops \<Longrightarrow>
     \<exists>e'. edit_run ops e = Some e' \<and> edits e' (fold zipper_step ops z) \<and> ie_original_name e' = ie_original_name e"
proof (induction ops arbitrary: e z)
  case (Cons op ops)
  have "edits e z" "wf_op op" "list_all wf_op ops"
    using Cons.prems by simp_all
  from edit_step_refines[OF this(1,2)] obtain e1 where
    e1: "edit_step op e = Some e1" "edits e1 (zipper_step op z)" "ie_original_name e1 = ie_original_name e"
    by blast
  from Cons.IH[OF e1(2) \<open>list_all wf_op ops\<close>] obtain e2 where
    "edit_run ops e1 = Some e2" "edits e2 (fold zipper_step ops (zipper_step op z))" "ie_original_name e2 = ie_original_name e1"
    by blast
  then show ?case
    using e1 by simp
qed auto

lemma edits_new: "list_all wf_char cs \<Longrightarrow> edits (inline_edit_new (concat cs)) (cs, [])"
  by (simp add: edits_def inline_edit_new_def)

text \<open>
  C35: renaming a tag never panics: whatever characters are typed and however the cursor moves, the
  editor's text and byte cursor are those of the zipper over characters that starts behind the name.
\<close>

theorem rename_editor_refines_zipper:
  assumes "list_all wf_char cs" "list_all wf_op ops"
  shows "\<exists>e. edit_run ops (inline_edit_new (concat cs)) = Some e
    \<and> edits e (fold zipper_step ops (cs, [])) \<and> ie_original_name e = concat cs"
  using edit_run_refines[OF edits_new[OF assms(1)] assms(2)] by (simp add: inline_edit_new_def)

text \<open>A two-byte letter is typed into a name and deleted again.\<close>

definition demo_e_acute :: string where
  "demo_e_acute = [CHR 0xC3, CHR 0xA9]"

theorem rename_editor_refines_zipper_witness:
  "\<exists>e. edit_run [CursorLeft, Insert demo_e_acute, Backspace] (inline_edit_new (concat [''a'', ''b''])) = Some e
    \<and> edits e ([''a''], [''b'']) \<and> ie_original_name e = ''ab''"
  using rename_editor_refines_zipper[of "[''a'', ''b'']" "[CursorLeft, Insert demo_e_acute, Backspace]"]
  by (simp add: wf_op_def wf_char_def demo_e_acute_def is_continuation_byte_def MAX_TAG_CHARS_def)

end
