(* ===== verification/Tui_Sidebar.thy ===== *)
theory Tui_Sidebar
  imports Tui_List Tui_Text
begin

text \<open>
  The sidebar of the main screen (\<open>tui/state/main_state/state.rs\<close>): its items, selection, scrolling of the
  tags, tag management, the order of the tags and the item under a row of the screen; the title of the
  terminal window.
\<close>

section \<open>Items\<close>

datatype sidebar_category = CatAll | CatFavorites | CatExpired | CatHealthIssues | CatTrash

definition category_index :: "sidebar_category \<Rightarrow> nat" where
  "category_index c = (case c of CatAll \<Rightarrow> 0 | CatFavorites \<Rightarrow> 1 | CatExpired \<Rightarrow> 2 | CatHealthIssues \<Rightarrow> 3 | CatTrash \<Rightarrow> 4)"

definition to_filter :: "sidebar_category \<Rightarrow> record_filter" where
  "to_filter c = (case c of CatAll \<Rightarrow> AllRecords | CatFavorites \<Rightarrow> Favorites | CatExpired \<Rightarrow> Expired
     | CatHealthIssues \<Rightarrow> HealthIssues | CatTrash \<Rightarrow> Trash)"

datatype sidebar_item =
    Spacer | Brand | Category sidebar_category | Separator | TagHeader | TagItem string nat | Generator | Config

definition is_selectable :: "sidebar_item \<Rightarrow> bool" where
  "is_selectable i = (case i of Spacer \<Rightarrow> False | Brand \<Rightarrow> False | Separator \<Rightarrow> False | _ \<Rightarrow> True)"

record sidebar =
  sb_items :: "sidebar_item list"
  sb_selected_index :: nat
  sb_tags_expanded :: bool
  sb_tag_scroll_offset :: nat
  sb_tag_management_mode :: bool
  sb_tag_management :: tag_management
  sb_tags :: "tag list"
  sb_tag_metadata :: "(int \<times> tag_sort_meta) list"
  sb_category_counts :: category_counts

definition position :: "('a \<Rightarrow> bool) \<Rightarrow> 'a list \<Rightarrow> nat option" where
  "position P xs = (if list_ex P xs then Some (length (takeWhile (\<lambda>x. \<not> P x) xs)) else None)"

definition tag_count :: "sidebar \<Rightarrow> tag \<Rightarrow> nat" where
  "tag_count s t = (case map_of (sb_tag_metadata s) (tg_id t) of None \<Rightarrow> 0 | Some m \<Rightarrow> tsm_record_count m)"

definition build_items :: "sidebar \<Rightarrow> sidebar_item list" where
  "build_items s =
     [Spacer, Brand, Separator, Category CatAll, Separator, Category CatFavorites, Separator, Category CatExpired,
      Separator, Category CatHealthIssues, Separator, Category CatTrash, Separator, TagHeader]
     @ (if sb_tags_expanded s then concat (map (\<lambda>t. [Separator, TagItem (tg_name t) (tag_count s t)]) (sb_tags s)) else [])
     @ [Separator, Generator, Separator, Config]"

definition footer_start_index :: "sidebar \<Rightarrow> nat" where
  "footer_start_index s = (case position (\<lambda>i. i = Generator) (sb_items s) of
     Some (Suc idx) \<Rightarrow> idx | _ \<Rightarrow> length (sb_items s))"

section \<open>Selection\<close>

definition next_selectable_from :: "sidebar_item list \<Rightarrow> nat \<Rightarrow> nat option" where
  "next_selectable_from items start =
     find (\<lambda>idx. is_selectable (items ! idx)) (map (\<lambda>offset. (start + offset) mod length items) [0..<length items])"

definition prev_selectable_from :: "sidebar_item list \<Rightarrow> nat \<Rightarrow> nat option" where
  "prev_selectable_from items start =
     find (\<lambda>idx. is_selectable (items ! idx)) (map (\<lambda>offset. (start + length items - offset) mod length items) [0..<length items])"

definition select_index :: "nat option \<Rightarrow> sidebar \<Rightarrow> sidebar" where
  "select_index i s = (case i of None \<Rightarrow> s | Some idx \<Rightarrow> s\<lparr>sb_selected_index := idx\<rparr>)"

definition rebuild :: "sidebar \<Rightarrow> sidebar" where
  "rebuild s =
     (let s1 = s\<lparr>sb_items := build_items s\<rparr>;
          s2 = s1\<lparr>sb_tag_scroll_offset := min (sb_tag_scroll_offset s1) (footer_start_index s1)\<rparr>;
          s3 = (if length (sb_items s2) \<le> sb_selected_index s2 then s2\<lparr>sb_selected_index := 0\<rparr> else s2)
      in if sb_items s3 \<noteq> [] \<and> \<not> is_selectable (sb_items s3 ! sb_selected_index s3)
         then select_index (next_selectable_from (sb_items s3) (sb_selected_index s3)) s3
         else s3)"

definition sidebar_default :: sidebar where
  "sidebar_default = rebuild \<lparr> sb_items = [], sb_selected_index = 0, sb_tags_expanded = True, sb_tag_scroll_offset = 0,
     sb_tag_management_mode = False, sb_tag_management = tag_management_new, sb_tags = [], sb_tag_metadata = [],
     sb_category_counts = \<lparr> cc_all = 0, cc_favorites = 0, cc_expired = 0, cc_health_issues = 0, cc_trash = 0 \<rparr> \<rparr>"

definition next_selectable :: "sidebar \<Rightarrow> sidebar" where
  "next_selectable s =
     (if sb_items s = [] then s
      else select_index (next_selectable_from (sb_items s)
        (if sb_selected_index s + 1 < length (sb_items s) then sb_selected_index s + 1 else 0)) s)"

definition prev_selectable :: "sidebar \<Rightarrow> sidebar" where
  "prev_selectable s =
     (if sb_items s = [] then s
      else select_index (prev_selectable_from (sb_items s)
        (if 0 < sb_selected_index s then sb_selected_index s - 1 else length (sb_items s) - 1)) s)"

definition sidebar_filter :: "sidebar \<Rightarrow> record_filter" where
  "sidebar_filter s =
     (if length (sb_items s) \<le> sb_selected_index s then AllRecords
      else case sb_items s ! sb_selected_index s of
        Category cat \<Rightarrow> to_filter cat
      | TagItem name _ \<Rightarrow> Tag name
      | _ \<Rightarrow> AllRecords)"

definition select_category :: "sidebar_category \<Rightarrow> sidebar \<Rightarrow> sidebar" where
  "select_category category s = select_index (position (\<lambda>i. i = Category category) (sb_items s)) s"

definition is_tag_item :: "sidebar_item \<Rightarrow> bool" where
  "is_tag_item i = (case i of TagItem _ _ \<Rightarrow> True | _ \<Rightarrow> False)"

definition select_tag_header :: "sidebar \<Rightarrow> sidebar" where
  "select_tag_header s = select_index (position (\<lambda>i. i = TagHeader) (sb_items s)) s"

definition select_first_tag :: "sidebar \<Rightarrow> bool \<times> sidebar" where
  "select_first_tag s = (let i = position is_tag_item (sb_items s) in (i \<noteq> None, select_index i s))"

definition selected_tag_name :: "sidebar \<Rightarrow> string option" where
  "selected_tag_name s =
     (if sb_selected_index s < length (sb_items s) then
        (case sb_items s ! sb_selected_index s of TagItem name _ \<Rightarrow> Some name | _ \<Rightarrow> None)
      else None)"

definition toggle_tags :: "sidebar \<Rightarrow> sidebar" where
  "toggle_tags s =
     (let s1 = rebuild (s\<lparr>sb_tags_expanded := \<not> sb_tags_expanded s\<rparr>) in
      if sb_tags_expanded s1 then s1 else select_tag_header s1)"

definition enter_tag_management :: "sidebar \<Rightarrow> sidebar" where
  "enter_tag_management s =
     (let s1 = s\<lparr>sb_tag_management_mode := True\<rparr> in
      if sb_selected_index s1 < length (sb_items s1) \<and> sb_items s1 ! sb_selected_index s1 = TagHeader
      then snd (select_first_tag s1) else s1)"

definition exit_tag_management :: "sidebar \<Rightarrow> sidebar" where
  "exit_tag_management s = s\<lparr>sb_tag_management_mode := False, sb_tag_management := cancel_rename (sb_tag_management s)\<rparr>"

text \<open>The comparators of \<open>sort_by\<close>, as the keys of stable sorts, the least significant first.\<close>

definition tag_last_used :: "sidebar \<Rightarrow> tag \<Rightarrow> int" where
  "tag_last_used s t = (case map_of (sb_tag_metadata s) (tg_id t) of None \<Rightarrow> 0 | Some m \<Rightarrow> tsm_last_used_at m)"

definition sort_tags :: "('w, 'y) db_ops_scheme \<Rightarrow> sidebar \<Rightarrow> tag list" where
  "sort_tags C s =
     (let by_name = sort_key (\<lambda>t. to_lowercase C (tg_name t)) (sb_tags s) in
      case tm_sort_order (sb_tag_management s) of
        Frequency \<Rightarrow> sort_key (\<lambda>t. - int (tag_count s t)) by_name
      | Alphabetical \<Rightarrow> by_name
      | RecentlyUsed \<Rightarrow> sort_key (\<lambda>t. tag_last_used s t = 0) (sort_key (\<lambda>t. - tag_last_used s t) by_name))"

definition sort_tags_by_current_order :: "('w, 'y) db_ops_scheme \<Rightarrow> sidebar \<Rightarrow> sidebar" where
  "sort_tags_by_current_order C s = rebuild (s\<lparr>sb_tags := sort_tags C s\<rparr>)"

section \<open>Rows\<close>

definition tag_header_index :: "sidebar \<Rightarrow> nat option" where
  "tag_header_index s = position (\<lambda>i. i = TagHeader) (sb_items s)"

definition tag_scroll_start_index :: "sidebar \<Rightarrow> nat" where
  "tag_scroll_start_index s =
     min (case tag_header_index s of Some i \<Rightarrow> i + 1 | None \<Rightarrow> footer_start_index s) (footer_start_index s)"

definition tag_scroll_item_count :: "sidebar \<Rightarrow> nat" where
  "tag_scroll_item_count s = footer_start_index s - tag_scroll_start_index s"

definition sidebar_item_render_height :: "sidebar \<Rightarrow> nat \<Rightarrow> nat" where
  "sidebar_item_render_height s index =
     (if length (sb_items s) \<le> index then 1
      else let item = sb_items s ! index in
        if sb_selected_index s = index \<and> is_selectable item
        then (case item of Generator \<Rightarrow> 1 | Config \<Rightarrow> 1 | _ \<Rightarrow> 3)
        else 1)"

definition fixed_top_height :: "sidebar \<Rightarrow> nat" where
  "fixed_top_height s = sum_list (map (sidebar_item_render_height s) [0..<tag_scroll_start_index s])"

definition footer_render_height :: "sidebar \<Rightarrow> nat" where
  "footer_render_height s = sum_list (map (sidebar_item_render_height s) [footer_start_index s..<length (sb_items s)])"

definition nav_visible_items_for_height :: "sidebar \<Rightarrow> nat \<Rightarrow> nat" where
  "nav_visible_items_for_height s sidebar_height =
     (let footer_height = min (footer_render_height s) sidebar_height;
          remaining = sidebar_height - footer_height;
          top_height = min (fixed_top_height s) remaining
      in max (remaining - top_height) 1)"

definition max_tag_scroll_offset :: "sidebar \<Rightarrow> nat \<Rightarrow> nat" where
  "max_tag_scroll_offset s visible_items = tag_scroll_item_count s - max visible_items 1"

definition scroll_tags_by :: "int \<Rightarrow> nat \<Rightarrow> sidebar \<Rightarrow> sidebar" where
  "scroll_tags_by delta visible_items s =
     s\<lparr>sb_tag_scroll_offset :=
        (if delta < 0 then sb_tag_scroll_offset s - nat (- delta)
         else min (sb_tag_scroll_offset s + nat delta) (max_tag_scroll_offset s visible_items))\<rparr>"

definition ensure_selected_visible :: "nat \<Rightarrow> sidebar \<Rightarrow> sidebar" where
  "ensure_selected_visible visible s =
     (let scroll_start = tag_scroll_start_index s; scroll_end = footer_start_index s in
      if sb_selected_index s < scroll_start \<or> scroll_end \<le> sb_selected_index s then s
      else let visible_items = max visible 1;
               relative_index = sb_selected_index s - scroll_start;
               offset = (if relative_index < sb_tag_scroll_offset s then relative_index
                         else if sb_tag_scroll_offset s + visible_items \<le> relative_index then relative_index + 1 - visible_items
                         else sb_tag_scroll_offset s)
           in s\<lparr>sb_tag_scroll_offset := min offset (max_tag_scroll_offset s visible_items)\<rparr>)"

record rect =
  rc_x :: nat
  rc_y :: nat
  rc_width :: nat
  rc_height :: nat

text \<open>Coordinates are 16-bit; \<open>saturating_add\<close> stops at the largest.\<close>

definition U16_MAX :: nat where
  "U16_MAX = 65535"

definition sat_add16 :: "nat \<Rightarrow> nat \<Rightarrow> nat" where
  "sat_add16 a b = min (a + b) U16_MAX"

definition contains_rect :: "rect \<Rightarrow> nat \<Rightarrow> nat \<Rightarrow> bool" where
  "contains_rect rect column row \<longleftrightarrow>
     rc_x rect \<le> column \<and> column < sat_add16 (rc_x rect) (rc_width rect)
     \<and> rc_y rect \<le> row \<and> row < sat_add16 (rc_y rect) (rc_height rect)"

definition top_padded_rect :: "rect \<Rightarrow> nat \<Rightarrow> rect" where
  "top_padded_rect area padding =
     (let applied = min padding (rc_height area) in
      area\<lparr>rc_y := rc_y area + applied, rc_height := rc_height area - applied\<rparr>)"

fun index_in_range :: "(nat \<Rightarrow> nat) \<Rightarrow> nat list \<Rightarrow> nat \<Rightarrow> nat \<Rightarrow> nat option" where
  "index_in_range height [] relative_row y = None"
| "index_in_range height (index # rest) relative_row y =
     (if relative_row < y + height index then Some index else index_in_range height rest relative_row (y + height index))"

definition sidebar_item_index_in_range :: "sidebar \<Rightarrow> nat \<Rightarrow> nat \<Rightarrow> nat \<Rightarrow> nat option" where
  "sidebar_item_index_in_range s start end_index relative_row =
     index_in_range (sidebar_item_render_height s) [start..<end_index] relative_row 0"

definition sidebar_item_index_at :: "sidebar \<Rightarrow> rect \<Rightarrow> nat \<Rightarrow> nat option" where
  "sidebar_item_index_at s rect row =
     (if row < rc_y rect \<or> sat_add16 (rc_y rect) (rc_height rect) \<le> row then None
      else let footer_start = footer_start_index s;
               footer_height = min (footer_render_height s) (rc_height rect);
               footer_top = sat_add16 (rc_y rect) (rc_height rect - footer_height)
           in if footer_top \<le> row
              then sidebar_item_index_in_range s footer_start (length (sb_items s)) (row - footer_top)
              else let scroll_start = tag_scroll_start_index s;
                       top_height = min (fixed_top_height s) (footer_top - rc_y rect);
                       top_bottom = sat_add16 (rc_y rect) top_height
                   in if row < top_bottom then sidebar_item_index_in_range s 0 scroll_start (row - rc_y rect)
                      else let tag_area_height = footer_top - top_bottom in
                        if tag_area_height = 0 then None
                        else let offset = min (sb_tag_scroll_offset s) (max_tag_scroll_offset s (max tag_area_height 1))
                             in sidebar_item_index_in_range s (scroll_start + offset) footer_start (row - top_bottom))"

definition sidebar_tag_scroll_region_contains :: "sidebar \<Rightarrow> rect \<Rightarrow> nat \<Rightarrow> bool" where
  "sidebar_tag_scroll_region_contains s rect row =
     (case sidebar_item_index_at s rect row of
        None \<Rightarrow> False
      | Some index \<Rightarrow> tag_scroll_start_index s \<le> index \<and> index < footer_start_index s)"

section \<open>The title of the terminal window\<close>

record terminal_title =
  tt_current_title :: string
  tt_pending_restore :: "string option"

definition set_for_main :: "string option \<Rightarrow> terminal_title \<Rightarrow> terminal_title" where
  "set_for_main record_name t = t\<lparr>tt_current_title := (case record_name of
     None \<Rightarrow> ''OK''
   | Some name \<Rightarrow> if 35 < length (chars_of name) then ''OK | '' @ concat (take 35 (chars_of name)) @ ''...'' else ''OK | '' @ name)\<rparr>"

definition clear_title :: "terminal_title \<Rightarrow> terminal_title" where
  "clear_title t = t\<lparr>tt_current_title := []\<rparr>"

definition save_for_restore :: "terminal_title \<Rightarrow> terminal_title" where
  "save_for_restore t = t\<lparr>tt_pending_restore := Some (tt_current_title t)\<rparr>"

definition restore_title :: "terminal_title \<Rightarrow> terminal_title" where
  "restore_title t = (case tt_pending_restore t of
     None \<Rightarrow> t | Some title \<Rightarrow> t\<lparr>tt_pending_restore := None, tt_current_title := title\<rparr>)"

end
