(* ===== verification/Tui_Sidebar_Laws.thy ===== *)
theory Tui_Sidebar_Laws
  imports Tui_Sidebar "HOL-Library.Multiset"
begin

text \<open>
  The sidebar keeps its selection on an item that can be selected, moving down and up are inverse,
  sorting the tags only reorders them, and a row of the screen is resolved to an item that exists.
\<close>

section \<open>Positions\<close>

lemma position_Some: "position P xs = Some i \<Longrightarrow> i < length xs \<and> P (xs ! i)"
proof -
  assume "position P xs = Some i"
  then have "list_ex P xs" "i = length (takeWhile (\<lambda>x. \<not> P x) xs)"
    by (simp_all add: position_def split: if_splits)
  moreover have "list_ex P xs \<Longrightarrow> length (takeWhile (\<lambda>x. \<not> P x) xs) < length xs"
    by (induction xs) auto
  ultimately show ?thesis
    using nth_length_takeWhile by blast
qed

lemma position_first:
  "P (xs ! i) \<Longrightarrow> i < length xs \<Longrightarrow> (\<And>j. j < i \<Longrightarrow> \<not> P (xs ! j)) \<Longrightarrow> position P xs = Some i"
  unfolding position_def
  by (metis list_ex_length takeWhile_eq_take_P_nth length_take min.absorb4)

lemma find_map_upt:
  assumes "k < n" "P (f k)" "\<And>k'. k' < k \<Longrightarrow> \<not> P (f k')"
  shows "find P (map f [0..<n]) = Some (f k)"
  using assms by (subst find_Some_iff) (auto intro!: exI[of _ k])

section \<open>The shape of the items\<close>

lemma build_items_nonempty [simp]: "build_items s \<noteq> []"
  by (simp add: build_items_def)

lemma build_items_selectable: "Category CatAll \<in> set (build_items s)" "TagHeader \<in> set (build_items s)"
  by (simp_all add: build_items_def)

lemma next_from_Some:
  assumes "items \<noteq> []" "list_ex is_selectable items"
  obtains j where "next_selectable_from items start = Some j" "j < length items" "is_selectable (items ! j)"
proof -
  obtain i where i: "i < length items" "is_selectable (items ! i)"
    using assms(2) by (auto simp: list_ex_length)
  define k where "k = (i + length items - start mod length items) mod length items"
  have "(start + k) mod length items = i"
  proof -
    have "start mod length items < length items"
      using assms(1) by simp
    then have "start mod length items + (i + length items - start mod length items) = i + length items"
      by simp
    then have "(start mod length items + (i + length items - start mod length items)) mod length items = i"
      using i(1) by simp
    then show ?thesis
      unfolding k_def by (simp only: mod_add_right_eq mod_add_left_eq)
  qed
  then have "i \<in> set (map (\<lambda>offset. (start + offset) mod length items) [0..<length items])"
    using assms(1) by (auto simp: k_def image_iff intro!: bexI[of _ k])
  then have "next_selectable_from items start \<noteq> None"
    using i(2) by (auto simp: next_selectable_from_def find_None_iff)
  then obtain j where j: "next_selectable_from items start = Some j"
    by blast
  have "j < length items" "is_selectable (items ! j)"
    using j assms(1) by (auto simp: next_selectable_from_def find_Some_iff)
  then show thesis
    using that j by blast
qed

section \<open>Down and up are inverse\<close>

definition on_selectable :: "sidebar \<Rightarrow> bool" where
  "on_selectable s \<longleftrightarrow> sb_selected_index s < length (sb_items s) \<and> is_selectable (sb_items s ! sb_selected_index s)"

lemma down_step:
  assumes "i < length items" "is_selectable (items ! i)"
  obtains k where "k < length items" "next_selectable_from items (if i + 1 < length items then i + 1 else 0) = Some ((i + 1 + k) mod length items)"
    "is_selectable (items ! ((i + 1 + k) mod length items))"
    "\<And>k'. k' < k \<Longrightarrow> \<not> is_selectable (items ! ((i + 1 + k') mod length items))"
proof -
  let ?n = "length items" and ?P = "\<lambda>k. is_selectable (items ! ((i + 1 + k) mod length items))"
  define k where "k = (LEAST k. ?P k)"
  have last: "?P (?n - 1)"
  proof -
    have "(i + 1 + (?n - 1)) mod ?n = i"
      using assms(1) by (simp add: Suc_diff_Suc flip: add_Suc_right)
    then show ?thesis
      using assms(2) by simp
  qed
  then have "k \<le> ?n - 1"
    unfolding k_def by (rule Least_le)
  then have k: "k < ?n"
    using assms(1) by linarith
  have Pk: "?P k"
    unfolding k_def by (rule LeastI[of ?P, OF last])
  have least: "\<not> ?P k'" if "k' < k" for k'
    using not_less_Least that unfolding k_def by blast
  have start: "((if i + 1 < ?n then i + 1 else 0) + k') mod ?n = (i + 1 + k') mod ?n" for k'
  proof (cases "i + 1 < ?n")
    case False
    then have "i + 1 = ?n"
      using assms(1) by simp
    then show ?thesis
      using False by simp
  qed simp
  have "find (\<lambda>idx. is_selectable (items ! idx)) (map (\<lambda>offset. (i + 1 + offset) mod ?n) [0..<?n]) = Some ((i + 1 + k) mod ?n)"
    using k Pk least by (rule find_map_upt)
  then have "next_selectable_from items (if i + 1 < ?n then i + 1 else 0) = Some ((i + 1 + k) mod ?n)"
    unfolding next_selectable_from_def start .
  then show thesis
    using that k Pk least by blast
qed

lemma up_step:
  assumes "i < length items" "is_selectable (items ! i)" "k < length items"
    and "\<And>k'. k' < k \<Longrightarrow> \<not> is_selectable (items ! ((i + 1 + k') mod length items))"
    and "j = (i + 1 + k) mod length items"
  shows "prev_selectable_from items (if 0 < j then j - 1 else length items - 1) = Some i"
proof -
  let ?n = "length items"
  have start: "(if 0 < j then j - 1 else ?n - 1) = (i + k) mod ?n"
  proof (cases "j = 0")
    case True
    then have "Suc (i + k) mod ?n = 0"
      using assms(5) by simp
    then show ?thesis
      using True assms(1) by (metis diff_Suc_1 less_nat_zero_code mod_Suc nat.simps(3) not_gr0)
  next
    case False
    then have "Suc (i + k) mod ?n \<noteq> 0"
      using assms(5) by simp
    then show ?thesis
      using False assms(5) by (simp add: mod_Suc split: if_splits)
  qed
  have undo: "((i + k) mod ?n + ?n - m) mod ?n = (i + (k - m)) mod ?n" if "m \<le> k" for m
  proof -
    have "((i + k) mod ?n + ?n - m) mod ?n = ((i + k) mod ?n + (?n - m)) mod ?n"
      using that assms(3) by simp
    also have "\<dots> = (i + k + (?n - m)) mod ?n"
      by (rule mod_add_left_eq)
    also have "\<dots> = (i + (k - m) + ?n) mod ?n"
      using that assms(3) by simp
    finally show ?thesis
      by simp
  qed
  have "find (\<lambda>idx. is_selectable (items ! idx)) (map (\<lambda>m. ((i + k) mod ?n + ?n - m) mod ?n) [0..<?n])
      = Some (((i + k) mod ?n + ?n - k) mod ?n)"
  proof (rule find_map_upt[OF assms(3)])
    show "is_selectable (items ! (((i + k) mod ?n + ?n - k) mod ?n))"
      using undo[of k] assms(1,2) by simp
  next
    fix m
    assume "m < k"
    then have "i + (k - m) = i + 1 + (k - m - 1)" "k - m - 1 < k"
      by simp_all
    then show "\<not> is_selectable (items ! (((i + k) mod ?n + ?n - m) mod ?n))"
      using undo[of m] assms(4)[of "k - m - 1"] \<open>m < k\<close> by simp
  qed
  then show ?thesis
    using undo[of k] assms(1) by (simp add: start prev_selectable_from_def)
qed

text \<open>
  Moving down and up in the sidebar are inverse, around its end too, and stay on items that can be
  selected.
\<close>

theorem sidebar_down_up:
  assumes "on_selectable s"
  shows "on_selectable (next_selectable s) \<and> prev_selectable (next_selectable s) = s"
proof -
  have ok: "sb_selected_index s < length (sb_items s)" "is_selectable (sb_items s ! sb_selected_index s)"
    using assms by (simp_all add: on_selectable_def)
  obtain k where k: "k < length (sb_items s)"
      "next_selectable_from (sb_items s) (if sb_selected_index s + 1 < length (sb_items s) then sb_selected_index s + 1 else 0)
         = Some ((sb_selected_index s + 1 + k) mod length (sb_items s))"
      "is_selectable (sb_items s ! ((sb_selected_index s + 1 + k) mod length (sb_items s)))"
      "\<And>k'. k' < k \<Longrightarrow> \<not> is_selectable (sb_items s ! ((sb_selected_index s + 1 + k') mod length (sb_items s)))"
    using down_step[OF ok] by blast
  have ne: "sb_items s \<noteq> []"
    using ok by auto
  have "prev_selectable_from (sb_items s) (if 0 < j then j - 1 else length (sb_items s) - 1) = Some (sb_selected_index s)"
    if "j = (sb_selected_index s + 1 + k) mod length (sb_items s)" for j
    by (rule up_step[OF ok k(1,4) that])
  note undo = this[OF refl]
  define j where "j = (sb_selected_index s + 1 + k) mod length (sb_items s)"
  have next_eq: "next_selectable s = s\<lparr>sb_selected_index := j\<rparr>"
    using k(2) ne by (simp add: next_selectable_def select_index_def j_def)
  have "prev_selectable (s\<lparr>sb_selected_index := j\<rparr>) = s"
    using undo[folded j_def] ne
    by (cases "0 < j") (simp_all add: prev_selectable_def select_index_def del: One_nat_def)
  moreover have "j < length (sb_items s)"
    using ne by (simp add: j_def)
  ultimately show ?thesis
    using k(3) by (simp add: on_selectable_def next_eq j_def)
qed

theorem sidebar_down_up_witness:
  "prev_selectable (next_selectable sidebar_default) = sidebar_default \<and> sb_selected_index (next_selectable sidebar_default) = 5"
proof -
  have d: "sb_items sidebar_default = build_items sidebar_default" "sb_selected_index sidebar_default = 3"
    "build_items sidebar_default = [Spacer, Brand, Separator, Category CatAll, Separator, Category CatFavorites, Separator,
       Category CatExpired, Separator, Category CatHealthIssues, Separator, Category CatTrash, Separator, TagHeader,
       Separator, Generator, Separator, Config]"
    by (simp_all add: sidebar_default_def rebuild_def Let_def build_items_def next_selectable_from_def is_selectable_def
      select_index_def upt_rec)
  then have "on_selectable sidebar_default"
    by (simp add: on_selectable_def is_selectable_def)
  from sidebar_down_up[OF this] show ?thesis
    using d by (simp add: next_selectable_def next_selectable_from_def is_selectable_def select_index_def upt_rec)
qed

section \<open>The selection can always be selected\<close>

datatype sidebar_op =
    SidebarDown | SidebarUp | SelectCategory sidebar_category | ToggleTags | EnterManagement | ExitManagement
  | LoadTags "tag list" "(int \<times> tag_sort_meta) list" | CycleOrder | SelectTagHeader | SelectFirstTag
  | ScrollTags int nat | EnsureVisible nat

fun sidebar_step :: "('w, 'y) db_ops_scheme \<Rightarrow> sidebar_op \<Rightarrow> sidebar \<Rightarrow> sidebar" where
  "sidebar_step C SidebarDown s = next_selectable s"
| "sidebar_step C SidebarUp s = prev_selectable s"
| "sidebar_step C (SelectCategory c) s = select_category c s"
| "sidebar_step C ToggleTags s = toggle_tags s"
| "sidebar_step C EnterManagement s = enter_tag_management s"
| "sidebar_step C ExitManagement s = exit_tag_management s"
| "sidebar_step C (LoadTags tags metadata) s = sort_tags_by_current_order C (s\<lparr>sb_tags := tags, sb_tag_metadata := metadata\<rparr>)"
| "sidebar_step C CycleOrder s = sort_tags_by_current_order C
     (s\<lparr>sb_tag_management := (sb_tag_management s)\<lparr>tm_sort_order := cycle_order (tm_sort_order (sb_tag_management s))\<rparr>\<rparr>)"
| "sidebar_step C SelectTagHeader s = select_tag_header s"
| "sidebar_step C SelectFirstTag s = snd (select_first_tag s)"
| "sidebar_step C (ScrollTags d n) s = scroll_tags_by d n s"
| "sidebar_step C (EnsureVisible n) s = ensure_selected_visible n s"

definition sidebar_ok :: "sidebar \<Rightarrow> bool" where
  "sidebar_ok s \<longleftrightarrow> sb_items s = build_items s \<and> on_selectable s \<and> sb_tag_scroll_offset s \<le> footer_start_index s"

lemma build_items_cong:
  "sb_tags_expanded s = sb_tags_expanded s' \<Longrightarrow> sb_tags s = sb_tags s' \<Longrightarrow> sb_tag_metadata s = sb_tag_metadata s' \<Longrightarrow> build_items s = build_items s'"
  by (simp add: build_items_def tag_count_def cong: map_cong)

lemma footer_frame [simp]:
  "footer_start_index (s\<lparr>sb_selected_index := i\<rparr>) = footer_start_index s"
  "footer_start_index (s\<lparr>sb_tag_scroll_offset := off\<rparr>) = footer_start_index s"
  "footer_start_index (s\<lparr>sb_tag_management_mode := b\<rparr>) = footer_start_index s"
  "footer_start_index (s\<lparr>sb_tag_management := m\<rparr>) = footer_start_index s"
  by (simp_all add: footer_start_index_def cong: option.case_cong nat.case_cong)

lemma selectable_exists: "list_ex is_selectable (build_items s)"
  using build_items_selectable(1)[of s] by (auto simp: list_ex_iff is_selectable_def intro!: bexI[of _ "Category CatAll"])

lemma sidebar_ok_select:
  assumes "sidebar_ok s" "i < length (sb_items s)" "is_selectable (sb_items s ! i)"
  shows "sidebar_ok (s\<lparr>sb_selected_index := i\<rparr>)"
  using assms build_items_cong[of "s\<lparr>sb_selected_index := i\<rparr>" s] by (simp add: sidebar_ok_def on_selectable_def)

lemma sidebar_ok_position:
  assumes "sidebar_ok s" "\<And>x. P x \<Longrightarrow> is_selectable x"
  shows "sidebar_ok (select_index (position P (sb_items s)) s)"
proof (cases "position P (sb_items s)")
  case (Some i)
  then show ?thesis
    using position_Some[OF Some] sidebar_ok_select[OF assms(1)] assms(2) by (simp add: select_index_def)
qed (simp add: select_index_def assms(1))

lemma rebuild_ok: "sidebar_ok (rebuild s)"
proof -
  let ?items = "build_items s"
  define s3 where "s3 = s\<lparr>sb_items := ?items, sb_tag_scroll_offset := min (sb_tag_scroll_offset s) (footer_start_index (s\<lparr>sb_items := ?items\<rparr>)),
      sb_selected_index := (if length ?items \<le> sb_selected_index s then 0 else sb_selected_index s)\<rparr>"
  have s3: "sb_items s3 = ?items" "sb_selected_index s3 < length ?items" "sb_tag_scroll_offset s3 \<le> footer_start_index s3"
    by (simp_all add: s3_def not_le)
  have items: "build_items (s3\<lparr>sb_selected_index := i\<rparr>) = ?items" for i
    by (rule build_items_cong) (simp_all add: s3_def)
  have "rebuild s = (if \<not> is_selectable (?items ! sb_selected_index s3)
      then select_index (next_selectable_from ?items (sb_selected_index s3)) s3 else s3)"
    by (simp add: rebuild_def Let_def s3_def)
  moreover obtain j where "next_selectable_from ?items (sb_selected_index s3) = Some j" "j < length ?items" "is_selectable (?items ! j)"
    using next_from_Some[OF build_items_nonempty selectable_exists] by blast
  ultimately show ?thesis
    using s3 items[of "sb_selected_index s3"] by (simp add: sidebar_ok_def on_selectable_def select_index_def items)
qed

lemma prev_from_selectable:
  "prev_selectable_from items start = Some j \<Longrightarrow> items \<noteq> [] \<Longrightarrow> j < length items \<and> is_selectable (items ! j)"
  by (auto simp: prev_selectable_from_def find_Some_iff)

lemma moves_ok:
  assumes "sidebar_ok s"
  shows "sidebar_ok (next_selectable s)" "sidebar_ok (prev_selectable s)"
proof -
  have ne: "sb_items s \<noteq> []" and ex: "list_ex is_selectable (sb_items s)"
    using assms selectable_exists[of s] by (simp_all add: sidebar_ok_def)
  have step: "sidebar_ok (select_index (Some j) s)" if "j < length (sb_items s)" "is_selectable (sb_items s ! j)" for j
    using sidebar_ok_select[OF assms that] by (simp add: select_index_def)
  obtain j where "next_selectable_from (sb_items s) (if sb_selected_index s + 1 < length (sb_items s) then sb_selected_index s + 1 else 0)
      = Some j" "j < length (sb_items s)" "is_selectable (sb_items s ! j)"
    by (rule next_from_Some[OF ne ex])
  then show "sidebar_ok (next_selectable s)"
    unfolding next_selectable_def by (simp only: ne if_False step)
  show "sidebar_ok (prev_selectable s)"
  proof (cases "prev_selectable_from (sb_items s) (if 0 < sb_selected_index s then sb_selected_index s - 1 else length (sb_items s) - 1)")
    case None
    then show ?thesis
      unfolding prev_selectable_def by (simp only: ne if_False select_index_def option.case assms)
  next
    case (Some j)
    then show ?thesis
      unfolding prev_selectable_def using prev_from_selectable[OF Some ne] by (simp only: ne if_False step)
  qed
qed

lemma sidebar_ok_flags:
  assumes "sidebar_ok s" "off \<le> footer_start_index s"
  shows "sidebar_ok (s\<lparr>sb_tag_scroll_offset := off\<rparr>)" "sidebar_ok (s\<lparr>sb_tag_management_mode := b\<rparr>)"
    "sidebar_ok (s\<lparr>sb_tag_management_mode := b, sb_tag_management := m\<rparr>)"
proof -
  have "build_items (s\<lparr>sb_tag_scroll_offset := off\<rparr>) = build_items s" "build_items (s\<lparr>sb_tag_management_mode := b\<rparr>) = build_items s"
    "build_items (s\<lparr>sb_tag_management_mode := b, sb_tag_management := m\<rparr>) = build_items s"
    by (rule build_items_cong; simp)+
  then show "sidebar_ok (s\<lparr>sb_tag_scroll_offset := off\<rparr>)" "sidebar_ok (s\<lparr>sb_tag_management_mode := b\<rparr>)"
    "sidebar_ok (s\<lparr>sb_tag_management_mode := b, sb_tag_management := m\<rparr>)"
    using assms by (auto simp: sidebar_ok_def on_selectable_def)
qed

lemma max_offset_le: "max_tag_scroll_offset s n \<le> footer_start_index s"
  by (simp add: max_tag_scroll_offset_def tag_scroll_item_count_def)

lemma scroll_ok:
  assumes "sidebar_ok s"
  shows "sidebar_ok (scroll_tags_by d n s)" "sidebar_ok (ensure_selected_visible n s)"
proof -
  have le: "sb_tag_scroll_offset s \<le> footer_start_index s"
    using assms by (simp add: sidebar_ok_def)
  show "sidebar_ok (scroll_tags_by d n s)"
    unfolding scroll_tags_by_def
    by (rule sidebar_ok_flags(1)[OF assms]) (use le max_offset_le[of s n] in auto)
  show "sidebar_ok (ensure_selected_visible n s)"
    using sidebar_ok_flags(1)[OF assms] max_offset_le[of s] assms
    by (simp add: ensure_selected_visible_def Let_def min.coboundedI2)
qed

lemma is_tag_item_selectable: "is_tag_item x \<Longrightarrow> is_selectable x"
  by (cases x) (simp_all add: is_tag_item_def is_selectable_def)

lemma select_ok:
  assumes "sidebar_ok s"
  shows "sidebar_ok (select_category c s)" "sidebar_ok (select_tag_header s)" "sidebar_ok (snd (select_first_tag s))"
  unfolding select_category_def select_tag_header_def select_first_tag_def Let_def snd_conv
  by (rule sidebar_ok_position[OF assms]; auto simp: is_selectable_def dest: is_tag_item_selectable)+

lemma sidebar_step_ok: "sidebar_ok s \<Longrightarrow> sidebar_ok (sidebar_step C op s)"
proof (cases op)
  case ToggleTags
  then show ?thesis
    by (simp add: toggle_tags_def Let_def rebuild_ok select_ok)
next
  case EnterManagement
  assume ok: "sidebar_ok s"
  have "sidebar_ok (s\<lparr>sb_tag_management_mode := True\<rparr>)"
    using sidebar_ok_flags(2)[OF ok, of 0] by simp
  then show ?thesis
    using EnterManagement select_ok(3) by (simp add: enter_tag_management_def Let_def)
next
  case ExitManagement
  assume ok: "sidebar_ok s"
  show ?thesis
    using ExitManagement sidebar_ok_flags(3)[OF ok, of 0] by (simp add: exit_tag_management_def)
qed (simp_all add: moves_ok select_ok scroll_ok sort_tags_by_current_order_def rebuild_ok)

text \<open>
  C33: whatever is done in the sidebar and whatever tags are loaded, its items are those the tags and the
  folding call for, and the selection is on an item that can be selected.
\<close>

theorem sidebar_selection_valid: "sidebar_ok (fold (sidebar_step C) ops sidebar_default)"
  by (rule fold_invariant[where Q = "\<lambda>_. True"]) (simp_all add: sidebar_step_ok, simp add: sidebar_default_def rebuild_ok)

section \<open>The order of the tags\<close>

lemma mset_sort_tags: "mset (sort_tags C s) = mset (sb_tags s)"
  by (simp add: sort_tags_def Let_def split: tag_sort_order.split)

text \<open>
  Loading tags keeps the index of the selection and not the tag: the list on display becomes that of
  another tag.
\<close>

lemma reloaded_tags_move_selection:
  fixes C :: "('w, 'y) db_ops_scheme"
  assumes "to_lowercase C ''work'' = ''work''" "to_lowercase C ''home'' = ''home''"
  defines "s \<equiv> snd (select_first_tag (sidebar_step C (LoadTags [\<lparr> tg_id = 1, tg_name = ''work'' \<rparr>] []) sidebar_default))"
  shows "sidebar_filter s = Tag ''work''"
    "sidebar_filter (sidebar_step C (LoadTags [\<lparr> tg_id = 1, tg_name = ''work'' \<rparr>, \<lparr> tg_id = 2, tg_name = ''home'' \<rparr>] []) s)
       = Tag ''home''"
proof -
  show "sidebar_filter s = Tag ''work''"
    using assms(1,2) by (simp add: s_def select_first_tag_def sidebar_default_def sort_tags_by_current_order_def sort_tags_def
      tag_management_new_def rebuild_def build_items_def Let_def next_selectable_from_def is_selectable_def select_index_def
      upt_rec position_def is_tag_item_def sidebar_filter_def tag_count_def)
  show "sidebar_filter (sidebar_step C (LoadTags [\<lparr> tg_id = 1, tg_name = ''work'' \<rparr>, \<lparr> tg_id = 2, tg_name = ''home'' \<rparr>] []) s)
       = Tag ''home''"
    using assms(1,2) by (simp add: s_def select_first_tag_def sidebar_default_def sort_tags_by_current_order_def sort_tags_def
      tag_management_new_def rebuild_def build_items_def Let_def next_selectable_from_def is_selectable_def select_index_def
      upt_rec position_def is_tag_item_def sidebar_filter_def tag_count_def)
qed

section \<open>The item under a row\<close>

lemma index_in_range_mem: "index_in_range h is r y = Some i \<Longrightarrow> i \<in> set is"
  by (induction h "is" r y rule: index_in_range.induct) (auto split: if_splits)

lemma footer_le: "footer_start_index s \<le> length (sb_items s)"
  using position_Some[of "\<lambda>i. i = Generator" "sb_items s"]
  by (auto simp: footer_start_index_def split: option.split nat.split)

lemma sidebar_hit_exists:
  "sidebar_item_index_at s rect row = Some i \<Longrightarrow> i < length (sb_items s)"
proof -
  assume hit: "sidebar_item_index_at s rect row = Some i"
  have "\<exists>start end_index r. sidebar_item_index_in_range s start end_index r = Some i \<and> end_index \<le> length (sb_items s)"
    using hit footer_le[of s] le_trans[OF min.cobounded2 footer_le[of s]]
    unfolding sidebar_item_index_at_def Let_def tag_scroll_start_index_def by (metis option.distinct(1) order_refl)
  then show ?thesis
    using index_in_range_mem by (force simp: sidebar_item_index_in_range_def)
qed

end
