(* ===== verification/Sync_Service.thy ===== *)
theory Sync_Service
  imports Sync_Task "HOL-Library.Char_ord" "HOL-Library.List_Lexorder"
begin

text \<open>
  The service the rest of the program uses to sync (\<open>services/sync.rs\<close>): requests are commands on the
  channel of the sync task, replies are picked from its events. How far the task gets while a request
  waits, and whether the wait ends in the timeout or is cancelled, is decided outside and is an
  argument of the request.
\<close>

section \<open>The service and its task\<close>

record ('w, 'f) sync_service =
  sv_task :: "'f sync_task"
  sv_world :: 'w
  sv_commands :: "sync_command list"
  sv_seen :: nat

definition service_new :: "'f \<Rightarrow> 'f \<Rightarrow> string \<Rightarrow> 'w \<Rightarrow> ('w, 'f) sync_service" where
  "service_new two fifth provider w =
     \<lparr> sv_task = sync_task_new two fifth provider (sm_new 5), sv_world = w, sv_commands = [], sv_seen = 0 \<rparr>"

text \<open>A turn of the task's loop: it takes the next command, or its sleep ends.\<close>

datatype task_turn = TakeCommand | SleepOver

fun task_turn_step ::
  "('x) cloud_env_scheme \<Rightarrow> ('w, 'f, 'y) task_ops_scheme \<Rightarrow> task_turn \<Rightarrow> ('w, 'f) sync_service \<Rightarrow> ('w, 'f) sync_service" where
  "task_turn_step E C TakeCommand s = (case sv_commands s of
     [] \<Rightarrow> s
   | cmd # cmds \<Rightarrow> (case task_step E C (Received cmd) (sv_task s, sv_world s) of
        (t, w) \<Rightarrow> s\<lparr>sv_task := t, sv_world := w, sv_commands := cmds\<rparr>))"
| "task_turn_step E C SleepOver s = (case task_step E C SleepEnded (sv_task s, sv_world s) of
     (t, w) \<Rightarrow> s\<lparr>sv_task := t, sv_world := w\<rparr>)"

text \<open>What happens during a wait: the turns of the task, and whether the wait is cancelled.\<close>

record wait_env =
  we_turns :: "task_turn list"
  we_cancelled :: bool

type_synonym ('w, 'f, 'a) sync_io = "(('w, 'f) sync_service, sync_error, 'a) io"

definition provider_error :: "string \<Rightarrow> sync_error" where
  "provider_error message = ProviderError ''sync'' message"

definition send_command :: "sync_command \<Rightarrow> string \<Rightarrow> ('w, 'f, unit) sync_io" where
  "send_command cmd name s =
     (if st_running (sv_task s) then (Inr (), s\<lparr>sv_commands := sv_commands s @ [cmd]\<rparr>)
      else (Inl (provider_error (''failed to send '' @ name @ '' command'')), s))"

fun first_match :: "('a \<Rightarrow> bool) \<Rightarrow> 'a list \<Rightarrow> ('a \<times> nat) option" where
  "first_match P [] = None"
| "first_match P (x # xs) = (if P x then Some (x, 1) else map_option (\<lambda>(y, n). (y, n + 1)) (first_match P xs))"

text \<open>Events that do not match are dropped; without a match the wait ends closed, cancelled or timed out.\<close>

definition wait_for_event_or_cancel ::
  "('x) cloud_env_scheme \<Rightarrow> ('w, 'f, 'y) task_ops_scheme \<Rightarrow> wait_env \<Rightarrow> string \<Rightarrow> string \<Rightarrow> (sync_event \<Rightarrow> bool)
     \<Rightarrow> ('w, 'f, sync_event) sync_io" where
  "wait_for_event_or_cancel E C we timeout operation P s =
     (let s1 = fold (task_turn_step E C) (we_turns we) s in
      case first_match P (drop (sv_seen s1) (st_events (sv_task s1))) of
        Some (ev, n) \<Rightarrow> (Inr ev, s1\<lparr>sv_seen := sv_seen s1 + n\<rparr>)
      | None \<Rightarrow>
          (Inl (if \<not> st_running (sv_task s1) then provider_error ''event channel closed unexpectedly''
                else if we_cancelled we then Cancelled operation
                else NetworkTimeout (''wait_for_event timed out after '' @ timeout)),
           s1\<lparr>sv_seen := length (st_events (sv_task s1))\<rparr>))"

definition wait_for_event ::
  "('x) cloud_env_scheme \<Rightarrow> ('w, 'f, 'y) task_ops_scheme \<Rightarrow> wait_env \<Rightarrow> string \<Rightarrow> (sync_event \<Rightarrow> bool)
     \<Rightarrow> ('w, 'f, sync_event) sync_io" where
  "wait_for_event E C we timeout P = wait_for_event_or_cancel E C (we\<lparr>we_cancelled := False\<rparr>) timeout [] P"

definition SYNC_TIMEOUT :: string where "SYNC_TIMEOUT = ''60s''"
definition CONFLICT_TIMEOUT :: string where "CONFLICT_TIMEOUT = ''30s''"
definition PAUSE_TIMEOUT :: string where "PAUSE_TIMEOUT = ''30s''"
definition RESUME_TIMEOUT :: string where "RESUME_TIMEOUT = ''10s''"

section \<open>Requests\<close>

record sync_result =
  sx_report :: sync_report
  sx_downloaded_health_states :: "record_health_state list"
  sx_downloaded_health_deleted :: "uuid list"
  sx_downloaded_records :: "cloud_record list"
  sx_uploaded_ids :: "string list"
  sx_conflict_data :: "(string \<times> bytes) list"
  sx_remote_metadata :: "cloud_metadata option"

definition is_sync_reply :: "sync_event \<Rightarrow> bool" where
  "is_sync_reply ev = (case ev of EvCompleted _ _ _ _ _ _ _ \<Rightarrow> True | EvFailed _ _ \<Rightarrow> True | _ \<Rightarrow> False)"

definition sync_reply :: "sync_event \<Rightarrow> sync_error + sync_result" where
  "sync_reply ev = (case ev of
     EvCompleted rep health_states health_deleted records uploaded_ids conflict_data remote_metadata \<Rightarrow>
       Inr \<lparr> sx_report = rep, sx_downloaded_health_states = health_states, sx_downloaded_health_deleted = health_deleted,
             sx_downloaded_records = records, sx_uploaded_ids = uploaded_ids, sx_conflict_data = conflict_data,
             sx_remote_metadata = remote_metadata \<rparr>
   | EvFailed error _ \<Rightarrow> Inl (provider_error error)
   | _ \<Rightarrow> Inl (provider_error ''unreachable''))"

definition sync_with_cancel ::
  "('x) cloud_env_scheme \<Rightarrow> ('w, 'f, 'y) task_ops_scheme \<Rightarrow> bool \<Rightarrow> wait_env \<Rightarrow> sync_vault_data option
     \<Rightarrow> ('w, 'f, sync_result) sync_io" where
  "sync_with_cancel E C already_cancelled we vault_data =
     (if already_cancelled then io_lift (Inl (Cancelled ''sync''))
      else io_bind (send_command (CmdTriggerSync vault_data) ''TriggerSync'') (\<lambda>_.
           io_bind (wait_for_event_or_cancel E C we SYNC_TIMEOUT ''sync'' is_sync_reply) (\<lambda>ev.
           io_lift (sync_reply ev))))"

definition service_sync ::
  "('x) cloud_env_scheme \<Rightarrow> ('w, 'f, 'y) task_ops_scheme \<Rightarrow> wait_env \<Rightarrow> sync_vault_data option
     \<Rightarrow> ('w, 'f, sync_result) sync_io" where
  "service_sync E C we vault_data = sync_with_cancel E C False (we\<lparr>we_cancelled := False\<rparr>) vault_data"

definition service_resolve_conflict ::
  "('x) cloud_env_scheme \<Rightarrow> ('w, 'f, 'y) task_ops_scheme \<Rightarrow> wait_env \<Rightarrow> string \<Rightarrow> resolution_strategy
     \<Rightarrow> ('w, 'f, unit) sync_io" where
  "service_resolve_conflict E C we record_id strategy =
     io_bind (send_command (CmdResolveConflict record_id strategy) ''ResolveConflict'') (\<lambda>_.
     io_bind (wait_for_event E C we CONFLICT_TIMEOUT (\<lambda>ev. case ev of EvConflictResolved _ \<Rightarrow> True | _ \<Rightarrow> False)) (\<lambda>ev.
     io_lift (case ev of
       EvConflictResolved actual_id \<Rightarrow>
         if actual_id = record_id then Inr ()
         else Inl (provider_error (''record_id mismatch: expected '' @ record_id @ '', got '' @ actual_id))
     | _ \<Rightarrow> Inl (provider_error ''unreachable''))))"

definition service_resolve_all ::
  "('x) cloud_env_scheme \<Rightarrow> ('w, 'f, 'y) task_ops_scheme \<Rightarrow> wait_env \<Rightarrow> resolution_strategy \<Rightarrow> ('w, 'f, nat) sync_io" where
  "service_resolve_all E C we strategy =
     io_bind (send_command (CmdResolveAllConflicts strategy) ''ResolveAllConflicts'') (\<lambda>_.
     io_bind (wait_for_event E C we SYNC_TIMEOUT (\<lambda>ev. case ev of EvAllConflictsResolved _ \<Rightarrow> True | _ \<Rightarrow> False)) (\<lambda>ev.
     io_lift (case ev of EvAllConflictsResolved n \<Rightarrow> Inr n | _ \<Rightarrow> Inl (provider_error ''unreachable''))))"

definition service_download_metadata ::
  "('x) cloud_env_scheme \<Rightarrow> ('w, 'f, 'y) task_ops_scheme \<Rightarrow> wait_env \<Rightarrow> ('w, 'f, cloud_metadata option) sync_io" where
  "service_download_metadata E C we =
     io_bind (send_command CmdDownloadMetadata ''DownloadMetadata'') (\<lambda>_.
     io_bind (wait_for_event E C we SYNC_TIMEOUT
       (\<lambda>ev. case ev of EvMetadataDownloaded _ \<Rightarrow> True | EvFailed _ _ \<Rightarrow> True | _ \<Rightarrow> False)) (\<lambda>ev.
     io_lift (case ev of
       EvMetadataDownloaded meta \<Rightarrow> Inr meta
     | EvFailed error _ \<Rightarrow> Inl (provider_error error)
     | _ \<Rightarrow> Inl (provider_error ''unreachable''))))"

definition service_push_metadata_atomic ::
  "('x) cloud_env_scheme \<Rightarrow> ('w, 'f, 'y) task_ops_scheme \<Rightarrow> wait_env \<Rightarrow> cloud_metadata \<Rightarrow> u64 \<Rightarrow> ('w, 'f, unit) sync_io" where
  "service_push_metadata_atomic E C we metadata expected_version =
     io_bind (send_command (CmdPushMetadataAtomic metadata expected_version) ''PushMetadataAtomic'') (\<lambda>_.
     io_bind (wait_for_event E C we SYNC_TIMEOUT (\<lambda>ev. case ev of EvMetadataPushed \<Rightarrow> True | EvFailed _ _ \<Rightarrow> True | _ \<Rightarrow> False)) (\<lambda>ev.
     io_lift (case ev of
       EvMetadataPushed \<Rightarrow> Inr ()
     | EvFailed error _ \<Rightarrow> Inl (provider_error error)
     | _ \<Rightarrow> Inl (provider_error ''unreachable''))))"

text \<open>The connectivity check and the restore do not go through the task.\<close>

definition on_world :: "('w, sync_error, 'a) io \<Rightarrow> ('w, 'f, 'a) sync_io" where
  "on_world m s = (case m (sv_world s) of (r, w) \<Rightarrow> (r, s\<lparr>sv_world := w\<rparr>))"

definition test_connection :: "('w, 'f, 'y) task_ops_scheme \<Rightarrow> ('w, 'f, bool \<times> string) sync_io" where
  "test_connection C s = (case on_world (check_connectivity C (st_provider (sv_task s))) s of
     (Inr _, s') \<Rightarrow> (Inr (True, ''OK''), s')
   | (Inl e, s') \<Rightarrow> (Inr (False, sync_error_to_string e), s'))"

definition service_pause ::
  "('x) cloud_env_scheme \<Rightarrow> ('w, 'f, 'y) task_ops_scheme \<Rightarrow> wait_env \<Rightarrow> ('w, 'f, unit) sync_io" where
  "service_pause E C we =
     io_bind (send_command CmdPause ''Pause'') (\<lambda>_.
     io_bind (wait_for_event E C we PAUSE_TIMEOUT (\<lambda>ev. ev = EvPaused)) (\<lambda>_. io_return ()))"

definition service_resume ::
  "('x) cloud_env_scheme \<Rightarrow> ('w, 'f, 'y) task_ops_scheme \<Rightarrow> wait_env \<Rightarrow> ('w, 'f, unit) sync_io" where
  "service_resume E C we =
     io_bind (send_command CmdResume ''Resume'') (\<lambda>_.
     io_bind (wait_for_event E C we RESUME_TIMEOUT (\<lambda>ev. ev = EvResumed)) (\<lambda>_. io_return ()))"

definition service_shutdown ::
  "('x) cloud_env_scheme \<Rightarrow> ('w, 'f, 'y) task_ops_scheme \<Rightarrow> wait_env \<Rightarrow> ('w, 'f, unit) sync_io" where
  "service_shutdown E C we =
     io_bind (send_command CmdShutdown ''Shutdown'') (\<lambda>_.
     io_bind (wait_for_event E C we RESUME_TIMEOUT (\<lambda>ev. ev = EvShutdownComplete)) (\<lambda>_. io_return ()))"

section \<open>Restoring from the cloud\<close>

text \<open>The checks of \<open>restore_pull_only\<close> on a downloaded record, in their order.\<close>

definition restore_check_info ::
  "('x) cloud_env_scheme \<Rightarrow> string \<Rightarrow> cloud_record \<Rightarrow> record_version_info \<Rightarrow> sync_error + unit" where
  "restore_check_info E rid r info =
     (if cr_version r \<noteq> rv_version info then Inl (MetadataVersionConflict (rv_version info) (cr_version r))
      else try_res (record_checksum E r) (\<lambda>computed.
        if computed \<noteq> rv_checksum info then Inl (ChecksumMismatch (rv_checksum info) computed rid)
        else case rv_private_metadata_checksum info of
          None \<Rightarrow> Inr ()
        | Some expected \<Rightarrow> try_res (private_metadata_checksum E r) (\<lambda>c. case c of
            Some computed \<Rightarrow> if computed = expected then Inr () else Inl (ChecksumMismatch expected computed rid)
          | None \<Rightarrow> Inl (ChecksumMismatch expected ''missing private metadata'' rid))))"

definition restore_check ::
  "('x) cloud_env_scheme \<Rightarrow> cloud_metadata \<Rightarrow> string \<Rightarrow> cloud_record \<Rightarrow> sync_error + unit" where
  "restore_check E m rid r =
     (if cr_id r \<noteq> rid then Inl (AadInconsistent ''record_id'' rid (cr_id r))
      else try_res (cloud_record_validate E r) (\<lambda>_.
        case map_of (cm_records m) rid of None \<Rightarrow> Inr () | Some info \<Rightarrow> restore_check_info E rid r info))"

definition restore_health ::
  "('x) cloud_env_scheme \<Rightarrow> string \<Rightarrow> cloud_record \<Rightarrow> record_health_state list \<times> uuid list" where
  "restore_health E rid r = (case to_health_state E r of
     Some h \<Rightarrow> ([h], [])
   | None \<Rightarrow> ([], if has_encrypted_private_metadata r then [] else (case uuid_parse E rid of None \<Rightarrow> [] | Some i \<Rightarrow> [i])))"

fun restore_records ::
  "('x) cloud_env_scheme \<Rightarrow> cloud_metadata \<Rightarrow> (string \<times> (sync_error + cloud_record option)) list
     \<Rightarrow> sync_error + cloud_record list \<times> record_health_state list \<times> uuid list" where
  "restore_records E m [] = Inr ([], [], [])"
| "restore_records E m ((rid, res) # rest) =
     try_res res (\<lambda>found. case found of
       None \<Rightarrow> Inl (RecordNotFound rid)
     | Some r \<Rightarrow>
         try_res (restore_check E m rid r) (\<lambda>_.
         try_res (restore_records E m rest) (\<lambda>(rs, hs, ds).
           (case restore_health E rid r of (h, d) \<Rightarrow> Inr (r # rs, h @ hs, d @ ds)))))"

fun parse_ids :: "('x) env_scheme \<Rightarrow> string list \<Rightarrow> sync_error + string list" where
  "parse_ids E [] = Inr []"
| "parse_ids E (i # is) = (case uuid_parse E i of
     None \<Rightarrow> Inl (DeserializationFailed (''metadata record key must be a UUID: '' @ i))
   | Some _ \<Rightarrow> try_res (parse_ids E is) (\<lambda>js. Inr (i # js)))"

definition restore_pull_only ::
  "('x) cloud_env_scheme \<Rightarrow> ('w, 'f, 'y) task_ops_scheme \<Rightarrow> string \<Rightarrow> ('w, sync_error, sync_result) io" where
  "restore_pull_only E C provider =
     io_bind (check_connectivity C provider) (\<lambda>_.
     io_bind (download_metadata E C provider) (\<lambda>found.
     io_bind (io_lift (ok_or (RecordNotFound METADATA_FILENAME) found)) (\<lambda>metadata.
     io_bind (io_lift (metadata_validate E metadata)) (\<lambda>_.
     io_bind (io_lift (parse_ids E (map fst (cm_records metadata)))) (\<lambda>ids.
     io_bind (\<lambda>w. case batch_download_records E C provider (to_schedule C) (sort ids) w of (rs, w') \<Rightarrow> (Inr rs, w')) (\<lambda>results.
     io_lift (try_res (restore_records E metadata results) (\<lambda>(records, health_states, health_deleted).
       Inr \<lparr> sx_report = \<lparr> rp_uploaded = 0, rp_downloaded = of_nat (length records), rp_conflicts = 0, rp_failed = 0, rp_duration_ms = 0 \<rparr>,
             sx_downloaded_health_states = health_states, sx_downloaded_health_deleted = health_deleted,
             sx_downloaded_records = records, sx_uploaded_ids = [], sx_conflict_data = [],
             sx_remote_metadata = Some metadata \<rparr>))))))))"

end
