(* ===== verification/Sync_Service_Laws.thy ===== *)
theory Sync_Service_Laws
  imports Sync_Service
begin

text \<open>
  What the sync service promises: a request on a quiet service is answered by its own command, a
  restore hands over exactly the records the metadata lists, verified; and where it does not: the
  reply of a cancelled or timed-out request is taken for that of the next one.
\<close>

section \<open>The task only appends events\<close>

definition grows :: "'f sync_task \<Rightarrow> 'f sync_task \<Rightarrow> bool" where
  "grows t t' \<longleftrightarrow> st_running t' = st_running t \<and> prefix (st_events t) (st_events t')"

lemma grows_refl [simp]: "grows t t"
  by (simp add: grows_def)

lemma grows_trans: "grows t t' \<Longrightarrow> grows t' t'' \<Longrightarrow> grows t t''"
  by (auto simp: grows_def)

lemma grows_emit [simp]: "grows t (emit ev t)"
  by (simp add: grows_def)

lemma grows_same_core: "same_core t t' \<Longrightarrow> grows t t'"
  by (auto simp: same_core_def grows_def)

lemma grows_fields [simp]:
  "grows t (t'\<lparr>st_machine := m\<rparr>) = grows t t'" "grows t (t'\<lparr>st_next_retry := r\<rparr>) = grows t t'"
  "grows t (t'\<lparr>st_backoff := b\<rparr>) = grows t t'" "grows t (t'\<lparr>st_vault_data := d\<rparr>) = grows t t'"
  "grows (t\<lparr>st_vault_data := d\<rparr>) t' = grows t t'" "grows (t\<lparr>st_next_retry := r\<rparr>) t' = grows t t'"
  by (simp_all add: grows_def)

lemma grows_emit_fields [simp]: "grows t (emit ev (t\<lparr>st_machine := m\<rparr>))"
  by (simp add: grows_def)

lemma handle_error_grows: "grows t (fst (handle_error C e t w))"
  by (auto simp: handle_error_def grows_def Let_def split: prod.splits sum.splits)

lemma complete_cycle_grows: "grows t (complete_cycle out rep t)"
  by (simp add: complete_cycle_def grows_def Let_def)

lemma pipeline_result_grows: "grows t (fst (handle_pipeline_result C out start t w))"
  using handle_error_grows complete_cycle_grows
  by (auto simp: handle_pipeline_result_def Let_def split: prod.splits pipeline_result.splits)

lemma execute_pipeline_grows: "execute_pipeline E C t w = (out, t', w') \<Longrightarrow> grows t t'"
  by (auto simp: execute_pipeline_def grows_def Let_def split: prod.splits if_splits)

lemma run_cycle_grows: "grows t (fst (run_cycle E C t w))"
proof -
  have "grows t (fst (handle_pipeline_result C out start t1 w'))" if "execute_pipeline E C t w2 = (out, t1, w3)" for out start t1 w' w2 w3
    by (rule grows_trans[OF execute_pipeline_grows[OF that] pipeline_result_grows])
  then show ?thesis
    using handle_error_grows by (auto simp: run_cycle_def split: prod.splits sum.splits)
qed

lemma start_cycle_grows: "grows t (fst (start_cycle E C trigger t w))"
  using grows_trans[OF grows_emit_fields run_cycle_grows]
  by (auto simp: start_cycle_def Let_def split: prod.splits sum.splits)

lemma retry_grows: "grows t (fst (handle_retry_after_backoff E C t w))"
  using grows_trans[OF grows_emit_fields run_cycle_grows]
  by (auto simp: handle_retry_after_backoff_def Let_def split: prod.splits sum.splits)

lemma command_grows: "cmd \<noteq> CmdShutdown \<Longrightarrow> grows t (fst (handle_command E C cmd t w))"
  using start_cycle_grows[of "t\<lparr>st_vault_data := d\<rparr>" E C TriggerSync w for d] start_cycle_grows[of t E C PullOnly w]
  by (cases cmd) (simp_all add: handle_command_def handle_trigger_sync_def handle_pull_only_def grows_same_core other_handlers_same_core)

lemma step_events_grow: "prefix (st_events t) (st_events (fst (task_step E C inp (t, w))))"
proof (cases inp)
  case (Received cmd)
  then show ?thesis
    using command_grows[of cmd t E C w]
    by (cases "cmd = CmdShutdown") (auto simp: task_step_def grows_def handle_command_def handle_shutdown_def Let_def)
next
  case SleepEnded
  have "grows t (fst (handle_sleep E C t w))"
    using retry_grows[of "t\<lparr>st_next_retry := None\<rparr>" E C]
    by (auto simp: handle_sleep_def split: option.splits prod.splits)
  then show ?thesis
    using SleepEnded by (simp add: task_step_def grows_def)
qed (simp add: task_step_def)

section \<open>Requests on a quiet service\<close>

definition quiet_service :: "('w, 'f) sync_service \<Rightarrow> bool" where
  "quiet_service s \<longleftrightarrow> st_running (sv_task s) \<and> sv_commands s = [] \<and> sv_seen s = length (st_events (sv_task s))"

definition one_turn :: wait_env where
  "one_turn = \<lparr> we_turns = [TakeCommand], we_cancelled = False \<rparr>"

text \<open>One command on a quiet service: the reply is looked for among the events its handler sends.\<close>

definition answer :: "(sync_event \<Rightarrow> bool) \<Rightarrow> string \<Rightarrow> sync_event list \<Rightarrow> sync_error + sync_event" where
  "answer P timeout evs = (case first_match P evs of
     Some (ev, _) \<Rightarrow> Inr ev | None \<Rightarrow> Inl (NetworkTimeout (''wait_for_event timed out after '' @ timeout)))"

lemma request_on_quiet:
  assumes "quiet_service s" "cmd \<noteq> CmdShutdown" "handle_command E C cmd (sv_task s) (sv_world s) = (t, w)"
    and "st_events t = st_events (sv_task s) @ evs"
  shows "\<exists>s'. io_bind (send_command cmd name) (\<lambda>_. wait_for_event E C one_turn timeout P) s = (answer P timeout evs, s')
    \<and> sv_task s' = t \<and> sv_world s' = w \<and> sv_commands s' = []"
proof -
  have "st_running t"
    using command_grows[OF assms(2), of "sv_task s" E C "sv_world s"] assms(1,3) by (simp add: grows_def quiet_service_def)
  then show ?thesis
    using assms
    by (auto simp: send_command_def wait_for_event_def wait_for_event_or_cancel_def one_turn_def quiet_service_def
      task_step_def answer_def Let_def io_bind_def split: option.split)
qed

lemma io_bind_assoc: "io_bind (io_bind m f) g = io_bind m (\<lambda>a. io_bind (f a) g)"
  by (auto simp: fun_eq_iff io_bind_def split: prod.splits sum.splits)

text \<open>
  on a quiet service the metadata request goes through the channel, the task and back, and answers
  what the store holds; an error keeps its message.
\<close>

theorem metadata_request_answers:
  assumes "quiet_service s"
  shows "fst (service_download_metadata E C one_turn s)
    = map_err (\<lambda>e. provider_error (sync_error_to_string e)) (fst (download_metadata E C (st_provider (sv_task s)) (sv_world s)))"
proof (cases "download_metadata E C (st_provider (sv_task s)) (sv_world s)")
  case (Pair r w)
  define t where "t = emit (case r of Inr m \<Rightarrow> EvMetadataDownloaded m | Inl e \<Rightarrow> EvFailed (sync_error_to_string e) (st_state (sv_task s))) (sv_task s)"
  have "handle_command E C CmdDownloadMetadata (sv_task s) (sv_world s) = (t, w)"
    by (cases r) (simp_all add: handle_command_def handle_download_metadata_def Pair t_def)
  then obtain s' where "io_bind (send_command CmdDownloadMetadata ''DownloadMetadata'')
      (\<lambda>_. wait_for_event E C one_turn SYNC_TIMEOUT
         (\<lambda>ev. case ev of EvMetadataDownloaded _ \<Rightarrow> True | EvFailed _ _ \<Rightarrow> True | _ \<Rightarrow> False)) s
      = (answer (\<lambda>ev. case ev of EvMetadataDownloaded _ \<Rightarrow> True | EvFailed _ _ \<Rightarrow> True | _ \<Rightarrow> False) SYNC_TIMEOUT
           [case r of Inr m \<Rightarrow> EvMetadataDownloaded m | Inl e \<Rightarrow> EvFailed (sync_error_to_string e) (st_state (sv_task s))], s')"
    using request_on_quiet[OF assms, of CmdDownloadMetadata E C t w
      "[case r of Inr m \<Rightarrow> EvMetadataDownloaded m | Inl e \<Rightarrow> EvFailed (sync_error_to_string e) (st_state (sv_task s))]"]
    by (force simp: t_def)
  then show ?thesis
    unfolding service_download_metadata_def io_bind_assoc[symmetric]
    by (cases r) (simp_all add: Pair answer_def)
qed

lemma quiet_service_new [simp]: "quiet_service (service_new two fifth provider w)"
  by (simp add: quiet_service_def service_new_def sync_task_new_def)

lemma down_reads: "read_file (down_ops k) = read_file mem_ops"
  by (simp add: fun_eq_iff read_file_def down_ops_def mem_ops_def)

theorem metadata_request_answers_witness:
  "fst (service_download_metadata demo_cloud_env (down_ops OpOther) one_turn (service_new 2000 200 ''webdav'' demo_remote))
    = Inr (Some demo_meta)"
proof -
  obtain w' where "download_metadata demo_cloud_env mem_ops ''webdav'' demo_remote = (Inr (Some demo_meta), w')"
    using demo_download_metadata demo_files(1) by blast
  then have "fst (download_metadata demo_cloud_env (down_ops OpOther) ''webdav'' demo_remote) = Inr (Some demo_meta)"
    using down_reads by (simp add: download_metadata_def)
  then show ?thesis
    using metadata_request_answers[OF quiet_service_new, of demo_cloud_env "down_ops OpOther" 2000 200 "''webdav''" demo_remote]
    by (simp add: service_new_def sync_task_new_def)
qed

section \<open>Stale replies\<close>

lemma first_match_append: "first_match P xs = Some r \<Longrightarrow> first_match P (xs @ ys) = Some r"
  by (induction xs arbitrary: r) (auto split: if_splits)

lemma stale_reply:
  fixes E :: "('x) cloud_env_scheme" and C :: "('w, 'f, 'y) task_ops_scheme"
  assumes "quiet_service s"
    and "service_sync E C one_turn old_data s = (reply, s')" "\<And>m. reply \<noteq> Inl (NetworkTimeout m)"
  defines "cancelled \<equiv> sync_with_cancel E C False \<lparr> we_turns = [], we_cancelled = True \<rparr> old_data s"
  shows "fst cancelled = Inl (Cancelled ''sync'')"
    and "fst (service_sync E C \<lparr> we_turns = [TakeCommand, TakeCommand], we_cancelled = False \<rparr> new_data (snd cancelled)) = reply"
proof -
  have s: "st_running (sv_task s)" "sv_commands s = []" "sv_seen s = length (st_events (sv_task s))"
    using assms(1) by (simp_all add: quiet_service_def)
  have c: "cancelled = (Inl (Cancelled ''sync''), s\<lparr>sv_commands := [CmdTriggerSync old_data]\<rparr>)"
    using s by (simp add: cancelled_def sync_with_cancel_def send_command_def wait_for_event_or_cancel_def io_bind_def Let_def)
  then show "fst cancelled = Inl (Cancelled ''sync'')"
    by simp
  obtain t w where step: "handle_command E C (CmdTriggerSync old_data) (sv_task s) (sv_world s) = (t, w)"
    by fastforce
  have "grows (sv_task s) t"
    using command_grows[of "CmdTriggerSync old_data" "sv_task s" E C "sv_world s"] step by simp
  then obtain evs where t: "st_running t" "st_events t = st_events (sv_task s) @ evs"
    using s by (auto simp: grows_def prefix_def)
  obtain ev n where ev: "first_match is_sync_reply evs = Some (ev, n)" "reply = sync_reply ev"
    using assms(2,3) s t step
    by (auto simp: service_sync_def sync_with_cancel_def one_turn_def send_command_def wait_for_event_or_cancel_def io_bind_def
      Let_def task_step_def split: option.splits)
  obtain t2 w2 where step2: "handle_command E C (CmdTriggerSync new_data) t w = (t2, w2)"
    by fastforce
  have "grows t t2"
    using command_grows[of "CmdTriggerSync new_data" t E C w] step2 by simp
  then obtain evs2 where t2: "st_running t2" "st_events t2 = st_events (sv_task s) @ evs @ evs2"
    using t by (auto simp: grows_def prefix_def)
  show "fst (service_sync E C \<lparr> we_turns = [TakeCommand, TakeCommand], we_cancelled = False \<rparr> new_data (snd cancelled)) = reply"
    using c s step step2 t t2 first_match_append[OF ev(1), of evs2] ev(2)
    by (simp add: service_sync_def sync_with_cancel_def send_command_def wait_for_event_or_cancel_def io_bind_def Let_def task_step_def)
qed

lemma sync_on_quiet:
  assumes "quiet_service s" "handle_command E C (CmdTriggerSync d) (sv_task s) (sv_world s) = (t, w)" "st_running t"
    and "st_events t = st_events (sv_task s) @ evs" "first_match is_sync_reply evs = Some (ev, n)"
  shows "fst (service_sync E C one_turn d s) = sync_reply ev"
  using assms by (simp add: quiet_service_def service_sync_def sync_with_cancel_def one_turn_def send_command_def
    wait_for_event_or_cancel_def io_bind_def Let_def task_step_def)

lemma refused_command:
  "\<exists>t w e. handle_command demo_cloud_env (down_ops OpPermissionDenied) (CmdTriggerSync d) demo_task (mem_init 0) = (t, w)
    \<and> st_running t \<and> st_events t = [EvStateChanged Idle Pulling, EvStateChanged Pulling Error, EvFailed e Error]"
proof -
  have x: "backoff_should_retry b (PermissionDenied c) = False" for b :: "int backoff_timer" and c
    by (simp add: backoff_should_retry_def should_retry_def)
  show ?thesis
    by (simp add: handle_command_def handle_trigger_sync_def start_cycle_def sync_task_new_def run_cycle_def check_connectivity_def
      io_bind_def io_map_err_def map_err_def down_ops_def map_opendal_error_def handle_error_def error_trigger_def sm_defs x sm_new_def can_accept_commands_def Let_def)
qed

definition no_uploads :: sync_vault_data where
  "no_uploads = \<lparr> vd_local_records = [], vd_uploads = [], vd_local_metadata_version = 0, vd_last_remote_metadata = None,
     vd_local_vault_token = ''token'' \<rparr>"

text \<open>
  C20: a sync whose wait was cancelled goes on, and its reply stays in the channel: the next sync returns
  that reply, computed from the data of the cancelled one, as its own.
\<close>

theorem cancelled_sync_answers_next:
  assumes "quiet_service s"
    and "service_sync E C one_turn old_data s = (reply, s')" "\<And>m. reply \<noteq> Inl (NetworkTimeout m)"
    and "sync_with_cancel E C False \<lparr> we_turns = [], we_cancelled = True \<rparr> old_data s = (r, s1)"
  shows "r = Inl (Cancelled ''sync'')
    \<and> fst (service_sync E C \<lparr> we_turns = [TakeCommand, TakeCommand], we_cancelled = False \<rparr> new_data s1) = reply"
  using stale_reply(1)[OF assms(1-3)] stale_reply(2)[OF assms(1-3), of new_data] assms(4) by simp

theorem cancelled_sync_answers_next_witness:
  "\<exists>e. fst (service_sync demo_cloud_env (down_ops OpPermissionDenied) \<lparr> we_turns = [TakeCommand, TakeCommand], we_cancelled = False \<rparr> None
       (snd (sync_with_cancel demo_cloud_env (down_ops OpPermissionDenied) False \<lparr> we_turns = [], we_cancelled = True \<rparr> (Some no_uploads)
          (service_new 2000 200 ''webdav'' (mem_init 0))))) = Inl (provider_error e)"
proof -
  let ?s = "service_new 2000 200 ''webdav'' (mem_init 0) :: (mem_world, int) sync_service"
  obtain e s' where r: "service_sync demo_cloud_env (down_ops OpPermissionDenied) one_turn (Some no_uploads) ?s = (Inl (provider_error e), s')"
  proof -
    obtain t w e where t: "handle_command demo_cloud_env (down_ops OpPermissionDenied) (CmdTriggerSync (Some no_uploads)) demo_task (mem_init 0) = (t, w)"
        "st_running t" "st_events t = [EvStateChanged Idle Pulling, EvStateChanged Pulling Error, EvFailed e Error]"
      using refused_command by blast
    then have "fst (service_sync demo_cloud_env (down_ops OpPermissionDenied) one_turn (Some no_uploads) ?s) = sync_reply (EvFailed e Error)"
      by (intro sync_on_quiet[where evs = "st_events t" and n = 3]) (simp_all, simp_all add: service_new_def sync_task_new_def is_sync_reply_def)
    then show thesis
      using that by (cases "service_sync demo_cloud_env (down_ops OpPermissionDenied) one_turn (Some no_uploads) ?s") (simp add: sync_reply_def)
  qed
  show ?thesis
    using cancelled_sync_answers_next[OF quiet_service_new r _ prod.collapse[symmetric], of None] by (auto simp: provider_error_def)
qed

section \<open>A pause that comes too late\<close>

text \<open>A pause that times out is still carried out afterwards.\<close>

lemma late_pause:
  fixes E :: "('x) cloud_env_scheme" and C :: "('w, 'f, 'y) task_ops_scheme"
  assumes "quiet_service s" "\<not> to_channel_full C (sv_world s)"
  defines "late \<equiv> service_pause E C \<lparr> we_turns = [], we_cancelled = False \<rparr> s"
  shows "fst late = Inl (NetworkTimeout ''wait_for_event timed out after 30s'')"
    and "st_paused (sv_task (task_turn_step E C TakeCommand (snd late)))"
  using assms(1,2)
  by (simp_all add: late_def service_pause_def send_command_def wait_for_event_def wait_for_event_or_cancel_def io_bind_def
    quiet_service_def PAUSE_TIMEOUT_def task_step_def handle_command_def handle_pause_def Let_def)

section \<open>Restoring from the cloud\<close>

lemma restore_check_ok:
  assumes "restore_check E m rid r = Inr ()"
  shows "cr_id r = rid" "matches_metadata E (Some m) rid r"
    "\<And>info. map_of (cm_records m) rid = Some info \<Longrightarrow> cr_version r = rv_version info"
  using assms
  by (auto simp: restore_check_def restore_check_info_def matches_metadata_def cloud_record_validate_ok[symmetric] monad_simps
    split: if_splits option.splits)

definition restored_ok :: "('x) cloud_env_scheme \<Rightarrow> cloud_metadata \<Rightarrow> cloud_record \<Rightarrow> bool" where
  "restored_ok E m r \<longleftrightarrow> matches_metadata E (Some m) (cr_id r) r
     \<and> (\<forall>info. map_of (cm_records m) (cr_id r) = Some info \<longrightarrow> cr_version r = rv_version info)"

lemma restore_records_ok:
  "restore_records E m results = Inr (rs, hs, ds) \<Longrightarrow> map cr_id rs = map fst results \<and> list_all (restored_ok E m) rs"
proof (induction results arbitrary: rs hs ds)
  case (Cons x results)
  obtain rid res where x: "x = (rid, res)"
    by (cases x)
  obtain r rs' hs' ds' where "restore_check E m rid r = Inr ()" "restore_records E m results = Inr (rs', hs', ds')" "rs = r # rs'"
    using Cons.prems by (cases "restore_health E rid (the (projr res))") (force simp: x monad_simps split: option.splits)
  then show ?case
    using Cons.IH restore_check_ok[of E m rid r] by (simp add: x restored_ok_def)
qed simp

lemma order_results_keys: "map fst (order_results rids results) = rids"
proof (induction rids arbitrary: results)
  case (Cons rid rids)
  have "take_result rid results = Some (x, rest) \<Longrightarrow> fst x = rid" for x rest results
    by (induction results arbitrary: rest) (auto split: if_splits)
  then show ?case
    using Cons by (auto split: option.split)
qed simp

lemma parse_ids_same: "parse_ids E is = Inr js \<Longrightarrow> js = is"
  by (induction "is" arbitrary: js) (auto simp: monad_simps split: option.splits)

text \<open>
  C7: a restore that succeeds hands over exactly the records the metadata lists, in the order of their
  ids, and each is valid and has the version and the digests of its entry.
\<close>

theorem restore_is_verified:
  assumes "restore_pull_only E C provider w = (Inr res, w')"
  shows "\<exists>m. sx_remote_metadata res = Some m
    \<and> map cr_id (sx_downloaded_records res) = sort (map fst (cm_records m))
    \<and> list_all (restored_ok E m) (sx_downloaded_records res)"
proof -
  obtain m ids w1 where parse: "parse_ids E (map fst (cm_records m)) = Inr ids"
    and rest: "io_bind (\<lambda>w. case batch_download_records E C provider (to_schedule C) (sort ids) w of (rs, w') \<Rightarrow> (Inr rs, w'))
      (\<lambda>results. io_lift (try_res (restore_records E m results) (\<lambda>(records, health_states, health_deleted).
       Inr \<lparr> sx_report = \<lparr> rp_uploaded = 0, rp_downloaded = of_nat (length records), rp_conflicts = 0, rp_failed = 0, rp_duration_ms = 0 \<rparr>,
             sx_downloaded_health_states = health_states, sx_downloaded_health_deleted = health_deleted,
             sx_downloaded_records = records, sx_uploaded_ids = [], sx_conflict_data = [],
             sx_remote_metadata = Some m \<rparr>))) w1 = (Inr res, w')"
    using assms unfolding restore_pull_only_def by (auto simp: io_bind_eq_Inr)
  obtain results w2 where batch: "batch_download_records E C provider (to_schedule C) (sort (map fst (cm_records m))) w1 = (results, w2)"
    using parse_ids_same[OF parse] by fastforce
  obtain rs hs ds where rec: "restore_records E m results = Inr (rs, hs, ds)"
    and res: "sx_remote_metadata res = Some m" "sx_downloaded_records res = rs"
    using rest batch parse_ids_same[OF parse] by (auto simp: io_bind_def monad_simps)
  have "map fst results = sort (map fst (cm_records m))"
    using batch order_results_keys by (auto simp: batch_download_records_def split: prod.splits)
  then show ?thesis
    using restore_records_ok[OF rec] res by simp
qed

definition restore_ops :: "(mem_world, int) task_ops" where
  "restore_ops = (down_ops OpOther)\<lparr>op_list := mem_list\<rparr>"

definition demo_id :: string where
  "demo_id = uuid_show demo_cloud_env 7"

definition restore_meta :: cloud_metadata where
  "restore_meta = upsert_record demo_id \<lparr> rv_version = 3, rv_updated_at = ''t2'', rv_updated_by = ''dev'',
      rv_checksum = demo_checksum, rv_private_metadata_checksum = None, rv_deleted = False \<rparr>
      (metadata_new demo_cloud_env 5 ''tok'')"

definition restore_world :: mem_world where
  "restore_world = \<lparr> mw_files = [(METADATA_FILENAME, unary_enc restore_meta), (record_path demo_id, unary_enc demo_rec)],
     mw_clock = 0, mw_seed = 0 \<rparr>"

interpretation restored: quiet_cloud restore_ops "\<lambda>w. map_of (mw_files w)"
  by unfold_locales
     (auto simp: mem_defs restore_ops_def down_ops_def update_conv' delete_conv' split: option.splits intro!: exI)

lemma restore_meta_ok: "metadata_validate demo_cloud_env restore_meta = Inr ()"
  using metadata_new_ok[OF demo_cloud_env_laws, of 5 "''tok''"]
  by (simp add: metadata_validate_ok restore_meta_def upsert_record_ok printable_time_def)

lemma restore_meta_records:
  "cm_records restore_meta = [(demo_id, \<lparr> rv_version = 3, rv_updated_at = ''t2'', rv_updated_by = ''dev'',
      rv_checksum = demo_checksum, rv_private_metadata_checksum = None, rv_deleted = False \<rparr>)]"
  by (simp add: restore_meta_def upsert_record_def metadata_new_def Let_def)

lemma demo_rec_checked: "restore_check demo_cloud_env restore_meta demo_id demo_rec = Inr ()"
proof -
  have "cr_id demo_rec = demo_id" "cr_version demo_rec = 3"
    by (simp_all add: demo_rec_def demo_id_def build_cloud_record_def demo_stored_def)
  then show ?thesis
    using demo_rec_ok by (simp add: restore_check_def restore_check_info_def restore_meta_records)
qed

lemma demo_restore: "\<exists>res w. restore_pull_only demo_cloud_env restore_ops ''webdav'' restore_world = (Inr res, w)
   \<and> sx_downloaded_records res = [demo_rec]"
proof -
  obtain w1 where w1: "download_metadata demo_cloud_env restore_ops ''webdav'' restore_world = (Inr (Some restore_meta), w1)"
      "map_of (mw_files w1) = map_of (mw_files restore_world)"
    using restored.download_metadata_of[of restore_world "unary_enc restore_meta" demo_cloud_env restore_meta "''webdav''"] restore_meta_ok
    by (auto simp: demo_codec metadata_validate_ok restore_world_def)
  have "record_path demo_id \<noteq> METADATA_FILENAME"
    using metadata_not_record[of demo_id] by auto
  then have "file_result demo_cloud_env (map_of (mw_files w1)) demo_id = Inr (Some demo_rec)"
    by (auto simp: file_result_def w1(2) restore_world_def parse_record_def demo_codec)
  then obtain w2 where w2: "batch_download_records demo_cloud_env restore_ops ''webdav'' (to_schedule restore_ops) [demo_id] w1
      = ([(demo_id, Inr (Some demo_rec))], w2)"
    using batch_download_quiet[OF restored.quiet_cloud_axioms, of "to_schedule restore_ops" "[demo_id]" demo_cloud_env "''webdav''" w1]
    by (cases "batch_download_records demo_cloud_env restore_ops ''webdav'' (to_schedule restore_ops) [demo_id] w1")
      (simp add: restore_ops_def down_ops_def)
  have c: "check_connectivity restore_ops ''webdav'' restore_world = (Inr (), restore_world)"
    by (simp add: check_connectivity_def restore_ops_def mem_list_def io_bind_def io_map_err_def map_err_def)
  have "uuid_parse demo_cloud_env demo_id = Some 7"
    using demo_cloud_env_laws by (simp add: demo_id_def env_laws_def)
  then show ?thesis
    using c w1(1) w2 restore_meta_ok demo_rec_checked
    by (cases "restore_health demo_cloud_env demo_id demo_rec")
      (simp add: restore_pull_only_def io_bind_def restore_meta_records ok_or_def)
qed

theorem restore_is_verified_witness:
  "\<exists>res w. restore_pull_only demo_cloud_env restore_ops ''webdav'' restore_world = (Inr res, w)
     \<and> sx_downloaded_records res = [demo_rec] \<and> sx_remote_metadata res \<noteq> None"
  using demo_restore restore_is_verified[where E = demo_cloud_env and C = restore_ops and w = restore_world] by blast

end
