(* ===== verification/Password.thy ===== *)
theory Password
  imports Utf8 "HOL-Library.Multiset" "HOL-Library.Char_ord"
begin

text \<open>
  Generation of passwords and their strength: \<open>crypto/password.rs\<close>, \<open>crypto/strength.rs\<close>. The random
  number generator of the operating system and the shuffle of the \<open>rand\<close> crate are parameters; the
  laws name what the code relies on: a shuffle permutes.
\<close>

section \<open>Random characters\<close>

record 'w rng_ops =
  next_u32 :: "'w \<Rightarrow> u32 \<times> 'w"
  shuffle :: "bytes \<Rightarrow> 'w \<Rightarrow> bytes \<times> 'w"

definition rng_laws :: "('w, 'y) rng_ops_scheme \<Rightarrow> bool" where
  "rng_laws G \<longleftrightarrow> (\<forall>xs w. mset (fst (shuffle G xs w)) = mset xs)"

definition LOWERCASE :: bytes where "LOWERCASE = ''abcdefghijkmnpqrstuvwxyz''"
definition UPPERCASE :: bytes where "UPPERCASE = ''ABCDEFGHJKLMNPQRSTUVWXYZ''"
definition DIGITS :: bytes where "DIGITS = ''23456789''"
definition SPECIAL :: bytes where "SPECIAL = ''!#$*+-=?@^_~''"

type_synonym ('w, 'a) rng_io = "('w, string, 'a) io"

definition random_from_slice :: "('w, 'y) rng_ops_scheme \<Rightarrow> bytes \<Rightarrow> ('w, char) rng_io" where
  "random_from_slice G choices w = (case next_u32 G w of (r, w') \<Rightarrow> (Inr (choices ! (unat r mod length choices)), w'))"

text \<open>The loops that push \<open>n\<close> characters of one alphabet.\<close>

fun draw_chars :: "('w, 'y) rng_ops_scheme \<Rightarrow> nat \<Rightarrow> bytes \<Rightarrow> ('w, bytes) rng_io" where
  "draw_chars G 0 choices = io_return []"
| "draw_chars G (Suc n) choices =
     io_bind (random_from_slice G choices) (\<lambda>c. io_bind (draw_chars G n choices) (\<lambda>cs. io_return (c # cs)))"

definition all_chars :: bytes where
  "all_chars = LOWERCASE @ UPPERCASE @ DIGITS @ SPECIAL"

definition LENGTH_ERROR :: string where
  "LENGTH_ERROR = ''Password length must be between 4 and 128''"

definition generate_random_password :: "('w, 'y) rng_ops_scheme \<Rightarrow> nat \<Rightarrow> ('w, bytes) rng_io" where
  "generate_random_password G n =
     (if \<not> (4 \<le> n \<and> n \<le> 128) then io_lift (Inl LENGTH_ERROR) else draw_chars G n all_chars)"

definition shuffled :: "('w, 'y) rng_ops_scheme \<Rightarrow> bytes \<Rightarrow> ('w, bytes) rng_io" where
  "shuffled G xs w = (case shuffle G xs w of (ys, w') \<Rightarrow> (Inr ys, w'))"

definition generate_random_password_with_policy ::
  "('w, 'y) rng_ops_scheme \<Rightarrow> nat \<Rightarrow> 8 word \<Rightarrow> 8 word \<Rightarrow> 8 word \<Rightarrow> 8 word \<Rightarrow> ('w, bytes) rng_io" where
  "generate_random_password_with_policy G n min_digits min_special min_lowercase min_uppercase =
     (if \<not> (4 \<le> n \<and> n \<le> 128) then io_lift (Inl LENGTH_ERROR)
      else let required = unat min_digits + unat min_special + unat min_lowercase + unat min_uppercase in
      if n < required then io_lift (Inl ''Policy requirements exceed password length'')
      else
        io_bind (draw_chars G (unat min_lowercase) LOWERCASE) (\<lambda>ls.
        io_bind (draw_chars G (unat min_uppercase) UPPERCASE) (\<lambda>us.
        io_bind (draw_chars G (unat min_digits) DIGITS) (\<lambda>ds.
        io_bind (draw_chars G (unat min_special) SPECIAL) (\<lambda>ss.
        io_bind (draw_chars G (n - required) all_chars) (\<lambda>rest.
        io_bind (shuffled G (ls @ us @ ds @ ss @ rest)) (\<lambda>password. io_lift (from_utf8 password))))))))"

text \<open>The block repeated for each enabled type of characters.\<close>

definition draw_type :: "('w, 'y) rng_ops_scheme \<Rightarrow> bool \<Rightarrow> bytes \<Rightarrow> bytes \<times> bytes \<Rightarrow> ('w, bytes \<times> bytes) rng_io" where
  "draw_type G enabled choices acc =
     (if enabled then io_bind (random_from_slice G choices) (\<lambda>c. io_return (fst acc @ [c], snd acc @ choices))
      else io_return acc)"

definition generate_random_password_with_char_types ::
  "('w, 'y) rng_ops_scheme \<Rightarrow> nat \<Rightarrow> bool \<Rightarrow> bool \<Rightarrow> bool \<Rightarrow> bool \<Rightarrow> ('w, bytes) rng_io" where
  "generate_random_password_with_char_types G n uppercase lowercase digits symbols =
     (if \<not> (4 \<le> n \<and> n \<le> 128) then io_lift (Inl LENGTH_ERROR)
      else
        io_bind (draw_type G lowercase LOWERCASE ([], [])) (\<lambda>acc.
        io_bind (draw_type G uppercase UPPERCASE acc) (\<lambda>acc.
        io_bind (draw_type G digits DIGITS acc) (\<lambda>acc.
        io_bind (draw_type G symbols SPECIAL acc) (\<lambda>(required, charset).
        if charset = [] then io_lift (Inl ''At least one character type must be enabled'')
        else if n < length required then io_lift (Inl ''Policy requirements exceed password length'')
        else
          io_bind (draw_chars G (n - length required) charset) (\<lambda>rest.
          io_bind (shuffled G (required @ rest)) (\<lambda>password. io_lift (from_utf8 password))))))))"

definition WORDS :: "string list" where
  "WORDS = [''apple'', ''brave'', ''cloud'', ''dream'', ''eagle'', ''flame'', ''grape'', ''heart'', ''ivory'', ''jewel'',
     ''kite'', ''lemon'', ''maple'', ''noble'', ''ocean'', ''pearl'', ''quest'', ''river'', ''stone'', ''tiger'',
     ''ultra'', ''vivid'', ''whale'', ''xenon'', ''yacht'', ''zebra'', ''amber'', ''blaze'', ''coral'', ''delta'',
     ''ember'', ''frost'']"

text \<open>\<open>to_uppercase\<close> of the first letter; it is applied to the words above only, which are ASCII.\<close>

definition ascii_upper :: "char \<Rightarrow> char" where
  "ascii_upper c = (if CHR ''a'' \<le> c \<and> c \<le> CHR ''z'' then char_of (of_char c - 32 :: nat) else c)"

fun capitalize_word :: "string \<Rightarrow> string" where
  "capitalize_word [] = []"
| "capitalize_word (c # cs) = ascii_upper c # cs"

fun join :: "string \<Rightarrow> string list \<Rightarrow> string" where
  "join sep [] = []"
| "join sep [x] = x"
| "join sep (x # y # ys) = x @ sep @ join sep (y # ys)"

fun draw_words :: "('w, 'y) rng_ops_scheme \<Rightarrow> bool \<Rightarrow> nat \<Rightarrow> ('w, string list) rng_io" where
  "draw_words G capitalize 0 w = (Inr [], w)"
| "draw_words G capitalize (Suc n) w = (case next_u32 G w of (r, w1) \<Rightarrow>
     let word = WORDS ! (unat r mod length WORDS) in
     io_bind (draw_words G capitalize n) (\<lambda>ws. io_return ((if capitalize then capitalize_word word else word) # ws)) w1)"

definition generate_memorable_password_with_options ::
  "('w, 'y) rng_ops_scheme \<Rightarrow> nat \<Rightarrow> string \<Rightarrow> bool \<Rightarrow> ('w, string) rng_io" where
  "generate_memorable_password_with_options G word_count separator capitalize =
     (if \<not> (3 \<le> word_count \<and> word_count \<le> 12) then io_lift (Inl ''Word count must be between 3 and 12'')
      else io_bind (draw_words G capitalize word_count) (\<lambda>words. io_return (join separator words)))"

definition generate_memorable_password :: "('w, 'y) rng_ops_scheme \<Rightarrow> nat \<Rightarrow> ('w, string) rng_io" where
  "generate_memorable_password G word_count = generate_memorable_password_with_options G word_count ''-'' False"

definition generate_memorable_password_with_separator :: "('w, 'y) rng_ops_scheme \<Rightarrow> nat \<Rightarrow> string \<Rightarrow> ('w, string) rng_io" where
  "generate_memorable_password_with_separator G word_count separator =
     generate_memorable_password_with_options G word_count separator False"

definition generate_pin :: "('w, 'y) rng_ops_scheme \<Rightarrow> nat \<Rightarrow> ('w, string) rng_io" where
  "generate_pin G n =
     (if \<not> (4 \<le> n \<and> n \<le> 16) then io_lift (Inl ''PIN length must be between 4 and 16'') else draw_chars G n DIGITS)"

section \<open>Strength (crypto/strength.rs)\<close>

definition SPECIAL_CHARS :: string where
  "SPECIAL_CHARS = ''!#$*+-=?@^_~''"

datatype strength_level = VeryWeak | Weak | Fair | Strong | VeryStrong

definition color_hex :: "strength_level \<Rightarrow> string" where
  "color_hex l = (case l of
     VeryWeak \<Rightarrow> ''#f7768e'' | Weak \<Rightarrow> ''#ff9e64'' | Fair \<Rightarrow> ''#e0af68'' | Strong \<Rightarrow> ''#9ece6a'' | VeryStrong \<Rightarrow> ''#73daca'')"

record password_strength =
  ps_level :: strength_level
  ps_char_types :: "8 word"
  ps_bar_fill :: "8 word"

definition char_types :: "string \<Rightarrow> bool list" where
  "char_types password =
     [list_ex (\<lambda>c. CHR ''a'' \<le> c \<and> c \<le> CHR ''z'') password, list_ex (\<lambda>c. CHR ''A'' \<le> c \<and> c \<le> CHR ''Z'') password,
      list_ex (\<lambda>c. CHR ''0'' \<le> c \<and> c \<le> CHR ''9'') password, list_ex (\<lambda>c. c \<in> set SPECIAL_CHARS) password]"

definition level_of :: "nat \<Rightarrow> 8 word \<Rightarrow> strength_level \<times> 8 word" where
  "level_of len types =
     (if len < 8 \<or> types \<le> 1 then (VeryWeak, 3)
      else if len \<le> 11 \<and> types \<le> 2 then (Weak, 6)
      else if len \<le> 15 \<and> types = 3 then (Fair, 9)
      else if types = 4 \<and> 20 \<le> len then (VeryStrong, 16)
      else if types = 4 then (Strong, 12)
      else (Weak, 6))"

definition evaluate_strength :: "string \<Rightarrow> password_strength" where
  "evaluate_strength password =
     (let types = of_nat (length (filter id (char_types password)));
          (level, bar_fill) = level_of (length password) types
      in \<lparr> ps_level = level, ps_char_types = types, ps_bar_fill = bar_fill \<rparr>)"

end
