(* ===== verification/Password_Laws.thy ===== *)
theory Password_Laws
  imports Password
begin

text \<open>
  What the generator promises: the length, the alphabet and the enabled types of characters; what the
  rating says of its passwords, and where the rating falls as a password grows.
\<close>

section \<open>Drawing\<close>

lemma draw_ok:
  assumes "choices \<noteq> []"
  shows "\<exists>p w'. draw_chars G n choices w = (Inr p, w') \<and> length p = n \<and> set p \<subseteq> set choices"
proof (induction n arbitrary: w)
  case (Suc n)
  obtain r w1 where r: "next_u32 G w = (r, w1)"
    by fastforce
  obtain p w2 where p: "draw_chars G n choices w1 = (Inr p, w2)" "length p = n" "set p \<subseteq> set choices"
    using Suc by blast
  have "choices ! (unat r mod length choices) \<in> set choices"
    using assms by simp
  with p show ?case
    by (simp add: random_from_slice_def r io_bind_def)
qed simp

lemma draw_one:
  assumes "choices \<noteq> []"
  obtains c w' where "random_from_slice G choices w = (Inr c, w')" "c \<in> set choices"
  using assms by (cases "next_u32 G w") (auto simp: random_from_slice_def)

lemma draw_type_ok:
  assumes "choices \<noteq> []"
  obtains cs w' where "draw_type G enabled choices (req, charset) w = (Inr (req @ cs, charset @ (if enabled then choices else [])), w')"
    "length cs = (if enabled then 1 else 0)" "set cs \<subseteq> set choices"
proof -
  obtain c w' where "random_from_slice G choices w = (Inr c, w')" "c \<in> set choices"
    using draw_one[OF assms] .
  then show thesis
    using that[of "if enabled then [c] else []" "if enabled then w' else w"] by (cases enabled) (simp_all add: draw_type_def io_bind_def)
qed

lemmas alphabet_defs = LOWERCASE_def UPPERCASE_def DIGITS_def SPECIAL_def

lemma alphabets_ascii:
  "c \<in> set all_chars \<Longrightarrow> of_char c < (128 :: nat)"
  by (auto simp: all_chars_def alphabet_defs)

lemma from_utf8_alphabet:
  assumes "set p \<subseteq> set all_chars"
  shows "from_utf8 p = Inr p"
proof -
  have "list_all (\<lambda>c. byte_of c < 128) p"
    using assms alphabets_ascii by (auto simp: list_all_iff)
  then show ?thesis
    by (simp add: from_utf8_def utf8_check_ascii)
qed

lemma shuffled_ok:
  assumes "rng_laws G"
  obtains ys w' where "shuffled G xs w = (Inr ys, w')" "mset ys = mset xs"
proof (cases "shuffle G xs w")
  case (Pair ys w')
  moreover have "mset (fst (shuffle G xs w)) = mset xs"
    using assms by (simp add: rng_laws_def)
  ultimately show thesis
    using that by (simp add: shuffled_def)
qed

text \<open>The tail the generators share: fill up to the length, shuffle, check the encoding.\<close>

lemma fill_and_shuffle:
  assumes "rng_laws G" "cs \<noteq> []" "set cs \<subseteq> set all_chars" "set req \<subseteq> set cs" "length req \<le> n"
  obtains p w' where "io_bind (draw_chars G (n - length req) cs) (\<lambda>rest. io_bind (shuffled G (req @ rest)) (\<lambda>p. io_lift (from_utf8 p))) w
      = (Inr p, w')" "length p = n" "set p \<subseteq> set cs" "mset req \<subseteq># mset p"
proof -
  obtain rest w1 where rest: "draw_chars G (n - length req) cs w = (Inr rest, w1)" "length rest = n - length req" "set rest \<subseteq> set cs"
    using draw_ok[OF assms(2), of G "n - length req" w] by blast
  obtain p w2 where p: "shuffled G (req @ rest) w1 = (Inr p, w2)" "mset p = mset (req @ rest)"
    by (rule shuffled_ok[OF assms(1)])
  have sub: "set p \<subseteq> set cs"
    using mset_eq_setD[OF p(2)] rest(3) assms(4) by simp
  then have "from_utf8 p = Inr p"
    using assms(3) by (intro from_utf8_alphabet) simp
  then show thesis
    using that[of p w2] rest(1,2) p sub assms(5) mset_eq_length[OF p(2)] by (simp add: io_bind_def)
qed

section \<open>Passwords with chosen types of characters\<close>

definition enabled_chars :: "bool \<Rightarrow> bool \<Rightarrow> bool \<Rightarrow> bool \<Rightarrow> char set" where
  "enabled_chars uppercase lowercase digits symbols =
     (if lowercase then set LOWERCASE else {}) \<union> (if uppercase then set UPPERCASE else {})
     \<union> (if digits then set DIGITS else {}) \<union> (if symbols then set SPECIAL else {})"

lemma char_types_ok:
  assumes "rng_laws G" "4 \<le> n" "n \<le> 128" "uppercase \<or> lowercase \<or> digits \<or> symbols"
  shows "\<exists>p w'. generate_random_password_with_char_types G n uppercase lowercase digits symbols w = (Inr p, w')
    \<and> length p = n \<and> set p \<subseteq> enabled_chars uppercase lowercase digits symbols
    \<and> (lowercase \<longrightarrow> set p \<inter> set LOWERCASE \<noteq> {}) \<and> (uppercase \<longrightarrow> set p \<inter> set UPPERCASE \<noteq> {})
    \<and> (digits \<longrightarrow> set p \<inter> set DIGITS \<noteq> {}) \<and> (symbols \<longrightarrow> set p \<inter> set SPECIAL \<noteq> {})"
proof -
  have ne: "LOWERCASE \<noteq> []" "UPPERCASE \<noteq> []" "DIGITS \<noteq> []" "SPECIAL \<noteq> []"
    by (simp_all add: alphabet_defs)
  let ?c = "\<lambda>b xs. if b then xs else []"
  obtain l w1 where l: "draw_type G lowercase LOWERCASE ([], []) w = (Inr (l, ?c lowercase LOWERCASE), w1)"
    "length l = (if lowercase then 1 else 0)" "set l \<subseteq> set LOWERCASE"
    using draw_type_ok[OF ne(1), of G lowercase "[]" "[]" w] by auto
  obtain u w2 where u: "draw_type G uppercase UPPERCASE (l, ?c lowercase LOWERCASE) w1
      = (Inr (l @ u, ?c lowercase LOWERCASE @ ?c uppercase UPPERCASE), w2)"
    "length u = (if uppercase then 1 else 0)" "set u \<subseteq> set UPPERCASE"
    by (rule draw_type_ok[OF ne(2)])
  obtain d w3 where d: "draw_type G digits DIGITS (l @ u, ?c lowercase LOWERCASE @ ?c uppercase UPPERCASE) w2
      = (Inr ((l @ u) @ d, (?c lowercase LOWERCASE @ ?c uppercase UPPERCASE) @ ?c digits DIGITS), w3)"
    "length d = (if digits then 1 else 0)" "set d \<subseteq> set DIGITS"
    by (rule draw_type_ok[OF ne(3)])
  define cs where "cs = ((?c lowercase LOWERCASE @ ?c uppercase UPPERCASE) @ ?c digits DIGITS) @ ?c symbols SPECIAL"
  obtain s w4 where s: "draw_type G symbols SPECIAL ((l @ u) @ d, (?c lowercase LOWERCASE @ ?c uppercase UPPERCASE) @ ?c digits DIGITS) w3
      = (Inr (((l @ u) @ d) @ s, cs), w4)"
    "length s = (if symbols then 1 else 0)" "set s \<subseteq> set SPECIAL"
    unfolding cs_def by (rule draw_type_ok[OF ne(4)])
  have cs: "cs \<noteq> []" "set cs = enabled_chars uppercase lowercase digits symbols" "set cs \<subseteq> set all_chars"
    using assms(4) ne by (auto simp: cs_def enabled_chars_def all_chars_def)
  have req: "length (((l @ u) @ d) @ s) \<le> n"
  proof -
    have "length l \<le> 1" "length u \<le> 1" "length d \<le> 1" "length s \<le> 1"
      using l(2) u(2) d(2) s(2) by simp_all
    with assms(2) show ?thesis
      by simp
  qed
  have lcs: "set l \<subseteq> set cs" "set u \<subseteq> set cs" "set d \<subseteq> set cs" "set s \<subseteq> set cs"
    using l(2,3) u(2,3) d(2,3) s(2,3) by (auto simp: cs_def split: if_splits)
  obtain p w5 where p: "io_bind (draw_chars G (n - length (((l @ u) @ d) @ s)) cs)
      (\<lambda>rest. io_bind (shuffled G ((((l @ u) @ d) @ s) @ rest)) (\<lambda>p. io_lift (from_utf8 p))) w4 = (Inr p, w5)"
    "length p = n" "set p \<subseteq> set cs" "mset (((l @ u) @ d) @ s) \<subseteq># mset p"
    using fill_and_shuffle[OF assms(1) cs(1,3) _ req] lcs by (metis set_append Un_least)
  have "generate_random_password_with_char_types G n uppercase lowercase digits symbols w = (Inr p, w5)"
    using assms(2,3) l(1) u(1) d(1) s(1) cs(1) req p(1)
    by (simp add: generate_random_password_with_char_types_def io_bind_def)
  moreover have sub: "set l \<subseteq> set p" "set u \<subseteq> set p" "set d \<subseteq> set p" "set s \<subseteq> set p"
    using set_mset_mono[OF p(4)] by simp_all
  moreover have some: "b \<Longrightarrow> length xs = (if b then 1 else 0) \<Longrightarrow> set xs \<subseteq> A \<Longrightarrow> set xs \<subseteq> set p \<Longrightarrow> set p \<inter> A \<noteq> {}" for b xs A
    by (cases xs) auto
  ultimately show ?thesis
    using p(2,3) cs(2) some[OF _ l(2,3) sub(1)] some[OF _ u(2,3) sub(2)] some[OF _ d(2,3) sub(3)] some[OF _ s(2,3) sub(4)] by simp
qed

text \<open>
  for every length from 4 to 128 and every choice of at least one type of characters a password is
  generated: it has that length, only characters of the enabled types, and at least one of each.
\<close>

theorem char_types_password:
  assumes "rng_laws G" "4 \<le> n" "n \<le> 128" "uppercase \<or> lowercase \<or> digits \<or> symbols"
  shows "\<exists>p w'. generate_random_password_with_char_types G n uppercase lowercase digits symbols w = (Inr p, w')
    \<and> length p = n \<and> set p \<subseteq> enabled_chars uppercase lowercase digits symbols
    \<and> (lowercase \<longrightarrow> set p \<inter> set LOWERCASE \<noteq> {}) \<and> (uppercase \<longrightarrow> set p \<inter> set UPPERCASE \<noteq> {})
    \<and> (digits \<longrightarrow> set p \<inter> set DIGITS \<noteq> {}) \<and> (symbols \<longrightarrow> set p \<inter> set SPECIAL \<noteq> {})"
  using assms by (rule char_types_ok)

definition demo_rng :: "u32 rng_ops" where
  "demo_rng = \<lparr> next_u32 = (\<lambda>w. (w, w + 1)), shuffle = (\<lambda>xs w. (rev xs, w)) \<rparr>"

lemma demo_rng_laws: "rng_laws demo_rng"
  by (simp add: rng_laws_def demo_rng_def)

theorem char_types_password_witness:
  "\<exists>p w'. generate_random_password_with_char_types demo_rng 12 True False True False 5 = (Inr p, w')
     \<and> length p = 12 \<and> set p \<subseteq> set UPPERCASE \<union> set DIGITS \<and> set p \<inter> set DIGITS \<noteq> {}"
  using char_types_password[OF demo_rng_laws, of 12 True False True False 5]
  by (force simp: enabled_chars_def)

section \<open>Passwords under a policy\<close>

definition occurrences :: "bytes \<Rightarrow> bytes \<Rightarrow> nat" where
  "occurrences alphabet p = length (filter (\<lambda>c. c \<in> set alphabet) p)"

lemma occurrences_sub:
  assumes "set xs \<subseteq> set alphabet" "mset xs \<subseteq># mset p"
  shows "length xs \<le> occurrences alphabet p"
proof -
  have "filter (\<lambda>c. c \<in> set alphabet) xs = xs"
    using assms(1) by (auto simp: filter_id_conv)
  moreover have "size (filter_mset (\<lambda>c. c \<in> set alphabet) (mset xs)) \<le> size (filter_mset (\<lambda>c. c \<in> set alphabet) (mset p))"
    by (intro size_mset_mono multiset_filter_mono assms(2))
  ultimately show ?thesis
    by (simp add: occurrences_def flip: mset_filter)
qed

text \<open>
  when the minimum counts of a policy fit into the length, a password of that length is generated
  with at least the required number of characters of every type.
\<close>

theorem policy_password:
  assumes "rng_laws G" "4 \<le> n" "n \<le> 128"
    "unat min_digits + unat min_special + unat min_lowercase + unat min_uppercase \<le> n"
  shows "\<exists>p w'. generate_random_password_with_policy G n min_digits min_special min_lowercase min_uppercase w = (Inr p, w')
    \<and> length p = n \<and> unat min_digits \<le> occurrences DIGITS p \<and> unat min_special \<le> occurrences SPECIAL p
    \<and> unat min_lowercase \<le> occurrences LOWERCASE p \<and> unat min_uppercase \<le> occurrences UPPERCASE p"
proof -
  have ne: "LOWERCASE \<noteq> []" "UPPERCASE \<noteq> []" "DIGITS \<noteq> []" "SPECIAL \<noteq> []" "all_chars \<noteq> []"
    by (simp_all add: alphabet_defs all_chars_def)
  obtain l w1 where l: "draw_chars G (unat min_lowercase) LOWERCASE w = (Inr l, w1)" "length l = unat min_lowercase" "set l \<subseteq> set LOWERCASE"
    using draw_ok[OF ne(1), of G "unat min_lowercase" w] by blast
  obtain u w2 where u: "draw_chars G (unat min_uppercase) UPPERCASE w1 = (Inr u, w2)" "length u = unat min_uppercase" "set u \<subseteq> set UPPERCASE"
    using draw_ok[OF ne(2), of G "unat min_uppercase" w1] by blast
  obtain d w3 where d: "draw_chars G (unat min_digits) DIGITS w2 = (Inr d, w3)" "length d = unat min_digits" "set d \<subseteq> set DIGITS"
    using draw_ok[OF ne(3), of G "unat min_digits" w2] by blast
  obtain s w4 where s: "draw_chars G (unat min_special) SPECIAL w3 = (Inr s, w4)" "length s = unat min_special" "set s \<subseteq> set SPECIAL"
    using draw_ok[OF ne(4), of G "unat min_special" w3] by blast
  have len: "length (l @ u @ d @ s) = unat min_digits + unat min_special + unat min_lowercase + unat min_uppercase"
    using l(2) u(2) d(2) s(2) by simp
  have sub: "set (l @ u @ d @ s) \<subseteq> set all_chars"
    using l(3) u(3) d(3) s(3) by (auto simp: all_chars_def)
  obtain p w5 where p: "io_bind (draw_chars G (n - length (l @ u @ d @ s)) all_chars)
      (\<lambda>rest. io_bind (shuffled G ((l @ u @ d @ s) @ rest)) (\<lambda>p. io_lift (from_utf8 p))) w4 = (Inr p, w5)"
    "length p = n" "mset (l @ u @ d @ s) \<subseteq># mset p"
    using fill_and_shuffle[OF assms(1) ne(5) subset_refl sub] assms(4) len by metis
  have "generate_random_password_with_policy G n min_digits min_special min_lowercase min_uppercase w = (Inr p, w5)"
    using assms(2-4) l(1) u(1) d(1) s(1) p(1) len
    by (simp add: generate_random_password_with_policy_def io_bind_def Let_def)
  moreover have "mset l \<subseteq># mset p" "mset u \<subseteq># mset p" "mset d \<subseteq># mset p" "mset s \<subseteq># mset p"
    by (rule subset_mset.order_trans[OF _ p(3)], simp)+
  ultimately show ?thesis
    using p(2) occurrences_sub l(2,3) u(2,3) d(2,3) s(2,3) by metis
qed

theorem policy_password_witness:
  "\<exists>p w'. generate_random_password_with_policy demo_rng 8 2 1 1 1 5 = (Inr p, w') \<and> length p = 8 \<and> 2 \<le> occurrences DIGITS p"
  using policy_password[OF demo_rng_laws, of 8 2 1 1 1 5] by auto

section \<open>Strength\<close>

lemma in_alphabet:
  "c \<in> set LOWERCASE \<Longrightarrow> CHR ''a'' \<le> c \<and> c \<le> CHR ''z''" "c \<in> set UPPERCASE \<Longrightarrow> CHR ''A'' \<le> c \<and> c \<le> CHR ''Z''"
  "c \<in> set DIGITS \<Longrightarrow> CHR ''0'' \<le> c \<and> c \<le> CHR ''9''" "c \<in> set SPECIAL \<Longrightarrow> c \<in> set SPECIAL_CHARS"
  by (auto simp: alphabet_defs SPECIAL_CHARS_def less_eq_char_def)

lemma type_counts [simp]: "\<not> (4 :: 8 word) \<le> 1" "\<not> (3 :: 8 word) \<le> 1" "\<not> (3 :: 8 word) \<le> 2"
  by (simp_all add: word_le_nat_alt)

lemma all_types_level:
  assumes "char_types p = [True, True, True, True]"
  shows "ps_level (evaluate_strength p) = (if length p < 8 then VeryWeak else if length p < 20 then Strong else VeryStrong)"
  using assms by (simp add: evaluate_strength_def level_of_def Let_def)

text \<open>
  a generated password with all four types of characters is rated by its length alone: very strong
  from 20 characters on, strong from 8, and very weak below.
\<close>

theorem generated_password_strength:
  assumes "rng_laws G" "4 \<le> n" "n \<le> 128"
  shows "\<exists>p w'. generate_random_password_with_char_types G n True True True True w = (Inr p, w')
    \<and> ps_level (evaluate_strength p) = (if n < 8 then VeryWeak else if n < 20 then Strong else VeryStrong)"
proof -
  obtain p w' where p: "generate_random_password_with_char_types G n True True True True w = (Inr p, w')" "length p = n"
    "set p \<inter> set LOWERCASE \<noteq> {}" "set p \<inter> set UPPERCASE \<noteq> {}" "set p \<inter> set DIGITS \<noteq> {}" "set p \<inter> set SPECIAL \<noteq> {}"
    using char_types_ok[OF assms, of True True True True w] by auto
  then have "char_types p = [True, True, True, True]"
    using in_alphabet by (force simp: char_types_def list_ex_iff)
  with p show ?thesis
    using all_types_level by auto
qed

theorem generated_password_strength_witness:
  "\<exists>p w'. generate_random_password_with_char_types demo_rng 24 True True True True 0 = (Inr p, w')
     \<and> ps_level (evaluate_strength p) = VeryStrong"
  using generated_password_strength[OF demo_rng_laws, of 24 0] by simp

text \<open>
  with three types of characters the rating falls as the password grows: fair from 8 to 15
  characters, weak from 16 on.
\<close>

theorem longer_is_weaker:
  assumes "length (filter id (char_types p)) = 3"
  shows "ps_level (evaluate_strength p) = (if length p < 8 then VeryWeak else if length p \<le> 15 then Fair else Weak)"
  using assms by (simp add: evaluate_strength_def level_of_def Let_def)

theorem longer_is_weaker_witness:
  "ps_level (evaluate_strength ''Correct7Horse1B'') = Fair \<and> ps_level (evaluate_strength ''Correct7Horse1Battery9'') = Weak"
  using longer_is_weaker[of "''Correct7Horse1B''"] longer_is_weaker[of "''Correct7Horse1Battery9''"]
  by (simp add: char_types_def SPECIAL_CHARS_def less_eq_char_def)

section \<open>Words\<close>

lemma draw_words_ok:
  "\<exists>ws w'. draw_words G False n w = (Inr ws, w') \<and> length ws = n \<and> set ws \<subseteq> set WORDS"
proof (induction n arbitrary: w)
  case (Suc n)
  obtain r w1 where r: "next_u32 G w = (r, w1)"
    by fastforce
  obtain ws w2 where ws: "draw_words G False n w1 = (Inr ws, w2)" "length ws = n" "set ws \<subseteq> set WORDS"
    using Suc by blast
  have "WORDS ! (unat r mod length WORDS) \<in> set WORDS"
    by (intro nth_mem mod_less_divisor) (simp add: WORDS_def)
  with ws show ?case
    by (simp add: r io_bind_def)
qed simp

lemma memorable_password_ok:
  assumes "3 \<le> n" "n \<le> 12"
  obtains ws w' where "generate_memorable_password G n w = (Inr (join ''-'' ws), w')" "length ws = n" "set ws \<subseteq> set WORDS"
  using draw_words_ok[of G n w] assms that
  by (auto simp: generate_memorable_password_def generate_memorable_password_with_options_def io_bind_def)

lemma pin_ok:
  assumes "4 \<le> n" "n \<le> 16"
  obtains p w' where "generate_pin G n w = (Inr p, w')" "length p = n" "set p \<subseteq> set DIGITS"
  using draw_ok[of DIGITS G n w] assms that by (auto simp: generate_pin_def DIGITS_def)

end
