(* ===== verification/Health_Check.thy ===== *)
theory Health_Check
  imports Password Vault_List Rotation
begin

text \<open>
  Password health: the report of \<open>commands/types.rs\<close>, the detections and the breach lookup of
  \<open>services/health.rs\<close>, the stored health states (\<open>db/queries/health_state.rs\<close>,
  \<open>services/vault/health_state.rs\<close>) and the projections of \<open>executor/health.rs\<close> between the report and
  those states. SHA-1, the HTTP request and the order in which a hash map yields its groups are parameters.
\<close>

section \<open>The report (commands/types.rs)\<close>

record health_report =
  hr_weak_passwords :: "uuid list"
  hr_duplicate_passwords :: "uuid list list"
  hr_compromised :: "uuid list"
  hr_expired :: "uuid list"
  hr_total_checked :: nat

datatype health_issue = IsCompromised | IsWeak | IsDuplicate nat | IsExpired

definition issue_count :: "health_report \<Rightarrow> nat" where
  "issue_count rep = card (set (hr_weak_passwords rep) \<union> \<Union> (set (map set (hr_duplicate_passwords rep)))
     \<union> set (hr_compromised rep) \<union> set (hr_expired rep))"

definition has_issues :: "health_report \<Rightarrow> bool" where
  "has_issues rep \<longleftrightarrow> 0 < issue_count rep"

definition get_issue_for :: "health_report \<Rightarrow> uuid \<Rightarrow> health_issue option" where
  "get_issue_for rep rid =
     (if rid \<in> set (hr_compromised rep) then Some IsCompromised
      else if rid \<in> set (hr_weak_passwords rep) then Some IsWeak
      else case find (\<lambda>grp. rid \<in> set grp) (hr_duplicate_passwords rep) of
        Some grp \<Rightarrow> Some (IsDuplicate (length grp))
      | None \<Rightarrow> if rid \<in> set (hr_expired rep) then Some IsExpired else None)"

definition health_report_empty :: health_report where
  "health_report_empty = \<lparr> hr_weak_passwords = [], hr_duplicate_passwords = [], hr_compromised = [], hr_expired = [], hr_total_checked = 0 \<rparr>"

section \<open>Detections (services/health.rs)\<close>

record password_entry =
  pe_id :: uuid
  pe_password :: string

definition detect_weak_passwords :: "password_entry list \<Rightarrow> uuid list" where
  "detect_weak_passwords entries = map pe_id (filter (\<lambda>entry.
     ps_level (evaluate_strength (pe_password entry)) = VeryWeak \<or> ps_level (evaluate_strength (pe_password entry)) = Weak) entries)"

text \<open>
  The hash map from digests to ids, as an association list in the order of first insertion;
  \<open>into_values\<close> yields the groups in the order \<open>perm\<close> of the map's iteration.
\<close>

definition hash_groups :: "('x) env_scheme \<Rightarrow> password_entry list \<Rightarrow> (bytes \<times> uuid list) list" where
  "hash_groups E entries = fold (\<lambda>entry groups. let h = sha256 E (pe_password entry) in
     AList.update h ((case map_of groups h of None \<Rightarrow> [] | Some ids \<Rightarrow> ids) @ [pe_id entry]) groups) entries []"

definition detect_duplicate_passwords ::
  "('x) env_scheme \<Rightarrow> (uuid list list \<Rightarrow> uuid list list) \<Rightarrow> password_entry list \<Rightarrow> uuid list list" where
  "detect_duplicate_passwords E perm entries = filter (\<lambda>grp. 2 \<le> length grp) (perm (map snd (hash_groups E entries)))"

definition detect_expired_records :: "timestamp \<Rightarrow> stored_record list \<Rightarrow> uuid list" where
  "detect_expired_records now records =
     map sr_id (filter (\<lambda>r. \<not> sr_deleted r \<and> (case sr_expires_at r of Some e \<Rightarrow> e < now | None \<Rightarrow> False)) records)"

datatype health_check_frequency = OnStartup | Daily | Weekly

record security_config =
  sc_health_check_enabled :: bool
  sc_health_check_frequency :: health_check_frequency

definition should_run :: "timestamp \<Rightarrow> security_config \<Rightarrow> timestamp option \<Rightarrow> bool" where
  "should_run now config last_check =
     (if \<not> sc_health_check_enabled config then False
      else case last_check of
        None \<Rightarrow> True
      | Some last_at \<Rightarrow> (case sc_health_check_frequency config of
          OnStartup \<Rightarrow> True
        | Daily \<Rightarrow> 24 * 3600 < num_seconds (now - last_at)
        | Weekly \<Rightarrow> 7 * 24 * 3600 < num_seconds (now - last_at)))"

section \<open>The breach lookup\<close>

datatype health_error =
    HealthVaultNotUnlocked
  | HealthDecryptionFailed string
  | HibpApiError string
  | HibpRateLimited
  | HealthDisabled
  | HealthInternal string

definition health_error_to_string :: "health_error \<Rightarrow> string" where
  "health_error_to_string e = (case e of
     HealthVaultNotUnlocked \<Rightarrow> ''vault not unlocked''
   | HealthDecryptionFailed m \<Rightarrow> ''record decryption failed: '' @ m
   | HibpApiError m \<Rightarrow> ''HIBP API error: '' @ m
   | HibpRateLimited \<Rightarrow> ''HIBP rate limited''
   | HealthDisabled \<Rightarrow> ''health check disabled''
   | HealthInternal m \<Rightarrow> ''internal error: '' @ m)"

definition health_error_code :: "health_error \<Rightarrow> error_code" where
  "health_error_code e = (case e of
     HealthVaultNotUnlocked \<Rightarrow> ExecutorVaultLocked
   | HealthDecryptionFailed _ \<Rightarrow> CryptoDecryptionFailed
   | HibpApiError _ \<Rightarrow> HealthHibpApiError
   | HealthInternal _ \<Rightarrow> HealthHibpApiError
   | HibpRateLimited \<Rightarrow> HealthHibpRateLimited
   | HealthDisabled \<Rightarrow> HealthCheckFailed)"

text \<open>The digest in upper-case hex, and a request with its body.\<close>

record 'w hibp_ops =
  sha1_hex_upper :: "string \<Rightarrow> string"
  http_get :: "string \<Rightarrow> ('w, string, bytes) io"

text \<open>\<open>str::lines\<close>: lines end at a newline, with a carriage return before it dropped.\<close>

fun split_on :: "char \<Rightarrow> string \<Rightarrow> string list" where
  "split_on sep [] = [[]]"
| "split_on sep (c # cs) = (if c = sep then [] # split_on sep cs
     else case split_on sep cs of l # ls \<Rightarrow> (c # l) # ls | [] \<Rightarrow> [[c]])"

definition strip_cr :: "string \<Rightarrow> string" where
  "strip_cr l = (if l \<noteq> [] \<and> last l = char_of (13::nat) then butlast l else l)"

definition str_lines :: "string \<Rightarrow> string list" where
  "str_lines s = (let ls = split_on (char_of (10::nat)) s in
     map strip_cr (if last ls = [] then butlast ls else ls))"

definition eq_ignore_ascii_case :: "string \<Rightarrow> string \<Rightarrow> bool" where
  "eq_ignore_ascii_case a b \<longleftrightarrow> map ascii_lower a = map ascii_lower b"

definition suffix_listed :: "string \<Rightarrow> string \<Rightarrow> bool" where
  "suffix_listed suffix_hex body = list_ex (\<lambda>l. eq_ignore_ascii_case (hd (split_on (CHR '':'') l)) suffix_hex) (str_lines body)"

definition check_hibp_single_password :: "('w, 'y) hibp_ops_scheme \<Rightarrow> string \<Rightarrow> ('w, health_error, bool) io" where
  "check_hibp_single_password H password =
     (let hash_hex = sha1_hex_upper H password in
      io_bind (io_map_err HibpApiError (http_get H (''https://api.pwnedpasswords.com/range/'' @ take 5 hash_hex))) (\<lambda>body.
      io_bind (io_lift (map_err HibpApiError (from_utf8 body))) (\<lambda>body_str.
      io_return (suffix_listed (drop 5 hash_hex) body_str))))"

fun check_hibp_batch :: "('w, 'y) hibp_ops_scheme \<Rightarrow> password_entry list \<Rightarrow> 'w \<Rightarrow> uuid list \<times> 'w" where
  "check_hibp_batch H [] w = ([], w)"
| "check_hibp_batch H (entry # entries) w = (case check_hibp_single_password H (pe_password entry) w of
     (r, w1) \<Rightarrow> (case check_hibp_batch H entries w1 of
       (ids, w2) \<Rightarrow> (if r = Inr True then pe_id entry # ids else ids, w2)))"

section \<open>Which lookups are skipped, and the projections (executor/health.rs)\<close>

definition should_skip_hibp :: "record_health_state option \<Rightarrow> u64 \<Rightarrow> bool" where
  "should_skip_hibp health_state record_version = (case health_state of
     Some state \<Rightarrow> hs_record_version state = record_version \<and> hs_compromised state = Some True
   | None \<Rightarrow> False)"

definition partition_entries_for_hibp ::
  "password_entry list \<Rightarrow> (uuid \<Rightarrow> u64 option) \<Rightarrow> (uuid \<Rightarrow> record_health_state option) \<Rightarrow> uuid list \<times> password_entry list" where
  "partition_entries_for_hibp entries record_versions health_states =
     (let skips = (\<lambda>entry. should_skip_hibp (health_states (pe_id entry))
        (case record_versions (pe_id entry) of Some v \<Rightarrow> v | None \<Rightarrow> 0))
      in (map pe_id (filter skips entries), filter (\<lambda>entry. \<not> skips entry) entries))"

definition dup_size_map :: "health_report \<Rightarrow> uuid \<Rightarrow> nat option" where
  "dup_size_map rep = fold (\<lambda>grp m. fold (\<lambda>rid m. m(rid \<mapsto> length grp)) grp m) (hr_duplicate_passwords rep) Map.empty"

definition health_state_of :: "health_report \<Rightarrow> timestamp \<Rightarrow> stored_record \<Rightarrow> record_health_state" where
  "health_state_of rep evaluated_at rec =
     \<lparr> hs_record_id = sr_id rec, hs_record_version = sr_version rec, hs_evaluated_at = Some evaluated_at,
       hs_weak_password = Some (sr_id rec \<in> set (hr_weak_passwords rep)),
       hs_duplicate_group_size = map_option of_nat (dup_size_map rep (sr_id rec)),
       hs_compromised = Some (sr_id rec \<in> set (hr_compromised rep)),
       hs_expired = Some (sr_id rec \<in> set (hr_expired rep)) \<rparr>"

definition project_health_report_to_states ::
  "stored_record list \<Rightarrow> health_report \<Rightarrow> timestamp \<Rightarrow> record_health_state list" where
  "project_health_report_to_states records rep evaluated_at = map (health_state_of rep evaluated_at) records"

definition health_state_changed :: "record_health_state \<Rightarrow> record_health_state \<Rightarrow> bool" where
  "health_state_changed before after \<longleftrightarrow>
     hs_weak_password before \<noteq> hs_weak_password after
     \<or> hs_duplicate_group_size before \<noteq> hs_duplicate_group_size after
     \<or> hs_compromised before \<noteq> hs_compromised after
     \<or> hs_expired before \<noteq> hs_expired after"

record health_state_delta =
  hd_record_id :: uuid
  hd_before :: "record_health_state option"
  hd_after :: "record_health_state option"

definition health_deltas :: "(uuid \<Rightarrow> record_health_state option) \<Rightarrow> record_health_state list \<Rightarrow> health_state_delta list" where
  "health_deltas old_map new_states = List.map_filter (\<lambda>after.
     let before = old_map (hs_record_id after);
         changed = (case before of Some b \<Rightarrow> health_state_changed b after | None \<Rightarrow> True)
     in if changed then Some \<lparr> hd_record_id = hs_record_id after, hd_before = before, hd_after = Some after \<rparr> else None) new_states"

definition report_of_states :: "record_health_state list \<Rightarrow> health_report option" where
  "report_of_states states =
     (if states = [] then None
      else
        let flagged = (\<lambda>P. map hs_record_id (filter P states));
            duplicate_ids = flagged (\<lambda>s. case hs_duplicate_group_size s of Some sz \<Rightarrow> 2 \<le> sz | None \<Rightarrow> False)
        in Some \<lparr> hr_weak_passwords = flagged (\<lambda>s. hs_weak_password s = Some True),
             hr_duplicate_passwords = (if duplicate_ids = [] then [] else [duplicate_ids]),
             hr_compromised = flagged (\<lambda>s. hs_compromised s = Some True),
             hr_expired = flagged (\<lambda>s. hs_expired s = Some True),
             hr_total_checked = length states \<rparr>)"

section \<open>Stored health states (db/queries/health_state.rs, services/vault/health_state.rs)\<close>

definition to_health_state_row ::
  "('w, 'y) db_ops_scheme \<Rightarrow> uuid \<times> health_row \<Rightarrow> data_error + record_health_state" where
  "to_health_state_row C r = (case r of (rid, row) \<Rightarrow>
     try_res (opt_timestamp C (hw_evaluated_at row)) (\<lambda>evaluated_at.
       Inr \<lparr> hs_record_id = rid, hs_record_version = word_of_int (hw_record_version row), hs_evaluated_at = evaluated_at,
             hs_weak_password = map_option (\<lambda>v. v \<noteq> 0) (hw_weak_password row),
             hs_duplicate_group_size = map_option word_of_int (hw_duplicate_group_size row),
             hs_compromised = map_option (\<lambda>v. v \<noteq> 0) (hw_compromised row),
             hs_expired = map_option (\<lambda>v. v \<noteq> 0) (hw_expired row) \<rparr>))"

definition list_record_health_states :: "('w, 'y) db_ops_scheme \<Rightarrow> ('w, record_health_state list) query" where
  "list_record_health_states C v =
     (map_err DataErr (map_res (to_health_state_row C) (sort_key fst (tb_health (v_db v)))), v)"

definition get_record_health_state :: "('w, 'y) db_ops_scheme \<Rightarrow> uuid \<Rightarrow> ('w, record_health_state option) query" where
  "get_record_health_state C rid v = (case map_of (tb_health (v_db v)) rid of
     None \<Rightarrow> (Inr None, v)
   | Some row \<Rightarrow> (map_err DataErr (try_res (to_health_state_row C (rid, row)) (\<lambda>s. Inr (Some s))), v))"

text \<open>A plain insert: a second row for the same record breaks the primary key.\<close>

definition insert_record_health_state :: "record_health_state \<Rightarrow> ('w, unit) query" where
  "insert_record_health_state h v =
     (if hs_record_id h \<in> fst ` set (tb_health (v_db v)) then (Inl (Sqlite (UniqueFailed ''record_health_state.record_id'')), v)
      else upsert_record_health_state h v)"

definition replace_record_health_states :: "record_health_state list \<Rightarrow> ('w, unit) query" where
  "replace_record_health_states states =
     in_tx (io_bind (exec (change (\<lambda>d. d\<lparr>tb_health := []\<rparr>))) (\<lambda>_. for_each insert_record_health_state states))"

definition delete_record_health_states :: "uuid list \<Rightarrow> ('w, nat) query" where
  "delete_record_health_states record_ids =
     (if record_ids = [] then io_return 0
      else exec (\<lambda>d. (Inr (length (filter (\<lambda>h. fst h \<in> set record_ids) (tb_health d))),
        d\<lparr>tb_health := filter (\<lambda>h. fst h \<notin> set record_ids) (tb_health d)\<rparr>)))"

end
