(* ===== verification/Executor.thy ===== *)
theory Executor
  imports Health_Check Vault_Commands
begin

text \<open>
  The command executor (\<open>executor/mod.rs\<close>, \<open>executor/runtime.rs\<close>) and its handlers of record
  commands (\<open>executor/record.rs\<close>): the vault is behind a runtime that may be locked or pending, every
  handler turns the outcome of a vault method into a command result, and changes of records queue a
  health scan. The channel of internal commands is a list with the capacity of the channel.
\<close>

section \<open>The runtime (executor/runtime.rs)\<close>

datatype vault_runtime = RtLocked | RtPending | RtOpen vault_service vault_db

datatype runtime_vault_error = RuntimeLocked | RuntimePending

definition open_vault :: "vault_runtime \<Rightarrow> runtime_vault_error + vault_service \<times> vault_db" where
  "open_vault rt = (case rt of
     RtOpen S d \<Rightarrow> Inr (S, d) | RtLocked \<Rightarrow> Inl RuntimeLocked | RtPending \<Rightarrow> Inl RuntimePending)"

definition runtime_is_open :: "vault_runtime \<Rightarrow> bool" where
  "runtime_is_open rt = (case rt of RtOpen _ _ \<Rightarrow> True | _ \<Rightarrow> False)"

definition runtime_error :: "runtime_vault_error \<Rightarrow> vault_error" where
  "runtime_error e = NotUnlocked"

section \<open>Results (commands/result.rs) and the executor\<close>

record password_history_view =
  pv_id :: int
  pv_password :: string
  pv_changed_at :: timestamp

datatype recovery_source = Okb | Cloud

text \<open>The results of the handlers modelled here.\<close>

datatype command_result =
    Void
  | RecordCreated uuid
  | RecordUpdated uuid
  | RecordDeleted uuid
  | RecordRestored uuid
  | RecordDestroyed uuid
  | FavoriteToggled uuid bool
  | RecordListLoaded "tui_record list" nat category_counts
  | RecordDetailLoaded decrypted_record "password_strength option" "health_issue option"
  | RecordForEditLoaded decrypted_record
  | FieldDecrypted uuid field_selector string
  | PasswordHistoryLoaded "password_history_view list"
  | TagsLoaded "tag list" "int \<Rightarrow> tag_sort_meta option"
  | TagRenamed string string
  | TagDeleted string
  | BatchTagAdded nat
  | BatchTagRemoved nat
  | BatchDeleted nat
  | BatchRestored nat
  | BatchDestroyed nat
  | TrashEmptied nat
  | PasswordGenerated string password_strength
  | HealthCheckStarted
  | HealthCheckDone health_report
  | HealthCheckSkipped
  | HibpCheckCompleted uuid bool
  | SyncCompleted int int int int
  | ConflictResolved uuid
  | AllConflictsResolved nat
  | VaultUnlocked
  | VaultUnlockFailed "nat option"
  | VaultLocked
  | VaultInitialized
  | MasterPasswordVerified
  | MasterPasswordChanged
  | RecoveryKeyUnlocked
  | RecoveryWordsValidated
  | KeyFileRebuilt
  | DatabaseRestored recovery_source
  | DatabaseValidationFailed string
  | CopiedToClipboard field_selector u64
  | HistoryPasswordCopied u64
  | RotationCompleted u32 u32 u32
  | RotationTriggerChecked bool "string option"
  | CommandError error_code error_context string string
  | CommandCancelled string "string option"

definition cancelled_result :: "string \<Rightarrow> command_result" where
  "cancelled_result operation = CommandCancelled operation None"

datatype internal_command = HealthCheckCompleted health_report | ScheduleHealthCheck bool

text \<open>
  \<open>'w\<close> is what the vault's clock, random numbers and the breach lookup act on, \<open>'s\<close> the sync service.
\<close>

record ('w, 's) executor =
  ex_runtime :: vault_runtime
  ex_file_backed :: bool
  ex_vault_dir :: string
  ex_verified_password :: "string option"
  ex_world :: 'w
  ex_sync :: "'s option"
  ex_security :: security_config
  ex_health_report :: "health_report option"
  ex_last_health_check :: "timestamp option"
  ex_internal :: "internal_command list"
  ex_cancelled :: bool

definition INTERNAL_CAPACITY :: nat where "INTERNAL_CAPACITY = 64"

text \<open>\<open>vault_mut().and_then(...)\<close>: a method of the open vault, or the error of a vault that is not open.\<close>

definition with_vault ::
  "(vault_service \<Rightarrow> ('w, 'a) vault_io) \<Rightarrow> ('w, 's) executor \<Rightarrow> (vault_error + 'a) \<times> ('w, 's) executor" where
  "with_vault m x = (case open_vault (ex_runtime x) of
     Inl e \<Rightarrow> (Inl (runtime_error e), x)
   | Inr (S, d) \<Rightarrow> (case m S \<lparr> v_db = d, v_ext = ex_world x \<rparr> of
       (r, v) \<Rightarrow> (r, x\<lparr>ex_runtime := RtOpen S (v_db v), ex_world := v_ext v\<rparr>)))"

definition ex_is_unlocked :: "('w, 's) executor \<Rightarrow> bool" where
  "ex_is_unlocked x = (case ex_runtime x of RtOpen S _ \<Rightarrow> is_unlocked (vs_crypto S) | _ \<Rightarrow> False)"

definition should_run_auto_timer :: "('w, 's) executor \<Rightarrow> bool" where
  "should_run_auto_timer x \<longleftrightarrow> ex_file_backed x \<and> ex_is_unlocked x"

section \<open>Record handlers (executor/record.rs)\<close>

definition vault_error_result :: "('x) error_env_scheme \<Rightarrow> string \<Rightarrow> vault_error \<Rightarrow> command_result" where
  "vault_error_result E msg e =
     CommandError (vault_error_code E e) (vault_error_context E e) ''error.record_operation'' (msg @ '': '' @ vault_error_fallback E e)"

text \<open>A full channel drops the request.\<close>

definition schedule_health_scan :: "('w, 's) executor \<Rightarrow> ('w, 's) executor" where
  "schedule_health_scan x =
     (if length (ex_internal x) < INTERNAL_CAPACITY then x\<lparr>ex_internal := ex_internal x @ [ScheduleHealthCheck True]\<rparr> else x)"

text \<open>The shape the handlers share: a vault method, the answer to its value, the message of its error.\<close>

definition run_vault ::
  "('x) error_env_scheme \<Rightarrow> string \<Rightarrow> (vault_service \<Rightarrow> ('w, 'a) vault_io) \<Rightarrow> ('a \<Rightarrow> ('w, 's) executor \<Rightarrow> command_result \<times> ('w, 's) executor)
     \<Rightarrow> ('w, 's) executor \<Rightarrow> command_result \<times> ('w, 's) executor" where
  "run_vault E msg m ok x = (case with_vault m x of
     (Inr a, x') \<Rightarrow> ok a x' | (Inl e, x') \<Rightarrow> (vault_error_result E msg e, x'))"

definition attempt_lazy_migration ::
  "('x) rotation_env_scheme \<Rightarrow> ('w, 'y) vault_ops_scheme \<Rightarrow> uuid \<Rightarrow> vault_service \<Rightarrow> ('w, unit) vault_io" where
  "attempt_lazy_migration E C rid S v = (case get_stored_record C rid v of
     (Inl _, v1) \<Rightarrow> (Inr (), v1)
   | (Inr stored, v1) \<Rightarrow>
       if sr_dek_version stored < cg_current_dek_version (vs_crypto S)
       then (Inr (), snd (lazy_migrate_record E C S rid (sr_dek_version stored) v1)) else (Inr (), v1))"

definition handle_create_record ::
  "('x) rotation_env_scheme \<Rightarrow> ('w, 'y) vault_ops_scheme \<Rightarrow> create_record_params \<Rightarrow> ('w, 's) executor \<Rightarrow> command_result \<times> ('w, 's) executor" where
  "handle_create_record E C params = run_vault E ''Failed to create record'' (\<lambda>S. create_record E C S params)
     (\<lambda>rid x. (RecordCreated rid, schedule_health_scan x))"

definition handle_update_record ::
  "('x) rotation_env_scheme \<Rightarrow> ('w, 'y) vault_ops_scheme \<Rightarrow> update_record_params \<Rightarrow> ('w, 's) executor \<Rightarrow> command_result \<times> ('w, 's) executor" where
  "handle_update_record E C params = run_vault E ''Failed to update record'' (\<lambda>S. update_record_service E C S params)
     (\<lambda>_ x. (RecordUpdated (up_id params), schedule_health_scan x))"

definition handle_soft_delete_record ::
  "('x) rotation_env_scheme \<Rightarrow> ('w, 'y) vault_ops_scheme \<Rightarrow> uuid \<Rightarrow> ('w, 's) executor \<Rightarrow> command_result \<times> ('w, 's) executor" where
  "handle_soft_delete_record E C rid = run_vault E ''Failed to delete record'' (\<lambda>S. soft_delete_record E C S rid)
     (\<lambda>_ x. (RecordDeleted rid, schedule_health_scan x))"

definition handle_restore_record ::
  "('x) rotation_env_scheme \<Rightarrow> ('w, 'y) vault_ops_scheme \<Rightarrow> uuid \<Rightarrow> ('w, 's) executor \<Rightarrow> command_result \<times> ('w, 's) executor" where
  "handle_restore_record E C rid = run_vault E ''Failed to restore record'' (\<lambda>S. restore_record E C S rid)
     (\<lambda>_ x. (RecordRestored rid, schedule_health_scan x))"

definition handle_hard_delete_record ::
  "('x) rotation_env_scheme \<Rightarrow> ('w, 'y) vault_ops_scheme \<Rightarrow> uuid \<Rightarrow> ('w, 's) executor \<Rightarrow> command_result \<times> ('w, 's) executor" where
  "handle_hard_delete_record E C rid = run_vault E ''Failed to destroy record'' (\<lambda>S. hard_delete_record E C S rid)
     (\<lambda>_ x. (RecordDestroyed rid, schedule_health_scan x))"

definition handle_toggle_favorite ::
  "('x) rotation_env_scheme \<Rightarrow> ('w, 'y) vault_ops_scheme \<Rightarrow> uuid \<Rightarrow> bool \<Rightarrow> ('w, 's) executor \<Rightarrow> command_result \<times> ('w, 's) executor" where
  "handle_toggle_favorite E C rid is_favorite = run_vault E ''Failed to toggle favorite'' (\<lambda>S. toggle_favorite C S rid is_favorite)
     (\<lambda>_ x. (FavoriteToggled rid is_favorite, x))"

definition populate_health_fields :: "health_report option \<Rightarrow> tui_record list \<Rightarrow> tui_record list" where
  "populate_health_fields rep records = (case rep of
     None \<Rightarrow> records
   | Some rep \<Rightarrow> map (\<lambda>r. r\<lparr> tr_has_weak_password := tr_id r \<in> set (hr_weak_passwords rep),
         tr_is_compromised := tr_id r \<in> set (hr_compromised rep),
         tr_duplicate_group_size := map_option length (find (\<lambda>grp. tr_id r \<in> set grp) (hr_duplicate_passwords rep)),
         tr_is_expired := tr_id r \<in> set (hr_expired rep) \<rparr>) records)"

definition handle_load_record_list_page ::
  "('x) rotation_env_scheme \<Rightarrow> ('w, 'y) vault_ops_scheme \<Rightarrow> record_filter \<Rightarrow> record_sort \<Rightarrow> nat \<Rightarrow> nat
     \<Rightarrow> ('w, 's) executor \<Rightarrow> command_result \<times> ('w, 's) executor" where
  "handle_load_record_list_page E C flt s limit offset x0 =
     run_vault E ''Failed to load record list'' (\<lambda>S. list_records_page E C S flt s limit offset) (\<lambda>(records, total).
       run_vault E ''Failed to load record list'' (\<lambda>_. record_category_counts) (\<lambda>counts x.
         (RecordListLoaded (populate_health_fields (ex_health_report x0) records) total counts, x))) x0"

definition DEFAULT_RECORD_LIST_PAGE_SIZE :: nat where "DEFAULT_RECORD_LIST_PAGE_SIZE = 500"

definition handle_load_record_list ::
  "('x) rotation_env_scheme \<Rightarrow> ('w, 'y) vault_ops_scheme \<Rightarrow> record_filter \<Rightarrow> record_sort
     \<Rightarrow> ('w, 's) executor \<Rightarrow> command_result \<times> ('w, 's) executor" where
  "handle_load_record_list E C flt s = handle_load_record_list_page E C flt s DEFAULT_RECORD_LIST_PAGE_SIZE 0"

definition lazily_migrated ::
  "('x) rotation_env_scheme \<Rightarrow> ('w, 'y) vault_ops_scheme \<Rightarrow> uuid \<Rightarrow> ('w, 's) executor \<Rightarrow> ('w, 's) executor" where
  "lazily_migrated E C rid x = snd (with_vault (attempt_lazy_migration E C rid) x)"

definition compute_password_strength :: "decrypted_record \<Rightarrow> password_strength option" where
  "compute_password_strength d = (case d of
     LoginRecord _ _ _ password _ _ \<Rightarrow> Some (evaluate_strength password)
   | ApiRecord _ _ _ secret_key _ _ \<Rightarrow> Some (evaluate_strength secret_key)
   | _ \<Rightarrow> None)"

definition handle_load_record_detail ::
  "('x) rotation_env_scheme \<Rightarrow> ('w, 'y) vault_ops_scheme \<Rightarrow> uuid \<Rightarrow> ('w, 's) executor \<Rightarrow> command_result \<times> ('w, 's) executor" where
  "handle_load_record_detail E C rid x = run_vault E ''Failed to load record detail'' (\<lambda>S. get_decrypted_record E C S rid)
     (\<lambda>rec x. (RecordDetailLoaded rec (compute_password_strength rec)
        (Option.bind (ex_health_report x) (\<lambda>rep. get_issue_for rep (at_id (dr_attrs rec)))), x)) (lazily_migrated E C rid x)"

definition handle_load_record_for_edit ::
  "('x) rotation_env_scheme \<Rightarrow> ('w, 'y) vault_ops_scheme \<Rightarrow> uuid \<Rightarrow> ('w, 's) executor \<Rightarrow> command_result \<times> ('w, 's) executor" where
  "handle_load_record_for_edit E C rid x = run_vault E ''Failed to load record for edit'' (\<lambda>S. get_decrypted_record E C S rid)
     (\<lambda>rec x. (RecordForEditLoaded rec, x)) (lazily_migrated E C rid x)"

definition handle_decrypt_field ::
  "('x) rotation_env_scheme \<Rightarrow> ('w, 'y) vault_ops_scheme \<Rightarrow> uuid \<Rightarrow> field_selector \<Rightarrow> ('w, 's) executor \<Rightarrow> command_result \<times> ('w, 's) executor" where
  "handle_decrypt_field E C rid field = run_vault E ''Failed to decrypt field'' (\<lambda>S. decrypt_field E C S rid field)
     (\<lambda>v x. (FieldDecrypted rid field v, x))"

text \<open>An entry that does not decrypt is shown as three asterisks.\<close>

fun history_views ::
  "('x) rotation_env_scheme \<Rightarrow> ('w, 'y) vault_ops_scheme \<Rightarrow> history_row list \<Rightarrow> ('w, 's) executor \<Rightarrow> password_history_view list \<times> ('w, 's) executor" where
  "history_views E C [] x = ([], x)"
| "history_views E C (entry # entries) x = (case with_vault (\<lambda>S. decrypt_history_password E C S (hr_id entry)) x of
     (r, x1) \<Rightarrow> (case history_views E C entries x1 of
       (views, x2) \<Rightarrow> (\<lparr> pv_id = hr_id entry, pv_password = (case r of Inr p \<Rightarrow> p | Inl _ \<Rightarrow> ''***''),
          pv_changed_at = hr_changed_at entry * 1000000000 \<rparr> # views, x2)))"

definition handle_load_password_history ::
  "('x) rotation_env_scheme \<Rightarrow> ('w, 'y) vault_ops_scheme \<Rightarrow> uuid \<Rightarrow> ('w, 's) executor \<Rightarrow> command_result \<times> ('w, 's) executor" where
  "handle_load_password_history E C rid = run_vault E ''Failed to load password history'' (\<lambda>S. password_history C S rid)
     (\<lambda>entries x. case history_views E C entries x of (views, x') \<Rightarrow> (PasswordHistoryLoaded views, x'))"

definition handle_load_tags ::
  "('x) rotation_env_scheme \<Rightarrow> ('w, 'y) vault_ops_scheme \<Rightarrow> ('w, 's) executor \<Rightarrow> command_result \<times> ('w, 's) executor" where
  "handle_load_tags E C = run_vault E ''Failed to load tags'' (\<lambda>_. list_tags_with_stats)
     (\<lambda>tags x. (TagsLoaded (map fst tags) (map_of (map (\<lambda>(t, meta). (tg_id t, meta)) tags)), x))"

definition handle_rename_tag ::
  "('x) rotation_env_scheme \<Rightarrow> ('w, 'y) vault_ops_scheme \<Rightarrow> string \<Rightarrow> string \<Rightarrow> ('w, 's) executor \<Rightarrow> command_result \<times> ('w, 's) executor" where
  "handle_rename_tag E C old new = run_vault E ''Failed to rename tag'' (\<lambda>_. rename_tag C old new) (\<lambda>_ x. (TagRenamed old new, x))"

definition handle_delete_tag ::
  "('x) rotation_env_scheme \<Rightarrow> ('w, 'y) vault_ops_scheme \<Rightarrow> string \<Rightarrow> ('w, 's) executor \<Rightarrow> command_result \<times> ('w, 's) executor" where
  "handle_delete_tag E C name = run_vault E ''Failed to delete tag'' (\<lambda>_. delete_tag C name) (\<lambda>_ x. (TagDeleted name, x))"

definition handle_batch_add_tag ::
  "('x) rotation_env_scheme \<Rightarrow> ('w, 'y) vault_ops_scheme \<Rightarrow> uuid list \<Rightarrow> string \<Rightarrow> ('w, 's) executor \<Rightarrow> command_result \<times> ('w, 's) executor" where
  "handle_batch_add_tag E C ids name = run_vault E ''Failed to add tag to records'' (\<lambda>_. batch_add_tag C ids name) (\<lambda>n x. (BatchTagAdded n, x))"

definition handle_batch_remove_tag ::
  "('x) rotation_env_scheme \<Rightarrow> ('w, 'y) vault_ops_scheme \<Rightarrow> uuid list \<Rightarrow> string \<Rightarrow> ('w, 's) executor \<Rightarrow> command_result \<times> ('w, 's) executor" where
  "handle_batch_remove_tag E C ids name = run_vault E ''Failed to remove tag from records'' (\<lambda>_. batch_remove_tag C ids name) (\<lambda>n x. (BatchTagRemoved n, x))"

definition handle_batch_soft_delete ::
  "('x) rotation_env_scheme \<Rightarrow> ('w, 'y) vault_ops_scheme \<Rightarrow> uuid list \<Rightarrow> ('w, 's) executor \<Rightarrow> command_result \<times> ('w, 's) executor" where
  "handle_batch_soft_delete E C ids = run_vault E ''Failed to batch delete records'' (\<lambda>S. batch_soft_delete E C S ids) (\<lambda>n x. (BatchDeleted n, x))"

definition handle_batch_restore ::
  "('x) rotation_env_scheme \<Rightarrow> ('w, 'y) vault_ops_scheme \<Rightarrow> uuid list \<Rightarrow> ('w, 's) executor \<Rightarrow> command_result \<times> ('w, 's) executor" where
  "handle_batch_restore E C ids = run_vault E ''Failed to batch restore records'' (\<lambda>S. batch_restore E C S ids)
     (\<lambda>n x. (BatchRestored n, schedule_health_scan x))"

definition handle_batch_hard_delete ::
  "('x) rotation_env_scheme \<Rightarrow> ('w, 'y) vault_ops_scheme \<Rightarrow> uuid list \<Rightarrow> ('w, 's) executor \<Rightarrow> command_result \<times> ('w, 's) executor" where
  "handle_batch_hard_delete E C ids = run_vault E ''Failed to batch destroy records'' (\<lambda>S. batch_hard_delete E C S ids)
     (\<lambda>n x. (BatchDestroyed n, schedule_health_scan x))"

definition handle_empty_trash ::
  "('x) rotation_env_scheme \<Rightarrow> ('w, 'y) vault_ops_scheme \<Rightarrow> ('w, 's) executor \<Rightarrow> command_result \<times> ('w, 's) executor" where
  "handle_empty_trash E C = run_vault E ''Failed to empty trash'' (empty_trash C) (\<lambda>n x. (TrashEmptied n, x))"

text \<open>The generators draw from the operating system.\<close>

definition on_ext_world :: "('w, 'e, 'a) io \<Rightarrow> ('w, 's) executor \<Rightarrow> ('e + 'a) \<times> ('w, 's) executor" where
  "on_ext_world m x = (case m (ex_world x) of (r, w) \<Rightarrow> (r, x\<lparr>ex_world := w\<rparr>))"

definition password_result :: "string \<Rightarrow> ('w, string) rng_io \<Rightarrow> ('w, 's) executor \<Rightarrow> command_result \<times> ('w, 's) executor" where
  "password_result msg m x = (case on_ext_world m x of
     (Inr password, x') \<Rightarrow> (PasswordGenerated password (evaluate_strength password), x')
   | (Inl e, x') \<Rightarrow> (CommandError CryptoEncryptionFailed error_context_new ''error.password_generation'' (msg @ '': '' @ e), x'))"

definition handle_generate_password ::
  "('w, 'z) rng_ops_scheme \<Rightarrow> nat \<Rightarrow> bool \<Rightarrow> bool \<Rightarrow> bool \<Rightarrow> ('w, 's) executor \<Rightarrow> command_result \<times> ('w, 's) executor" where
  "handle_generate_password G n include_digits include_uppercase include_special =
     password_result ''Failed to generate password''
       (if include_digits \<and> include_uppercase \<and> include_special then generate_random_password G n
        else generate_random_password_with_policy G n (if include_digits then 1 else 0) (if include_special then 1 else 0) 1
          (if include_uppercase then 1 else 0))"

definition handle_generate_memorable_password :: "('w, 'z) rng_ops_scheme \<Rightarrow> nat \<Rightarrow> ('w, 's) executor \<Rightarrow> command_result \<times> ('w, 's) executor" where
  "handle_generate_memorable_password G word_count =
     password_result ''Failed to generate memorable password'' (generate_memorable_password G word_count)"

definition handle_generate_pin :: "('w, 'z) rng_ops_scheme \<Rightarrow> nat \<Rightarrow> ('w, 's) executor \<Rightarrow> command_result \<times> ('w, 's) executor" where
  "handle_generate_pin G n = password_result ''Failed to generate PIN'' (generate_pin G n)"

end
