(* ===== verification/Exec_Health.thy ===== *)
theory Exec_Health
  imports Executor
begin

text \<open>
  The health check of the executor (\<open>executor/health.rs\<close>, \<open>executor/execute.rs\<close>): the scan that decrypts
  the passwords, the background task that looks them up, and the handler of its report, which
  stores the states, marks changed records for sync and caches the report. When the background task is
  cancelled or its channel closes is decided outside, by functions of the number of the tick.
\<close>

section \<open>Storing and loading a report\<close>

type_synonym ('w, 's, 'a) ex_io = "(('w, 's) executor, vault_error, 'a) io"

text \<open>\<open>collect\<close> into a hash map: the last entry of a key counts.\<close>

definition collect_map :: "('k \<times> 'v) list \<Rightarrow> 'k \<Rightarrow> 'v option" where
  "collect_map kvs = map_of (rev kvs)"

definition persist_health_report ::
  "('w, 'y) vault_ops_scheme \<Rightarrow> health_report \<Rightarrow> timestamp \<Rightarrow> ('w, 's, health_state_delta list) ex_io" where
  "persist_health_report C rep evaluated_at =
     io_bind (with_vault (\<lambda>_. list_all_stored_records C)) (\<lambda>records.
     io_bind (with_vault (\<lambda>_. dbq (list_record_health_states C))) (\<lambda>old_states.
     let new_states = project_health_report_to_states records rep evaluated_at;
         deltas = health_deltas (collect_map (map (\<lambda>s. (hs_record_id s, s)) old_states)) new_states in
     io_bind (with_vault (\<lambda>_. dbq (replace_record_health_states new_states))) (\<lambda>_. io_return deltas)))"

definition schedule_health_resync_for_records ::
  "('w, 'y) vault_ops_scheme \<Rightarrow> health_state_delta list \<Rightarrow> ('w, 's, unit) ex_io" where
  "schedule_health_resync_for_records C deltas =
     (if deltas = [] then io_return () else with_vault (\<lambda>_. mark_records_pending_sync C (map hd_record_id deltas)))"

definition load_cached_health_report :: "('w, 'y) vault_ops_scheme \<Rightarrow> ('w, 's, health_report option) ex_io" where
  "load_cached_health_report C =
     io_bind (with_vault (\<lambda>_. dbq (list_record_health_states C))) (\<lambda>states. io_return (report_of_states states))"

section \<open>The scan\<close>

text \<open>What the spawned task is given.\<close>

record health_task =
  ht_weak_passwords :: "uuid list"
  ht_duplicate_passwords :: "uuid list list"
  ht_skipped_compromised :: "uuid list"
  ht_expired :: "uuid list"
  ht_total_checked :: nat
  ht_entries :: "password_entry list"

fun decrypt_entries ::
  "('x) rotation_env_scheme \<Rightarrow> ('w, 'y) vault_ops_scheme \<Rightarrow> stored_record list \<Rightarrow> ('w, 's) executor
     \<Rightarrow> password_entry list \<times> ('w, 's) executor" where
  "decrypt_entries E C [] x = ([], x)"
| "decrypt_entries E C (r # rs) x = (case with_vault (\<lambda>S. decrypt_field E C S (sr_id r) SelPassword) x of
     (res, x1) \<Rightarrow> (case decrypt_entries E C rs x1 of
       (entries, x2) \<Rightarrow> ((case res of Inr p \<Rightarrow> \<lparr> pe_id = sr_id r, pe_password = p \<rparr> # entries | Inl _ \<Rightarrow> entries), x2)))"

definition ex_now :: "('w, 'y) vault_ops_scheme \<Rightarrow> ('w, 's) executor \<Rightarrow> timestamp \<times> ('w, 's) executor" where
  "ex_now C x = (case dbo_now C (ex_world x) of (t, w) \<Rightarrow> (t, x\<lparr>ex_world := w\<rparr>))"

definition vault_not_available :: "('x) error_env_scheme \<Rightarrow> string \<Rightarrow> vault_error \<Rightarrow> command_result" where
  "vault_not_available E msg e = CommandError (vault_error_code E e) (vault_error_context E e) ''error.vault_not_available''
     (msg @ vault_error_to_string E e)"

definition prepare_health_task ::
  "('x) rotation_env_scheme \<Rightarrow> ('w, 'y) vault_ops_scheme \<Rightarrow> (uuid list list \<Rightarrow> uuid list list) \<Rightarrow> stored_record list
     \<Rightarrow> ('w, 's) executor \<Rightarrow> health_task \<times> ('w, 's) executor" where
  "prepare_health_task E C perm records x =
     (case decrypt_entries E C (filter (\<lambda>r. \<not> sr_deleted r \<and> sr_credential_type r = Login) records) x of (entries, x1) \<Rightarrow>
      case ex_now C x1 of (now, x2) \<Rightarrow>
      case with_vault (\<lambda>_. dbq (list_record_health_states C)) x2 of (states, x3) \<Rightarrow>
      let health_map = collect_map (map (\<lambda>s. (hs_record_id s, s)) (case states of Inr ss \<Rightarrow> ss | Inl _ \<Rightarrow> []));
          record_versions = collect_map (map (\<lambda>r. (sr_id r, sr_version r)) records);
          (skipped, to_check) = partition_entries_for_hibp entries record_versions health_map
      in (\<lparr> ht_weak_passwords = detect_weak_passwords entries, ht_duplicate_passwords = detect_duplicate_passwords E perm entries,
            ht_skipped_compromised = skipped, ht_expired = detect_expired_records now records,
            ht_total_checked = length entries, ht_entries = to_check \<rparr>, x3))"

definition handle_run_health_check ::
  "('x) rotation_env_scheme \<Rightarrow> ('w, 'y) vault_ops_scheme \<Rightarrow> (uuid list list \<Rightarrow> uuid list list) \<Rightarrow> bool
     \<Rightarrow> ('w, 's) executor \<Rightarrow> command_result \<times> health_task option \<times> ('w, 's) executor" where
  "handle_run_health_check E C perm force x =
     (if ex_cancelled x then (cancelled_result ''health_check'', None, x)
      else case (if force \<or> \<not> sc_health_check_enabled (ex_security x) then (force, x)
                 else (case ex_now C x of (now, x') \<Rightarrow> (should_run now (ex_security x) (ex_last_health_check x), x'))) of
        (False, x1) \<Rightarrow> (HealthCheckSkipped, None, x1)
      | (True, x1) \<Rightarrow> (case open_vault (ex_runtime x1) of
          Inl e \<Rightarrow> (vault_not_available E ''Vault is not available: '' (runtime_error e), None, x1)
        | Inr _ \<Rightarrow> (case with_vault (\<lambda>_. list_all_stored_records C) x1 of
            (Inl e, x2) \<Rightarrow> (CommandError (vault_error_code E e) (vault_error_context E e) ''error.list_records_failed''
                (''Failed to list records for health check: '' @ vault_error_to_string E e), None, x2)
          | (Inr records, x2) \<Rightarrow> (case prepare_health_task E C perm records x2 of
              (task, x3) \<Rightarrow> (HealthCheckStarted, Some task, x3)))))"

section \<open>The background task\<close>

datatype task_outcome = TaskCancelled | TaskChannelClosed | TaskReport health_report

fun hibp_loop ::
  "('w, 'y) hibp_ops_scheme \<Rightarrow> (nat \<Rightarrow> bool) \<Rightarrow> (nat \<Rightarrow> bool) \<Rightarrow> nat \<Rightarrow> password_entry list \<Rightarrow> uuid list \<Rightarrow> 'w
     \<Rightarrow> (task_outcome + uuid list) \<times> 'w" where
  "hibp_loop H cancelled closed i [] compromised w = (if cancelled i then Inl TaskCancelled else Inr compromised, w)"
| "hibp_loop H cancelled closed i (entry # entries) compromised w =
     (if cancelled i then (Inl TaskCancelled, w)
      else case check_hibp_single_password H (pe_password entry) w of (r, w1) \<Rightarrow>
        if closed i then (Inl TaskChannelClosed, w1)
        else hibp_loop H cancelled closed (i + 1) entries (if r = Inr True then compromised @ [pe_id entry] else compromised) w1)"

definition run_health_task ::
  "('w, 'y) hibp_ops_scheme \<Rightarrow> (nat \<Rightarrow> bool) \<Rightarrow> (nat \<Rightarrow> bool) \<Rightarrow> health_task \<Rightarrow> 'w \<Rightarrow> task_outcome \<times> 'w" where
  "run_health_task H cancelled closed task w =
     (case hibp_loop H cancelled closed 0 (ht_entries task) (ht_skipped_compromised task) w of
        (Inl out, w') \<Rightarrow> (out, w')
      | (Inr compromised, w') \<Rightarrow>
          (TaskReport \<lparr> hr_weak_passwords = ht_weak_passwords task, hr_duplicate_passwords = ht_duplicate_passwords task,
             hr_compromised = compromised, hr_expired = ht_expired task, hr_total_checked = ht_total_checked task \<rparr>, w'))"

section \<open>The report arrives (executor/execute.rs)\<close>

definition post_hook :: "('w, 'y) vault_ops_scheme \<Rightarrow> command_result \<Rightarrow> ('w, 's) executor \<Rightarrow> ('w, 's) executor" where
  "post_hook C result x = (case result of
     HealthCheckDone rep \<Rightarrow> (case ex_now C x of (now, x') \<Rightarrow> x'\<lparr>ex_health_report := Some rep, ex_last_health_check := Some now\<rparr>)
   | _ \<Rightarrow> x)"

definition handle_internal_health_check_completed ::
  "('x) rotation_env_scheme \<Rightarrow> ('w, 'y) vault_ops_scheme \<Rightarrow> health_report \<Rightarrow> ('w, 's) executor \<Rightarrow> command_result \<times> ('w, 's) executor" where
  "handle_internal_health_check_completed E C rep x =
     (case ex_now C x of (evaluated_at, x1) \<Rightarrow>
      case (case persist_health_report C rep evaluated_at x1 of
          (Inr deltas, x2) \<Rightarrow>
            snd (with_vault (\<lambda>_. set_last_health_check_at E evaluated_at) (snd (schedule_health_resync_for_records C deltas x2)))
        | (Inl _, x2) \<Rightarrow> x2) of x3 \<Rightarrow>
      case ex_now C x3 of (now, x4) \<Rightarrow>
        (HealthCheckDone rep, x4\<lparr>ex_health_report := Some rep, ex_last_health_check := Some now\<rparr>))"

section \<open>A single lookup\<close>

definition handle_check_hibp ::
  "('x) rotation_env_scheme \<Rightarrow> ('w, 'y) vault_ops_scheme \<Rightarrow> ('w, 'z) hibp_ops_scheme \<Rightarrow> uuid
     \<Rightarrow> ('w, 's) executor \<Rightarrow> command_result \<times> ('w, 's) executor" where
  "handle_check_hibp E C H rid x =
     (if ex_cancelled x then (cancelled_result ''hibp_check'', x)
      else case with_vault (\<lambda>S. decrypt_field E C S rid SelPassword) x of
        (Inl e, x1) \<Rightarrow> (CommandError CryptoDecryptionFailed error_context_new ''error.decrypt_field_failed''
            (''Failed to decrypt password for HIBP check: '' @ vault_error_to_string E e), x1)
      | (Inr password, x1) \<Rightarrow> (case on_ext_world (check_hibp_single_password H password) x1 of
          (Inr compromised, x2) \<Rightarrow> (HibpCheckCompleted rid compromised, x2)
        | (Inl e, x2) \<Rightarrow> (CommandError HealthHibpApiError error_context_new ''error.hibp_check_failed''
            (''HIBP check failed: '' @ health_error_to_string e), x2)))"

end
