(* ===== verification/Health_Laws.thy ===== *)
theory Health_Laws
  imports Exec_Health Vault_Paging Rotation_Total
begin

text \<open>
  What the health check promises and where it misleads: the lookup reveals five characters of a digest;
  a report survives storing up to the boundaries of the groups; a flag found for an old password
  sticks to a new one; a lookup that fails counts as a clean bill; a scan counts as views.
\<close>

section \<open>The lookup\<close>

text \<open>
  the request carries the first five characters of the digest and nothing else: two passwords whose
  digests agree there leave the outside world in the same state, and both lookups fail or none.
\<close>

theorem lookup_reveals_prefix:
  assumes "take 5 (sha1_hex_upper H p) = take 5 (sha1_hex_upper H q)"
  shows "snd (check_hibp_single_password H p w) = snd (check_hibp_single_password H q w)
    \<and> ((\<exists>e. fst (check_hibp_single_password H p w) = Inl e) \<longleftrightarrow> (\<exists>e. fst (check_hibp_single_password H q w) = Inl e))"
  using assms by (auto simp: check_hibp_single_password_def Let_def io_bind_def split: prod.splits sum.splits)

definition demo_hibp :: "string list hibp_ops" where
  "demo_hibp = \<lparr> sha1_hex_upper = (\<lambda>p. ''ABCDE'' @ p), http_get = (\<lambda>url w. (Inr ''1E4C9B93F3F0682250B6:3'', url # w)) \<rparr>"

theorem lookup_reveals_prefix_witness:
  "snd (check_hibp_single_password demo_hibp ''one'' []) = snd (check_hibp_single_password demo_hibp ''two'' [])"
  using lookup_reveals_prefix[of demo_hibp "''one''" "''two''" "[]"] by (simp add: demo_hibp_def)

section \<open>Stored states\<close>

lemma state_fields [simp]:
  "hs_record_id (health_state_of rep evaluated_at r) = sr_id r" "hs_record_version (health_state_of rep evaluated_at r) = sr_version r"
  "hs_evaluated_at (health_state_of rep evaluated_at r) = Some evaluated_at"
  "hs_weak_password (health_state_of rep evaluated_at r) = Some (sr_id r \<in> set (hr_weak_passwords rep))"
  "hs_duplicate_group_size (health_state_of rep evaluated_at r) = map_option of_nat (dup_size_map rep (sr_id r))"
  "hs_compromised (health_state_of rep evaluated_at r) = Some (sr_id r \<in> set (hr_compromised rep))"
  "hs_expired (health_state_of rep evaluated_at r) = Some (sr_id r \<in> set (hr_expired rep))"
  by (simp_all add: health_state_of_def)

definition health_row_of :: "record_health_state \<Rightarrow> health_row" where
  "health_row_of h = \<lparr> hw_record_version = sint (hs_record_version h),
     hw_evaluated_at = map_option datetime_to_timestamp (hs_evaluated_at h),
     hw_weak_password = map_option bool_int (hs_weak_password h),
     hw_duplicate_group_size = map_option sint (hs_duplicate_group_size h),
     hw_compromised = map_option bool_int (hs_compromised h),
     hw_expired = map_option bool_int (hs_expired h) \<rparr>"

definition stored_form :: "record_health_state \<Rightarrow> record_health_state" where
  "stored_form h = h\<lparr>hs_evaluated_at := map_option (\<lambda>t. t div 1000000000 * 1000000000) (hs_evaluated_at h)\<rparr>"

lemma stored_form_fields [simp]:
  "hs_record_id (stored_form h) = hs_record_id h" "hs_record_version (stored_form h) = hs_record_version h"
  "hs_weak_password (stored_form h) = hs_weak_password h" "hs_duplicate_group_size (stored_form h) = hs_duplicate_group_size h"
  "hs_compromised (stored_form h) = hs_compromised h" "hs_expired (stored_form h) = hs_expired h"
  by (simp_all add: stored_form_def)

definition storable :: "('w, 'y) db_ops_scheme \<Rightarrow> record_health_state \<Rightarrow> bool" where
  "storable C h \<longleftrightarrow> (case hs_evaluated_at h of Some t \<Rightarrow> chrono_range C (t div 1000000000) | None \<Rightarrow> True)"

lemma bool_int_nonzero [simp]: "bool_int b \<noteq> 0 \<longleftrightarrow> b"
  by (simp add: bool_int_def)

lemma health_row_roundtrip:
  assumes "storable C h"
  shows "to_health_state_row C (hs_record_id h, health_row_of h) = Inr (stored_form h)"
proof -
  have "map_option ((\<lambda>v. v \<noteq> 0) \<circ> bool_int) o1 = o1" for o1
    by (cases o1) simp_all
  moreover have "map_option (word_of_int \<circ> sint) o2 = o2" for o2 :: "u64 option"
    by (cases o2) simp_all
  ultimately show ?thesis
    using assms
    by (cases h; cases "hs_evaluated_at h")
      (simp_all add: to_health_state_row_def health_row_of_def stored_form_def storable_def opt_timestamp_def
        timestamp_to_datetime_def datetime_to_timestamp_def option.map_comp)
qed

lemma insort_key_map: "insort_key k (f a) (map f xs) = map f (insort_key (\<lambda>x. k (f x)) a xs)"
  by (induction xs) auto

lemma sort_key_map: "sort_key k (map f xs) = map f (sort_key (\<lambda>x. k (f x)) xs)"
  by (induction xs) (simp_all add: insort_key_map)

lemma map_res_map: "list_all P xs \<Longrightarrow> (\<And>x. P x \<Longrightarrow> f (g x) = Inr (h x)) \<Longrightarrow> map_res f (map g xs) = Inr (map h xs)"
  by (induction xs) simp_all

lemma list_states_stored:
  assumes "tb_health (v_db v) = map (\<lambda>h. (hs_record_id h, health_row_of h)) states" "list_all (storable C) states"
  shows "list_record_health_states C v = (Inr (map stored_form (sort_key hs_record_id states)), v)"
proof -
  have "list_all (storable C) (sort_key hs_record_id states)"
    using assms(2) by (simp add: list_all_iff)
  then have "map_res (to_health_state_row C) (map (\<lambda>h. (hs_record_id h, health_row_of h)) (sort_key hs_record_id states))
      = Inr (map stored_form (sort_key hs_record_id states))"
    using health_row_roundtrip by (rule map_res_map)
  then show ?thesis
    by (simp add: list_record_health_states_def assms(1) sort_key_map)
qed

lemma insert_states:
  assumes "distinct (map hs_record_id states)" "hs_record_id ` set states \<subseteq> fst ` set (tb_records (v_db v))"
    "hs_record_id ` set states \<inter> fst ` set (tb_health (v_db v)) = {}"
  shows "for_each insert_record_health_state states v
    = (Inr (), v\<lparr>v_db := (v_db v)\<lparr>tb_health := tb_health (v_db v) @ map (\<lambda>h. (hs_record_id h, health_row_of h)) states\<rparr>\<rparr>)"
  using assms
proof (induction states arbitrary: v)
  case (Cons h states)
  let ?v = "v\<lparr>v_db := (v_db v)\<lparr>tb_health := tb_health (v_db v) @ [(hs_record_id h, health_row_of h)]\<rparr>\<rparr>"
  have fresh: "k \<notin> fst ` set al \<Longrightarrow> AList.update k x al = al @ [(k, x)]" for k :: uuid and x :: health_row and al
    by (induction al) auto
  have "insert_record_health_state h v = (Inr (), ?v)"
    using Cons.prems fresh by (auto simp: insert_record_health_state_def upsert_record_health_state_def exec_def health_row_of_def)
  moreover have "for_each insert_record_health_state states ?v
    = (Inr (), ?v\<lparr>v_db := (v_db ?v)\<lparr>tb_health := tb_health (v_db ?v) @ map (\<lambda>h. (hs_record_id h, health_row_of h)) states\<rparr>\<rparr>)"
    using Cons.prems by (intro Cons.IH) auto
  ultimately show ?case
    by (simp add: io_bind_def)
qed simp

lemma replace_states:
  assumes "distinct (map hs_record_id states)" "hs_record_id ` set states \<subseteq> fst ` set (tb_records (v_db v))"
  shows "replace_record_health_states states v
    = (Inr (), v\<lparr>v_db := (v_db v)\<lparr>tb_health := map (\<lambda>h. (hs_record_id h, health_row_of h)) states\<rparr>\<rparr>)"
  using insert_states[of states "v\<lparr>v_db := (v_db v)\<lparr>tb_health := []\<rparr>\<rparr>"] assms
  by (simp add: replace_record_health_states_def in_tx_def io_bind_def exec_def change_def)

definition active_rows :: "vault_db \<Rightarrow> (uuid \<times> record_row) list" where
  "active_rows d = sort_key (\<lambda>r. - rr_updated_at (snd r)) (filter (\<lambda>r. rr_deleted (snd r) = 0) (tb_records d))"

lemma list_stored_pure:
  assumes "list_all_stored_records C v = (r, v')"
  shows "v' = v" "r = Inr records \<Longrightarrow> map sr_id records = map fst (active_rows (v_db v))"
proof -
  obtain r0 where "convert_rows C (active_rows (v_db v)) v = (r0, v')" "r = map_err db_error_to_vault r0"
    using assms by (auto simp: list_all_stored_records_def list_active_records_def active_rows_def exec_def select_def
      io_bind_def io_map_err_def map_err_def split: prod.splits sum.splits)
  then show "v' = v" "r = Inr records \<Longrightarrow> map sr_id records = map fst (active_rows (v_db v))"
    using convert_rows_pure by (fastforce simp: map_err_def split: sum.splits)+
qed

lemma list_stored_ids:
  assumes "list_all_stored_records C v = (Inr records, v')" "db_wf (v_db v)"
  shows "distinct (map sr_id records)" "sr_id ` set records \<subseteq> fst ` set (tb_records (v_db v))"
proof -
  have ids: "map sr_id records = map fst (active_rows (v_db v))"
    using list_stored_pure(2)[OF assms(1)] by blast
  have "distinct (map fst (filter (\<lambda>r. rr_deleted (snd r) = 0) (tb_records (v_db v))))"
    using assms(2) by (simp add: db_wf_def distinct_map_filter)
  moreover have "mset (map fst (active_rows (v_db v))) = mset (map fst (filter (\<lambda>r. rr_deleted (snd r) = 0) (tb_records (v_db v))))"
    by (simp add: active_rows_def)
  ultimately show "distinct (map sr_id records)"
    using ids mset_eq_imp_distinct_iff by metis
  have "sr_id ` set records = fst ` set (active_rows (v_db v))"
    using arg_cong[OF ids, of set] by simp
  then show "sr_id ` set records \<subseteq> fst ` set (tb_records (v_db v))"
    by (auto simp: active_rows_def)
qed

text \<open>A report that was persisted is in the table of states, projected onto the records of the vault.\<close>

lemma persisted_states:
  assumes "ex_runtime x = RtOpen S d" "db_wf d" "persist_health_report C rep evaluated_at x = (Inr deltas, x')"
  obtains records where "fst (list_all_stored_records C \<lparr> v_db = d, v_ext = ex_world x \<rparr>) = Inr records"
    "ex_runtime x' = RtOpen S (d\<lparr>tb_health := map (\<lambda>h. (hs_record_id h, health_row_of h))
       (project_health_report_to_states records rep evaluated_at)\<rparr>)" "ex_world x' = ex_world x"
proof -
  let ?v = "\<lparr> v_db = d, v_ext = ex_world x \<rparr>"
  obtain r v' where l: "list_all_stored_records C ?v = (r, v')"
    by fastforce
  obtain records where r: "r = Inr records"
    using assms(1,3) l by (cases r) (simp_all add: persist_health_report_def with_vault_def open_vault_def io_bind_def)
  have v': "v' = ?v"
    using list_stored_pure(1)[OF l] .
  let ?new = "project_health_report_to_states records rep evaluated_at"
  have new: "map hs_record_id ?new = map sr_id records"
    by (simp add: project_health_report_to_states_def)
  have d: "distinct (map hs_record_id ?new)" "hs_record_id ` set ?new \<subseteq> fst ` set (tb_records d)"
    using list_stored_ids[OF l[unfolded r]] assms(2) new arg_cong[OF new, of set] by (simp_all del: map_map set_map flip: list.set_map)
  have replaced: "replace_record_health_states ?new ?v
      = (Inr (), ?v\<lparr>v_db := d\<lparr>tb_health := map (\<lambda>h. (hs_record_id h, health_row_of h)) ?new\<rparr>\<rparr>)"
    using replace_states[of ?new ?v] d by simp
  obtain old v2 where o: "list_record_health_states C ?v = (old, v2)" "v2 = ?v"
    by (simp add: list_record_health_states_def)
  show thesis
  proof (cases old)
    case (Inl e)
    then show thesis
      using assms(1,3) l r v' o by (simp add: persist_health_report_def with_vault_def open_vault_def io_bind_def io_map_err_def map_err_def)
  next
    case (Inr olds)
    then show thesis
      using that[of records] assms(1,3) l r v' o replaced
      by (auto simp: persist_health_report_def with_vault_def open_vault_def io_bind_def io_map_err_def map_err_def Let_def)
  qed
qed

lemma dup_inner: "fold (\<lambda>rid m. m(rid \<mapsto> n)) grp m rid = (if rid \<in> set grp then Some n else m rid)"
  by (induction grp arbitrary: m) auto

lemma dup_size_map_find:
  "dup_size_map rep rid = map_option length (find (\<lambda>grp. rid \<in> set grp) (rev (hr_duplicate_passwords rep)))"
proof -
  have "fold (\<lambda>grp m. fold (\<lambda>rid m. m(rid \<mapsto> length grp)) grp m) groups Map.empty rid
      = map_option length (find (\<lambda>grp. rid \<in> set grp) (rev groups))" for groups
  proof (induction groups rule: rev_induct)
    case (snoc grp groups)
    then show ?case
      by (simp add: dup_inner del: fun_upd_apply)
  qed simp
  then show ?thesis
    by (simp add: dup_size_map_def)
qed

definition duplicates :: "health_report \<Rightarrow> uuid set" where
  "duplicates rep = \<Union> (set (map set (hr_duplicate_passwords rep)))"

lemma dup_size_two:
  assumes "\<forall>grp \<in> set (hr_duplicate_passwords rep). 2 \<le> length grp \<and> length grp < 2 ^ 64"
  shows "(case map_option of_nat (dup_size_map rep rid) of Some sz \<Rightarrow> (2 :: u64) \<le> sz | None \<Rightarrow> False) \<longleftrightarrow> rid \<in> duplicates rep"
proof (cases "find (\<lambda>grp. rid \<in> set grp) (rev (hr_duplicate_passwords rep))")
  case None
  then show ?thesis
    by (simp add: dup_size_map_find duplicates_def) (auto simp: find_None_iff)
next
  case (Some grp)
  then have "grp \<in> set (hr_duplicate_passwords rep)" "rid \<in> set grp"
    by (auto simp: find_Some_iff rev_nth)
  moreover from this assms have "(2 :: u64) \<le> of_nat (length grp)"
    by (simp add: word_le_nat_alt unat_of_nat)
  ultimately show ?thesis
    using Some by (auto simp: dup_size_map_find duplicates_def)
qed

lemma report_of_states_sets:
  assumes "states \<noteq> []"
  defines "flag P \<equiv> set (map hs_record_id (filter P states))"
  shows "\<exists>rep'. report_of_states states = Some rep'
    \<and> set (hr_weak_passwords rep') = flag (\<lambda>s. hs_weak_password s = Some True)
    \<and> set (hr_compromised rep') = flag (\<lambda>s. hs_compromised s = Some True)
    \<and> set (hr_expired rep') = flag (\<lambda>s. hs_expired s = Some True)
    \<and> duplicates rep' = flag (\<lambda>s. case hs_duplicate_group_size s of Some sz \<Rightarrow> 2 \<le> sz | None \<Rightarrow> False)
    \<and> length (hr_duplicate_passwords rep') \<le> 1"
proof -
  define dups where "dups = map hs_record_id (filter (\<lambda>s. case hs_duplicate_group_size s of Some sz \<Rightarrow> 2 \<le> sz | None \<Rightarrow> False) states)"
  have "duplicates \<lparr> hr_weak_passwords = a, hr_duplicate_passwords = (if dups = [] then [] else [dups]),
      hr_compromised = b, hr_expired = c, hr_total_checked = n \<rparr> = set dups" for a b c n
    by (simp add: duplicates_def)
  then show ?thesis
    using assms(1) unfolding report_of_states_def Let_def dups_def[symmetric] flag_def by (simp add: dups_def)
qed

lemma states_report:
  fixes records rep evaluated_at
  assumes "\<forall>grp \<in> set (hr_duplicate_passwords rep). 2 \<le> length grp \<and> length grp < 2 ^ 64" "records \<noteq> []"
  defines "ids \<equiv> sr_id ` set records"
  shows "\<exists>rep'. report_of_states (map stored_form (sort_key hs_record_id (project_health_report_to_states records rep evaluated_at))) = Some rep'
    \<and> set (hr_weak_passwords rep') = set (hr_weak_passwords rep) \<inter> ids
    \<and> set (hr_compromised rep') = set (hr_compromised rep) \<inter> ids
    \<and> set (hr_expired rep') = set (hr_expired rep) \<inter> ids
    \<and> duplicates rep' = duplicates rep \<inter> ids \<and> length (hr_duplicate_passwords rep') \<le> 1"
proof -
  let ?states = "map stored_form (sort_key hs_record_id (project_health_report_to_states records rep evaluated_at))"
  define flag where "flag P = set (map hs_record_id (filter P ?states))" for P
  let ?st = "\<lambda>r. stored_form (health_state_of rep evaluated_at r)"
  have "set ?states = ?st ` set records"
    by (simp add: project_health_report_to_states_def image_image)
  then have flag: "flag P = sr_id ` {r \<in> set records. P (?st r)}" for P
    by (force simp: flag_def)
  have dup: "flag (\<lambda>s. case hs_duplicate_group_size s of Some sz \<Rightarrow> 2 \<le> sz | None \<Rightarrow> False) = duplicates rep \<inter> ids"
    by (simp only: flag stored_form_fields state_fields dup_size_two[OF assms(1)]) (auto simp: ids_def)
  have len: "length ?states = length records"
    by (simp add: project_health_report_to_states_def)
  have "?states \<noteq> []"
    using assms(2) len by (metis length_0_conv)
  moreover have "flag (\<lambda>s. hs_weak_password s = Some True) = set (hr_weak_passwords rep) \<inter> ids"
    "flag (\<lambda>s. hs_compromised s = Some True) = set (hr_compromised rep) \<inter> ids"
    "flag (\<lambda>s. hs_expired s = Some True) = set (hr_expired rep) \<inter> ids"
    by (auto simp: flag ids_def)
  ultimately show ?thesis
    using dup report_of_states_sets[of ?states] by (simp only: flag_def) blast
qed

text \<open>
  a report that was stored comes back with the same weak, breached and expired records and the
  same duplicates, restricted to the records in the vault; but all duplicates form one group.
\<close>

theorem report_survives_storage:
  assumes "ex_runtime x = RtOpen S d" "db_wf d" "chrono_range C (evaluated_at div 1000000000)"
    and "\<forall>grp \<in> set (hr_duplicate_passwords rep). 2 \<le> length grp \<and> length grp < 2 ^ 64"
    and "persist_health_report C rep evaluated_at x = (Inr deltas, x')"
    and "fst (list_all_stored_records C \<lparr> v_db = d, v_ext = ex_world x \<rparr>) = Inr records" "records \<noteq> []"
  shows "\<exists>rep'. fst (load_cached_health_report C x') = Inr (Some rep')
    \<and> set (hr_weak_passwords rep') = set (hr_weak_passwords rep) \<inter> sr_id ` set records
    \<and> set (hr_compromised rep') = set (hr_compromised rep) \<inter> sr_id ` set records
    \<and> set (hr_expired rep') = set (hr_expired rep) \<inter> sr_id ` set records
    \<and> duplicates rep' = duplicates rep \<inter> sr_id ` set records \<and> length (hr_duplicate_passwords rep') \<le> 1"
proof -
  let ?new = "project_health_report_to_states records rep evaluated_at"
  have x': "ex_runtime x' = RtOpen S (d\<lparr>tb_health := map (\<lambda>h. (hs_record_id h, health_row_of h)) ?new\<rparr>)"
    using persisted_states[OF assms(1,2,5)] assms(6) by auto
  have "list_all (storable C) ?new"
    using assms(3) by (simp add: project_health_report_to_states_def list_all_iff storable_def)
  then have "list_record_health_states C \<lparr> v_db = d\<lparr>tb_health := map (\<lambda>h. (hs_record_id h, health_row_of h)) ?new\<rparr>, v_ext = ex_world x' \<rparr>
      = (Inr (map stored_form (sort_key hs_record_id ?new)), \<lparr> v_db = d\<lparr>tb_health := map (\<lambda>h. (hs_record_id h, health_row_of h)) ?new\<rparr>, v_ext = ex_world x' \<rparr>)"
    by (intro list_states_stored) simp_all
  then have "fst (load_cached_health_report C x') = Inr (report_of_states (map stored_form (sort_key hs_record_id ?new)))"
    by (simp add: load_cached_health_report_def with_vault_def x' open_vault_def io_bind_def io_map_err_def map_err_def)
  then show ?thesis
    using states_report[OF assms(4,7), of evaluated_at] by simp
qed

section \<open>A flag that sticks\<close>

lemma collect_map_distinct:
  assumes "distinct (map fst kvs)" "(k, v) \<in> set kvs"
  shows "collect_map kvs k = Some v"
  using assms by (simp add: collect_map_def rev_map[symmetric])

text \<open>
  the states are stored under the version the record has when the report arrives. A record that was
  found breached is not looked up again at that version, whatever its password is by then.
\<close>

theorem breach_flag_sticks:
  assumes "ex_runtime x = RtOpen S d" "db_wf d" "chrono_range C (evaluated_at div 1000000000)"
    and "persist_health_report C rep evaluated_at x = (Inr deltas, x')"
    and "fst (list_all_stored_records C \<lparr> v_db = d, v_ext = ex_world x \<rparr>) = Inr records"
    and "rec \<in> set records" "sr_id rec \<in> set (hr_compromised rep)"
  shows "\<exists>states. fst (with_vault (\<lambda>_. dbq (list_record_health_states C)) x') = Inr states
    \<and> partition_entries_for_hibp [\<lparr> pe_id = sr_id rec, pe_password = any \<rparr>]
        (collect_map (map (\<lambda>r. (sr_id r, sr_version r)) records)) (collect_map (map (\<lambda>s. (hs_record_id s, s)) states))
      = ([sr_id rec], [])"
proof -
  let ?new = "project_health_report_to_states records rep evaluated_at"
  let ?states = "map stored_form (sort_key hs_record_id ?new)"
  have x': "ex_runtime x' = RtOpen S (d\<lparr>tb_health := map (\<lambda>h. (hs_record_id h, health_row_of h)) ?new\<rparr>)"
    using persisted_states[OF assms(1,2,4)] assms(5) by auto
  have "list_all (storable C) ?new"
    using assms(3) by (simp add: project_health_report_to_states_def list_all_iff storable_def)
  then have "list_record_health_states C \<lparr> v_db = d\<lparr>tb_health := map (\<lambda>h. (hs_record_id h, health_row_of h)) ?new\<rparr>, v_ext = ex_world x' \<rparr>
      = (Inr ?states, \<lparr> v_db = d\<lparr>tb_health := map (\<lambda>h. (hs_record_id h, health_row_of h)) ?new\<rparr>, v_ext = ex_world x' \<rparr>)"
    by (intro list_states_stored) simp_all
  then have listed: "fst (with_vault (\<lambda>_. dbq (list_record_health_states C)) x') = Inr ?states"
    by (simp add: with_vault_def x' open_vault_def io_map_err_def map_err_def)
  have "distinct (map sr_id records)"
    using list_stored_ids(1)[of C "\<lparr> v_db = d, v_ext = ex_world x \<rparr>" records] assms(2,5)
    by (cases "list_all_stored_records C \<lparr> v_db = d, v_ext = ex_world x \<rparr>") simp
  moreover have ids: "map hs_record_id ?new = map sr_id records"
    by (simp add: project_health_report_to_states_def)
  ultimately have "distinct (map hs_record_id (sort_key hs_record_id ?new))"
    by (metis mset_sort mset_map mset_eq_imp_distinct_iff)
  then have keys: "distinct (map fst (map (\<lambda>s. (hs_record_id s, s)) ?states))"
    by (simp add: comp_def)
  obtain st where st: "st \<in> set ?states" "hs_record_id st = sr_id rec" "hs_record_version st = sr_version rec" "hs_compromised st = Some True"
    using assms(6,7) that[of "stored_form (health_state_of rep evaluated_at rec)"] by (simp add: project_health_report_to_states_def)
  have "collect_map (map (\<lambda>s. (hs_record_id s, s)) ?states) (sr_id rec) = Some st"
  proof (rule collect_map_distinct[OF keys])
    show "(sr_id rec, st) \<in> set (map (\<lambda>s. (hs_record_id s, s)) ?states)"
      using imageI[OF st(1), of "\<lambda>s. (hs_record_id s, s)"] by (simp only: st(2) list.set_map(1))
  qed
  moreover have "collect_map (map (\<lambda>r. (sr_id r, sr_version r)) records) (sr_id rec) = Some (sr_version rec)"
    using \<open>distinct (map sr_id records)\<close> assms(6) by (intro collect_map_distinct) (auto simp: comp_def)
  ultimately show ?thesis
    using listed st by (simp add: partition_entries_for_hibp_def should_skip_hibp_def)
qed

section \<open>Lookups that fail\<close>

lemma hibp_loop_unreachable:
  assumes "\<And>url w. \<exists>e w'. http_get H url w = (Inl e, w')"
  shows "\<exists>w'. hibp_loop H (\<lambda>_. False) (\<lambda>_. False) i entries compromised w = (Inr compromised, w')"
proof (induction entries arbitrary: i w)
  case (Cons entry entries)
  obtain e w1 where "check_hibp_single_password H (pe_password entry) w = (Inl e, w1)"
    using assms[of "''https://api.pwnedpasswords.com/range/'' @ take 5 (sha1_hex_upper H (pe_password entry))" w]
    by (force simp: check_hibp_single_password_def Let_def io_bind_def io_map_err_def map_err_def)
  then show ?case
    using Cons by simp
qed simp

text \<open>
  when the service cannot be reached the scan still ends with a report, and every record that was
  not already known to be breached is stored as checked and clean.
\<close>

theorem failed_lookup_counts_as_clean:
  assumes "\<And>url w. \<exists>e w'. http_get H url w = (Inl e, w')"
  shows "\<exists>rep w'. run_health_task H (\<lambda>_. False) (\<lambda>_. False) task w = (TaskReport rep, w')
    \<and> (\<forall>st \<in> set (project_health_report_to_states records rep evaluated_at).
         hs_record_id st \<notin> set (ht_skipped_compromised task) \<longrightarrow> hs_compromised st = Some False \<and> hs_evaluated_at st = Some evaluated_at)"
  using hibp_loop_unreachable[OF assms, where i = 0 and entries = "ht_entries task" and compromised = "ht_skipped_compromised task" and w = w]
  by (auto simp: run_health_task_def project_health_report_to_states_def)

definition offline_hibp :: "nat hibp_ops" where
  "offline_hibp = \<lparr> sha1_hex_upper = (\<lambda>p. ''ABCDE'' @ p), http_get = (\<lambda>url w. (Inl ''timeout'', w + 1)) \<rparr>"

theorem failed_lookup_counts_as_clean_witness:
  "\<exists>rep w'. run_health_task offline_hibp (\<lambda>_. False) (\<lambda>_. False)
      \<lparr> ht_weak_passwords = [], ht_duplicate_passwords = [], ht_skipped_compromised = [], ht_expired = [], ht_total_checked = 1,
        ht_entries = [\<lparr> pe_id = 7, pe_password = ''password'' \<rparr>] \<rparr> 0 = (TaskReport rep, w')
    \<and> (\<forall>st \<in> set (project_health_report_to_states [demo_record] rep 0). hs_compromised st = Some False)"
  using failed_lookup_counts_as_clean[where H = offline_hibp and w = 0 and records = "[demo_record]" and evaluated_at = 0 and
    task = "\<lparr> ht_weak_passwords = [], ht_duplicate_passwords = [], ht_skipped_compromised = [], ht_expired = [], ht_total_checked = 1,
        ht_entries = [\<lparr> pe_id = 7, pe_password = ''password'' \<rparr>] \<rparr>"]
  by (fastforce simp: offline_hibp_def)

section \<open>A scan counts as views\<close>

lemma insert_audit_appends:
  obtains now w where "insert_audit_entry C operation rid rname detail v
     = (Inr (), \<lparr> v_db = (v_db v)\<lparr>tb_audit := tb_audit (v_db v) @ [\<lparr> al_operation = audit_to_db_str operation,
          al_record_id = rid, al_record_name = rname, al_detail = detail, al_occurred_at = now \<rparr>]\<rparr>, v_ext = w \<rparr>)"
  by (cases "dbo_now C (v_ext v)"; cases v)
    (simp add: insert_audit_entry_def utc_now_def io_bind_def exec_def change_def map_err_def Let_def)

lemma get_stored_pure: "snd (get_stored_record C rid v) = v"
  by (auto simp: get_stored_record_def get_record_def exec_def select_def io_bind_def io_map_err_def map_err_def io_lift_def
    data_err_def split: prod.splits sum.splits option.splits)

lemma decrypt_field_audits:
  assumes "decrypt_field E C S rid SelPassword v = (r, v')"
  shows "\<exists>new. tb_audit (v_db v') = tb_audit (v_db v) @ new \<and> length new = (case r of Inr _ \<Rightarrow> 1 | Inl _ \<Rightarrow> 0)
    \<and> (\<forall>a \<in> set new. al_operation a = audit_to_db_str RecordViewPassword)"
proof -
  note defs = decrypt_field_def decrypt_field_with_audit_def require_unlocked_def io_bind_def crypto_res_def io_map_err_def map_err_def
  obtain g where g: "get_stored_record C rid v = (g, v)"
    using get_stored_pure[of C rid v] by (cases "get_stored_record C rid v") simp
  show ?thesis
  proof (cases "is_unlocked (vs_crypto S)")
    case False
    then show ?thesis
      using assms by (auto simp: defs)
  next
    case unlocked: True
    show ?thesis
    proof (cases g)
      case (Inl e)
      then show ?thesis
        using assms g unlocked by (auto simp: defs)
    next
      case stored: (Inr rec)
      show ?thesis
      proof (cases "decrypt_stored E S rec")
        case (Inl e)
        then show ?thesis
          using assms g unlocked stored by (auto simp: defs)
      next
        case payload: (Inr payload)
        obtain now w where ins: "insert_audit_entry C RecordViewPassword (Some rid) (Some (pl_name payload)) None v
            = (Inr (), \<lparr> v_db = (v_db v)\<lparr>tb_audit := tb_audit (v_db v) @ [\<lparr> al_operation = audit_to_db_str RecordViewPassword,
              al_record_id = Some rid, al_record_name = Some (pl_name payload), al_detail = None, al_occurred_at = now \<rparr>]\<rparr>, v_ext = w \<rparr>)"
          by (rule insert_audit_appends)
        show ?thesis
        proof (cases "extract_field (sr_credential_type rec) payload SelPassword")
          case (Inl e)
          then have "r = Inl e" "v' = v"
            using assms g unlocked stored payload ins by (simp_all add: defs)
          then show ?thesis
            by simp
        next
          case (Inr p)
          then have "r = Inr p" "v' = snd (insert_audit_entry C RecordViewPassword (Some rid) (Some (pl_name payload)) None v)"
            using assms g unlocked stored payload ins by (simp_all add: defs)
          then show ?thesis
            using ins by simp
        qed
      qed
    qed
  qed
qed

lemma decrypt_entries_audit:
  assumes "ex_runtime x = RtOpen S d" "decrypt_entries E C rs x = (entries, x')"
  shows "\<exists>d' new. ex_runtime x' = RtOpen S d' \<and> tb_audit d' = tb_audit d @ new \<and> length new = length entries
    \<and> (\<forall>a \<in> set new. al_operation a = audit_to_db_str RecordViewPassword)"
  using assms
proof (induction rs arbitrary: x d entries)
  case (Cons r rs)
  obtain res v1 where f: "decrypt_field E C S (sr_id r) SelPassword \<lparr> v_db = d, v_ext = ex_world x \<rparr> = (res, v1)"
    by fastforce
  let ?x1 = "x\<lparr>ex_runtime := RtOpen S (v_db v1), ex_world := v_ext v1\<rparr>"
  have w: "with_vault (\<lambda>S. decrypt_field E C S (sr_id r) SelPassword) x = (res, ?x1)"
    using f Cons.prems(1) by (simp add: with_vault_def open_vault_def)
  obtain rest where rest: "decrypt_entries E C rs ?x1 = (rest, x')"
    "entries = (case res of Inr p \<Rightarrow> \<lparr> pe_id = sr_id r, pe_password = p \<rparr> # rest | Inl _ \<Rightarrow> rest)"
    using Cons.prems(2) w by (cases "decrypt_entries E C rs ?x1") simp
  obtain d' new' where "ex_runtime x' = RtOpen S d'" "tb_audit d' = tb_audit (v_db v1) @ new'" "length new' = length rest"
    "\<forall>a \<in> set new'. al_operation a = audit_to_db_str RecordViewPassword"
    using Cons.IH[OF _ rest(1)] by auto
  moreover obtain new where "tb_audit (v_db v1) = tb_audit d @ new" "length new = (case res of Inr _ \<Rightarrow> 1 | Inl _ \<Rightarrow> 0)"
    "\<forall>a \<in> set new. al_operation a = audit_to_db_str RecordViewPassword"
    using decrypt_field_audits[OF f] by auto
  ultimately show ?case
    using rest(2) by (intro exI[of _ d'] exI[of _ "new @ new'"]) (auto split: sum.splits)
qed simp

lemma ex_now_runtime: "ex_now C x = (t, x') \<Longrightarrow> ex_runtime x' = ex_runtime x"
  by (auto simp: ex_now_def split: prod.splits)

lemma prepare_audit:
  assumes "ex_runtime x = RtOpen S d" "prepare_health_task E C perm records x = (task, x')"
  shows "\<exists>d' new. ex_runtime x' = RtOpen S d' \<and> tb_audit d' = tb_audit d @ new \<and> length new = ht_total_checked task
    \<and> (\<forall>a \<in> set new. al_operation a = audit_to_db_str RecordViewPassword)"
proof -
  obtain entries x1 where e: "decrypt_entries E C (filter (\<lambda>r. \<not> sr_deleted r \<and> sr_credential_type r = Login) records) x = (entries, x1)"
    by fastforce
  obtain d' new where d': "ex_runtime x1 = RtOpen S d'" "tb_audit d' = tb_audit d @ new" "length new = length entries"
      "\<forall>a \<in> set new. al_operation a = audit_to_db_str RecordViewPassword"
    using decrypt_entries_audit[OF assms(1) e] by blast
  obtain now x2 where n: "ex_now C x1 = (now, x2)"
    by fastforce
  have "ex_runtime x' = RtOpen S d'" "ht_total_checked task = length entries"
    using assms(2) e n d'(1) ex_now_runtime[OF n]
    by (auto simp: prepare_health_task_def with_vault_def open_vault_def list_record_health_states_def io_map_err_def Let_def
      split: prod.splits)
  then show ?thesis
    using d' by simp
qed

lemma prepare_total:
  assumes "prepare_health_task E C perm records x = (task, x')"
    "decrypt_entries E C (filter (\<lambda>r. \<not> sr_deleted r \<and> sr_credential_type r = Login) records) x = (entries, x1)"
  shows "ht_total_checked task = length entries"
  using assms by (auto simp: prepare_health_task_def Let_def split: prod.splits)

lemma started_check:
  assumes "ex_runtime x = RtOpen S d" "handle_run_health_check E C perm force x = (HealthCheckStarted, Some task, x')"
  obtains x2 records where "prepare_health_task E C perm records x2 = (task, x')" "ex_runtime x2 = RtOpen S d"
proof -
  obtain go x1 where g: "(if force \<or> \<not> sc_health_check_enabled (ex_security x) then (force, x)
      else (case ex_now C x of (now, x') \<Rightarrow> (should_run now (ex_security x) (ex_last_health_check x), x'))) = (go, x1)"
    by fastforce
  then have x1: "ex_runtime x1 = RtOpen S d"
    using assms(1) ex_now_runtime[of C x] by (auto split: if_splits prod.splits)
  obtain r v' where l: "list_all_stored_records C \<lparr> v_db = d, v_ext = ex_world x1 \<rparr> = (r, v')"
    by fastforce
  have v': "v' = \<lparr> v_db = d, v_ext = ex_world x1 \<rparr>"
    using list_stored_pure(1)[OF l] .
  have "go" "\<exists>records. r = Inr records"
    using assms(2) g x1 l v' unfolding handle_run_health_check_def
    by (auto simp: cancelled_result_def vault_not_available_def with_vault_def open_vault_def split: if_splits bool.splits sum.splits prod.splits)
  then show thesis
    using that assms(2) g x1 l v' unfolding handle_run_health_check_def
    by (auto simp: cancelled_result_def vault_not_available_def with_vault_def open_vault_def split: if_splits prod.splits)
qed

text \<open>
  every scan writes one "password viewed" entry into the audit log for each password it decrypts, as
  if the user had looked at each of them; the entries also count as uses of the records.
\<close>

theorem scan_counts_as_views:
  assumes "ex_runtime x = RtOpen S d" "handle_run_health_check E C perm force x = (HealthCheckStarted, Some task, x')"
  shows "\<exists>d' new. ex_runtime x' = RtOpen S d' \<and> tb_audit d' = tb_audit d @ new \<and> length new = ht_total_checked task
    \<and> (\<forall>a \<in> set new. al_operation a = audit_to_db_str RecordViewPassword)"
proof -
  obtain x2 records where "prepare_health_task E C perm records x2 = (task, x')" "ex_runtime x2 = RtOpen S d"
    by (rule started_check[OF assms])
  then show ?thesis
    by (intro prepare_audit)
qed

section \<open>A demonstration\<close>

definition demo_ex :: "(nat, unit) executor" where
  "demo_ex = \<lparr> ex_runtime = RtOpen demo_service (v_db demo_vault1), ex_file_backed = True, ex_vault_dir = ''v'', ex_verified_password = None, ex_world = 8, ex_sync = None,
     ex_security = \<lparr> sc_health_check_enabled = True, sc_health_check_frequency = OnStartup \<rparr>, ex_health_report = None,
     ex_last_health_check = None, ex_internal = [], ex_cancelled = False \<rparr>"

lemma demo_ex_vault: "\<lparr> v_db = v_db demo_vault1, v_ext = ex_world demo_ex \<rparr> = demo_vault1"
  "ex_runtime demo_ex = RtOpen demo_service (v_db demo_vault1)" "ex_cancelled demo_ex = False"
  by (simp_all add: demo_ex_def demo_vault1_def)

lemma demo_listed: "list_all_stored_records demo_vault_ops demo_vault1 = (Inr [stored_as demo_record []], demo_vault1)"
proof -
  have "filter (\<lambda>r. rr_deleted (snd r) = 0) (tb_records (v_db demo_vault1)) = [(7, row_of_record demo_record)]"
    "record_tag_names (v_db demo_vault1) 7 = []"
    by (simp_all add: demo_vault1_def row_of_record_def demo_record_def bool_int_def empty_db_def record_tag_names_def)
  then show ?thesis
    using demo_vault1_simps(3)
    by (simp add: list_all_stored_records_def list_active_records_def exec_def select_def io_bind_def io_map_err_def map_err_def data_err_def)
qed

definition demo_report :: health_report where
  "demo_report = \<lparr> hr_weak_passwords = [7, 9], hr_duplicate_passwords = [[7, 8], [9, 10]], hr_compromised = [7], hr_expired = [], hr_total_checked = 4 \<rparr>"

lemma demo_persisted:
  "\<exists>deltas x'. persist_health_report demo_vault_ops demo_report 0 demo_ex = (Inr deltas, x')"
proof -
  let ?new = "project_health_report_to_states [stored_as demo_record []] demo_report 0"
  have "replace_record_health_states ?new demo_vault1
    = (Inr (), demo_vault1\<lparr>v_db := (v_db demo_vault1)\<lparr>tb_health := map (\<lambda>h. (hs_record_id h, health_row_of h)) ?new\<rparr>\<rparr>)"
    by (intro replace_states) (simp_all add: project_health_report_to_states_def demo_vault1_def demo_record_def)
  moreover have "list_record_health_states demo_vault_ops demo_vault1 = (Inr [], demo_vault1)"
    by (simp add: list_record_health_states_def demo_vault1_def empty_db_def map_err_def)
  ultimately show ?thesis
    using demo_ex_vault demo_listed
    by (simp add: persist_health_report_def with_vault_def open_vault_def io_bind_def io_map_err_def map_err_def Let_def demo_vault1_def)
qed

lemma demo_range: "chrono_range demo_vault_ops (0 div 1000000000)"
  by (simp add: demo_vault_ops_def)

theorem report_survives_storage_witness:
  "\<exists>deltas x' rep'. persist_health_report demo_vault_ops demo_report 0 demo_ex = (Inr deltas, x')
    \<and> fst (load_cached_health_report demo_vault_ops x') = Inr (Some rep')
    \<and> set (hr_weak_passwords rep') = {7} \<and> set (hr_compromised rep') = {7} \<and> duplicates rep' = {7}"
proof -
  obtain deltas x' where p: "persist_health_report demo_vault_ops demo_report 0 demo_ex = (Inr deltas, x')"
    using demo_persisted by blast
  have l: "fst (list_all_stored_records demo_vault_ops \<lparr> v_db = v_db demo_vault1, v_ext = ex_world demo_ex \<rparr>) = Inr [stored_as demo_record []]"
    using demo_listed by (simp only: demo_ex_vault fst_conv)
  have g: "\<forall>grp \<in> set (hr_duplicate_passwords demo_report). 2 \<le> length grp \<and> length grp < 2 ^ 64"
    by (simp add: demo_report_def)
  show ?thesis
    using report_survives_storage[OF demo_ex_vault(2) demo_vault1_simps(1) demo_range g p l] p
    by (auto simp: demo_report_def duplicates_def demo_record_def)
qed

theorem breach_flag_sticks_witness:
  "\<exists>deltas x' states. persist_health_report demo_vault_ops demo_report 0 demo_ex = (Inr deltas, x')
    \<and> fst (with_vault (\<lambda>_. dbq (list_record_health_states demo_vault_ops)) x') = Inr states
    \<and> partition_entries_for_hibp [\<lparr> pe_id = 7, pe_password = ''a new one'' \<rparr>]
        (collect_map [(7, 3)]) (collect_map (map (\<lambda>s. (hs_record_id s, s)) states)) = ([7], [])"
proof -
  obtain deltas x' where p: "persist_health_report demo_vault_ops demo_report 0 demo_ex = (Inr deltas, x')"
    using demo_persisted by blast
  have l: "fst (list_all_stored_records demo_vault_ops \<lparr> v_db = v_db demo_vault1, v_ext = ex_world demo_ex \<rparr>) = Inr [stored_as demo_record []]"
    using demo_listed by (simp only: demo_ex_vault fst_conv)
  have m: "sr_id (stored_as demo_record []) \<in> set (hr_compromised demo_report)" "stored_as demo_record [] \<in> set [stored_as demo_record []]"
    "sr_id (stored_as demo_record []) = 7" "sr_version (stored_as demo_record []) = 3"
    by (simp_all add: demo_report_def demo_record_def)
  show ?thesis
    using breach_flag_sticks[OF demo_ex_vault(2) demo_vault1_simps(1) demo_range p l m(2,1), of "''a new one''"] p m(3,4)
    by (simp add: demo_record_def)
qed

lemma demo_decrypted:
  "\<exists>v'. decrypt_field demo_rotation_env demo_vault_ops demo_service 7 SelPassword demo_vault1 = (Inr ''s3cret'', v')"
proof -
  have l: "sr_credential_type demo_record = Login" "extract_field Login demo_login SelPassword = Inr ''s3cret''" "pl_name demo_login = ''mail''"
    by (simp_all add: demo_record_def demo_login_def extract_field_def)
  show ?thesis
    by (rule insert_audit_appends[of demo_vault_ops RecordViewPassword "Some 7" "Some ''mail''" None demo_vault1])
      (simp add: decrypt_field_def decrypt_field_with_audit_def require_unlocked_def demo_login_ok(4) io_bind_def get_demo_record
        crypto_res_def demo_rotation_laws(4) l io_map_err_def map_err_def)
qed

theorem scan_counts_as_views_witness:
  "\<exists>task x' d' new. handle_run_health_check demo_rotation_env demo_vault_ops id True demo_ex = (HealthCheckStarted, Some task, x')
    \<and> ex_runtime x' = RtOpen demo_service d' \<and> tb_audit d' = tb_audit (v_db demo_vault1) @ new \<and> length new = 1"
proof -
  obtain v' where d: "decrypt_field demo_rotation_env demo_vault_ops demo_service 7 SelPassword demo_vault1 = (Inr ''s3cret'', v')"
    using demo_decrypted by blast
  have s: "sr_id (stored_as demo_record []) = 7" "\<not> sr_deleted (stored_as demo_record [])" "sr_credential_type (stored_as demo_record []) = Login"
    by (simp_all add: demo_record_def)
  let ?x = "demo_ex\<lparr>ex_runtime := RtOpen demo_service (v_db demo_vault1), ex_world := v_ext demo_vault1\<rparr>"
  have x: "?x = demo_ex"
    by (simp add: demo_ex_def demo_vault1_def)
  obtain task x' where prep: "prepare_health_task demo_rotation_env demo_vault_ops id [stored_as demo_record []] demo_ex = (task, x')"
    by fastforce
  have "\<exists>x1. decrypt_entries demo_rotation_env demo_vault_ops [stored_as demo_record []] demo_ex
      = ([\<lparr> pe_id = 7, pe_password = ''s3cret'' \<rparr>], x1)"
    using d s demo_ex_vault by (simp add: with_vault_def open_vault_def)
  then have checked: "ht_total_checked task = 1"
    using prepare_total[OF prep] s by auto
  have run: "handle_run_health_check demo_rotation_env demo_vault_ops id True demo_ex = (HealthCheckStarted, Some task, x')"
    using demo_ex_vault demo_listed prep x by (simp add: handle_run_health_check_def with_vault_def open_vault_def)
  show ?thesis
    using scan_counts_as_views[OF demo_ex_vault(2) run] run checked by auto
qed

end
