(* ===== verification/Exec_Sync.thy ===== *)
theory Exec_Sync
  imports Exec_Health Sync_Service
begin

text \<open>
  The sync handlers of the executor (\<open>executor/sync.rs\<close>): the snapshot of the vault a sync starts from,
  the request to the sync service, and the application of its outcome to the vault, whose failures
  are logged and otherwise ignored. Whether the operation is cancelled while it runs is an argument.
\<close>

section \<open>The snapshot\<close>

definition REMOTE_METADATA_SNAPSHOT_KEY :: string where
  "REMOTE_METADATA_SNAPSHOT_KEY = ''remote_metadata_snapshot''"

text \<open>\<open>parse::<u64>()\<close>: an optional plus sign and digits whose value fits.\<close>

definition parse_u64 :: "string \<Rightarrow> u64 option" where
  "parse_u64 s = (let digits = (case s of c # cs \<Rightarrow> if c = CHR ''+'' then cs else s | [] \<Rightarrow> []) in
     if digits = [] \<or> \<not> list_all (\<lambda>c. CHR ''0'' \<le> c \<and> c \<le> CHR ''9'') digits then None
     else let n = parse_nat digits 0 in if n < 2 ^ 64 then Some (of_nat n) else None)"

text \<open>\<open>ok().flatten()\<close> of a metadata query.\<close>

definition metadata_or_none :: "string \<Rightarrow> ('w, string option) vault_io" where
  "metadata_or_none key = io_bind (io_ok (vault_get_metadata key)) (\<lambda>r. io_return (case r of Some (Some s) \<Rightarrow> Some s | _ \<Rightarrow> None))"

fun build_uploads ::
  "('x) rotation_env_scheme \<Rightarrow> ('w, 'y) vault_ops_scheme \<Rightarrow> vault_service \<Rightarrow> (uuid \<Rightarrow> record_health_state option)
     \<Rightarrow> stored_record list \<Rightarrow> ('w, cloud_record list) vault_io" where
  "build_uploads E C S health [] = io_return []"
| "build_uploads E C S health (r # rs) =
     io_bind (io_ok (build_cloud_record_for_sync E C S r (health (sr_id r)))) (\<lambda>built.
     io_bind (build_uploads E C S health rs) (\<lambda>rest.
     io_return (case built of Some cr \<Rightarrow> cr # rest | None \<Rightarrow> rest)))"

definition status_or_pending :: "(uuid \<Rightarrow> sync_status option) \<Rightarrow> uuid \<Rightarrow> sync_status" where
  "status_or_pending sync_map rid = (case sync_map rid of Some st \<Rightarrow> st | None \<Rightarrow> StPending)"

definition vault_snapshot ::
  "('x) rotation_env_scheme \<Rightarrow> ('w, 'y) vault_ops_scheme \<Rightarrow> vault_service \<Rightarrow> ('w, sync_vault_data) vault_io" where
  "vault_snapshot E C S =
     io_bind (require_unlocked S) (\<lambda>_.
     io_bind (list_stored_records_for_sync C) (\<lambda>stored_records.
     io_bind (dbq (exec (select (load_sync_status_map C)))) (\<lambda>sync_map.
     io_bind (io_ok (dbq (list_record_health_states C))) (\<lambda>health_states.
     let health = collect_map (map (\<lambda>s. (hs_record_id s, s)) (case health_states of Some ss \<Rightarrow> ss | None \<Rightarrow> [])) in
     io_bind (build_uploads E C S health (filter (\<lambda>r. status_or_pending sync_map (sr_id r) = StPending) stored_records)) (\<lambda>uploads.
     io_bind (metadata_or_none ''metadata_version'') (\<lambda>version.
     io_bind (metadata_or_none REMOTE_METADATA_SNAPSHOT_KEY) (\<lambda>snapshot.
     io_bind (metadata_or_none ''vault_identity_token'') (\<lambda>token.
     io_bind (case token of Some t \<Rightarrow> io_return (Some t) | None \<Rightarrow> metadata_or_none ''vault_id'') (\<lambda>vault_token.
     io_return
       \<lparr> vd_local_records = map (\<lambda>r. \<lparr> li_record_id = uuid_show E (sr_id r), li_sync_status = status_or_pending sync_map (sr_id r),
             li_version = sr_version r \<rparr>) stored_records,
         vd_uploads = filter (\<lambda>cr. cloud_record_validate E cr = Inr ()) uploads,
         vd_local_metadata_version = (case Option.bind version parse_u64 of Some n \<Rightarrow> n | None \<Rightarrow> 0),
         vd_last_remote_metadata = Option.bind snapshot (\<lambda>json. case deserialize_metadata E json of Inr m \<Rightarrow> Some m | Inl _ \<Rightarrow> None),
         vd_local_vault_token = (case vault_token of Some t \<Rightarrow> t | None \<Rightarrow> []) \<rparr>)))))))))"

definition build_sync_vault_data ::
  "('x) rotation_env_scheme \<Rightarrow> ('w, 'y) vault_ops_scheme \<Rightarrow> ('w, 's) executor \<Rightarrow> sync_vault_data option \<times> ('w, 's) executor" where
  "build_sync_vault_data E C x = (case with_vault (vault_snapshot E C) x of
     (Inr data, x') \<Rightarrow> (Some data, x') | (Inl _, x') \<Rightarrow> (None, x'))"

section \<open>Applying the outcome\<close>

text \<open>A step whose error is only logged.\<close>

definition try_vault :: "(vault_service \<Rightarrow> ('w, 'a) vault_io) \<Rightarrow> ('w, 's) executor \<Rightarrow> ('w, 's) executor" where
  "try_vault m x = snd (with_vault m x)"

definition mark_synced_id :: "('x) env_scheme \<Rightarrow> ('w, 'y) vault_ops_scheme \<Rightarrow> string \<Rightarrow> ('w, 's) executor \<Rightarrow> ('w, 's) executor" where
  "mark_synced_id E C rid x = (case uuid_parse E rid of
     Some i \<Rightarrow> try_vault (\<lambda>_. mark_record_synced C i) x | None \<Rightarrow> x)"

definition apply_download ::
  "('x) rotation_env_scheme \<Rightarrow> ('w, 'y) vault_ops_scheme \<Rightarrow> cloud_record \<Rightarrow> ('w, 's) executor \<Rightarrow> ('w, 's) executor" where
  "apply_download E C cr x = mark_synced_id E C (cr_id cr) (try_vault (\<lambda>S. apply_downloaded_cloud_record E C S cr) x)"

definition mark_conflict_id ::
  "('x) env_scheme \<Rightarrow> ('w, 'y) vault_ops_scheme \<Rightarrow> string \<times> bytes \<Rightarrow> ('w, 's) executor \<Rightarrow> ('w, 's) executor" where
  "mark_conflict_id E C c x = (case uuid_parse E (fst c) of
     Some i \<Rightarrow> try_vault (\<lambda>_. mark_record_conflict C i (snd c)) x | None \<Rightarrow> x)"

definition store_remote_metadata :: "('x) rotation_env_scheme \<Rightarrow> cloud_metadata \<Rightarrow> ('w, unit) vault_io" where
  "store_remote_metadata E metadata =
     io_bind (vault_set_metadata ''metadata_version'' (show_word (cm_metadata_version metadata))) (\<lambda>_.
     io_bind (vault_set_metadata ''vault_identity_token'' (cm_vault_identity_token metadata)) (\<lambda>_.
     io_bind (io_lift (map_err (\<lambda>e. CryptoError (sync_error_to_string e)) (serialize_metadata E metadata))) (\<lambda>metadata_json.
     vault_set_metadata REMOTE_METADATA_SNAPSHOT_KEY metadata_json)))"

definition reload_health_report :: "('w, 'y) vault_ops_scheme \<Rightarrow> ('w, 's) executor \<Rightarrow> ('w, 's) executor" where
  "reload_health_report C x = (case load_cached_health_report C x of
     (Inr rep, x') \<Rightarrow> x'\<lparr>ex_health_report := rep\<rparr> | (Inl _, x') \<Rightarrow> x')"

definition apply_sync_result ::
  "('x) rotation_env_scheme \<Rightarrow> ('w, 'y) vault_ops_scheme \<Rightarrow> sync_result \<Rightarrow> ('w, 's) executor \<Rightarrow> ('w, 's) executor" where
  "apply_sync_result E C res x =
     (let x = fold (apply_download E C) (sx_downloaded_records res) x;
          x = fold (mark_synced_id E C) (sx_uploaded_ids res) x;
          x = fold (mark_conflict_id E C) (sx_conflict_data res) x;
          x = fold (\<lambda>state. try_vault (\<lambda>_. dbq (upsert_record_health_state state))) (sx_downloaded_health_states res) x;
          x = (if sx_downloaded_health_deleted res = [] then x
               else try_vault (\<lambda>_. dbq (delete_record_health_states (sx_downloaded_health_deleted res))) x);
          x = (case sx_remote_metadata res of Some metadata \<Rightarrow> try_vault (\<lambda>_. store_remote_metadata E metadata) x | None \<Rightarrow> x)
      in reload_health_report C x)"

section \<open>Handlers\<close>

text \<open>A request to the configured service.\<close>

definition with_sync ::
  "('u, 'f, 'a) sync_io \<Rightarrow> ('u, 'f) sync_service \<Rightarrow> ('w, ('u, 'f) sync_service) executor
     \<Rightarrow> (sync_error + 'a) \<times> ('w, ('u, 'f) sync_service) executor" where
  "with_sync m s x = (case m s of (r, s') \<Rightarrow> (r, x\<lparr>ex_sync := Some s'\<rparr>))"

definition sync_error_result :: "string \<Rightarrow> string \<Rightarrow> sync_error \<Rightarrow> command_result" where
  "sync_error_result key msg e = CommandError (sync_error_code e) (sync_error_context e) key (msg @ sync_error_to_string e)"

definition sync_not_configured :: command_result where
  "sync_not_configured = CommandError SyncNotConfigured error_context_new ''error.sync_not_configured'' ''Sync is not configured.''"

definition sync_completed :: "sync_report \<Rightarrow> command_result" where
  "sync_completed rep = SyncCompleted (uint (rp_uploaded rep + rp_downloaded rep)) 0 (uint (rp_uploaded rep + rp_downloaded rep))
     (uint (rp_conflicts rep))"

definition handle_trigger_sync_command ::
  "('x) rotation_env_scheme \<Rightarrow> ('w, 'y) vault_ops_scheme \<Rightarrow> ('u, 'f, 'z) task_ops_scheme \<Rightarrow> wait_env
     \<Rightarrow> ('w, ('u, 'f) sync_service) executor \<Rightarrow> command_result \<times> ('w, ('u, 'f) sync_service) executor" where
  "handle_trigger_sync_command E C T we x =
     (if ex_cancelled x then (cancelled_result ''sync'', x)
      else case build_sync_vault_data E C x of (vault_data, x1) \<Rightarrow>
      case ex_sync x1 of
        None \<Rightarrow> (sync_not_configured, x1)
      | Some s \<Rightarrow> (case with_sync (sync_with_cancel E T False we vault_data) s x1 of
          (Inr res, x2) \<Rightarrow>
            if we_cancelled we then (cancelled_result ''sync'', x2)
            else (sync_completed (sx_report res), apply_sync_result E C res x2)
        | (Inl e, x2) \<Rightarrow>
            if we_cancelled we \<or> (\<exists>operation. e = Cancelled operation) then (cancelled_result ''sync'', x2)
            else (sync_error_result ''error.sync_failed'' ''Sync failed: '' e, x2)))"

datatype conflict_resolution = KeepLocal | KeepRemote

definition strategy_of :: "conflict_resolution \<Rightarrow> resolution_strategy" where
  "strategy_of r = (case r of KeepLocal \<Rightarrow> StrategyKeepLocal | KeepRemote \<Rightarrow> StrategyKeepRemote)"

definition handle_resolve_conflict_command ::
  "('x) rotation_env_scheme \<Rightarrow> ('u, 'f, 'z) task_ops_scheme \<Rightarrow> wait_env \<Rightarrow> uuid \<Rightarrow> conflict_resolution
     \<Rightarrow> ('w, ('u, 'f) sync_service) executor \<Rightarrow> command_result \<times> ('w, ('u, 'f) sync_service) executor" where
  "handle_resolve_conflict_command E T we rid resolution x =
     (if ex_cancelled x then (cancelled_result ''sync'', x)
      else case ex_sync x of
        None \<Rightarrow> (sync_not_configured, x)
      | Some s \<Rightarrow> (case with_sync (service_resolve_conflict E T we (uuid_show E rid) (strategy_of resolution)) s x of
          (Inr _, x') \<Rightarrow> (ConflictResolved rid, x')
        | (Inl e, x') \<Rightarrow> (sync_error_result ''error.conflict_resolve_failed'' ''Failed to resolve conflict: '' e, x')))"

definition handle_resolve_all_conflicts_command ::
  "('x) rotation_env_scheme \<Rightarrow> ('u, 'f, 'z) task_ops_scheme \<Rightarrow> wait_env \<Rightarrow> conflict_resolution
     \<Rightarrow> ('w, ('u, 'f) sync_service) executor \<Rightarrow> command_result \<times> ('w, ('u, 'f) sync_service) executor" where
  "handle_resolve_all_conflicts_command E T we resolution x =
     (if ex_cancelled x then (cancelled_result ''sync'', x)
      else case ex_sync x of
        None \<Rightarrow> (sync_not_configured, x)
      | Some s \<Rightarrow> (case with_sync (service_resolve_all E T we (strategy_of resolution)) s x of
          (Inr n, x') \<Rightarrow> (command_result.AllConflictsResolved n, x')
        | (Inl e, x') \<Rightarrow> (sync_error_result ''error.conflict_resolve_all_failed'' ''Failed to resolve all conflicts: '' e, x')))"

section \<open>Restoring the database from the cloud\<close>

definition ensure_cloud_restore_has_records ::
  "('x) rotation_env_scheme \<Rightarrow> ('u, 'f, 'z) task_ops_scheme \<Rightarrow> wait_env \<Rightarrow> ('u, 'f) sync_service
     \<Rightarrow> (command_result + unit) \<times> ('u, 'f) sync_service" where
  "ensure_cloud_restore_has_records E T we s = (case service_download_metadata E T we s of
     (Inr (Some metadata), s') \<Rightarrow> (if cm_records metadata \<noteq> [] then Inr () else Inl (CommandError SyncProviderError error_context_new
        ''error.cloud_restore_empty'' ''No recoverable cloud sync data was found. Try restoring from a .okb backup.''), s')
   | (Inr None, s') \<Rightarrow> (Inl (CommandError SyncProviderError error_context_new
        ''error.cloud_restore_empty'' ''No recoverable cloud sync data was found. Try restoring from a .okb backup.''), s')
   | (Inl e, s') \<Rightarrow> (Inl (CommandError SyncProviderError error_context_new ''error.cloud_restore_failed''
        (''Cloud database restore failed: '' @ sync_error_to_string e)), s'))"

definition persist_restored_cloud_data ::
  "('x) rotation_env_scheme \<Rightarrow> ('w, 'y) vault_ops_scheme \<Rightarrow> vault_service \<Rightarrow> sync_result \<Rightarrow> ('w, unit) vault_io" where
  "persist_restored_cloud_data E C S res =
     io_bind (for_each (\<lambda>r. io_bind (apply_downloaded_cloud_record E C S r) (\<lambda>_. io_return ())) (sx_downloaded_records res)) (\<lambda>_.
     io_bind (for_each (\<lambda>state. dbq (upsert_record_health_state state)) (sx_downloaded_health_states res)) (\<lambda>_.
     io_bind (if sx_downloaded_health_deleted res = [] then io_return ()
              else io_bind (dbq (delete_record_health_states (sx_downloaded_health_deleted res))) (\<lambda>_. io_return ())) (\<lambda>_.
     case sx_remote_metadata res of Some metadata \<Rightarrow> store_remote_metadata E metadata | None \<Rightarrow> io_return ())))"

text \<open>The password given with the command, or the cached one, which is taken out of the cache.\<close>

datatype restore_master_password = Provided string | Cached string

definition take_restore_master_password :: "string option \<Rightarrow> string option \<Rightarrow> restore_master_password option \<times> string option" where
  "take_restore_master_password provided cached = (case provided of
     Some p \<Rightarrow> (Some (Provided p), cached) | None \<Rightarrow> (map_option Cached cached, None))"

definition restore_cache_on_failure :: "restore_master_password \<Rightarrow> string option \<Rightarrow> string option" where
  "restore_cache_on_failure pw cached = (case pw of Cached p \<Rightarrow> Some p | Provided _ \<Rightarrow> cached)"

end
