(* ===== verification/Exec_Sync_Laws.thy ===== *)
theory Exec_Sync_Laws
  imports Exec_Sync Vault_Inv Health_Laws
begin

text \<open>
  What the outcome of a sync does to the vault. The locale \<open>sync_outcome\<close> is the contract between the
  steps of the application and a property of the tables: when every step keeps it, so does the whole.
  It is used for the integrity of the schema, for the edits a sync did not exchange, and for the
  status of the records it did exchange.
\<close>

section \<open>Preservation over executor steps\<close>

definition ex_keeps :: "(vault_db \<Rightarrow> bool) \<Rightarrow> (('w, 's) executor \<Rightarrow> ('w, 's) executor) \<Rightarrow> bool" where
  "ex_keeps P f \<longleftrightarrow> (\<forall>x S d. ex_runtime x = RtOpen S d \<longrightarrow> P d \<longrightarrow> (\<exists>d'. ex_runtime (f x) = RtOpen S d' \<and> P d'))"

lemma ex_keepsD: "ex_keeps P f \<Longrightarrow> ex_runtime x = RtOpen S d \<Longrightarrow> P d \<Longrightarrow> \<exists>d'. ex_runtime (f x) = RtOpen S d' \<and> P d'"
  by (simp add: ex_keeps_def)

lemma ex_keeps_id: "ex_keeps P (\<lambda>x. x)"
  by (simp add: ex_keeps_def)

lemma ex_keeps_comp: "ex_keeps P f \<Longrightarrow> ex_keeps P g \<Longrightarrow> ex_keeps P (\<lambda>x. g (f x))"
  unfolding ex_keeps_def by blast

lemma ex_keeps_with_vault: "(\<And>S. keeps P (m S)) \<Longrightarrow> ex_keeps P (\<lambda>x. snd (with_vault m x))"
  unfolding ex_keeps_def keeps_def
  by (intro allI impI) (simp add: with_vault_def open_vault_def split: prod.splits, metis snd_conv vault.select_convs(1))

lemma ex_keeps_try: "(\<And>S. keeps P (m S)) \<Longrightarrow> ex_keeps P (try_vault m)"
  unfolding try_vault_def by (rule ex_keeps_with_vault)

lemma ex_keeps_fold: "(\<And>a. a \<in> set as \<Longrightarrow> ex_keeps P (f a)) \<Longrightarrow> ex_keeps P (fold f as)"
proof (induction as)
  case (Cons a as)
  then show ?case
    using ex_keeps_comp[of P "f a" "fold f as"] by (simp add: comp_def)
qed (simp add: ex_keeps_def)

lemma ex_keeps_report: "ex_keeps P f \<Longrightarrow> ex_keeps P (\<lambda>x. (f x)\<lparr>ex_health_report := h x\<rparr>)"
  unfolding ex_keeps_def by simp

lemma keeps_health_queries:
  "keeps P (list_record_health_states C)"
  "(\<And>ids d. P d \<Longrightarrow> P (d\<lparr>tb_health := filter (\<lambda>h. fst h \<notin> ids) (tb_health d)\<rparr>)) \<Longrightarrow> keeps P (delete_record_health_states is)"
  unfolding list_record_health_states_def delete_record_health_states_def
  by (simp add: keeps_def) (auto intro!: inv_intros keeps_exec simp: stmt_keeps_def)

lemma keeps_metadata_or: "keeps P (set_metadata k w :: ('w, unit) query) \<Longrightarrow> keeps P (vault_set_metadata k w :: ('w, unit) vault_io)"
  unfolding vault_set_metadata_def by (rule keeps_map_err)

section \<open>The contract\<close>

locale sync_outcome =
  fixes P :: "vault_db \<Rightarrow> bool" and E :: "('x) rotation_env_scheme" and C :: "('w, 'y) vault_ops_scheme" and res :: sync_result
  assumes download_law: "cr \<in> set (sx_downloaded_records res) \<Longrightarrow> keeps P (apply_downloaded_cloud_record E C S cr)"
    and downloaded_law: "cr \<in> set (sx_downloaded_records res) \<Longrightarrow> uuid_parse E (cr_id cr) = Some j \<Longrightarrow> keeps P (mark_record_synced C j)"
    and uploaded_law: "rid \<in> set (sx_uploaded_ids res) \<Longrightarrow> uuid_parse E rid = Some j \<Longrightarrow> keeps P (mark_record_synced C j)"
    and conflict_law: "c \<in> set (sx_conflict_data res) \<Longrightarrow> uuid_parse E (fst c) = Some j \<Longrightarrow> keeps P (mark_record_conflict C j (snd c))"
    and health_law: "keeps P (upsert_record_health_state h :: ('w, unit) query)"
    and health_delete_law: "P d \<Longrightarrow> P (d\<lparr>tb_health := filter (\<lambda>h. fst h \<notin> ids) (tb_health d)\<rparr>)"
    and metadata_law: "keeps P (set_metadata k w :: ('w, unit) query)"
begin

lemma download_step: "cr \<in> set (sx_downloaded_records res) \<Longrightarrow> ex_keeps P (apply_download E C cr)"
  unfolding apply_download_def mark_synced_id_def
  by (cases "uuid_parse E (cr_id cr)")
     (auto intro!: ex_keeps_comp[of P "try_vault _"] ex_keeps_try download_law downloaded_law)

lemma upload_step: "rid \<in> set (sx_uploaded_ids res) \<Longrightarrow> ex_keeps P (mark_synced_id E C rid)"
  unfolding mark_synced_id_def
  by (cases "uuid_parse E rid") (auto intro!: ex_keeps_id ex_keeps_try uploaded_law)

lemma conflict_step: "c \<in> set (sx_conflict_data res) \<Longrightarrow> ex_keeps P (mark_conflict_id E C c)"
  unfolding mark_conflict_id_def
  by (cases "uuid_parse E (fst c)") (auto intro!: ex_keeps_id ex_keeps_try conflict_law)

lemma metadata_step: "keeps P (store_remote_metadata E m :: ('w, unit) vault_io)"
  unfolding store_remote_metadata_def by (intro inv_intros keeps_metadata_or metadata_law)

lemma reload_step: "ex_keeps P (reload_health_report C :: ('w, 's) executor \<Rightarrow> _)"
  unfolding ex_keeps_def
proof (intro allI impI)
  fix x :: "('w, 's) executor" and S d
  assume a: "ex_runtime x = RtOpen S d" "P d"
  have "ex_keeps P (\<lambda>x :: ('w, 's) executor. snd (with_vault (\<lambda>_. dbq (list_record_health_states C)) x))"
    by (rule ex_keeps_with_vault) (intro keeps_map_err keeps_health_queries)
  from ex_keepsD[OF this a] show "\<exists>d'. ex_runtime (reload_health_report C x) = RtOpen S d' \<and> P d'"
    by (auto simp: reload_health_report_def load_cached_health_report_def io_bind_def split: prod.splits sum.splits)
qed

theorem outcome_keeps: "ex_keeps P (apply_sync_result E C res :: ('w, 's) executor \<Rightarrow> _)"
proof -
  have h: "ex_keeps P (fold (\<lambda>state. try_vault (\<lambda>_. dbq (upsert_record_health_state state))) hs :: ('w, 's) executor \<Rightarrow> _)" for hs
    by (intro ex_keeps_fold ex_keeps_try keeps_map_err health_law)
  have hd: "ex_keeps P (\<lambda>x :: ('w, 's) executor. if ids = [] then x else try_vault (\<lambda>_. dbq (delete_record_health_states ids)) x)" for ids
    by (cases "ids = []") (auto intro!: ex_keeps_id ex_keeps_try keeps_map_err keeps_health_queries(2) health_delete_law)
  have m: "ex_keeps P (\<lambda>x :: ('w, 's) executor. case om of Some metadata \<Rightarrow> try_vault (\<lambda>_. store_remote_metadata E metadata) x | None \<Rightarrow> x)" for om
    by (cases om) (auto intro!: ex_keeps_id ex_keeps_try metadata_step)
  show ?thesis
    unfolding apply_sync_result_def Let_def
    by (intro ex_keeps_comp[OF _ reload_step] ex_keeps_comp[OF _ m] ex_keeps_comp[OF _ hd] ex_keeps_comp[OF _ h]
        ex_keeps_comp[OF _ ex_keeps_fold[OF conflict_step]] ex_keeps_comp[OF _ ex_keeps_fold[OF upload_step]]
        ex_keeps_fold[OF download_step])
qed

end

interpretation sync_wf: sync_outcome db_wf E C res
  for E :: "('x) rotation_env_scheme" and C :: "('w, 'y) vault_ops_scheme" and res
proof unfold_locales
  show "db_wf (d\<lparr>tb_health := filter (\<lambda>h. fst h \<notin> ids) (tb_health d)\<rparr>)" if "db_wf d" for d ids
    using that by (auto simp: db_wf_def distinct_map_filter_fst)
qed (auto intro: wf.download_methods wf.sync_queries inv_intros)

section \<open>The application of one download\<close>

text \<open>Every statement of the application is about the downloaded record, or about a table of tags, names or health states.\<close>

locale download_frame =
  fixes P :: "vault_db \<Rightarrow> bool" and rid :: uuid and C :: "('w, 'y) vault_ops_scheme"
  assumes add_law: "rid \<notin> fst ` set (tb_records d) \<Longrightarrow> P d \<Longrightarrow> P (d\<lparr>tb_records := tb_records d @ [(rid, row)]\<rparr>)"
    and update_law: "stmt_keeps P (update_rows (\<lambda>j row. j = rid \<and> c row) f)"
    and other_law: "P d \<Longrightarrow> tb_records d' = tb_records d \<Longrightarrow> tb_sync d' = tb_sync d \<Longrightarrow> P d'"
begin

lemma other_stmt:
  "(\<And>d. tb_records (snd (st d)) = tb_records d \<and> tb_sync (snd (st d)) = tb_sync d) \<Longrightarrow> stmt_keeps P st"
  unfolding stmt_keeps_def using other_law by blast

lemma queries:
  "keeps P (get_or_create_tag name :: ('w, int) query)"
  "keeps P (attach_tag j tag_id :: ('w, unit) query)"
  "keeps P (detach_all_tags_for_record j :: ('w, unit) query)"
  "keeps P (upsert_record_list_index C j name subtitle)"
  "keeps P (set_metadata k x :: ('w, unit) query)"
  "keeps P (upsert_record_health_state h :: ('w, unit) query)"
  "keeps P (delete_record_health_state j :: ('w, unit) query)"
  "stmt_keeps P (insert_or_ignore_tag name)"
  unfolding get_or_create_tag_def insert_tag_def attach_tag_def detach_all_tags_for_record_def upsert_record_list_index_def
    set_metadata_def upsert_record_health_state_def delete_record_health_state_def
  by (intro inv_intros other_stmt; simp add: change_def add_tag_def insert_or_ignore_tag_def)+

lemma health_delete: "P d \<Longrightarrow> P (d\<lparr>tb_health := filter (\<lambda>h. fst h \<notin> ids) (tb_health d)\<rparr>)"
  by (erule other_law) simp_all

lemma insert: "sr_id r = rid \<Longrightarrow> keeps P (insert_record r :: ('w, unit) query)"
proof -
  assume "sr_id r = rid"
  then have "stmt_keeps P (\<lambda>d. if sr_id r \<in> fst ` set (tb_records d) then (Inl (UniqueFailed ''records.id''), d)
      else (Inr (), d\<lparr>tb_records := tb_records d @ [(sr_id r, row_of_record r)]\<rparr>))"
    using add_law by (simp add: stmt_keeps_def)
  then show ?thesis
    unfolding insert_record_def by (intro inv_intros queries)
qed

lemma update: "sr_id r = rid \<Longrightarrow> keeps P (update_record r ver :: ('w, bool) query)"
  "keeps P (update_record_deleted_state rid b at :: ('w, unit) query)"
  unfolding update_record_def update_record_deleted_state_def
  using update_law[of "\<lambda>row. rr_version row = sint ver"] update_law[of "\<lambda>_. True"]
  by (auto intro!: inv_intros)

lemma index_methods:
  "keeps P (mark_record_list_index_dirty :: ('w, unit) vault_io)" "keeps P (mark_record_list_index_clean :: ('w, unit) vault_io)"
  "keeps P (upsert_record_list_index_for_stored E C S r)" "keeps P (attach_tags j tags :: ('w, unit) vault_io)"
  unfolding mark_record_list_index_dirty_def mark_record_list_index_clean_def upsert_record_list_index_for_payload_def
    upsert_record_list_index_for_stored_def attach_tags_def
  by (intro inv_intros queries)+

lemma fallback: "keeps P (index_or_fallback E C S r priv cr)"
  using index_methods(3)[of E S r] queries(4)[THEN keeps_map_err]
  by (fastforce simp: keeps_def index_or_fallback_def Let_def split: prod.splits sum.splits vault_error.splits)

lemma bind_parsed: "io_bind (crypto_res (ok_or e (Some j))) f = f j"
  by (intro ext) (simp add: crypto_res_def ok_or_def io_bind_def io_lift_def)

theorem download:
  assumes "uuid_parse E (cr_id cr) = Some rid" shows "keeps P (apply_downloaded_cloud_record E C S cr)"
  unfolding apply_downloaded_cloud_record_def assms bind_parsed Let_def
  by (intro inv_intros insert update index_methods fallback queries) (simp_all add: downloaded_stored_record_def Let_def)

end

lemma download_not_parsed:
  "uuid_parse E (cr_id cr) = None \<Longrightarrow> keeps P (apply_downloaded_cloud_record E C S cr)"
  by (simp add: keeps_def apply_downloaded_cloud_record_def crypto_res_def io_bind_def io_lift_def ok_or_def)

section \<open>What a sync did not exchange\<close>

text \<open>The row of a record and its sync state.\<close>

definition row_and_state :: "uuid \<Rightarrow> record_row option \<times> sync_row option \<Rightarrow> vault_db \<Rightarrow> bool" where
  "row_and_state i rs d \<longleftrightarrow> map_of (tb_records d) i = fst rs \<and> map_of (tb_sync d) i = snd rs"

lemma rows_update_other: "\<not> (\<exists>row. cond i row) \<Longrightarrow> map_of (map (\<lambda>(j, row). (j, if cond j row then f row else row)) xs) i = map_of xs i"
  by (induction xs) auto

lemma other_frame: "rid \<noteq> i \<Longrightarrow> download_frame (row_and_state i rs) rid"
  by unfold_locales
     (auto simp: row_and_state_def stmt_keeps_def update_rows_def rows_update_other map_add_def split: option.splits)

lemma other_marks:
  assumes "rid \<noteq> i"
  shows "keeps (row_and_state i rs) (mark_record_synced C rid)" "keeps (row_and_state i rs) (mark_record_conflict C rid b)"
proof -
  have "stmt_keeps (row_and_state i rs) (upsert_sync rid f)" for f
    using assms by (simp add: stmt_keeps_def upsert_sync_def row_and_state_def update_conv')
  then show "keeps (row_and_state i rs) (mark_record_synced C rid)" "keeps (row_and_state i rs) (mark_record_conflict C rid b)"
    unfolding mark_record_synced_def mark_record_conflict_def mark_sync_state_synced_def mark_sync_state_conflict_def
    by (intro inv_intros; assumption)+
qed

definition exchanged :: "('x) env_scheme \<Rightarrow> sync_result \<Rightarrow> uuid set" where
  "exchanged E res = {i. (\<exists>cr \<in> set (sx_downloaded_records res). uuid_parse E (cr_id cr) = Some i)
     \<or> (\<exists>rid \<in> set (sx_uploaded_ids res). uuid_parse E rid = Some i)
     \<or> (\<exists>c \<in> set (sx_conflict_data res). uuid_parse E (fst c) = Some i)}"

lemma other_outcome:
  fixes C :: "('w, 'y) vault_ops_scheme"
  assumes i: "i \<notin> exchanged E res"
  shows "sync_outcome (row_and_state i rs) E C res"
proof
  fix cr S j assume cr: "cr \<in> set (sx_downloaded_records res)"
  show "keeps (row_and_state i rs) (apply_downloaded_cloud_record E C S cr)"
  proof (cases "uuid_parse E (cr_id cr)")
    case (Some j)
    then have "j \<noteq> i" using i cr by (auto simp: exchanged_def)
    from download_frame.download[OF other_frame[OF this]] Some show ?thesis .
  qed (rule download_not_parsed)
  show "keeps (row_and_state i rs) (mark_record_synced C j)" if "uuid_parse E (cr_id cr) = Some j"
    using i cr that by (intro other_marks) (auto simp: exchanged_def)
next
  show "keeps (row_and_state i rs) (mark_record_synced C j)" if "rid \<in> set (sx_uploaded_ids res)" "uuid_parse E rid = Some j" for rid j
    using i that by (intro other_marks) (auto simp: exchanged_def)
next
  show "keeps (row_and_state i rs) (mark_record_conflict C j (snd c))"
    if "c \<in> set (sx_conflict_data res)" "uuid_parse E (fst c) = Some j" for c j
    using i that by (intro other_marks) (auto simp: exchanged_def)
next
  show "keeps (row_and_state i rs) (upsert_record_health_state h :: ('w, unit) query)" for h
    unfolding upsert_record_health_state_def by (rule keeps_exec) (simp add: stmt_keeps_def row_and_state_def)
next
  show "row_and_state i rs (d\<lparr>tb_health := filter (\<lambda>h. fst h \<notin> ids) (tb_health d)\<rparr>)" if "row_and_state i rs d" for d ids
    using that by (simp add: row_and_state_def)
next
  show "keeps (row_and_state i rs) (set_metadata k w :: ('w, unit) query)" for k w
    unfolding set_metadata_def by (rule keeps_exec) (simp add: stmt_keeps_def change_def row_and_state_def)
qed

section \<open>What it did exchange\<close>

definition present :: "uuid \<Rightarrow> vault_db \<Rightarrow> bool" where
  "present i d \<longleftrightarrow> i \<in> fst ` set (tb_records d)"

definition settled :: "uuid \<Rightarrow> vault_db \<Rightarrow> bool" where
  "settled i d \<longleftrightarrow> present i d \<and> map_option sy_sync_status (map_of (tb_sync d) i) = Some (sync_status_to_int StSynced)"

interpretation present: download_frame "present i" rid C for i rid and C :: "('w, 'y) vault_ops_scheme"
  by unfold_locales (auto simp: present_def stmt_keeps_def update_rows_def fst_set_update simp del: set_map list.set_map)

interpretation settled: download_frame "settled i" rid C for i rid and C :: "('w, 'y) vault_ops_scheme"
  by unfold_locales (auto simp: settled_def present_def stmt_keeps_def update_rows_def fst_set_update simp del: set_map list.set_map)

lemma mark_synced_keeps:
  "keeps (present i) (mark_record_synced C j)" "keeps (present i) (mark_record_conflict C j b)"
  "keeps (settled i) (mark_record_synced C j)" "j \<noteq> i \<Longrightarrow> keeps (settled i) (mark_record_conflict C j b)"
proof -
  have p: "stmt_keeps (present i) (upsert_sync j f)" for f
    by (simp add: stmt_keeps_def upsert_sync_def present_def)
  have s: "stmt_keeps (settled i) (upsert_sync j f)" if "j = i \<Longrightarrow> (\<And>old. sy_sync_status (f old) = sync_status_to_int StSynced)" for f
    using that by (auto simp: stmt_keeps_def upsert_sync_def settled_def present_def update_conv')
  show "keeps (present i) (mark_record_synced C j)" "keeps (present i) (mark_record_conflict C j b)"
    "keeps (settled i) (mark_record_synced C j)" "j \<noteq> i \<Longrightarrow> keeps (settled i) (mark_record_conflict C j b)"
    unfolding mark_record_synced_def mark_record_conflict_def mark_sync_state_synced_def mark_sync_state_conflict_def
    by (intro inv_intros p s; simp)+
qed

lemma mark_settles: "present i (v_db v) \<Longrightarrow> settled i (v_db (snd (mark_record_synced C i v)))"
  by (auto simp: mark_record_synced_def mark_sync_state_synced_def io_map_err_def io_bind_def utc_now_def exec_def upsert_sync_def
      settled_def present_def update_conv' Let_def split: prod.splits)

lemma present_outcome: "sync_outcome (present i) E C res"
proof
  show "keeps (present i) (apply_downloaded_cloud_record E C S cr)" for cr S
    by (cases "uuid_parse E (cr_id cr)") (auto intro: download_not_parsed present.download)
qed (rule mark_synced_keeps present.queries present.health_delete; assumption?)+

lemma settled_outcome:
  assumes "\<And>c. c \<in> set (sx_conflict_data res) \<Longrightarrow> uuid_parse E (fst c) \<noteq> Some i"
  shows "sync_outcome (settled i) E C res"
proof
  show "keeps (settled i) (apply_downloaded_cloud_record E C S cr)" for cr S
    by (cases "uuid_parse E (cr_id cr)") (auto intro: download_not_parsed settled.download)
  show "keeps (settled i) (mark_record_conflict C j (snd c))"
    if "c \<in> set (sx_conflict_data res)" "uuid_parse E (fst c) = Some j" for c j
    using assms[OF that(1)] that(2) by (intro mark_synced_keeps) auto
qed (rule mark_synced_keeps settled.queries settled.health_delete; assumption?)+

lemma ex_present_step:
  assumes "uuid_parse E rid = Some i" "ex_runtime x = RtOpen S d" "present i d"
  obtains d' where "ex_runtime (mark_synced_id E C rid x) = RtOpen S d'" "settled i d'"
proof -
  have "settled i (v_db (snd (mark_record_synced C i \<lparr> v_db = d, v_ext = ex_world x \<rparr>)))"
    by (rule mark_settles) (simp add: assms(3))
  then show thesis
    using assms(1,2) that
    by (cases "mark_record_synced C i \<lparr> v_db = d, v_ext = ex_world x \<rparr>")
       (simp add: mark_synced_id_def try_vault_def with_vault_def open_vault_def)
qed

lemma uploads_settled:
  assumes open_ok: "ex_runtime x = RtOpen S d" and i: "present i d" "rid \<in> set (sx_uploaded_ids res)" "uuid_parse E rid = Some i"
    and quiet: "\<And>c. c \<in> set (sx_conflict_data res) \<Longrightarrow> uuid_parse E (fst c) \<noteq> Some i"
  shows "\<exists>d'. ex_runtime (apply_sync_result E C res x) = RtOpen S d' \<and> settled i d'"
proof -
  obtain as bs where split: "sx_uploaded_ids res = as @ rid # bs"
    using split_list[OF i(2)] by blast
  let ?x1 = "fold (mark_synced_id E C) as (fold (apply_download E C) (sx_downloaded_records res) x)"
  have "ex_keeps (present i) (\<lambda>x. fold (mark_synced_id E C) as (fold (apply_download E C) (sx_downloaded_records res) x))"
    by (rule ex_keeps_comp[OF ex_keeps_fold ex_keeps_fold])
       (erule sync_outcome.download_step[OF present_outcome], rule sync_outcome.upload_step[OF present_outcome[of i E C res]], simp add: split)
  from ex_keepsD[OF this open_ok i(1)] obtain d1 where d1: "ex_runtime ?x1 = RtOpen S d1" "present i d1"
    by blast
  obtain d2 where d2: "ex_runtime (mark_synced_id E C rid ?x1) = RtOpen S d2" "settled i d2"
    by (rule ex_present_step[OF i(3) d1])
  let ?rest = "res\<lparr>sx_downloaded_records := [], sx_uploaded_ids := bs\<rparr>"
  have "sync_outcome (settled i) E C ?rest"
    by (rule settled_outcome) (simp add: quiet)
  from ex_keepsD[OF sync_outcome.outcome_keeps[OF this] d2]
  moreover have "apply_sync_result E C ?rest (mark_synced_id E C rid ?x1) = apply_sync_result E C res x"
    by (simp add: apply_sync_result_def Let_def split cong: option.case_cong if_cong)
  ultimately show ?thesis
    by simp
qed

section \<open>The request\<close>

lemma keeps_sync_reads:
  "keeps P (metadata_or_none key :: ('w, string option) vault_io)" "keeps P (list_stored_records_for_sync C)"
  "keeps P (list_all_records C)"
  unfolding metadata_or_none_def list_stored_records_for_sync_def list_all_records_def vault_get_metadata_def
  by (intro inv_intros)+

lemma keeps_build: "keeps P (build_cloud_record_for_sync E C S r h)"
  unfolding build_cloud_record_for_sync_def by (intro inv_intros)

lemma keeps_build_uploads: "keeps P (build_uploads E C S health rs)"
  by (induction rs) (simp_all only: build_uploads.simps; intro inv_intros keeps_build; assumption?)+

lemma keeps_snapshot: "keeps P (vault_snapshot E C S)"
  unfolding vault_snapshot_def Let_def by (intro inv_intros keeps_build_uploads keeps_sync_reads keeps_health_queries)

lemma snapshot_state: "snd (build_sync_vault_data E C x) = snd (with_vault (vault_snapshot E C) x)"
  by (auto simp: build_sync_vault_data_def split: prod.splits sum.splits)

lemma ex_keeps_build: "ex_keeps P (\<lambda>x. snd (build_sync_vault_data E C x))"
  unfolding snapshot_state by (rule ex_keeps_with_vault) (rule keeps_snapshot)

lemma outcome_open: "sync_outcome (\<lambda>_. True) E C res"
  by unfold_locales (simp_all add: keeps_def)

lemma with_sync_runtime: "with_sync m s x = (r, x') \<Longrightarrow> ex_runtime x' = ex_runtime x"
  by (auto simp: with_sync_def split: prod.splits)


text \<open>A vault open with one pending record, and a sync service whose task has nothing to do.\<close>

definition demo_sync_ex :: "(nat, (mem_world, int) sync_service) executor" where
  "demo_sync_ex = \<lparr> ex_runtime = RtOpen demo_service (v_db demo_vault1), ex_file_backed = True, ex_vault_dir = ''v'', ex_verified_password = None, ex_world = 8,
     ex_sync = Some (service_new 2000 200 ''webdav'' (mem_init 0)), ex_security = ex_security demo_ex, ex_health_report = None,
     ex_last_health_check = None, ex_internal = [], ex_cancelled = False \<rparr>"

lemma snapshot_sync: "ex_sync (snd (build_sync_vault_data E C x)) = ex_sync x"
  by (auto simp: snapshot_state with_vault_def split: sum.splits prod.splits)

lemma cancelled_before_turn:
  assumes "ex_sync x = Some (service_new two fifth p w)" "\<not> ex_cancelled x" "we = \<lparr> we_turns = [], we_cancelled = True \<rparr>"
  shows "fst (handle_trigger_sync_command E C T we x) = cancelled_result ''sync''"
  using assms snapshot_sync[of E C x]
  by (auto simp: handle_trigger_sync_command_def with_sync_def sync_with_cancel_def send_command_def wait_for_event_or_cancel_def
      service_new_def sync_task_new_def io_bind_def Let_def split: prod.splits)


text \<open>C8: the application of a sync result keeps the row and the sync state of every record the sync did not
  download, upload or find in conflict, whatever else in it fails; and every uploaded record that is in
  the vault and not in conflict is marked synced.\<close>

theorem sync_result_reaches_vault:
  assumes "ex_runtime x = RtOpen S d"
  shows "\<exists>d'. ex_runtime (apply_sync_result E C res x) = RtOpen S d'
    \<and> (\<forall>i. i \<notin> exchanged E res \<longrightarrow> map_of (tb_records d') i = map_of (tb_records d) i \<and> map_of (tb_sync d') i = map_of (tb_sync d) i)
    \<and> (\<forall>rid i. rid \<in> set (sx_uploaded_ids res) \<longrightarrow> uuid_parse E rid = Some i \<longrightarrow> map_of (tb_records d) i \<noteq> None
         \<longrightarrow> Some i \<notin> uuid_parse E ` fst ` set (sx_conflict_data res)
         \<longrightarrow> map_option sy_sync_status (map_of (tb_sync d') i) = Some (sync_status_to_int StSynced))"
proof -
  obtain d' where d': "ex_runtime (apply_sync_result E C res x) = RtOpen S d'"
    using ex_keepsD[OF sync_outcome.outcome_keeps[OF outcome_open] assms, of E C res] by blast
  have "row_and_state i (map_of (tb_records d) i, map_of (tb_sync d) i) d'" if "i \<notin> exchanged E res" for i
    using ex_keepsD[OF sync_outcome.outcome_keeps[OF other_outcome[OF that]] assms, of "(map_of (tb_records d) i, map_of (tb_sync d) i)" C] d'
    by (simp add: row_and_state_def)
  moreover have "settled i d'"
    if "rid \<in> set (sx_uploaded_ids res)" "uuid_parse E rid = Some i" "map_of (tb_records d) i \<noteq> None"
      "Some i \<notin> uuid_parse E ` fst ` set (sx_conflict_data res)" for rid i
  proof -
    have "present i d" using that(3) by (auto simp: present_def map_of_eq_None_iff)
    moreover have "uuid_parse E (fst c) \<noteq> Some i" if "c \<in> set (sx_conflict_data res)" for c
      using that that(1) \<open>Some i \<notin> uuid_parse E ` fst ` set (sx_conflict_data res)\<close> by force
    ultimately show ?thesis
      using uploads_settled[where C = C, OF assms _ that(1,2)] d' by auto
  qed
  ultimately show ?thesis
    using d' unfolding row_and_state_def settled_def by fastforce
qed

definition demo_uploaded :: sync_result where
  "demo_uploaded = \<lparr> sx_report = \<lparr> rp_uploaded = 1, rp_downloaded = 0, rp_conflicts = 0, rp_failed = 0, rp_duration_ms = 0 \<rparr>,
     sx_downloaded_health_states = [], sx_downloaded_health_deleted = [], sx_downloaded_records = [],
     sx_uploaded_ids = [uuid_show demo_rotation_env 7], sx_conflict_data = [], sx_remote_metadata = None \<rparr>"

theorem sync_result_reaches_vault_witness:
  "\<exists>d'. ex_runtime (apply_sync_result demo_rotation_env demo_vault_ops demo_uploaded demo_sync_ex) = RtOpen demo_service d'
     \<and> map_option sy_sync_status (map_of (tb_sync d') 7) = Some (sync_status_to_int StSynced)
     \<and> map_of (tb_records d') 9 = map_of (tb_records (v_db demo_vault1)) 9"
proof -
  have p: "uuid_parse demo_rotation_env (uuid_show demo_rotation_env u) = Some u" for u
    using demo_rotation_laws(3) by (simp add: env_laws_def)
  have "ex_runtime demo_sync_ex = RtOpen demo_service (v_db demo_vault1)" "map_of (tb_records (v_db demo_vault1)) 7 \<noteq> None"
    by (simp_all add: demo_sync_ex_def demo_vault1_def)
  from sync_result_reaches_vault[OF this(1), of demo_rotation_env demo_vault_ops demo_uploaded] this(2) show ?thesis
    by (auto simp: demo_uploaded_def exchanged_def p)
qed

end
