(* ===== verification/Exec_Rotation.thy ===== *)
theory Exec_Rotation
  imports Exec_Sync
begin

text \<open>
  The rotation handlers of the executor (\<open>executor/rotation.rs\<close>): the protocol that pauses the sync
  service, rotates, publishes the new version of the key with a compare-and-swap and resumes the
  service. What happens during the wait of each request is an argument.
\<close>

section \<open>The configuration\<close>

text \<open>A read error of the metadata counts as no configuration, an unreadable one does not.\<close>

definition load_rotation_config :: "('x) rotation_env_scheme \<Rightarrow> ('w vault, string, rotation_config) io" where
  "load_rotation_config E v = (case vault_get_metadata ''rotation_config'' v of
     (Inr (Some (c # s)), v') \<Rightarrow> (de_rot_config E (c # s), v')
   | (_, v') \<Rightarrow> (Inr rotation_config_default, v'))"

section \<open>The protocol\<close>

record rotation_waits =
  rw_pause :: wait_env
  rw_expected :: wait_env
  rw_current :: wait_env
  rw_push :: wait_env
  rw_align :: wait_env
  rw_resume :: wait_env

definition resolve_cas_conflict ::
  "('x) rotation_env_scheme \<Rightarrow> ('u, 'f, 'z) task_ops_scheme \<Rightarrow> wait_env \<Rightarrow> u32 \<Rightarrow> ('u, 'f) sync_service
     \<Rightarrow> (string + u32) \<times> ('u, 'f) sync_service" where
  "resolve_cas_conflict E T we local_new_version s = (case service_download_metadata E T we s of
     (Inr (Some cloud_meta), s') \<Rightarrow>
       (let cloud_dek = cm_current_dek_version cloud_meta in
        (if cloud_dek = local_new_version then Inr cloud_dek
         else if local_new_version < cloud_dek then Inr cloud_dek
         else Inl (''CAS conflict anomaly: cloud dek_version '' @ show_word cloud_dek @ '' < local '' @ show_word local_new_version)), s')
   | (Inr None, s') \<Rightarrow> (Inl (''CAS conflict but cloud metadata vanished '' @ [CHR 0xE2, CHR 0x80, CHR 0x94] @ '' transient inconsistency''), s')
   | (Inl e, s') \<Rightarrow> (Inl (''CAS conflict and failed to download cloud metadata for alignment: '' @ sync_error_to_string e), s'))"

type_synonym ('w, 'u, 'f) sync_executor = "('w, ('u, 'f) sync_service) executor"

text \<open>A request to the service, when there is one.\<close>

definition ask_sync ::
  "('u, 'f, 'a) sync_io \<Rightarrow> ('w, 'u, 'f) sync_executor \<Rightarrow> (sync_error + 'a) option \<times> ('w, 'u, 'f) sync_executor" where
  "ask_sync m x = (case ex_sync x of None \<Rightarrow> (None, x) | Some s \<Rightarrow> (case with_sync m s x of (r, x') \<Rightarrow> (Some r, x')))"

definition resume_sync ::
  "('x) rotation_env_scheme \<Rightarrow> ('u, 'f, 'z) task_ops_scheme \<Rightarrow> wait_env \<Rightarrow> ('w, 'u, 'f) sync_executor \<Rightarrow> ('w, 'u, 'f) sync_executor" where
  "resume_sync E T we x = snd (ask_sync (service_resume E T we) x)"

text \<open>The closure given to the protocol runs on a fresh service; its own errors are values here.\<close>

type_synonym 'w rotation_action = "vault_service \<Rightarrow> u64 \<Rightarrow> ('w, rotation_result) service_io"

definition run_rotation ::
  "'w rotation_action \<Rightarrow> u64 \<Rightarrow> ('w, 's) executor \<Rightarrow> (vault_error + (rotation_error + rotation_result)) \<times> ('w, 's) executor" where
  "run_rotation action expected_version = with_vault (\<lambda>S v. case action S expected_version (v, RotIdle) of (r, (v', _)) \<Rightarrow> (Inr r, v'))"

text \<open>The version the protocol read first; without a service it is zero.\<close>

definition expected_version ::
  "('x) rotation_env_scheme \<Rightarrow> ('u, 'f, 'z) task_ops_scheme \<Rightarrow> wait_env \<Rightarrow> ('w, 'u, 'f) sync_executor
     \<Rightarrow> (sync_error + u64) \<times> ('w, 'u, 'f) sync_executor" where
  "expected_version E T we x = (case ask_sync (service_download_metadata E T we) x of
     (Some (Inr (Some meta)), x') \<Rightarrow> (Inr (cm_metadata_version meta), x')
   | (Some (Inr None), x') \<Rightarrow> (Inr 0, x')
   | (Some (Inl e), x') \<Rightarrow> (Inl e, x')
   | (None, x') \<Rightarrow> (Inr 0, x'))"

definition rotation_conflict :: "string \<Rightarrow> rotation_result \<Rightarrow> sync_error \<Rightarrow> string + u32 \<Rightarrow> command_result" where
  "rotation_conflict label res cas_err alignment =
     CommandError RotationConflictDetected error_context_new ''error.rotation_cas_conflict'' (
       ''DEK '' @ label @ '' v'' @ show_word (rr_old_dek_version res) @ '' -> v'' @ show_word (rr_new_dek_version res)
       @ '' completed locally but '' @ (case alignment of
         Inr cloud_dek \<Rightarrow> ''another device updated cloud simultaneously. Local data is safe (cloud DEK v'' @ show_word cloud_dek
           @ ''). Records will sync on next cycle. CAS error: '' @ sync_error_to_string cas_err
       | Inl align_err \<Rightarrow> ''cloud push failed: '' @ sync_error_to_string cas_err
           @ ''. Alignment check also failed. Local data is safe. Manual sync recommended. Alignment error: '' @ align_err))"

definition rotation_completed :: "rotation_result \<Rightarrow> command_result" where
  "rotation_completed res = RotationCompleted (rr_old_dek_version res) (rr_new_dek_version res) (rr_records_migrated res)"

text \<open>Publishing the new version; only a failed swap is reported.\<close>

definition publish_version ::
  "('x) rotation_env_scheme \<Rightarrow> ('u, 'f, 'z) task_ops_scheme \<Rightarrow> rotation_waits \<Rightarrow> string \<Rightarrow> u64 \<Rightarrow> rotation_result
     \<Rightarrow> ('w, 'u, 'f) sync_executor \<Rightarrow> command_result \<times> ('w, 'u, 'f) sync_executor" where
  "publish_version E T waits label expected res x = (case ask_sync (service_download_metadata E T (rw_current waits)) x of
     (Some (Inr (Some meta)), x1) \<Rightarrow>
       (let meta = meta\<lparr>cm_current_dek_version := rr_new_dek_version res, cm_metadata_version := cm_metadata_version meta + 1\<rparr> in
        case ask_sync (service_push_metadata_atomic E T (rw_push waits) meta expected) x1 of
          (Some (Inl cas_err), x2) \<Rightarrow>
            (case ex_sync x2 of
               Some s \<Rightarrow> (case resolve_cas_conflict E T (rw_align waits) (rr_new_dek_version res) s of
                 (alignment, s') \<Rightarrow> (rotation_conflict label res cas_err alignment, x2\<lparr>ex_sync := Some s'\<rparr>))
             | None \<Rightarrow> (rotation_completed res, x2))
        | (_, x2) \<Rightarrow> (rotation_completed res, x2))
   | (_, x1) \<Rightarrow> (rotation_completed res, x1))"

definition execute_rotation_protocol ::
  "('x) rotation_env_scheme \<Rightarrow> ('u, 'f, 'z) task_ops_scheme \<Rightarrow> rotation_waits \<Rightarrow> string \<Rightarrow> string \<Rightarrow> 'w rotation_action
     \<Rightarrow> ('w, 'u, 'f) sync_executor \<Rightarrow> command_result \<times> ('w, 'u, 'f) sync_executor" where
  "execute_rotation_protocol E T waits label rotation_error_key action x =
     (if ex_cancelled x then (cancelled_result ''rotation'', x)
      else case ask_sync (service_pause E T (rw_pause waits)) x of
        (Some (Inl e), x1) \<Rightarrow> (CommandError (sync_error_code e) (sync_error_context e) ''error.sync_pause_failed''
           (''Failed to pause sync for '' @ label @ '': '' @ sync_error_to_string e), x1)
      | (_, x1) \<Rightarrow>
      (case expected_version E T (rw_expected waits) x1 of
        (Inl e, x2) \<Rightarrow> (CommandError (sync_error_code e) (sync_error_context e) ''error.download_metadata_failed''
           (''Failed to download cloud metadata for '' @ label @ '': '' @ sync_error_to_string e), resume_sync E T (rw_resume waits) x2)
      | (Inr expected, x2) \<Rightarrow>
      (case run_rotation action expected x2 of
        (Inl e, x3) \<Rightarrow> (vault_not_available E ''Vault is not available for rotation: '' e, resume_sync E T (rw_resume waits) x3)
      | (Inr (Inl e), x3) \<Rightarrow> (CommandError (rotation_error_code e) (rotation_error_context e) rotation_error_key
           (''DEK '' @ label @ '' failed: '' @ rotation_error_to_string e), resume_sync E T (rw_resume waits) x3)
      | (Inr (Inr res), x3) \<Rightarrow> (case publish_version E T waits label expected res x3 of
          (out, x4) \<Rightarrow> (out, resume_sync E T (rw_resume waits) x4)))))"

section \<open>Handlers\<close>

definition handle_trigger_rotation ::
  "('x) rotation_env_scheme \<Rightarrow> ('w, 'y) vault_ops_scheme \<Rightarrow> ('u, 'f, 'z) task_ops_scheme \<Rightarrow> rotation_waits
     \<Rightarrow> ('w, 'u, 'f) sync_executor \<Rightarrow> command_result \<times> ('w, 'u, 'f) sync_executor" where
  "handle_trigger_rotation E C T waits =
     execute_rotation_protocol E T waits ''rotation'' ''error.rotation_failed'' (\<lambda>S version. trigger_rotation E C S version)"

definition pending_checkpoint ::
  "('x) rotation_env_scheme \<Rightarrow> ('w, 's) executor \<Rightarrow> (vault_error + bool) \<times> ('w, 's) executor" where
  "pending_checkpoint E = with_vault (\<lambda>S v. case has_pending_checkpoint E (v, RotIdle) of (r, (v', _)) \<Rightarrow> (Inr (r = Inr True), v'))"

definition handle_resume_rotation ::
  "('x) rotation_env_scheme \<Rightarrow> ('w, 'y) vault_ops_scheme \<Rightarrow> ('u, 'f, 'z) task_ops_scheme \<Rightarrow> rotation_waits
     \<Rightarrow> ('w, 'u, 'f) sync_executor \<Rightarrow> command_result \<times> ('w, 'u, 'f) sync_executor" where
  "handle_resume_rotation E C T waits x = (case pending_checkpoint E x of
     (Inl e, x1) \<Rightarrow> (vault_not_available E ''Vault is not available: '' e, x1)
   | (Inr has_checkpoint, x1) \<Rightarrow>
       if \<not> has_checkpoint then (RotationTriggerChecked False (Some ''no_pending_checkpoint''), x1)
       else execute_rotation_protocol E T waits ''rotation resume'' ''error.rotation_resume_failed'' (\<lambda>S version. resume_rotation E C S) x1)"

text \<open>\<open>max(0) as u32\<close> of the whole days.\<close>

definition days_since :: "timestamp \<Rightarrow> timestamp \<Rightarrow> u32" where
  "days_since now last_at = word_of_int (max (num_days (now - last_at)) 0)"

definition handle_check_rotation_trigger ::
  "('x) rotation_env_scheme \<Rightarrow> ('w, 'y) vault_ops_scheme \<Rightarrow> ('w, 's) executor \<Rightarrow> command_result \<times> ('w, 's) executor" where
  "handle_check_rotation_trigger E C x = (case with_vault (\<lambda>_ v. case load_rotation_config E v of (r, v') \<Rightarrow> (Inr r, v')) x of
     (Inl e, x1) \<Rightarrow> (vault_not_available E ''Vault is not available: '' e, x1)
   | (Inr (Inl _), x1) \<Rightarrow> (CommandError ConfigLoadFailed error_context_new ''error.rotation_config_load_failed'' ''Failed to load rotation config'', x1)
   | (Inr (Inr config), x1) \<Rightarrow>
       (case (case rg_last_rotation_at config of
                None \<Rightarrow> (None, x1) | Some last_at \<Rightarrow> (case ex_now C x1 of (now, x2) \<Rightarrow> (Some (days_since now last_at), x2))) of
          (days, x2) \<Rightarrow> (case check_trigger config (ex_sync x2 \<noteq> None) days (rg_current_dek_record_count config) of
             Some t \<Rightarrow> (RotationTriggerChecked True (Some (trigger_debug t)), x2)
           | None \<Rightarrow> (RotationTriggerChecked False None, x2))))"

end
