(* ===== verification/Exec_Rotation_Laws.thy ===== *)
theory Exec_Rotation_Laws
  imports Exec_Rotation Exec_Sync_Laws Sync_Service_Laws
begin

text \<open>
  The protocol around a rotation: on every path after a successful pause the last request to the sync
  service is the one that resumes it; a pause that is given up is carried out later and stops the
  syncs for good.
\<close>

section \<open>Requests leave the vault alone\<close>

lemma ask_sync_some: "ex_sync x = Some s \<Longrightarrow> ask_sync m x = (Some (fst (m s)), x\<lparr>ex_sync := Some (snd (m s))\<rparr>)"
  by (simp add: ask_sync_def with_sync_def split: prod.split)

lemma ask_sync_keeps_vault: "ex_runtime (snd (ask_sync m x)) = ex_runtime x"
  by (simp add: ask_sync_def with_sync_def split: option.split prod.split)

text \<open>The service stays configured through a step.\<close>

definition configured :: "('w, 's) executor \<Rightarrow> bool" where
  "configured x \<longleftrightarrow> ex_sync x \<noteq> None"

lemma ask_sync_configured: "configured (snd (ask_sync m x)) = configured x"
  by (simp add: configured_def ask_sync_def with_sync_def split: option.split prod.split)

lemma with_vault_sync: "ex_sync (snd (with_vault m x)) = ex_sync x"
  by (auto simp: with_vault_def split: sum.splits prod.splits)

lemma expected_version_state:
  "snd (expected_version E T we x) = snd (ask_sync (service_download_metadata E T we) x)"
  by (auto simp: expected_version_def split: prod.splits option.splits sum.splits)

lemma publish_configured: "configured x \<Longrightarrow> configured (snd (publish_version E T waits label expected res x))"
  by (auto simp: publish_version_def configured_def ask_sync_def with_sync_def Let_def split: prod.splits option.splits sum.splits)

lemma resume_last:
  assumes "configured x"
  shows "\<exists>s. ex_sync (resume_sync E T we x) = Some (snd (service_resume E T we s))"
proof -
  obtain s where "ex_sync x = Some s"
    using assms by (auto simp: configured_def)
  then show ?thesis
    by (auto simp: resume_sync_def ask_sync_some)
qed

lemma run_rotation_configured: "configured (snd (run_rotation action v x)) = configured x"
  by (simp add: configured_def run_rotation_def with_vault_sync)

text \<open>
  C10: a rotation that paused the sync service asks it to resume as its last request, on every path: when
  the cloud does not answer, when the vault is not open, when the rotation fails, when the
  compare-and-swap is lost and when it succeeds. When the pause fails, the rotation stops there, the vault
  is as it was and nothing asks the service to resume.
\<close>

theorem rotation_resumes_sync:
  assumes "ex_sync x = Some s" "\<not> ex_cancelled x" "execute_rotation_protocol E T waits label key action x = (out, x')"
  shows "case service_pause E T (rw_pause waits) s of
      (Inr _, _) \<Rightarrow> \<exists>s'. ex_sync x' = Some (snd (service_resume E T (rw_resume waits) s'))
    | (Inl e, s1) \<Rightarrow> ex_sync x' = Some s1 \<and> ex_runtime x' = ex_runtime x \<and> (\<exists>ctx msg. out = CommandError (sync_error_code e) ctx ''error.sync_pause_failed'' msg)"
proof -
  obtain r s1 where pause: "service_pause E T (rw_pause waits) s = (r, s1)"
    by (cases "service_pause E T (rw_pause waits) s")
  let ?x1 = "x\<lparr>ex_sync := Some s1\<rparr>"
  have asked: "ask_sync (service_pause E T (rw_pause waits)) x = (Some r, ?x1)"
    by (simp add: ask_sync_some[OF assms(1)] pause)
  show ?thesis
  proof (cases r)
    case (Inl e)
    then show ?thesis
      using assms(2,3) by (auto simp: execute_rotation_protocol_def asked pause)
  next
    case (Inr u)
    obtain r2 x2 where e: "expected_version E T (rw_expected waits) ?x1 = (r2, x2)"
      by (cases "expected_version E T (rw_expected waits) ?x1")
    have x2: "configured x2"
      using expected_version_state[of E T "rw_expected waits" ?x1] ask_sync_configured[of "service_download_metadata E T (rw_expected waits)" ?x1] e
      by (simp add: configured_def)
    obtain r3 x3 where run: "run_rotation action (projr r2) x2 = (r3, x3)"
      by (cases "run_rotation action (projr r2) x2")
    have x3: "configured x3"
      using run_rotation_configured[of action "projr r2" x2] run x2 by simp
    obtain o4 x4 where pub: "publish_version E T waits label (projr r2) (projr (projr r3)) x3 = (o4, x4)"
      by (cases "publish_version E T waits label (projr r2) (projr (projr r3)) x3")
    have x4: "configured x4"
      using publish_configured[OF x3] pub by (metis snd_conv)
    have "x' \<in> resume_sync E T (rw_resume waits) ` {x2, x3, x4}"
      using assms(2,3) e run pub
      by (cases r2; cases r3; cases "projr r3") (auto simp: execute_rotation_protocol_def asked Inr)
    then show ?thesis
      using resume_last[OF x2] resume_last[OF x3] resume_last[OF x4] by (auto simp: pause Inr)
  qed
qed

section \<open>A pause that is given up\<close>

text \<open>The request without a turn of the task times out and leaves its command behind.\<close>

lemma unanswered_pause:
  assumes "quiet_service s"
  shows "service_pause E T \<lparr> we_turns = [], we_cancelled = c \<rparr> s
    = (Inl (NetworkTimeout ''wait_for_event timed out after 30s''), s\<lparr>sv_commands := [CmdPause]\<rparr>)"
  using assms
  by (simp add: service_pause_def send_command_def wait_for_event_def wait_for_event_or_cancel_def io_bind_def quiet_service_def
      PAUSE_TIMEOUT_def Let_def)

lemma sync_behind_pause:
  assumes "quiet_service s" "\<not> to_channel_full T (sv_world s)"
  shows "fst (sync_with_cancel E T False \<lparr> we_turns = [TakeCommand, TakeCommand], we_cancelled = False \<rparr> data (s\<lparr>sv_commands := [CmdPause]\<rparr>))
    = Inl (NetworkTimeout ''wait_for_event timed out after 60s'')"
  using assms
  by (simp add: sync_with_cancel_def send_command_def wait_for_event_or_cancel_def io_bind_def quiet_service_def task_step_def
      handle_command_def handle_pause_def handle_trigger_sync_def start_cycle_def is_sync_reply_def SYNC_TIMEOUT_def Let_def)

text \<open>
  When the sync service answers the pause of a rotation too late, the rotation reports an error and
  does nothing, but the pause is carried out afterwards and nothing undoes it: the next sync of the user
  gets no answer and fails after its timeout.
\<close>

theorem abandoned_pause_stops_sync:
  fixes E :: "('x) rotation_env_scheme" and T :: "('u, 'f, 'z) task_ops_scheme"
  assumes "ex_sync x = Some s" "quiet_service s" "\<not> to_channel_full T (sv_world s)" "\<not> ex_cancelled x"
    and "rw_pause waits = \<lparr> we_turns = [], we_cancelled = False \<rparr>"
    and "execute_rotation_protocol E T waits label key action x = (out, x')"
  shows "ex_runtime x' = ex_runtime x
    \<and> fst (handle_trigger_sync_command E C T \<lparr> we_turns = [TakeCommand, TakeCommand], we_cancelled = False \<rparr> x')
      = sync_error_result ''error.sync_failed'' ''Sync failed: '' (NetworkTimeout ''wait_for_event timed out after 60s'')"
proof -
  have x': "x' = x\<lparr>ex_sync := Some (s\<lparr>sv_commands := [CmdPause]\<rparr>)\<rparr>"
    using assms(4-6) by (simp add: execute_rotation_protocol_def ask_sync_some[OF assms(1)] unanswered_pause[OF assms(2)])
  obtain data x1 where b: "build_sync_vault_data E C x' = (data, x1)"
    by (cases "build_sync_vault_data E C x'")
  have "ex_sync x1 = Some (s\<lparr>sv_commands := [CmdPause]\<rparr>)"
    using snapshot_sync[of E C x'] b x' by simp
  moreover obtain s2 where "sync_with_cancel E T False \<lparr> we_turns = [TakeCommand, TakeCommand], we_cancelled = False \<rparr> data (s\<lparr>sv_commands := [CmdPause]\<rparr>)
      = (Inl (NetworkTimeout ''wait_for_event timed out after 60s''), s2)"
    using sync_behind_pause[OF assms(2,3), of E data] by (metis prod.collapse)
  moreover have "\<not> ex_cancelled x'" "ex_runtime x' = ex_runtime x"
    using x' assms(4) by simp_all
  ultimately show ?thesis
    by (simp add: handle_trigger_sync_command_def b with_sync_def)
qed

definition idle_waits :: rotation_waits where
  "idle_waits = (let w = \<lparr> we_turns = [], we_cancelled = False \<rparr> in
     \<lparr> rw_pause = w, rw_expected = w, rw_current = w, rw_push = w, rw_align = w, rw_resume = w \<rparr>)"

theorem rotation_resumes_sync_witness:
  "\<exists>s'. ex_sync (snd (handle_trigger_rotation demo_rotation_env demo_vault_ops (down_ops OpOther) (idle_waits\<lparr>rw_pause := one_turn\<rparr>) demo_sync_ex))
     = Some (snd (service_resume demo_rotation_env (down_ops OpOther) \<lparr> we_turns = [], we_cancelled = False \<rparr> s'))"
proof -
  let ?h = "handle_trigger_rotation demo_rotation_env demo_vault_ops (down_ops OpOther) (idle_waits\<lparr>rw_pause := one_turn\<rparr>) demo_sync_ex"
  let ?s = "service_new 2000 200 ''webdav'' (mem_init 0) :: (mem_world, int) sync_service"
  obtain s1 where "service_pause demo_rotation_env (down_ops OpOther :: (mem_world, int) task_ops) one_turn ?s = (Inr (), s1)"
    by (simp add: service_pause_def send_command_def wait_for_event_def wait_for_event_or_cancel_def io_bind_def one_turn_def
      service_new_def sync_task_new_def task_step_def handle_command_def handle_pause_def down_ops_def Let_def)
  moreover have "ex_sync demo_sync_ex = Some ?s" "\<not> ex_cancelled demo_sync_ex"
    by (simp_all add: demo_sync_ex_def)
  ultimately show ?thesis
    using rotation_resumes_sync[of demo_sync_ex ?s demo_rotation_env "down_ops OpOther" "idle_waits\<lparr>rw_pause := one_turn\<rparr>" "''rotation''"
        "''error.rotation_failed''" "\<lambda>S. trigger_rotation demo_rotation_env demo_vault_ops S" "fst ?h" "snd ?h"]
    by (simp add: handle_trigger_rotation_def idle_waits_def Let_def)
qed

theorem abandoned_pause_stops_sync_witness:
  "fst (handle_trigger_sync_command demo_rotation_env demo_vault_ops (down_ops OpOther)
      \<lparr> we_turns = [TakeCommand, TakeCommand], we_cancelled = False \<rparr>
      (snd (handle_trigger_rotation demo_rotation_env demo_vault_ops (down_ops OpOther) idle_waits demo_sync_ex)))
    = sync_error_result ''error.sync_failed'' ''Sync failed: '' (NetworkTimeout ''wait_for_event timed out after 60s'')"
proof -
  let ?h = "handle_trigger_rotation demo_rotation_env demo_vault_ops (down_ops OpOther) idle_waits demo_sync_ex"
  let ?s = "service_new 2000 200 ''webdav'' (mem_init 0) :: (mem_world, int) sync_service"
  have s: "ex_sync demo_sync_ex = Some ?s" "\<not> ex_cancelled demo_sync_ex" "rw_pause idle_waits = \<lparr> we_turns = [], we_cancelled = False \<rparr>"
    by (simp_all add: demo_sync_ex_def idle_waits_def Let_def)
  have f: "\<not> to_channel_full (down_ops OpOther :: (mem_world, int) task_ops) (sv_world ?s)"
    by (simp add: down_ops_def)
  have h: "execute_rotation_protocol demo_rotation_env (down_ops OpOther) idle_waits ''rotation'' ''error.rotation_failed''
      (\<lambda>S. trigger_rotation demo_rotation_env demo_vault_ops S) demo_sync_ex = (fst ?h, snd ?h)"
    by (simp add: handle_trigger_rotation_def)
  show ?thesis
    by (rule abandoned_pause_stops_sync[OF s(1) quiet_service_new f s(2,3) h, THEN conjunct2])
qed

end
