(* ===== verification/Clipboard.thy ===== *)
theory Clipboard
  imports Error_Codes Env
begin

text \<open>
  The clipboard service (\<open>services/clipboard.rs\<close>) and its errors (\<open>errors/mapping/clipboard.rs\<close>):
  copying a secret starts a task that clears the clipboard after a timeout, unless somebody else has
  put another text there. The system clipboard and the processes of the command backend are
  parameters on a world. A spawned task is an entry of a table, from which aborting removes it while
  it sleeps; after its sleep it has no further await point, so that it may be overtaken by the
  service between its reading and its writing but no longer be aborted. No code panics while it holds
  one of the mutexes, so that none is ever poisoned.
\<close>

section \<open>Errors (errors/mapping/clipboard.rs)\<close>

datatype clipboard_error =
    AccessDenied
  | ContentTooLong nat nat
  | ContentMismatch
  | PlatformUnavailable string
  | LockPoisoned
  | ClipboardIo string

definition clipboard_error_to_string :: "clipboard_error \<Rightarrow> string" where
  "clipboard_error_to_string e = (case e of
     AccessDenied \<Rightarrow> ''Clipboard access denied''
   | ContentTooLong max_bytes actual_bytes \<Rightarrow>
       ''Content too long: '' @ show_nat actual_bytes @ '' bytes (max '' @ show_nat max_bytes @ '')''
   | ContentMismatch \<Rightarrow> ''Clipboard content changed since copy '' @ map char_of [226 :: nat, 128, 148] @ '' skipping clear''
   | PlatformUnavailable m \<Rightarrow> ''Clipboard unavailable: '' @ m
   | LockPoisoned \<Rightarrow> ''Clipboard lock poisoned''
   | ClipboardIo m \<Rightarrow> ''Clipboard I/O error: '' @ m)"

definition clipboard_error_code :: "clipboard_error \<Rightarrow> error_code" where
  "clipboard_error_code e = (case e of
     AccessDenied \<Rightarrow> ClipboardUnavailable
   | PlatformUnavailable _ \<Rightarrow> ClipboardUnavailable
   | _ \<Rightarrow> ClipboardCopyFailed)"

definition clipboard_error_context :: "clipboard_error \<Rightarrow> error_context" where
  "clipboard_error_context e = (case e of
     ContentTooLong max_bytes actual_bytes \<Rightarrow>
       error_context_new\<lparr>ctx_record_name := Some (show_nat actual_bytes @ '' bytes''), ctx_attempt_count := Some (of_nat max_bytes)\<rparr>
   | _ \<Rightarrow> error_context_new)"

section \<open>Backends\<close>

definition MAX_CONTENT_BYTES :: nat where "MAX_CONTENT_BYTES = 1024"

record 'w clip_ops =
  cb_set_text :: "string \<Rightarrow> ('w, clipboard_error, unit) io"
  cb_get_text :: "('w, clipboard_error, string) io"

definition unavailable_backend :: "string \<Rightarrow> 'w clip_ops" where
  "unavailable_backend reason = \<lparr> cb_set_text = (\<lambda>_. io_lift (Inl (PlatformUnavailable reason))),
     cb_get_text = io_lift (Inl (PlatformUnavailable reason)) \<rparr>"

text \<open>The in-memory backend the builder falls back to.\<close>

record mock_backend =
  mb_content :: string
  mb_available :: bool

definition mock_new :: mock_backend where
  "mock_new = \<lparr> mb_content = [], mb_available = True \<rparr>"

definition mock_ops :: "mock_backend clip_ops" where
  "mock_ops = \<lparr>
     cb_set_text = (\<lambda>t w. if \<not> mb_available w then (Inl (PlatformUnavailable ''mock: unavailable''), w) else (Inr (), w\<lparr>mb_content := t\<rparr>)),
     cb_get_text = (\<lambda>w. if \<not> mb_available w then (Inl (PlatformUnavailable ''mock: unavailable''), w) else (Inr (mb_content w), w)) \<rparr>"

subsection \<open>Clipboard commands\<close>

datatype command_platform = Macos | Linux | Unsupported

record command_spec =
  cs_program :: string
  cs_args :: "string list"

definition without_args :: "string \<Rightarrow> command_spec" where
  "without_args program = \<lparr> cs_program = program, cs_args = [] \<rparr>"

record backend_plan =
  bp_name :: string
  bp_copy :: command_spec
  bp_read :: command_spec
  bp_clear :: command_spec

definition required_programs :: "backend_plan \<Rightarrow> string list" where
  "required_programs p = [cs_program (bp_copy p), cs_program (bp_read p), cs_program (bp_clear p)]"

definition command_backend_plans_for :: "command_platform \<Rightarrow> backend_plan list" where
  "command_backend_plans_for platform = (case platform of
     Macos \<Rightarrow> [\<lparr> bp_name = ''pbcopy'', bp_copy = without_args ''pbcopy'', bp_read = without_args ''pbpaste'', bp_clear = without_args ''pbcopy'' \<rparr>]
   | Linux \<Rightarrow>
      [\<lparr> bp_name = ''wl-copy'', bp_copy = \<lparr> cs_program = ''wl-copy'', cs_args = [''--type'', ''text/plain;charset=utf-8''] \<rparr>,
         bp_read = without_args ''wl-paste'', bp_clear = \<lparr> cs_program = ''wl-copy'', cs_args = [''--clear''] \<rparr> \<rparr>,
       \<lparr> bp_name = ''xclip'', bp_copy = \<lparr> cs_program = ''xclip'', cs_args = [''-selection'', ''clipboard'', ''-in''] \<rparr>,
         bp_read = \<lparr> cs_program = ''xclip'', cs_args = [''-selection'', ''clipboard'', ''-out''] \<rparr>,
         bp_clear = \<lparr> cs_program = ''xclip'', cs_args = [''-selection'', ''clipboard'', ''-in''] \<rparr> \<rparr>,
       \<lparr> bp_name = ''xsel'', bp_copy = \<lparr> cs_program = ''xsel'', cs_args = [''--clipboard'', ''--input''] \<rparr>,
         bp_read = \<lparr> cs_program = ''xsel'', cs_args = [''--clipboard'', ''--output''] \<rparr>,
         bp_clear = \<lparr> cs_program = ''xsel'', cs_args = [''--clipboard'', ''--delete''] \<rparr> \<rparr>]
   | Unsupported \<Rightarrow> [])"

text \<open>
  The processes: whether a program of a directory of the search path is executable, running one with
  text on its input (an I/O error with the step it came from, or the exit status), and capturing its
  output.
\<close>

datatype exit_status = ExitSuccess | ExitFailure string

record 'w process_ops =
  pr_executable :: "string \<Rightarrow> string \<Rightarrow> bool"
  pr_run_stdin :: "command_spec \<Rightarrow> string \<Rightarrow> ('w, string \<times> string, exit_status) io"
  pr_capture :: "command_spec \<Rightarrow> ('w, string, exit_status \<times> bytes) io"

definition executable_in_path :: "('w, 'y) process_ops_scheme \<Rightarrow> string list \<Rightarrow> string \<Rightarrow> bool" where
  "executable_in_path P search_path program = list_ex (\<lambda>dir. pr_executable P dir program) search_path"

definition command_backend_from_search_path ::
  "('w, 'y) process_ops_scheme \<Rightarrow> command_platform \<Rightarrow> string list \<Rightarrow> backend_plan option" where
  "command_backend_from_search_path P platform search_path =
     find (\<lambda>plan. list_all (executable_in_path P search_path) (required_programs plan)) (command_backend_plans_for platform)"

definition command_error :: "command_spec \<Rightarrow> string \<Rightarrow> string \<Rightarrow> clipboard_error" where
  "command_error spec action e = ClipboardIo (''failed to '' @ action @ '' for clipboard command '' @ cs_program spec @ '': '' @ e)"

definition exit_check :: "command_spec \<Rightarrow> exit_status \<Rightarrow> clipboard_error + unit" where
  "exit_check spec st = (case st of
     ExitSuccess \<Rightarrow> Inr ()
   | ExitFailure m \<Rightarrow> Inl (ClipboardIo (cs_program spec @ '' exited with status '' @ m)))"

definition run_with_stdin :: "('w, 'y) process_ops_scheme \<Rightarrow> command_spec \<Rightarrow> string \<Rightarrow> ('w, clipboard_error, unit) io" where
  "run_with_stdin P spec input =
     io_bind (io_map_err (\<lambda>(action, e). command_error spec action e) (pr_run_stdin P spec input)) (\<lambda>st. io_lift (exit_check spec st))"

definition capture_stdout :: "('w, 'y) process_ops_scheme \<Rightarrow> command_spec \<Rightarrow> ('w, clipboard_error, string) io" where
  "capture_stdout P spec =
     io_bind (io_map_err (command_error spec ''capture stdout'') (pr_capture P spec)) (\<lambda>(st, out).
       io_lift (try_res (exit_check spec st) (\<lambda>_.
         map_err (\<lambda>_. ClipboardIo (cs_program spec @ '' returned non-UTF-8 clipboard text'')) (from_utf8 out))))"

definition command_backend :: "('w, 'y) process_ops_scheme \<Rightarrow> backend_plan \<Rightarrow> 'w clip_ops" where
  "command_backend P plan = \<lparr>
     cb_set_text = (\<lambda>t. if t = [] then run_with_stdin P (bp_clear plan) [] else run_with_stdin P (bp_copy plan) t),
     cb_get_text = capture_stdout P (bp_read plan) \<rparr>"

text \<open>
  Which backend a new service gets: in a headless environment, or where the system clipboard (\<open>arboard\<close>)
  cannot be had, the first complete set of commands on the search path, else the disabled one.
\<close>

definition command_or_disabled ::
  "('w, 'y) process_ops_scheme \<Rightarrow> command_platform \<Rightarrow> string list option \<Rightarrow> string \<Rightarrow> 'w clip_ops" where
  "command_or_disabled P platform search_path reason =
     (case Option.bind search_path (command_backend_from_search_path P platform) of
        Some plan \<Rightarrow> command_backend P plan | None \<Rightarrow> unavailable_backend reason)"

definition new_safe_backend ::
  "('w, 'y) process_ops_scheme \<Rightarrow> command_platform \<Rightarrow> string list option \<Rightarrow> bool \<Rightarrow> clipboard_error + 'w clip_ops
     \<Rightarrow> clipboard_error + 'w clip_ops" where
  "new_safe_backend P platform search_path headless arboard =
     (if headless
      then Inr (command_or_disabled P platform search_path
        (''Headless environment detected '' @ map char_of [226 :: nat, 128, 148] @ '' clipboard unavailable''))
      else (case arboard of
        Inr C \<Rightarrow> Inr C
      | Inl (PlatformUnavailable reason) \<Rightarrow> Inr (command_or_disabled P platform search_path reason)
      | Inl e \<Rightarrow> Inl e))"

section \<open>The service\<close>

datatype clear_task = Sleeping nat "string option" | Matched

text \<open>
  \<open>cl_tasks\<close> are the tasks that are alive, \<open>cl_active\<close> the handle the service holds, \<open>cl_now\<close> the clock
  of the timers in seconds.
\<close>

record 'w clip_service =
  cl_timeout :: u64
  cl_active :: "nat option"
  cl_last_hash :: "string option"
  cl_tasks :: "(nat \<times> clear_task) list"
  cl_spawned :: nat
  cl_now :: nat
  cl_world :: 'w

type_synonym ('w, 'a) clip_io = "('w clip_service, clipboard_error, 'a) io"

definition clip_new :: "u64 \<Rightarrow> 'w \<Rightarrow> 'w clip_service" where
  "clip_new timeout w = \<lparr> cl_timeout = timeout, cl_active = None, cl_last_hash = None, cl_tasks = [], cl_spawned = 0, cl_now = 0, cl_world = w \<rparr>"

definition hash_content :: "('x) env_scheme \<Rightarrow> string \<Rightarrow> string" where
  "hash_content E content = hex_encode E (sha256 E content)"

text \<open>A backend call on the world inside the service.\<close>

definition on_clipboard :: "('w, clipboard_error, 'a) io \<Rightarrow> ('w, 'a) clip_io" where
  "on_clipboard m s = (case m (cl_world s) of (r, w) \<Rightarrow> (r, s\<lparr>cl_world := w\<rparr>))"

text \<open>Aborting takes effect where the task sleeps.\<close>

definition abort_task :: "nat \<Rightarrow> 'w clip_service \<Rightarrow> 'w clip_service" where
  "abort_task i s = (case map_of (cl_tasks s) i of
     Some (Sleeping _ _) \<Rightarrow> s\<lparr>cl_tasks := AList.delete i (cl_tasks s)\<rparr>
   | _ \<Rightarrow> s)"

definition cancel_timer :: "'w clip_service \<Rightarrow> 'w clip_service" where
  "cancel_timer s = (case cl_active s of None \<Rightarrow> s | Some i \<Rightarrow> abort_task i (s\<lparr>cl_active := None\<rparr>))"

definition has_active_timer :: "'w clip_service \<Rightarrow> bool" where
  "has_active_timer s \<longleftrightarrow> cl_active s \<noteq> None"

definition start_clear_timer :: "'w clip_service \<Rightarrow> 'w clip_service" where
  "start_clear_timer s = s\<lparr> cl_tasks := (cl_spawned s, Sleeping (cl_now s + unat (cl_timeout s)) (cl_last_hash s)) # cl_tasks s,
     cl_active := Some (cl_spawned s), cl_spawned := cl_spawned s + 1 \<rparr>"

definition clip_copy :: "('x) env_scheme \<Rightarrow> ('w, 'y) clip_ops_scheme \<Rightarrow> string \<Rightarrow> ('w, u64) clip_io" where
  "clip_copy E C text s =
     (if MAX_CONTENT_BYTES < length text then (Inl (ContentTooLong MAX_CONTENT_BYTES (length text)), s)
      else io_bind (on_clipboard (cb_set_text C text))
        (\<lambda>_ s. (Inr (cl_timeout s), if cl_timeout s > 0 then start_clear_timer s else s))
        ((cancel_timer s)\<lparr>cl_last_hash := Some (hash_content E text)\<rparr>))"

definition clip_clear :: "('w, 'y) clip_ops_scheme \<Rightarrow> ('w, unit) clip_io" where
  "clip_clear C s = on_clipboard (cb_set_text C []) (cancel_timer s)"

definition smart_clear :: "('x) env_scheme \<Rightarrow> ('w, 'y) clip_ops_scheme \<Rightarrow> ('w, bool) clip_io" where
  "smart_clear E C s = (case cl_last_hash s of
     None \<Rightarrow> (Inr False, s)
   | Some expected_hash \<Rightarrow> io_bind (on_clipboard (cb_get_text C)) (\<lambda>current_content.
       if hash_content E current_content = expected_hash
       then io_bind (on_clipboard (cb_set_text C [])) (\<lambda>_ s. (Inr True, s\<lparr>cl_last_hash := None\<rparr>))
       else (\<lambda>s. (Inr False, s\<lparr>cl_last_hash := None\<rparr>))) s)"

definition set_clear_timeout :: "u64 \<Rightarrow> 'w clip_service \<Rightarrow> 'w clip_service" where
  "set_clear_timeout seconds s =
     (let s1 = s\<lparr>cl_timeout := seconds\<rparr> in
      if cl_last_hash s1 \<noteq> None then
        (let s2 = cancel_timer s1 in if seconds > 0 then start_clear_timer s2 else s2)
      else s1)"

text \<open>
  The spawned task, in its two steps: when its sleep is over it reads the clipboard, and if the text
  is still the one it was started for, it then empties it.
\<close>

definition task_wake :: "('x) env_scheme \<Rightarrow> ('w, 'y) clip_ops_scheme \<Rightarrow> nat \<Rightarrow> 'w clip_service \<Rightarrow> 'w clip_service" where
  "task_wake E C i s = (case map_of (cl_tasks s) i of
     Some (Sleeping deadline expected_hash) \<Rightarrow>
       if cl_now s < deadline then s
       else (case expected_hash of
          None \<Rightarrow> s\<lparr>cl_tasks := AList.delete i (cl_tasks s)\<rparr>
        | Some hash \<Rightarrow> (case on_clipboard (cb_get_text C) s of
            (Inr content, s') \<Rightarrow>
              if hash_content E content = hash then s'\<lparr>cl_tasks := AList.update i Matched (cl_tasks s)\<rparr>
              else s'\<lparr>cl_tasks := AList.delete i (cl_tasks s)\<rparr>
          | (Inl _, s') \<Rightarrow> s'\<lparr>cl_tasks := AList.delete i (cl_tasks s)\<rparr>))
   | _ \<Rightarrow> s)"

definition task_write :: "('w, 'y) clip_ops_scheme \<Rightarrow> nat \<Rightarrow> 'w clip_service \<Rightarrow> 'w clip_service" where
  "task_write C i s = (case map_of (cl_tasks s) i of
     Some Matched \<Rightarrow> (snd (on_clipboard (cb_set_text C []) s))\<lparr>cl_tasks := AList.delete i (cl_tasks s)\<rparr>
   | _ \<Rightarrow> s)"

section \<open>Runs\<close>

text \<open>
  What can happen to the service, in any order: its methods, the passing of time, the steps of its
  tasks, and another program changing the clipboard.
\<close>

datatype 'w clip_event =
    EvCopy string
  | EvClear
  | EvSmartClear
  | EvSetTimeout u64
  | EvCancelTimer
  | EvPass nat
  | EvWake nat
  | EvWrite nat
  | EvForeign 'w

definition clip_step :: "('x) env_scheme \<Rightarrow> ('w, 'y) clip_ops_scheme \<Rightarrow> 'w clip_event \<Rightarrow> 'w clip_service \<Rightarrow> 'w clip_service" where
  "clip_step E C ev s = (case ev of
     EvCopy text \<Rightarrow> snd (clip_copy E C text s)
   | EvClear \<Rightarrow> snd (clip_clear C s)
   | EvSmartClear \<Rightarrow> snd (smart_clear E C s)
   | EvSetTimeout seconds \<Rightarrow> set_clear_timeout seconds s
   | EvCancelTimer \<Rightarrow> cancel_timer s
   | EvPass d \<Rightarrow> s\<lparr>cl_now := cl_now s + d\<rparr>
   | EvWake i \<Rightarrow> task_wake E C i s
   | EvWrite i \<Rightarrow> task_write C i s
   | EvForeign w \<Rightarrow> s\<lparr>cl_world := w\<rparr>)"

definition clip_run :: "('x) env_scheme \<Rightarrow> ('w, 'y) clip_ops_scheme \<Rightarrow> 'w clip_event list \<Rightarrow> 'w clip_service \<Rightarrow> 'w clip_service" where
  "clip_run E C evs s = fold (clip_step E C) evs s"

end
