(* ===== verification/Clipboard_Laws.thy ===== *)
theory Clipboard_Laws
  imports Clipboard Demo_Env
begin

text \<open>
  What the clipboard service guarantees: at most one task is asleep and it is the one the service holds,
  a copied secret is gone once its timeout has passed and not before, and a task never clears a text
  of another program. And what it does not: an attempt to copy that fails leaves the secret copied
  before it in the clipboard for good.
\<close>

section \<open>The tasks\<close>

abbreviation task_of :: "'w clip_service \<Rightarrow> nat \<Rightarrow> clear_task option" where
  "task_of s \<equiv> map_of (cl_tasks s)"

text \<open>
  The invariant: tasks have numbers below the next one, only the task of the service's handle
  sleeps, and it was started for a copy whose hash, if still kept, it holds.
\<close>

definition clip_inv :: "'w clip_service \<Rightarrow> bool" where
  "clip_inv s \<longleftrightarrow> (\<forall>i t. task_of s i = Some t \<longrightarrow> i < cl_spawned s
     \<and> (\<forall>d h. t = Sleeping d h \<longrightarrow> cl_active s = Some i \<and> h \<noteq> None \<and> (cl_last_hash s = h \<or> cl_last_hash s = None)))"

lemma clip_inv_ext [simp]: "clip_inv (s\<lparr>cl_world := w\<rparr>) = clip_inv s" "clip_inv (s\<lparr>cl_now := n\<rparr>) = clip_inv s"
    "clip_inv (s\<lparr>cl_timeout := t\<rparr>) = clip_inv s"
  by (simp_all add: clip_inv_def)

lemma clip_inv_world [simp]:
  "clip_inv (s\<lparr>cl_world := w, cl_tasks := ts\<rparr>) = clip_inv (s\<lparr>cl_tasks := ts\<rparr>)"
  by (simp add: clip_inv_def)

lemma task_delete: "map_of (AList.delete j ts) i = (if i = j then None else map_of ts i)"
  by (simp add: delete_conv')

lemma task_update: "map_of (AList.update j t ts) i = (if i = j then Some t else map_of ts i)"
  by (simp add: update_conv')

lemma clip_inv_forget: "clip_inv s \<Longrightarrow> clip_inv (s\<lparr>cl_last_hash := None\<rparr>)"
  by (auto simp: clip_inv_def)

lemma clip_inv_delete: "clip_inv s \<Longrightarrow> clip_inv (s\<lparr>cl_tasks := AList.delete i (cl_tasks s)\<rparr>)"
  by (auto simp: clip_inv_def task_delete split: if_splits)

lemma clip_inv_matched:
  "clip_inv s \<Longrightarrow> task_of s i = Some t \<Longrightarrow> clip_inv (s\<lparr>cl_tasks := AList.update i Matched (cl_tasks s)\<rparr>)"
  by (auto simp: clip_inv_def task_update split: if_splits)

text \<open>After cancelling no task sleeps any more; a task that has matched goes on.\<close>

lemma cancel_timer_fields [simp]:
  "cl_world (cancel_timer s) = cl_world s" "cl_now (cancel_timer s) = cl_now s" "cl_timeout (cancel_timer s) = cl_timeout s"
  "cl_last_hash (cancel_timer s) = cl_last_hash s" "cl_spawned (cancel_timer s) = cl_spawned s" "cl_active (cancel_timer s) = None"
  by (simp_all add: cancel_timer_def abort_task_def split: option.splits clear_task.splits)

lemma cancel_timer_tasks:
  assumes "clip_inv s"
  shows "task_of (cancel_timer s) i = (case task_of s i of Some Matched \<Rightarrow> Some Matched | _ \<Rightarrow> None)"
proof (cases "task_of s i")
  case None
  then show ?thesis
    by (auto simp: cancel_timer_def abort_task_def task_delete split: option.splits clear_task.splits)
next
  case (Some t)
  then have "cl_active s = Some i" if "t = Sleeping d h" for d h
    using assms that by (auto simp: clip_inv_def)
  then show ?thesis
    using Some by (cases t) (auto simp: cancel_timer_def abort_task_def task_delete split: option.splits clear_task.splits)
qed

lemma clip_inv_cancel: "clip_inv s \<Longrightarrow> clip_inv ((cancel_timer s)\<lparr>cl_last_hash := h\<rparr>)"
  by (subst clip_inv_def) (auto simp: cancel_timer_tasks clip_inv_def split: option.splits clear_task.splits)

lemma clip_inv_cancelled: "clip_inv s \<Longrightarrow> clip_inv (cancel_timer s)"
  by (subst clip_inv_def) (auto simp: cancel_timer_tasks clip_inv_def split: option.splits clear_task.splits)

lemma clip_inv_start:
  assumes "clip_inv s" "\<And>i d h. task_of s i \<noteq> Some (Sleeping d h)" "cl_last_hash s \<noteq> None"
  shows "clip_inv (start_clear_timer s)"
  using assms by (auto simp: clip_inv_def start_clear_timer_def less_SucI split: if_splits)

lemma no_sleeper_after_cancel: "clip_inv s \<Longrightarrow> task_of (cancel_timer s) i \<noteq> Some (Sleeping d h)"
  by (auto simp: cancel_timer_tasks split: option.splits clear_task.splits)

lemma on_clipboard_only_world: "\<exists>r w. on_clipboard m s = (r, s\<lparr>cl_world := w\<rparr>)"
  by (cases "m (cl_world s)") (auto simp: on_clipboard_def)

lemma clip_inv_copy: "clip_inv s \<Longrightarrow> clip_inv (snd (clip_copy E C text s))"
proof -
  assume s: "clip_inv s"
  let ?s = "(cancel_timer s)\<lparr>cl_last_hash := Some (hash_content E text)\<rparr>"
  obtain r w where m: "on_clipboard (cb_set_text C text) ?s = (r, ?s\<lparr>cl_world := w\<rparr>)"
    using on_clipboard_only_world[of _ "(cancel_timer s)\<lparr>cl_last_hash := Some (hash_content E text)\<rparr>"] by blast
  have "clip_inv ?s"
    using clip_inv_cancel s by blast
  then have "clip_inv (?s\<lparr>cl_world := w\<rparr>)" "clip_inv (start_clear_timer (?s\<lparr>cl_world := w\<rparr>))"
    using no_sleeper_after_cancel[OF s] by (simp, intro clip_inv_start) simp_all
  then show ?thesis
    using s m by (cases r) (simp_all add: clip_copy_def io_bind_def)
qed

lemma clip_inv_set_timeout: "clip_inv s \<Longrightarrow> clip_inv (set_clear_timeout n s)"
proof -
  assume s: "clip_inv s"
  let ?s = "cancel_timer (s\<lparr>cl_timeout := n\<rparr>)"
  have "clip_inv ?s"
    using s by (intro clip_inv_cancelled) simp
  moreover have "clip_inv (start_clear_timer ?s)" if "cl_last_hash s \<noteq> None"
    using that s no_sleeper_after_cancel[of "s\<lparr>cl_timeout := n\<rparr>"] \<open>clip_inv ?s\<close> by (intro clip_inv_start) simp_all
  ultimately show ?thesis
    using s by (simp add: set_clear_timeout_def Let_def)
qed

lemma clip_inv_smart_clear: "clip_inv s \<Longrightarrow> clip_inv (snd (smart_clear E C s))"
  by (auto simp: smart_clear_def io_bind_def on_clipboard_def intro!: clip_inv_forget split: option.splits prod.splits sum.splits)

lemma clip_inv_wake: "clip_inv s \<Longrightarrow> clip_inv (task_wake E C i s)"
proof -
  assume s: "clip_inv s"
  obtain r w where m: "on_clipboard (cb_get_text C) s = (r, s\<lparr>cl_world := w\<rparr>)"
    using on_clipboard_only_world[of _ s] by blast
  have d: "clip_inv (s\<lparr>cl_tasks := AList.delete i (cl_tasks s), cl_world := w\<rparr>)"
    using clip_inv_delete[OF s] by simp
  have "clip_inv (s\<lparr>cl_tasks := AList.update i Matched (cl_tasks s), cl_world := w\<rparr>)" if "task_of s i = Some t" for t
    using clip_inv_matched[OF s that] by simp
  with d show ?thesis
    using s clip_inv_delete[OF s, of i] m
    by (auto simp: task_wake_def split: option.splits clear_task.splits sum.splits)
qed

lemma clip_inv_write: "clip_inv s \<Longrightarrow> clip_inv (task_write C i s)"
proof -
  assume s: "clip_inv s"
  obtain r w where m: "on_clipboard (cb_set_text C []) s = (r, s\<lparr>cl_world := w\<rparr>)"
    using on_clipboard_only_world[of _ s] by blast
  have d: "clip_inv (s\<lparr>cl_tasks := AList.delete i (cl_tasks s), cl_world := w\<rparr>)"
    using clip_inv_delete[OF s] by simp
  then show ?thesis
    using s m by (auto simp: task_write_def split: option.splits clear_task.splits)
qed

lemma clip_inv_clear: "clip_inv s \<Longrightarrow> clip_inv (snd (clip_clear C s))"
proof -
  assume s: "clip_inv s"
  obtain r w where "on_clipboard (cb_set_text C []) (cancel_timer s) = (r, (cancel_timer s)\<lparr>cl_world := w\<rparr>)"
    using on_clipboard_only_world[of _ "cancel_timer s"] by blast
  then show ?thesis
    using clip_inv_cancelled[OF s] by (simp add: clip_clear_def)
qed

lemma clip_inv_step: "clip_inv s \<Longrightarrow> clip_inv (clip_step E C ev s)"
  by (cases ev) (simp_all add: clip_step_def clip_inv_copy clip_inv_clear clip_inv_smart_clear clip_inv_set_timeout clip_inv_wake clip_inv_write clip_inv_cancelled)

interpretation clipboard: invariant_system "\<lambda>s. \<exists>t w. s = clip_new t w" "clip_step E C" clip_inv for E C
  by unfold_locales (auto simp: clip_inv_step, simp add: clip_inv_def clip_new_def)

text \<open>
  whatever is done to the clipboard service and in whatever order, at most one of its tasks is
  asleep at any time, and that one is the task whose handle the service holds.
\<close>

theorem one_timer_asleep:
  assumes "reach (\<lambda>s. \<exists>t w. s = clip_new t w) (clip_step E C) s"
    and "task_of s i = Some (Sleeping d h)" "task_of s j = Some (Sleeping d' h')"
  shows "i = j \<and> cl_active s = Some i"
proof -
  have s: "clip_inv s"
    using assms(1) by (rule clipboard.reach_inv)
  have "cl_active s = Some i" "cl_active s = Some j"
    using s assms(2,3) unfolding clip_inv_def by blast+
  then show ?thesis
    by simp
qed

section \<open>What the timer does\<close>

text \<open>Nothing happens but the passing of time and the steps of the tasks.\<close>

definition timer_event :: "'w clip_event \<Rightarrow> bool" where
  "timer_event ev = (case ev of EvPass _ \<Rightarrow> True | EvWake _ \<Rightarrow> True | EvWrite _ \<Rightarrow> True | _ \<Rightarrow> False)"

lemma clip_now_mono: "cl_now s \<le> cl_now (clip_step E C ev s)"
proof -
  have m: "cl_now (snd (on_clipboard m s)) = cl_now s" for m and s :: "'w clip_service"
    by (cases "m (cl_world s)") (simp add: on_clipboard_def)
  show ?thesis
    by (cases ev) (auto simp: clip_step_def clip_copy_def clip_clear_def smart_clear_def set_clear_timeout_def task_wake_def task_write_def
      start_clear_timer_def io_bind_def on_clipboard_def Let_def split: option.splits sum.splits prod.splits clear_task.splits)
qed

lemma clip_run_simps [simp]: "clip_run E C [] s = s" "clip_run E C (ev # evs) s = clip_run E C evs (clip_step E C ev s)"
    "clip_run E C (evs @ evs') s = clip_run E C evs' (clip_run E C evs s)"
  by (simp_all add: clip_run_def)

lemma clip_run_now: "cl_now s \<le> cl_now (clip_run E C evs s)"
  by (induction evs arbitrary: s) (simp_all, rule order_trans[OF clip_now_mono])

text \<open>
  The contract of a clipboard: what was set is read back, and a call that fails leaves the text as it is.
\<close>

locale clip_backend =
  fixes C :: "('w, 'y) clip_ops_scheme" and contents :: "'w \<Rightarrow> string"
  assumes set_done: "cb_set_text C t w = (Inr u, w') \<Longrightarrow> contents w' = t"
    and set_failed: "cb_set_text C t w = (Inl e, w') \<Longrightarrow> contents w' = contents w"
    and get_done: "cb_get_text C w = (Inr t, w') \<Longrightarrow> contents w = t \<and> contents w' = t"
    and get_failed: "cb_get_text C w = (Inl e, w') \<Longrightarrow> contents w' = contents w"
begin

abbreviation text_of :: "'w clip_service \<Rightarrow> string" where
  "text_of s \<equiv> contents (cl_world s)"

definition harmless :: "('x) env_scheme \<Rightarrow> nat \<Rightarrow> 'w clip_service \<Rightarrow> bool" where
  "harmless E T s \<longleftrightarrow> (\<forall>i t. task_of s i = Some t \<longrightarrow>
     (\<exists>d h. t = Sleeping d h \<and> (h \<noteq> Some (hash_content E (text_of s)) \<or> T < d)))"

lemma harmless_wake:
  assumes "harmless E T s" "cl_now s \<le> T"
  shows "harmless E T (task_wake E C i s) \<and> text_of (task_wake E C i s) = text_of s \<and> cl_now (task_wake E C i s) = cl_now s"
proof (cases "task_of s i")
  case None
  then show ?thesis
    using assms by (simp add: task_wake_def)
next
  case (Some t)
  then obtain d h where t: "t = Sleeping d h" "h \<noteq> Some (hash_content E (text_of s)) \<or> T < d"
    using assms(1) unfolding harmless_def by blast
  obtain r w where g: "cb_get_text C (cl_world s) = (r, w)"
    by fastforce
  then have w: "contents w = text_of s" "r = Inr x \<Longrightarrow> x = text_of s" for x
    using get_done get_failed by (cases r; fastforce)+
  show ?thesis
    using assms Some t g w
    by (auto simp: task_wake_def on_clipboard_def harmless_def task_delete split: option.splits sum.splits if_splits)
qed

lemma harmless_write:
  assumes "harmless E T s"
  shows "task_write C i s = s"
proof -
  have "task_of s i \<noteq> Some Matched"
    using assms unfolding harmless_def by blast
  then show ?thesis
    by (auto simp: task_write_def split: option.splits clear_task.splits)
qed

lemma harmless_step:
  assumes "harmless E T s" "timer_event ev" "cl_now (clip_step E C ev s) \<le> T"
  shows "harmless E T (clip_step E C ev s) \<and> text_of (clip_step E C ev s) = text_of s"
proof (cases ev)
  case (EvWake i)
  then have "cl_now s \<le> T"
    using assms(3) clip_now_mono[of s E C ev] by simp
  then show ?thesis
    using harmless_wake[OF assms(1)] EvWake by (simp add: clip_step_def)
next
  case (EvWrite i)
  then show ?thesis
    using harmless_write[OF assms(1)] assms(1) by (simp add: clip_step_def)
qed (use assms in \<open>simp_all add: clip_step_def harmless_def timer_event_def\<close>)

lemma harmless_run:
  assumes "harmless E T s" "list_all timer_event evs" "cl_now (clip_run E C evs s) \<le> T"
  shows "text_of (clip_run E C evs s) = text_of s"
  using assms
proof (induction evs arbitrary: s)
  case (Cons ev evs)
  have "cl_now (clip_step E C ev s) \<le> T"
    using Cons.prems(3) clip_run_now[of "clip_step E C ev s" E C evs] by simp
  then show ?case
    using Cons harmless_step[of E T s ev] by simp
qed simp

text \<open>A copy: the sleeping task of the copy before it is gone, and its own sleeps for the whole timeout.\<close>

lemma copy_done:
  assumes "clip_inv s" "clip_copy E C text s = (Inr t, s1)"
  shows "text_of s1 = text" "t = cl_timeout s" "cl_now s1 = cl_now s"
    "task_of s1 i = (if t > 0 \<and> i = cl_spawned s then Some (Sleeping (cl_now s + unat t) (Some (hash_content E text)))
       else case task_of s i of Some Matched \<Rightarrow> Some Matched | _ \<Rightarrow> None)"
proof -
  let ?s = "(cancel_timer s)\<lparr>cl_last_hash := Some (hash_content E text)\<rparr>"
  obtain w where w: "cb_set_text C text (cl_world s) = (Inr (), w)" "t = cl_timeout s"
      "s1 = (if cl_timeout s > 0 then start_clear_timer (?s\<lparr>cl_world := w\<rparr>) else ?s\<lparr>cl_world := w\<rparr>)"
    using assms(2) by (auto simp: clip_copy_def on_clipboard_def monad_simps split: if_splits prod.splits)
  then show "text_of s1 = text" "t = cl_timeout s" "cl_now s1 = cl_now s"
    "task_of s1 i = (if t > 0 \<and> i = cl_spawned s then Some (Sleeping (cl_now s + unat t) (Some (hash_content E text)))
       else case task_of s i of Some Matched \<Rightarrow> Some Matched | _ \<Rightarrow> None)"
    using set_done[OF w(1)] cancel_timer_tasks[OF assms(1)] by (simp_all add: start_clear_timer_def)
qed

lemma copy_failed:
  assumes "clip_inv s" "clip_copy E C text s = (Inl e, s1)" "length text \<le> MAX_CONTENT_BYTES"
  shows "text_of s1 = text_of s" "task_of s1 i = (case task_of s i of Some Matched \<Rightarrow> Some Matched | _ \<Rightarrow> None)"
proof -
  obtain w where w: "cb_set_text C text (cl_world s) = (Inl e, w)"
      "s1 = (cancel_timer s)\<lparr>cl_last_hash := Some (hash_content E text), cl_world := w\<rparr>"
    using assms(2,3) by (auto simp: clip_copy_def on_clipboard_def monad_simps split: if_splits prod.splits)
  then show "text_of s1 = text_of s" "task_of s1 i = (case task_of s i of Some Matched \<Rightarrow> Some Matched | _ \<Rightarrow> None)"
    using set_failed[OF w(1)] cancel_timer_tasks[OF assms(1)] by simp_all
qed

lemma text_stays_until_timeout:
  assumes "clip_inv s" "\<And>i. task_of s i \<noteq> Some Matched" "clip_copy E C text s = (Inr t, s1)"
    and "list_all timer_event evs" "t > 0 \<Longrightarrow> cl_now (clip_run E C evs s1) < cl_now s + unat t"
  shows "text_of (clip_run E C evs s1) = text"
proof -
  have h: "harmless E (cl_now (clip_run E C evs s1)) s1"
    using assms(2,5) copy_done(4)[OF assms(1,3)] unfolding harmless_def by (auto split: if_splits option.splits clear_task.splits)
  then show ?thesis
    using harmless_run[OF h assms(4) order_refl] copy_done(1)[OF assms(1,3)] by simp
qed

lemma failed_copy_keeps:
  assumes "clip_inv s" "\<And>i. task_of s i \<noteq> Some Matched" "clip_copy E C text s = (Inl e, s1)" "length text \<le> MAX_CONTENT_BYTES"
    and "list_all timer_event evs"
  shows "text_of (clip_run E C evs s1) = text_of s"
proof -
  have h: "harmless E (cl_now (clip_run E C evs s1)) s1"
    using assms(2) copy_failed(2)[OF assms(1,3,4)] unfolding harmless_def by (auto split: option.splits clear_task.splits)
  then show ?thesis
    using harmless_run[OF h assms(5) order_refl] copy_failed(1)[OF assms(1,3,4)] by simp
qed

end

text \<open>A clipboard that works as long as it is up.\<close>

locale working_backend = clip_backend C contents for C :: "('w, 'y) clip_ops_scheme" and contents :: "'w \<Rightarrow> string" +
  fixes up :: "'w \<Rightarrow> bool"
  assumes set_works: "up w \<Longrightarrow> \<exists>w'. cb_set_text C t w = (Inr (), w') \<and> up w'"
    and get_works: "up w \<Longrightarrow> \<exists>t w'. cb_get_text C w = (Inr t, w') \<and> up w'"
begin

lemma get_up: "up w \<Longrightarrow> \<exists>w'. cb_get_text C w = (Inr (contents w), w') \<and> up w' \<and> contents w' = contents w"
  using get_works[of w] get_done by metis

lemma set_up: "up w \<Longrightarrow> \<exists>w'. cb_set_text C t w = (Inr (), w') \<and> up w' \<and> contents w' = t"
  using set_works[of w t] set_done by metis

text \<open>The clipboard is empty, or holds the copied text and the task of the copy has still to empty it.\<close>

definition guarded :: "('x) env_scheme \<Rightarrow> string \<Rightarrow> nat \<Rightarrow> nat \<Rightarrow> 'w clip_service \<Rightarrow> bool" where
  "guarded E text i d s \<longleftrightarrow> up (cl_world s) \<and> (text_of s = []
     \<or> text_of s = text \<and> (task_of s i = Some (Sleeping d (Some (hash_content E text))) \<or> task_of s i = Some Matched))"

lemma guarded_wake:
  assumes "guarded E text i d s"
  shows "guarded E text i d (task_wake E C j s) \<and> (text_of s = text \<and> text \<noteq> [] \<and> j = i \<and> d \<le> cl_now s \<longrightarrow> task_of (task_wake E C j s) i = Some Matched)"
proof -
  obtain w where "cb_get_text C (cl_world s) = (Inr (text_of s), w)" "up w" "contents w = text_of s"
    using get_up assms guarded_def by blast
  then show ?thesis
    using assms by (auto simp: guarded_def task_wake_def on_clipboard_def task_delete task_update split: option.splits clear_task.splits if_splits)
qed

lemma guarded_write:
  assumes "guarded E text i d s"
  shows "guarded E text i d (task_write C j s) \<and> (j = i \<and> task_of s i = Some Matched \<longrightarrow> text_of (task_write C j s) = [])"
proof -
  obtain w where "cb_set_text C [] (cl_world s) = (Inr (), w)" "up w" "contents w = []"
    using set_up assms guarded_def by blast
  then show ?thesis
    using assms by (auto simp: guarded_def task_write_def on_clipboard_def split: option.splits clear_task.splits)
qed

lemma guarded_step: "guarded E text i d s \<Longrightarrow> timer_event ev \<Longrightarrow> guarded E text i d (clip_step E C ev s)"
  using guarded_wake[of E "text" i d s] guarded_write[of E "text" i d s]
  by (cases ev) (simp_all add: clip_step_def timer_event_def, simp add: guarded_def)

lemma guarded_run: "guarded E text i d s \<Longrightarrow> list_all timer_event evs \<Longrightarrow> guarded E text i d (clip_run E C evs s)"
  by (induction evs arbitrary: s) (simp_all add: guarded_step)

lemma guarded_cleared:
  assumes "guarded E text i d s" "d \<le> cl_now s"
  shows "text_of (task_write C i (task_wake E C i s)) = []"
proof (cases "text_of s = text \<and> text \<noteq> []")
  case True
  then show ?thesis
    using guarded_wake[OF assms(1), of i] guarded_write[of E "text" i d "task_wake E C i s" i] assms(2) by blast
next
  case False
  then have e: "text_of s = []" "up (cl_world s)"
    using assms(1) by (auto simp: guarded_def)
  then have "guarded E [] i d s"
    by (simp add: guarded_def)
  then have "guarded E [] i d (task_write C i (task_wake E C i s))"
    using guarded_wake guarded_write by blast
  then show ?thesis
    by (auto simp: guarded_def)
qed

lemma copy_up: "up (cl_world s) \<Longrightarrow> clip_copy E C text s = (Inr t, s1) \<Longrightarrow> up (cl_world s1)"
  using set_up[of "cl_world s" "text"]
  by (auto simp: clip_copy_def on_clipboard_def monad_simps start_clear_timer_def split: if_splits prod.splits)

lemma copied_text_cleared:
  assumes "clip_inv s" "up (cl_world s)" "clip_copy E C text s = (Inr t, s1)" "t > 0"
    and "list_all timer_event evs" "cl_now s + unat t \<le> cl_now (clip_run E C evs s1)"
  shows "text_of (clip_run E C (evs @ [EvWake (cl_spawned s), EvWrite (cl_spawned s)]) s1) = []"
proof -
  have "up (cl_world s1)"
    using copy_up assms(2,3) by blast
  then have "guarded E text (cl_spawned s) (cl_now s + unat t) s1"
    using copy_done[OF assms(1,3)] assms(4) by (simp add: guarded_def)
  from guarded_cleared[OF guarded_run[OF this assms(5)] assms(6)] show ?thesis
    by (simp add: clip_step_def)
qed

end

section \<open>The contracts hold of the in-memory backend\<close>

interpretation mock: working_backend mock_ops mb_content mb_available
  by unfold_locales (auto simp: mock_ops_def split: if_splits)

interpretation unavailable: clip_backend "unavailable_backend reason" "\<lambda>_. []" for reason
  by unfold_locales (auto simp: unavailable_backend_def)

section \<open>Properties\<close>

abbreviation reachable_clip :: "('x) env_scheme \<Rightarrow> ('w, 'y) clip_ops_scheme \<Rightarrow> 'w clip_service \<Rightarrow> bool" where
  "reachable_clip E C \<equiv> reach (\<lambda>s. \<exists>t w. s = clip_new t w) (clip_step E C)"

lemma reachable_clip_inv: "reachable_clip E C s \<Longrightarrow> clip_inv s"
  by (rule clipboard.reach_inv)

text \<open>
  C24: a secret that was copied is out of the clipboard once the timeout has passed and the task of the
  copy has run, however the tasks of earlier copies are interleaved with it.
\<close>

theorem copied_secret_cleared:
  assumes "working_backend C contents up" "reachable_clip E C s" "up (cl_world s)"
    and "clip_copy E C secret s = (Inr t, s1)" "t > 0"
    and "list_all timer_event evs" "cl_now s + unat t \<le> cl_now (clip_run E C evs s1)"
  shows "contents (cl_world (clip_run E C (evs @ [EvWake (cl_spawned s), EvWrite (cl_spawned s)]) s1)) = []"
  using working_backend.copied_text_cleared[OF assms(1) reachable_clip_inv[OF assms(2)] assms(3-)] .

definition mock_start :: "mock_backend clip_service" where
  "mock_start = clip_new 30 mock_new"

lemma mock_reachable: "reachable_clip E C mock_start"
  by (rule reach_init) (auto simp: mock_start_def)

lemma mock_start_fields [simp]:
  "cl_timeout mock_start = 30" "cl_active mock_start = None" "cl_last_hash mock_start = None" "cl_tasks mock_start = []"
  "cl_spawned mock_start = 0" "cl_now mock_start = 0" "cl_world mock_start = mock_new" "mb_available mock_new"
  by (simp_all add: mock_start_def clip_new_def mock_new_def)

definition mock_copied :: "mock_backend clip_service" where
  "mock_copied = start_clear_timer (mock_start\<lparr>cl_last_hash := Some (hash_content demo_cloud_env ''s3cret''), cl_world := mock_new\<lparr>mb_content := ''s3cret''\<rparr>\<rparr>)"

lemma mock_copy: "clip_copy demo_cloud_env mock_ops ''s3cret'' mock_start = (Inr 30, mock_copied)"
  by (simp add: clip_copy_def io_bind_def on_clipboard_def mock_ops_def mock_copied_def MAX_CONTENT_BYTES_def cancel_timer_def)

lemma mock_copied_fields [simp]:
  "cl_timeout mock_copied = 30" "cl_active mock_copied = Some 0" "cl_now mock_copied = 0"
  "cl_last_hash mock_copied = Some (hash_content demo_cloud_env ''s3cret'')"
  "cl_tasks mock_copied = [(0, Sleeping 30 (Some (hash_content demo_cloud_env ''s3cret'')))]"
  "cl_spawned mock_copied = 1" "cl_world mock_copied = mock_new\<lparr>mb_content := ''s3cret''\<rparr>"
  by (simp_all add: mock_copied_def start_clear_timer_def)

lemma mock_copied_reachable: "reachable_clip demo_cloud_env mock_ops mock_copied"
  using reach_step[OF mock_reachable, of demo_cloud_env mock_ops "EvCopy ''s3cret''"] by (simp add: clip_step_def mock_copy)

theorem copied_secret_cleared_witness:
  "mb_content (cl_world (clip_run demo_cloud_env mock_ops [EvPass 30, EvWake 0, EvWrite 0] mock_copied)) = []"
  using copied_secret_cleared[OF mock.working_backend_axioms mock_reachable _ mock_copy, of "[EvPass 30]"]
  by (simp add: timer_event_def clip_step_def)

text \<open>
  and not before: as long as the timeout has not passed, the copied text stays, unless a task of an
  earlier copy was caught between its reading and its writing.
\<close>

theorem copied_secret_stays:
  assumes "clip_backend C contents" "reachable_clip E C s" "\<And>i. task_of s i \<noteq> Some Matched"
    and "clip_copy E C secret s = (Inr t, s1)" "list_all timer_event evs"
    and "t > 0 \<Longrightarrow> cl_now (clip_run E C evs s1) < cl_now s + unat t"
  shows "contents (cl_world (clip_run E C evs s1)) = secret"
  using clip_backend.text_stays_until_timeout[OF assms(1) reachable_clip_inv[OF assms(2)] assms(3-)] .

theorem copied_secret_stays_witness:
  "mb_content (cl_world (clip_run demo_cloud_env mock_ops [EvPass 29, EvWake 0, EvWrite 0] mock_copied)) = ''s3cret''"
  using copied_secret_stays[OF mock.clip_backend_axioms mock_reachable _ mock_copy, of "[EvPass 29, EvWake 0, EvWrite 0]"]
  by (simp add: timer_event_def clip_step_def task_wake_def task_write_def)

text \<open>
  Copying cancels the timer of the copy before it first. So where the new copy then fails, the
  secret copied before stays in the clipboard for good: no time that passes and no task clears it.
\<close>

theorem failed_copy_strands_secret:
  assumes "clip_backend C contents" "reachable_clip E C s" "\<And>i. task_of s i \<noteq> Some Matched"
    and "clip_copy E C secret s = (Inl e, s1)" "length secret \<le> MAX_CONTENT_BYTES" "list_all timer_event evs"
  shows "contents (cl_world (clip_run E C evs s1)) = contents (cl_world s)"
  using clip_backend.failed_copy_keeps[OF assms(1) reachable_clip_inv[OF assms(2)] assms(3-)] .

text \<open>The clipboard is unavailable for the moment of the second copy, and back afterwards.\<close>

definition mock_down :: "mock_backend clip_service" where
  "mock_down = mock_copied\<lparr>cl_world := \<lparr> mb_content = ''s3cret'', mb_available = False \<rparr>\<rparr>"

theorem failed_copy_strands_secret_witness:
  "\<exists>e s1. clip_copy demo_cloud_env mock_ops ''other'' mock_down = (Inl e, s1)
     \<and> mb_content (cl_world (clip_run demo_cloud_env mock_ops [EvPass 3000, EvWake 0, EvWrite 0] s1)) = ''s3cret''"
proof -
  have r: "reachable_clip demo_cloud_env mock_ops mock_down"
    using reach_step[OF mock_copied_reachable, of "EvForeign (cl_world mock_down)"] by (simp add: clip_step_def mock_down_def)
  obtain e s1 where c: "clip_copy demo_cloud_env mock_ops ''other'' mock_down = (Inl e, s1)"
    by (simp add: clip_copy_def io_bind_def on_clipboard_def mock_ops_def mock_down_def MAX_CONTENT_BYTES_def cancel_timer_def abort_task_def)
  then show ?thesis
    using failed_copy_strands_secret[OF mock.clip_backend_axioms r _ c, of "[EvPass 3000, EvWake 0, EvWrite 0]"]
    by (simp add: timer_event_def mock_down_def MAX_CONTENT_BYTES_def)
qed

text \<open>
  the time in which a task has read the clipboard and has not yet emptied it is not protected: a copy
  in between succeeds, and the task then empties what it put there
\<close>

theorem overtaken_task_wipes_copy:
  assumes "working_backend C contents up" "reachable_clip E C s" "up (cl_world s)" "task_of s i = Some Matched"
    and "clip_copy E C secret s = (Inr t, s1)"
  shows "contents (cl_world (task_write C i s1)) = []"
proof -
  have b: "clip_backend C contents"
    using assms(1) by (simp add: working_backend_def)
  have "up (cl_world s1)"
    using working_backend.copy_up[OF assms(1,3,5)] .
  then obtain w where w: "cb_set_text C [] (cl_world s1) = (Inr (), w)" "contents w = []"
    using working_backend.set_up[OF assms(1)] by blast
  have "i < cl_spawned s"
    using reachable_clip_inv[OF assms(2)] assms(4) by (auto simp: clip_inv_def)
  then have "task_of s1 i = Some Matched"
    using clip_backend.copy_done(4)[OF b reachable_clip_inv[OF assms(2)] assms(5)] assms(4) by simp
  then show ?thesis
    using w by (simp add: task_write_def on_clipboard_def)
qed

definition mock_matched :: "mock_backend clip_service" where
  "mock_matched = clip_run demo_cloud_env mock_ops [EvPass 30, EvWake 0] mock_copied"

theorem overtaken_task_wipes_copy_witness:
  "\<exists>s1. clip_copy demo_cloud_env mock_ops ''other'' mock_matched = (Inr 30, s1) \<and> mb_content (cl_world s1) = ''other''
     \<and> mb_content (cl_world (task_write mock_ops 0 s1)) = []"
proof -
  have m: "mock_matched = mock_copied\<lparr>cl_now := 30, cl_tasks := [(0, Matched)]\<rparr>"
    by (simp add: mock_matched_def clip_step_def task_wake_def on_clipboard_def mock_ops_def mock_new_def)
  have r: "reachable_clip demo_cloud_env mock_ops mock_matched"
    unfolding mock_matched_def clip_run_def by (rule reach_fold[OF mock_copied_reachable])
  obtain s1 where c: "clip_copy demo_cloud_env mock_ops ''other'' mock_matched = (Inr 30, s1)" "mb_content (cl_world s1) = ''other''"
    by (simp add: m clip_copy_def io_bind_def on_clipboard_def mock_ops_def mock_new_def MAX_CONTENT_BYTES_def cancel_timer_def
      abort_task_def start_clear_timer_def)
  then show ?thesis
    using overtaken_task_wipes_copy[OF mock.working_backend_axioms r _ _ c(1), of 0] by (simp add: m)
qed

text \<open>The text of another program is left alone, whatever the clipboard held before.\<close>

lemma foreign_text_untouched:
  assumes "clip_backend C contents" "\<And>i. task_of s i \<noteq> Some Matched"
    and "\<And>i d. task_of s i \<noteq> Some (Sleeping d (Some (hash_content E (contents (cl_world s)))))" "list_all timer_event evs"
  shows "contents (cl_world (clip_run E C evs s)) = contents (cl_world s)"
proof -
  have "clip_backend.harmless contents E (cl_now (clip_run E C evs s)) s"
    using assms(2,3) unfolding clip_backend.harmless_def[OF assms(1)] by (metis clear_task.exhaust)
  then show ?thesis
    using clip_backend.harmless_run[OF assms(1) _ assms(4) order_refl] by blast
qed

end
