(* ===== verification/Keystore.thy ===== *)
theory Keystore
  imports Rotation Checkpoint
begin

text \<open>
  The key file \<open>wrapped_secret_key.json\<close> and the keys derived from it: \<open>crypto/keystore.rs\<close>,
  \<open>crypto/argon2.rs\<close>, \<open>crypto/hkdf.rs\<close> and the languages of \<open>crypto/bip39.rs\<close>. The secret key is stored
  sealed under a key that Argon2id derives from the master password. The cipher, the derivations, the
  JSON text format, the file system and the sources of randomness are parameters; keys in locked memory
  are their bytes.
\<close>

section \<open>JSON numbers\<close>

text \<open>
  \<open>Value::as_u64\<close>: a number is kept as its text, and the texts of integers from 0 to the largest of 64
  bits read as such; a fraction, an exponent, a sign or a larger integer make it a float.
\<close>

definition is_digit :: "char \<Rightarrow> bool" where
  "is_digit c \<longleftrightarrow> 48 \<le> byte_of c \<and> byte_of c \<le> 57"

definition as_u64 :: "json \<Rightarrow> u64 option" where
  "as_u64 j = (case j of
     JNum s \<Rightarrow> if s \<noteq> [] \<and> list_all is_digit s \<and> (hd s = CHR ''0'' \<longrightarrow> s = ''0'') \<and> parse_nat s 0 < 2 ^ 64
       then Some (of_nat (parse_nat s 0)) else None
   | _ \<Rightarrow> None)"

abbreviation json_u32 :: "u32 \<Rightarrow> json" where
  "json_u32 n \<equiv> JNum (show_word n)"

section \<open>Parameters (crypto/argon2.rs)\<close>

record argon2_params =
  ap_m_cost :: u32
  ap_t_cost :: u32
  ap_p_cost :: u32

definition argon2_high :: argon2_params where
  "argon2_high = \<lparr> ap_m_cost = 65536, ap_t_cost = 3, ap_p_cost = 2 \<rparr>"

definition argon2_medium :: argon2_params where
  "argon2_medium = \<lparr> ap_m_cost = 49152, ap_t_cost = 2, ap_p_cost = 2 \<rparr>"

definition argon2_low :: argon2_params where
  "argon2_low = \<lparr> ap_m_cost = 32768, ap_t_cost = 2, ap_p_cost = 1 \<rparr>"

text \<open>
  \<open>argon2id\<close> checks the parameters and hashes a password with a salt to 32 bytes; \<open>json_pretty\<close> is
  \<open>to_string_pretty\<close>.
\<close>

record keystore_env = rotation_env +
  argon2id :: "string \<Rightarrow> bytes \<Rightarrow> argon2_params \<Rightarrow> string + bytes"
  json_pretty :: "json \<Rightarrow> string + string"

text \<open>The file system beyond \<open>fs_ops\<close>, and the sources of salts, nonces, identifiers and times.\<close>

record 'w keystore_ops = "'w fs_ops" +
  ko_create_dir_all :: "string \<Rightarrow> ('w, string, unit) io"
  ko_metadata :: "string \<Rightarrow> ('w, string, unit) io"
  ko_set_mode :: "string \<Rightarrow> nat \<Rightarrow> ('w, string, unit) io"
  ko_create :: "string \<Rightarrow> ('w, string, unit) io"
  ko_write_all :: "string \<Rightarrow> bytes \<Rightarrow> ('w, string, unit) io"
  ko_sync_all :: "string \<Rightarrow> ('w, string, unit) io"
  ko_salt :: "'w \<Rightarrow> bytes \<times> 'w"
  ko_nonce :: "'w \<Rightarrow> bytes \<times> 'w"
  ko_uuid :: "'w \<Rightarrow> uuid \<times> 'w"
  ko_now :: "'w \<Rightarrow> timestamp \<times> 'w"

text \<open>Drawing from one of the sources inside a fallible computation.\<close>

definition io_draw :: "('w \<Rightarrow> 'a \<times> 'w) \<Rightarrow> ('w, 'e, 'a) io" where
  "io_draw f w = (case f w of (a, w') \<Rightarrow> (Inr a, w'))"

definition derive_key_locked :: "('x) keystore_env_scheme \<Rightarrow> string \<Rightarrow> bytes \<Rightarrow> argon2_params \<Rightarrow> string + bytes" where
  "derive_key_locked E password salt params =
     try_res (argon2id E password salt params) (\<lambda>key. try_res (lock_memory E key) (\<lambda>_. Inr key))"

section \<open>Derived keys (crypto/hkdf.rs)\<close>

definition derive_kek :: "('x) crypto_env_scheme \<Rightarrow> bytes \<Rightarrow> string + bytes" where
  "derive_kek E sk = ok_or ''key derivation failed'' (hkdf_sha256 E ''open-keyring-v1'' sk ''master-kek'')"

definition derive_device_key :: "('x) crypto_env_scheme \<Rightarrow> bytes \<Rightarrow> string \<Rightarrow> string + bytes" where
  "derive_device_key E kek device_id = ok_or ''key derivation failed'' (hkdf_sha256 E ''open-keyring-device'' kek (''bio-'' @ device_id))"

definition derive_index_key :: "('x) crypto_env_scheme \<Rightarrow> bytes \<Rightarrow> string + bytes" where
  "derive_index_key E kek = ok_or ''key derivation failed'' (hkdf_sha256 E ''open-keyring-index'' kek ''search-index-v1'')"

definition derive_db_page_key :: "('x) crypto_env_scheme \<Rightarrow> bytes \<Rightarrow> string + bytes" where
  "derive_db_page_key E kek = ok_or ''key derivation failed'' (hkdf_sha256 E ''open-keyring-db-page'' kek ''sqlcipher-db-page-key-v1'')"

text \<open>A new key in locked memory.\<close>

definition lock_key :: "('x) crypto_env_scheme \<Rightarrow> bytes \<Rightarrow> string + bytes" where
  "lock_key E key = try_res (lock_memory E key) (\<lambda>_. Inr key)"

section \<open>Languages (crypto/bip39.rs)\<close>

datatype mnemonic_language = English | ChineseSimplified

definition from_keystore_value :: "string \<Rightarrow> mnemonic_language option" where
  "from_keystore_value s = (if s = ''en'' then Some English else if s = ''zh-CN'' then Some ChineseSimplified else None)"

definition to_keystore_value :: "mnemonic_language \<Rightarrow> string" where
  "to_keystore_value l = (case l of English \<Rightarrow> ''en'' | ChineseSimplified \<Rightarrow> ''zh-CN'')"

definition from_config_language :: "string \<Rightarrow> mnemonic_language" where
  "from_config_language s = (if s \<in> {''zh-CN'', ''zh-TW'', ''zh''} then ChineseSimplified else English)"

interpretation keystore_language: tight_codec to_keystore_value from_keystore_value
proof unfold_locales
  show "from_keystore_value (to_keystore_value l) = Some l" for l
    by (cases l) (simp_all add: from_keystore_value_def to_keystore_value_def)
  show "to_keystore_value l = s" if "from_keystore_value s = Some l" for s l
    using that by (auto simp: from_keystore_value_def to_keystore_value_def split: if_splits)
qed

section \<open>Wrapping keys (crypto/keystore.rs)\<close>

definition wrap_key ::
  "('x) keystore_env_scheme \<Rightarrow> ('w, 'y) keystore_ops_scheme \<Rightarrow> bytes \<Rightarrow> bytes \<Rightarrow> ('w, string, bytes \<times> bytes) io" where
  "wrap_key E C key_to_wrap wrapping_key =
     io_bind (io_draw (ko_nonce C)) (\<lambda>nonce.
     io_lift (try_res (ok_or ''aead::Error'' (aead_seal E wrapping_key nonce [] key_to_wrap)) (\<lambda>wrapped. Inr (wrapped, nonce))))"

text \<open>An opened plaintext of another length makes \<open>copy_from_slice\<close> panic.\<close>

definition unwrap_key :: "('x) keystore_env_scheme \<Rightarrow> bytes \<Rightarrow> bytes \<Rightarrow> bytes \<Rightarrow> string + bytes" where
  "unwrap_key E wrapped nonce wrapping_key =
     try_res (ok_or ''aead::Error'' (aead_open E wrapping_key nonce [] wrapped)) (\<lambda>plaintext.
     if length plaintext = 32 then Inr plaintext
     else Inl ''panic: source slice length does not match destination slice length'')"

section \<open>The key file\<close>

record opened_keystore = keystore +
  ks_sk :: "bytes option"
  ks_mnemonic_language :: mnemonic_language

definition KEY_FILENAME :: string where "KEY_FILENAME = ''wrapped_secret_key.json''"

definition key_path :: "string \<Rightarrow> string" where
  "key_path dir = path_join dir KEY_FILENAME"

definition key_temp_path :: "string \<Rightarrow> string" where
  "key_temp_path dir = path_join dir ''wrapped_secret_key.json.tmp''"

definition vault_exists :: "('w, 'y) fs_ops_scheme \<Rightarrow> string \<Rightarrow> 'w \<Rightarrow> bool \<times> 'w" where
  "vault_exists C dir = fs_exists C (key_path dir)"

text \<open>The object the \<open>json!\<close> macros build; a \<open>serde_json\<close> object is ordered by its keys.\<close>

definition key_file_json :: "('x) keystore_env_scheme \<Rightarrow> string \<Rightarrow> string \<Rightarrow> bytes \<Rightarrow> bytes \<Rightarrow> bytes \<Rightarrow> argon2_params
    \<Rightarrow> timestamp \<Rightarrow> string \<Rightarrow> json" where
  "key_file_json E version algorithm wrapped nonce salt params created_at language = JObj [
     (''algorithm'', JStr algorithm),
     (''created_at'', JStr (rfc3339_show E created_at)),
     (''kdf'', JObj [
        (''algorithm'', JStr ''argon2id''),
        (''memory_cost'', json_u32 (ap_m_cost params)),
        (''output_len'', JNum ''32''),
        (''parallelism'', json_u32 (ap_p_cost params)),
        (''salt'', JStr (b64_encode E salt)),
        (''time_cost'', json_u32 (ap_t_cost params))]),
     (''mnemonic_language'', JStr language),
     (''nonce'', JStr (b64_encode E nonce)),
     (''version'', JNum version),
     (''wrapped_sk'', JStr (b64_encode E wrapped))]"

text \<open>A key file restricted to its owner: its metadata are read, then its mode is set.\<close>

definition make_private :: "('w, 'y) keystore_ops_scheme \<Rightarrow> string \<Rightarrow> ('w, string, unit) io" where
  "make_private C p = io_bind (ko_metadata C p) (\<lambda>_. ko_set_mode C p 384)"

definition keystore_initialize ::
  "('x) keystore_env_scheme \<Rightarrow> ('w, 'y) keystore_ops_scheme \<Rightarrow> string \<Rightarrow> bytes \<Rightarrow> string \<Rightarrow> argon2_params \<Rightarrow> mnemonic_language
     \<Rightarrow> ('w, string, opened_keystore) io" where
  "keystore_initialize E C dir sk_bytes cmk params language =
     io_bind (io_lift (lock_key E sk_bytes)) (\<lambda>sk.
     io_bind (io_lift (try_res (derive_kek E sk) (lock_key E))) (\<lambda>kek.
     io_bind (io_draw (ko_salt C)) (\<lambda>salt.
     io_bind (io_lift (derive_key_locked E cmk salt params)) (\<lambda>wk.
     io_bind (wrap_key E C sk wk) (\<lambda>(wrapped, nonce).
     io_bind (io_draw (ko_now C)) (\<lambda>now.
     io_bind (io_lift (json_pretty E (key_file_json E ''1'' ''xchacha20-poly1305'' wrapped nonce salt params now (to_keystore_value language)))) (\<lambda>content.
     io_bind (ko_create_dir_all C dir) (\<lambda>_.
     io_bind (fs_write C (key_path dir) content) (\<lambda>_.
     io_bind (make_private C (key_path dir)) (\<lambda>_.
     io_bind (io_draw (ko_uuid C)) (\<lambda>device.
     io_return \<lparr> ks_kek = Some kek, ks_current_dek_version = 1, ks_device_id = uuid_show E device, ks_sk = Some sk,
       ks_mnemonic_language = language \<rparr>)))))))))))"

text \<open>What \<open>unlock\<close> and \<open>change_cmk\<close> both read from the file first.\<close>

record key_header =
  kh_version :: u64
  kh_algorithm :: string
  kh_salt :: bytes
  kh_params :: argon2_params

definition read_header :: "('x) keystore_env_scheme \<Rightarrow> json \<Rightarrow> string + key_header" where
  "read_header E data =
     try_res (ok_or ''missing version'' (as_u64 (json_index data ''version''))) (\<lambda>version.
     try_res (ensure (version = 1) (''unsupported keystore version: '' @ show_word version)) (\<lambda>_.
     try_res (ok_or ''missing algorithm'' (as_str (json_index data ''algorithm''))) (\<lambda>algorithm.
     try_res (ensure (algorithm = ''xchacha20-poly1305'') (''unsupported algorithm: '' @ algorithm)) (\<lambda>_.
     try_res (ok_or ''missing salt'' (as_str (json_index (json_index data ''kdf'') ''salt''))) (\<lambda>salt_str.
     try_res (b64_decode E salt_str) (\<lambda>salt.
     try_res (ensure (length salt = 16) (''invalid salt length: expected 16 bytes, got '' @ show_nat (length salt))) (\<lambda>_.
     try_res (ok_or ''missing time_cost'' (as_u64 (json_index (json_index data ''kdf'') ''time_cost''))) (\<lambda>time_cost.
     try_res (ok_or ''missing memory_cost'' (as_u64 (json_index (json_index data ''kdf'') ''memory_cost''))) (\<lambda>memory_cost.
     try_res (ok_or ''missing parallelism'' (as_u64 (json_index (json_index data ''kdf'') ''parallelism''))) (\<lambda>parallelism.
     Inr \<lparr> kh_version = version, kh_algorithm = algorithm, kh_salt = salt,
       kh_params = \<lparr> ap_m_cost = ucast memory_cost, ap_t_cost = ucast time_cost, ap_p_cost = ucast parallelism \<rparr> \<rparr>))))))))))"

text \<open>... and the secret key under the password.\<close>

definition unwrap_secret :: "('x) keystore_env_scheme \<Rightarrow> json \<Rightarrow> key_header \<Rightarrow> string \<Rightarrow> string + bytes" where
  "unwrap_secret E data h cmk =
     try_res (derive_key_locked E cmk (kh_salt h) (kh_params h)) (\<lambda>wk.
     try_res (ok_or ''missing wrapped_sk'' (as_str (json_index data ''wrapped_sk''))) (\<lambda>wrapped_str.
     try_res (b64_decode E wrapped_str) (\<lambda>wrapped.
     try_res (ok_or ''missing nonce'' (as_str (json_index data ''nonce''))) (\<lambda>nonce_str.
     try_res (b64_decode E nonce_str) (\<lambda>nonce.
     try_res (ensure (length nonce = 24) (''invalid nonce length: expected 24 bytes, got '' @ show_nat (length nonce))) (\<lambda>_.
     unwrap_key E wrapped nonce wk))))))"

definition language_value :: "json \<Rightarrow> string" where
  "language_value data = (case as_str (json_index data ''mnemonic_language'') of Some s \<Rightarrow> s | None \<Rightarrow> ''en'')"

definition keystore_language :: "json \<Rightarrow> mnemonic_language" where
  "keystore_language data = (case from_keystore_value (language_value data) of Some l \<Rightarrow> l | None \<Rightarrow> English)"

text \<open>The part of \<open>unlock\<close> after reading the file: the secret key, the key encryption key and the language.\<close>

definition open_key_file :: "('x) keystore_env_scheme \<Rightarrow> string \<Rightarrow> string \<Rightarrow> string + bytes \<times> bytes \<times> mnemonic_language" where
  "open_key_file E content cmk =
     try_res (json_parse E content) (\<lambda>data.
     try_res (read_header E data) (\<lambda>h.
     try_res (unwrap_secret E data h cmk) (\<lambda>sk_bytes.
     try_res (lock_key E sk_bytes) (\<lambda>sk.
     try_res (try_res (derive_kek E sk) (lock_key E)) (\<lambda>kek. Inr (sk, kek, keystore_language data))))))"

definition keystore_unlock ::
  "('x) keystore_env_scheme \<Rightarrow> ('w, 'y) keystore_ops_scheme \<Rightarrow> string \<Rightarrow> string \<Rightarrow> ('w, string, opened_keystore) io" where
  "keystore_unlock E C dir cmk =
     io_bind (fs_read_to_string C (key_path dir)) (\<lambda>content.
     io_bind (io_lift (open_key_file E content cmk)) (\<lambda>(sk, kek, language).
     io_bind (io_draw (ko_uuid C)) (\<lambda>device.
     io_return \<lparr> ks_kek = Some kek, ks_current_dek_version = 1, ks_device_id = uuid_show E device, ks_sk = Some sk,
       ks_mnemonic_language = language \<rparr>)))"

text \<open>The secret key sealed again under a new password, with a new salt and the parameters the file has.\<close>

definition rewrap_secret ::
  "('x) keystore_env_scheme \<Rightarrow> ('w, 'y) keystore_ops_scheme \<Rightarrow> json \<Rightarrow> key_header \<Rightarrow> bytes \<Rightarrow> string \<Rightarrow> ('w, string, string) io" where
  "rewrap_secret E C data h sk_bytes new_cmk =
     io_bind (io_draw (ko_salt C)) (\<lambda>new_salt.
     io_bind (io_lift (derive_key_locked E new_cmk new_salt (kh_params h))) (\<lambda>new_wk.
     io_bind (wrap_key E C sk_bytes new_wk) (\<lambda>(new_wrapped, new_nonce).
     io_bind (io_draw (ko_now C)) (\<lambda>now.
     io_lift (json_pretty E (key_file_json E (show_word (kh_version h)) (kh_algorithm h) new_wrapped new_nonce new_salt
       (kh_params h) now (language_value data)))))))"

definition replace_key_file :: "('w, 'y) keystore_ops_scheme \<Rightarrow> string \<Rightarrow> string \<Rightarrow> ('w, string, unit) io" where
  "replace_key_file C dir new_content =
     io_bind (ko_create C (key_temp_path dir)) (\<lambda>_.
     io_bind (ko_write_all C (key_temp_path dir) new_content) (\<lambda>_.
     io_bind (ko_sync_all C (key_temp_path dir)) (\<lambda>_.
     io_bind (fs_rename C (key_temp_path dir) (key_path dir)) (\<lambda>_.
     make_private C (key_path dir)))))"

definition keystore_change_cmk ::
  "('x) keystore_env_scheme \<Rightarrow> ('w, 'y) keystore_ops_scheme \<Rightarrow> string \<Rightarrow> string \<Rightarrow> string \<Rightarrow> ('w, string, unit) io" where
  "keystore_change_cmk E C dir old_cmk new_cmk =
     io_bind (fs_read_to_string C (key_path dir)) (\<lambda>content.
     io_bind (io_lift (json_parse E content)) (\<lambda>data.
     io_bind (io_lift (read_header E data)) (\<lambda>h.
     io_bind (io_lift (unwrap_secret E data h old_cmk)) (\<lambda>sk_bytes.
     io_bind (rewrap_secret E C data h sk_bytes new_cmk) (\<lambda>new_content.
     replace_key_file C dir new_content)))))"

text \<open>\<open>get_dek\<close> is \<open>keystore_get_dek\<close> in theory \<open>Vault_Crypto\<close>.\<close>

definition keystore_db_page_key :: "('x) crypto_env_scheme \<Rightarrow> ('z) keystore_scheme \<Rightarrow> string + bytes" where
  "keystore_db_page_key E ks =
     try_res (ok_or ''KeyStore not unlocked'' (ks_kek ks)) (\<lambda>kek. try_res (derive_db_page_key E kek) (lock_key E))"

end
