(* ===== verification/Vault_File.thy ===== *)
theory Vault_File
  imports Keystore Exec_Rotation
begin

text \<open>
  The file of the database: opening and creating it under its page key (\<open>db/vault_db.rs\<close>,
  \<open>db/sqlcipher.rs\<close>), its checks (\<open>db/schema.rs\<close>) and the runner of its migrations
  (\<open>db/migrations/runner.rs\<close>). SQLCipher's calls on a connection and the statements of the migrations
  are parameters; \<open>sq_tables\<close> are the tables an open connection sees.
\<close>

section \<open>What the database library does\<close>

datatype remove_error = RemoveNotFound | RemoveFailed string

record ('w, 'c) vault_file_ops = "'w keystore_ops" +
  sq_lexists :: "string \<Rightarrow> 'w \<Rightarrow> bool \<times> 'w"
  sq_remove :: "string \<Rightarrow> ('w, remove_error, unit) io"
  sq_open :: "string \<Rightarrow> ('w, string, 'c) io"
  sq_batch :: "'c \<Rightarrow> string \<Rightarrow> ('w, string, unit) io"
  sq_count :: "'c \<Rightarrow> ('w, string, unit) io"
  sq_read_version :: "'c \<Rightarrow> ('w, string, string) io"
  sq_migrate :: "'c \<Rightarrow> u32 \<Rightarrow> ('w, string, unit) io"
  sq_write_version :: "'c \<Rightarrow> string \<Rightarrow> ('w, string, unit) io"
  sq_quick_check :: "'c \<Rightarrow> ('w, string, string) io"
  sq_foreign_keys :: "'c \<Rightarrow> ('w, string, (string \<times> int \<times> string \<times> int) option) io"
  sq_tables :: "'c \<Rightarrow> 'w \<Rightarrow> vault_db \<times> 'w"

datatype vault_db_error =
    PlaintextDatabaseUnsupported
  | WrongDbPageKey
  | CorruptDatabase string
  | UnsupportedSchemaVersion u32 u32
  | DbOpenIo string
  | DbMigrationFailed string
  | DbRollbackFailed string

definition vault_db_error_to_string :: "vault_db_error \<Rightarrow> string" where
  "vault_db_error_to_string e = (case e of
     PlaintextDatabaseUnsupported \<Rightarrow> ''plaintext SQLite vault databases are not supported by SQLCipher production startup''
   | WrongDbPageKey \<Rightarrow> ''wrong SQLCipher database page key or unreadable encrypted database''
   | CorruptDatabase m \<Rightarrow> ''database is corrupt: '' @ m
   | UnsupportedSchemaVersion current supported \<Rightarrow>
       ''unsupported schema version: '' @ show_word current @ '' > '' @ show_word supported
   | DbOpenIo m \<Rightarrow> ''database open I/O error: '' @ m
   | DbMigrationFailed m \<Rightarrow> ''database migration failed: '' @ m
   | DbRollbackFailed m \<Rightarrow> ''database rollback failed: '' @ m)"

section \<open>Migrations (db/migrations/runner.rs)\<close>

definition DB_SCHEMA_VERSION :: u32 where "DB_SCHEMA_VERSION = 2"

definition migrations :: "(u32 \<times> string) list" where
  "migrations = [(1, ''initial_schema''), (2, ''record_list_index'')]"

text \<open>\<open>parse::<u32>()\<close>.\<close>

definition parse_u32 :: "string \<Rightarrow> u32 option" where
  "parse_u32 s = (let digits = (case s of c # cs \<Rightarrow> if c = CHR ''+'' then cs else s | [] \<Rightarrow> []) in
     if digits = [] \<or> \<not> list_all is_digit digits then None
     else let n = parse_nat digits 0 in if n < 2 ^ 32 then Some (of_nat n) else None)"

definition read_current_version :: "('w, 'c, 'y) vault_file_ops_scheme \<Rightarrow> 'c \<Rightarrow> 'w \<Rightarrow> u32 \<times> 'w" where
  "read_current_version K c w = (case sq_read_version K c w of
     (Inr v, w') \<Rightarrow> (case parse_u32 v of Some n \<Rightarrow> n | None \<Rightarrow> 0, w')
   | (Inl _, w') \<Rightarrow> (0, w'))"

definition run_migrations :: "('w, 'c, 'y) vault_file_ops_scheme \<Rightarrow> 'c \<Rightarrow> ('w, string, unit) io" where
  "run_migrations K c w = (case read_current_version K c w of (current, w1) \<Rightarrow>
     if DB_SCHEMA_VERSION \<le> current then (Inr (), w1)
     else io_bind (for_each (\<lambda>m. sq_migrate K c (fst m)) (filter (\<lambda>m. current < fst m) migrations)) (\<lambda>_.
       io_map_err (\<lambda>e. ''migration v'' @ show_word DB_SCHEMA_VERSION @ '' '' @ quoted ''update_schema_version'' @ '' failed: '' @ e)
         (sq_write_version K c (show_word DB_SCHEMA_VERSION))) w1)"

section \<open>Opening (db/vault_db.rs, db/schema.rs, db/sqlcipher.rs)\<close>

definition PRAGMAS :: string where
  "PRAGMAS = ''PRAGMA journal_mode=WAL; PRAGMA synchronous=NORMAL; PRAGMA busy_timeout=5000; PRAGMA foreign_keys=ON; PRAGMA cache_size=-8000;''"

definition key_pragma :: "('x) env_scheme \<Rightarrow> bytes \<Rightarrow> string" where
  "key_pragma E key = ''PRAGMA key = '' @ [CHR 34, CHR ''x'', CHR 39] @ hex_encode E key @ [CHR 39, CHR 34] @ '';''"

definition db_path :: "string \<Rightarrow> string" where
  "db_path dir = path_join dir ''vault.db''"

text \<open>\<open>eq_ignore_ascii_case("ok")\<close>.\<close>

definition run_quick_check :: "('w, 'c, 'y) vault_file_ops_scheme \<Rightarrow> 'c \<Rightarrow> ('w, vault_db_error, unit) io" where
  "run_quick_check K c = io_bind (io_map_err DbOpenIo (sq_quick_check K c)) (\<lambda>res.
     io_lift (ensure (res \<in> {''ok'', ''oK'', ''Ok'', ''OK''}) (CorruptDatabase res)))"

definition run_foreign_key_check :: "('w, 'c, 'y) vault_file_ops_scheme \<Rightarrow> 'c \<Rightarrow> ('w, vault_db_error, unit) io" where
  "run_foreign_key_check K c = io_bind (io_map_err DbOpenIo (sq_foreign_keys K c)) (\<lambda>row.
     io_lift (case row of None \<Rightarrow> Inr ()
     | Some (tbl, rowid, parent, fk_index) \<Rightarrow> Inl (CorruptDatabase (''table='' @ tbl @ '' rowid='' @ show_int rowid
          @ '' parent='' @ parent @ '' fk_index='' @ show_int fk_index))))"

definition open_keyed_connection ::
  "('x) env_scheme \<Rightarrow> ('w, 'c, 'y) vault_file_ops_scheme \<Rightarrow> string \<Rightarrow> bytes \<Rightarrow> bool \<Rightarrow> ('w, vault_db_error, 'c) io" where
  "open_keyed_connection E K path key validate_key =
     io_bind (io_map_err DbOpenIo (sq_open K path)) (\<lambda>c.
     io_bind (io_map_err (\<lambda>_. WrongDbPageKey) (sq_batch K c (key_pragma E key))) (\<lambda>_.
     io_bind (if validate_key then io_map_err (\<lambda>_. WrongDbPageKey) (sq_count K c) else io_return ()) (\<lambda>_.
     io_bind (io_map_err DbOpenIo (sq_batch K c PRAGMAS)) (\<lambda>_. io_return c))))"

definition migrate_and_validate :: "('w, 'c, 'y) vault_file_ops_scheme \<Rightarrow> 'c \<Rightarrow> ('w, vault_db_error, 'c) io" where
  "migrate_and_validate K c w = (case read_current_version K c w of (current, w1) \<Rightarrow>
     if DB_SCHEMA_VERSION < current then (Inl (UnsupportedSchemaVersion current DB_SCHEMA_VERSION), w1)
     else io_bind (io_map_err DbMigrationFailed (run_migrations K c)) (\<lambda>_.
       io_bind (run_quick_check K c) (\<lambda>_.
       io_bind (run_foreign_key_check K c) (\<lambda>_. io_return c))) w1)"

definition is_plaintext_sqlite :: "('w, 'c, 'y) vault_file_ops_scheme \<Rightarrow> string \<Rightarrow> 'w \<Rightarrow> bool \<times> 'w" where
  "is_plaintext_sqlite K path w = (case sq_open K path w of
     (Inl _, w1) \<Rightarrow> (False, w1)
   | (Inr c, w1) \<Rightarrow> (case sq_count K c w1 of (r, w2) \<Rightarrow> (is_ok r, w2)))"

definition create_sqlcipher_vault ::
  "('x) env_scheme \<Rightarrow> ('w, 'c, 'y) vault_file_ops_scheme \<Rightarrow> string \<Rightarrow> bytes \<Rightarrow> ('w, vault_db_error, 'c) io" where
  "create_sqlcipher_vault E K dir key =
     io_bind (io_map_err DbOpenIo (ko_create_dir_all K dir)) (\<lambda>_.
     io_bind (open_keyed_connection E K (db_path dir) key False) (\<lambda>c. migrate_and_validate K c))"

text \<open>An error of the keyed connection or of the checks is replaced when the file opens without a key.\<close>

definition or_plaintext :: "('w, 'c, 'y) vault_file_ops_scheme \<Rightarrow> string \<Rightarrow> ('w, vault_db_error, 'a) io \<Rightarrow> ('w, vault_db_error, 'a) io" where
  "or_plaintext K path m w = (case m w of
     (Inr a, w1) \<Rightarrow> (Inr a, w1)
   | (Inl e, w1) \<Rightarrow> (case is_plaintext_sqlite K path w1 of (plain, w2) \<Rightarrow> (Inl (if plain then PlaintextDatabaseUnsupported else e), w2)))"

definition open_sqlcipher_vault ::
  "('x) env_scheme \<Rightarrow> ('w, 'c, 'y) vault_file_ops_scheme \<Rightarrow> string \<Rightarrow> bytes \<Rightarrow> ('w, vault_db_error, 'c) io" where
  "open_sqlcipher_vault E K dir key w = (case fs_exists K (db_path dir) w of
     (False, w1) \<Rightarrow> (Inl (DbOpenIo (db_path dir @ '' not found'')), w1)
   | (True, w1) \<Rightarrow> io_bind (or_plaintext K (db_path dir) (open_keyed_connection E K (db_path dir) key True))
       (\<lambda>c. or_plaintext K (db_path dir) (migrate_and_validate K c)) w1)"

section \<open>The service on a connection (services/vault/mod.rs)\<close>

text \<open>\<open>VaultServiceImpl::new\<close>: the device id of the metadata table, or a new one.\<close>

definition vault_service_new ::
  "('x) env_scheme \<Rightarrow> ('w, 'c, 'y) vault_file_ops_scheme \<Rightarrow> 'c \<Rightarrow> 'w \<Rightarrow> (vault_service \<times> vault_db) \<times> 'w" where
  "vault_service_new E K c w = (case sq_tables K c w of (d, w1) \<Rightarrow>
     (case map_of (tb_metadata d) ''device_id'' of
        Some device_id \<Rightarrow> ((\<lparr> vs_crypto = crypto_manager_new, vs_device_id = device_id \<rparr>, d), w1)
      | None \<Rightarrow> (case ko_uuid K w1 of (u, w2) \<Rightarrow> ((\<lparr> vs_crypto = crypto_manager_new, vs_device_id = uuid_show E u \<rparr>, d), w2))))"

definition vault_service_new_unlocked :: "crypto_manager \<Rightarrow> vault_service" where
  "vault_service_new_unlocked cm = \<lparr> vs_crypto = cm,
     vs_device_id = (case cg_keystore cm of Some ks \<Rightarrow> ks_device_id ks | None \<Rightarrow> ''unknown-device'') \<rparr>"

text \<open>\<open>CryptoManager::unlock\<close>; the device id of the service stays.\<close>

definition crypto_unlock ::
  "('x) keystore_env_scheme \<Rightarrow> ('w, 'y) keystore_ops_scheme \<Rightarrow> string \<Rightarrow> string \<Rightarrow> vault_service \<Rightarrow> ('w, vault_error, vault_service) io" where
  "crypto_unlock E K dir cmk S =
     io_bind (io_map_err CryptoError (keystore_unlock E K dir cmk)) (\<lambda>ks.
     io_return (S\<lparr>vs_crypto := from_unlocked_keystore (keystore.truncate ks)\<rparr>))"

end
