(* ===== verification/Exec_Vault.thy ===== *)
theory Exec_Vault
  imports Vault_File
begin

text \<open>
  The handlers of the executor that open, close and create the vault (\<open>executor/vault.rs\<close>), and the
  speculative database file they work on (\<open>PendingFileBackedVaultDb\<close> of \<open>executor/mod.rs\<close>), in the
  build with SQLCipher. A mnemonic is a value of the \<open>bip39\<close> crate and stays opaque.
\<close>

section \<open>Mnemonics (crypto/bip39.rs)\<close>

record recovery_env = keystore_env +
  mnemonic_parse :: "mnemonic_language \<Rightarrow> string \<Rightarrow> string + string"
  mnemonic_seed :: "string \<Rightarrow> string \<Rightarrow> bytes"

record ('w, 'c) exec_ops = "('w, 'c) vault_file_ops" +
  mn_generate :: "mnemonic_language \<Rightarrow> nat \<Rightarrow> ('w, string, string) io"

definition passkey_generate :: "('w, 'c, 'y) exec_ops_scheme \<Rightarrow> nat \<Rightarrow> mnemonic_language \<Rightarrow> ('w, string, string) io" where
  "passkey_generate K word_count language =
     (if word_count \<noteq> 24 then io_lift (Inl ''Only 24-word mnemonics are supported'') else mn_generate K language word_count)"

definition from_recovery_words :: "('x) recovery_env_scheme \<Rightarrow> string list \<Rightarrow> mnemonic_language \<Rightarrow> string + string" where
  "from_recovery_words E words language = mnemonic_parse E language (join_words words)"

text \<open>\<open>to_seed(None)\<close> and \<open>to_secret_key\<close>: the first half of the seed.\<close>

definition passkey_secret :: "('x) recovery_env_scheme \<Rightarrow> string \<Rightarrow> bytes" where
  "passkey_secret E passkey = take 32 (mnemonic_seed E passkey [])"

text \<open>English first, then Chinese; the error is the one of the language the words seem to be in.\<close>

definition reconstruct_passkey :: "('x) recovery_env_scheme \<Rightarrow> string list \<Rightarrow> string + string" where
  "reconstruct_passkey E words = (case from_recovery_words E words English of
     Inr passkey \<Rightarrow> Inr passkey
   | Inl english_error \<Rightarrow> (case from_recovery_words E words ChineseSimplified of
       Inr passkey \<Rightarrow> Inr passkey
     | Inl chinese_error \<Rightarrow>
         if list_all (list_all (\<lambda>c. byte_of c < 128)) words then Inl english_error else Inl chinese_error))"

fun find_str :: "string \<Rightarrow> string \<Rightarrow> nat option" where
  "find_str p [] = (if p = [] then Some 0 else None)"
| "find_str p (c # s) = (if prefix p (c # s) then Some 0 else map_option Suc (find_str p s))"

definition parse_bip39_word_index :: "string \<Rightarrow> u64 option" where
  "parse_bip39_word_index err =
     Option.bind (find_str ''(word '' err) (\<lambda>start. let rest = drop (start + 6) err in
     Option.bind (find_str '')'' rest) (\<lambda>len. parse_u64 (take len rest)))"

definition format_invalid_recovery_key_error :: "string \<Rightarrow> string" where
  "format_invalid_recovery_key_error err = (case parse_bip39_word_index err of
     Some index \<Rightarrow> ''Invalid recovery key: word '' @ show_nat (unat index + 1) @ '' is not in the recovery word list.''
   | None \<Rightarrow>
       if find_str ''checksum'' (map ascii_lower err) \<noteq> None
       then ''Invalid recovery key: the words are valid, but the checksum does not match. Check the word order.''
       else ''Invalid recovery key. Check that all 24 words are correct and in order.'')"

definition handle_validate_recovery_words :: "('x) recovery_env_scheme \<Rightarrow> string list \<Rightarrow> command_result" where
  "handle_validate_recovery_words E words =
     (if length words \<noteq> 24
      then CommandError CryptoKeyDerivationFailed error_context_new ''error.invalid_recovery_key'' ''Recovery key must contain 24 words.''
      else case reconstruct_passkey E words of
        Inr _ \<Rightarrow> RecoveryWordsValidated
      | Inl e \<Rightarrow> CommandError CryptoKeyDerivationFailed error_context_new ''error.invalid_recovery_key''
          (format_invalid_recovery_key_error e))"

section \<open>The pending database file (executor/mod.rs)\<close>

definition vault_db_paths :: "string \<Rightarrow> string list" where
  "vault_db_paths dir = map (path_join dir) [''vault.db'', ''vault.db-wal'', ''vault.db-shm'', ''vault.db.migration.bak'']"

fun artifacts_exist :: "('w, 'c, 'y) vault_file_ops_scheme \<Rightarrow> string list \<Rightarrow> 'w \<Rightarrow> bool list \<times> 'w" where
  "artifacts_exist K [] w = ([], w)"
| "artifacts_exist K (p # ps) w = (case sq_lexists K p w of (b, w1) \<Rightarrow> (case artifacts_exist K ps w1 of (bs, w2) \<Rightarrow> (b # bs, w2)))"

text \<open>The guard is what it has to keep: which of the four files were there before.\<close>

type_synonym pending_db = "bool list"

definition begin_file_backed_vault_db ::
  "('x) env_scheme \<Rightarrow> ('w, 'c, 'y) vault_file_ops_scheme \<Rightarrow> bytes \<Rightarrow> ('w, 's) executor
     \<Rightarrow> (vault_db_error + pending_db) \<times> ('w, 's) executor" where
  "begin_file_backed_vault_db E K key x =
     (case artifacts_exist K (vault_db_paths (ex_vault_dir x)) (ex_world x) of (existed_before, w1) \<Rightarrow>
      case create_sqlcipher_vault E K (ex_vault_dir x) key w1 of
        (Inl e, w2) \<Rightarrow> (Inl e, x\<lparr>ex_world := w2\<rparr>)
      | (Inr conn, w2) \<Rightarrow> (case vault_service_new E K conn w2 of
          ((S, d), w3) \<Rightarrow> (Inr existed_before, x\<lparr>ex_world := w3, ex_runtime := RtOpen S d\<rparr>)))"

definition pending_commit :: "('w, 's) executor \<Rightarrow> ('w, 's) executor" where
  "pending_commit x = x\<lparr>ex_file_backed := True\<rparr>"

text \<open>The files that were not there before are removed; the first that cannot be is the error.\<close>

fun remove_new_files ::
  "('w, 'c, 'y) vault_file_ops_scheme \<Rightarrow> (string \<times> bool) list \<Rightarrow> 'w \<Rightarrow> (string \<times> string) option \<times> 'w" where
  "remove_new_files K [] w = (None, w)"
| "remove_new_files K ((p, existed) # ps) w =
     (if existed then remove_new_files K ps w
      else case sq_remove K p w of (r, w1) \<Rightarrow> (case remove_new_files K ps w1 of (rest, w2) \<Rightarrow>
        (case r of Inl (RemoveFailed e) \<Rightarrow> Some (p, e) | _ \<Rightarrow> rest, w2)))"

definition pending_rollback ::
  "('w, 'c, 'y) vault_file_ops_scheme \<Rightarrow> pending_db \<Rightarrow> ('w, 's) executor \<Rightarrow> (vault_db_error + unit) \<times> ('w, 's) executor" where
  "pending_rollback K existed_before x =
     (case remove_new_files K (zip (vault_db_paths (ex_vault_dir x)) existed_before) (ex_world x) of (first_error, w) \<Rightarrow>
       (case first_error of None \<Rightarrow> Inr () | Some (p, e) \<Rightarrow> Inl (DbRollbackFailed (p @ '': '' @ e)),
        x\<lparr>ex_runtime := RtLocked, ex_file_backed := False, ex_world := w\<rparr>))"

text \<open>\<open>unlock\<close> of the open vault.\<close>

definition unlock_open_vault ::
  "('x) keystore_env_scheme \<Rightarrow> ('w, 'y) keystore_ops_scheme \<Rightarrow> string \<Rightarrow> ('w, 's) executor \<Rightarrow> (vault_error + unit) \<times> ('w, 's) executor" where
  "unlock_open_vault E K cmk x = (case open_vault (ex_runtime x) of
     Inl e \<Rightarrow> (Inl (runtime_error e), x)
   | Inr (S, d) \<Rightarrow> (case crypto_unlock E K (ex_vault_dir x) cmk S (ex_world x) of
       (Inr S', w) \<Rightarrow> (Inr (), x\<lparr>ex_runtime := RtOpen S' d, ex_world := w\<rparr>)
     | (Inl e, w) \<Rightarrow> (Inl e, x\<lparr>ex_world := w\<rparr>)))"

section \<open>Helpers of the handlers (executor/vault.rs)\<close>

definition remove_initialized_artifact :: "('w, 'c, 'y) vault_file_ops_scheme \<Rightarrow> string \<Rightarrow> 'w \<Rightarrow> 'w" where
  "remove_initialized_artifact K p w = snd (sq_remove K p w)"

definition cleanup_failed_new_vault_initialization ::
  "('w, 'c, 'y) vault_file_ops_scheme \<Rightarrow> string \<Rightarrow> bool \<Rightarrow> bool \<Rightarrow> bool \<Rightarrow> bool \<Rightarrow> 'w \<Rightarrow> 'w" where
  "cleanup_failed_new_vault_initialization K dir key_existed vault_db_existed wal_existed shm_existed w =
     (let w1 = (if key_existed then w else remove_initialized_artifact K (key_path dir) w) in
      if vault_db_existed then w1
      else let w2 = remove_initialized_artifact K (db_path dir) w1;
               w3 = (if wal_existed then w2 else remove_initialized_artifact K (path_join dir ''vault.db-wal'') w2)
        in if shm_existed then w3 else remove_initialized_artifact K (path_join dir ''vault.db-shm'') w3)"

definition write_system_audit ::
  "('w, 'y) vault_ops_scheme \<Rightarrow> audit_operation \<Rightarrow> string option \<Rightarrow> ('w, 's) executor \<Rightarrow> ('w, 's) executor" where
  "write_system_audit C operation detail x = snd (with_vault (\<lambda>_. dbq (insert_audit_entry C operation None None detail)) x)"

definition derive_db_page_key_for_pending ::
  "('x) keystore_env_scheme \<Rightarrow> ('w, 'y) keystore_ops_scheme \<Rightarrow> string \<Rightarrow> string \<Rightarrow> ('w, string, bytes) io" where
  "derive_db_page_key_for_pending E K dir master_password =
     io_bind (keystore_unlock E K dir master_password) (\<lambda>ks. io_lift (keystore_db_page_key E ks))"

definition schedule_health_check_after_unlock ::
  "('x) rotation_env_scheme \<Rightarrow> ('w, 'y) vault_ops_scheme \<Rightarrow> ('w, 's) executor \<Rightarrow> ('w, 's) executor" where
  "schedule_health_check_after_unlock E C x = (case with_vault (\<lambda>_. get_last_health_check_at E) x of
     (Inl _, x1) \<Rightarrow> x1
   | (Inr last_check, x1) \<Rightarrow> (case ex_now C x1 of (now, x2) \<Rightarrow>
       if should_run now (ex_security x2) last_check
       then (if length (ex_internal x2) < INTERNAL_CAPACITY then x2\<lparr>ex_internal := ex_internal x2 @ [ScheduleHealthCheck False]\<rparr> else x2)
       else (case load_cached_health_report C x2 of
          (Inr (Some rep), x3) \<Rightarrow> x3\<lparr>ex_health_report := Some rep, ex_last_health_check := last_check\<rparr>
        | (_, x3) \<Rightarrow> x3)))"

definition vault_db_error_result :: "vault_db_error \<Rightarrow> command_result" where
  "vault_db_error_result e = (case e of
     PlaintextDatabaseUnsupported \<Rightarrow> CommandError VaultDatabaseIoError error_context_new ''error.plaintext_database_unsupported''
       ''Plaintext SQLite vault databases are not supported. This vault cannot be opened with SQLCipher.''
   | WrongDbPageKey \<Rightarrow> CommandError CryptoEncryptionFailed error_context_new ''error.wrong_db_key''
       ''The database page key does not match. The vault database may be from a different master password or may be corrupt.''
   | CorruptDatabase m \<Rightarrow> CommandError VaultDatabaseIoError error_context_new ''error.corrupt_database''
       (''The vault database is corrupt: '' @ m)
   | UnsupportedSchemaVersion current supported \<Rightarrow> CommandError VaultDatabaseIoError error_context_new ''error.unsupported_schema''
       (''Database schema version '' @ show_word current @ '' is newer than this build supports ('' @ show_word supported @ '')'')
   | DbOpenIo m \<Rightarrow> CommandError VaultDatabaseIoError error_context_new ''error.db_open_io'' (''Failed to open vault database: '' @ m)
   | DbMigrationFailed m \<Rightarrow> CommandError VaultDatabaseIoError error_context_new ''error.db_migration_failed''
       (''Database migration failed: '' @ m)
   | DbRollbackFailed m \<Rightarrow> CommandError VaultDatabaseIoError error_context_new ''error.db_rollback_failed''
       (''Database rollback failed: '' @ m))"

section \<open>Handlers (executor/vault.rs)\<close>

abbreviation key_error :: "error_code \<Rightarrow> string \<Rightarrow> string \<Rightarrow> command_result" where
  "key_error code msg_key msg \<equiv> CommandError code error_context_new msg_key msg"

text \<open>An opened database under a crypto manager becomes the open vault of the executor.\<close>

definition open_runtime ::
  "('w, 'c, 'y) vault_file_ops_scheme \<Rightarrow> crypto_manager \<Rightarrow> 'c \<Rightarrow> ('w, 's) executor \<Rightarrow> ('w, 's) executor" where
  "open_runtime K cm conn x = (case sq_tables K conn (ex_world x) of (d, w) \<Rightarrow>
     x\<lparr>ex_runtime := RtOpen (vault_service_new_unlocked cm) d, ex_file_backed := True, ex_world := w\<rparr>)"

definition handle_unlock ::
  "('x) recovery_env_scheme \<Rightarrow> ('w, 'y) vault_ops_scheme \<Rightarrow> ('w, 'c, 'z) exec_ops_scheme \<Rightarrow> string
     \<Rightarrow> ('w, 's) executor \<Rightarrow> command_result \<times> ('w, 's) executor" where
  "handle_unlock E C K master_password x =
     (case on_ext_world (keystore_unlock E K (ex_vault_dir x) master_password) x of
        (Inl _, x1) \<Rightarrow> (VaultUnlockFailed None, x1)
      | (Inr ks, x1) \<Rightarrow> (case keystore_db_page_key E ks of
          Inl e \<Rightarrow> (key_error CryptoKeyDerivationFailed ''error.db_key_derivation_failed'' (''Failed to derive database page key: '' @ e), x1)
        | Inr db_page_key \<Rightarrow> (case on_ext_world (open_sqlcipher_vault E K (ex_vault_dir x1) db_page_key) x1 of
            (Inl e, x2) \<Rightarrow> (vault_db_error_result e, x2)
          | (Inr conn, x2) \<Rightarrow>
              (VaultUnlocked, schedule_health_check_after_unlock E C (write_system_audit C VaultUnlock None
                 (open_runtime K (from_unlocked_keystore (keystore.truncate ks)) conn x2))))))"

definition handle_lock :: "('w, 'y) vault_ops_scheme \<Rightarrow> ('w, 's) executor \<Rightarrow> command_result \<times> ('w, 's) executor" where
  "handle_lock C x = (let x1 = write_system_audit C VaultLock None x in
     (VaultLocked, x1\<lparr>ex_verified_password := None, ex_runtime := RtLocked, ex_file_backed := False\<rparr>))"

definition handle_verify_master_password ::
  "('x) recovery_env_scheme \<Rightarrow> ('w, 'c, 'z) exec_ops_scheme \<Rightarrow> string \<Rightarrow> ('w, 's) executor \<Rightarrow> command_result \<times> ('w, 's) executor" where
  "handle_verify_master_password E K password x =
     (case on_ext_world (keystore_unlock E K (ex_vault_dir x) password) x of
        (Inr _, x1) \<Rightarrow> (MasterPasswordVerified, x1\<lparr>ex_verified_password := Some password\<rparr>)
      | (Inl _, x1) \<Rightarrow> (key_error ExecutorMasterPasswordRequired ''error.password_verification_failed'' ''Master password verification failed.'', x1))"

definition handle_change_master_password ::
  "('x) recovery_env_scheme \<Rightarrow> ('w, 'y) vault_ops_scheme \<Rightarrow> ('w, 'c, 'z) exec_ops_scheme \<Rightarrow> string option \<Rightarrow> string
     \<Rightarrow> ('w, 's) executor \<Rightarrow> command_result \<times> ('w, 's) executor" where
  "handle_change_master_password E C K current_password new_password x =
     (case (case current_password of Some pw \<Rightarrow> (Some pw, x)
              | None \<Rightarrow> (ex_verified_password x, x\<lparr>ex_verified_password := None\<rparr>)) of
        (None, x1) \<Rightarrow> (key_error ExecutorMasterPasswordRequired ''error.password_verification_failed''
          ''Current master password not available. Please verify first.'', x1)
      | (Some pw, x1) \<Rightarrow> (case on_ext_world (keystore_change_cmk E K (ex_vault_dir x1) pw new_password) x1 of
          (Inr _, x2) \<Rightarrow>
            (let x3 = write_system_audit C MasterPasswordChange None x2 in
             (MasterPasswordChanged, if ex_is_unlocked x3 then snd (unlock_open_vault E K new_password x3) else x3))
        | (Inl e, x2) \<Rightarrow> (key_error CryptoEncryptionFailed ''error.change_password_failed'' (''Failed to change master password: '' @ e), x2)))"

definition handle_unlock_with_recovery_key ::
  "('x) recovery_env_scheme \<Rightarrow> ('w, 'y) vault_ops_scheme \<Rightarrow> ('w, 'c, 'z) exec_ops_scheme \<Rightarrow> ('u, 'f, 'v) task_ops_scheme
     \<Rightarrow> rotation_waits \<Rightarrow> rotation_waits \<Rightarrow> string list \<Rightarrow> ('w, 'u, 'f) sync_executor \<Rightarrow> command_result \<times> ('w, 'u, 'f) sync_executor" where
  "handle_unlock_with_recovery_key E C K T resume_waits trigger_waits words x =
     (case reconstruct_passkey E words of
        Inl e \<Rightarrow> (key_error CryptoKeyDerivationFailed ''error.invalid_recovery_key'' (''Invalid recovery key: '' @ e), x)
      | Inr passkey \<Rightarrow> (case derive_kek E (passkey_secret E passkey) of
          Inl e \<Rightarrow> (key_error CryptoKeyDerivationFailed ''error.kek_derivation_failed'' (''Failed to derive key encryption key: '' @ e), x)
        | Inr kek_bytes \<Rightarrow> (case derive_db_page_key E kek_bytes of
            Inl e \<Rightarrow> (key_error CryptoKeyDerivationFailed ''error.db_key_derivation_failed'' (''Failed to derive database page key: '' @ e), x)
          | Inr page_bytes \<Rightarrow> (case lock_key E page_bytes of
              Inl e \<Rightarrow> (key_error CryptoKeyDerivationFailed ''error.db_key_derivation_failed'' (''Failed to wrap database page key: '' @ e), x)
            | Inr db_page_key \<Rightarrow> (case on_ext_world (open_sqlcipher_vault E K (ex_vault_dir x) db_page_key) x of
                (Inl e, x1) \<Rightarrow> (vault_db_error_result e, x1)
              | (Inr conn, x1) \<Rightarrow> (case lock_key E (passkey_secret E passkey) of
                  Inl e \<Rightarrow> (key_error CryptoKeyDerivationFailed ''error.secret_key_failed'' (''Failed to wrap secret key: '' @ e), x1)
                | Inr sk \<Rightarrow> (case lock_key E kek_bytes of
                    Inl e \<Rightarrow> (key_error CryptoKeyDerivationFailed ''error.kek_failed'' (''Failed to wrap key encryption key: '' @ e), x1)
                  | Inr kek \<Rightarrow> (case ko_uuid K (ex_world x1) of (device, w) \<Rightarrow>
                      let ks = \<lparr> ks_kek = Some kek, ks_current_dek_version = 1, ks_device_id = uuid_show E device \<rparr>;
                          x2 = write_system_audit C VaultUnlock (Some ''recovery_key'')
                                 (open_runtime K (from_unlocked_keystore ks) conn (x1\<lparr>ex_world := w\<rparr>));
                          (rotation_result, x3) = handle_resume_rotation E C T resume_waits x2;
                          x4 = (case rotation_result of RotationTriggerChecked _ _ \<Rightarrow> snd (handle_trigger_rotation E C T trigger_waits x3) | _ \<Rightarrow> x3)
                      in (RecoveryKeyUnlocked, schedule_health_check_after_unlock E C x4)))))))))"

text \<open>The language of the interface chooses the language of a new mnemonic.\<close>

definition init_passkey ::
  "('x) recovery_env_scheme \<Rightarrow> ('w, 'c, 'z) exec_ops_scheme \<Rightarrow> mnemonic_language \<Rightarrow> string list option
     \<Rightarrow> ('w, command_result, string) io" where
  "init_passkey E K language recovery_words = (case recovery_words of
     Some words \<Rightarrow> io_lift (map_err (\<lambda>e. key_error CryptoDecryptionFailed ''error.passkey_reconstruction_failed''
       (''Failed to reconstruct recovery key: '' @ e)) (reconstruct_passkey E words))
   | None \<Rightarrow> io_map_err (\<lambda>e. key_error CryptoEncryptionFailed ''error.passkey_generation_failed''
       (''Failed to generate recovery key: '' @ e)) (passkey_generate K 24 language))"

text \<open>From the created key file on: every failure removes the files that were not there before.\<close>

definition init_database ::
  "('x) recovery_env_scheme \<Rightarrow> ('w, 'c, 'z) exec_ops_scheme \<Rightarrow> string \<Rightarrow> ('w \<Rightarrow> 'w) \<Rightarrow> ('w, 's) executor \<Rightarrow> command_result \<times> ('w, 's) executor" where
  "init_database E K master_password cleanup x =
     (case on_ext_world (derive_db_page_key_for_pending E K (ex_vault_dir x) master_password) x of
        (Inl e, x1) \<Rightarrow> (key_error CryptoKeyDerivationFailed ''error.db_key_derivation_failed''
          (''Failed to derive database page key after initialization: '' @ e), x1\<lparr>ex_world := cleanup (ex_world x1)\<rparr>)
      | (Inr db_page_key, x1) \<Rightarrow> (case begin_file_backed_vault_db E K db_page_key x1 of
          (Inl e, x2) \<Rightarrow> (key_error VaultDatabaseIoError ''error.db_reopen_failed''
            (''Failed to create vault database: '' @ vault_db_error_to_string e), x2\<lparr>ex_world := cleanup (ex_world x2)\<rparr>)
        | (Inr pending, x2) \<Rightarrow> (case unlock_open_vault E K master_password x2 of
            (Inr _, x3) \<Rightarrow> (VaultInitialized, pending_commit x3)
          | (Inl e, x3) \<Rightarrow> (case pending_rollback K pending x3 of (_, x4) \<Rightarrow>
              (key_error CryptoEncryptionFailed ''error.unlock_failed'' (''Failed to unlock vault: '' @ vault_error_to_string E e),
               x4\<lparr>ex_world := cleanup (ex_world x4)\<rparr>)))))"

definition handle_initialize_vault ::
  "('x) recovery_env_scheme \<Rightarrow> ('w, 'c, 'z) exec_ops_scheme \<Rightarrow> string \<Rightarrow> string \<Rightarrow> string list option
     \<Rightarrow> ('w, 's) executor \<Rightarrow> command_result \<times> ('w, 's) executor" where
  "handle_initialize_vault E K config_language master_password recovery_words x =
     (let language = from_config_language config_language; dir = ex_vault_dir x in
      case on_ext_world (init_passkey E K language recovery_words) x of
        (Inl err, x1) \<Rightarrow> (err, x1)
      | (Inr passkey, x1) \<Rightarrow>
          (case artifacts_exist K [key_path dir, db_path dir, path_join dir ''vault.db-wal'', path_join dir ''vault.db-shm''] (ex_world x1) of
             (existed, w) \<Rightarrow>
           let x2 = x1\<lparr>ex_world := w\<rparr> in
           case on_ext_world (keystore_initialize E K dir (passkey_secret E passkey) master_password argon2_medium language) x2 of
             (Inl e, x3) \<Rightarrow> (key_error CryptoEncryptionFailed ''error.keystore_init_failed'' (''Failed to initialize keystore: '' @ e), x3)
           | (Inr _, x3) \<Rightarrow> init_database E K master_password
               (cleanup_failed_new_vault_initialization K dir (existed ! 0) (existed ! 1) (existed ! 2) (existed ! 3)) x3))"

definition handle_rebuild_keyfile_from_recovery ::
  "('x) recovery_env_scheme \<Rightarrow> ('w, 'c, 'z) exec_ops_scheme \<Rightarrow> string \<Rightarrow> string list \<Rightarrow> ('w, 's) executor
     \<Rightarrow> command_result \<times> ('w, 's) executor" where
  "handle_rebuild_keyfile_from_recovery E K master_password recovery_words x = (case reconstruct_passkey E recovery_words of
     Inl e \<Rightarrow> (key_error CryptoKeyDerivationFailed ''error.invalid_recovery_key'' (format_invalid_recovery_key_error e), x)
   | Inr passkey \<Rightarrow> (case on_ext_world (keystore_initialize E K (ex_vault_dir x) (passkey_secret E passkey) master_password argon2_medium English) x of
       (Inr _, x1) \<Rightarrow> (KeyFileRebuilt, x1\<lparr>ex_verified_password := Some master_password\<rparr>)
     | (Inl e, x1) \<Rightarrow> (key_error CryptoEncryptionFailed ''error.keystore_init_failed'' (''Failed to rebuild key file: '' @ e), x1)))"

definition handle_validate_restored_database ::
  "('x) recovery_env_scheme \<Rightarrow> ('w, 'c, 'z) exec_ops_scheme \<Rightarrow> ('w, 's) executor \<Rightarrow> command_result \<times> ('w, 's) executor" where
  "handle_validate_restored_database E K x = (case fs_exists K (db_path (ex_vault_dir x)) (ex_world x) of (found, w) \<Rightarrow>
     let x1 = x\<lparr>ex_world := w\<rparr> in
     if \<not> found then (DatabaseValidationFailed ''vault.db was not found.'', x1)
     else (case ex_verified_password x1 of
       None \<Rightarrow> (DatabaseValidationFailed ''Master password not available for validation.'', x1)
     | Some pw \<Rightarrow> (case on_ext_world (derive_db_page_key_for_pending E K (ex_vault_dir x) pw) (x1\<lparr>ex_verified_password := None\<rparr>) of
         (Inl e, x2) \<Rightarrow> (DatabaseValidationFailed (''Failed to derive database page key for validation: '' @ e), x2)
       | (Inr db_page_key, x2) \<Rightarrow> (case on_ext_world (open_sqlcipher_vault E K (ex_vault_dir x) db_page_key) x2 of
           (Inr _, x3) \<Rightarrow> (DatabaseRestored Okb, x3)
         | (Inl e, x3) \<Rightarrow> (DatabaseValidationFailed (''Restored database does not match current key: '' @ vault_db_error_to_string e), x3)))))"

end
