(* ===== verification/Keystore_Laws.thy ===== *)
theory Keystore_Laws
  imports Keystore Rotation_Total
begin

text \<open>
  What the key file promises: a file that was written opens with the password it was written for and
  gives the same keys; a change of the password keeps the secret key, and whatever fails on the way the
  file opens with the old password or with the new one. A rewrite from the recovery words has no such
  guarantee.
\<close>

section \<open>The laws\<close>

text \<open>
  The values \<open>serde_json\<close> can print and read back: text is UTF-8, numbers are integers of 64 bits, objects
  are ordered by their keys.
\<close>

fun json_value :: "json \<Rightarrow> bool" where
  "json_value (JStr s) = (from_utf8 s = Inr s)"
| "json_value (JNum s) = (as_u64 (JNum s) \<noteq> None)"
| "json_value (JArr js) = list_all json_value js"
| "json_value (JObj kvs) = (sorted_wrt (<) (map fst kvs) \<and> list_all (\<lambda>kv. from_utf8 (fst kv) = Inr (fst kv) \<and> json_value (snd kv)) kvs)"
| "json_value _ = True"

fun utf8_strings :: "json \<Rightarrow> bool" where
  "utf8_strings (JStr s) = (from_utf8 s = Inr s)"
| "utf8_strings (JArr js) = list_all utf8_strings js"
| "utf8_strings (JObj kvs) = list_all (\<lambda>kv. utf8_strings (snd kv)) kvs"
| "utf8_strings _ = True"

definition keystore_laws :: "('x) keystore_env_scheme \<Rightarrow> bool" where
  "keystore_laws E \<longleftrightarrow> crypto_laws E \<and> env_laws E
     \<and> (\<forall>j. json_value j \<longrightarrow> (\<exists>s. json_pretty E j = Inr s \<and> from_utf8 s = Inr s \<and> json_parse E s = Inr j))
     \<and> (\<forall>s j. json_parse E s = Inr j \<longrightarrow> utf8_strings j)
     \<and> (\<forall>b. from_utf8 (b64_encode E b) = Inr (b64_encode E b))
     \<and> (\<forall>t. from_utf8 (rfc3339_show E t) = Inr (rfc3339_show E t))
     \<and> (\<forall>password salt params k. argon2id E password salt params = Inr k \<longrightarrow> length k = 32)"

definition keystore_ops_laws :: "('w, 'y) keystore_ops_scheme \<Rightarrow> bool" where
  "keystore_ops_laws C \<longleftrightarrow> (\<forall>w. length (fst (ko_salt C w)) = 16 \<and> length (fst (ko_nonce C w)) = 24)"

section \<open>Numbers\<close>

lemma zero_digit: "char_of (48 :: nat) = CHR ''0''"
  by code_simp

lemma show_one: "show_nat (Suc 0) = ''1''"
  by (subst show_nat.simps) (simp, code_simp)

lemma show_nat_digits: "list_all is_digit (show_nat n)"
proof (induction n rule: show_nat.induct)
  case (1 n)
  have "is_digit (char_of (48 + k :: nat))" if "k < 10" for k
    using that by (simp add: is_digit_def of_char_of)
  then show ?case
    using 1 by (subst show_nat.simps) simp
qed

lemma show_nat_first: "hd (show_nat n) = CHR ''0'' \<Longrightarrow> n = 0"
proof (induction n rule: show_nat.induct)
  case (1 n)
  show ?case
  proof (cases "n < 10")
    case True
    then have "char_of (48 + n) = (char_of (48 + 0 :: nat) :: char)"
      using 1(2) by (subst (asm) show_nat.simps) (simp add: zero_digit)
    then show ?thesis
      using digit_char_inj[of n 0] True by simp
  next
    case False
    then have "hd (show_nat (n div 10)) = CHR ''0''"
      using 1(2) by (subst (asm) show_nat.simps) simp
    then show ?thesis
      using 1(1)[OF False] False by simp
  qed
qed

lemma as_u64_show: "n < 2 ^ 64 \<Longrightarrow> as_u64 (JNum (show_nat n)) = Some (of_nat n)"
proof -
  have "show_nat n = ''0''" if "hd (show_nat n) = CHR ''0''"
    using show_nat_first[OF that] by (simp add: show_nat.simps[of 0] zero_digit)
  then show "n < 2 ^ 64 \<Longrightarrow> as_u64 (JNum (show_nat n)) = Some (of_nat n)"
    by (simp add: as_u64_def show_nat_digits parse_show_nat)
qed

lemma as_u64_u32 [simp]: "as_u64 (json_u32 n) = Some (ucast n)"
proof -
  have "unat n < 2 ^ 64"
    using unat_less_2p[of n] by simp
  then show ?thesis
    using as_u64_show[of "unat n"] by simp
qed

lemma ucast_u32_u64 [simp]: "ucast (ucast (n :: u32) :: u64) = n"
  by transfer (simp add: take_bit_take_bit)

section \<open>The text of the file\<close>

lemma key_file_value:
  assumes "keystore_laws E" "from_utf8 algorithm = Inr algorithm" "from_utf8 language = Inr language" "as_u64 (JNum version) \<noteq> None"
  shows "json_value (key_file_json E version algorithm wrapped nonce salt params t language)"
proof -
  have a: "list_all (\<lambda>c. byte_of c < 128) s \<Longrightarrow> from_utf8 s = Inr s" for s
    by (simp add: from_utf8_def utf8_check_ascii)
  have n: "as_u64 (JNum ''32'') \<noteq> None"
    using as_u64_show[of 32] by (simp add: show_nat.simps[of 32] show_nat.simps[of 3] as_u64_def is_digit_def)
  show ?thesis
    using assms n as_u64_u32[of "ap_m_cost params"] as_u64_u32[of "ap_t_cost params"] as_u64_u32[of "ap_p_cost params"]
    by (simp add: key_file_json_def keystore_laws_def a less_char_def)
qed

lemma key_file_fields:
  "json_index (key_file_json E version algorithm wrapped nonce salt params t language) ''version'' = JNum version"
  "json_index (key_file_json E version algorithm wrapped nonce salt params t language) ''algorithm'' = JStr algorithm"
  "json_index (key_file_json E version algorithm wrapped nonce salt params t language) ''wrapped_sk'' = JStr (b64_encode E wrapped)"
  "json_index (key_file_json E version algorithm wrapped nonce salt params t language) ''nonce'' = JStr (b64_encode E nonce)"
  "json_index (key_file_json E version algorithm wrapped nonce salt params t language) ''mnemonic_language'' = JStr language"
  "json_index (json_index (key_file_json E version algorithm wrapped nonce salt params t language) ''kdf'') ''salt'' = JStr (b64_encode E salt)"
  "json_index (json_index (key_file_json E version algorithm wrapped nonce salt params t language) ''kdf'') ''time_cost'' = json_u32 (ap_t_cost params)"
  "json_index (json_index (key_file_json E version algorithm wrapped nonce salt params t language) ''kdf'') ''memory_cost'' = json_u32 (ap_m_cost params)"
  "json_index (json_index (key_file_json E version algorithm wrapped nonce salt params t language) ''kdf'') ''parallelism'' = json_u32 (ap_p_cost params)"
  by (simp_all add: key_file_json_def json_index_def)

lemma as_str_simps [simp]: "as_str (JStr s) = Some s"
  by (simp add: as_str_def)

lemma derived_key_length: "keystore_laws E \<Longrightarrow> derive_key_locked E password salt params = Inr k \<Longrightarrow> length k = 32"
  by (auto simp: keystore_laws_def derive_key_locked_def monad_simps)

lemma sealed_opens:
  assumes "keystore_laws E" "length k = 32" "length n = 24"
  obtains c where "aead_seal E k n [] p = Some c" "aead_open E k n [] c = Some p"
  using assms unfolding keystore_laws_def crypto_laws_def by meson

lemma key_file_opens:
  assumes "keystore_laws E" "length salt = 16" "length nonce = 24" "length sk = 32"
    and "derive_key_locked E password salt params = Inr wk" "aead_seal E wk nonce [] sk = Some wrapped"
    and "from_utf8 language = Inr language" "derive_kek E sk = Inr kek" "lock_key E sk = Inr sk" "lock_key E kek = Inr kek"
    and "json_pretty E (key_file_json E ''1'' ''xchacha20-poly1305'' wrapped nonce salt params t language) = Inr content"
  shows "open_key_file E content password
      = Inr (sk, kek, case from_keystore_value language of Some l \<Rightarrow> l | None \<Rightarrow> English)"
    and "from_utf8 content = Inr content"
proof -
  let ?j = "key_file_json E ''1'' ''xchacha20-poly1305'' wrapped nonce salt params t language"
  have one: "as_u64 (JNum ''1'') = Some 1"
    using as_u64_show[of 1] by (simp add: show_nat.simps[of 1] as_u64_def is_digit_def)
  have a: "from_utf8 ''xchacha20-poly1305'' = Inr ''xchacha20-poly1305''"
    by (simp add: from_utf8_def utf8_check_ascii)
  have "json_value ?j"
    using key_file_value[OF assms(1) a assms(7)] one by simp
  then have p: "json_parse E content = Inr ?j" "from_utf8 content = Inr content"
    using assms(1,11) unfolding keystore_laws_def by (metis sum.inject(2))+
  have b: "b64_decode E (b64_encode E x) = Inr x" for x
    using assms(1) by (simp add: keystore_laws_def env_laws_def)
  have h: "read_header E ?j = Inr \<lparr> kh_version = 1, kh_algorithm = ''xchacha20-poly1305'', kh_salt = salt, kh_params = params \<rparr>"
    using assms(2) one by (simp add: read_header_def key_file_fields b)
  have "length wk = 32"
    using derived_key_length assms(1,5) by blast
  then obtain c where "aead_seal E wk nonce [] sk = Some c" "aead_open E wk nonce [] c = Some sk"
    using sealed_opens assms(1,3) by blast
  then have u: "unwrap_secret E ?j \<lparr> kh_version = 1, kh_algorithm = ''xchacha20-poly1305'', kh_salt = salt, kh_params = params \<rparr> password = Inr sk"
    using assms(3,4,5,6) by (simp add: unwrap_secret_def key_file_fields b unwrap_key_def)
  show "open_key_file E content password = Inr (sk, kek, case from_keystore_value language of Some l \<Rightarrow> l | None \<Rightarrow> English)"
    using p h u assms(8-10) by (simp add: open_key_file_def keystore_language_def language_value_def key_file_fields)
  show "from_utf8 content = Inr content"
    by fact
qed

lemma io_draw_eq [monad_simps]:
  "io_draw f w = (Inr a, w') \<longleftrightarrow> f w = (a, w')" "io_draw f w \<noteq> (Inl e, w')"
  by (auto simp: io_draw_def split: prod.splits)

lemma language_utf8: "utf8_strings data \<Longrightarrow> from_utf8 (language_value data) = Inr (language_value data)"
proof -
  assume u: "utf8_strings data"
  have en: "from_utf8 ''en'' = Inr ''en''"
    by (simp add: from_utf8_def utf8_check_ascii)
  have "utf8_strings v" if "data = JObj kvs" "map_of (rev kvs) f = Some v" for kvs f v
  proof -
    have "(f, v) \<in> set kvs"
      using map_of_SomeD[OF that(2)] by simp
    then show ?thesis
      using u that(1) by (auto simp: list_all_iff)
  qed
  then have "utf8_strings (json_index data f)" for f
    by (auto simp: json_index_def split: json.splits option.splits)
  from this[of "''mnemonic_language''"] show ?thesis
    using en by (auto simp: language_value_def as_str_def split: json.splits)
qed

lemma derived_keys:
  assumes "keystore_laws E"
  obtains kek where "derive_kek E sk = Inr kek" "lock_key E sk = Inr sk" "lock_key E kek = Inr kek"
proof -
  have c: "crypto_laws E"
    using assms by (simp add: keystore_laws_def)
  then obtain kek where "hkdf_sha256 E ''open-keyring-v1'' sk ''master-kek'' = Some kek"
    unfolding crypto_laws_def by blast
  moreover have "lock_memory E k = Inr ()" for k
    using c by (simp add: crypto_laws_def)
  ultimately show thesis
    using that by (simp add: derive_kek_def lock_key_def)
qed

lemma drawn_lengths:
  assumes "keystore_ops_laws C"
  shows "ko_salt C w = (salt, w') \<Longrightarrow> length salt = 16" "ko_nonce C w = (nonce, w') \<Longrightarrow> length nonce = 24"
  using assms[unfolded keystore_ops_laws_def, rule_format, of w] by auto

lemma wrapped_with:
  assumes "keystore_ops_laws C" "wrap_key E C key wk w = (Inr (wrapped, nonce), w')"
  shows "length nonce = 24 \<and> aead_seal E wk nonce [] key = Some wrapped"
  using assms(2) drawn_lengths(2)[OF assms(1), of w] by (auto simp: wrap_key_def monad_simps)

section \<open>The file system\<close>

text \<open>
  Beyond \<open>local_fs\<close>: creating a file empties it, writing to it adds to it, and no other call changes a
  file's bytes. \<open>modes\<close> are the permissions.
\<close>

locale key_fs = local_fs C files for C :: "('w, 'y) keystore_ops_scheme" and files :: "'w \<Rightarrow> string \<Rightarrow> bytes option" +
  fixes modes :: "'w \<Rightarrow> string \<Rightarrow> nat"
  assumes read_failed: "fs_read_to_string C p w = (Inl e, w') \<Longrightarrow> files w' = files w"
    and create_other: "ko_create C p w = (r, w') \<Longrightarrow> q \<noteq> p \<Longrightarrow> files w' q = files w q"
    and create_done: "ko_create C p w = (Inr u, w') \<Longrightarrow> files w' p = Some []"
    and append_other: "ko_write_all C p b w = (r, w') \<Longrightarrow> q \<noteq> p \<Longrightarrow> files w' q = files w q"
    and append_done: "ko_write_all C p b w = (Inr u, w') \<Longrightarrow> files w p = Some a \<Longrightarrow> files w' p = Some (a @ b)"
    and sync_same: "ko_sync_all C p w = (r, w') \<Longrightarrow> files w' = files w"
    and meta_same: "ko_metadata C p w = (r, w') \<Longrightarrow> files w' = files w"
    and dirs_same: "ko_create_dir_all C p w = (r, w') \<Longrightarrow> files w' = files w"
    and mode_same: "ko_set_mode C p m w = (r, w') \<Longrightarrow> files w' = files w"
    and mode_set: "ko_set_mode C p m w = (Inr u, w') \<Longrightarrow> modes w' p = m"
    and draws_same: "files (snd (ko_salt C w)) = files w" "files (snd (ko_nonce C w)) = files w"
      "files (snd (ko_uuid C w)) = files w" "files (snd (ko_now C w)) = files w"
      "modes (snd (ko_uuid C w)) = modes w"
begin

lemma draw_same:
  "ko_salt C w = (r, w') \<Longrightarrow> files w' = files w" "ko_nonce C w = (r, w') \<Longrightarrow> files w' = files w"
  "ko_uuid C w = (u, w') \<Longrightarrow> files w' = files w" "ko_now C w = (t, w') \<Longrightarrow> files w' = files w"
  using draws_same[of w] by auto

lemma private_same: "make_private C p w = (r, w') \<Longrightarrow> files w' = files w"
  using meta_same mode_same by (auto simp: make_private_def io_bind_def split: prod.splits sum.splits)

lemma private_mode: "make_private C p w = (Inr u, w') \<Longrightarrow> modes w' p = 384"
  using mode_set by (auto simp: make_private_def monad_simps)

lemma wrap_same: "wrap_key E C k wk w = (r, w') \<Longrightarrow> files w' = files w"
  using draws_same(2)[of w] by (auto simp: wrap_key_def io_bind_def io_draw_def split: prod.splits)

lemma temp_differs: "key_temp_path dir \<noteq> key_path dir"
  by (simp add: key_temp_path_def key_path_def path_join_def KEY_FILENAME_def)

text \<open>The file is replaced as a whole or not at all.\<close>

lemma replace_file:
  assumes "replace_key_file C dir content w = (r, w')"
  shows "r \<noteq> Inr () \<and> files w' (key_path dir) = files w (key_path dir) \<or> files w' (key_path dir) = Some content"
proof -
  let ?t = "key_temp_path dir" and ?p = "key_path dir"
  obtain r1 w1 where c: "ko_create C ?t w = (r1, w1)" by fastforce
  obtain r2 w2 where a: "ko_write_all C ?t content w1 = (r2, w2)" by fastforce
  obtain r3 w3 where s: "ko_sync_all C ?t w2 = (r3, w3)" by fastforce
  obtain r4 w4 where n: "fs_rename C ?t ?p w3 = (r4, w4)" by fastforce
  obtain r5 w5 where m: "make_private C ?p w4 = (r5, w5)" by fastforce
  have f: "files w1 ?p = files w ?p" "files w2 ?p = files w1 ?p" "files w3 = files w2" "files w5 = files w4"
    using create_other[OF c] append_other[OF a] sync_same[OF s] private_same[OF m] temp_differs[of dir] by metis+
  have g: "files w3 ?t = Some content" if "r1 = Inr ()" "r2 = Inr ()"
    using create_done c append_done a f(3) that by fastforce
  have h: "files w4 ?p = files w3 ?t" if "r4 = Inr ()"
    using rename_done n temp_differs that by fastforce
  have k: "files w4 ?p = files w3 ?p" if "r4 = Inl e" for e
    using rename_failed n that by fastforce
  show ?thesis
    using assms c a s n m f g h k
    by (cases r1; cases r2; cases r3; cases r4) (auto simp: replace_key_file_def io_bind_def)
qed

lemma initialize_written:
  assumes "keystore_laws E" "keystore_ops_laws C" "keystore_initialize E C dir sk password params language w = (Inr ks, w')" "length sk = 32"
  obtains content kek where "files w' (key_path dir) = Some content" "from_utf8 content = Inr content"
    "open_key_file E content password = Inr (sk, kek, language)"
    "ks_sk ks = Some sk" "ks_kek ks = Some kek" "ks_mnemonic_language ks = language" "modes w' (key_path dir) = 384"
proof -
  obtain kek salt wk wrapped nonce t content device w1 w2 w3 w4 w5 w6 where s:
      "lock_memory E sk = Inr ()" "derive_kek E sk = Inr kek" "lock_memory E kek = Inr ()"
      "ko_salt C w = (salt, w1)" "derive_key_locked E password salt params = Inr wk"
      "wrap_key E C sk wk w1 = (Inr (wrapped, nonce), w2)" "ko_now C w2 = (t, w3)"
      "json_pretty E (key_file_json E ''1'' ''xchacha20-poly1305'' wrapped nonce salt params t (to_keystore_value language)) = Inr content"
      "ko_create_dir_all C dir w3 = (Inr (), w4)" "fs_write C (key_path dir) content w4 = (Inr (), w5)"
      "make_private C (key_path dir) w5 = (Inr (), w6)" "ko_uuid C w6 = (device, w')"
      "ks = \<lparr> ks_kek = Some kek, ks_current_dek_version = 1, ks_device_id = uuid_show E device, ks_sk = Some sk, ks_mnemonic_language = language \<rparr>"
    using assms(3) unfolding keystore_initialize_def lock_key_def by (auto simp: monad_simps)
  have salt: "length salt = 16"
    using drawn_lengths(1)[OF assms(2) s(4)] .
  have nonce: "length nonce = 24" "aead_seal E wk nonce [] sk = Some wrapped"
    using wrapped_with[OF assms(2) s(6)] by blast+
  have k: "lock_key E sk = Inr sk" "lock_key E kek = Inr kek"
    using s(1,3) by (simp_all add: lock_key_def)
  have l: "from_utf8 (to_keystore_value language) = Inr (to_keystore_value language)"
    by (cases language) (simp_all add: to_keystore_value_def from_utf8_def utf8_check_ascii)
  have f: "files w' (key_path dir) = Some content"
    using write_done[OF s(10)] private_same[OF s(11)] draw_same(3)[OF s(12)] by simp
  have m: "modes w' (key_path dir) = 384"
    using private_mode[OF s(11)] draws_same(5)[of w6] s(12) by simp
  show ?thesis
    using that[OF f _ _ _ _ _ m] key_file_opens[OF assms(1) salt nonce(1) assms(4) s(5) nonce(2) l s(2) k s(8)] s(13)
    by (simp add: keystore_language.dec_enc)
qed

text \<open>A change of the password: an early failure leaves every file, else the new content goes to the replacement.\<close>

lemma must_continue:
  assumes "io_bind m f w = (r, w')" "\<And>e w1. m w = (Inl e, w1) \<Longrightarrow> files w1 = files w0" "\<not> ((\<exists>e. r = Inl e) \<and> files w' = files w0)"
  obtains a w1 where "m w = (Inr a, w1)" "f a w1 = (r, w')"
proof (cases "m w")
  case (Pair x w1)
  show thesis
    using assms Pair that by (cases x) (auto simp: io_bind_def)
qed

lemma rewrap_same: "rewrap_secret E C data h sk new w = (r, w') \<Longrightarrow> files w' = files w"
proof -
  assume run: "rewrap_secret E C data h sk new w = (r, w')"
  obtain salt w1 where 1: "ko_salt C w = (salt, w1)" by fastforce
  obtain x w2 where 2: "wrap_key E C sk (projr (derive_key_locked E new salt (kh_params h))) w1 = (x, w2)" by fastforce
  have f: "files w1 = files w" "files w2 = files w"
    using draw_same(1)[OF 1] wrap_same[OF 2] by simp_all
  obtain t w3 where 3: "ko_now C w2 = (t, w3)" by fastforce
  show ?thesis
    using run 1 2 3 f draw_same(4)[OF 3]
    by (cases "derive_key_locked E new salt (kh_params h)"; cases x) (auto simp: rewrap_secret_def io_bind_def io_draw_def)
qed

lemma rewrap_done:
  assumes "rewrap_secret E C data h sk new w = (Inr content, w')"
  obtains salt wk wrapped nonce t w1 w2 w3 where
    "ko_salt C w = (salt, w1)" "derive_key_locked E new salt (kh_params h) = Inr wk" "wrap_key E C sk wk w1 = (Inr (wrapped, nonce), w2)"
    "json_pretty E (key_file_json E (show_word (kh_version h)) (kh_algorithm h) wrapped nonce salt (kh_params h) t (language_value data)) = Inr content"
  using assms by (auto simp: rewrap_secret_def monad_simps)

lemma change_cmk_runs:
  assumes "keystore_change_cmk E C dir old new w = (r, w')" "\<not> ((\<exists>e. r = Inl e) \<and> files w' = files w)"
  obtains content data h sk w1 w2 new_content where
    "files w (key_path dir) = Some content" "json_parse E content = Inr data" "read_header E data = Inr h"
    "unwrap_secret E data h old = Inr sk" "rewrap_secret E C data h sk new w1 = (Inr new_content, w2)"
    "r \<noteq> Inr () \<and> files w' (key_path dir) = files w (key_path dir) \<or> files w' (key_path dir) = Some new_content"
proof -
  obtain content w1 where 1: "fs_read_to_string C (key_path dir) w = (Inr content, w1)"
    and run1: "io_bind (io_lift (json_parse E content)) (\<lambda>data.
     io_bind (io_lift (read_header E data)) (\<lambda>h.
     io_bind (io_lift (unwrap_secret E data h old)) (\<lambda>sk.
     io_bind (rewrap_secret E C data h sk new) (\<lambda>new_content. replace_key_file C dir new_content)))) w1 = (r, w')"
    by (rule must_continue[OF assms(1)[unfolded keystore_change_cmk_def] read_failed assms(2)])
  have f1: "files w1 = files w" "files w (key_path dir) = Some content"
    using read_done[OF 1] by auto
  obtain data h sk where 2: "json_parse E content = Inr data" "read_header E data = Inr h" "unwrap_secret E data h old = Inr sk"
    and run2: "io_bind (rewrap_secret E C data h sk new) (\<lambda>new_content. replace_key_file C dir new_content) w1 = (r, w')"
    using run1 assms(2) f1(1)
    by (cases "json_parse E content"; cases "read_header E (projr (json_parse E content))";
        cases "unwrap_secret E (projr (json_parse E content)) (projr (read_header E (projr (json_parse E content)))) old")
       (auto simp: io_bind_def[of "io_lift _"])
  obtain new_content w2 where 3: "rewrap_secret E C data h sk new w1 = (Inr new_content, w2)"
    and run3: "replace_key_file C dir new_content w2 = (r, w')"
    using must_continue[OF run2, of w] rewrap_same f1(1) assms(2) by metis
  have "files w2 = files w"
    using rewrap_same[OF 3] f1(1) by simp
  then show thesis
    using that[OF f1(2) 2 3] replace_file[OF run3] by simp
qed

text \<open>The key file after a change: it is the old one, or opens with the new password to the same keys.\<close>

lemma change_cmk_outcome:
  assumes "keystore_laws E" "keystore_ops_laws C" "keystore_change_cmk E C dir old new w = (r, w')"
  shows "r \<noteq> Inr () \<and> files w' (key_path dir) = files w (key_path dir)
     \<or> (\<exists>content new_content keys. files w (key_path dir) = Some content \<and> open_key_file E content old = Inr keys
         \<and> files w' (key_path dir) = Some new_content \<and> from_utf8 new_content = Inr new_content \<and> open_key_file E new_content new = Inr keys)"
proof (cases "(\<exists>e. r = Inl e) \<and> files w' = files w")
  case False
  obtain content data h sk w1 w2 new_content where c:
    "files w (key_path dir) = Some content" "json_parse E content = Inr data" "read_header E data = Inr h"
    "unwrap_secret E data h old = Inr sk" "rewrap_secret E C data h sk new w1 = (Inr new_content, w2)"
    "r \<noteq> Inr () \<and> files w' (key_path dir) = files w (key_path dir) \<or> files w' (key_path dir) = Some new_content"
    using change_cmk_runs[OF assms(3) False] by metis
  have h: "kh_version h = 1" "kh_algorithm h = ''xchacha20-poly1305''"
    using c(3) by (auto simp: read_header_def monad_simps)
  have one: "show_word (kh_version h) = ''1''"
    by (simp add: h show_one)
  obtain salt wk wrapped nonce t v1 v2 where s: "ko_salt C w1 = (salt, v1)" "derive_key_locked E new salt (kh_params h) = Inr wk"
      "wrap_key E C sk wk v1 = (Inr (wrapped, nonce), v2)"
      "json_pretty E (key_file_json E ''1'' ''xchacha20-poly1305'' wrapped nonce salt (kh_params h) t (language_value data)) = Inr new_content"
    using rewrap_done[OF c(5)] unfolding h(2) one by metis
  have l: "from_utf8 (language_value data) = Inr (language_value data)"
    using assms(1) c(2) unfolding keystore_laws_def by (intro language_utf8) blast
  have sk: "length sk = 32"
    using c(4) by (auto simp: unwrap_secret_def unwrap_key_def monad_simps split: if_splits)
  obtain kek where k: "derive_kek E sk = Inr kek" "lock_key E sk = Inr sk" "lock_key E kek = Inr kek"
    using derived_keys[OF assms(1)] by blast
  have "open_key_file E content old = Inr (sk, kek, keystore_language data)"
    using c(2-4) k by (simp add: open_key_file_def)
  moreover have "open_key_file E new_content new = Inr (sk, kek, keystore_language data)" "from_utf8 new_content = Inr new_content"
    using key_file_opens[OF assms(1) drawn_lengths(1)[OF assms(2) s(1)] _ sk s(2) _ l k s(4)] wrapped_with[OF assms(2) s(3)]
    unfolding keystore_language_def by blast+
  ultimately show ?thesis
    using c(1,6) by blast
qed auto

end

section \<open>An instance\<close>

text \<open>
  A file system in memory: a call that writes to a full disk leaves an empty file, and the mode of a file
  can be set or not.
\<close>

record key_world =
  kw_files :: "(string \<times> bytes) list"
  kw_modes :: "string \<Rightarrow> nat"

definition demo_key_ops :: "bool \<Rightarrow> bool \<Rightarrow> key_world keystore_ops" where
  "demo_key_ops disk_ok chmod_ok = \<lparr>
     fs_write = (\<lambda>p b w. if disk_ok then (Inr (), w\<lparr>kw_files := AList.update p b (kw_files w)\<rparr>)
        else (Inl ''disk full'', w\<lparr>kw_files := AList.update p [] (kw_files w)\<rparr>)),
     fs_rename = (\<lambda>p q w. case map_of (kw_files w) p of None \<Rightarrow> (Inl ''no such file'', w)
        | Some b \<Rightarrow> (Inr (), w\<lparr>kw_files := AList.update q b (AList.delete p (kw_files w))\<rparr>)),
     fs_read_to_string = (\<lambda>p w. case map_of (kw_files w) p of None \<Rightarrow> (Inl ''no such file'', w)
        | Some b \<Rightarrow> (case from_utf8 b of Inl e \<Rightarrow> (Inl e, w) | Inr s \<Rightarrow> (Inr s, w))),
     fs_remove_file = (\<lambda>p w. case map_of (kw_files w) p of None \<Rightarrow> (Inl ''no such file'', w)
        | Some _ \<Rightarrow> (Inr (), w\<lparr>kw_files := AList.delete p (kw_files w)\<rparr>)),
     fs_exists = (\<lambda>p w. (map_of (kw_files w) p \<noteq> None, w)),
     ko_create_dir_all = (\<lambda>_ w. (Inr (), w)),
     ko_metadata = (\<lambda>p w. if map_of (kw_files w) p = None then (Inl ''no such file'', w) else (Inr (), w)),
     ko_set_mode = (\<lambda>p m w. if chmod_ok then (Inr (), w\<lparr>kw_modes := (kw_modes w)(p := m)\<rparr>) else (Inl ''operation not permitted'', w)),
     ko_create = (\<lambda>p w. (Inr (), w\<lparr>kw_files := AList.update p [] (kw_files w)\<rparr>)),
     ko_write_all = (\<lambda>p b w. if disk_ok then (Inr (), w\<lparr>kw_files := AList.update p (the (map_of (kw_files w) p) @ b) (kw_files w)\<rparr>) else (Inl ''disk full'', w)),
     ko_sync_all = (\<lambda>_ w. (Inr (), w)),
     ko_salt = (\<lambda>w. (replicate 16 (CHR ''s''), w)), ko_nonce = (\<lambda>w. (replicate 24 (CHR ''n''), w)),
     ko_uuid = (\<lambda>w. (1, w)), ko_now = (\<lambda>w. (0, w)) \<rparr>"

interpretation demo_fs: key_fs "demo_key_ops disk_ok chmod_ok" "\<lambda>w. map_of (kw_files w)" kw_modes for disk_ok chmod_ok
  by unfold_locales
     (auto simp: demo_key_ops_def update_conv' delete_conv' fun_eq_iff dest: from_utf8_same split: if_splits option.splits sum.splits)

lemma demo_key_ops_laws: "keystore_ops_laws (demo_key_ops disk_ok chmod_ok)"
  by (simp add: keystore_ops_laws_def demo_key_ops_def)

text \<open>A cipher that opens only under the key it sealed with, and a derivation that keeps the password.\<close>

definition demo_keystore_env :: keystore_env where
  "demo_keystore_env = (rotation_env.extend demo_rotation_env (keystore_env.fields
     (\<lambda>password salt params. Inr (take 32 (password @ replicate 32 (CHR '' ''))))
     (\<lambda>j. Inr (CHR ''j'' # unary_enc j))))
     \<lparr> b64_encode := (\<lambda>b. CHR ''b'' # unary_enc b), b64_decode := (\<lambda>s. Inr (unary_dec (tl s))),
       json_print := (\<lambda>j. Inr (CHR ''j'' # unary_enc j)),
       json_parse := (\<lambda>s. if s = [] then Inl ''EOF''
         else let j = unary_dec (tl s) in if utf8_strings j then Inr j else Inl ''invalid UTF-8''),
       aead_seal := (\<lambda>k n a p. Some (CHR ''#'' # k @ p)),
       aead_open := (\<lambda>k n a c. if take 32 (tl c) = k \<and> c \<noteq> [] then Some (drop 32 (tl c)) else None) \<rparr>"

lemma json_value_utf8: "json_value j \<Longrightarrow> utf8_strings j"
  by (induction j rule: json_value.induct) (auto simp: list_all_iff)

lemma json_utf8_strings: "json_utf8 j \<Longrightarrow> utf8_strings j"
  by (induction j rule: json_utf8.induct) (auto simp: list_all_iff)

lemma prefixed_utf8: "byte_of c < 128 \<Longrightarrow> from_utf8 (c # unary_enc x) = Inr (c # unary_enc x)"
  by (simp add: from_utf8_def utf8_check_ascii unary_enc_def list_all_iff)

lemmas demo_keystore_defs = demo_keystore_env_def keystore_env.defs rotation_env.defs demo_rotation_defs

lemma demo_keystore_laws: "keystore_laws demo_keystore_env"
proof -
  have "env_laws demo_keystore_env"
    using demo_env_laws by (simp add: env_laws_def demo_keystore_defs demo_cloud_env_def)
  moreover have "crypto_laws demo_keystore_env"
    using demo_rotation_laws(2)
    by (simp add: crypto_laws_def demo_keystore_defs demo_cloud_env_def prefixed_utf8 json_utf8_strings)
  moreover have "list_all (\<lambda>c. byte_of c < 128) (show_nat n)" for n
    using show_nat_digits[of n] by (auto simp: list_all_iff is_digit_def)
  then have "from_utf8 (rfc3339_show demo_keystore_env t) = Inr (rfc3339_show demo_keystore_env t)" for t
    by (simp add: demo_keystore_defs demo_cloud_env_def demo_env_def from_utf8_def utf8_check_ascii)
  moreover have "argon2id demo_keystore_env password salt params = Inr k \<Longrightarrow> length k = 32" for password salt params k
    by (auto simp: demo_keystore_defs)
  moreover have "json_parse demo_keystore_env s = Inr j \<Longrightarrow> utf8_strings j" for s j
    by (auto simp: demo_keystore_defs Let_def split: if_splits)
  moreover have "\<exists>s. json_pretty demo_keystore_env j = Inr s \<and> from_utf8 s = Inr s \<and> json_parse demo_keystore_env s = Inr j" if "json_value j" for j
    using json_value_utf8[OF that] by (simp add: demo_keystore_defs prefixed_utf8)
  moreover have "from_utf8 (b64_encode demo_keystore_env b) = Inr (b64_encode demo_keystore_env b)" for b
    by (simp add: demo_keystore_defs prefixed_utf8)
  ultimately show ?thesis
    unfolding keystore_laws_def by blast
qed

subsection \<open>A key file in it\<close>

definition demo_sk :: bytes where "demo_sk = replicate 32 (CHR ''S'')"
definition demo_kek :: bytes where "demo_kek = replicate 32 (CHR ''k'')"

definition demo_wk :: "string \<Rightarrow> bytes" where
  "demo_wk password = take 32 (password @ replicate 32 (CHR '' ''))"

definition demo_salt :: bytes where "demo_salt = replicate 16 (CHR ''s'')"
definition demo_nonce :: bytes where "demo_nonce = replicate 24 (CHR ''n'')"

definition demo_key_json :: "string \<Rightarrow> json" where
  "demo_key_json password = key_file_json demo_keystore_env ''1'' ''xchacha20-poly1305'' (CHR ''#'' # demo_wk password @ demo_sk)
     demo_nonce demo_salt argon2_medium 0 ''en''"

definition demo_file :: "string \<Rightarrow> string" where
  "demo_file password = CHR ''j'' # unary_enc (demo_key_json password)"

lemma demo_keystore_simps [simp]:
  "lock_key demo_keystore_env k = Inr k" "lock_memory demo_keystore_env k = Inr ()"
  "derive_kek demo_keystore_env sk = Inr demo_kek" "derive_key_locked demo_keystore_env password salt params = Inr (demo_wk password)"
  "json_pretty demo_keystore_env j = Inr (CHR ''j'' # unary_enc j)"
  "b64_decode demo_keystore_env (b64_encode demo_keystore_env b) = Inr b"
  by (simp_all add: lock_key_def derive_kek_def derive_key_locked_def demo_kek_def demo_wk_def demo_keystore_defs)

lemma demo_draws [simp]:
  "io_draw (ko_salt (demo_key_ops disk_ok chmod_ok)) w = (Inr demo_salt, w)"
  "io_draw (ko_nonce (demo_key_ops disk_ok chmod_ok)) w = (Inr demo_nonce, w)"
  "io_draw (ko_now (demo_key_ops disk_ok chmod_ok)) w = (Inr 0, w)"
  "io_draw (ko_uuid (demo_key_ops disk_ok chmod_ok)) w = (Inr 1, w)"
  by (simp_all add: io_draw_def demo_key_ops_def demo_salt_def demo_nonce_def)

lemma demo_wrap [simp]:
  "wrap_key demo_keystore_env (demo_key_ops disk_ok chmod_ok) key wk w = (Inr (CHR ''#'' # wk @ key, demo_nonce), w)"
  by (simp add: wrap_key_def demo_keystore_defs)

lemma demo_unwrap [simp]:
  "unwrap_key demo_keystore_env (CHR ''#'' # demo_wk p @ demo_sk) nonce (demo_wk q)
     = (if demo_wk p = demo_wk q then Inr demo_sk else Inl ''aead::Error'')"
proof -
  have "length (demo_wk x) = 32" "length demo_sk = 32" for x
    by (simp_all add: demo_wk_def demo_sk_def)
  then show ?thesis
    by (simp add: unwrap_key_def demo_keystore_defs)
qed

lemma demo_lengths [simp]: "length demo_sk = 32" "length demo_salt = 16" "length demo_nonce = 24"
  by (simp_all add: demo_sk_def demo_salt_def demo_nonce_def)

lemma demo_parse: "json_parse demo_keystore_env (demo_file password) = Inr (demo_key_json password)"
proof -
  have a: "from_utf8 ''xchacha20-poly1305'' = Inr ''xchacha20-poly1305''" "from_utf8 ''en'' = Inr ''en''" "as_u64 (JNum ''1'') = Some 1"
    using as_u64_show[of 1] by (simp_all add: show_one from_utf8_def utf8_check_ascii)
  have "json_value (demo_key_json password)"
    unfolding demo_key_json_def by (rule key_file_value[OF demo_keystore_laws a(1,2)]) (simp add: a(3))
  then show ?thesis
    using json_value_utf8 by (simp add: demo_file_def demo_keystore_defs)
qed

lemma demo_header: "read_header demo_keystore_env (demo_key_json password)
    = Inr \<lparr> kh_version = 1, kh_algorithm = ''xchacha20-poly1305'', kh_salt = demo_salt, kh_params = argon2_medium \<rparr>"
  using as_u64_show[of 1] by (simp add: read_header_def demo_key_json_def key_file_fields show_one)

lemma demo_secret: "unwrap_secret demo_keystore_env (demo_key_json p) h q = (if demo_wk p = demo_wk q then Inr demo_sk else Inl ''aead::Error'')"
  by (simp add: unwrap_secret_def demo_key_json_def key_file_fields)

lemma demo_language: "language_value (demo_key_json p) = ''en''"
  by (simp add: language_value_def demo_key_json_def key_file_fields)

lemma demo_opens: "open_key_file demo_keystore_env (demo_file p) q
    = (if demo_wk p = demo_wk q then Inr (demo_sk, demo_kek, English) else Inl ''aead::Error'')"
  by (simp add: open_key_file_def demo_parse demo_header demo_secret keystore_language_def demo_language from_keystore_value_def)

lemma demo_rewrap: "rewrap_secret demo_keystore_env (demo_key_ops disk_ok chmod_ok) (demo_key_json p)
    \<lparr> kh_version = 1, kh_algorithm = ''xchacha20-poly1305'', kh_salt = demo_salt, kh_params = argon2_medium \<rparr> demo_sk q w
    = (Inr (demo_file q), w)"
  by (simp add: rewrap_secret_def demo_language demo_file_def show_one)
     (simp add: demo_key_json_def)

definition demo_key_world :: "string \<Rightarrow> key_world" where
  "demo_key_world password = \<lparr> kw_files = [(key_path ''v'', demo_file password)], kw_modes = (\<lambda>_. 384) \<rparr>"

lemma demo_utf8: "from_utf8 (demo_file p) = Inr (demo_file p)"
  by (simp add: demo_file_def prefixed_utf8)

lemma demo_change: "keystore_change_cmk demo_keystore_env (demo_key_ops True chmod_ok) ''v'' ''old'' ''new'' (demo_key_world ''old'')
    = (if chmod_ok then Inr () else Inl ''operation not permitted'', demo_key_world ''new'')"
proof -
  let ?C = "demo_key_ops True chmod_ok" and ?w = "demo_key_world ''old''"
  have r: "fs_read_to_string ?C (key_path ''v'') ?w = (Inr (demo_file ''old''), ?w)"
    by (simp add: demo_key_ops_def demo_key_world_def demo_utf8)
  have "replace_key_file ?C ''v'' (demo_file ''new'') ?w = (if chmod_ok then Inr () else Inl ''operation not permitted'', demo_key_world ''new'')"
    using demo_fs.temp_differs[of "''v''"]
    by (simp add: replace_key_file_def make_private_def io_bind_def demo_key_ops_def demo_key_world_def fun_eq_iff)
  then show ?thesis
    by (simp add: keystore_change_cmk_def r demo_parse demo_header demo_secret demo_rewrap)
qed

section \<open>Properties\<close>

text \<open>
  a new key file opens with the password it was made with, and gives the same secret key, key
  encryption key and language; it is readable by its owner only.
\<close>

theorem new_key_file_unlocks:
  assumes "keystore_laws E" "keystore_ops_laws C" "key_fs C files modes" "length sk = 32"
    and "keystore_initialize E C dir sk password params language w = (Inr ks, w1)"
    and "files w2 (key_path dir) = files w1 (key_path dir)" "fs_read_to_string C (key_path dir) w2 = (Inr content, w3)"
  shows "\<exists>ks' w4. keystore_unlock E C dir password w2 = (Inr ks', w4) \<and> ks_sk ks' = ks_sk ks \<and> ks_kek ks' = ks_kek ks
     \<and> ks_mnemonic_language ks' = ks_mnemonic_language ks \<and> modes w1 (key_path dir) = 384"
proof -
  obtain c kek where k: "files w1 (key_path dir) = Some c" "open_key_file E c password = Inr (sk, kek, language)"
      "ks_sk ks = Some sk" "ks_kek ks = Some kek" "ks_mnemonic_language ks = language" "modes w1 (key_path dir) = 384"
    using key_fs.initialize_written[OF assms(3,1,2,5,4)] by metis
  have "content = c"
    using local_fs.read_done[OF key_fs.axioms(1)[OF assms(3)] assms(7)] assms(6) k(1) by simp
  then show ?thesis
    using k assms(7) by (simp add: keystore_unlock_def io_bind_def io_draw_def split: prod.split)
qed

theorem new_key_file_unlocks_witness:
  "\<exists>ks w1 ks' w2. keystore_initialize demo_keystore_env (demo_key_ops True True) ''v'' demo_sk ''old'' argon2_medium English
        \<lparr> kw_files = [], kw_modes = (\<lambda>_. 420) \<rparr> = (Inr ks, w1)
     \<and> keystore_unlock demo_keystore_env (demo_key_ops True True) ''v'' ''old'' w1 = (Inr ks', w2) \<and> ks_sk ks' = Some demo_sk"
proof -
  let ?C = "demo_key_ops True True" and ?w = "\<lparr> kw_files = [], kw_modes = (\<lambda>_. 420) \<rparr>"
  obtain ks w1 where i: "keystore_initialize demo_keystore_env ?C ''v'' demo_sk ''old'' argon2_medium English ?w = (Inr ks, w1)"
      "kw_files w1 = [(key_path ''v'', demo_file ''old'')]" "ks_sk ks = Some demo_sk"
    by (simp add: keystore_initialize_def to_keystore_value_def flip: demo_key_json_def demo_file_def)
       (simp add: demo_key_ops_def io_bind_def io_draw_def make_private_def)
  have r: "fs_read_to_string ?C (key_path ''v'') w1 = (Inr (demo_file ''old''), w1)"
    by (simp add: demo_key_ops_def i(2) demo_utf8)
  show ?thesis
    using new_key_file_unlocks[OF demo_keystore_laws demo_key_ops_laws demo_fs.key_fs_axioms _ i(1) _ r] i(1,3) by auto
qed

text \<open>
  C21: changing the master password is atomic: whatever step fails, the key file is the one it was, or it
  opens with the new password to the keys it opened to with the old one.
\<close>

theorem password_change_atomic:
  assumes "keystore_laws E" "keystore_ops_laws C" "key_fs C files modes"
    and "keystore_change_cmk E C dir old new w = (r, w')"
  shows "r \<noteq> Inr () \<and> files w' (key_path dir) = files w (key_path dir)
     \<or> (\<exists>content new_content keys. files w (key_path dir) = Some content \<and> open_key_file E content old = Inr keys
         \<and> files w' (key_path dir) = Some new_content \<and> open_key_file E new_content new = Inr keys)"
  using key_fs.change_cmk_outcome[OF assms(3,1,2,4)] by blast

theorem password_change_atomic_witness:
  "\<exists>w' content keys. keystore_change_cmk demo_keystore_env (demo_key_ops True True) ''v'' ''old'' ''new'' (demo_key_world ''old'') = (Inr (), w')
     \<and> map_of (kw_files w') (key_path ''v'') = Some content \<and> open_key_file demo_keystore_env content ''new'' = Inr keys"
  using password_change_atomic[OF demo_keystore_laws demo_key_ops_laws demo_fs.key_fs_axioms demo_change[of True]] demo_change[of True] by auto

text \<open>
  the answer does not tell which of the two it is: a change that fails to restrict the file after it
  has replaced it answers with an error, and from then on the new password is the one that opens the vault.
\<close>

theorem failed_change_in_force:
  assumes "keystore_laws E" "keystore_ops_laws C" "key_fs C files modes"
    and "keystore_change_cmk E C dir old new w = (Inl e, w')" "files w' (key_path dir) \<noteq> files w (key_path dir)"
  shows "\<exists>new_content keys. files w' (key_path dir) = Some new_content \<and> open_key_file E new_content new = Inr keys"
  using key_fs.change_cmk_outcome[OF assms(3,1,2,4)] assms(5) by blast

lemma demo_passwords_differ: "demo_wk ''old'' \<noteq> demo_wk ''new''"
  by (simp add: demo_wk_def)

theorem failed_change_in_force_witness:
  "\<exists>e w' content keys. keystore_change_cmk demo_keystore_env (demo_key_ops True False) ''v'' ''old'' ''new'' (demo_key_world ''old'') = (Inl e, w')
     \<and> map_of (kw_files w') (key_path ''v'') = Some content \<and> open_key_file demo_keystore_env content ''new'' = Inr keys
     \<and> open_key_file demo_keystore_env content ''old'' = Inl ''aead::Error''"
proof -
  have c: "keystore_change_cmk demo_keystore_env (demo_key_ops True False) ''v'' ''old'' ''new'' (demo_key_world ''old'')
      = (Inl ''operation not permitted'', demo_key_world ''new'')"
    using demo_change[of False] by simp
  have "demo_file ''new'' \<noteq> demo_file ''old''"
    using demo_opens[of "''new''" "''old''"] demo_opens[of "''old''" "''old''"] demo_passwords_differ by auto
  then have d: "map_of (kw_files (demo_key_world ''new'')) (key_path ''v'') \<noteq> map_of (kw_files (demo_key_world ''old'')) (key_path ''v'')"
    by (simp add: demo_key_world_def)
  show ?thesis
    using failed_change_in_force[OF demo_keystore_laws demo_key_ops_laws demo_fs.key_fs_axioms c d] c
      demo_opens[of "''new''" "''old''"] demo_passwords_differ
    by (auto simp: demo_key_world_def)
qed

text \<open>
  rewriting the key file has no such guarantee. Where the disk is full the old file is already gone:
  the password that opened the vault does not open it any more, and no other does.
\<close>

theorem rewrite_loses_key_file:
  "\<exists>w'. keystore_initialize demo_keystore_env (demo_key_ops False True) ''v'' demo_sk ''new'' argon2_medium English (demo_key_world ''old'')
        = (Inl ''disk full'', w')
     \<and> open_key_file demo_keystore_env (demo_file ''old'') ''old'' = Inr (demo_sk, demo_kek, English)
     \<and> map_of (kw_files (demo_key_world ''old'')) (key_path ''v'') = Some (demo_file ''old'')
     \<and> map_of (kw_files w') (key_path ''v'') = Some [] \<and> (\<forall>password. open_key_file demo_keystore_env [] password = Inl ''EOF'')"
proof -
  have "keystore_initialize demo_keystore_env (demo_key_ops False True) ''v'' demo_sk ''new'' argon2_medium English (demo_key_world ''old'')
      = (Inl ''disk full'', (demo_key_world ''old'')\<lparr>kw_files := [(key_path ''v'', [])]\<rparr>)"
    by (simp add: keystore_initialize_def) (simp add: demo_key_ops_def io_bind_def demo_key_world_def)
  moreover have "json_parse demo_keystore_env [] = Inl ''EOF''"
    by (simp add: demo_keystore_defs)
  then have "open_key_file demo_keystore_env [] password = Inl ''EOF''" for password
    by (simp add: open_key_file_def)
  ultimately show ?thesis
    by (simp add: demo_opens demo_key_world_def)
qed

end
