(* ===== verification/Exec_Vault_Laws.thy ===== *)
theory Exec_Vault_Laws
  imports Exec_Vault Keystore_Laws Health_Laws
begin

text \<open>
  What creating a vault guarantees: it can be recovered from its words, and a creation that fails after
  the key file was written leaves no file behind; a failure while the key file is written does. The
  locale \<open>vault_files\<close> is the contract of the file system and the database library: which files a call
  may change.
\<close>

section \<open>Files of the database\<close>

text \<open>
  What the database library and the removal of files do to the files: a connection touches its database,
  the write-ahead log and the shared memory file, no other. \<open>path_of\<close> is the file of a connection.
\<close>

definition db_files :: "string \<Rightarrow> string set" where
  "db_files p = {p, p @ ''-wal'', p @ ''-shm''}"

definition same_outside :: "string set \<Rightarrow> (string \<Rightarrow> bytes option) \<Rightarrow> (string \<Rightarrow> bytes option) \<Rightarrow> bool" where
  "same_outside A f g \<longleftrightarrow> (\<forall>p. p \<notin> A \<longrightarrow> f p = g p)"

lemma same_outside_refl [simp]: "same_outside A f f"
  by (simp add: same_outside_def)

lemma same_outside_trans: "same_outside A f g \<Longrightarrow> same_outside A g h \<Longrightarrow> same_outside A f h"
  by (simp add: same_outside_def)

lemma same_outside_mono: "same_outside A f g \<Longrightarrow> A \<subseteq> B \<Longrightarrow> same_outside B f g"
  by (auto simp: same_outside_def)

lemma io_map_err_ok: "io_map_err h m w = (Inr a, w') \<longleftrightarrow> m w = (Inr a, w')"
  by (auto simp: io_map_err_def split: prod.splits)

locale vault_files = key_fs K files modes for K :: "('w, 'c, 'y) exec_ops_scheme" and files :: "'w \<Rightarrow> string \<Rightarrow> bytes option" and modes +
  fixes path_of :: "'c \<Rightarrow> string"
  assumes lexists: "sq_lexists K p w = (b, w') \<Longrightarrow> files w' = files w \<and> (b \<longleftrightarrow> files w p \<noteq> None)"
    and removed: "sq_remove K p w = (Inr u, w') \<Longrightarrow> files w' = (files w)(p := None)"
    and not_there: "sq_remove K p w = (Inl RemoveNotFound, w') \<Longrightarrow> files w' = files w \<and> files w p = None"
    and not_removed: "sq_remove K p w = (Inl (RemoveFailed e), w') \<Longrightarrow> files w' = files w"
    and open_path: "sq_open K p w = (Inr conn, w') \<Longrightarrow> path_of conn = p"
    and open_files: "sq_open K p w = (r, w') \<Longrightarrow> same_outside (db_files p) (files w) (files w')"
    and batch_files: "sq_batch K conn s w = (r1, w') \<Longrightarrow> same_outside (db_files (path_of conn)) (files w) (files w')"
    and count_files: "sq_count K conn w = (r1, w') \<Longrightarrow> same_outside (db_files (path_of conn)) (files w) (files w')"
    and read_version_files: "sq_read_version K conn w = (r2, w') \<Longrightarrow> same_outside (db_files (path_of conn)) (files w) (files w')"
    and migrate_files: "sq_migrate K conn v w = (r1, w') \<Longrightarrow> same_outside (db_files (path_of conn)) (files w) (files w')"
    and write_version_files: "sq_write_version K conn s w = (r1, w') \<Longrightarrow> same_outside (db_files (path_of conn)) (files w) (files w')"
    and quick_check_files: "sq_quick_check K conn w = (r2, w') \<Longrightarrow> same_outside (db_files (path_of conn)) (files w) (files w')"
    and foreign_keys_files: "sq_foreign_keys K conn w = (r3, w') \<Longrightarrow> same_outside (db_files (path_of conn)) (files w) (files w')"
    and tables_files: "sq_tables K conn w = (d, w') \<Longrightarrow> same_outside (db_files (path_of conn)) (files w) (files w')"
    and generate_files: "mn_generate K l n w = (r2, w') \<Longrightarrow> files w' = files w"
begin

text \<open>A computation that changes only some of the files.\<close>

definition only :: "string set \<Rightarrow> ('w, 'e, 'a) io \<Rightarrow> bool" where
  "only A m \<longleftrightarrow> (\<forall>w r w'. m w = (r, w') \<longrightarrow> same_outside A (files w) (files w'))"

lemma only_bind [intro]: "only A m \<Longrightarrow> (\<And>a. only A (f a)) \<Longrightarrow> only A (io_bind m f)"
  unfolding only_def io_bind_def
  by (clarsimp split: prod.splits sum.splits) (metis same_outside_trans)

lemma only_lift [intro, simp]: "only A (io_lift r)" "only A (io_return a)"
  by (simp_all add: only_def)

lemma only_map_err [intro]: "only A m \<Longrightarrow> only A (io_map_err h m)"
  by (auto simp: only_def io_map_err_def split: prod.splits)

lemma only_for_each: "(\<And>x. only A (f x)) \<Longrightarrow> only A (for_each f xs)"
  by (induction xs) (auto intro: only_bind)

lemma only_mono: "only A m \<Longrightarrow> A \<subseteq> B \<Longrightarrow> only B m"
  by (auto simp: only_def intro: same_outside_mono)

lemma read_version_only: "read_current_version K conn w = (v, w') \<Longrightarrow> same_outside (db_files (path_of conn)) (files w) (files w')"
  using read_version_files[of conn w] by (auto simp: read_current_version_def split: prod.splits sum.splits option.splits)

lemma only_after_version:
  "(\<And>v. only (db_files (path_of conn)) (g v))
     \<Longrightarrow> only (db_files (path_of conn)) (\<lambda>w. case read_current_version K conn w of (v, w1) \<Rightarrow> g v w1)"
  unfolding only_def by (clarsimp split: prod.splits) (metis read_version_only same_outside_trans)

lemma only_if: "only A m1 \<Longrightarrow> only A m2 \<Longrightarrow> only A (\<lambda>w. if c then m1 w else m2 w)"
  by (simp add: only_def)

lemma only_pure: "only A (\<lambda>w. (r, w))"
  by (simp add: only_def)

lemma run_migrations_only: "only (db_files (path_of conn)) (run_migrations K conn)"
proof -
  have "only (db_files (path_of conn)) (sq_migrate K conn v)" "only (db_files (path_of conn)) (sq_write_version K conn s)" for v s
    using migrate_files write_version_files by (auto simp: only_def)
  then show ?thesis
    unfolding run_migrations_def
    by (intro only_after_version only_if only_pure only_bind only_for_each only_map_err) simp_all
qed

lemma checks_only: "only (db_files (path_of conn)) (run_quick_check K conn)" "only (db_files (path_of conn)) (run_foreign_key_check K conn)"
proof -
  have "only (db_files (path_of conn)) (sq_quick_check K conn)" "only (db_files (path_of conn)) (sq_foreign_keys K conn)"
    using quick_check_files foreign_keys_files by (auto simp: only_def)
  then show "only (db_files (path_of conn)) (run_quick_check K conn)" "only (db_files (path_of conn)) (run_foreign_key_check K conn)"
    unfolding run_quick_check_def run_foreign_key_check_def by (auto intro!: only_bind only_map_err)
qed

lemma migrate_only: "only (db_files (path_of conn)) (migrate_and_validate K conn)"
  unfolding migrate_and_validate_def
  by (intro only_after_version only_if only_pure only_bind only_map_err run_migrations_only checks_only only_lift)

lemma only_bind_res: "only A m \<Longrightarrow> (\<And>w a w'. m w = (Inr a, w') \<Longrightarrow> only A (f a)) \<Longrightarrow> only A (io_bind m f)"
  unfolding only_def io_bind_def
  by (clarsimp split: prod.splits sum.splits) (metis same_outside_trans)

text \<open>The keyed connection is one to the file it was opened on.\<close>

lemma keyed_only: "only (db_files p) (open_keyed_connection E K p key v)"
proof -
  have r: "only (db_files p) (io_bind (io_map_err (\<lambda>_. WrongDbPageKey) (sq_batch K c (key_pragma E key))) (\<lambda>_.
     io_bind (if v then io_map_err (\<lambda>_. WrongDbPageKey) (sq_count K c) else io_return ()) (\<lambda>_.
     io_bind (io_map_err DbOpenIo (sq_batch K c PRAGMAS)) (\<lambda>_. io_return c))))" if "path_of c = p" for c
  proof -
    have "only (db_files p) (sq_batch K c s)" "only (db_files p) (sq_count K c)" for s
      using batch_files[of c] count_files[of c] that by (auto simp: only_def)
    note b = this
    have "only (db_files p) (if v then io_map_err (\<lambda>_. WrongDbPageKey) (sq_count K c) else io_return ())"
      using b(2) by (cases v) (simp_all add: only_map_err)
    then show ?thesis
      using b(1) by (intro only_bind only_map_err only_lift) simp_all
  qed
  have o: "only (db_files p) (io_map_err DbOpenIo (sq_open K p))"
    using open_files by (intro only_map_err) (auto simp: only_def)
  have c: "path_of c = p" if "io_map_err DbOpenIo (sq_open K p) w = (Inr c, w')" for w c w'
    using that open_path by (simp add: io_map_err_ok)
  show ?thesis
    unfolding open_keyed_connection_def by (rule only_bind_res[OF o r[OF c]])
qed

lemma keyed_path: "open_keyed_connection E K p key v w = (Inr c, w') \<Longrightarrow> path_of c = p"
  by (auto simp: open_keyed_connection_def monad_simps io_map_err_ok dest: open_path)

lemma create_only: "only (db_files (db_path dir)) (create_sqlcipher_vault E K dir key)"
proof -
  have d: "only (db_files (db_path dir)) (io_map_err DbOpenIo (ko_create_dir_all K dir))"
    using dirs_same by (intro only_map_err) (auto simp: only_def)
  have m: "only (db_files (db_path dir)) (migrate_and_validate K c)" if "open_keyed_connection E K (db_path dir) key False w = (Inr c, w')" for c w w'
    using migrate_only[of c] keyed_path[OF that] by simp
  show ?thesis
    unfolding create_sqlcipher_vault_def
    by (intro only_bind[OF d] only_bind_res[OF keyed_only] m)
qed

lemma migrate_same_conn: "migrate_and_validate K c w = (Inr c', w') \<Longrightarrow> c' = c"
  by (auto simp: migrate_and_validate_def monad_simps split: prod.splits if_splits)

lemma create_path: "create_sqlcipher_vault E K dir key w = (Inr c, w') \<Longrightarrow> path_of c = db_path dir"
  unfolding create_sqlcipher_vault_def by (auto simp: monad_simps dest: keyed_path migrate_same_conn)

lemma existing_files: "artifacts_exist K ps w = (bs, w') \<Longrightarrow> files w' = files w \<and> bs = map (\<lambda>p. files w p \<noteq> None) ps"
proof (induction ps arbitrary: w bs w')
  case (Cons p ps)
  obtain b w1 where l: "sq_lexists K p w = (b, w1)" by fastforce
  obtain bs' w2 where a: "artifacts_exist K ps w1 = (bs', w2)" by fastforce
  show ?case
    using Cons.IH[OF a] lexists[OF l] Cons.prems l a by simp
qed simp

lemma new_service_files: "vault_service_new E K c w = (Sd, w') \<Longrightarrow> same_outside (db_files (path_of c)) (files w) (files w')"
  using tables_files[of c w] draw_same(3) by (fastforce simp: vault_service_new_def split: prod.splits option.splits)

lemma begin_files:
  assumes "begin_file_backed_vault_db E K key x = (r, x')"
  shows "same_outside (db_files (db_path (ex_vault_dir x))) (files (ex_world x)) (files (ex_world x'))"
    and "ex_vault_dir x' = ex_vault_dir x"
    and "r = Inr existed \<Longrightarrow> existed = map (\<lambda>p. files (ex_world x) p \<noteq> None) (vault_db_paths (ex_vault_dir x))"
proof -
  obtain bs w1 where a: "artifacts_exist K (vault_db_paths (ex_vault_dir x)) (ex_world x) = (bs, w1)" by fastforce
  obtain c w2 where k: "create_sqlcipher_vault E K (ex_vault_dir x) key w1 = (c, w2)" by fastforce
  have f: "same_outside (db_files (db_path (ex_vault_dir x))) (files (ex_world x)) (files w2)"
    using create_only k existing_files[OF a] unfolding only_def by metis
  note s = existing_files[OF a] assms a k
  show "ex_vault_dir x' = ex_vault_dir x"
    using s by (auto simp: begin_file_backed_vault_db_def split: sum.splits prod.splits)
  show "r = Inr existed \<Longrightarrow> existed = map (\<lambda>p. files (ex_world x) p \<noteq> None) (vault_db_paths (ex_vault_dir x))"
    using s by (auto simp: begin_file_backed_vault_db_def split: sum.splits prod.splits)
  show "same_outside (db_files (db_path (ex_vault_dir x))) (files (ex_world x)) (files (ex_world x'))"
  proof (cases c)
    case (Inl e)
    then show ?thesis
      using s f by (auto simp: begin_file_backed_vault_db_def)
  next
    case (Inr conn)
    obtain S d w3 where n: "vault_service_new E K conn w2 = ((S, d), w3)"
      by (metis prod.exhaust)
    have "path_of conn = db_path (ex_vault_dir x)"
      using create_path k Inr by blast
    then show ?thesis
      using s(2) a k Inr n same_outside_trans[OF f] new_service_files[OF n]
      by (clarsimp simp: begin_file_backed_vault_db_def)
  qed
qed

lemma unlock_files: "keystore_unlock E K dir password w = (r, w') \<Longrightarrow> files w' = files w"
proof -
  assume u: "keystore_unlock E K dir password w = (r, w')"
  obtain a w1 where d: "fs_read_to_string K (key_path dir) w = (a, w1)" by fastforce
  have f: "files w1 = files w"
    using d read_done read_failed by (cases a) blast+
  show ?thesis
  proof (cases a)
    case (Inl e)
    then show ?thesis
      using u d f by (simp add: keystore_unlock_def io_bind_def)
  next
    case (Inr content)
    obtain v w2 where v: "ko_uuid K w1 = (v, w2)" by fastforce
    then show ?thesis
      using u d f Inr draw_same(3)[OF v] v
      by (auto simp: keystore_unlock_def io_bind_def io_draw_def io_lift_def split: sum.splits prod.splits)
  qed
qed

lemma unlock_open_files:
  "unlock_open_vault E K password x = (r, x') \<Longrightarrow> files (ex_world x') = files (ex_world x) \<and> ex_vault_dir x' = ex_vault_dir x"
  using unlock_files[of E "ex_vault_dir x" password "ex_world x"]
  by (auto simp: unlock_open_vault_def crypto_unlock_def io_bind_def io_map_err_def split: prod.splits sum.splits)

text \<open>What is left of the files once some were removed.\<close>

lemma artifact_removed:
  assumes "\<And>p w e w'. sq_remove K p w \<noteq> (Inl (RemoveFailed e), w')"
  shows "files (snd (sq_remove K p w)) = (files w)(p := None)"
proof -
  obtain r w' where s: "sq_remove K p w = (r, w')" by fastforce
  show ?thesis
  proof (cases r)
    case (Inl e)
    then show ?thesis
      using assms[of p w] s not_there by (cases e) (auto simp: fun_eq_iff)
  qed (use s removed in simp)
qed

lemma new_files_removed:
  assumes "\<And>p w e w'. sq_remove K p w \<noteq> (Inl (RemoveFailed e), w')" "remove_new_files K ps w = (r, w')"
  shows "files w' = (\<lambda>p. if (p, False) \<in> set ps then None else files w p)"
  using assms(2)
proof (induction ps arbitrary: w r w')
  case (Cons a ps)
  obtain p existed where a: "a = (p, existed)" by fastforce
  show ?case
  proof (cases existed)
    case True
    then show ?thesis
      using Cons a by auto
  next
    case False
    obtain q w1 where q: "sq_remove K p w = (q, w1)" by fastforce
    obtain rest w2 where rest: "remove_new_files K ps w1 = (rest, w2)" by fastforce
    show ?thesis
      using Cons.IH[OF rest] Cons.prems artifact_removed[OF assms(1), of p w] a False q rest by (auto simp: fun_eq_iff)
  qed
qed simp

lemma cleaned_up:
  assumes "\<And>p w e w'. sq_remove K p w \<noteq> (Inl (RemoveFailed e), w')"
  shows "files (cleanup_failed_new_vault_initialization K dir False False False False w)
     = (\<lambda>p. if p \<in> insert (key_path dir) (db_files (db_path dir)) then None else files w p)"
  using artifact_removed[OF assms]
  by (auto simp: cleanup_failed_new_vault_initialization_def remove_initialized_artifact_def db_files_def db_path_def path_join_def Let_def)

text \<open>The key file is the only one its creation writes.\<close>

lemma initialize_only: "keystore_initialize E K dir sk password params language w = (Inr ks, w') \<Longrightarrow> same_outside {key_path dir} (files w) (files w')"
proof -
  assume "keystore_initialize E K dir sk password params language w = (Inr ks, w')"
  then obtain salt w1 wk k w2 t w3 content w4 w5 w6 device where s:
      "ko_salt K w = (salt, w1)" "wrap_key E K sk wk w1 = (Inr k, w2)" "ko_now K w2 = (t, w3)"
      "ko_create_dir_all K dir w3 = (Inr (), w4)" "fs_write K (key_path dir) content w4 = (Inr (), w5)"
      "make_private K (key_path dir) w5 = (Inr (), w6)" "ko_uuid K w6 = (device, w')"
    unfolding keystore_initialize_def lock_key_def by (auto simp: monad_simps)
  have "files w4 = files w" "files w' = files w5"
    using draw_same(1)[OF s(1)] wrap_same[OF s(2)] draw_same(4)[OF s(3)] dirs_same[OF s(4)] private_same[OF s(6)] draw_same(3)[OF s(7)] by simp_all
  then show ?thesis
    using write_other[OF s(5)] by (auto simp: same_outside_def)
qed

lemma rolled_back:
  assumes "\<And>p w e w'. sq_remove K p w \<noteq> (Inl (RemoveFailed e), w')"
    and "pending_rollback K (map (\<lambda>p. f p \<noteq> None) (vault_db_paths (ex_vault_dir x))) x = (r, x')"
    and "same_outside (db_files (db_path (ex_vault_dir x))) f (files (ex_world x))"
  shows "same_outside (db_files (db_path (ex_vault_dir x))) f (files (ex_world x'))"
proof -
  let ?ps = "vault_db_paths (ex_vault_dir x)"
  obtain e w where m: "remove_new_files K (zip ?ps (map (\<lambda>p. f p \<noteq> None) ?ps)) (ex_world x) = (e, w)" by fastforce
  have z: "(p, False) \<in> set (zip ps (map (\<lambda>p. f p \<noteq> None) ps)) \<longleftrightarrow> p \<in> set ps \<and> f p = None" for p and ps :: "string list"
    by (induction ps) auto
  have "files w = (\<lambda>p. if p \<in> set ?ps \<and> f p = None then None else files (ex_world x) p)"
    using new_files_removed[OF assms(1) m] unfolding z .
  then show ?thesis
    using assms(2,3) m by (auto simp: pending_rollback_def same_outside_def)
qed

lemma init_database_fails:
  assumes "\<And>p w e w'. sq_remove K p w \<noteq> (Inl (RemoveFailed e), w')"
    and "init_database E K password cleanup x = (r, x')" "r \<noteq> VaultInitialized"
  shows "\<exists>w. ex_world x' = cleanup w \<and> same_outside (db_files (db_path (ex_vault_dir x))) (files (ex_world x)) (files w)"
proof -
  let ?A = "db_files (db_path (ex_vault_dir x))"
  obtain k w1 where k: "derive_db_page_key_for_pending E K (ex_vault_dir x) password (ex_world x) = (k, w1)" by fastforce
  have f1: "files w1 = files (ex_world x)"
    using k unlock_files[of E "ex_vault_dir x" password "ex_world x"]
    by (auto simp: derive_db_page_key_for_pending_def io_bind_def split: prod.splits sum.splits)
  show ?thesis
  proof (cases k)
    case (Inl e)
    then show ?thesis
      using assms(2) k f1 by (auto simp: init_database_def on_ext_world_def intro: exI[of _ w1])
  next
    case (Inr key)
    obtain b x2 where b: "begin_file_backed_vault_db E K key (x\<lparr>ex_world := w1\<rparr>) = (b, x2)" by fastforce
    note f2 = begin_files[OF b, simplified, unfolded f1]
    show ?thesis
    proof (cases b)
      case (Inl e)
      then show ?thesis
        using assms(2) k Inr b f2(1) by (auto simp: init_database_def on_ext_world_def intro: exI[of _ "ex_world x2"])
    next
      case b2: (Inr existed)
      obtain u x3 where u: "unlock_open_vault E K password x2 = (u, x3)" by fastforce
      obtain rb x4 where rb: "pending_rollback K existed x3 = (rb, x4)" by fastforce
      have "\<exists>e. u = Inl e"
        using assms(2,3) k Inr b b2 u by (cases u) (auto simp: init_database_def on_ext_world_def)
      then have x': "ex_world x' = cleanup (ex_world x4)"
        using assms(2) k Inr b b2 u rb by (auto simp: init_database_def on_ext_world_def)
      have d: "ex_vault_dir x3 = ex_vault_dir x" "files (ex_world x3) = files (ex_world x2)"
        using unlock_open_files[OF u] f2(2) by simp_all
      have "existed = map (\<lambda>p. files (ex_world x) p \<noteq> None) (vault_db_paths (ex_vault_dir x3))"
        using f2(3) b2 d(1) by simp
      then have "same_outside ?A (files (ex_world x)) (files (ex_world x4))"
        using rolled_back[OF assms(1)] rb f2(1) d by metis
      then show ?thesis
        using x' by blast
    qed
  qed
qed

text \<open>Creating a vault where there was none: a failure after the key file was written removes all of it.\<close>

lemma no_vault_left:
  assumes "\<And>p w e w'. sq_remove K p w \<noteq> (Inl (RemoveFailed e), w')"
    and "handle_initialize_vault E K lang password words x = (r, x')" "r \<noteq> VaultInitialized"
    and "\<And>e. r \<noteq> CommandError CryptoEncryptionFailed error_context_new ''error.keystore_init_failed'' (''Failed to initialize keystore: '' @ e)"
    and "\<And>p. p \<in> insert (key_path (ex_vault_dir x)) (db_files (db_path (ex_vault_dir x))) \<Longrightarrow> files (ex_world x) p = None"
  shows "files (ex_world x') = files (ex_world x)"
proof -
  let ?dir = "ex_vault_dir x" and ?l = "from_config_language lang"
  obtain pk w1 where pk: "init_passkey E K ?l words (ex_world x) = (pk, w1)" by fastforce
  have f1: "files w1 = files (ex_world x)"
    using pk generate_files by (auto simp: init_passkey_def passkey_generate_def io_map_err_def io_lift_def split: option.splits prod.splits if_splits)
  show ?thesis
  proof (cases pk)
    case (Inl e)
    then show ?thesis
      using assms(2) pk f1 by (auto simp: handle_initialize_vault_def on_ext_world_def Let_def)
  next
    case (Inr passkey)
    let ?ps = "[key_path ?dir, db_path ?dir, path_join ?dir ''vault.db-wal'', path_join ?dir ''vault.db-shm'']"
    obtain bs w2 where a: "artifacts_exist K ?ps w1 = (bs, w2)" by fastforce
    obtain ks w3 where ks: "keystore_initialize E K ?dir (passkey_secret E passkey) password argon2_medium ?l w2 = (ks, w3)" by fastforce
    have p: "set ?ps = insert (key_path ?dir) (db_files (db_path ?dir))"
      by (simp add: db_files_def db_path_def path_join_def)
    have f2: "files w2 = files (ex_world x)" "bs = [False, False, False, False]"
      using existing_files[OF a] f1 assms(5) unfolding p[symmetric] by simp_all
    show ?thesis
    proof (cases ks)
      case (Inl e)
      then show ?thesis
        using assms(2,4) pk Inr a ks by (auto simp: handle_initialize_vault_def on_ext_world_def Let_def)
    next
      case k: (Inr opened)
      let ?c = "cleanup_failed_new_vault_initialization K ?dir False False False False"
      have "init_database E K password ?c (x\<lparr>ex_world := w3\<rparr>) = (r, x')"
        using assms(2) pk Inr a ks k f2(2) by (simp add: handle_initialize_vault_def on_ext_world_def Let_def)
      then obtain w where w: "ex_world x' = ?c w" "same_outside (db_files (db_path ?dir)) (files w3) (files w)"
        using init_database_fails[OF assms(1) _ assms(3)] by force
      have "same_outside {key_path ?dir} (files w2) (files w3)"
        using initialize_only ks k by simp
      then show ?thesis
        using w cleaned_up[OF assms(1), of ?dir w] assms(5) f2(1) by (auto simp: fun_eq_iff same_outside_def)
    qed
  qed
qed

text \<open>Where it succeeds, the open vault has the keys of the key file.\<close>

lemma key_not_db: "key_path dir \<notin> db_files (db_path dir)"
  by (simp add: db_files_def db_path_def key_path_def path_join_def KEY_FILENAME_def)

lemma unlock_reads:
  "keystore_unlock E K dir password w = (Inr ks, w') \<Longrightarrow> files w (key_path dir) = Some content
     \<Longrightarrow> open_key_file E content password = Inr (sk, kek, l) \<Longrightarrow> ks_kek ks = Some kek"
  using read_done by (fastforce simp: keystore_unlock_def monad_simps)

lemma init_database_done:
  assumes "init_database E K password cleanup x = (VaultInitialized, x')"
    and "files (ex_world x) (key_path (ex_vault_dir x)) = Some content" "open_key_file E content password = Inr (sk, kek, l)"
  shows "\<exists>S d ks. ex_runtime x' = RtOpen S d \<and> cg_keystore (vs_crypto S) = Some ks \<and> ks_kek ks = Some kek
     \<and> ex_file_backed x' \<and> files (ex_world x') (key_path (ex_vault_dir x)) = Some content"
proof -
  obtain k w1 where k: "derive_db_page_key_for_pending E K (ex_vault_dir x) password (ex_world x) = (k, w1)" by fastforce
  then obtain key where key: "k = Inr key"
    using assms(1) by (cases k) (auto simp: init_database_def on_ext_world_def)
  have f1: "files w1 = files (ex_world x)"
    using k unlock_files[of E "ex_vault_dir x" password "ex_world x"]
    by (auto simp: derive_db_page_key_for_pending_def io_bind_def split: prod.splits sum.splits)
  obtain b x2 where b: "begin_file_backed_vault_db E K key (x\<lparr>ex_world := w1\<rparr>) = (b, x2)" by fastforce
  then obtain existed where e: "b = Inr existed"
    using assms(1) k key by (cases b) (auto simp: init_database_def on_ext_world_def)
  have f2: "files (ex_world x2) (key_path (ex_vault_dir x)) = Some content" "ex_vault_dir x2 = ex_vault_dir x"
    using begin_files[OF b] f1 assms(2) key_not_db[of "ex_vault_dir x"] by (auto simp: same_outside_def)
  obtain u x3 where u: "unlock_open_vault E K password x2 = (u, x3)" by fastforce
  have i: "u = Inr () \<and> x' = pending_commit x3"
    using assms(1) k key b e u by (cases u) (auto simp: init_database_def on_ext_world_def split: prod.splits)
  obtain S d where o: "open_vault (ex_runtime x2) = Inr (S, d)"
    using u i by (auto simp: unlock_open_vault_def split: sum.splits)
  obtain ks w4 where n: "keystore_unlock E K (ex_vault_dir x) password (ex_world x2) = (Inr ks, w4)"
      "x3 = x2\<lparr>ex_runtime := RtOpen (S\<lparr>vs_crypto := from_unlocked_keystore (keystore.truncate ks)\<rparr>) d, ex_world := w4\<rparr>"
    using u i o f2(2) by (auto simp: unlock_open_vault_def crypto_unlock_def monad_simps io_map_err_ok split: prod.splits sum.splits)
  have "ks_kek ks = Some kek"
    using unlock_reads[OF n(1) f2(1) assms(3)] .
  then show ?thesis
    using i n(2) unlock_files[OF n(1)] f2(1)
    by (auto simp: pending_commit_def from_unlocked_keystore_def keystore.defs)
qed

lemma created_vault:
  assumes "keystore_laws E" "keystore_ops_laws K" "\<And>p. length (mnemonic_seed E p []) = 64"
    and "handle_initialize_vault E K lang password (Some words) x = (VaultInitialized, x')"
  shows "\<exists>passkey content kek S d ks. reconstruct_passkey E words = Inr passkey \<and> files (ex_world x') (key_path (ex_vault_dir x)) = Some content
     \<and> open_key_file E content password = Inr (passkey_secret E passkey, kek, from_config_language lang)
     \<and> ex_runtime x' = RtOpen S d \<and> cg_keystore (vs_crypto S) = Some ks \<and> ks_kek ks = Some kek \<and> ex_file_backed x'"
proof -
  let ?dir = "ex_vault_dir x" and ?l = "from_config_language lang"
  let ?ps = "[key_path ?dir, db_path ?dir, path_join ?dir ''vault.db-wal'', path_join ?dir ''vault.db-shm'']"
  obtain passkey where pk: "reconstruct_passkey E words = Inr passkey"
    using assms(4) by (cases "reconstruct_passkey E words") (auto simp: handle_initialize_vault_def init_passkey_def on_ext_world_def Let_def)
  obtain bs w2 where a: "artifacts_exist K ?ps (ex_world x) = (bs, w2)" by fastforce
  obtain ks w3 where ks: "keystore_initialize E K ?dir (passkey_secret E passkey) password argon2_medium ?l w2 = (ks, w3)" by fastforce
  then obtain opened where k: "ks = Inr opened"
    using assms(4) pk a by (cases ks) (auto simp: handle_initialize_vault_def init_passkey_def on_ext_world_def Let_def)
  let ?c = "cleanup_failed_new_vault_initialization K ?dir (bs ! 0) (bs ! 1) (bs ! 2) (bs ! 3)"
  have i: "init_database E K password ?c (x\<lparr>ex_world := w3\<rparr>) = (VaultInitialized, x')"
    using assms(4) pk a ks k by (simp add: handle_initialize_vault_def init_passkey_def on_ext_world_def Let_def)
  have "length (passkey_secret E passkey) = 32"
    using assms(3) by (simp add: passkey_secret_def)
  then obtain content kek where "files w3 (key_path ?dir) = Some content"
      "open_key_file E content password = Inr (passkey_secret E passkey, kek, ?l)"
    using initialize_written[OF assms(1,2) ks[unfolded k]] by metis
  then show ?thesis
    using init_database_done[OF i] pk by fastforce
qed

end

section \<open>An instance\<close>

text \<open>
  The file system of theory \<open>Keystore_Laws\<close> with a database library on it: a connection is the path of its
  file, opening creates the file, and the check of the file finds it sound or not.
\<close>

definition demo_exec_ops :: "bool \<Rightarrow> bool \<Rightarrow> (key_world, string) exec_ops" where
  "demo_exec_ops chmod_ok sound = vault_file_ops.extend (keystore_ops.extend (demo_key_ops True chmod_ok) (vault_file_ops.fields
     (\<lambda>p w. (map_of (kw_files w) p \<noteq> None, w))
     (\<lambda>p w. if map_of (kw_files w) p = None then (Inl RemoveNotFound, w) else (Inr (), w\<lparr>kw_files := AList.delete p (kw_files w)\<rparr>))
     (\<lambda>p w. (Inr p, if map_of (kw_files w) p = None then w\<lparr>kw_files := AList.update p [] (kw_files w)\<rparr> else w))
     (\<lambda>_ _ w. (Inr (), w)) (\<lambda>_ w. (Inr (), w)) (\<lambda>_ w. (Inl ''no such table'', w)) (\<lambda>_ _ w. (Inr (), w)) (\<lambda>_ _ w. (Inr (), w))
     (\<lambda>_ w. (Inr (if sound then ''ok'' else ''malformed''), w)) (\<lambda>_ w. (Inr None, w)) (\<lambda>_ w. (empty_db, w))))
     (exec_ops.fields (\<lambda>_ _ w. (Inr ''zoo'', w)))"

lemmas demo_exec_defs = demo_exec_ops_def vault_file_ops.defs keystore_ops.defs exec_ops.defs demo_key_ops_def

interpretation demo_files: vault_files "demo_exec_ops chmod_ok sound" "\<lambda>w. map_of (kw_files w)" kw_modes "\<lambda>p. p" for chmod_ok sound
  by unfold_locales
     (auto simp: demo_exec_defs update_conv' delete_conv' fun_eq_iff same_outside_def db_files_def dest: from_utf8_same
       split: if_splits option.splits sum.splits)

lemma demo_removal: "sq_remove (demo_exec_ops chmod_ok sound) p w \<noteq> (Inl (RemoveFailed e), w')"
  by (simp add: demo_exec_defs)

definition demo_recovery_env :: recovery_env where
  "demo_recovery_env = keystore_env.extend demo_keystore_env (recovery_env.fields
     (\<lambda>language s. if s = ''zoo'' then Inr s else Inl ''unknown word'') (\<lambda>_ _. replicate 64 (CHR ''S'')))"

lemmas demo_recovery_defs = demo_recovery_env_def keystore_env.defs recovery_env.defs

definition fresh_ex :: "(key_world, unit) executor" where
  "fresh_ex = \<lparr> ex_runtime = RtLocked, ex_file_backed = False, ex_vault_dir = ''v'', ex_verified_password = None,
     ex_world = \<lparr> kw_files = [], kw_modes = (\<lambda>_. 420) \<rparr>, ex_sync = None, ex_security = ex_security demo_ex, ex_health_report = None,
     ex_last_health_check = None, ex_internal = [], ex_cancelled = False \<rparr>"

lemma demo_recovery_sel:
  "b64_encode demo_recovery_env = b64_encode demo_keystore_env" "b64_decode demo_recovery_env = b64_decode demo_keystore_env"
  "rfc3339_show demo_recovery_env = rfc3339_show demo_keystore_env" "json_parse demo_recovery_env = json_parse demo_keystore_env"
  "json_pretty demo_recovery_env = json_pretty demo_keystore_env" "argon2id demo_recovery_env = argon2id demo_keystore_env"
  "hkdf_sha256 demo_recovery_env = hkdf_sha256 demo_keystore_env" "aead_seal demo_recovery_env = aead_seal demo_keystore_env"
  "aead_open demo_recovery_env = aead_open demo_keystore_env" "lock_memory demo_recovery_env = lock_memory demo_keystore_env"
  "hex_encode demo_recovery_env = hex_encode demo_keystore_env" "uuid_show demo_recovery_env = uuid_show demo_keystore_env"
  by (simp_all add: demo_recovery_defs demo_keystore_env_def rotation_env.defs)

lemma demo_recovery_simps [simp]:
  "lock_key demo_recovery_env k = Inr k" "derive_kek demo_recovery_env sk = Inr demo_kek"
  "derive_key_locked demo_recovery_env password salt params = Inr (demo_wk password)"
  "json_pretty demo_recovery_env j = Inr (CHR ''j'' # unary_enc j)"
  "key_file_json demo_recovery_env v a wr n sl ps t l = key_file_json demo_keystore_env v a wr n sl ps t l"
  "open_key_file demo_recovery_env content password = open_key_file demo_keystore_env content password"
proof -
  show k: "lock_key demo_recovery_env k = Inr k" "derive_kek demo_recovery_env sk = Inr demo_kek"
    "derive_key_locked demo_recovery_env password salt params = Inr (demo_wk password)" for k sk password salt params
    using demo_keystore_simps[unfolded lock_key_def derive_kek_def derive_key_locked_def]
    by (simp_all add: lock_key_def derive_kek_def derive_key_locked_def demo_recovery_sel)
  show "json_pretty demo_recovery_env j = Inr (CHR ''j'' # unary_enc j)"
    "key_file_json demo_recovery_env v a wr n sl ps t l = key_file_json demo_keystore_env v a wr n sl ps t l"
    by (simp_all add: demo_recovery_sel key_file_json_def)
  have "read_header demo_recovery_env = read_header demo_keystore_env" "unwrap_key demo_recovery_env = unwrap_key demo_keystore_env"
    by (simp_all add: fun_eq_iff read_header_def unwrap_key_def demo_recovery_sel)
  then show "open_key_file demo_recovery_env content password = open_key_file demo_keystore_env content password"
    using k by (simp add: open_key_file_def unwrap_secret_def demo_recovery_sel)
qed

lemma demo_exec_draws [simp]:
  "io_draw (ko_salt (demo_exec_ops chmod_ok sound)) w = (Inr demo_salt, w)"
  "wrap_key demo_recovery_env (demo_exec_ops chmod_ok sound) key wk w = (Inr (CHR ''#'' # wk @ key, demo_nonce), w)"
  "io_draw (ko_now (demo_exec_ops chmod_ok sound)) w = (Inr 0, w)"
  "io_draw (ko_uuid (demo_exec_ops chmod_ok sound)) w = (Inr 1, w)"
  by (simp_all add: io_draw_def demo_exec_defs demo_salt_def demo_nonce_def wrap_key_def io_bind_def demo_recovery_sel)
     (simp add: demo_keystore_defs)

lemma demo_initialize:
  "keystore_initialize demo_recovery_env (demo_exec_ops chmod_ok sound) ''v'' demo_sk password argon2_medium English w
     = (let w' = w\<lparr>kw_files := AList.update (key_path ''v'') (demo_file password) (kw_files w)\<rparr> in
        if chmod_ok then (Inr \<lparr> ks_kek = Some demo_kek, ks_current_dek_version = 1, ks_device_id = uuid_show demo_recovery_env 1, ks_sk = Some demo_sk,
            ks_mnemonic_language = English \<rparr>, w'\<lparr>kw_modes := (kw_modes w)(key_path ''v'' := 384)\<rparr>)
        else (Inl ''operation not permitted'', w'))"
  by (simp add: keystore_initialize_def to_keystore_value_def flip: demo_key_json_def demo_file_def)
     (simp add: demo_exec_defs io_bind_def io_draw_def make_private_def Let_def)

lemma demo_passkey: "init_passkey demo_recovery_env K l (Some [''zoo'']) w = (Inr ''zoo'', w)" "passkey_secret demo_recovery_env p = demo_sk"
  by (simp_all add: init_passkey_def reconstruct_passkey_def from_recovery_words_def passkey_secret_def demo_recovery_defs demo_sk_def)

lemma demo_unlocks:
  assumes "map_of (kw_files w) (key_path ''v'') = Some (demo_file password)"
  shows "keystore_unlock demo_recovery_env (demo_exec_ops chmod_ok sound) ''v'' password w = (Inr \<lparr> ks_kek = Some demo_kek,
    ks_current_dek_version = 1, ks_device_id = uuid_show demo_recovery_env 1, ks_sk = Some demo_sk, ks_mnemonic_language = English \<rparr>, w)"
proof -
  have "fs_read_to_string (demo_exec_ops chmod_ok sound) (key_path ''v'') w = (Inr (demo_file password), w)"
    using assms by (simp add: demo_exec_defs demo_utf8)
  then show ?thesis
    by (simp add: keystore_unlock_def demo_opens)
qed

lemma demo_pending_key:
  "map_of (kw_files w) (key_path ''v'') = Some (demo_file password)
     \<Longrightarrow> \<exists>key. derive_db_page_key_for_pending demo_recovery_env (demo_exec_ops chmod_ok sound) ''v'' password w = (Inr key, w)"
proof -
  assume f: "map_of (kw_files w) (key_path ''v'') = Some (demo_file password)"
  obtain key where "derive_db_page_key demo_recovery_env demo_kek = Inr key"
    by (auto simp: derive_db_page_key_def demo_recovery_sel demo_keystore_defs)
  then show ?thesis
    using demo_unlocks[OF f] by (simp add: derive_db_page_key_for_pending_def keystore_db_page_key_def)
qed

lemma demo_creation:
  "create_sqlcipher_vault demo_recovery_env (demo_exec_ops chmod_ok sound) ''v'' key w
     = (let w' = w\<lparr>kw_files := AList.update (db_path ''v'') [] (kw_files w)\<rparr> in
        (if sound then Inr (db_path ''v'') else Inl (CorruptDatabase ''malformed''), if map_of (kw_files w) (db_path ''v'') = None then w' else w))"
  by (simp add: create_sqlcipher_vault_def open_keyed_connection_def io_map_err_def migrate_and_validate_def run_migrations_def
      read_current_version_def run_quick_check_def run_foreign_key_check_def migrations_def io_bind_def demo_exec_defs Let_def)

section \<open>Properties\<close>

text \<open>
  C23: a vault that could not be created leaves nothing behind: where there was no vault and files can be
  removed, every failure after the key file was written gives back the files as they were.
\<close>

theorem failed_creation_leaves_nothing:
  assumes "vault_files K files modes path_of" "\<And>p w e w'. sq_remove K p w \<noteq> (Inl (RemoveFailed e), w')"
    and "handle_initialize_vault E K lang password words x = (r, x')" "r \<noteq> VaultInitialized"
    and "\<And>e. r \<noteq> CommandError CryptoEncryptionFailed error_context_new ''error.keystore_init_failed'' (''Failed to initialize keystore: '' @ e)"
    and "\<And>p. p \<in> insert (key_path (ex_vault_dir x)) (db_files (db_path (ex_vault_dir x))) \<Longrightarrow> files (ex_world x) p = None"
  shows "files (ex_world x') = files (ex_world x)"
  using vault_files.no_vault_left[OF assms] .

theorem failed_creation_leaves_nothing_witness:
  "\<exists>x'. handle_initialize_vault demo_recovery_env (demo_exec_ops True False) ''en'' ''pw'' (Some [''zoo'']) fresh_ex
      = (CommandError VaultDatabaseIoError error_context_new ''error.db_reopen_failed''
           (''Failed to create vault database: '' @ vault_db_error_to_string (CorruptDatabase ''malformed'')), x')
     \<and> map_of (kw_files (ex_world x')) = Map.empty"
proof -
  let ?K = "demo_exec_ops True False"
  obtain r x' where h: "handle_initialize_vault demo_recovery_env ?K ''en'' ''pw'' (Some [''zoo'']) fresh_ex = (r, x')" by fastforce
  have l: "from_config_language ''en'' = English"
    by (simp add: from_config_language_def)
  have a: "artifacts_exist ?K [p, q, p', q'] (ex_world fresh_ex) = ([False, False, False, False], ex_world fresh_ex)" for p q p' q'
    by (simp add: demo_exec_defs fresh_ex_def)
  obtain ks where i: "keystore_initialize demo_recovery_env ?K ''v'' demo_sk ''pw'' argon2_medium English (ex_world fresh_ex)
      = (Inr ks, \<lparr> kw_files = [(key_path ''v'', demo_file ''pw'')], kw_modes = (\<lambda>_. 420)(key_path ''v'' := 384) \<rparr>)"
    by (simp add: demo_initialize fresh_ex_def)
  let ?w = "\<lparr> kw_files = [(key_path ''v'', demo_file ''pw'')], kw_modes = (\<lambda>_. 420)(key_path ''v'' := 384) \<rparr>"
  obtain key where k: "derive_db_page_key_for_pending demo_recovery_env ?K ''v'' ''pw'' ?w = (Inr key, ?w)"
    using demo_pending_key[of ?w "''pw''" True False] by auto
  have e: "artifacts_exist ?K (vault_db_paths ''v'') ?w = (map (\<lambda>p. map_of (kw_files ?w) p \<noteq> None) (vault_db_paths ''v''), ?w)"
    by (simp add: vault_db_paths_def demo_exec_defs)
  have r: "r = CommandError VaultDatabaseIoError error_context_new ''error.db_reopen_failed''
           (''Failed to create vault database: '' @ vault_db_error_to_string (CorruptDatabase ''malformed''))"
    using h l a i k e by (auto simp: handle_initialize_vault_def on_ext_world_def Let_def demo_passkey init_database_def begin_file_backed_vault_db_def
        demo_creation fresh_ex_def split: prod.splits)
  have "map_of (kw_files (ex_world x')) = map_of (kw_files (ex_world fresh_ex))"
    by (rule failed_creation_leaves_nothing[OF demo_files.vault_files_axioms demo_removal h]) (simp_all add: r fresh_ex_def)
  then show ?thesis
    using h r by (simp add: fresh_ex_def)
qed

lemma demo_recovery_laws: "keystore_laws demo_recovery_env" "keystore_ops_laws (demo_exec_ops chmod_ok sound)"
proof -
  have "env_laws demo_recovery_env = env_laws demo_keystore_env" "crypto_laws demo_recovery_env = crypto_laws demo_keystore_env"
    by (simp_all add: crypto_laws_def env_laws_def demo_recovery_defs demo_keystore_env_def rotation_env.defs)
  then show "keystore_laws demo_recovery_env"
    using demo_keystore_laws by (simp add: keystore_laws_def demo_recovery_sel)
  show "keystore_ops_laws (demo_exec_ops chmod_ok sound)"
    by (simp add: keystore_ops_laws_def demo_exec_defs)
qed

text \<open>
  C22: a created vault can be recovered: its key file opens with the password to the secret of the recovery
  words, and the open vault is under the key derived from it.
\<close>

theorem created_vault_recoverable:
  assumes "vault_files K files modes path_of" "keystore_laws E" "keystore_ops_laws K" "\<And>p. length (mnemonic_seed E p []) = 64"
    and "handle_initialize_vault E K lang password (Some words) x = (VaultInitialized, x')"
  shows "\<exists>passkey content kek S d ks. reconstruct_passkey E words = Inr passkey \<and> files (ex_world x') (key_path (ex_vault_dir x)) = Some content
     \<and> open_key_file E content password = Inr (passkey_secret E passkey, kek, from_config_language lang)
     \<and> ex_runtime x' = RtOpen S d \<and> cg_keystore (vs_crypto S) = Some ks \<and> ks_kek ks = Some kek \<and> ex_file_backed x'"
  using vault_files.created_vault[OF assms] .

theorem created_vault_recoverable_witness:
  "\<exists>x' content kek S d ks. handle_initialize_vault demo_recovery_env (demo_exec_ops True True) ''en'' ''pw'' (Some [''zoo'']) fresh_ex = (VaultInitialized, x')
     \<and> map_of (kw_files (ex_world x')) (key_path ''v'') = Some content
     \<and> open_key_file demo_recovery_env content ''pw'' = Inr (demo_sk, kek, English)
     \<and> ex_runtime x' = RtOpen S d \<and> cg_keystore (vs_crypto S) = Some ks \<and> ks_kek ks = Some kek"
proof -
  let ?K = "demo_exec_ops True True"
  obtain r x' where h: "handle_initialize_vault demo_recovery_env ?K ''en'' ''pw'' (Some [''zoo'']) fresh_ex = (r, x')" by fastforce
  have l: "from_config_language ''en'' = English"
    by (simp add: from_config_language_def)
  have a: "artifacts_exist ?K [p, q, p', q'] (ex_world fresh_ex) = ([False, False, False, False], ex_world fresh_ex)" for p q p' q'
    by (simp add: demo_exec_defs fresh_ex_def)
  let ?w = "\<lparr> kw_files = [(key_path ''v'', demo_file ''pw'')], kw_modes = (\<lambda>_. 420)(key_path ''v'' := 384) \<rparr>"
  let ?w2 = "?w\<lparr>kw_files := AList.update (db_path ''v'') [] (kw_files ?w)\<rparr>"
  obtain ks where i: "keystore_initialize demo_recovery_env ?K ''v'' demo_sk ''pw'' argon2_medium English (ex_world fresh_ex) = (Inr ks, ?w)"
    by (simp add: demo_initialize fresh_ex_def)
  obtain key where k: "derive_db_page_key_for_pending demo_recovery_env ?K ''v'' ''pw'' ?w = (Inr key, ?w)"
    using demo_pending_key[of ?w "''pw''" True True] by auto
  have e: "artifacts_exist ?K (vault_db_paths ''v'') ?w = (map (\<lambda>p. map_of (kw_files ?w) p \<noteq> None) (vault_db_paths ''v''), ?w)"
    by (simp add: vault_db_paths_def demo_exec_defs)
  have d: "db_path ''v'' \<noteq> key_path ''v''"
    by (simp add: db_path_def key_path_def path_join_def KEY_FILENAME_def)
  obtain S where n: "vault_service_new demo_recovery_env ?K (db_path ''v'') ?w2 = ((S, empty_db), ?w2)"
    by (auto simp: vault_service_new_def demo_exec_defs empty_db_def)
  have u: "keystore_unlock demo_recovery_env ?K ''v'' ''pw'' ?w2 = (Inr \<lparr> ks_kek = Some demo_kek, ks_current_dek_version = 1,
      ks_device_id = uuid_show demo_recovery_env 1, ks_sk = Some demo_sk, ks_mnemonic_language = English \<rparr>, ?w2)"
    using d by (intro demo_unlocks) (simp add: update_conv')
  have r: "r = VaultInitialized"
    using h l a i k e n u d by (auto simp: handle_initialize_vault_def on_ext_world_def Let_def demo_passkey init_database_def
        begin_file_backed_vault_db_def demo_creation unlock_open_vault_def crypto_unlock_def io_map_err_def io_bind_def open_vault_def fresh_ex_def split: prod.splits)
  have "reconstruct_passkey demo_recovery_env [''zoo''] = Inr ''zoo''"
    by (simp add: reconstruct_passkey_def from_recovery_words_def demo_recovery_defs)
  moreover have "ex_vault_dir fresh_ex = ''v''"
    by (simp add: fresh_ex_def)
  moreover have "length (mnemonic_seed demo_recovery_env p []) = 64" for p
    by (simp add: demo_recovery_defs)
  then obtain passkey content kek S d ks where
      "reconstruct_passkey demo_recovery_env [''zoo''] = Inr passkey" "map_of (kw_files (ex_world x')) (key_path (ex_vault_dir fresh_ex)) = Some content"
      "open_key_file demo_recovery_env content ''pw'' = Inr (passkey_secret demo_recovery_env passkey, kek, from_config_language ''en'')"
      "ex_runtime x' = RtOpen S d" "cg_keystore (vs_crypto S) = Some ks" "ks_kek ks = Some kek"
    using created_vault_recoverable[OF demo_files.vault_files_axioms demo_recovery_laws _ h[unfolded r]] by blast
  ultimately show ?thesis
    using h r l by (auto simp: demo_passkey(2))
qed

text \<open>
  One failure does not clean up: when the mode of the new key file cannot be set, creating the vault
  reports an error and leaves the key file, which counts as a vault: the file that is missing is then the
  database, and every unlock fails on it.
\<close>

theorem failed_key_file_stays:
  "\<exists>x'. handle_initialize_vault demo_recovery_env (demo_exec_ops False True) ''en'' ''pw'' (Some [''zoo'']) fresh_ex
      = (CommandError CryptoEncryptionFailed error_context_new ''error.keystore_init_failed''
           ''Failed to initialize keystore: operation not permitted'', x')
     \<and> fst (vault_exists (demo_exec_ops False True) ''v'' (ex_world fresh_ex)) = False
     \<and> fst (vault_exists (demo_exec_ops False True) ''v'' (ex_world x')) = True
     \<and> fst (handle_unlock demo_recovery_env C (demo_exec_ops False True) ''pw'' x')
         = CommandError VaultDatabaseIoError error_context_new ''error.db_open_io'' ''Failed to open vault database: v/vault.db not found''"
proof -
  let ?K = "demo_exec_ops False True" and ?w = "\<lparr> kw_files = [(key_path ''v'', demo_file ''pw'')], kw_modes = \<lambda>_. 420 \<rparr>"
  have l: "from_config_language ''en'' = English"
    by (simp add: from_config_language_def)
  have a: "artifacts_exist ?K [p, q, p', q'] (ex_world fresh_ex) = ([False, False, False, False], ex_world fresh_ex)" for p q p' q'
    by (simp add: demo_exec_defs fresh_ex_def)
  have i: "keystore_initialize demo_recovery_env ?K ''v'' demo_sk ''pw'' argon2_medium English (ex_world fresh_ex) = (Inl ''operation not permitted'', ?w)"
    by (simp add: demo_initialize fresh_ex_def)
  have h: "handle_initialize_vault demo_recovery_env ?K ''en'' ''pw'' (Some [''zoo'']) fresh_ex
      = (CommandError CryptoEncryptionFailed error_context_new ''error.keystore_init_failed''
           ''Failed to initialize keystore: operation not permitted'', fresh_ex\<lparr>ex_world := ?w\<rparr>)"
    using l a i by (simp add: handle_initialize_vault_def on_ext_world_def Let_def demo_passkey fresh_ex_def)
  have u: "keystore_unlock demo_recovery_env ?K ''v'' ''pw'' ?w = (Inr \<lparr> ks_kek = Some demo_kek, ks_current_dek_version = 1,
      ks_device_id = uuid_show demo_recovery_env 1, ks_sk = Some demo_sk, ks_mnemonic_language = English \<rparr>, ?w)"
    by (intro demo_unlocks) simp
  obtain key where "keystore_db_page_key demo_recovery_env \<lparr> ks_kek = Some demo_kek, ks_current_dek_version = 1,
      ks_device_id = uuid_show demo_recovery_env 1, ks_sk = Some demo_sk, ks_mnemonic_language = English \<rparr> = Inr key"
    by (auto simp: keystore_db_page_key_def derive_db_page_key_def demo_recovery_sel demo_keystore_defs)
  moreover have "open_sqlcipher_vault demo_recovery_env ?K ''v'' k ?w = (Inl (DbOpenIo ''v/vault.db not found''), ?w)" for k
    by (simp add: open_sqlcipher_vault_def demo_exec_defs db_path_def key_path_def path_join_def KEY_FILENAME_def)
  ultimately have "fst (handle_unlock demo_recovery_env C ?K ''pw'' (fresh_ex\<lparr>ex_world := ?w\<rparr>))
      = CommandError VaultDatabaseIoError error_context_new ''error.db_open_io'' ''Failed to open vault database: v/vault.db not found''"
    using u by (simp add: handle_unlock_def on_ext_world_def fresh_ex_def vault_db_error_result_def)
  then show ?thesis
    using h by (simp add: vault_exists_def) (simp add: demo_exec_defs fresh_ex_def key_path_def path_join_def)
qed

end
