(* ===== verification/Vault_Audit.thy ===== *)
theory Vault_Audit
  imports Vault_List
begin

text \<open>
  Reading the audit log (\<open>services/vault/audit.rs\<close>, \<open>db/queries/audit.rs\<close>): filters, pages and the clean-up
  of old entries. The numbers of the entries are not kept in the model.
\<close>

section \<open>Filters (commands/types.rs, services/vault/audit.rs)\<close>

datatype audit_time_range = Today | LastWeek | LastMonth | LastYear | AllTime

record audit_filter =
  af_operation :: "audit_operation option"
  af_time_range :: "audit_time_range option"
  af_search :: "string option"
  af_limit :: "nat option"
  af_offset :: nat

record audit_entry =
  ae_operation :: audit_operation
  ae_record_id :: "uuid option"
  ae_record_name :: "string option"
  ae_detail :: "string option"
  ae_occurred_at :: timestamp

definition DEFAULT_AUDIT_PAGE_SIZE :: nat where "DEFAULT_AUDIT_PAGE_SIZE = 50"

text \<open>The window ends now and starts so many hours before; the end is open.\<close>

definition compute_time_bounds :: "('w, 'y) db_ops_scheme \<Rightarrow> audit_time_range option \<Rightarrow> ('w, int option) vault_io" where
  "compute_time_bounds C window =
     (let hours_ago = (\<lambda>h. io_bind (utc_now C) (\<lambda>now. io_return (Some (datetime_to_timestamp (now - h * 3600 * 1000000000))))) in
      case window of
        None \<Rightarrow> io_return None
      | Some AllTime \<Rightarrow> io_return None
      | Some Today \<Rightarrow> hours_ago 24
      | Some LastWeek \<Rightarrow> hours_ago (7 * 24)
      | Some LastMonth \<Rightarrow> hours_ago (30 * 24)
      | Some LastYear \<Rightarrow> hours_ago (365 * 24))"

section \<open>Queries (db/queries/audit.rs, db/models.rs)\<close>

definition to_audit_entry :: "('w, 'y) db_ops_scheme \<Rightarrow> audit_row \<Rightarrow> data_error + audit_entry" where
  "to_audit_entry C row =
     try_res (audit_from_db_str (al_operation row)) (\<lambda>operation.
     try_res (timestamp_to_datetime C (al_occurred_at row)) (\<lambda>occurred_at.
     Inr \<lparr> ae_operation = operation, ae_record_id = al_record_id row, ae_record_name = al_record_name row,
       ae_detail = al_detail row, ae_occurred_at = occurred_at \<rparr>))"

text \<open>The conditions of the WHERE clause; a text that is NULL is not like anything.\<close>

definition audit_where :: "string option \<Rightarrow> int option \<Rightarrow> int option \<Rightarrow> string option \<Rightarrow> audit_row \<Rightarrow> bool" where
  "audit_where operation time_start time_end search row \<longleftrightarrow>
     (case operation of None \<Rightarrow> True | Some op \<Rightarrow> al_operation row = op)
     \<and> (case time_start of None \<Rightarrow> True | Some start \<Rightarrow> start \<le> al_occurred_at row)
     \<and> (case time_end of None \<Rightarrow> True | Some e \<Rightarrow> al_occurred_at row \<le> e)
     \<and> (case search of None \<Rightarrow> True | Some q \<Rightarrow>
          (case al_record_name row of None \<Rightarrow> False | Some s \<Rightarrow> sql_like s (''%'' @ q @ ''%''))
          \<or> (case al_detail row of None \<Rightarrow> False | Some s \<Rightarrow> sql_like s (''%'' @ q @ ''%'')))"

text \<open>Newest first; entries of the same second stay in the order they were written.\<close>

definition audit_order :: "audit_row list \<Rightarrow> audit_row list" where
  "audit_order rows = sort_key (\<lambda>a. - al_occurred_at a) rows"

definition count_audit_entries ::
  "string option \<Rightarrow> int option \<Rightarrow> int option \<Rightarrow> string option \<Rightarrow> ('w, nat) query" where
  "count_audit_entries operation time_start time_end search =
     exec (select (\<lambda>d. length (filter (audit_where operation time_start time_end search) (tb_audit d))))"

definition list_audit_entries_filtered ::
  "('w, 'y) db_ops_scheme \<Rightarrow> string option \<Rightarrow> int option \<Rightarrow> int option \<Rightarrow> string option \<Rightarrow> nat \<Rightarrow> nat \<Rightarrow> ('w, audit_entry list) query" where
  "list_audit_entries_filtered C operation time_start time_end search limit offset =
     io_bind (exec (select (\<lambda>d. take limit (drop offset
        (audit_order (filter (audit_where operation time_start time_end search) (tb_audit d))))))) (\<lambda>rows.
     io_lift (map_err DataErr (map_res (to_audit_entry C) rows)))"

definition cleanup_audit_entries :: "int \<Rightarrow> ('w, nat) query" where
  "cleanup_audit_entries before_timestamp = exec (\<lambda>d.
     (Inr (length (filter (\<lambda>a. al_occurred_at a < before_timestamp) (tb_audit d))),
      d\<lparr>tb_audit := filter (\<lambda>a. \<not> al_occurred_at a < before_timestamp) (tb_audit d)\<rparr>))"

section \<open>The service (services/vault/audit.rs)\<close>

definition query_audit_log :: "('w, 'y) vault_ops_scheme \<Rightarrow> audit_filter \<Rightarrow> ('w, audit_entry list \<times> nat) vault_io" where
  "query_audit_log C flt =
     (let operation_str = map_option audit_to_db_str (af_operation flt) in
     io_bind (compute_time_bounds C (af_time_range flt)) (\<lambda>time_start.
     io_bind (dbq (count_audit_entries operation_str time_start None (af_search flt))) (\<lambda>n.
     io_bind (dbq (list_audit_entries_filtered C operation_str time_start None (af_search flt)
        (case af_limit flt of Some l \<Rightarrow> min l (2 ^ 63 - 1) | None \<Rightarrow> DEFAULT_AUDIT_PAGE_SIZE) (min (af_offset flt) (2 ^ 63 - 1)))) (\<lambda>entries.
     io_return (entries, n)))))"

definition cleanup_audit_log :: "('w, 'y) vault_ops_scheme \<Rightarrow> u32 \<Rightarrow> ('w, nat) vault_io" where
  "cleanup_audit_log C retention_days =
     io_bind (utc_now C) (\<lambda>now.
     dbq (cleanup_audit_entries (datetime_to_timestamp (now - int (unat retention_days) * 86400 * 1000000000))))"

definition log_sync_conflict_resolved :: "('w, 'y) vault_ops_scheme \<Rightarrow> uuid \<Rightarrow> string \<Rightarrow> string \<Rightarrow> ('w, unit) vault_io" where
  "log_sync_conflict_resolved C rid record_name resolution =
     dbq (insert_audit_entry C SyncConflictResolved (Some rid) (Some record_name) (Some resolution))"

definition log_sync_batch_conflicts_resolved :: "('w, 'y) vault_ops_scheme \<Rightarrow> nat \<Rightarrow> string \<Rightarrow> ('w, unit) vault_io" where
  "log_sync_batch_conflicts_resolved C n resolution =
     dbq (insert_audit_entry C SyncBatchConflictsResolved None None
       (Some (''count='' @ show_nat n @ '', resolution='' @ resolution)))"

end
