(* ===== verification/Vault_Audit_Laws.thy ===== *)
theory Vault_Audit_Laws
  imports Vault_Audit Vault_Paging
begin

text \<open>
  The pages of the audit log are slices of one list, newest entries first, whose length is the reported
  total.
\<close>

definition entry_readable :: "('w, 'y) db_ops_scheme \<Rightarrow> audit_row \<Rightarrow> bool" where
  "entry_readable C row \<longleftrightarrow> is_ok (to_audit_entry C row)"

definition entry_of :: "('w, 'y) db_ops_scheme \<Rightarrow> audit_row \<Rightarrow> audit_entry" where
  "entry_of C row = projr (to_audit_entry C row)"

lemma entries_of: "list_all (entry_readable C) rows \<Longrightarrow> map_res (to_audit_entry C) rows = Inr (map (entry_of C) rows)"
  by (induction rows) (auto simp: entry_readable_def entry_of_def is_ok_iff)

lemma set_audit_order [simp]: "set (audit_order rows) = set rows"
  by (simp add: audit_order_def)

lemma length_audit_order [simp]: "length (audit_order rows) = length rows"
  by (simp add: audit_order_def)

lemma bounds_world: "compute_time_bounds C window v = (Inr t, v') \<Longrightarrow> v_db v' = v_db v"
  by (auto simp: compute_time_bounds_def utc_now_def Let_def monad_simps split: option.splits audit_time_range.splits prod.splits)

lemma bounds_total: "\<exists>t v'. compute_time_bounds C window v = (Inr t, v')"
  by (auto simp: compute_time_bounds_def utc_now_def Let_def io_bind_def split: option.splits audit_time_range.splits prod.splits)

lemma listed_entries:
  assumes "list_all (entry_readable C) (tb_audit (v_db v))"
  shows "list_audit_entries_filtered C op start e search limit offset v
     = (Inr (take limit (drop offset (map (entry_of C) (audit_order (filter (audit_where op start e search) (tb_audit (v_db v))))))), v)"
proof -
  let ?rows = "take limit (drop offset (audit_order (filter (audit_where op start e search) (tb_audit (v_db v)))))"
  have "list_all (entry_readable C) ?rows"
    using assms by (auto simp: list_all_iff dest!: in_set_takeD in_set_dropD)
  then show ?thesis
    by (simp add: list_audit_entries_filtered_def exec_def select_def io_bind_def entries_of take_map drop_map)
qed

theorem audit_pages_are_slices:
  assumes "list_all (entry_readable C) (tb_audit (v_db v))"
  shows "\<exists>L. sorted_wrt (\<lambda>a b. ae_occurred_at b \<le> ae_occurred_at a) L \<and> (\<forall>limit offset. limit < 2 ^ 63 \<longrightarrow> offset < 2 ^ 63 \<longrightarrow>
     fst (query_audit_log C (flt\<lparr>af_limit := Some limit, af_offset := offset\<rparr>) v) = Inr (take limit (drop offset L), length L))"
proof -
  obtain t v' where b: "compute_time_bounds C (af_time_range flt) v = (Inr t, v')"
    using bounds_total by blast
  let ?w = "audit_where (map_option audit_to_db_str (af_operation flt)) t None (af_search flt)"
  let ?rows = "audit_order (filter ?w (tb_audit (v_db v)))"
  let ?L = "map (entry_of C) ?rows"
  have d: "v_db v' = v_db v"
    using bounds_world b by blast
  have r: "list_all (entry_readable C) ?rows"
    using assms by (auto simp: list_all_iff)
  have o: "ae_occurred_at (entry_of C row) = al_occurred_at row * 1000000000" if "entry_readable C row" for row
    using that by (auto simp: entry_readable_def entry_of_def to_audit_entry_def timestamp_to_datetime_def is_ok_iff monad_simps split: if_splits)
  have "sorted (map (\<lambda>a. - al_occurred_at a) ?rows)"
    by (simp add: audit_order_def)
  then have "sorted_wrt (\<lambda>a b. ae_occurred_at b \<le> ae_occurred_at a) ?L"
    using r o by (auto simp: sorted_wrt_map sorted_map list_all_iff elim!: sorted_wrt_mono_rel[rotated])
  moreover have "fst (query_audit_log C (flt\<lparr>af_limit := Some limit, af_offset := offset\<rparr>) v) = Inr (take limit (drop offset ?L), length ?L)"
    if "limit < 2 ^ 63" "offset < 2 ^ 63" for limit offset
    using that b d assms listed_entries[of C v'] 
    by (simp add: query_audit_log_def io_bind_def io_map_err_def count_audit_entries_def exec_def select_def Let_def)
  ultimately show ?thesis
    by blast
qed

end
