(* ===== verification/App_Config.thy ===== *)
theory App_Config
  imports Keystore Health_Check
begin

text \<open>
  The configuration (\<open>config/\<close>): its sections with their defaults, the check of the provider, and loading
  and saving \<open>config.toml\<close>. The TOML text is a parameter; tokens of Google Drive are not part of it.
\<close>

section \<open>Sync (config/sync.rs)\<close>

datatype sync_provider =
    SpDisabled | SpICloud | SpGoogleDrive | SpDropbox | SpOneDrive | SpWebDav | SpSftp | SpS3
  | SpAliyunDrive | SpAliyunOss | SpTencentCos | SpHuaweiObs | SpUpyun

datatype sync_mode = Auto | Manual

datatype sftp_host_check = Strict | Accept | Add

datatype aliyun_drive_type = DriveDefault | Backup | Resource

record google_drive_config =
  gd_access_token :: string
  gd_refresh_token :: string
  gd_root_path :: string
  gd_client_id :: string
  gd_client_secret :: string

text \<open>Dropbox and OneDrive have the same fields.\<close>

record oauth_client_config =
  oc_client_id :: string
  oc_client_secret :: string
  oc_refresh_token :: string
  oc_root_path :: string

record web_dav_config =
  wd_endpoint :: string
  wd_root_path :: string
  wd_username :: "string option"
  wd_password :: "string option"
  wd_bearer_token :: "string option"

record sftp_config =
  sf_server :: string
  sf_root_path :: string
  sf_ssh_key_path :: string
  sf_host_check :: sftp_host_check

record s3_config =
  s3_endpoint :: "string option"
  s3_bucket :: string
  s3_region :: "string option"
  s3_access_key_id :: string
  s3_secret_access_key :: string
  s3_root_path :: string

record aliyun_drive_config = oauth_client_config +
  ad_drive_type :: aliyun_drive_type

text \<open>Aliyun OSS, Tencent COS and Huawei OBS have the same fields under other names.\<close>

record bucket_config =
  bc_endpoint :: string
  bc_bucket :: string
  bc_key_id :: string
  bc_key_secret :: string
  bc_root_path :: string

record upyun_config =
  uy_bucket :: string
  uy_operator :: string
  uy_operator_password :: string
  uy_root_path :: string

datatype provider_config =
    PcICloud
  | PcGoogleDrive google_drive_config
  | PcDropbox oauth_client_config
  | PcOneDrive oauth_client_config
  | PcWebDav web_dav_config
  | PcSftp sftp_config
  | PcS3 s3_config
  | PcAliyunDrive aliyun_drive_config
  | PcAliyunOss bucket_config
  | PcTencentCos bucket_config
  | PcHuaweiObs bucket_config
  | PcUpyun upyun_config

record sync_config =
  sy_provider :: sync_provider
  sy_sync_mode :: sync_mode
  sy_auto_interval_seconds :: u64
  sy_provider_config :: "provider_config option"

definition sync_config_default :: sync_config where
  "sync_config_default = \<lparr> sy_provider = SpDisabled, sy_sync_mode = Auto, sy_auto_interval_seconds = 600, sy_provider_config = None \<rparr>"

definition google_drive_default :: google_drive_config where
  "google_drive_default = \<lparr> gd_access_token = [], gd_refresh_token = [], gd_root_path = ''.oak-keyring/'', gd_client_id = [], gd_client_secret = [] \<rparr>"

definition has_oauth_token :: "google_drive_config \<Rightarrow> bool" where
  "has_oauth_token g \<longleftrightarrow> trim (gd_refresh_token g) \<noteq> [] \<or> trim (gd_access_token g) \<noteq> []"

definition has_google_drive_authorization :: "sync_config \<Rightarrow> bool" where
  "has_google_drive_authorization c = (case (sy_provider c, sy_provider_config c) of
     (SpGoogleDrive, Some (PcGoogleDrive g)) \<Rightarrow> has_oauth_token g
   | _ \<Rightarrow> False)"

definition is_runtime_configured :: "sync_config \<Rightarrow> bool" where
  "is_runtime_configured c = (case sy_provider c of
     SpDisabled \<Rightarrow> False
   | SpGoogleDrive \<Rightarrow> has_google_drive_authorization c
   | _ \<Rightarrow> sy_provider_config c \<noteq> None)"

section \<open>The other sections (config/general.rs, security.rs, password.rs)\<close>

datatype animation_mode = AnimationAuto | AnimationOn | AnimationOff

record general_config =
  gc_auto_lock_seconds :: u64
  gc_clipboard_clear_seconds :: u64
  gc_trash_retention_days :: u32
  gc_animation :: animation_mode
  gc_language :: string

definition general_config_default :: general_config where
  "general_config_default = \<lparr> gc_auto_lock_seconds = 300, gc_clipboard_clear_seconds = 30, gc_trash_retention_days = 30,
     gc_animation = AnimationAuto, gc_language = ''auto'' \<rparr>"

record full_security_config = security_config +
  sc_audit_enabled :: bool
  sc_audit_retention_days :: u32
  sc_rotation :: rotation_config

definition security_config_default :: full_security_config where
  "security_config_default = \<lparr> sc_health_check_enabled = True, sc_health_check_frequency = OnStartup, sc_audit_enabled = True,
     sc_audit_retention_days = 365, sc_rotation = rotation_config_default \<rparr>"

datatype password_generation_style = RandomStyle | MemorableStyle | PinStyle

record password_defaults_config =
  pd_style :: password_generation_style
  pd_length :: nat
  pd_include_lowercase :: bool
  pd_include_digits :: bool
  pd_include_uppercase :: bool
  pd_include_special :: bool
  pd_memorable_word_count :: nat
  pd_memorable_capitalize :: bool
  pd_memorable_separator :: string
  pd_pin_length :: nat

definition password_defaults_default :: password_defaults_config where
  "password_defaults_default = \<lparr> pd_style = RandomStyle, pd_length = 16, pd_include_lowercase = True, pd_include_digits = True,
     pd_include_uppercase = True, pd_include_special = True, pd_memorable_word_count = 4, pd_memorable_capitalize = True,
     pd_memorable_separator = ''-'', pd_pin_length = 6 \<rparr>"

record app_config =
  ac_general :: general_config
  ac_sync :: sync_config
  ac_security :: full_security_config
  ac_password :: password_defaults_config

definition app_config_default :: app_config where
  "app_config_default = \<lparr> ac_general = general_config_default, ac_sync = sync_config_default,
     ac_security = security_config_default, ac_password = password_defaults_default \<rparr>"

section \<open>Errors (config/error.rs)\<close>

datatype config_error = ConfigIo string | ConfigParse string | ConfigValidation string

definition config_error_to_string :: "config_error \<Rightarrow> string" where
  "config_error_to_string e = (case e of
     ConfigIo s \<Rightarrow> ''config I/O error: '' @ s
   | ConfigParse s \<Rightarrow> ''config parse error: '' @ s
   | ConfigValidation s \<Rightarrow> ''config validation error: '' @ s)"

definition config_error_code :: "config_error \<Rightarrow> error_code" where
  "config_error_code e = (case e of ConfigValidation _ \<Rightarrow> error_code.ConfigValidationFailed | _ \<Rightarrow> ConfigLoadFailed)"

section \<open>The check (config/validation.rs)\<close>

definition provider_config_matches :: "provider_config \<Rightarrow> sync_provider \<Rightarrow> bool" where
  "provider_config_matches pc provider = (case pc of
     PcICloud \<Rightarrow> provider = SpICloud
   | PcGoogleDrive _ \<Rightarrow> provider = SpGoogleDrive
   | PcDropbox _ \<Rightarrow> provider = SpDropbox
   | PcOneDrive _ \<Rightarrow> provider = SpOneDrive
   | PcWebDav _ \<Rightarrow> provider = SpWebDav
   | PcSftp _ \<Rightarrow> provider = SpSftp
   | PcS3 _ \<Rightarrow> provider = SpS3
   | PcAliyunDrive _ \<Rightarrow> provider = SpAliyunDrive
   | PcAliyunOss _ \<Rightarrow> provider = SpAliyunOss
   | PcTencentCos _ \<Rightarrow> provider = SpTencentCos
   | PcHuaweiObs _ \<Rightarrow> provider = SpHuaweiObs
   | PcUpyun _ \<Rightarrow> provider = SpUpyun)"

definition provider_config_variant_name :: "provider_config \<Rightarrow> string" where
  "provider_config_variant_name pc = (case pc of
     PcICloud \<Rightarrow> ''ICloud'' | PcGoogleDrive _ \<Rightarrow> ''GoogleDrive'' | PcDropbox _ \<Rightarrow> ''Dropbox'' | PcOneDrive _ \<Rightarrow> ''OneDrive''
   | PcWebDav _ \<Rightarrow> ''WebDav'' | PcSftp _ \<Rightarrow> ''Sftp'' | PcS3 _ \<Rightarrow> ''S3'' | PcAliyunDrive _ \<Rightarrow> ''AliyunDrive''
   | PcAliyunOss _ \<Rightarrow> ''AliyunOss'' | PcTencentCos _ \<Rightarrow> ''TencentCos'' | PcHuaweiObs _ \<Rightarrow> ''HuaweiObs'' | PcUpyun _ \<Rightarrow> ''Upyun'')"

text \<open>\<open>{:?}\<close> of the provider.\<close>

definition show_provider :: "sync_provider \<Rightarrow> string" where
  "show_provider p = (case p of
     SpDisabled \<Rightarrow> ''Disabled'' | SpICloud \<Rightarrow> ''ICloud'' | SpGoogleDrive \<Rightarrow> ''GoogleDrive'' | SpDropbox \<Rightarrow> ''Dropbox''
   | SpOneDrive \<Rightarrow> ''OneDrive'' | SpWebDav \<Rightarrow> ''WebDav'' | SpSftp \<Rightarrow> ''Sftp'' | SpS3 \<Rightarrow> ''S3'' | SpAliyunDrive \<Rightarrow> ''AliyunDrive''
   | SpAliyunOss \<Rightarrow> ''AliyunOss'' | SpTencentCos \<Rightarrow> ''TencentCos'' | SpHuaweiObs \<Rightarrow> ''HuaweiObs'' | SpUpyun \<Rightarrow> ''Upyun'')"

definition validate_config :: "app_config \<Rightarrow> config_error + unit" where
  "validate_config config = (let provider = sy_provider (ac_sync config) in
     if provider = SpDisabled then Inr ()
     else (case sy_provider_config (ac_sync config) of
        None \<Rightarrow> Inr ()
      | Some pc \<Rightarrow> if \<not> provider_config_matches pc provider
          then Inl (ConfigValidation (''sync.provider is '' @ show_provider provider @ '' but provider_config is ''
            @ provider_config_variant_name pc @ '' '' @ [char_of (226::nat), char_of (128::nat), char_of (148::nat)] @ '' they must match''))
          else Inr ()))"

section \<open>The file (config/mod.rs)\<close>

record toml_env =
  toml_print :: "app_config \<Rightarrow> string + string"
  toml_parse :: "string \<Rightarrow> string + app_config"

definition config_path :: "string \<Rightarrow> string" where
  "config_path dir = path_join dir ''config.toml''"

definition config_temp_path :: "string \<Rightarrow> string" where
  "config_temp_path dir = path_join dir ''config.toml.tmp''"

definition config_load :: "toml_env \<Rightarrow> ('w, 'y) keystore_ops_scheme \<Rightarrow> string \<Rightarrow> ('w, config_error, app_config) io" where
  "config_load M C dir w = (case fs_exists C (config_path dir) w of (found, w1) \<Rightarrow>
     if \<not> found then (Inr app_config_default, w1)
     else io_bind (io_map_err ConfigIo (fs_read_to_string C (config_path dir))) (\<lambda>content.
       io_bind (io_lift (map_err ConfigParse (toml_parse M content))) (\<lambda>config.
       io_bind (io_lift (validate_config config)) (\<lambda>_. io_return config))) w1)"

definition config_save :: "toml_env \<Rightarrow> ('w, 'y) keystore_ops_scheme \<Rightarrow> app_config \<Rightarrow> string \<Rightarrow> ('w, config_error, unit) io" where
  "config_save M C config dir =
     io_bind (io_lift (validate_config config)) (\<lambda>_.
     io_bind (io_map_err ConfigIo (ko_create_dir_all C dir)) (\<lambda>_.
     io_bind (io_lift (map_err ConfigParse (toml_print M config))) (\<lambda>toml_str.
     io_bind (io_map_err ConfigIo (fs_write C (config_temp_path dir) toml_str)) (\<lambda>_.
     io_bind (io_map_err ConfigIo (make_private C (config_temp_path dir))) (\<lambda>_.
     io_map_err ConfigIo (fs_rename C (config_temp_path dir) (config_path dir)))))))"

definition config_load_or_auto_generate ::
  "toml_env \<Rightarrow> ('w, 'y) keystore_ops_scheme \<Rightarrow> string \<Rightarrow> string \<Rightarrow> ('w, config_error, app_config) io" where
  "config_load_or_auto_generate M C dir data_dir w = (case fs_exists C (config_path dir) w of (a, w1) \<Rightarrow>
     case (if \<not> a then fs_exists C (key_path data_dir) w1 else (False, w1)) of (b, w2) \<Rightarrow>
     case (if b then fs_exists C (path_join data_dir ''vault.db'') w2 else (False, w2)) of (c, w3) \<Rightarrow>
     if c then io_bind (config_save M C app_config_default dir) (\<lambda>_. io_return app_config_default) w3
     else config_load M C dir w3)"

end
