(* ===== verification/Cloud_Provider.thy ===== *)
theory Cloud_Provider
  imports App_Config
begin

text \<open>
  The choice of a storage client for a sync configuration (\<open>cloud/provider.rs\<close>, \<open>cloud/adapters/\<close>): each
  adapter checks its section and configures a client of OpenDAL, which is a parameter. The module of the
  adapters takes those of S3, Aliyun OSS, Tencent COS, Huawei OBS, Upyun and SFTP from \<open>unsupported.rs\<close>; the
  files \<open>s3_compatible.rs\<close> and \<open>sftp.rs\<close> are not compiled.
\<close>

section \<open>Configuring clients\<close>

record gdrive_builder =
  gb_client_id :: string
  gb_client_secret :: string
  gb_refresh_token :: "string option"
  gb_access_token :: "string option"
  gb_root :: "string option"

text \<open>
  What the build and the platform provide: the credentials compiled in, the directories, and OpenDAL's
  clients for a local directory and for Google Drive.
\<close>

record 'o provider_env =
  pv_google_client_id :: string
  pv_google_client_secret :: string
  pv_document_dir :: "string option"
  pv_data_dir_fallback :: string
  pv_new_fs :: "string \<Rightarrow> string + 'o"
  pv_new_gdrive :: "gdrive_builder \<Rightarrow> string + 'o"

definition adapter_error :: "string \<Rightarrow> string \<Rightarrow> sync_error" where
  "adapter_error provider message = ProviderError provider message"

definition finish_operator :: "string \<Rightarrow> string + 'o \<Rightarrow> sync_error + 'o" where
  "finish_operator provider = map_err (\<lambda>e. adapter_error provider (''failed to create operator: '' @ e))"

definition not_empty :: "string \<Rightarrow> string \<Rightarrow> sync_error + unit" where
  "not_empty field s = ensure (trim s \<noteq> []) (sync_error.ConfigValidationFailed field (field @ '' cannot be empty''))"

text \<open>\<open>ProviderAdapter::normalize_path\<close>.\<close>

definition normalize_path :: "string \<Rightarrow> string \<Rightarrow> string" where
  "normalize_path base file =
     (let base = rev (dropWhile (\<lambda>c. c = CHR ''/'') (rev base)); file = dropWhile (\<lambda>c. c = CHR ''/'') file in
      if base = [] then ''/'' @ file else base @ ''/'' @ file)"

section \<open>Adapters (cloud/provider.rs, adapters/icloud.rs, oauth2.rs, unsupported.rs)\<close>

definition webdav_validate :: "provider_config \<Rightarrow> sync_error + unit" where
  "webdav_validate config = (case config of
     PcWebDav c \<Rightarrow> try_res (not_empty ''endpoint'' (wd_endpoint c)) (\<lambda>_.
       ensure (wd_bearer_token c \<noteq> None \<or> wd_username c \<noteq> None \<and> wd_password c \<noteq> None)
         (sync_error.ConfigValidationFailed ''authentication'' ''either bearer_token or (username + password) must be provided''))
   | _ \<Rightarrow> Inl (adapter_error ''webdav'' ''expected WebDav config''))"

definition webdav_operator :: "provider_config \<Rightarrow> sync_error + 'o" where
  "webdav_operator config = (case config of
     PcWebDav _ \<Rightarrow> Inl (ProviderNotSupported ''webdav'')
   | _ \<Rightarrow> Inl (adapter_error ''webdav'' ''expected WebDav config''))"

definition icloud_path :: "'o provider_env \<Rightarrow> string" where
  "icloud_path V = path_join (path_join (path_join
     (case pv_document_dir V of Some d \<Rightarrow> d | None \<Rightarrow> pv_data_dir_fallback V) ''..'') ''Library'') ''Mobile Documents''"

definition icloud_validate :: "provider_config \<Rightarrow> sync_error + unit" where
  "icloud_validate config = (if config = PcICloud then Inr () else Inl (adapter_error ''icloud'' ''expected ICloud config''))"

definition icloud_operator :: "'o provider_env \<Rightarrow> provider_config \<Rightarrow> sync_error + 'o" where
  "icloud_operator V config =
     (if config = PcICloud then finish_operator ''icloud'' (pv_new_fs V (icloud_path V))
      else Inl (adapter_error ''icloud'' ''expected ICloud config''))"

text \<open>The reason is in Chinese: the refresh token must not be empty, authorize first.\<close>

definition authorize_first :: string where
  "authorize_first = ''refresh_token '' @ map char_of [228, 184, 141, 232, 131, 189, 228, 184, 186, 231, 169, 186, 239, 188, 140, 232, 175, 183, 229, 133, 136, 229, 174, 140, 230, 136, 144, 230, 142, 136, 230, 157, 131 :: nat]"

definition gdrive_validate :: "provider_config \<Rightarrow> sync_error + unit" where
  "gdrive_validate config = (case config of
     PcGoogleDrive c \<Rightarrow> ensure (trim (gd_refresh_token c) \<noteq> []) (sync_error.ConfigValidationFailed ''refresh_token'' authorize_first)
   | _ \<Rightarrow> Inl (adapter_error ''google_drive'' ''expected GoogleDrive config''))"

definition gdrive_operator :: "'o provider_env \<Rightarrow> provider_config \<Rightarrow> sync_error + 'o" where
  "gdrive_operator V config = (case config of
     PcGoogleDrive c \<Rightarrow> finish_operator ''google_drive'' (pv_new_gdrive V
       \<lparr> gb_client_id = pv_google_client_id V, gb_client_secret = pv_google_client_secret V,
         gb_refresh_token = (if gd_refresh_token c \<noteq> [] then Some (gd_refresh_token c) else None),
         gb_access_token = (if gd_refresh_token c = [] \<and> gd_access_token c \<noteq> [] then Some (gd_access_token c) else None),
         gb_root = (if gd_root_path c \<noteq> [] then Some (gd_root_path c) else None) \<rparr>)
   | _ \<Rightarrow> Inl (adapter_error ''google_drive'' ''expected GoogleDrive config''))"

text \<open>Dropbox, OneDrive and Aliyun Drive check their client and configure none.\<close>

definition client_validate :: "('x) oauth_client_config_scheme \<Rightarrow> sync_error + unit" where
  "client_validate c = try_res (not_empty ''client_id'' (oc_client_id c)) (\<lambda>_. not_empty ''client_secret'' (oc_client_secret c))"

definition dropbox_validate :: "provider_config \<Rightarrow> sync_error + unit" where
  "dropbox_validate config = (case config of PcDropbox c \<Rightarrow> client_validate c | _ \<Rightarrow> Inl (adapter_error ''dropbox'' ''expected Dropbox config''))"

definition dropbox_operator :: "provider_config \<Rightarrow> sync_error + 'o" where
  "dropbox_operator config = (case config of
     PcDropbox _ \<Rightarrow> Inl (ProviderNotSupported ''dropbox'') | _ \<Rightarrow> Inl (adapter_error ''dropbox'' ''expected Dropbox config''))"

definition onedrive_validate :: "provider_config \<Rightarrow> sync_error + unit" where
  "onedrive_validate config = (case config of PcOneDrive c \<Rightarrow> client_validate c | _ \<Rightarrow> Inl (adapter_error ''onedrive'' ''expected OneDrive config''))"

definition onedrive_operator :: "provider_config \<Rightarrow> sync_error + 'o" where
  "onedrive_operator config = (case config of
     PcOneDrive _ \<Rightarrow> Inl (ProviderNotSupported ''onedrive'') | _ \<Rightarrow> Inl (adapter_error ''onedrive'' ''expected OneDrive config''))"

definition aliyun_drive_validate :: "provider_config \<Rightarrow> sync_error + unit" where
  "aliyun_drive_validate config = (case config of
     PcAliyunDrive c \<Rightarrow> client_validate c | _ \<Rightarrow> Inl (adapter_error ''aliyun_drive'' ''expected AliyunDrive config''))"

definition aliyun_drive_operator :: "provider_config \<Rightarrow> sync_error + 'o" where
  "aliyun_drive_operator config = (case config of
     PcAliyunDrive _ \<Rightarrow> Inl (ProviderNotSupported ''aliyun_drive'')
   | _ \<Rightarrow> Inl (adapter_error ''aliyun_drive'' ''expected AliyunDrive config''))"

text \<open>The macro \<open>unsupported_adapter\<close>.\<close>

definition unsupported_validate :: "provider_config \<Rightarrow> sync_error + unit" where
  "unsupported_validate _ = Inr ()"

definition unsupported_operator :: "string \<Rightarrow> provider_config \<Rightarrow> sync_error + 'o" where
  "unsupported_operator provider _ = Inl (ProviderNotSupported provider)"

section \<open>The factory (cloud/provider.rs)\<close>

definition provider_name :: "sync_provider \<Rightarrow> string" where
  "provider_name p = (case p of
     SpDisabled \<Rightarrow> ''disabled'' | SpICloud \<Rightarrow> ''icloud'' | SpGoogleDrive \<Rightarrow> ''google_drive'' | SpDropbox \<Rightarrow> ''dropbox''
   | SpOneDrive \<Rightarrow> ''onedrive'' | SpWebDav \<Rightarrow> ''webdav'' | SpSftp \<Rightarrow> ''sftp'' | SpS3 \<Rightarrow> ''s3'' | SpAliyunDrive \<Rightarrow> ''aliyun_drive''
   | SpAliyunOss \<Rightarrow> ''aliyun_oss'' | SpTencentCos \<Rightarrow> ''tencent_cos'' | SpHuaweiObs \<Rightarrow> ''huawei_obs'' | SpUpyun \<Rightarrow> ''upyun'')"

text \<open>The same steps for every provider: its section, the check of its adapter, its client.\<close>

definition storage_of ::
  "sync_config \<Rightarrow> string \<Rightarrow> (provider_config \<Rightarrow> sync_error + unit) \<Rightarrow> (provider_config \<Rightarrow> sync_error + 'o) \<Rightarrow> sync_error + 'o \<times> string" where
  "storage_of config label check create =
     try_res (ok_or (sync_error.ConfigValidationFailed ''provider_config'' (label @ '' provider requires provider_config'')) (sy_provider_config config)) (\<lambda>pc.
     try_res (check pc) (\<lambda>_. try_res (create pc) (\<lambda>operator. Inr (operator, provider_name (sy_provider config)))))"

definition create_cloud_storage :: "'o provider_env \<Rightarrow> sync_config \<Rightarrow> sync_error + 'o \<times> string" where
  "create_cloud_storage V config = (case sy_provider config of
     SpDisabled \<Rightarrow> Inl (ProviderNotSupported (provider_name (sy_provider config)))
   | SpWebDav \<Rightarrow> storage_of config ''WebDAV'' webdav_validate webdav_operator
   | SpICloud \<Rightarrow> storage_of config ''ICloud'' icloud_validate (icloud_operator V)
   | SpS3 \<Rightarrow> storage_of config ''S3'' unsupported_validate (unsupported_operator ''s3'')
   | SpAliyunOss \<Rightarrow> storage_of config ''AliyunOss'' unsupported_validate (unsupported_operator ''aliyun_oss'')
   | SpTencentCos \<Rightarrow> storage_of config ''TencentCos'' unsupported_validate (unsupported_operator ''tencent_cos'')
   | SpHuaweiObs \<Rightarrow> storage_of config ''HuaweiObs'' unsupported_validate (unsupported_operator ''huawei_obs'')
   | SpUpyun \<Rightarrow> storage_of config ''Upyun'' unsupported_validate (unsupported_operator ''upyun'')
   | SpSftp \<Rightarrow> storage_of config ''Sftp'' unsupported_validate (unsupported_operator ''sftp'')
   | SpGoogleDrive \<Rightarrow> storage_of config ''GoogleDrive'' gdrive_validate (gdrive_operator V)
   | SpDropbox \<Rightarrow> storage_of config ''Dropbox'' dropbox_validate dropbox_operator
   | SpOneDrive \<Rightarrow> storage_of config ''OneDrive'' onedrive_validate onedrive_operator
   | SpAliyunDrive \<Rightarrow> storage_of config ''AliyunDrive'' aliyun_drive_validate aliyun_drive_operator)"

section \<open>Properties\<close>

lemma storage_ofD:
  "storage_of config label check create = Inr (operator, name) \<Longrightarrow> \<exists>pc. sy_provider_config config = Some pc \<and> check pc = Inr () \<and> create pc = Inr operator"
  by (auto simp: storage_of_def monad_simps)

lemma no_operator:
  "webdav_operator pc \<noteq> Inr operator" "dropbox_operator pc \<noteq> Inr operator" "onedrive_operator pc \<noteq> Inr operator"
  "aliyun_drive_operator pc \<noteq> Inr operator" "unsupported_operator provider pc \<noteq> Inr operator"
  by (cases pc; simp add: webdav_operator_def dropbox_operator_def onedrive_operator_def aliyun_drive_operator_def unsupported_operator_def)+

lemma section_checked:
  "icloud_validate pc = Inr () \<Longrightarrow> pc = PcICloud"
  "gdrive_validate pc = Inr () \<Longrightarrow> \<exists>c. pc = PcGoogleDrive c \<and> trim (gd_refresh_token c) \<noteq> []"
  by (cases pc; simp add: icloud_validate_def gdrive_validate_def)+

text \<open>
  only iCloud and Google Drive can be synchronised with: with any other provider the factory fails,
  however complete its section is. A Google Drive section needs a refresh token, so one that counts as
  authorized by its access token alone is refused.
\<close>

theorem storage_only_for_two_providers:
  assumes "create_cloud_storage V config = Inr (operator, name)"
  shows "sy_provider config = SpICloud \<and> sy_provider_config config = Some PcICloud
     \<or> (\<exists>c. sy_provider config = SpGoogleDrive \<and> sy_provider_config config = Some (PcGoogleDrive c) \<and> trim (gd_refresh_token c) \<noteq> [])"
  using assms
  by (cases "sy_provider config")
    (auto simp: create_cloud_storage_def no_operator dest!: storage_ofD dest: section_checked)

theorem storage_only_for_two_providers_witness:
  "create_cloud_storage \<lparr> pv_google_client_id = ''id'', pv_google_client_secret = ''s'', pv_document_dir = None, pv_data_dir_fallback = ''/d'',
        pv_new_fs = (\<lambda>root. Inr root), pv_new_gdrive = (\<lambda>_. Inl ''offline'') \<rparr>
      (sync_config_default\<lparr>sy_provider := SpICloud, sy_provider_config := Some PcICloud\<rparr>) = Inr (''/d/../Library/Mobile Documents'', ''icloud'')
   \<and> sy_provider (sync_config_default\<lparr>sy_provider := SpICloud, sy_provider_config := Some PcICloud\<rparr>) = SpICloud"
proof -
  let ?V = "\<lparr> pv_google_client_id = ''id'', pv_google_client_secret = ''s'', pv_document_dir = None, pv_data_dir_fallback = ''/d'',
        pv_new_fs = (\<lambda>root. Inr root), pv_new_gdrive = (\<lambda>_. Inl ''offline'') \<rparr> :: string provider_env"
  let ?c = "sync_config_default\<lparr>sy_provider := SpICloud, sy_provider_config := Some PcICloud\<rparr>"
  have c: "create_cloud_storage ?V ?c = Inr (''/d/../Library/Mobile Documents'', ''icloud'')"
    by (simp add: create_cloud_storage_def storage_of_def icloud_validate_def icloud_operator_def finish_operator_def icloud_path_def
        path_join_def provider_name_def)
  show ?thesis
    using storage_only_for_two_providers[OF c] c by simp
qed

end
