(* ===== verification/Import_Types.thy ===== *)
theory Import_Types
  imports Executor Keystore
begin

text \<open>
  Import and export: the types of \<open>commands/types.rs\<close> and \<open>services/import_export/types.rs\<close>, the errors
  (\<open>errors/mapping/import_export.rs\<close>), paths of files, and what the parsers call but do not contain. A
  \<open>HashMap\<close> of fields is an association list whose order stands for the unspecified iteration order.
\<close>

section \<open>Types of commands (commands/types.rs)\<close>

datatype import_source = KeePass | OnePassword1pux | OnePasswordOpvault | BitwardenSource | CsvSource | OpenKeyringBackup

datatype export_scope = ScopeAll | ScopeCurrentFilter record_filter | ScopeByTag string

datatype export_format = FormatOkb | FormatCsv

record csv_column_mapping =
  cm_name_column :: string
  cm_username_column :: string
  cm_password_column :: string
  cm_url_column :: string
  cm_notes_column :: string
  cm_tags_column :: "string option"
  cm_skip_header :: bool

record review_item =
  ri_name :: string
  ri_reason :: string

record failed_item =
  fi_name :: string
  fi_reason :: string

record import_preview =
  iv_importable :: nat
  iv_needs_review :: nat
  iv_failed :: nat
  iv_review_items :: "review_item list"
  iv_failed_items :: "failed_item list"
  iv_csv_headers :: "string list"

datatype skip_reason = SkipDuplicate | SkipValidationFailed | SkipVaultWriteError

section \<open>Errors (errors/mapping/import_export.rs)\<close>

datatype import_error =
    IeFileNotFound string
  | IeFileTooLarge string nat nat
  | IeFileReadError string string
  | IeFileWriteError string string
  | IeDecryptionFailed string
  | IeInvalidPassword
  | IePasswordRequired
  | IeParseError string string
  | IeInvalidFormat string
  | IeUnsupportedFormat string
  | IeValidationError string string
  | IeMissingRequiredField string
  | IeInvalidFieldType string string string
  | IeMappingError string string
  | IeDuplicateRecord string string
  | IeEncryptionFailed string
  | IeKeyDerivationFailed string
  | IeSessionNotFound uuid
  | IeInvalidSessionStatus string string
  | IeSessionCancelled
  | IeVaultError string
  | IeInternalError string
  | IeTimeout

definition import_error_to_string :: "('x) env_scheme \<Rightarrow> import_error \<Rightarrow> string" where
  "import_error_to_string E e = (case e of
     IeFileNotFound p \<Rightarrow> ''file not found: '' @ p
   | IeFileTooLarge p n m \<Rightarrow> ''file too large: '' @ p @ '' ('' @ show_nat n @ '' bytes, max '' @ show_nat m @ '')''
   | IeFileReadError p r \<Rightarrow> ''failed to read file '' @ p @ '': '' @ r
   | IeFileWriteError p r \<Rightarrow> ''failed to write file '' @ p @ '': '' @ r
   | IeDecryptionFailed s \<Rightarrow> ''decryption failed: '' @ s
   | IeInvalidPassword \<Rightarrow> ''invalid password''
   | IePasswordRequired \<Rightarrow> ''password required to decrypt this file''
   | IeParseError f r \<Rightarrow> ''failed to parse '' @ f @ '': '' @ r
   | IeInvalidFormat s \<Rightarrow> ''invalid format: '' @ s
   | IeUnsupportedFormat s \<Rightarrow> ''unsupported format: '' @ s
   | IeValidationError f r \<Rightarrow> ''validation error on field '' @ [CHR 0x27] @ f @ [CHR 0x27] @ '': '' @ r
   | IeMissingRequiredField s \<Rightarrow> ''missing required field: '' @ s
   | IeInvalidFieldType f x a \<Rightarrow> ''invalid type for field '' @ [CHR 0x27] @ f @ [CHR 0x27] @ '': expected '' @ x @ '', got '' @ a
   | IeMappingError f r \<Rightarrow> ''mapping error on field '' @ [CHR 0x27] @ f @ [CHR 0x27] @ '': '' @ r
   | IeDuplicateRecord n r \<Rightarrow> ''duplicate record '' @ [CHR 0x27] @ n @ [CHR 0x27] @ '': '' @ r
   | IeEncryptionFailed s \<Rightarrow> ''encryption failed: '' @ s
   | IeKeyDerivationFailed s \<Rightarrow> ''key derivation failed: '' @ s
   | IeSessionNotFound i \<Rightarrow> ''session not found: '' @ uuid_show E i
   | IeInvalidSessionStatus x a \<Rightarrow> ''invalid session status: expected '' @ x @ '', got '' @ a
   | IeSessionCancelled \<Rightarrow> ''session was cancelled''
   | IeVaultError s \<Rightarrow> ''vault error: '' @ s
   | IeInternalError s \<Rightarrow> ''internal error: '' @ s
   | IeTimeout \<Rightarrow> ''operation timed out'')"

definition import_error_code :: "import_error \<Rightarrow> error_code" where
  "import_error_code e = (case e of
     IeFileNotFound _ \<Rightarrow> ImportFileUnreadable
   | IeFileTooLarge _ _ _ \<Rightarrow> ImportFileUnreadable
   | IeFileReadError _ _ \<Rightarrow> ImportFileUnreadable
   | IeParseError _ _ \<Rightarrow> ImportFileFormatInvalid
   | IeInvalidFormat _ \<Rightarrow> ImportFileFormatInvalid
   | IeUnsupportedFormat _ \<Rightarrow> ImportFileFormatInvalid
   | IePasswordRequired \<Rightarrow> ImportPasswordRequired
   | IeInvalidPassword \<Rightarrow> ImportPasswordIncorrect
   | IeDecryptionFailed _ \<Rightarrow> ImportPasswordIncorrect
   | IeMissingRequiredField _ \<Rightarrow> ImportColumnMappingInvalid
   | IeInvalidFieldType _ _ _ \<Rightarrow> ImportColumnMappingInvalid
   | IeValidationError _ _ \<Rightarrow> ImportColumnMappingInvalid
   | IeMappingError _ _ \<Rightarrow> ImportColumnMappingInvalid
   | IeDuplicateRecord _ _ \<Rightarrow> ImportPartialFailure
   | IeSessionNotFound _ \<Rightarrow> ImportPartialFailure
   | IeInvalidSessionStatus _ _ \<Rightarrow> ImportPartialFailure
   | IeSessionCancelled \<Rightarrow> ImportPartialFailure
   | IeFileWriteError _ _ \<Rightarrow> ExportWriteFailed
   | IeEncryptionFailed _ \<Rightarrow> ExportWriteFailed
   | IeKeyDerivationFailed _ \<Rightarrow> ExportWriteFailed
   | IeInternalError _ \<Rightarrow> ExportPathInvalid
   | IeTimeout \<Rightarrow> ExportPathInvalid
   | IeVaultError _ \<Rightarrow> ExportPathInvalid)"

definition import_error_context :: "import_error \<Rightarrow> error_context" where
  "import_error_context e = (case e of
     IeFileNotFound p \<Rightarrow> error_context_new\<lparr>ctx_file_path := Some p\<rparr>
   | IeFileTooLarge p _ _ \<Rightarrow> error_context_new\<lparr>ctx_file_path := Some p\<rparr>
   | IeFileReadError p _ \<Rightarrow> error_context_new\<lparr>ctx_file_path := Some p\<rparr>
   | IeFileWriteError p _ \<Rightarrow> error_context_new\<lparr>ctx_file_path := Some p\<rparr>
   | IeMissingRequiredField f \<Rightarrow> error_context_new\<lparr>ctx_field_name := Some f\<rparr>
   | IeInvalidFieldType f _ _ \<Rightarrow> error_context_new\<lparr>ctx_field_name := Some f\<rparr>
   | IeValidationError f _ \<Rightarrow> error_context_new\<lparr>ctx_field_name := Some f\<rparr>
   | IeMappingError f _ \<Rightarrow> error_context_new\<lparr>ctx_field_name := Some f\<rparr>
   | IeDuplicateRecord n _ \<Rightarrow> error_context_new\<lparr>ctx_record_name := Some n\<rparr>
   | _ \<Rightarrow> error_context_new)"

section \<open>Items and records (services/import_export/parser.rs, types.rs)\<close>

type_synonym field_map = "(string \<times> string) list"

definition field_or_empty :: "field_map \<Rightarrow> string \<Rightarrow> string" where
  "field_or_empty flds k = (case map_of flds k of Some v \<Rightarrow> v | None \<Rightarrow> [])"

record parsed_item =
  pi_source_id :: string
  pi_fields :: field_map
  pi_tags :: "string list"

text \<open>The records of a session carry only what an import of them uses or changes; favourites and dates are constants.\<close>

record mapped_record =
  mr_id :: uuid
  mr_credential_type :: credential_type
  mr_fields :: field_map
  mr_tags :: "string list"
  mr_is_favorite :: bool
  mr_expires_at :: "timestamp option"
  mr_source_item_id :: string
  mr_notes :: "string option"
  mr_is_duplicate :: bool

datatype import_session_status = IsCreated | IsValidating | IsValidated | IsImporting | IsCompleted | IsCancelled | IsFailed

datatype export_session_status = EsCreated | EsExporting | EsCompleted | EsFailed

text \<open>\<open>{:?}\<close> of a status and of a source.\<close>

definition show_import_status :: "import_session_status \<Rightarrow> string" where
  "show_import_status s = (case s of
     IsCreated \<Rightarrow> ''Created'' | IsValidating \<Rightarrow> ''Validating'' | IsValidated \<Rightarrow> ''Validated'' | IsImporting \<Rightarrow> ''Importing''
   | IsCompleted \<Rightarrow> ''Completed'' | IsCancelled \<Rightarrow> ''Cancelled'' | IsFailed \<Rightarrow> ''Failed'')"

definition show_export_status :: "export_session_status \<Rightarrow> string" where
  "show_export_status s = (case s of
     EsCreated \<Rightarrow> ''Created'' | EsExporting \<Rightarrow> ''Exporting'' | EsCompleted \<Rightarrow> ''Completed'' | EsFailed \<Rightarrow> ''Failed'')"

definition show_import_source :: "import_source \<Rightarrow> string" where
  "show_import_source s = (case s of
     KeePass \<Rightarrow> ''KeePass'' | OnePassword1pux \<Rightarrow> ''OnePassword1pux'' | OnePasswordOpvault \<Rightarrow> ''OnePasswordOpvault''
   | BitwardenSource \<Rightarrow> ''Bitwarden'' | CsvSource \<Rightarrow> ''Csv'' | OpenKeyringBackup \<Rightarrow> ''OpenKeyringBackup'')"

record validation_result =
  vr_total_items :: nat
  vr_importable :: nat
  vr_needs_review :: nat
  vr_failed :: nat
  vr_review_items :: "review_item list"
  vr_failed_items :: "failed_item list"
  vr_item_passed :: "bool list"

record import_session =
  is_source :: import_source
  is_file_path :: string
  is_decrypt_password :: "string option"
  is_csv_mapping :: "csv_column_mapping option"
  is_import_as_notes :: bool
  is_status :: import_session_status
  is_validation_result :: "validation_result option"
  is_mapped_records :: "mapped_record list"
  is_failed_items :: "failed_item list"
  is_created_at :: timestamp

record export_session =
  es_scope :: export_scope
  es_format :: export_format
  es_export_password :: string
  es_output_path :: string
  es_status :: export_session_status
  es_record_count :: nat
  es_encrypted_size :: "nat option"
  es_created_at :: timestamp
  es_completed_at :: "timestamp option"

record import_result =
  ir_imported :: nat
  ir_reviewed :: nat
  ir_skipped :: nat
  ir_failed :: nat
  ir_validation_failed :: nat

section \<open>Strings and paths\<close>

text \<open>\<open>Vec::join\<close>, and the \<open>strip\<close> methods.\<close>

fun join_with :: "string \<Rightarrow> string list \<Rightarrow> string" where
  "join_with sep [] = []"
| "join_with sep [w] = w"
| "join_with sep (w # v # ws) = w @ sep @ join_with sep (v # ws)"

definition starts_with :: "string \<Rightarrow> string \<Rightarrow> bool" where
  "starts_with s p \<longleftrightarrow> take (length p) s = p"

definition strip_prefix_or_same :: "string \<Rightarrow> string \<Rightarrow> string" where
  "strip_prefix_or_same s p = (if starts_with s p then drop (length p) s else s)"

definition strip_suffix_or_same :: "string \<Rightarrow> string \<Rightarrow> string" where
  "strip_suffix_or_same s p = rev (strip_prefix_or_same (rev s) (rev p))"

text \<open>
  \<open>Path::file_name\<close>, \<open>extension\<close>, \<open>parent\<close> and \<open>with_extension\<close> of paths whose components are separated by
  slashes; \<open>.\<close> components are skipped.
\<close>

definition path_components :: "string \<Rightarrow> string list" where
  "path_components p = filter (\<lambda>c. c \<noteq> [] \<and> c \<noteq> ''.'') (split_on (CHR ''/'') p)"

definition path_file_name :: "string \<Rightarrow> string option" where
  "path_file_name p = (case rev (path_components p) of
     [] \<Rightarrow> None | c # _ \<Rightarrow> if c = ''..'' then None else Some c)"

definition path_extension :: "string \<Rightarrow> string option" where
  "path_extension p = Option.bind (path_file_name p) (\<lambda>f.
     (let ext = rev (takeWhile (\<lambda>c. c \<noteq> CHR ''.'') (rev f)) in
      if length ext + 1 < length f then Some ext else None))"

definition strip_slashes :: "string \<Rightarrow> string" where
  "strip_slashes p = rev (dropWhile (\<lambda>c. c = CHR ''/'') (rev p))"

definition path_parent :: "string \<Rightarrow> string option" where
  "path_parent p = (let q = strip_slashes p in
     if q = [] then None
     else (let d = rev (dropWhile (\<lambda>c. c \<noteq> CHR ''/'') (rev q)) in
       Some (if d \<noteq> [] \<and> strip_slashes d = [] then ''/'' else strip_slashes d)))"

definition path_with_extension :: "string \<Rightarrow> string \<Rightarrow> string" where
  "path_with_extension p ext = (let q = strip_slashes p in
     (case path_extension p of Some e \<Rightarrow> take (length q - length e - 1) q | None \<Rightarrow> q) @ ''.'' @ ext)"

section \<open>What the parsers call\<close>

text \<open>
  The crates: Unicode case mapping and escaping, dates of \<open>chrono\<close>, regular expressions, CSV, ZIP archives, the KeePass
  database, and the primitives of the opvault format. A CSV file is its header row, or the error of reading
  it, and its records up to the first unreadable one.
\<close>

datatype kp_error = KpIncorrectKey string | KpKeyError string | KpUnsupportedVersion | KpOther string

record kp_entry =
  kp_uuid :: string
  kp_fields :: field_map
  kp_tags :: "string list"

datatype kp_group = KpGroup (kp_name: string) (kp_entries: "kp_entry list") (kp_groups: "kp_group list")

record import_env =
  str_lowercase :: "string \<Rightarrow> string"
  str_uppercase :: "string \<Rightarrow> string"
  str_debug :: "string \<Rightarrow> string"
  naive_datetime :: "string \<Rightarrow> string \<Rightarrow> timestamp option"
  utc_from_seconds :: "int \<Rightarrow> timestamp option"
  datetime_format :: "timestamp \<Rightarrow> string \<Rightarrow> string"
  regex_match :: "string \<Rightarrow> string \<Rightarrow> bool option"
  csv_read :: "bool \<Rightarrow> bytes \<Rightarrow> (string + string list) \<times> (string + string list) list"
  csv_row :: "string list \<Rightarrow> string + bytes"
  zip_open :: "bytes \<Rightarrow> string + (string \<Rightarrow> string + (string + string))"
  kp_open :: "bytes \<Rightarrow> string \<Rightarrow> kp_error + kp_group"
  pbkdf2_sha512 :: "bytes \<Rightarrow> bytes \<Rightarrow> u32 \<Rightarrow> bytes"
  sha512 :: "bytes \<Rightarrow> bytes"
  hmac_sha256 :: "bytes \<Rightarrow> bytes \<Rightarrow> bytes"
  aes256_cbc_decrypt :: "bytes \<Rightarrow> bytes \<Rightarrow> bytes \<Rightarrow> bytes"

text \<open>Files: whole contents or an error with whether the file was missing, the size, directories, and \<open>glob\<close>.\<close>

record 'w file_ops =
  fo_read :: "string \<Rightarrow> ('w, bool \<times> string, bytes) io"
  fo_len :: "string \<Rightarrow> ('w, string, nat) io"
  fo_is_dir :: "string \<Rightarrow> 'w \<Rightarrow> bool \<times> 'w"
  fo_glob :: "string \<Rightarrow> ('w, string, (string + string) list) io"

text \<open>A test of the file system inside a fallible computation.\<close>

definition io_test :: "('w \<Rightarrow> bool \<times> 'w) \<Rightarrow> ('w, 'e, bool) io" where
  "io_test f w = (case f w of (b, w') \<Rightarrow> (Inr b, w'))"

end
