(* ===== verification/Import_Mapping.thy ===== *)
theory Import_Mapping
  imports Import_Types
begin

text \<open>
  What happens to a parsed item before it becomes a record: the field mappings and the type inference of
  \<open>services/import_export/mapping.rs\<close>, the rules of \<open>validation.rs\<close>, and the duplicate keys of
  \<open>duplicate.rs\<close>.
\<close>

section \<open>Mappings (services/import_export/mapping.rs)\<close>

datatype target_field =
    TfName | TfUsername | TfPassword | TfAppId | TfSecretKey | TfPublicKey | TfPrivateKey | TfPassphrase
  | TfUrl | TfNotes | TfTags | TfExpiresAt | TfCredentialType

datatype field_transform = TrTrim | TrLowercase | TrUppercase | TrDateTimeFormat string | TrBase64Decode

record field_mapping =
  fm_source_field :: string
  fm_target_field :: target_field
  fm_required :: bool
  fm_default_value :: "string option"
  fm_transform :: "field_transform option"

record type_mapping =
  ty_source_type :: string
  ty_target_type :: credential_type
  ty_field_overrides :: "field_mapping list"

record format_mapping =
  fr_source_type :: import_source
  fr_field_mappings :: "field_mapping list"
  fr_type_mappings :: "type_mapping list"

text \<open>The rules of the default mappings have no default value and no transformation.\<close>

definition plain_mapping :: "string \<Rightarrow> target_field \<Rightarrow> bool \<Rightarrow> field_mapping" where
  "plain_mapping source target required =
     \<lparr> fm_source_field = source, fm_target_field = target, fm_required = required, fm_default_value = None, fm_transform = None \<rparr>"

definition keepass_mapping :: format_mapping where
  "keepass_mapping = \<lparr> fr_source_type = KeePass, fr_field_mappings =
     [plain_mapping ''Title'' TfName True, plain_mapping ''UserName'' TfUsername True, plain_mapping ''Password'' TfPassword True,
      plain_mapping ''URL'' TfUrl False, plain_mapping ''Notes'' TfNotes False, plain_mapping ''Tags'' TfTags False],
     fr_type_mappings = [] \<rparr>"

definition onepassword_1pux_mapping :: format_mapping where
  "onepassword_1pux_mapping = \<lparr> fr_source_type = OnePassword1pux, fr_field_mappings =
     [plain_mapping ''title'' TfName True, plain_mapping ''login.username'' TfUsername True,
      plain_mapping ''login.password'' TfPassword True, plain_mapping ''login.url'' TfUrl False,
      plain_mapping ''notesPlain'' TfNotes False, plain_mapping ''tags'' TfTags False],
     fr_type_mappings = [] \<rparr>"

definition onepassword_opvault_mapping :: format_mapping where
  "onepassword_opvault_mapping = \<lparr> fr_source_type = OnePasswordOpvault, fr_field_mappings =
     [plain_mapping ''overview.title'' TfName True, plain_mapping ''login.username'' TfUsername True,
      plain_mapping ''login.password'' TfPassword True, plain_mapping ''login.url'' TfUrl False,
      plain_mapping ''notesPlain'' TfNotes False, plain_mapping ''sections'' TfNotes False],
     fr_type_mappings = [] \<rparr>"

definition bitwarden_mapping :: format_mapping where
  "bitwarden_mapping = \<lparr> fr_source_type = BitwardenSource, fr_field_mappings =
     [plain_mapping ''name'' TfName True, plain_mapping ''login.username'' TfUsername True,
      plain_mapping ''login.password'' TfPassword True, plain_mapping ''login.uri'' TfUrl False,
      plain_mapping ''notes'' TfNotes False, plain_mapping ''fields'' TfNotes False],
     fr_type_mappings = [] \<rparr>"

definition csv_mapping :: "csv_column_mapping \<Rightarrow> format_mapping" where
  "csv_mapping c = \<lparr> fr_source_type = CsvSource, fr_field_mappings =
     [plain_mapping (cm_name_column c) TfName True, plain_mapping (cm_username_column c) TfUsername True,
      plain_mapping (cm_password_column c) TfPassword True, plain_mapping (cm_url_column c) TfUrl False,
      plain_mapping (cm_notes_column c) TfNotes False]
     @ (case cm_tags_column c of Some t \<Rightarrow> [plain_mapping t TfTags False] | None \<Rightarrow> []),
     fr_type_mappings = [] \<rparr>"

definition okb_mapping :: format_mapping where
  "okb_mapping = \<lparr> fr_source_type = OpenKeyringBackup, fr_field_mappings =
     [plain_mapping ''name'' TfName True, plain_mapping ''username'' TfUsername False, plain_mapping ''password'' TfPassword False,
      plain_mapping ''url'' TfUrl False, plain_mapping ''notes'' TfNotes False, plain_mapping ''tags'' TfTags False,
      plain_mapping ''credential_type'' TfCredentialType False],
     fr_type_mappings =
       [\<lparr> ty_source_type = ''login'', ty_target_type = Login, ty_field_overrides = [] \<rparr>,
        \<lparr> ty_source_type = ''api'', ty_target_type = Api, ty_field_overrides = [] \<rparr>,
        \<lparr> ty_source_type = ''ssh'', ty_target_type = Ssh, ty_field_overrides = [] \<rparr>] \<rparr>"

definition get_default_mapping :: "import_source \<Rightarrow> format_mapping" where
  "get_default_mapping s = (case s of
     KeePass \<Rightarrow> keepass_mapping
   | OnePassword1pux \<Rightarrow> onepassword_1pux_mapping
   | OnePasswordOpvault \<Rightarrow> onepassword_opvault_mapping
   | BitwardenSource \<Rightarrow> bitwarden_mapping
   | CsvSource \<Rightarrow> csv_mapping \<lparr> cm_name_column = ''name'', cm_username_column = ''username'', cm_password_column = ''password'',
       cm_url_column = ''url'', cm_notes_column = ''notes'', cm_tags_column = None, cm_skip_header = True \<rparr>
   | OpenKeyringBackup \<Rightarrow> okb_mapping)"

definition infer_credential_type :: "field_map \<Rightarrow> credential_type" where
  "infer_credential_type m =
     (let has = (\<lambda>k. map_of m k \<noteq> None);
          by_fields = (if has ''username'' \<and> has ''password'' then Login
            else if has ''app_id'' \<and> has ''secret_key'' then Api
            else if has ''public_key'' \<and> has ''private_key'' then Ssh
            else Login)
      in case map_of m ''credential_type'' of
           Some s \<Rightarrow> (case cred_from_db_str s of Inr t \<Rightarrow> t | Inl _ \<Rightarrow> by_fields)
         | None \<Rightarrow> by_fields)"

text \<open>\<open>str::parse::<i64>\<close>.\<close>

definition parse_i64 :: "string \<Rightarrow> int option" where
  "parse_i64 s =
     (let (neg, digits) = (case s of [] \<Rightarrow> (False, []) | c # r \<Rightarrow>
            if c = CHR ''-'' then (True, r) else if c = CHR ''+'' then (False, r) else (False, s));
          n = int (parse_nat digits 0); i = (if neg then - n else n)
      in if digits \<noteq> [] \<and> list_all is_digit digits \<and> - (2 ^ 63) \<le> i \<and> i < 2 ^ 63 then Some i else None)"

definition apply_transform :: "('x) env_scheme \<Rightarrow> ('y) import_env_scheme \<Rightarrow> string \<Rightarrow> field_transform \<Rightarrow> string" where
  "apply_transform E M v t = (case t of
     TrTrim \<Rightarrow> trim v
   | TrLowercase \<Rightarrow> str_lowercase M v
   | TrUppercase \<Rightarrow> str_uppercase M v
   | TrDateTimeFormat f \<Rightarrow>
       (case (case naive_datetime M v ''%Y-%m-%dT%H:%M:%S'' of Some d \<Rightarrow> Some d | None \<Rightarrow> naive_datetime M v ''%Y-%m-%d %H:%M:%S'') of
          Some d \<Rightarrow> datetime_format M d f
        | None \<Rightarrow> (case Option.bind (parse_i64 v) (utc_from_seconds M) of Some d \<Rightarrow> datetime_format M d f | None \<Rightarrow> v))
   | TrBase64Decode \<Rightarrow> (case b64_decode E v of
        Inl _ \<Rightarrow> v | Inr b \<Rightarrow> (case from_utf8 b of Inr s \<Rightarrow> s | Inl _ \<Rightarrow> v)))"

definition apply_mapping ::
  "('x) env_scheme \<Rightarrow> ('y) import_env_scheme \<Rightarrow> field_map \<Rightarrow> field_mapping \<Rightarrow> (target_field \<times> string) list \<Rightarrow> (target_field \<times> string) list" where
  "apply_mapping E M m fm acc = (case map_of m (fm_source_field fm) of
     Some v \<Rightarrow> AList.update (fm_target_field fm) (case fm_transform fm of Some t \<Rightarrow> apply_transform E M v t | None \<Rightarrow> v) acc
   | None \<Rightarrow> (case fm_default_value fm of Some d \<Rightarrow> AList.update (fm_target_field fm) d acc | None \<Rightarrow> acc))"

definition apply_field_mapping ::
  "('x) env_scheme \<Rightarrow> ('y) import_env_scheme \<Rightarrow> field_map \<Rightarrow> format_mapping \<Rightarrow> (target_field \<times> string) list" where
  "apply_field_mapping E M m mapping = fold (apply_mapping E M m) (fr_field_mappings mapping) []"

text \<open>Fields no rule names become lines of the notes.\<close>

definition note_field :: "string \<times> string \<Rightarrow> string" where
  "note_field kv = ''Field: '' @ fst kv @ '' = '' @ snd kv"

definition add_note :: "string set \<Rightarrow> string \<times> string \<Rightarrow> string \<Rightarrow> string" where
  "add_note mapped kv notes =
     (if fst kv \<notin> mapped \<and> snd kv \<noteq> []
      then (if notes \<noteq> [] then notes @ [CHR 0x0A] else notes) @ note_field kv else notes)"

definition map_parsed_item :: "('x) env_scheme \<Rightarrow> ('y) import_env_scheme \<Rightarrow> uuid \<Rightarrow> parsed_item \<Rightarrow> import_source \<Rightarrow> mapped_record" where
  "map_parsed_item E M fresh item s =
     (let mapping = get_default_mapping s;
          mapped = apply_field_mapping E M (pi_fields item) mapping;
          named = set (map fm_source_field (fr_field_mappings mapping));
          notes = fold (add_note named) (pi_fields item) (case map_of mapped TfNotes of Some n \<Rightarrow> n | None \<Rightarrow> [])
      in \<lparr> mr_id = fresh, mr_credential_type = infer_credential_type (pi_fields item), mr_fields = pi_fields item,
           mr_tags = pi_tags item, mr_is_favorite = False, mr_expires_at = None, mr_source_item_id = pi_source_id item,
           mr_notes = (if notes = [] then None else Some notes), mr_is_duplicate = False \<rparr>)"

section \<open>Validation (services/import_export/validation.rs)\<close>

datatype rule_type = RtRequired | RtMinLength nat | RtMaxLength nat | RtPattern string | RtFormat | RtEnum "string list"

text \<open>The constraint of a rule is never read.\<close>

record validation_rule =
  vl_rule_type :: rule_type
  vl_field :: "target_field option"
  vl_error_message :: string

datatype field_validation = FvPass | FvNeedsReview string string | FvFail string string

definition rule :: "rule_type \<Rightarrow> target_field \<Rightarrow> string \<Rightarrow> validation_rule" where
  "rule t f msg = \<lparr> vl_rule_type = t, vl_field = Some f, vl_error_message = msg \<rparr>"

definition keepass_rules :: "validation_rule list" where
  "keepass_rules =
     [rule RtRequired TfName ''Title is required'', rule RtRequired TfUsername ''UserName is required'',
      rule RtRequired TfPassword ''Password is required'', rule (RtMaxLength 255) TfName ''Title must be at most 255 characters'',
      rule (RtMaxLength 255) TfUsername ''UserName must be at most 255 characters'',
      rule (RtMaxLength 255) TfUrl ''URL must be at most 255 characters'']"

definition onepassword_1pux_rules :: "validation_rule list" where
  "onepassword_1pux_rules =
     [rule RtRequired TfName ''title is required'', rule RtRequired TfUsername ''login.username is required'',
      rule RtRequired TfPassword ''login.password is required'', rule (RtMaxLength 255) TfName ''title must be at most 255 characters'']"

definition onepassword_opvault_rules :: "validation_rule list" where
  "onepassword_opvault_rules =
     [rule RtRequired TfName ''overview.title is required'', rule RtRequired TfUsername ''login.username is required'',
      rule RtRequired TfPassword ''login.password is required'']"

definition bitwarden_rules :: "validation_rule list" where
  "bitwarden_rules =
     [rule RtRequired TfName ''name is required'', rule RtRequired TfUsername ''login.username is required'',
      rule RtRequired TfPassword ''login.password is required'', rule (RtMaxLength 255) TfName ''name must be at most 255 characters'']"

definition csv_rules :: "validation_rule list" where
  "csv_rules =
     [rule RtRequired TfName ''name is required'', rule RtRequired TfUsername ''username is required'',
      rule RtRequired TfPassword ''password is required'']"

definition okb_rules :: "validation_rule list" where
  "okb_rules =
     [rule RtRequired TfName ''name is required'',
      rule (RtEnum [''login'', ''api'', ''ssh'']) TfCredentialType ''credential_type must be one of: login, api, ssh'']"

definition get_rules_for_format :: "import_source \<Rightarrow> validation_rule list" where
  "get_rules_for_format s = (case s of
     KeePass \<Rightarrow> keepass_rules
   | OnePassword1pux \<Rightarrow> onepassword_1pux_rules
   | OnePasswordOpvault \<Rightarrow> onepassword_opvault_rules
   | BitwardenSource \<Rightarrow> bitwarden_rules
   | CsvSource \<Rightarrow> csv_rules
   | OpenKeyringBackup \<Rightarrow> okb_rules)"

definition field_key :: "target_field \<Rightarrow> string" where
  "field_key f = (case f of
     TfName \<Rightarrow> ''name'' | TfUsername \<Rightarrow> ''username'' | TfPassword \<Rightarrow> ''password'' | TfAppId \<Rightarrow> ''app_id''
   | TfSecretKey \<Rightarrow> ''secret_key'' | TfPublicKey \<Rightarrow> ''public_key'' | TfPrivateKey \<Rightarrow> ''private_key''
   | TfPassphrase \<Rightarrow> ''passphrase'' | TfUrl \<Rightarrow> ''url'' | TfNotes \<Rightarrow> ''notes'' | TfTags \<Rightarrow> ''tags''
   | TfExpiresAt \<Rightarrow> ''expires_at'' | TfCredentialType \<Rightarrow> ''credential_type'')"

definition evaluate_rule :: "('y) import_env_scheme \<Rightarrow> validation_rule \<Rightarrow> string \<Rightarrow> string \<Rightarrow> field_validation" where
  "evaluate_rule M r k v =
     (let verdict = (\<lambda>ok. if ok then FvPass else FvFail k (vl_error_message r)) in
      case vl_rule_type r of
        RtRequired \<Rightarrow> verdict (v \<noteq> [])
      | RtMinLength n \<Rightarrow> verdict (n \<le> length v)
      | RtMaxLength n \<Rightarrow> verdict (length v \<le> n)
      | RtPattern p \<Rightarrow> (case regex_match M p v of
            Some ok \<Rightarrow> verdict ok | None \<Rightarrow> FvFail k (''invalid regex pattern: '' @ p))
      | RtFormat \<Rightarrow> verdict (v = [] \<or> CHR 0x40 \<in> set v \<and> CHR ''.'' \<in> set v
            \<or> starts_with v ''http://'' \<or> starts_with v ''https://''
            \<or> naive_datetime M v ''%Y-%m-%dT%H:%M:%S'' \<noteq> None \<or> naive_datetime M v ''%Y-%m-%d %H:%M:%S'' \<noteq> None)
      | RtEnum allowed \<Rightarrow> verdict (v = [] \<or> v \<in> set allowed))"

definition validate_item :: "('y) import_env_scheme \<Rightarrow> field_map \<Rightarrow> validation_rule list \<Rightarrow> field_validation list" where
  "validate_item M m rules = map (\<lambda>r. case vl_field r of
     None \<Rightarrow> FvPass
   | Some f \<Rightarrow> evaluate_rule M r (field_key f) (field_or_empty m (field_key f))) rules"

definition failure_of :: "field_validation \<Rightarrow> string option" where
  "failure_of v = (case v of FvFail f m \<Rightarrow> Some (f @ '': '' @ m) | _ \<Rightarrow> None)"

definition warning_of :: "field_validation \<Rightarrow> string option" where
  "warning_of v = (case v of FvNeedsReview f m \<Rightarrow> Some (f @ '': '' @ m) | _ \<Rightarrow> None)"

text \<open>The first reason counts.\<close>

definition first_of :: "(field_validation \<Rightarrow> string option) \<Rightarrow> field_validation list \<Rightarrow> string option" where
  "first_of g vs = Option.bind (find (\<lambda>v. g v \<noteq> None) vs) g"

definition classify_item ::
  "('y) import_env_scheme \<Rightarrow> validation_rule list \<Rightarrow> parsed_item \<Rightarrow> validation_result \<Rightarrow> validation_result" where
  "classify_item M rules item s =
     (let results = validate_item M (pi_fields item) rules; named = field_or_empty (pi_fields item) ''name'' in
      case first_of failure_of results of
        Some reason \<Rightarrow> s\<lparr> vr_failed := vr_failed s + 1, vr_item_passed := vr_item_passed s @ [False],
           vr_failed_items := vr_failed_items s @ [\<lparr> fi_name = named, fi_reason = reason \<rparr>] \<rparr>
      | None \<Rightarrow> (case first_of warning_of results of
          Some reason \<Rightarrow> s\<lparr> vr_needs_review := vr_needs_review s + 1, vr_item_passed := vr_item_passed s @ [True],
             vr_review_items := vr_review_items s @ [\<lparr> ri_name = named, ri_reason = reason \<rparr>] \<rparr>
        | None \<Rightarrow> s\<lparr> vr_importable := vr_importable s + 1, vr_item_passed := vr_item_passed s @ [True] \<rparr>))"

definition validate_items :: "('y) import_env_scheme \<Rightarrow> parsed_item list \<Rightarrow> validation_rule list \<Rightarrow> validation_result" where
  "validate_items M items rules = fold (classify_item M rules) items
     \<lparr> vr_total_items = length items, vr_importable = 0, vr_needs_review = 0, vr_failed = 0,
       vr_review_items = [], vr_failed_items = [], vr_item_passed = [] \<rparr>"

section \<open>Duplicates (services/import_export/duplicate.rs)\<close>

record existing_record_key =
  ek_name :: string
  ek_credential_type :: string
  ek_core_field :: string

definition lowercase_field :: "('y) import_env_scheme \<Rightarrow> field_map \<Rightarrow> string \<Rightarrow> string" where
  "lowercase_field M m k = (case map_of m k of Some v \<Rightarrow> str_lowercase M v | None \<Rightarrow> [])"

definition core_field_for_type :: "('y) import_env_scheme \<Rightarrow> string \<Rightarrow> field_map \<Rightarrow> string" where
  "core_field_for_type M cred_type m = lowercase_field M m
     (if cred_type = ''api'' then ''app_id'' else if cred_type = ''ssh'' then ''public_key'' else ''username'')"

definition item_to_key :: "('y) import_env_scheme \<Rightarrow> parsed_item \<Rightarrow> existing_record_key" where
  "item_to_key M item =
     (let cred_type = lowercase_field M (pi_fields item) ''credential_type'' in
      \<lparr> ek_name = lowercase_field M (pi_fields item) ''name'', ek_credential_type = cred_type,
        ek_core_field = core_field_for_type M cred_type (pi_fields item) \<rparr>)"

definition detect_duplicates :: "('y) import_env_scheme \<Rightarrow> parsed_item list \<Rightarrow> existing_record_key list \<Rightarrow> bool list" where
  "detect_duplicates M items existing = map (\<lambda>item. item_to_key M item \<in> set existing) items"

definition extract_keys :: "('y) import_env_scheme \<Rightarrow> parsed_item list \<Rightarrow> existing_record_key list" where
  "extract_keys M items = map (item_to_key M) items"

end
