(* ===== verification/Import_Parsers.thy ===== *)
theory Import_Parsers
  imports Import_Types
begin

text \<open>
  The parsers of \<open>services/import_export/parsers\<close> and their registry (\<open>parser.rs\<close>): CSV, Bitwarden,
  1Password (.1pux), KeePass and the backups of the program itself. The opvault format is in theory
  \<open>Import_Opvault\<close>. Derived deserialization is from objects; the sequence form serde also accepts for a struct
  is left out. A file is read in one call.
\<close>

section \<open>Derived deserialization\<close>

type_synonym 'a decoder = "json \<Rightarrow> string + 'a"

definition d_str :: "string decoder" where
  "d_str j = (case j of JStr s \<Rightarrow> Inr s | _ \<Rightarrow> Inl ''invalid type: expected a string'')"

definition d_bool :: "bool decoder" where
  "d_bool j = (case j of JBool b \<Rightarrow> Inr b | _ \<Rightarrow> Inl ''invalid type: expected a boolean'')"

definition d_u32 :: "u32 decoder" where
  "d_u32 j = (case as_u64 j of
     Some n \<Rightarrow> if n < 2 ^ 32 then Inr (ucast n) else Inl ''invalid value: expected u32''
   | None \<Rightarrow> Inl ''invalid type: expected u32'')"

definition d_opt :: "'a decoder \<Rightarrow> 'a option decoder" where
  "d_opt d j = (if j = JNull then Inr None else try_res (d j) (\<lambda>a. Inr (Some a)))"

definition d_list :: "'a decoder \<Rightarrow> 'a list decoder" where
  "d_list d j = (case j of JArr js \<Rightarrow> map_res d js | _ \<Rightarrow> Inl ''invalid type: expected a sequence'')"

text \<open>A field that must be there, an \<open>Option\<close>, and a field with \<open>serde(default)\<close>.\<close>

definition d_req :: "(string \<times> json) list \<Rightarrow> string \<Rightarrow> 'a decoder \<Rightarrow> string + 'a" where
  "d_req kvs k d = (case map_of kvs k of Some j \<Rightarrow> d j | None \<Rightarrow> Inl (''missing field '' @ k))"

definition d_option :: "(string \<times> json) list \<Rightarrow> string \<Rightarrow> 'a decoder \<Rightarrow> string + 'a option" where
  "d_option kvs k d = (case map_of kvs k of Some j \<Rightarrow> d_opt d j | None \<Rightarrow> Inr None)"

definition d_default :: "(string \<times> json) list \<Rightarrow> string \<Rightarrow> 'a decoder \<Rightarrow> 'a \<Rightarrow> string + 'a" where
  "d_default kvs k d a = (case map_of kvs k of Some j \<Rightarrow> d j | None \<Rightarrow> Inr a)"

definition opt_or_empty :: "string option \<Rightarrow> string" where
  "opt_or_empty s = (case s of Some t \<Rightarrow> t | None \<Rightarrow> [])"

definition newline :: string where "newline = [CHR 0x0A]"

section \<open>Files (services/import_export/parser.rs)\<close>

definition MAX_FILE_SIZE :: nat where "MAX_FILE_SIZE = 100 * 1024 * 1024"

definition validate_file_common ::
  "('w, 'y) fs_ops_scheme \<Rightarrow> ('w, 'z) file_ops_scheme \<Rightarrow> string \<Rightarrow> string \<Rightarrow> ('w, import_error, unit) io" where
  "validate_file_common K F path expected_ext =
     io_bind (io_test (fs_exists K path)) (\<lambda>found.
     io_bind (io_lift (ensure found (IeFileNotFound path))) (\<lambda>_.
     io_bind (io_map_err (IeFileReadError path) (fo_len F path)) (\<lambda>n.
     io_bind (io_lift (ensure (n \<le> MAX_FILE_SIZE) (IeFileTooLarge path n MAX_FILE_SIZE))) (\<lambda>_.
     io_lift (case path_extension path of
        Some ext \<Rightarrow> ensure (ext = expected_ext) (IeInvalidFormat (''expected .'' @ expected_ext @ '' file, got .'' @ ext))
      | None \<Rightarrow> Inr ())))))"

definition read_import_file :: "('w, 'z) file_ops_scheme \<Rightarrow> string \<Rightarrow> ('w, import_error, bytes) io" where
  "read_import_file F path = io_map_err (\<lambda>e. IeFileReadError path (snd e)) (fo_read F path)"

definition read_text :: "('w, 'y) fs_ops_scheme \<Rightarrow> string \<Rightarrow> ('w, import_error, string) io" where
  "read_text K path = io_map_err (IeFileReadError path) (fs_read_to_string K path)"

section \<open>CSV (parsers/csv.rs)\<close>

definition first_index :: "'a \<Rightarrow> 'a list \<Rightarrow> nat option" where
  "first_index x xs = find (\<lambda>i. xs ! i = x) [0 ..< length xs]"

definition find_column :: "string list \<Rightarrow> string \<Rightarrow> nat option" where
  "find_column headers column_name = first_index column_name headers"

definition resolve_column :: "string list \<Rightarrow> string \<Rightarrow> string \<Rightarrow> import_error + nat" where
  "resolve_column headers column_name label = ok_or (IeParseError ''CSV''
     (''column '' @ [CHR 0x27] @ column_name @ [CHR 0x27] @ '' for field '' @ [CHR 0x27] @ label @ [CHR 0x27] @ '' not found in CSV headers''))
     (find_column headers column_name)"

definition get_or_empty :: "string list \<Rightarrow> nat \<Rightarrow> string" where
  "get_or_empty r i = (if i < length r then r ! i else [])"

definition build_fields :: "string list \<Rightarrow> nat \<Rightarrow> nat \<Rightarrow> nat \<Rightarrow> nat \<Rightarrow> nat \<Rightarrow> field_map" where
  "build_fields r name_idx username_idx password_idx url_idx notes_idx =
     [(''name'', get_or_empty r name_idx), (''username'', get_or_empty r username_idx), (''password'', get_or_empty r password_idx),
      (''url'', get_or_empty r url_idx), (''notes'', get_or_empty r notes_idx)]"

definition extract_tags :: "string list \<Rightarrow> nat option \<Rightarrow> string list" where
  "extract_tags r tags_idx = (case tags_idx of
     None \<Rightarrow> []
   | Some i \<Rightarrow> if i < length r \<and> r ! i \<noteq> [] then filter (\<lambda>t. t \<noteq> []) (map trim (split_on (CHR '','') (r ! i))) else [])"

definition csv_parse ::
  "('y) import_env_scheme \<Rightarrow> ('w, 'z) file_ops_scheme \<Rightarrow> string \<Rightarrow> csv_column_mapping option \<Rightarrow> ('w, import_error, parsed_item list) io" where
  "csv_parse M F path mapping =
     io_bind (io_lift (ok_or (IeInvalidFormat ''CSV column mapping required'') mapping)) (\<lambda>c.
     io_bind (read_import_file F path) (\<lambda>content.
     io_lift (case csv_read M (cm_skip_header c) content of (headers, rows) \<Rightarrow>
       try_res (map_err (\<lambda>e. IeParseError ''CSV'' (''failed to read headers: '' @ e)) headers) (\<lambda>headers.
       try_res (resolve_column headers (cm_name_column c) ''name'') (\<lambda>name_idx.
       try_res (resolve_column headers (cm_username_column c) ''username'') (\<lambda>username_idx.
       try_res (resolve_column headers (cm_password_column c) ''password'') (\<lambda>password_idx.
       try_res (resolve_column headers (cm_url_column c) ''url'') (\<lambda>url_idx.
       try_res (resolve_column headers (cm_notes_column c) ''notes'') (\<lambda>notes_idx.
       try_res (map_res (map_err (IeFileReadError path)) rows) (\<lambda>rows.
       Inr (map (\<lambda>(i, r). \<lparr> pi_source_id = ''row-'' @ show_nat i,
          pi_fields = build_fields r name_idx username_idx password_idx url_idx notes_idx,
          pi_tags = extract_tags r (Option.bind (cm_tags_column c) (find_column headers)) \<rparr>)
        (zip [1 ..< length rows + 1] rows))))))))))))"

section \<open>Bitwarden (parsers/bitwarden.rs)\<close>

record bitwarden_login =
  bl_username :: "string option"
  bl_password :: "string option"
  bl_uris :: "string option list option"

record bitwarden_item =
  bi_item_type :: u32
  bi_name :: "string option"
  bi_login :: "bitwarden_login option"
  bi_notes :: "string option"
  bi_fields :: "(string option \<times> string option) list option"

definition d_uri :: "string option decoder" where
  "d_uri j = try_res (fields_of [''uri''] j) (\<lambda>kvs. d_option kvs ''uri'' d_str)"

definition d_bitwarden_login :: "bitwarden_login decoder" where
  "d_bitwarden_login j =
     try_res (fields_of [''username'', ''password'', ''uris''] j) (\<lambda>kvs.
     try_res (d_option kvs ''username'' d_str) (\<lambda>u. try_res (d_option kvs ''password'' d_str) (\<lambda>p.
     try_res (d_option kvs ''uris'' (d_list d_uri)) (\<lambda>uris.
     Inr \<lparr> bl_username = u, bl_password = p, bl_uris = uris \<rparr>))))"

definition d_bitwarden_field :: "(string option \<times> string option) decoder" where
  "d_bitwarden_field j =
     try_res (fields_of [''name'', ''value'', ''type''] j) (\<lambda>kvs.
     try_res (d_option kvs ''name'' d_str) (\<lambda>n. try_res (d_option kvs ''value'' d_str) (\<lambda>v.
     try_res (d_option kvs ''type'' d_u32) (\<lambda>_. Inr (n, v)))))"

definition d_bitwarden_item :: "bitwarden_item decoder" where
  "d_bitwarden_item j =
     try_res (fields_of [''type'', ''name'', ''login'', ''notes'', ''fields''] j) (\<lambda>kvs.
     try_res (d_req kvs ''type'' d_u32) (\<lambda>t. try_res (d_option kvs ''name'' d_str) (\<lambda>n.
     try_res (d_option kvs ''login'' d_bitwarden_login) (\<lambda>l. try_res (d_option kvs ''notes'' d_str) (\<lambda>notes.
     try_res (d_option kvs ''fields'' (d_list d_bitwarden_field)) (\<lambda>fs.
     Inr \<lparr> bi_item_type = t, bi_name = n, bi_login = l, bi_notes = notes, bi_fields = fs \<rparr>))))))"

definition d_bitwarden_export :: "(bool option \<times> bitwarden_item list) decoder" where
  "d_bitwarden_export j =
     try_res (fields_of [''encrypted'', ''items''] j) (\<lambda>kvs.
     try_res (d_option kvs ''encrypted'' d_bool) (\<lambda>e. try_res (d_req kvs ''items'' (d_list d_bitwarden_item)) (\<lambda>items. Inr (e, items))))"

definition add_line :: "string \<Rightarrow> string \<Rightarrow> string" where
  "add_line line s = (if s = [] then line else s @ newline @ line)"

definition bitwarden_notes :: "string option \<Rightarrow> (string option \<times> string option) list option \<Rightarrow> string" where
  "bitwarden_notes base flds = fold (\<lambda>(n, v). add_line (''Field: '' @ (case n of Some s \<Rightarrow> s | None \<Rightarrow> ''unnamed'') @ '' = '' @ opt_or_empty v))
     (case flds of Some fs \<Rightarrow> fs | None \<Rightarrow> []) (opt_or_empty base)"

definition bitwarden_login_item :: "nat \<Rightarrow> bitwarden_item \<Rightarrow> parsed_item" where
  "bitwarden_login_item index item =
     (let login = (case bi_login item of
            Some l \<Rightarrow> [(''username'', opt_or_empty (bl_username l)), (''password'', opt_or_empty (bl_password l)),
              (''url'', opt_or_empty (case bl_uris l of Some (u # _) \<Rightarrow> u | _ \<Rightarrow> None))]
          | None \<Rightarrow> [(''username'', []), (''password'', []), (''url'', [])])
      in \<lparr> pi_source_id = ''bw-'' @ show_nat index,
           pi_fields = [(''name'', opt_or_empty (bi_name item))] @ login @ [(''notes'', bitwarden_notes (bi_notes item) (bi_fields item))],
           pi_tags = [] \<rparr>)"

definition bitwarden_note_item :: "nat \<Rightarrow> bitwarden_item \<Rightarrow> parsed_item" where
  "bitwarden_note_item index item =
     \<lparr> pi_source_id = ''bw-'' @ show_nat index,
       pi_fields = [(''name'', opt_or_empty (bi_name item)), (''username'', []), (''password'', []), (''url'', []),
         (''notes'', bitwarden_notes (bi_notes item) (bi_fields item))],
       pi_tags = [] \<rparr>"

text \<open>Cards, identities and unknown types are skipped.\<close>

definition bitwarden_items :: "nat \<times> bitwarden_item \<Rightarrow> parsed_item list" where
  "bitwarden_items = (\<lambda>(index, item).
     if bi_item_type item = 1 then [bitwarden_login_item index item]
     else if bi_item_type item = 2 then [bitwarden_note_item index item] else [])"

definition bitwarden_parse ::
  "('x) crypto_env_scheme \<Rightarrow> ('w, 'y) fs_ops_scheme \<Rightarrow> string \<Rightarrow> ('w, import_error, parsed_item list) io" where
  "bitwarden_parse E K path =
     io_bind (read_text K path) (\<lambda>content.
     io_lift (try_res (map_err (IeParseError ''Bitwarden JSON'') (try_res (json_parse E content) d_bitwarden_export)) (\<lambda>(encrypted, items).
       if encrypted = Some True then Inl IePasswordRequired
       else Inr (concat (map bitwarden_items (enumerate 0 items))))))"

section \<open>1Password .1pux (parsers/onepassword.rs)\<close>

record onepux_field =
  of_id :: "string option"
  of_title :: "string option"
  of_value :: "json option"

record onepux_details =
  od_login_fields :: "(string option \<times> string option) list"
  od_notes_plain :: "string option"
  od_sections :: "onepux_field list option list"
  od_password :: "string option"

record onepux_overview =
  oo_title :: "string option"
  oo_tags :: "string list option"
  oo_url :: "string option"
  oo_urls :: "string option list option"

record onepux_item =
  oi_uuid :: "string option"
  oi_category :: string
  oi_state :: "string option"
  oi_details :: "onepux_details option"
  oi_overview :: "onepux_overview option"

definition d_onepux_field :: "onepux_field decoder" where
  "d_onepux_field j =
     try_res (fields_of [''id'', ''title'', ''value''] j) (\<lambda>kvs.
     try_res (d_option kvs ''id'' d_str) (\<lambda>i. try_res (d_option kvs ''title'' d_str) (\<lambda>t.
     try_res (d_option kvs ''value'' Inr) (\<lambda>v. Inr \<lparr> of_id = i, of_title = t, of_value = v \<rparr>))))"

definition d_onepux_section :: "onepux_field list option decoder" where
  "d_onepux_section j = try_res (fields_of [''fields''] j) (\<lambda>kvs. d_option kvs ''fields'' (d_list d_onepux_field))"

definition d_onepux_login_field :: "(string option \<times> string option) decoder" where
  "d_onepux_login_field j =
     try_res (fields_of [''designation'', ''value''] j) (\<lambda>kvs.
     try_res (d_option kvs ''designation'' d_str) (\<lambda>d. try_res (d_option kvs ''value'' d_str) (\<lambda>v. Inr (d, v))))"

definition d_onepux_details :: "onepux_details decoder" where
  "d_onepux_details j =
     try_res (fields_of [''loginFields'', ''notesPlain'', ''sections'', ''password''] j) (\<lambda>kvs.
     try_res (d_default kvs ''loginFields'' (d_list d_onepux_login_field) []) (\<lambda>l.
     try_res (d_option kvs ''notesPlain'' d_str) (\<lambda>n.
     try_res (d_default kvs ''sections'' (d_list d_onepux_section) []) (\<lambda>s.
     try_res (d_option kvs ''password'' d_str) (\<lambda>p.
     Inr \<lparr> od_login_fields = l, od_notes_plain = n, od_sections = s, od_password = p \<rparr>)))))"

definition d_onepux_overview :: "onepux_overview decoder" where
  "d_onepux_overview j =
     try_res (fields_of [''title'', ''tags'', ''url'', ''URLs''] j) (\<lambda>kvs.
     try_res (d_option kvs ''title'' d_str) (\<lambda>t. try_res (d_option kvs ''tags'' (d_list d_str)) (\<lambda>g.
     try_res (d_option kvs ''url'' d_str) (\<lambda>u.
     try_res (d_option kvs ''URLs'' (d_list (\<lambda>j. try_res (fields_of [''url''] j) (\<lambda>kvs. d_option kvs ''url'' d_str)))) (\<lambda>us.
     Inr \<lparr> oo_title = t, oo_tags = g, oo_url = u, oo_urls = us \<rparr>)))))"

definition d_onepux_item :: "onepux_item decoder" where
  "d_onepux_item j =
     try_res (fields_of [''uuid'', ''categoryUuid'', ''state'', ''details'', ''overview''] j) (\<lambda>kvs.
     try_res (d_option kvs ''uuid'' d_str) (\<lambda>i. try_res (d_req kvs ''categoryUuid'' d_str) (\<lambda>c.
     try_res (d_option kvs ''state'' d_str) (\<lambda>s. try_res (d_option kvs ''details'' d_onepux_details) (\<lambda>d.
     try_res (d_option kvs ''overview'' d_onepux_overview) (\<lambda>v.
     Inr \<lparr> oi_uuid = i, oi_category = c, oi_state = s, oi_details = d, oi_overview = v \<rparr>))))))"

text \<open>The items of all vaults of all accounts, in order.\<close>

definition d_onepux_export :: "onepux_item list decoder" where
  "d_onepux_export j =
     try_res (fields_of [''accounts''] j) (\<lambda>kvs. try_res (d_req kvs ''accounts'' (d_list (\<lambda>j.
       try_res (fields_of [''vaults''] j) (\<lambda>kvs. d_req kvs ''vaults'' (d_list (\<lambda>j.
         try_res (fields_of [''items''] j) (\<lambda>kvs. d_req kvs ''items'' (d_list d_onepux_item)))))))) (\<lambda>accounts.
     Inr (concat (concat accounts))))"

text \<open>An object as a \<open>serde_json::Map\<close>: ordered by key, the last of several entries of a key.\<close>

definition json_map :: "(string \<times> json) list \<Rightarrow> (string \<times> json) list" where
  "json_map kvs = map (\<lambda>k. (k, the (map_of (rev kvs) k))) (sort (remdups (map fst kvs)))"

definition first_some :: "('a \<Rightarrow> 'b option) \<Rightarrow> 'a list \<Rightarrow> 'b option" where
  "first_some f xs = Option.bind (find (\<lambda>x. f x \<noteq> None) xs) f"

definition inner_string :: "json \<Rightarrow> string option" where
  "inner_string v = (case v of
     JStr s \<Rightarrow> Some s
   | JObj kvs \<Rightarrow> first_some (\<lambda>kv. as_str (snd kv)) (json_map kvs)
   | _ \<Rightarrow> None)"

definition extract_section_value :: "json option \<Rightarrow> string option" where
  "extract_section_value v = (case v of
     Some (JStr s) \<Rightarrow> Some s
   | Some (JObj kvs) \<Rightarrow>
       (case first_some (\<lambda>k. Option.bind (map_of (rev kvs) k) as_str) [''totp'', ''string'', ''concealed'', ''phone''] of
          Some s \<Rightarrow> Some s
        | None \<Rightarrow> first_some (\<lambda>kv. inner_string (snd kv)) (json_map kvs))
   | _ \<Rightarrow> None)"

definition onepux_note :: "onepux_field \<Rightarrow> string list" where
  "onepux_note sf = (case extract_section_value (of_value sf) of
     None \<Rightarrow> []
   | Some s \<Rightarrow> if s = [] then []
       else if (case of_id sf of Some i \<Rightarrow> starts_with i ''TOTP_'' | None \<Rightarrow> False) then [''TOTP: '' @ s]
       else (case of_title sf of Some t \<Rightarrow> [t @ '': '' @ s] | None \<Rightarrow> []))"

definition onepux_notes :: "onepux_details option \<Rightarrow> string" where
  "onepux_notes d = (case d of
     None \<Rightarrow> []
   | Some d \<Rightarrow> join_with newline
       ((case od_notes_plain d of Some n \<Rightarrow> if n = [] then [] else [n] | None \<Rightarrow> [])
        @ concat (map (\<lambda>s. case s of Some fs \<Rightarrow> concat (map onepux_note fs) | None \<Rightarrow> []) (od_sections d))))"

definition extract_url :: "onepux_overview option \<Rightarrow> string" where
  "extract_url v = opt_or_empty (Option.bind v (\<lambda>v. case oo_url v of
     Some (c # u) \<Rightarrow> Some (c # u)
   | _ \<Rightarrow> (case oo_urls v of Some (u # _) \<Rightarrow> u | _ \<Rightarrow> None)))"

text \<open>The last field of a designation counts.\<close>

definition designated :: "string \<Rightarrow> (string option \<times> string option) list \<Rightarrow> string" where
  "designated d flds = (case find (\<lambda>f. fst f = Some d) (rev flds) of Some f \<Rightarrow> opt_or_empty (snd f) | None \<Rightarrow> [])"

definition unless_empty :: "string \<Rightarrow> string \<Rightarrow> field_map" where
  "unless_empty k v = (if v = [] then [] else [(k, v)])"

definition onepux_title :: "onepux_item \<Rightarrow> string" where
  "onepux_title item = opt_or_empty (Option.bind (oi_overview item) oo_title)"

definition onepux_tags :: "onepux_item \<Rightarrow> string list" where
  "onepux_tags item = (case Option.bind (oi_overview item) oo_tags of Some t \<Rightarrow> t | None \<Rightarrow> [])"

definition onepux_source_id :: "nat \<Rightarrow> onepux_item \<Rightarrow> string" where
  "onepux_source_id index item = (case oi_uuid item of Some u \<Rightarrow> u | None \<Rightarrow> ''1p-'' @ show_nat index)"

definition onepux_login_item :: "nat \<Rightarrow> onepux_item \<Rightarrow> parsed_item" where
  "onepux_login_item index item =
     (let login = (case oi_details item of Some d \<Rightarrow> od_login_fields d | None \<Rightarrow> []);
          p = designated ''password'' login;
          password = (if p = [] then opt_or_empty (Option.bind (oi_details item) od_password) else p)
      in \<lparr> pi_source_id = onepux_source_id index item,
           pi_fields = [(''name'', onepux_title item), (''username'', designated ''username'' login), (''password'', password)]
             @ unless_empty ''url'' (extract_url (oi_overview item)) @ unless_empty ''notes'' (onepux_notes (oi_details item)),
           pi_tags = onepux_tags item \<rparr>)"

definition onepux_note_item :: "nat \<Rightarrow> onepux_item \<Rightarrow> parsed_item" where
  "onepux_note_item index item =
     \<lparr> pi_source_id = onepux_source_id index item,
       pi_fields = [(''name'', onepux_title item)] @ unless_empty ''notes'' (onepux_notes (oi_details item)),
       pi_tags = onepux_tags item \<rparr>"

text \<open>Archived items are skipped; an index counts every item.\<close>

definition onepux_items :: "nat \<times> onepux_item \<Rightarrow> parsed_item list" where
  "onepux_items = (\<lambda>(index, item).
     if oi_state item = Some ''archived'' then []
     else if oi_category item = ''001'' \<or> oi_category item = ''005'' then [onepux_login_item index item]
     else if oi_category item = ''003'' then [onepux_note_item index item] else [])"

definition onepux_error :: "string \<Rightarrow> import_error" where
  "onepux_error reason = IeParseError ''1Password .1pux'' reason"

definition onepux_parse ::
  "('x) crypto_env_scheme \<Rightarrow> ('y) import_env_scheme \<Rightarrow> ('w, 'z) file_ops_scheme \<Rightarrow> string \<Rightarrow> ('w, import_error, parsed_item list) io" where
  "onepux_parse E M F path =
     io_bind (read_import_file F path) (\<lambda>content.
     io_lift (try_res (map_err (\<lambda>e. onepux_error (''failed to open ZIP archive: '' @ e)) (zip_open M content)) (\<lambda>archive.
       try_res (map_err (\<lambda>e. onepux_error (''export.data not found in archive: '' @ e)) (archive ''export.data'')) (\<lambda>entry.
       try_res (map_err (\<lambda>e. onepux_error (''failed to read export.data: '' @ e)) entry) (\<lambda>text.
       try_res (map_err (\<lambda>e. onepux_error (''failed to parse JSON: '' @ e)) (try_res (json_parse E text) d_onepux_export)) (\<lambda>items.
       Inr (concat (map onepux_items (enumerate 0 items)))))))))"

section \<open>KeePass (parsers/keepass.rs)\<close>

definition kp_get :: "kp_entry \<Rightarrow> string \<Rightarrow> string" where
  "kp_get entry k = field_or_empty (kp_fields entry) k"

definition build_custom_notes :: "kp_entry \<Rightarrow> string list \<Rightarrow> string" where
  "build_custom_notes entry standard_keys = join_with newline
     (map (\<lambda>kv. ''Custom: '' @ fst kv @ '' = '' @ snd kv) (filter (\<lambda>kv. fst kv \<notin> set standard_keys) (kp_fields entry)))"

definition entry_to_parsed_item :: "kp_entry \<Rightarrow> string \<Rightarrow> parsed_item" where
  "entry_to_parsed_item entry group_path =
     (let base = kp_get entry ''Notes'';
          custom = build_custom_notes entry [''Title'', ''UserName'', ''Password'', ''URL'', ''Notes''];
          notes = (if custom = [] then base else if base = [] then custom else base @ newline @ custom);
          path_tags = filter (\<lambda>s. s \<noteq> []) (split_on (CHR ''/'') group_path)
      in \<lparr> pi_source_id = kp_uuid entry,
           pi_fields = [(''name'', kp_get entry ''Title''), (''username'', kp_get entry ''UserName''),
             (''password'', kp_get entry ''Password''), (''url'', kp_get entry ''URL''), (''notes'', notes)],
           pi_tags = fold (\<lambda>t tags. if t \<in> set tags then tags else tags @ [t]) (kp_tags entry) path_tags \<rparr>)"

fun walk_group :: "string \<Rightarrow> kp_group \<Rightarrow> parsed_item list" where
  "walk_group group_path (KpGroup _ entries groups) =
     map (\<lambda>e. entry_to_parsed_item e group_path) entries
     @ concat (map (\<lambda>g. walk_group (if group_path = [] then kp_name g else group_path @ ''/'' @ kp_name g) g) groups)"

definition map_open_error :: "string \<Rightarrow> kp_error \<Rightarrow> import_error" where
  "map_open_error path e = (case e of
     KpIncorrectKey _ \<Rightarrow> IeInvalidPassword
   | KpKeyError s \<Rightarrow> IeDecryptionFailed s
   | KpUnsupportedVersion \<Rightarrow> IeInvalidFormat ''unsupported KeePass database version''
   | KpOther s \<Rightarrow> IeFileReadError path s)"

definition keepass_parse ::
  "('y) import_env_scheme \<Rightarrow> ('w, 'z) file_ops_scheme \<Rightarrow> string \<Rightarrow> string option \<Rightarrow> ('w, import_error, parsed_item list) io" where
  "keepass_parse M F path password =
     io_bind (io_lift (ok_or IePasswordRequired password)) (\<lambda>pw.
     io_bind (io_map_err (\<lambda>(missing, r). if missing then IeFileNotFound path else IeFileReadError path r) (fo_read F path)) (\<lambda>content.
     io_lift (try_res (map_err (map_open_error path) (kp_open M content pw)) (\<lambda>root. Inr (walk_group [] root)))))"

section \<open>Backups (parsers/okb.rs)\<close>

definition OKB_VERSION :: u32 where "OKB_VERSION = 1"

text \<open>\<open>from_le_bytes\<close>.\<close>

fun le_nat :: "bytes \<Rightarrow> nat" where
  "le_nat [] = 0"
| "le_nat (b # bs) = byte_of b + 256 * le_nat bs"

record okb_record =
  ok_id :: string
  ok_credential_type :: string
  ok_name :: string
  ok_username :: "string option"
  ok_password :: "string option"
  ok_url :: "string option"
  ok_notes :: "string option"
  ok_tags :: "string list option"
  ok_is_favorite :: "bool option"
  ok_expires_at :: "string option"
  ok_public_key :: "string option"
  ok_private_key :: "string option"
  ok_passphrase :: "string option"
  ok_app_id :: "string option"
  ok_secret_key :: "string option"

definition okb_field_names :: "string list" where
  "okb_field_names = [''id'', ''credential_type'', ''name'', ''username'', ''password'', ''url'', ''notes'', ''tags'', ''is_favorite'',
     ''expires_at'', ''public_key'', ''private_key'', ''passphrase'', ''app_id'', ''secret_key'']"

definition d_okb_record :: "okb_record decoder" where
  "d_okb_record j =
     try_res (fields_of okb_field_names j) (\<lambda>kvs.
     try_res (d_req kvs ''id'' d_str) (\<lambda>i. try_res (d_req kvs ''credential_type'' d_str) (\<lambda>t. try_res (d_req kvs ''name'' d_str) (\<lambda>n.
     try_res (d_option kvs ''username'' d_str) (\<lambda>u. try_res (d_option kvs ''password'' d_str) (\<lambda>p.
     try_res (d_option kvs ''url'' d_str) (\<lambda>url. try_res (d_option kvs ''notes'' d_str) (\<lambda>notes.
     try_res (d_option kvs ''tags'' (d_list d_str)) (\<lambda>tags. try_res (d_option kvs ''is_favorite'' d_bool) (\<lambda>fav.
     try_res (d_option kvs ''expires_at'' d_str) (\<lambda>x. try_res (d_option kvs ''public_key'' d_str) (\<lambda>pub.
     try_res (d_option kvs ''private_key'' d_str) (\<lambda>priv. try_res (d_option kvs ''passphrase'' d_str) (\<lambda>pass.
     try_res (d_option kvs ''app_id'' d_str) (\<lambda>app. try_res (d_option kvs ''secret_key'' d_str) (\<lambda>sec.
     Inr \<lparr> ok_id = i, ok_credential_type = t, ok_name = n, ok_username = u, ok_password = p, ok_url = url, ok_notes = notes,
       ok_tags = tags, ok_is_favorite = fav, ok_expires_at = x, ok_public_key = pub, ok_private_key = priv,
       ok_passphrase = pass, ok_app_id = app, ok_secret_key = sec \<rparr>))))))))))))))))"

definition d_okb_payload :: "okb_record list decoder" where
  "d_okb_payload j =
     try_res (fields_of [''version'', ''vault_id'', ''exported_at'', ''records''] j) (\<lambda>kvs.
     try_res (d_req kvs ''version'' d_str) (\<lambda>_. try_res (d_req kvs ''vault_id'' d_str) (\<lambda>_.
     try_res (d_req kvs ''exported_at'' d_str) (\<lambda>_. d_req kvs ''records'' (d_list d_okb_record)))))"

definition insert_optional :: "string \<Rightarrow> string option \<Rightarrow> field_map" where
  "insert_optional k v = (case v of Some s \<Rightarrow> [(k, s)] | None \<Rightarrow> [])"

definition okb_item :: "okb_record \<Rightarrow> parsed_item" where
  "okb_item r =
     \<lparr> pi_source_id = ok_id r,
       pi_fields = [(''name'', ok_name r), (''credential_type'', ok_credential_type r)]
         @ insert_optional ''username'' (ok_username r) @ insert_optional ''password'' (ok_password r)
         @ insert_optional ''url'' (ok_url r) @ insert_optional ''notes'' (ok_notes r)
         @ insert_optional ''is_favorite'' (map_option (\<lambda>b. if b then ''true'' else ''false'') (ok_is_favorite r))
         @ insert_optional ''expires_at'' (ok_expires_at r) @ insert_optional ''public_key'' (ok_public_key r)
         @ insert_optional ''private_key'' (ok_private_key r) @ insert_optional ''passphrase'' (ok_passphrase r)
         @ insert_optional ''app_id'' (ok_app_id r) @ insert_optional ''secret_key'' (ok_secret_key r),
       pi_tags = (case ok_tags r of Some t \<Rightarrow> t | None \<Rightarrow> []) \<rparr>"

text \<open>The key of a backup, and the records under it.\<close>

definition okb_open :: "('x) keystore_env_scheme \<Rightarrow> bytes \<Rightarrow> string option \<Rightarrow> import_error + parsed_item list" where
  "okb_open E data password =
     (if length data < 60 then Inl (IeInvalidFormat ''file too short to be a valid .okb backup'')
      else let version = le_nat (take 4 data) in
      if version \<noteq> unat OKB_VERSION then Inl (IeInvalidFormat (''unsupported .okb version '' @ show_nat version @ '', expected '' @ show_word OKB_VERSION))
      else try_res (ok_or IePasswordRequired password) (\<lambda>pw.
        try_res (map_err IeDecryptionFailed (derive_key_locked E pw (take 16 (drop 4 data)) argon2_medium)) (\<lambda>dek.
        try_res (map_err IeDecryptionFailed (decrypt_with_aad E (drop 44 data) (take 24 (drop 20 data)) [] dek)) (\<lambda>plaintext.
        try_res (map_err (IeParseError ''okb'') (try_res (from_utf8 plaintext) (\<lambda>text. try_res (json_parse E text) d_okb_payload))) (\<lambda>records.
        Inr (map okb_item records))))))"

definition okb_parse ::
  "('x) keystore_env_scheme \<Rightarrow> ('w, 'z) file_ops_scheme \<Rightarrow> string \<Rightarrow> string option \<Rightarrow> ('w, import_error, parsed_item list) io" where
  "okb_parse E F path password = io_bind (read_import_file F path) (\<lambda>data. io_lift (okb_open E data password))"

end
