(* ===== verification/Import_Opvault.thy ===== *)
theory Import_Opvault
  imports Import_Parsers
begin

text \<open>
  The opvault format of 1Password (\<open>parsers/opvault\<close>): keys from the master password, authenticated blocks,
  and the items of the band files. PBKDF2, SHA-512, HMAC and the blocks of AES-CBC are parameters.
\<close>

section \<open>Data (opvault/types.rs)\<close>

record key_pair =
  kp_enc :: bytes
  kp_mac :: bytes

record profile_lock =
  pk_iterations :: u32
  pk_salt :: string
  pk_master_key :: string
  pk_overview_key :: string

record opvault_profile =
  pr_lock :: "profile_lock option"
  pr_iterations :: "u32 option"
  pr_salt :: "string option"
  pr_master_key :: "string option"
  pr_overview_key :: "string option"

record band_item =
  bd_uuid :: string
  bd_category :: string
  bd_trashed :: bool
  bd_overview :: string
  bd_key :: string
  bd_details :: string

record opvault_overview =
  ov_title :: string
  ov_urls :: "string list"
  ov_url :: "string option"
  ov_tags :: "string list"

record opvault_section_field =
  sf_n :: "string option"
  sf_t :: "string option"
  sf_v :: "json option"

record opvault_details =
  dt_fields :: "(string option \<times> string option) list"
  dt_sections :: "opvault_section_field list list"
  dt_notes_plain :: "string option"
  dt_password :: "string option"

definition resolve_lock :: "opvault_profile \<Rightarrow> string + profile_lock" where
  "resolve_lock p = (case pr_lock p of
     Some l \<Rightarrow> Inr l
   | None \<Rightarrow> (case (pr_iterations p, pr_salt p, pr_master_key p, pr_overview_key p) of
       (Some i, Some s, Some m, Some v) \<Rightarrow> Inr \<lparr> pk_iterations = i, pk_salt = s, pk_master_key = m, pk_overview_key = v \<rparr>
     | _ \<Rightarrow> Inl ''missing lock fields in profile''))"

definition d_profile_lock :: "profile_lock decoder" where
  "d_profile_lock j =
     try_res (fields_of [''iterations'', ''salt'', ''masterKey'', ''overviewKey''] j) (\<lambda>kvs.
     try_res (d_req kvs ''iterations'' d_u32) (\<lambda>i. try_res (d_req kvs ''salt'' d_str) (\<lambda>s.
     try_res (d_req kvs ''masterKey'' d_str) (\<lambda>m. try_res (d_req kvs ''overviewKey'' d_str) (\<lambda>v.
     Inr \<lparr> pk_iterations = i, pk_salt = s, pk_master_key = m, pk_overview_key = v \<rparr>)))))"

definition d_profile :: "opvault_profile decoder" where
  "d_profile j =
     try_res (fields_of [''uuid'', ''lock'', ''iterations'', ''salt'', ''masterKey'', ''overviewKey''] j) (\<lambda>kvs.
     try_res (d_req kvs ''uuid'' d_str) (\<lambda>_. try_res (d_option kvs ''lock'' d_profile_lock) (\<lambda>l.
     try_res (d_option kvs ''iterations'' d_u32) (\<lambda>i. try_res (d_option kvs ''salt'' d_str) (\<lambda>s.
     try_res (d_option kvs ''masterKey'' d_str) (\<lambda>m. try_res (d_option kvs ''overviewKey'' d_str) (\<lambda>v.
     Inr \<lparr> pr_lock = l, pr_iterations = i, pr_salt = s, pr_master_key = m, pr_overview_key = v \<rparr>)))))))"

definition d_i64 :: "int decoder" where
  "d_i64 j = (case j of
     JNum s \<Rightarrow> (case s of CHR ''-'' # r \<Rightarrow>
         (if r \<noteq> [] \<and> list_all is_digit r \<and> (hd r = CHR ''0'' \<longrightarrow> r = ''0'') \<and> parse_nat r 0 \<le> 2 ^ 63
          then Inr (- int (parse_nat r 0)) else Inl ''invalid type: expected i64'')
       | _ \<Rightarrow> (case as_u64 j of
           Some n \<Rightarrow> if n < 2 ^ 63 then Inr (int (unat n)) else Inl ''invalid value: expected i64''
         | None \<Rightarrow> Inl ''invalid type: expected i64''))
   | _ \<Rightarrow> Inl ''invalid type: expected i64'')"

definition d_band_item :: "band_item decoder" where
  "d_band_item j =
     try_res (fields_of [''uuid'', ''category'', ''trashed'', ''o'', ''k'', ''d'', ''folder'', ''findex'', ''created'', ''updated''] j) (\<lambda>kvs.
     try_res (d_req kvs ''uuid'' d_str) (\<lambda>u. try_res (d_req kvs ''category'' d_str) (\<lambda>c.
     try_res (d_default kvs ''trashed'' d_bool False) (\<lambda>t. try_res (d_req kvs ''o'' d_str) (\<lambda>ov.
     try_res (d_req kvs ''k'' d_str) (\<lambda>k. try_res (d_req kvs ''d'' d_str) (\<lambda>d.
     try_res (d_default kvs ''folder'' d_str []) (\<lambda>_. try_res (d_default kvs ''findex'' d_str []) (\<lambda>_.
     try_res (d_default kvs ''created'' d_i64 0) (\<lambda>_. try_res (d_default kvs ''updated'' d_i64 0) (\<lambda>_.
     Inr \<lparr> bd_uuid = u, bd_category = c, bd_trashed = t, bd_overview = ov, bd_key = k, bd_details = d \<rparr>)))))))))))"

definition d_opvault_overview :: "opvault_overview decoder" where
  "d_opvault_overview j =
     try_res (fields_of [''title'', ''URLs'', ''url'', ''tags'', ''ainfo''] j) (\<lambda>kvs.
     try_res (d_req kvs ''title'' d_str) (\<lambda>t.
     try_res (d_default kvs ''URLs'' (d_list (\<lambda>j. try_res (fields_of [''u''] j) (\<lambda>kvs. d_req kvs ''u'' d_str))) []) (\<lambda>us.
     try_res (d_option kvs ''url'' d_str) (\<lambda>u. try_res (d_default kvs ''tags'' (d_list d_str) []) (\<lambda>g.
     try_res (d_option kvs ''ainfo'' d_str) (\<lambda>_.
     Inr \<lparr> ov_title = t, ov_urls = us, ov_url = u, ov_tags = g \<rparr>))))))"

definition d_opvault_field :: "(string option \<times> string option) decoder" where
  "d_opvault_field j =
     try_res (fields_of [''designation'', ''name'', ''value'', ''type''] j) (\<lambda>kvs.
     try_res (d_option kvs ''designation'' d_str) (\<lambda>d. try_res (d_option kvs ''name'' d_str) (\<lambda>_.
     try_res (d_option kvs ''value'' d_str) (\<lambda>v. try_res (d_option kvs ''type'' d_str) (\<lambda>_. Inr (d, v))))))"

definition d_opvault_section_field :: "opvault_section_field decoder" where
  "d_opvault_section_field j =
     try_res (fields_of [''k'', ''n'', ''t'', ''v''] j) (\<lambda>kvs.
     try_res (d_option kvs ''k'' d_str) (\<lambda>_. try_res (d_option kvs ''n'' d_str) (\<lambda>n.
     try_res (d_option kvs ''t'' d_str) (\<lambda>t. try_res (d_option kvs ''v'' Inr) (\<lambda>v.
     Inr \<lparr> sf_n = n, sf_t = t, sf_v = v \<rparr>)))))"

definition d_opvault_section :: "opvault_section_field list decoder" where
  "d_opvault_section j =
     try_res (fields_of [''title'', ''fields''] j) (\<lambda>kvs.
     try_res (d_option kvs ''title'' d_str) (\<lambda>_. d_default kvs ''fields'' (d_list d_opvault_section_field) []))"

definition d_opvault_details :: "opvault_details decoder" where
  "d_opvault_details j =
     try_res (fields_of [''fields'', ''sections'', ''notesPlain'', ''password''] j) (\<lambda>kvs.
     try_res (d_default kvs ''fields'' (d_list d_opvault_field) []) (\<lambda>fs.
     try_res (d_default kvs ''sections'' (d_list d_opvault_section) []) (\<lambda>ss.
     try_res (d_option kvs ''notesPlain'' d_str) (\<lambda>n. try_res (d_option kvs ''password'' d_str) (\<lambda>p.
     Inr \<lparr> dt_fields = fs, dt_sections = ss, dt_notes_plain = n, dt_password = p \<rparr>)))))"

section \<open>Cryptography (opvault/crypto.rs)\<close>

definition key_pair_of :: "bytes \<Rightarrow> key_pair" where
  "key_pair_of b = \<lparr> kp_enc = take 32 b, kp_mac = take 32 (drop 32 b) \<rparr>"

definition derive_keys :: "('y) import_env_scheme \<Rightarrow> bytes \<Rightarrow> bytes \<Rightarrow> u32 \<Rightarrow> key_pair" where
  "derive_keys M password salt iterations = key_pair_of (pbkdf2_sha512 M password salt iterations)"

definition composite_key_from_material :: "('y) import_env_scheme \<Rightarrow> bytes \<Rightarrow> key_pair" where
  "composite_key_from_material M material = key_pair_of (sha512 M material)"

definition verify_hmac :: "('y) import_env_scheme \<Rightarrow> bytes \<Rightarrow> bytes \<Rightarrow> bytes \<Rightarrow> import_error + unit" where
  "verify_hmac M data expected_mac mac_key = ensure (hmac_sha256 M mac_key data = expected_mac) IeInvalidPassword"

definition decrypt_opdata01 :: "('y) import_env_scheme \<Rightarrow> bytes \<Rightarrow> bytes \<Rightarrow> bytes \<Rightarrow> import_error + bytes" where
  "decrypt_opdata01 M data key mac_key =
     (if length data < 80 then Inl (IeDecryptionFailed ''opdata01: data too short'')
      else let signed_end = length data - 32 in
      try_res (verify_hmac M (take signed_end data) (drop signed_end data) mac_key) (\<lambda>_.
        if take 8 data \<noteq> ''opdata01'' then Inl (IeDecryptionFailed ''opdata01: invalid header'')
        else let plain_len = le_nat (take 8 (drop 8 data));
                 iv = take 16 (drop 16 data);
                 ciphertext = drop 32 (take signed_end data) in
        if length ciphertext mod 16 \<noteq> 0 then Inl (IeDecryptionFailed ''opdata01: ciphertext not block-aligned'')
        else if length ciphertext < plain_len then Inl (IeDecryptionFailed ''opdata01: plaintext length exceeds ciphertext'')
        else let buf = aes256_cbc_decrypt M key iv ciphertext in Inr (drop (length buf - plain_len) buf)))"

definition decrypt_opdata01_b64 :: "('x) env_scheme \<Rightarrow> ('y) import_env_scheme \<Rightarrow> string \<Rightarrow> bytes \<Rightarrow> bytes \<Rightarrow> import_error + bytes" where
  "decrypt_opdata01_b64 E M b64 key mac_key =
     try_res (map_err (\<lambda>e. IeDecryptionFailed (''base64 decode: '' @ e)) (b64_decode E b64)) (\<lambda>data. decrypt_opdata01 M data key mac_key)"

definition decrypt_item_key :: "('y) import_env_scheme \<Rightarrow> bytes \<Rightarrow> key_pair \<Rightarrow> import_error + key_pair" where
  "decrypt_item_key M k_data master =
     (if length k_data \<noteq> 112 then Inl (IeDecryptionFailed (''item key: expected 112 bytes, got '' @ show_nat (length k_data)))
      else try_res (verify_hmac M (take 80 k_data) (drop 80 k_data) (kp_mac master)) (\<lambda>_.
        Inr (key_pair_of (aes256_cbc_decrypt M (kp_enc master) (take 16 k_data) (take 64 (drop 16 k_data))))))"

definition decrypt_item_key_b64 :: "('x) env_scheme \<Rightarrow> ('y) import_env_scheme \<Rightarrow> string \<Rightarrow> key_pair \<Rightarrow> import_error + key_pair" where
  "decrypt_item_key_b64 E M k_b64 master =
     try_res (map_err (\<lambda>e. IeDecryptionFailed (''item key base64: '' @ e)) (b64_decode E k_b64)) (\<lambda>k. decrypt_item_key M k master)"

text \<open>The master and the overview keys.\<close>

definition decrypt_keys_from_profile ::
  "('x) env_scheme \<Rightarrow> ('y) import_env_scheme \<Rightarrow> opvault_profile \<Rightarrow> bytes \<Rightarrow> import_error + key_pair \<times> key_pair" where
  "decrypt_keys_from_profile E M profile password =
     try_res (map_err (IeParseError ''opvault profile'') (resolve_lock profile)) (\<lambda>l.
     try_res (map_err (\<lambda>e. IeDecryptionFailed (''salt base64: '' @ e)) (b64_decode E (pk_salt l))) (\<lambda>salt.
     (let derived = derive_keys M password salt (pk_iterations l) in
     try_res (decrypt_opdata01_b64 E M (pk_master_key l) (kp_enc derived) (kp_mac derived)) (\<lambda>master_material.
     try_res (decrypt_opdata01_b64 E M (pk_overview_key l) (kp_enc derived) (kp_mac derived)) (\<lambda>overview_material.
     Inr (composite_key_from_material M master_material, composite_key_from_material M overview_material))))))"

section \<open>Items (opvault/parser.rs)\<close>

definition strip_js_wrapper :: "string \<Rightarrow> string \<Rightarrow> string" where
  "strip_js_wrapper content p = trim (strip_suffix_or_same (strip_prefix_or_same (trim content) p) '';'')"

definition strip_ld_wrapper :: "string \<Rightarrow> string" where
  "strip_ld_wrapper content =
     trim (strip_suffix_or_same (strip_suffix_or_same (strip_prefix_or_same (trim content) ''ld('') '';'') '')'')"

text \<open>A value as its text; a value that is not a string is printed as JSON.\<close>

definition value_text :: "('x) crypto_env_scheme \<Rightarrow> json \<Rightarrow> string" where
  "value_text E v = (case v of JStr s \<Rightarrow> s | other \<Rightarrow> (case json_print E other of Inr s \<Rightarrow> s | Inl _ \<Rightarrow> []))"

text \<open>
  A field of a section: a user name, password or address the item does not have yet, or a line of the notes.
  The fields found in the sections are added after all of them were read, so the last one counts.
\<close>

definition section_field ::
  "('x) crypto_env_scheme \<Rightarrow> field_map \<Rightarrow> opvault_section_field \<Rightarrow> field_map \<times> string list \<Rightarrow> field_map \<times> string list" where
  "section_field E flds sf acc = (case (sf_n sf, sf_v sf) of
     (Some n, Some v) \<Rightarrow>
       (let s = value_text E v in
        if s = [] then acc
        else if n \<in> {''username'', ''password'', ''url''} \<and> map_of flds n = None then (AList.update n s (fst acc), snd acc)
        else if starts_with n ''TOTP_'' then (fst acc, snd acc @ [''TOTP: '' @ s])
        else (case sf_t sf of Some t \<Rightarrow> (fst acc, snd acc @ [t @ '': '' @ s]) | None \<Rightarrow> acc))
   | _ \<Rightarrow> acc)"

definition item_from_band ::
  "('x) crypto_env_scheme \<Rightarrow> band_item \<Rightarrow> opvault_overview \<Rightarrow> opvault_details \<Rightarrow> parsed_item" where
  "item_from_band E entry overview details =
     (let url = (case ov_urls overview of u # _ \<Rightarrow> u | [] \<Rightarrow> opt_or_empty (ov_url overview));
          username = designated ''username'' (dt_fields details);
          p = designated ''password'' (dt_fields details);
          password = (if p = [] then opt_or_empty (dt_password details) else p);
          base = [(''name'', ov_title overview)] @ unless_empty ''url'' url @ unless_empty ''username'' username @ unless_empty ''password'' password;
          plain = (case dt_notes_plain details of Some n \<Rightarrow> if n = [] then [] else [n] | None \<Rightarrow> []);
          (found, notes) = fold (section_field E base) (concat (dt_sections details)) ([], plain)
      in \<lparr> pi_source_id = bd_uuid entry, pi_fields = base @ found @ unless_empty ''notes'' (join_with newline notes),
           pi_tags = ov_tags overview \<rparr>)"

definition decode_json :: "('x) crypto_env_scheme \<Rightarrow> string \<Rightarrow> 'a decoder \<Rightarrow> string \<Rightarrow> import_error + 'a" where
  "decode_json E what d text = map_err (IeParseError what) (try_res (json_parse E text) d)"

definition decode_slice :: "('x) crypto_env_scheme \<Rightarrow> string \<Rightarrow> 'a decoder \<Rightarrow> bytes \<Rightarrow> import_error + 'a" where
  "decode_slice E what d data = map_err (IeParseError what) (try_res (from_utf8 data) (\<lambda>text. try_res (json_parse E text) d))"

text \<open>All parts of an entry are decrypted before its category is looked at.\<close>

definition parse_entry ::
  "('x) crypto_env_scheme \<Rightarrow> ('y) import_env_scheme \<Rightarrow> key_pair \<times> key_pair \<Rightarrow> band_item \<Rightarrow> import_error + parsed_item option" where
  "parse_entry E M ks entry = (case ks of (master, ov) \<Rightarrow>
     try_res (decrypt_opdata01_b64 E M (bd_overview entry) (kp_enc ov) (kp_mac ov)) (\<lambda>overview_json.
     try_res (decode_slice E ''opvault overview'' d_opvault_overview overview_json) (\<lambda>overview.
     try_res (decrypt_item_key_b64 E M (bd_key entry) master) (\<lambda>item_key.
     try_res (decrypt_opdata01_b64 E M (bd_details entry) (kp_enc item_key) (kp_mac item_key)) (\<lambda>detail_json.
     try_res (decode_slice E ''opvault detail'' d_opvault_details detail_json) (\<lambda>details.
     Inr (if bd_category entry \<in> {''001'', ''003'', ''005'', ''110''} then Some (item_from_band E entry overview details) else None)))))))"

definition d_band :: "(string \<times> band_item) list decoder" where
  "d_band j = (case j of
     JObj kvs \<Rightarrow> try_res (map_res (\<lambda>(k, v). try_res (d_band_item v) (\<lambda>b. Inr (k, b))) kvs) (\<lambda>es. Inr (fold (\<lambda>(k, b). AList.update k b) es []))
   | _ \<Rightarrow> Inl ''invalid type: expected a map'')"

definition parse_band_file ::
  "('x) crypto_env_scheme \<Rightarrow> ('y) import_env_scheme \<Rightarrow> ('w, 'z) fs_ops_scheme \<Rightarrow> key_pair \<times> key_pair \<Rightarrow> string \<Rightarrow> ('w, import_error, parsed_item list) io" where
  "parse_band_file E M K ks path =
     io_bind (read_text K path) (\<lambda>content.
     io_lift (try_res (decode_json E ''opvault band'' d_band (strip_ld_wrapper content)) (\<lambda>entries.
       try_res (map_res (parse_entry E M ks) (filter (\<lambda>b. \<not> bd_trashed b) (map snd entries))) (\<lambda>items.
       Inr (List.map_filter id items)))))"

definition read_profile ::
  "('x) crypto_env_scheme \<Rightarrow> ('w, 'z) fs_ops_scheme \<Rightarrow> string \<Rightarrow> ('w, import_error, opvault_profile) io" where
  "read_profile E K default_dir =
     io_bind (read_text K (path_join default_dir ''profile.js'')) (\<lambda>content.
     io_lift (decode_json E ''opvault profile'' d_profile (strip_js_wrapper content ''var profile='')))"

fun parse_bands ::
  "('x) crypto_env_scheme \<Rightarrow> ('y) import_env_scheme \<Rightarrow> ('w, 'z) fs_ops_scheme \<Rightarrow> string \<Rightarrow> key_pair \<times> key_pair
     \<Rightarrow> (string + string) list \<Rightarrow> ('w, import_error, parsed_item list) io" where
  "parse_bands E M K default_dir ks [] = io_return []"
| "parse_bands E M K default_dir ks (Inl e # es) = io_lift (Inl (IeFileReadError default_dir e))"
| "parse_bands E M K default_dir ks (Inr p # es) =
     io_bind (parse_band_file E M K ks p) (\<lambda>items. io_bind (parse_bands E M K default_dir ks es) (\<lambda>rest. io_return (items @ rest)))"

definition parse_opvault ::
  "('x) crypto_env_scheme \<Rightarrow> ('y) import_env_scheme \<Rightarrow> ('w, 'z) fs_ops_scheme \<Rightarrow> ('w, 'v) file_ops_scheme \<Rightarrow> string \<Rightarrow> string option
     \<Rightarrow> ('w, import_error, parsed_item list) io" where
  "parse_opvault E M K F path password =
     io_bind (io_lift (ok_or IePasswordRequired password)) (\<lambda>pw.
     (let default_dir = path_join path ''default'' in
     io_bind (io_test (fo_is_dir F default_dir)) (\<lambda>is_dir.
     io_bind (io_lift (ensure is_dir (IeInvalidFormat ''expected .opvault/default/ directory''))) (\<lambda>_.
     io_bind (read_profile E K default_dir) (\<lambda>profile.
     io_bind (io_lift (decrypt_keys_from_profile E M profile pw)) (\<lambda>ks.
     io_bind (io_map_err (\<lambda>e. IeParseError ''opvault'' (''glob band files: '' @ e)) (fo_glob F (path_join default_dir ''band_*.js''))) (\<lambda>entries.
     parse_bands E M K default_dir ks entries)))))))"

definition validate_opvault ::
  "('w, 'z) fs_ops_scheme \<Rightarrow> ('w, 'v) file_ops_scheme \<Rightarrow> string \<Rightarrow> ('w, import_error, unit) io" where
  "validate_opvault K F path = (let default_dir = path_join path ''default'' in
     io_bind (io_test (fs_exists K path)) (\<lambda>found.
     io_bind (io_lift (ensure found (IeFileNotFound path))) (\<lambda>_.
     io_bind (io_test (fo_is_dir F path)) (\<lambda>d.
     io_bind (io_lift (ensure d (IeInvalidFormat ''expected .opvault directory''))) (\<lambda>_.
     io_bind (io_test (fo_is_dir F default_dir)) (\<lambda>d.
     io_bind (io_lift (ensure d (IeInvalidFormat ''expected .opvault/default/ directory''))) (\<lambda>_.
     io_bind (io_test (fs_exists K (path_join default_dir ''profile.js''))) (\<lambda>found.
     io_lift (ensure found (IeInvalidFormat ''expected .opvault/default/profile.js''))))))))))"

section \<open>The registry (services/import_export/parser.rs)\<close>

datatype format_parser = CsvParser | BitwardenParser | KeePassParser | OnePuxParser | OpVaultParser | OkbParser

definition parser_format :: "format_parser \<Rightarrow> import_source" where
  "parser_format p = (case p of
     CsvParser \<Rightarrow> CsvSource | BitwardenParser \<Rightarrow> BitwardenSource | KeePassParser \<Rightarrow> KeePass
   | OnePuxParser \<Rightarrow> OnePassword1pux | OpVaultParser \<Rightarrow> OnePasswordOpvault | OkbParser \<Rightarrow> OpenKeyringBackup)"

definition requires_password :: "format_parser \<Rightarrow> bool" where
  "requires_password p \<longleftrightarrow> p = OpVaultParser \<or> p = OkbParser"

definition validate_file ::
  "('w, 'z) fs_ops_scheme \<Rightarrow> ('w, 'v) file_ops_scheme \<Rightarrow> format_parser \<Rightarrow> string \<Rightarrow> ('w, import_error, unit) io" where
  "validate_file K F p path = (case p of
     CsvParser \<Rightarrow> validate_file_common K F path ''csv''
   | BitwardenParser \<Rightarrow> validate_file_common K F path ''json''
   | KeePassParser \<Rightarrow> validate_file_common K F path ''kdbx''
   | OnePuxParser \<Rightarrow> validate_file_common K F path ''1pux''
   | OpVaultParser \<Rightarrow> validate_opvault K F path
   | OkbParser \<Rightarrow> validate_file_common K F path ''okb'')"

definition parser_parse ::
  "('x) keystore_env_scheme \<Rightarrow> ('y) import_env_scheme \<Rightarrow> ('w, 'z) fs_ops_scheme \<Rightarrow> ('w, 'v) file_ops_scheme \<Rightarrow> format_parser
     \<Rightarrow> string \<Rightarrow> string option \<Rightarrow> csv_column_mapping option \<Rightarrow> ('w, import_error, parsed_item list) io" where
  "parser_parse E M K F p path password mapping = (case p of
     CsvParser \<Rightarrow> csv_parse M F path mapping
   | BitwardenParser \<Rightarrow> bitwarden_parse E K path
   | KeePassParser \<Rightarrow> keepass_parse M F path password
   | OnePuxParser \<Rightarrow> onepux_parse E M F path
   | OpVaultParser \<Rightarrow> parse_opvault E M K F path password
   | OkbParser \<Rightarrow> okb_parse E F path password)"

definition registry_register :: "format_parser \<Rightarrow> (import_source \<times> format_parser) list \<Rightarrow> (import_source \<times> format_parser) list" where
  "registry_register p r = AList.update (parser_format p) p r"

definition registry_get :: "(import_source \<times> format_parser) list \<Rightarrow> import_source \<Rightarrow> format_parser option" where
  "registry_get r s = map_of r s"

end
