(* ===== verification/Export.thy ===== *)
theory Export
  imports Import_Opvault
begin

text \<open>
  Writing an export (\<open>services/import_export/export.rs\<close>): the encrypted backup, which the parser of theory
  \<open>Import_Parsers\<close> reads, and the CSV file.
\<close>

section \<open>Records\<close>

text \<open>\<open>ExportRecord\<close> has the fields of the record the parser of backups reads.\<close>

type_synonym export_record = okb_record

record export_payload =
  ep_version :: string
  ep_vault_id :: string
  ep_exported_at :: string
  ep_records :: "export_record list"

text \<open>The derived \<open>Serialize\<close>: a field that is \<open>None\<close> is left out.\<close>

definition opt_entry :: "string \<Rightarrow> string option \<Rightarrow> (string \<times> json) list" where
  "opt_entry k v = (case v of Some s \<Rightarrow> [(k, JStr s)] | None \<Rightarrow> [])"

definition export_record_to_json :: "export_record \<Rightarrow> json" where
  "export_record_to_json r = JObj
     ([(''id'', JStr (ok_id r)), (''credential_type'', JStr (ok_credential_type r)), (''name'', JStr (ok_name r))]
      @ opt_entry ''username'' (ok_username r) @ opt_entry ''password'' (ok_password r) @ opt_entry ''url'' (ok_url r)
      @ opt_entry ''notes'' (ok_notes r)
      @ (case ok_tags r of Some t \<Rightarrow> [(''tags'', JArr (map JStr t))] | None \<Rightarrow> [])
      @ (case ok_is_favorite r of Some b \<Rightarrow> [(''is_favorite'', JBool b)] | None \<Rightarrow> [])
      @ opt_entry ''expires_at'' (ok_expires_at r) @ opt_entry ''public_key'' (ok_public_key r)
      @ opt_entry ''private_key'' (ok_private_key r) @ opt_entry ''passphrase'' (ok_passphrase r)
      @ opt_entry ''app_id'' (ok_app_id r) @ opt_entry ''secret_key'' (ok_secret_key r))"

definition export_payload_to_json :: "export_payload \<Rightarrow> json" where
  "export_payload_to_json p = JObj
     [(''version'', JStr (ep_version p)), (''vault_id'', JStr (ep_vault_id p)), (''exported_at'', JStr (ep_exported_at p)),
      (''records'', JArr (map export_record_to_json (ep_records p)))]"

section \<open>Checks\<close>

definition validate_export_password :: "string \<Rightarrow> import_error + unit" where
  "validate_export_password password = ensure (8 \<le> length password) IeInvalidPassword"

text \<open>The extension and the directory; an empty parent is the current directory.\<close>

definition validate_path :: "('w, 'y) fs_ops_scheme \<Rightarrow> string \<Rightarrow> string \<Rightarrow> ('w, import_error, unit) io" where
  "validate_path K ext path =
     (if path_extension path \<noteq> Some ext then io_lift (Inl (IeInvalidFormat (''output file must have .'' @ ext @ '' extension'')))
      else (case path_parent path of
        None \<Rightarrow> io_lift (Inl (IeFileWriteError path ''cannot determine parent directory''))
      | Some [] \<Rightarrow> io_return ()
      | Some parent \<Rightarrow> io_bind (io_test (fs_exists K parent)) (\<lambda>found.
          io_lift (ensure found (IeFileWriteError path ''parent directory does not exist'')))))"

definition validate_export_path :: "('w, 'y) fs_ops_scheme \<Rightarrow> string \<Rightarrow> ('w, import_error, unit) io" where
  "validate_export_path K = validate_path K ''okb''"

definition validate_export_csv_path :: "('w, 'y) fs_ops_scheme \<Rightarrow> string \<Rightarrow> ('w, import_error, unit) io" where
  "validate_export_csv_path K = validate_path K ''csv''"

section \<open>Writing\<close>

definition le_bytes32 :: "u32 \<Rightarrow> bytes" where
  "le_bytes32 w = map (\<lambda>i. char_of (unat w div 256 ^ i mod 256)) [0 ..< 4]"

text \<open>The temporary file is written and renamed.\<close>

definition write_atomically :: "('w, 'y) fs_ops_scheme \<Rightarrow> string \<Rightarrow> string \<Rightarrow> bytes \<Rightarrow> ('w, import_error, nat) io" where
  "write_atomically K output_path tmp_path buf =
     io_bind (io_map_err (IeFileWriteError tmp_path) (fs_write K tmp_path buf)) (\<lambda>_.
     io_bind (io_map_err (\<lambda>e. IeFileWriteError output_path (''atomic rename failed: '' @ e)) (fs_rename K tmp_path output_path)) (\<lambda>_.
     io_return (length buf)))"

definition encrypt_and_write_okb ::
  "('x) keystore_env_scheme \<Rightarrow> ('w, 'y) keystore_ops_scheme \<Rightarrow> export_payload \<Rightarrow> string \<Rightarrow> string \<Rightarrow> ('w, import_error, nat) io" where
  "encrypt_and_write_okb E K payload password output_path =
     io_bind (io_lift (map_err (\<lambda>e. IeInternalError (''failed to serialize export payload: '' @ e))
       (json_print E (export_payload_to_json payload)))) (\<lambda>json_bytes.
     io_bind (io_draw (ko_salt K)) (\<lambda>salt.
     io_bind (io_lift (map_err IeKeyDerivationFailed (derive_key_locked E password salt argon2_medium))) (\<lambda>dek.
     io_bind (io_draw (ko_nonce K)) (\<lambda>nonce.
     io_bind (io_lift (map_err IeEncryptionFailed (ok_or ''aead::Error'' (aead_seal E dek nonce [] json_bytes)))) (\<lambda>ciphertext.
     write_atomically K output_path (path_with_extension output_path ''okb.tmp'')
       (le_bytes32 OKB_VERSION @ salt @ nonce @ ciphertext))))))"

definition csv_header :: "string list" where
  "csv_header = [''id'', ''credential_type'', ''name'', ''username'', ''password'', ''url'', ''notes'', ''tags'', ''is_favorite'',
     ''expires_at'', ''public_key'', ''private_key'', ''passphrase'', ''app_id'', ''secret_key'']"

definition csv_record :: "export_record \<Rightarrow> string list" where
  "csv_record r =
     [ok_id r, ok_credential_type r, ok_name r, opt_or_empty (ok_username r), opt_or_empty (ok_password r), opt_or_empty (ok_url r),
      opt_or_empty (ok_notes r), (case ok_tags r of Some t \<Rightarrow> join_with '';'' t | None \<Rightarrow> []),
      (case ok_is_favorite r of Some b \<Rightarrow> if b then ''true'' else ''false'' | None \<Rightarrow> []),
      opt_or_empty (ok_expires_at r), opt_or_empty (ok_public_key r), opt_or_empty (ok_private_key r),
      opt_or_empty (ok_passphrase r), opt_or_empty (ok_app_id r), opt_or_empty (ok_secret_key r)]"

definition csv_text :: "('y) import_env_scheme \<Rightarrow> string \<Rightarrow> export_record list \<Rightarrow> import_error + bytes" where
  "csv_text M output_path records =
     try_res (map_err (\<lambda>e. IeFileWriteError output_path (''failed to write CSV header: '' @ e)) (csv_row M csv_header)) (\<lambda>header.
     try_res (map_res (\<lambda>r. map_err (\<lambda>e. IeFileWriteError output_path (''failed to write CSV record: '' @ e)) (csv_row M (csv_record r))) records) (\<lambda>rows.
     Inr ([char_of (0xEF :: nat), char_of (0xBB :: nat), char_of (0xBF :: nat)] @ header @ concat rows)))"

definition write_csv ::
  "('y) import_env_scheme \<Rightarrow> ('w, 'z) fs_ops_scheme \<Rightarrow> export_payload \<Rightarrow> string \<Rightarrow> ('w, import_error, nat) io" where
  "write_csv M K payload output_path =
     io_bind (io_lift (csv_text M output_path (ep_records payload))) (\<lambda>buf.
     write_atomically K output_path (path_with_extension output_path ''csv.tmp'') buf)"

end
