(* ===== verification/Import_Service.thy ===== *)
theory Import_Service
  imports Import_Mapping Export
begin

text \<open>
  The import and export service (\<open>services/import_export/service.rs\<close>): its sessions and their life. The
  service keeps its sessions beside the world the parsers read. Times that are only stored and the reports of
  progress are left out of the results.
\<close>

section \<open>The service\<close>

record import_service =
  sv_import_sessions :: "(uuid \<times> import_session) list"
  sv_export_sessions :: "(uuid \<times> export_session) list"
  sv_parsers :: "(import_source \<times> format_parser) list"

definition import_service_new :: import_service where
  "import_service_new = \<lparr> sv_import_sessions = [], sv_export_sessions = [],
     sv_parsers = fold registry_register [CsvParser, BitwardenParser, KeePassParser, OnePuxParser, OpVaultParser, OkbParser] [] \<rparr>"

text \<open>Methods act on the service and the world.\<close>

type_synonym ('w, 'a) service_method = "(import_service \<times> 'w, import_error, 'a) io"

definition on_file_world :: "('w, import_error, 'a) io \<Rightarrow> ('w, 'a) service_method" where
  "on_file_world m s = (case m (snd s) of (r, w) \<Rightarrow> (r, (fst s, w)))"

definition import_session_of :: "uuid \<Rightarrow> ('w, import_session) service_method" where
  "import_session_of sid s = (ok_or (IeSessionNotFound sid) (map_of (sv_import_sessions (fst s)) sid), s)"

definition put_import_session :: "uuid \<Rightarrow> import_session \<Rightarrow> ('w, unit) service_method" where
  "put_import_session sid session s =
     (Inr (), ((fst s)\<lparr>sv_import_sessions := AList.update sid session (sv_import_sessions (fst s))\<rparr>, snd s))"

definition set_import_status :: "uuid \<Rightarrow> import_session_status \<Rightarrow> ('w, unit) service_method" where
  "set_import_status sid status =
     io_bind (import_session_of sid) (\<lambda>session. put_import_session sid (session\<lparr>is_status := status\<rparr>))"

definition export_session_of :: "uuid \<Rightarrow> ('w, export_session) service_method" where
  "export_session_of sid s = (ok_or (IeSessionNotFound sid) (map_of (sv_export_sessions (fst s)) sid), s)"

definition put_export_session :: "uuid \<Rightarrow> export_session \<Rightarrow> ('w, unit) service_method" where
  "put_export_session sid session s =
     (Inr (), ((fst s)\<lparr>sv_export_sessions := AList.update sid session (sv_export_sessions (fst s))\<rparr>, snd s))"

definition set_export_status :: "uuid \<Rightarrow> export_session_status \<Rightarrow> ('w, unit) service_method" where
  "set_export_status sid status =
     io_bind (export_session_of sid) (\<lambda>session. put_export_session sid (session\<lparr>es_status := status\<rparr>))"

section \<open>Imports\<close>

definition create_import_session ::
  "('w, 'y) keystore_ops_scheme \<Rightarrow> import_source \<Rightarrow> string \<Rightarrow> string option \<Rightarrow> csv_column_mapping option \<Rightarrow> bool \<Rightarrow> ('w, uuid) service_method" where
  "create_import_session K s file_path decrypt_password mapping import_as_notes =
     io_bind (on_file_world (io_draw (ko_uuid K))) (\<lambda>sid.
     io_bind (on_file_world (io_draw (ko_now K))) (\<lambda>now.
     io_bind (put_import_session sid \<lparr> is_source = s, is_file_path = file_path, is_decrypt_password = decrypt_password,
       is_csv_mapping = mapping, is_import_as_notes = import_as_notes, is_status = IsCreated, is_validation_result = None,
       is_mapped_records = [], is_failed_items = [], is_created_at = now \<rparr>) (\<lambda>_. io_return sid)))"

definition read_csv_headers :: "('y) import_env_scheme \<Rightarrow> ('w, 'z) file_ops_scheme \<Rightarrow> string \<Rightarrow> ('w, import_error, string list) io" where
  "read_csv_headers M F path =
     io_bind (read_import_file F path) (\<lambda>content.
     io_lift (case snd (csv_read M False content) of
        [] \<Rightarrow> Inr []
      | r # _ \<Rightarrow> map_err (IeFileReadError path) r))"

definition headers_or_none ::
  "('y) import_env_scheme \<Rightarrow> ('w, 'z) file_ops_scheme \<Rightarrow> import_source \<Rightarrow> string \<Rightarrow> ('w, import_error, string list) io" where
  "headers_or_none M F s path w =
     (if s = CsvSource then (case read_csv_headers M F path w of (Inr hs, w') \<Rightarrow> (Inr hs, w') | (Inl _, w') \<Rightarrow> (Inr [], w'))
      else (Inr [], w))"

fun map_items ::
  "('x) env_scheme \<Rightarrow> ('y) import_env_scheme \<Rightarrow> ('w, 'z) keystore_ops_scheme \<Rightarrow> import_source \<Rightarrow> parsed_item list \<Rightarrow> ('w, import_error, mapped_record list) io" where
  "map_items E M K s [] = io_return []"
| "map_items E M K s (item # items) =
     io_bind (io_draw (ko_uuid K)) (\<lambda>fresh. io_bind (map_items E M K s items) (\<lambda>rs. io_return (map_parsed_item E M fresh item s # rs)))"

definition preview_of :: "validation_result \<Rightarrow> string list \<Rightarrow> import_preview" where
  "preview_of vr headers = \<lparr> iv_importable = vr_importable vr, iv_needs_review = vr_needs_review vr, iv_failed = vr_failed vr,
     iv_review_items = vr_review_items vr, iv_failed_items = vr_failed_items vr, iv_csv_headers = headers \<rparr>"

text \<open>A failed parse marks the session as failed before it is reported.\<close>

definition parse_session ::
  "('x) keystore_env_scheme \<Rightarrow> ('y) import_env_scheme \<Rightarrow> ('w, 'z) keystore_ops_scheme \<Rightarrow> ('w, 'v) file_ops_scheme \<Rightarrow> uuid \<Rightarrow> import_session
     \<Rightarrow> ('w, parsed_item list) service_method" where
  "parse_session E M K F sid session s = (case registry_get (sv_parsers (fst s)) (is_source session) of
     None \<Rightarrow> (Inl (IeUnsupportedFormat (show_import_source (is_source session))), s)
   | Some p \<Rightarrow> (case on_file_world (parser_parse E M K F p (is_file_path session) (is_decrypt_password session) (is_csv_mapping session)) s of
       (Inr items, s1) \<Rightarrow> (Inr items, s1)
     | (Inl e, s1) \<Rightarrow> (Inl e, snd (set_import_status sid IsFailed s1))))"

definition validate_import_file ::
  "('x) keystore_env_scheme \<Rightarrow> ('y) import_env_scheme \<Rightarrow> ('w, 'z) keystore_ops_scheme \<Rightarrow> ('w, 'v) file_ops_scheme \<Rightarrow> uuid
     \<Rightarrow> ('w, import_preview) service_method" where
  "validate_import_file E M K F sid =
     io_bind (import_session_of sid) (\<lambda>session.
     io_bind (io_lift (ensure (is_status session = IsCreated) (IeInvalidSessionStatus ''Created'' (show_import_status (is_status session))))) (\<lambda>_.
     io_bind (set_import_status sid IsValidating) (\<lambda>_.
     io_bind (parse_session E M K F sid session) (\<lambda>items.
     (let summary = validate_items M items (get_rules_for_format (is_source session)) in
     io_bind (on_file_world (map_items E M K (is_source session) items)) (\<lambda>mapped.
     io_bind (on_file_world (headers_or_none M F (is_source session) (is_file_path session))) (\<lambda>headers.
     io_bind (import_session_of sid) (\<lambda>session.
     io_bind (put_import_session sid (session\<lparr>is_status := IsValidated, is_validation_result := Some summary, is_mapped_records := mapped\<rparr>)) (\<lambda>_.
     io_return (preview_of summary headers))))))))))"

definition get_import_preview ::
  "('y) import_env_scheme \<Rightarrow> ('w, 'v) file_ops_scheme \<Rightarrow> uuid \<Rightarrow> ('w, import_preview) service_method" where
  "get_import_preview M F sid =
     io_bind (import_session_of sid) (\<lambda>session.
     io_bind (io_lift (ok_or (IeInvalidSessionStatus ''Validated'' (show_import_status (is_status session))) (is_validation_result session))) (\<lambda>vr.
     io_bind (on_file_world (headers_or_none M F (is_source session) (is_file_path session))) (\<lambda>headers.
     io_return (preview_of vr headers))))"

record importable_record =
  im_credential_type :: credential_type
  im_fields :: field_map
  im_tags :: "string list"
  im_is_review :: bool

definition review_record :: "uuid \<Rightarrow> review_item \<Rightarrow> mapped_record" where
  "review_record fresh item =
     \<lparr> mr_id = fresh, mr_credential_type = Login, mr_fields = [(''name'', ri_name item)], mr_tags = [], mr_is_favorite = False,
       mr_expires_at = None, mr_source_item_id = ri_name item, mr_notes = Some (''[Imported as notes] '' @ ri_reason item), mr_is_duplicate = False \<rparr>"

fun review_records :: "('w, 'z) keystore_ops_scheme \<Rightarrow> review_item list \<Rightarrow> ('w, import_error, mapped_record list) io" where
  "review_records K [] = io_return []"
| "review_records K (item # items) =
     io_bind (io_draw (ko_uuid K)) (\<lambda>fresh. io_bind (review_records K items) (\<lambda>rs. io_return (review_record fresh item # rs)))"

definition importable :: "bool \<Rightarrow> mapped_record \<Rightarrow> importable_record" where
  "importable is_review r = \<lparr> im_credential_type = mr_credential_type r, im_fields = mr_fields r, im_tags = mr_tags r, im_is_review = is_review \<rparr>"

text \<open>The item under which a record is looked for among the existing ones.\<close>

definition dup_item :: "mapped_record \<Rightarrow> parsed_item" where
  "dup_item r = \<lparr> pi_source_id = mr_source_item_id r,
     pi_fields = AList.update ''credential_type'' (cred_to_db_str (mr_credential_type r)) (mr_fields r), pi_tags = mr_tags r \<rparr>"

text \<open>One record: refused by the validation, a duplicate, or imported. Missing flags count as passed and new.\<close>

definition import_record ::
  "bool list \<Rightarrow> bool list \<Rightarrow> nat \<times> mapped_record \<Rightarrow> import_result \<times> importable_record list \<Rightarrow> import_result \<times> importable_record list" where
  "import_record item_passed dup_flags = (\<lambda>(i, r) (res, out).
     if i < length item_passed \<and> \<not> item_passed ! i then (res\<lparr>ir_validation_failed := ir_validation_failed res + 1\<rparr>, out)
     else if i < length dup_flags \<and> dup_flags ! i then (res\<lparr>ir_skipped := ir_skipped res + 1\<rparr>, out)
     else (res\<lparr>ir_imported := ir_imported res + 1\<rparr>, out @ [importable False r]))"

definition execute_import ::
  "('y) import_env_scheme \<Rightarrow> ('w, 'z) keystore_ops_scheme \<Rightarrow> uuid \<Rightarrow> existing_record_key list \<Rightarrow> bool
     \<Rightarrow> ('w, import_result \<times> importable_record list) service_method" where
  "execute_import M K sid existing_keys import_as_notes =
     io_bind (import_session_of sid) (\<lambda>session.
     io_bind (io_lift (ensure (is_status session = IsValidated) (IeInvalidSessionStatus ''Validated'' (show_import_status (is_status session))))) (\<lambda>_.
     (let records = is_mapped_records session;
          item_passed = (case is_validation_result session of Some vr \<Rightarrow> vr_item_passed vr | None \<Rightarrow> []);
          review_items = (case is_validation_result session of Some vr \<Rightarrow> if import_as_notes then vr_review_items vr else [] | None \<Rightarrow> []) in
     io_bind (put_import_session sid (session\<lparr>is_status := IsImporting, is_mapped_records := []\<rparr>)) (\<lambda>_.
     io_bind (on_file_world (review_records K review_items)) (\<lambda>reviews.
     (let dup_flags = detect_duplicates M (map dup_item records) existing_keys;
          (res, out) = fold (import_record item_passed dup_flags) (enumerate 0 records)
            (\<lparr> ir_imported = 0, ir_reviewed = 0, ir_skipped = 0, ir_failed = 0, ir_validation_failed = 0 \<rparr>, []) in
     io_bind (set_import_status sid IsCompleted) (\<lambda>_.
     io_return (res\<lparr>ir_reviewed := length reviews\<rparr>, out @ map (importable True) reviews))))))))"

definition cancel_import :: "uuid \<Rightarrow> ('w, unit) service_method" where
  "cancel_import sid = set_import_status sid IsCancelled"

definition cleanup_session :: "uuid \<Rightarrow> ('w, unit) service_method" where
  "cleanup_session sid = io_bind (import_session_of sid) (\<lambda>_ s.
     (Inr (), ((fst s)\<lparr>sv_import_sessions := AList.delete sid (sv_import_sessions (fst s))\<rparr>, snd s)))"

definition import_session_status_of :: "import_service \<Rightarrow> uuid \<Rightarrow> import_session_status option" where
  "import_session_status_of s sid = map_option is_status (map_of (sv_import_sessions s) sid)"

section \<open>Exports\<close>

definition create_export_session ::
  "('w, 'z) keystore_ops_scheme \<Rightarrow> export_scope \<Rightarrow> export_format \<Rightarrow> string \<Rightarrow> string \<Rightarrow> ('w, uuid) service_method" where
  "create_export_session K scope format export_password output_path =
     io_bind (case format of
        FormatOkb \<Rightarrow> io_bind (io_lift (validate_export_password export_password)) (\<lambda>_. on_file_world (validate_export_path K output_path))
      | FormatCsv \<Rightarrow> on_file_world (validate_export_csv_path K output_path)) (\<lambda>_.
     io_bind (on_file_world (io_draw (ko_uuid K))) (\<lambda>sid.
     io_bind (on_file_world (io_draw (ko_now K))) (\<lambda>now.
     io_bind (put_export_session sid \<lparr> es_scope = scope, es_format = format, es_export_password = export_password,
       es_output_path = output_path, es_status = EsCreated, es_record_count = 0, es_encrypted_size = None, es_created_at = now,
       es_completed_at = None \<rparr>) (\<lambda>_. io_return sid))))"

text \<open>The collector has run: its records, or its error.\<close>

definition execute_export ::
  "('x) keystore_env_scheme \<Rightarrow> ('y) import_env_scheme \<Rightarrow> ('w, 'z) keystore_ops_scheme \<Rightarrow> uuid \<Rightarrow> string + export_record list \<Rightarrow> string
     \<Rightarrow> ('w, string \<times> nat) service_method" where
  "execute_export E M K sid collected vault_id =
     io_bind (export_session_of sid) (\<lambda>session.
     io_bind (io_lift (ensure (es_status session = EsCreated) (IeInvalidSessionStatus ''Created'' (show_export_status (es_status session))))) (\<lambda>_.
     io_bind (set_export_status sid EsExporting) (\<lambda>_.
     io_bind (io_lift (map_err IeVaultError collected)) (\<lambda>records.
     if records = [] then io_bind (set_export_status sid EsFailed) (\<lambda>_. io_lift (Inl (IeVaultError ''no records to export'')))
     else
       io_bind (on_file_world (io_draw (ko_now K))) (\<lambda>now.
       (let payload = \<lparr> ep_version = ''1.0'', ep_vault_id = vault_id, ep_exported_at = rfc3339_show E now, ep_records = records \<rparr>;
            path = es_output_path session in
       io_bind (on_file_world (case es_format session of
          FormatOkb \<Rightarrow> encrypt_and_write_okb E K payload (es_export_password session) path
        | FormatCsv \<Rightarrow> write_csv M K payload path)) (\<lambda>n.
       io_bind (on_file_world (io_draw (ko_now K))) (\<lambda>completed.
       io_bind (put_export_session sid (session\<lparr>es_status := EsCompleted, es_record_count := length records,
         es_encrypted_size := Some n, es_completed_at := Some completed\<rparr>)) (\<lambda>_.
       io_return (path, length records))))))))))"

definition cancel_export_session :: "uuid \<Rightarrow> ('w, unit) service_method" where
  "cancel_export_session sid = set_export_status sid EsFailed"

definition export_session_status_of :: "import_service \<Rightarrow> uuid \<Rightarrow> export_session_status option" where
  "export_session_status_of s sid = map_option es_status (map_of (sv_export_sessions s) sid)"

definition has_parser :: "import_service \<Rightarrow> import_source \<Rightarrow> bool" where
  "has_parser s src = (registry_get (sv_parsers s) src \<noteq> None)"

definition session_count :: "import_service \<Rightarrow> nat" where
  "session_count s = length (sv_import_sessions s)"

end
