(* ===== verification/Exec_Config.thy ===== *)
theory Exec_Config
  imports App_Config Vault_Audit Clipboard Exec_Vault Import_Service
begin

text \<open>
  The executor with its configuration, clipboard and timers: saving a configuration and what it changes at
  once (\<open>executor/config.rs\<close>, \<open>executor/config_impl/handler.rs\<close>), the clipboard commands
  (\<open>executor/clipboard.rs\<close>) and the timers of the loop (\<open>executor/timer.rs\<close>).
\<close>

section \<open>The whole executor\<close>

text \<open>The services that are told of a new configuration; the builder registers the clipboard.\<close>

datatype reloadable = ClipboardConfigAdapter

record ('w, 's, 'c) app =
  ap_ex :: "('w, 's) executor"
  ap_clip :: "'c clip_service"
  ap_config :: app_config
  ap_config_dir :: string
  ap_services :: "reloadable list"
  ap_imports :: import_service
  ap_timer_rebuild_pending :: bool
  ap_shutdown :: bool

text \<open>The results that carry a configuration, a part of the audit log, or the outcome of an import or export.\<close>

datatype app_result =
    Plain command_result
  | ConfigLoaded app_config
  | ConfigSaved app_config "string list"
  | SyncConnectionTested bool string
  | AuditLogLoaded "audit_entry list" nat
  | ImportValidated uuid import_preview
  | ImportCompleted nat nat nat nat "(skip_reason \<times> nat) list"
  | ExportCompleted string nat export_format
  | DatabaseRestoreNeedsOAuth
  | OAuth2Authorized string string "string option"
  | OAuth2Failed string string

definition on_executor ::
  "(('w, 's) executor \<Rightarrow> command_result \<times> ('w, 's) executor) \<Rightarrow> ('w, 's, 'c) app \<Rightarrow> app_result \<times> ('w, 's, 'c) app" where
  "on_executor f a = (case f (ap_ex a) of (r, x) \<Rightarrow> (Plain r, a\<lparr>ap_ex := x\<rparr>))"

section \<open>Notification of services (executor/config_impl/handler.rs)\<close>

definition service_id :: "reloadable \<Rightarrow> string" where
  "service_id s = (case s of ClipboardConfigAdapter \<Rightarrow> ''clipboard'')"

definition reload :: "reloadable \<Rightarrow> app_config \<Rightarrow> 'c clip_service \<Rightarrow> (config_error + unit) \<times> 'c clip_service" where
  "reload s config clip = (case s of
     ClipboardConfigAdapter \<Rightarrow> (Inr (), set_clear_timeout (gc_clipboard_clear_seconds (ac_general config)) clip))"

definition is_notified :: "string list \<Rightarrow> reloadable \<Rightarrow> bool" where
  "is_notified changed_fields s \<longleftrightarrow> changed_fields = [] \<or> service_id s \<in> set changed_fields"

fun notify_all :: "reloadable list \<Rightarrow> app_config \<Rightarrow> 'c clip_service \<Rightarrow> (config_error + unit) list \<times> 'c clip_service" where
  "notify_all [] config clip = ([], clip)"
| "notify_all (s # ss) config clip = (case reload s config clip of (r, clip1) \<Rightarrow>
     (case notify_all ss config clip1 of (rs, clip2) \<Rightarrow> (r # rs, clip2)))"

definition notify_config_change ::
  "reloadable list \<Rightarrow> app_config \<Rightarrow> string list \<Rightarrow> 'c clip_service \<Rightarrow> (config_error + unit) list \<times> 'c clip_service" where
  "notify_config_change services config changed_fields = notify_all (filter (is_notified changed_fields) services) config"

definition register_service :: "reloadable \<Rightarrow> reloadable list \<Rightarrow> reloadable list" where
  "register_service s services = services @ [s]"

definition unregister_service :: "string \<Rightarrow> reloadable list \<Rightarrow> reloadable list" where
  "unregister_service sid services = filter (\<lambda>s. service_id s \<noteq> sid) services"

section \<open>Saving a configuration (executor/config.rs)\<close>

definition detect_changed_fields :: "app_config \<Rightarrow> app_config \<Rightarrow> string list" where
  "detect_changed_fields old new =
     (if gc_language (ac_general old) \<noteq> gc_language (ac_general new) then [''general.language''] else [])
     @ (if gc_auto_lock_seconds (ac_general old) \<noteq> gc_auto_lock_seconds (ac_general new) then [''general.auto_lock_seconds''] else [])
     @ (if gc_clipboard_clear_seconds (ac_general old) \<noteq> gc_clipboard_clear_seconds (ac_general new)
        then [''general.clipboard_clear_seconds''] else [])
     @ (if sy_provider (ac_sync old) \<noteq> sy_provider (ac_sync new)
          \<or> sy_auto_interval_seconds (ac_sync old) \<noteq> sy_auto_interval_seconds (ac_sync new)
          \<or> sy_provider_config (ac_sync old) \<noteq> sy_provider_config (ac_sync new) then [''sync''] else [])
     @ (if sc_health_check_enabled (ac_security old) \<noteq> sc_health_check_enabled (ac_security new)
          \<or> sc_health_check_frequency (ac_security old) \<noteq> sc_health_check_frequency (ac_security new)
          \<or> sc_audit_enabled (ac_security old) \<noteq> sc_audit_enabled (ac_security new)
          \<or> sc_audit_retention_days (ac_security old) \<noteq> sc_audit_retention_days (ac_security new) then [''security''] else [])
     @ (if pd_length (ac_password old) \<noteq> pd_length (ac_password new)
          \<or> pd_include_digits (ac_password old) \<noteq> pd_include_digits (ac_password new)
          \<or> pd_include_uppercase (ac_password old) \<noteq> pd_include_uppercase (ac_password new)
          \<or> pd_include_special (ac_password old) \<noteq> pd_include_special (ac_password new) then [''password''] else [])"

text \<open>
  \<open>create_cloud_storage\<close> with the sync service on it is a parameter: it configures a third-party client.
\<close>

type_synonym 's storage_maker = "sync_config \<Rightarrow> sync_error + 's"

fun reload_warnings :: "(config_error + unit) list \<Rightarrow> string list" where
  "reload_warnings [] = []"
| "reload_warnings (Inl e # rs) = (''Service reload failed: '' @ redact_sensitive_values (config_error_to_string e)) # reload_warnings rs"
| "reload_warnings (Inr _ # rs) = reload_warnings rs"

definition apply_field ::
  "'s storage_maker \<Rightarrow> app_config \<Rightarrow> string \<Rightarrow> string list \<times> ('w, 's, 'c) app \<Rightarrow> string list \<times> ('w, 's, 'c) app" where
  "apply_field mk new_config field = (\<lambda>(warnings, a).
     if field = ''general.auto_lock_seconds'' then (warnings, a\<lparr>ap_timer_rebuild_pending := True\<rparr>)
     else if field = ''sync'' then
       (let a1 = a\<lparr>ap_timer_rebuild_pending := True\<rparr> in
        case mk (ac_sync new_config) of
          Inr sync \<Rightarrow> (warnings, a1\<lparr>ap_ex := (ap_ex a1)\<lparr>ex_sync := Some sync\<rparr>\<rparr>)
        | Inl e \<Rightarrow> (warnings @ [''Sync service rebuild failed: '' @ redact_sensitive_values (sync_error_to_string e)],
            a1\<lparr>ap_ex := (ap_ex a1)\<lparr>ex_sync := None\<rparr>\<rparr>))
     else (warnings, a))"

definition apply_config_changes ::
  "'s storage_maker \<Rightarrow> string list \<Rightarrow> app_config \<Rightarrow> ('w, 's, 'c) app \<Rightarrow> string list \<times> ('w, 's, 'c) app" where
  "apply_config_changes mk changed new_config a =
     (let (warnings, a1) =
        (if changed \<noteq> []
         then (case notify_config_change (ap_services a) new_config [] (ap_clip a) of (results, clip) \<Rightarrow>
            (reload_warnings results, a\<lparr>ap_clip := clip\<rparr>))
         else ([], a))
      in fold (apply_field mk new_config) changed (warnings, a1))"

text \<open>The manager keeps what it saved; the sections the handlers read are those of the same configuration.\<close>

definition set_config :: "app_config \<Rightarrow> ('w, 's, 'c) app \<Rightarrow> ('w, 's, 'c) app" where
  "set_config config a = a\<lparr>ap_config := config, ap_ex := (ap_ex a)\<lparr>ex_security := security_config.truncate (ac_security config)\<rparr>\<rparr>"

definition handle_load_config :: "('w, 's, 'c) app \<Rightarrow> app_result \<times> ('w, 's, 'c) app" where
  "handle_load_config a = (ConfigLoaded (ap_config a), a)"

definition handle_save_config ::
  "toml_env \<Rightarrow> ('w, 'y) keystore_ops_scheme \<Rightarrow> 's storage_maker \<Rightarrow> app_config \<Rightarrow> ('w, 's, 'c) app \<Rightarrow> app_result \<times> ('w, 's, 'c) app" where
  "handle_save_config M K mk config a =
     (let changed = detect_changed_fields (ap_config a) config in
      case on_ext_world (config_save M K config (ap_config_dir a)) (ap_ex a) of
        (Inr _, x) \<Rightarrow> (case apply_config_changes mk changed config (set_config config (a\<lparr>ap_ex := x\<rparr>)) of
           (warnings, a1) \<Rightarrow> (ConfigSaved config warnings, a1))
      | (Inl e, x) \<Rightarrow> (Plain (CommandError ConfigSaveFailed error_context_new ''error.config_save_failed''
           (''Failed to save config: '' @ config_error_to_string e)), a\<lparr>ap_ex := x\<rparr>))"

text \<open>
  A test of the connection; \<open>interrupted\<close> says whether the operation is cancelled before it ends. A given
  provider configuration is tested on a service of its own.
\<close>

definition connection_result :: "sync_error + bool \<times> string \<Rightarrow> app_result" where
  "connection_result r = (case r of
     Inr (success, message) \<Rightarrow> SyncConnectionTested success message
   | Inl (Cancelled _) \<Rightarrow> Plain (cancelled_result ''sync_connection_test'')
   | Inl e \<Rightarrow> SyncConnectionTested False (sync_error_to_string e))"

definition handle_test_sync_connection ::
  "('u, 'f, 'z) task_ops_scheme \<Rightarrow> (('u, 'f) sync_service) storage_maker \<Rightarrow> bool \<Rightarrow> provider_config option
     \<Rightarrow> ('w, ('u, 'f) sync_service, 'c) app \<Rightarrow> app_result \<times> ('w, ('u, 'f) sync_service, 'c) app" where
  "handle_test_sync_connection T mk interrupted given a =
     (if ex_cancelled (ap_ex a) then (Plain (cancelled_result ''sync_connection_test''), a)
      else case given of
        Some pc \<Rightarrow> (case mk ((ac_sync (ap_config a))\<lparr>sy_provider_config := Some pc\<rparr>) of
           Inr s \<Rightarrow> ((if interrupted then Plain (cancelled_result ''sync_connection_test'') else connection_result (fst (test_connection T s))), a)
         | Inl e \<Rightarrow> (SyncConnectionTested False (sync_error_to_string e), a))
      | None \<Rightarrow> (case ex_sync (ap_ex a) of
           None \<Rightarrow> (Plain sync_not_configured, a)
         | Some s \<Rightarrow> if interrupted then (Plain (cancelled_result ''sync_connection_test''), a)
             else (case with_sync (test_connection T) s (ap_ex a) of (r, x) \<Rightarrow> (connection_result r, a\<lparr>ap_ex := x\<rparr>))))"

definition handle_load_audit_log ::
  "('x) rotation_env_scheme \<Rightarrow> ('w, 'y) vault_ops_scheme \<Rightarrow> audit_filter \<Rightarrow> ('w, 's, 'c) app \<Rightarrow> app_result \<times> ('w, 's, 'c) app" where
  "handle_load_audit_log E C flt a = (case with_vault (\<lambda>_. query_audit_log C flt) (ap_ex a) of
     (Inr (entries, n), x) \<Rightarrow> (AuditLogLoaded entries n, a\<lparr>ap_ex := x\<rparr>)
   | (Inl e, x) \<Rightarrow> (Plain (CommandError (vault_error_code E e) (vault_error_context E e) ''error.audit_log_failed''
        (''Failed to load audit log: '' @ vault_error_to_string E e)), a\<lparr>ap_ex := x\<rparr>))"

section \<open>Clipboard commands (executor/clipboard.rs)\<close>

definition copied_or_failed ::
  "('x) env_scheme \<Rightarrow> ('c, 'b) clip_ops_scheme \<Rightarrow> string \<Rightarrow> (u64 \<Rightarrow> command_result) \<Rightarrow> ('w, 's, 'c) app \<Rightarrow> app_result \<times> ('w, 's, 'c) app" where
  "copied_or_failed E B s done a = (case clip_copy E B s (ap_clip a) of
     (Inr clear_after, clip) \<Rightarrow> (Plain (done clear_after), a\<lparr>ap_clip := clip\<rparr>)
   | (Inl e, clip) \<Rightarrow> (Plain (CommandError (clipboard_error_code e) (clipboard_error_context e) ''error.clipboard_copy_failed''
        (''Failed to copy to clipboard: '' @ clipboard_error_to_string e)), a\<lparr>ap_clip := clip\<rparr>))"

definition handle_copy_to_clipboard ::
  "('x) rotation_env_scheme \<Rightarrow> ('w, 'y) vault_ops_scheme \<Rightarrow> ('c, 'b) clip_ops_scheme \<Rightarrow> uuid \<Rightarrow> field_selector
     \<Rightarrow> ('w, 's, 'c) app \<Rightarrow> app_result \<times> ('w, 's, 'c) app" where
  "handle_copy_to_clipboard E C B rid field a = (case with_vault (\<lambda>S. decrypt_field_for_copy E C S rid field) (ap_ex a) of
     (Inl e, x) \<Rightarrow> (Plain (CommandError CryptoDecryptionFailed error_context_new ''error.decrypt_field_failed''
        (''Failed to decrypt field: '' @ vault_error_to_string E e)), a\<lparr>ap_ex := x\<rparr>)
   | (Inr plaintext, x) \<Rightarrow> copied_or_failed E B plaintext (CopiedToClipboard field) (a\<lparr>ap_ex := x\<rparr>))"

definition handle_copy_raw_to_clipboard ::
  "('x) env_scheme \<Rightarrow> ('c, 'b) clip_ops_scheme \<Rightarrow> string \<Rightarrow> ('w, 's, 'c) app \<Rightarrow> app_result \<times> ('w, 's, 'c) app" where
  "handle_copy_raw_to_clipboard E B s = copied_or_failed E B s (CopiedToClipboard SelPassword)"

definition handle_copy_history_password ::
  "('x) rotation_env_scheme \<Rightarrow> ('w, 'y) vault_ops_scheme \<Rightarrow> ('c, 'b) clip_ops_scheme \<Rightarrow> int \<Rightarrow> ('w, 's, 'c) app \<Rightarrow> app_result \<times> ('w, 's, 'c) app" where
  "handle_copy_history_password E C B hid a = (case with_vault (\<lambda>S. decrypt_history_password E C S hid) (ap_ex a) of
     (Inl e, x) \<Rightarrow> (Plain (CommandError CryptoDecryptionFailed error_context_new ''error.decrypt_history_failed''
        (''Failed to decrypt history password: '' @ vault_error_to_string E e)), a\<lparr>ap_ex := x\<rparr>)
   | (Inr plaintext, x) \<Rightarrow> copied_or_failed E B plaintext HistoryPasswordCopied (a\<lparr>ap_ex := x\<rparr>))"

section \<open>Timers (executor/timer.rs)\<close>

text \<open>
  The intervals of the runtime are a parameter: a new one, the reset that makes it due a period from now, the
  tick that is taken, and the time at which the next tick is due. Times are seconds.
\<close>

record 'i interval_ops =
  iv_new :: "nat \<Rightarrow> nat \<Rightarrow> 'i"
  iv_reset :: "nat \<Rightarrow> 'i \<Rightarrow> 'i"
  iv_tick :: "nat \<Rightarrow> 'i \<Rightarrow> 'i"
  iv_due :: "'i \<Rightarrow> nat"

text \<open>\<open>sync_active\<close> and \<open>auto_lock_active\<close> say that the interval is there.\<close>

record 'i executor_timers =
  tm_sync_interval :: "'i option"
  tm_auto_lock_interval :: "'i option"

definition timers_new :: "('i, 'z) interval_ops_scheme \<Rightarrow> nat \<Rightarrow> app_config \<Rightarrow> bool \<Rightarrow> 'i executor_timers" where
  "timers_new I now config sync_service_available =
     (let sync_enabled = sync_service_available \<and> sy_provider (ac_sync config) \<noteq> SpDisabled
            \<and> sy_sync_mode (ac_sync config) = Auto \<and> 0 < sy_auto_interval_seconds (ac_sync config)
      in \<lparr> tm_sync_interval = (if sync_enabled then Some (iv_new I now (unat (sy_auto_interval_seconds (ac_sync config)))) else None),
           tm_auto_lock_interval = (if 0 < gc_auto_lock_seconds (ac_general config)
             then Some (iv_new I now (unat (gc_auto_lock_seconds (ac_general config)))) else None) \<rparr>)"

definition reset_auto_lock :: "('i, 'z) interval_ops_scheme \<Rightarrow> nat \<Rightarrow> 'i executor_timers \<Rightarrow> 'i executor_timers" where
  "reset_auto_lock I now t = t\<lparr>tm_auto_lock_interval := map_option (iv_reset I now) (tm_auto_lock_interval t)\<rparr>"

end
