(* ===== verification/Exec_Import.thy ===== *)
theory Exec_Import
  imports Exec_Config
begin

text \<open>
  The handlers of imports and exports (\<open>executor/import_export.rs\<close>). The service of sessions works on the
  world of the executor; \<open>interrupted\<close> is the state of the cancellation token when it is read again after the
  first look, numbered in order. Reports of progress are left out.
\<close>

section \<open>Helpers\<close>

definition with_imports ::
  "('w, 'a) service_method \<Rightarrow> ('w, 's, 'c) app \<Rightarrow> (import_error + 'a) \<times> ('w, 's, 'c) app" where
  "with_imports m a = (case m (ap_imports a, ex_world (ap_ex a)) of
     (r, (sv, w)) \<Rightarrow> (r, a\<lparr>ap_imports := sv, ap_ex := (ap_ex a)\<lparr>ex_world := w\<rparr>\<rparr>))"

definition in_vault ::
  "(vault_service \<Rightarrow> ('w, 'a) vault_io) \<Rightarrow> ('w, 's, 'c) app \<Rightarrow> (vault_error + 'a) \<times> ('w, 's, 'c) app" where
  "in_vault m a = (case with_vault m (ap_ex a) of (r, x) \<Rightarrow> (r, a\<lparr>ap_ex := x\<rparr>))"

definition import_failed :: "('x) env_scheme \<Rightarrow> string \<Rightarrow> string \<Rightarrow> import_error \<Rightarrow> app_result" where
  "import_failed E msg_key msg e =
     Plain (CommandError (import_error_code e) (import_error_context e) msg_key (msg @ import_error_to_string E e))"

definition field_of :: "field_map \<Rightarrow> string \<Rightarrow> string" where
  "field_of m k = (case map_of m k of Some v \<Rightarrow> v | None \<Rightarrow> [])"

definition fields_to_payload :: "credential_type \<Rightarrow> field_map \<Rightarrow> encrypted_payload" where
  "fields_to_payload t m = (case t of
     Login \<Rightarrow> LoginPayload (field_of m ''name'') (field_of m ''username'') (field_of m ''password'') (map_of m ''url'') (map_of m ''notes'')
   | Api \<Rightarrow> ApiPayload (field_of m ''name'') (field_of m ''app_id'') (field_of m ''secret_key'') (map_of m ''url'') (map_of m ''notes'')
   | Ssh \<Rightarrow> SshPayload (field_of m ''name'') (field_of m ''public_key'') (map_of m ''private_key'') (map_of m ''passphrase'') (map_of m ''notes'')
   | SecureNote \<Rightarrow> SecureNotePayload (field_of m ''name'') (map_of m ''notes''))"

definition build_skip_breakdown :: "import_result \<Rightarrow> (skip_reason \<times> nat) list" where
  "build_skip_breakdown r =
     (if 0 < ir_skipped r then [(SkipDuplicate, ir_skipped r)] else [])
     @ (if 0 < ir_validation_failed r then [(SkipValidationFailed, ir_validation_failed r)] else [])"

definition export_base :: "('x) env_scheme \<Rightarrow> credential_type \<Rightarrow> record_attrs \<Rightarrow> string \<Rightarrow> string option \<Rightarrow> export_record" where
  "export_base E t a name notes =
     \<lparr> ok_id = uuid_show E (at_id a), ok_credential_type = cred_to_db_str t, ok_name = name, ok_username = None,
       ok_password = None, ok_url = None, ok_notes = notes, ok_tags = Some (at_tags a), ok_is_favorite = Some (at_is_favorite a),
       ok_expires_at = map_option (rfc3339_show E) (at_expires_at a), ok_public_key = None, ok_private_key = None,
       ok_passphrase = None, ok_app_id = None, ok_secret_key = None \<rparr>"

definition decrypted_record_to_export :: "('x) env_scheme \<Rightarrow> decrypted_record \<Rightarrow> export_record" where
  "decrypted_record_to_export E d = (case d of
     LoginRecord a name username password url notes \<Rightarrow>
       (export_base E Login a name notes)\<lparr>ok_username := Some username, ok_password := Some password, ok_url := url\<rparr>
   | ApiRecord a name app_id secret_key url notes \<Rightarrow>
       (export_base E Api a name notes)\<lparr>ok_url := url, ok_app_id := Some app_id, ok_secret_key := Some secret_key\<rparr>
   | SshRecord a name public_key private_key passphrase notes \<Rightarrow>
       (export_base E Ssh a name notes)\<lparr>ok_public_key := Some public_key, ok_private_key := private_key, ok_passphrase := passphrase\<rparr>
   | SecureNoteRecord a name notes \<Rightarrow> export_base E SecureNote a name notes)"

section \<open>Imports\<close>

definition handle_validate_import_file ::
  "('x) keystore_env_scheme \<Rightarrow> ('y) import_env_scheme \<Rightarrow> ('w, 'z) keystore_ops_scheme \<Rightarrow> ('w, 'v) file_ops_scheme
     \<Rightarrow> import_source \<Rightarrow> string \<Rightarrow> string option \<Rightarrow> ('w, 's, 'c) app \<Rightarrow> app_result \<times> ('w, 's, 'c) app" where
  "handle_validate_import_file E M K F s path password a =
     (if ex_cancelled (ap_ex a) then (Plain (cancelled_result ''import_validate''), a)
      else case with_imports (create_import_session K s path password None False) a of
        (Inl e, a1) \<Rightarrow> (import_failed E ''error.import_session_create_failed'' ''Failed to create import session: '' e, a1)
      | (Inr sid, a1) \<Rightarrow> (case with_imports (validate_import_file E M K F sid) a1 of
          (Inr preview, a2) \<Rightarrow> (ImportValidated sid preview, a2)
        | (Inl e, a2) \<Rightarrow> (import_failed E ''error.import_validate_failed'' ''Failed to validate import file: '' e, a2)))"

text \<open>Without a session, one is created and validated first.\<close>

definition import_session_for ::
  "('x) keystore_env_scheme \<Rightarrow> ('y) import_env_scheme \<Rightarrow> ('w, 'z) keystore_ops_scheme \<Rightarrow> ('w, 'v) file_ops_scheme
     \<Rightarrow> uuid option \<Rightarrow> import_source \<Rightarrow> string \<Rightarrow> string option \<Rightarrow> csv_column_mapping option \<Rightarrow> bool
     \<Rightarrow> ('w, 's, 'c) app \<Rightarrow> (app_result + uuid) \<times> ('w, 's, 'c) app" where
  "import_session_for E M K F session_id s path password mapping import_as_notes a = (case session_id of
     Some sid \<Rightarrow> (Inr sid, a)
   | None \<Rightarrow> (case with_imports (create_import_session K s path password mapping import_as_notes) a of
       (Inl e, a1) \<Rightarrow> (Inl (import_failed E ''error.import_session_create_failed'' ''Failed to create import session: '' e), a1)
     | (Inr sid, a1) \<Rightarrow> (case with_imports (validate_import_file E M K F sid) a1 of
         (Inl e, a2) \<Rightarrow> (Inl (import_failed E ''error.import_validate_failed'' ''Failed to validate import file: '' e), a2)
       | (Inr _, a2) \<Rightarrow> (Inr sid, a2))))"

definition params_of_import :: "credential_type \<Rightarrow> field_map \<Rightarrow> string list \<Rightarrow> create_record_params" where
  "params_of_import t m tags = \<lparr> cp_credential_type = t, cp_payload = fields_to_payload t m, cp_tags = tags,
     cp_is_favorite = False, cp_expires_at = None \<rparr>"

record import_counts =
  ic_imported :: nat
  ic_reviewed :: nat
  ic_failed :: nat

definition count_import :: "bool \<Rightarrow> vault_error + uuid \<Rightarrow> import_counts \<Rightarrow> import_counts" where
  "count_import is_review r c = (case r of
     Inr _ \<Rightarrow> if is_review then c\<lparr>ic_reviewed := ic_reviewed c + 1\<rparr> else c\<lparr>ic_imported := ic_imported c + 1\<rparr>
   | Inl _ \<Rightarrow> c\<lparr>ic_failed := ic_failed c + 1\<rparr>)"

text \<open>The records of an import, until one finds the operation cancelled.\<close>

fun create_imported ::
  "('x) rotation_env_scheme \<Rightarrow> ('w, 'y) vault_ops_scheme \<Rightarrow> (nat \<Rightarrow> bool) \<Rightarrow> nat \<Rightarrow> importable_record list \<Rightarrow> import_counts
     \<Rightarrow> ('w, 's, 'c) app \<Rightarrow> import_counts option \<times> ('w, 's, 'c) app" where
  "create_imported E C interrupted i [] c a = (Some c, a)"
| "create_imported E C interrupted i (r # rs) c a =
     (if interrupted i then (None, a)
      else case in_vault (\<lambda>S. create_record E C S (params_of_import (im_credential_type r) (im_fields r) (im_tags r))) a of
        (res, a1) \<Rightarrow> create_imported E C interrupted (i + 1) rs (count_import (im_is_review r) res c) a1)"

definition import_audit_detail :: "import_source \<Rightarrow> import_counts \<Rightarrow> nat \<Rightarrow> string" where
  "import_audit_detail s c skipped =
     ''source='' @ show_import_source s @ '', imported='' @ show_nat (ic_imported c) @ '', reviewed='' @ show_nat (ic_reviewed c)
     @ '', failed='' @ show_nat (ic_failed c) @ '', skipped='' @ show_nat skipped"

definition write_import_audit :: "('w, 'y) vault_ops_scheme \<Rightarrow> audit_operation \<Rightarrow> string \<Rightarrow> ('w, 's, 'c) app \<Rightarrow> ('w, 's, 'c) app" where
  "write_import_audit C operation detail a = snd (in_vault (\<lambda>_. dbq (insert_audit_entry C operation None None (Some detail))) a)"

definition finish_import ::
  "('w, 'y) vault_ops_scheme \<Rightarrow> import_source \<Rightarrow> import_result \<Rightarrow> import_counts \<Rightarrow> ('w, 's, 'c) app \<Rightarrow> app_result \<times> ('w, 's, 'c) app" where
  "finish_import C s res c a =
     (let a1 = write_import_audit C VaultImport (import_audit_detail s c (ir_skipped res)) a;
          a2 = (if 0 < ic_imported c \<or> 0 < ic_reviewed c then a1\<lparr>ap_ex := schedule_health_scan (ap_ex a1)\<rparr> else a1)
      in (ImportCompleted (ic_imported c) (ic_reviewed c) (ir_skipped res) (ic_failed c) (build_skip_breakdown res), a2))"

definition handle_execute_import ::
  "('x) keystore_env_scheme \<Rightarrow> ('y) import_env_scheme \<Rightarrow> ('w, 'u) vault_ops_scheme \<Rightarrow> ('w, 'z) keystore_ops_scheme \<Rightarrow> ('w, 'v) file_ops_scheme
     \<Rightarrow> (nat \<Rightarrow> bool) \<Rightarrow> uuid option \<Rightarrow> import_source \<Rightarrow> string \<Rightarrow> string option \<Rightarrow> csv_column_mapping option \<Rightarrow> bool
     \<Rightarrow> ('w, 's, 'c) app \<Rightarrow> app_result \<times> ('w, 's, 'c) app" where
  "handle_execute_import E M C K F interrupted session_id s path password mapping import_as_notes a =
     (if ex_cancelled (ap_ex a) then (Plain (cancelled_result ''import_execute''), a)
      else case import_session_for E M K F session_id s path password mapping import_as_notes a of
        (Inl err, a1) \<Rightarrow> (err, a1)
      | (Inr sid, a1) \<Rightarrow> (case with_imports (execute_import M K sid [] import_as_notes) a1 of
          (r, a2) \<Rightarrow> if interrupted 0 then (Plain (cancelled_result ''import_execute''), a2) else
          (case r of
             Inl e \<Rightarrow> (import_failed E ''error.import_execute_failed'' ''Failed to execute import: '' e, a2)
           | Inr (res, records) \<Rightarrow>
               (case create_imported E C interrupted 1 records \<lparr> ic_imported = 0, ic_reviewed = 0, ic_failed = 0 \<rparr> a2 of
                  (None, a3) \<Rightarrow> (Plain (cancelled_result ''import_execute''), a3)
                | (Some c, a3) \<Rightarrow> finish_import C s res c a3))))"

section \<open>Exports\<close>

text \<open>\<open>format!("{:?}", scope)\<close>.\<close>

definition record_filter_debug :: "('y) import_env_scheme \<Rightarrow> record_filter \<Rightarrow> string" where
  "record_filter_debug M f = (case f of
     AllRecords \<Rightarrow> ''All'' | Favorites \<Rightarrow> ''Favorites'' | Expired \<Rightarrow> ''Expired'' | HealthIssues \<Rightarrow> ''HealthIssues'' | Trash \<Rightarrow> ''Trash''
   | Tag t \<Rightarrow> ''Tag('' @ str_debug M t @ '')'' | Search q \<Rightarrow> ''Search('' @ str_debug M q @ '')'')"

definition export_scope_debug :: "('y) import_env_scheme \<Rightarrow> export_scope \<Rightarrow> string" where
  "export_scope_debug M s = (case s of
     ScopeAll \<Rightarrow> ''All'' | ScopeCurrentFilter f \<Rightarrow> ''CurrentFilter('' @ record_filter_debug M f @ '')''
   | ScopeByTag t \<Rightarrow> ''ByTag('' @ str_debug M t @ '')'')"

text \<open>Every record of the list is decrypted; a record that cannot be ends the export.\<close>

fun collect_exported ::
  "('x) rotation_env_scheme \<Rightarrow> ('w, 'y) vault_ops_scheme \<Rightarrow> (nat \<Rightarrow> bool) \<Rightarrow> nat \<Rightarrow> tui_record list
     \<Rightarrow> ('w, 's, 'c) app \<Rightarrow> (app_result + export_record list) \<times> ('w, 's, 'c) app" where
  "collect_exported E C interrupted i [] a = (Inr [], a)"
| "collect_exported E C interrupted i (r # rs) a =
     (if interrupted i then (Inl (Plain (cancelled_result ''export_execute'')), a)
      else case in_vault (\<lambda>S. get_decrypted_record E C S (tr_id r)) a of
        (Inl e, a1) \<Rightarrow> (Inl (Plain (CommandError (vault_error_code E e) (vault_error_context E e) ''error.export_decrypt_failed''
            (''Failed to decrypt record for export: '' @ vault_error_to_string E e))), a1)
      | (Inr d, a1) \<Rightarrow> (case collect_exported E C interrupted (i + 1) rs a1 of
          (Inl err, a2) \<Rightarrow> (Inl err, a2)
        | (Inr out, a2) \<Rightarrow> (Inr (decrypted_record_to_export E d # out), a2)))"

definition finish_export ::
  "('x) keystore_env_scheme \<Rightarrow> ('y) import_env_scheme \<Rightarrow> ('w, 'u) vault_ops_scheme \<Rightarrow> ('w, 'z) keystore_ops_scheme \<Rightarrow> bool
     \<Rightarrow> export_scope \<Rightarrow> export_format \<Rightarrow> uuid \<Rightarrow> export_record list \<Rightarrow> ('w, 's, 'c) app \<Rightarrow> app_result \<times> ('w, 's, 'c) app" where
  "finish_export E M C K interrupted_after scope format sid records a =
     (case with_imports (execute_export E M K sid (Inr records) (ex_vault_dir (ap_ex a))) a of
        (r, a1) \<Rightarrow> if interrupted_after then (Plain (cancelled_result ''export_execute''), a1) else
        (case r of
           Inl e \<Rightarrow> (import_failed E ''error.export_execute_failed'' ''Failed to execute export: '' e, a1)
         | Inr (path, n) \<Rightarrow> (ExportCompleted path n format,
             write_import_audit C VaultExport (''scope='' @ export_scope_debug M scope @ '', path='' @ path @ '', count='' @ show_nat n) a1)))"

definition handle_execute_export ::
  "('x) keystore_env_scheme \<Rightarrow> ('y) import_env_scheme \<Rightarrow> ('w, 'u) vault_ops_scheme \<Rightarrow> ('w, 'z) keystore_ops_scheme
     \<Rightarrow> (nat \<Rightarrow> bool) \<Rightarrow> export_scope \<Rightarrow> string \<Rightarrow> string \<Rightarrow> string \<Rightarrow> export_format
     \<Rightarrow> ('w, 's, 'c) app \<Rightarrow> app_result \<times> ('w, 's, 'c) app" where
  "handle_execute_export E M C K interrupted scope output_path export_password master_password format a =
     (if ex_cancelled (ap_ex a) then (Plain (cancelled_result ''export_execute''), a)
      else case on_ext_world (keystore_unlock E K (ex_vault_dir (ap_ex a)) master_password) (ap_ex a) of
        (Inl _, x) \<Rightarrow> (Plain (CommandError ExecutorMasterPasswordRequired error_context_new ''error.password_verification_failed''
            ''Master password verification failed.''), a\<lparr>ap_ex := x\<rparr>)
      | (Inr _, x) \<Rightarrow> (case with_imports (create_export_session K scope format export_password output_path) (a\<lparr>ap_ex := x\<rparr>) of
          (Inl e, a1) \<Rightarrow> (import_failed E ''error.export_session_create_failed'' ''Failed to create export session: '' e, a1)
        | (Inr sid, a1) \<Rightarrow>
            (case in_vault (\<lambda>S. vault_list_records E C S AllRecords \<lparr> rs_field = ByName, rs_direction = Asc \<rparr>) a1 of
               (Inl e, a2) \<Rightarrow> (Plain (CommandError (vault_error_code E e) (vault_error_context E e) ''error.export_list_records_failed''
                  (''Failed to list records for export: '' @ vault_error_to_string E e)), a2)
             | (Inr records, a2) \<Rightarrow> (case collect_exported E C interrupted 0 records a2 of
                 (Inl err, a3) \<Rightarrow> (err, a3)
               | (Inr out, a3) \<Rightarrow> finish_export E M C K (interrupted (length records)) scope format sid out a3))))"

section \<open>Restoring the database from a backup\<close>

text \<open>A failure after the file was begun drops the guard, which rolls back.\<close>

definition dropped ::
  "('w, 'c, 'y) vault_file_ops_scheme \<Rightarrow> pending_db \<Rightarrow> command_result \<times> ('w, 's) executor \<Rightarrow> command_result \<times> ('w, 's) executor" where
  "dropped K pending = (\<lambda>(r, x). (r, snd (pending_rollback K pending x)))"

fun create_restored ::
  "('x) rotation_env_scheme \<Rightarrow> ('w, 'y) vault_ops_scheme \<Rightarrow> parsed_item list \<Rightarrow> nat \<times> nat \<Rightarrow> ('w, 's) executor
     \<Rightarrow> (nat \<times> nat) \<times> ('w, 's) executor" where
  "create_restored E C [] counts x = (counts, x)"
| "create_restored E C (item # items) (imported, errors) x =
     (let t = infer_credential_type (pi_fields item) in
      case with_vault (\<lambda>S. create_record E C S (params_of_import t (pi_fields item) (pi_tags item))) x of
        (Inr _, x1) \<Rightarrow> create_restored E C items (imported + 1, errors) x1
      | (Inl _, x1) \<Rightarrow> create_restored E C items (imported, errors + 1) x1)"

text \<open>Opening the pending database: the same steps for a backup and for the cloud.\<close>

definition begin_restore ::
  "('x) recovery_env_scheme \<Rightarrow> ('w, 'c, 'z) exec_ops_scheme \<Rightarrow> string \<Rightarrow> ('w, 's) executor
     \<Rightarrow> (command_result + pending_db) \<times> ('w, 's) executor" where
  "begin_restore E K master_password x =
     (case on_ext_world (keystore_unlock E K (ex_vault_dir x) master_password) x of
        (Inl _, x1) \<Rightarrow> (Inl (key_error CryptoEncryptionFailed ''error.keystore_unlock_failed'' ''Failed to unlock keystore for restore.''), x1)
      | (Inr ks, x1) \<Rightarrow> (case keystore_db_page_key E ks of
          Inl e \<Rightarrow> (Inl (key_error CryptoKeyDerivationFailed ''error.db_key_derivation_failed'' (''Failed to derive database page key: '' @ e)), x1)
        | Inr db_page_key \<Rightarrow> (case begin_file_backed_vault_db E K db_page_key x1 of
            (Inl e, x2) \<Rightarrow> (Inl (key_error VaultDatabaseIoError ''error.db_reopen_failed''
               (''Failed to create vault database: '' @ vault_db_error_to_string e)), x2)
          | (Inr pending, x2) \<Rightarrow> (Inr pending, x2))))"

definition restore_items ::
  "('x) recovery_env_scheme \<Rightarrow> ('w, 'y) vault_ops_scheme \<Rightarrow> ('w, 'c, 'z) exec_ops_scheme \<Rightarrow> string \<Rightarrow> parsed_item list
     \<Rightarrow> ('w, 's) executor \<Rightarrow> command_result \<times> ('w, 's) executor" where
  "restore_items E C K master_password items x = (case begin_restore E K master_password x of
     (Inl err, x1) \<Rightarrow> (err, x1)
   | (Inr pending, x1) \<Rightarrow> (case unlock_open_vault E K master_password x1 of
       (Inl e, x2) \<Rightarrow> dropped K pending (key_error CryptoEncryptionFailed ''error.unlock_failed''
          (''Failed to unlock vault: '' @ vault_error_to_string E e), x2)
     | (Inr _, x2) \<Rightarrow> (case create_restored E C items (0, 0) x2 of
         ((imported, errors), x3) \<Rightarrow>
           if 0 < errors \<or> imported = 0
           then dropped K pending (key_error ImportPartialFailure ''error.okb_restore_import_failed''
             (''Failed to restore .okb backup: imported '' @ show_nat imported @ '', failed '' @ show_nat errors @ ''.''), x3)
           else (DatabaseRestored Okb, pending_commit x3))))"

definition handle_restore_database_from_okb ::
  "('x) recovery_env_scheme \<Rightarrow> ('w, 'y) vault_ops_scheme \<Rightarrow> ('w, 'c, 'z) exec_ops_scheme \<Rightarrow> ('w, 'v) file_ops_scheme
     \<Rightarrow> string \<Rightarrow> string \<Rightarrow> string option \<Rightarrow> ('w, 's) executor \<Rightarrow> command_result \<times> ('w, 's) executor" where
  "handle_restore_database_from_okb E C K F path password master_password x =
     (if path = [] then (key_error DataEmptyField ''error.okb_path_empty'' ''Enter a .okb path.'', x)
      else if path_extension path \<noteq> Some ''okb''
      then (key_error ImportFileFormatInvalid ''error.okb_invalid_extension'' ''Path must end with .okb.'', x)
      else case fs_exists K path (ex_world x) of (found, w) \<Rightarrow>
      let x1 = x\<lparr>ex_world := w\<rparr> in
      if \<not> found then (key_error ImportFileUnreadable ''error.okb_missing'' (''Backup file does not exist: '' @ path), x1)
      else case on_ext_world (okb_parse E F path (Some password)) x1 of
        (Inl e, x2) \<Rightarrow> (key_error ImportFileUnreadable ''error.okb_decrypt_failed''
           (''Failed to decrypt .okb backup: '' @ import_error_to_string E e), x2)
      | (Inr items, x2) \<Rightarrow>
          if items = [] then (key_error ImportFileFormatInvalid ''error.okb_empty'' ''No records found in .okb backup.'', x2)
          else case (case master_password of Some pw \<Rightarrow> (Some pw, x2)
                       | None \<Rightarrow> (ex_verified_password x2, x2\<lparr>ex_verified_password := None\<rparr>)) of
            (None, x3) \<Rightarrow> (key_error ExecutorMasterPasswordRequired ''error.password_required''
               ''Master password is required to unlock the recovered vault.'', x3)
          | (Some pw, x3) \<Rightarrow> restore_items E C K pw items x3)"

end
