(* ===== verification/Cloud_OAuth.thy ===== *)
theory Cloud_OAuth
  imports App_Config Import_Parsers
begin

text \<open>
  The authorization of a cloud provider (\<open>cloud/oauth2/\<close>, \<open>cloud/providers/\<close>): PKCE, the address opened in
  the browser, the request that carries the code, the exchange of the code for tokens and the token files.
  The browser, the listening socket and the HTTP client are parameters.
\<close>

section \<open>Errors and providers\<close>

datatype oauth2_error =
    OaTimeout | OaMissingCode | OaTokenExchange string | OaPortInUse nat | OaBrowserOpen string | OaCancelled
  | OaTokenStore string | OaProviderNotAuthorized string

definition oauth2_error_to_string :: "oauth2_error \<Rightarrow> string" where
  "oauth2_error_to_string e = (case e of
     OaTimeout \<Rightarrow> [CHR 0xE6, CHR 0x8E, CHR 0x88, CHR 0xE6, CHR 0x9D, CHR 0x83, CHR 0xE8, CHR 0xB6, CHR 0x85, CHR 0xE6, CHR 0x97, CHR 0xB6, CHR 0xEF, CHR 0xBC, CHR 0x8C, CHR 0xE8, CHR 0xAF, CHR 0xB7, CHR 0xE9, CHR 0x87, CHR 0x8D, CHR 0xE8, CHR 0xAF, CHR 0x95]
   | OaMissingCode \<Rightarrow> [CHR 0xE5, CHR 0x9B, CHR 0x9E, CHR 0xE8, CHR 0xB0, CHR 0x83, CHR 0xE4, CHR 0xB8, CHR 0xAD, CHR 0xE6, CHR 0x9C, CHR 0xAA, CHR 0xE6, CHR 0x94, CHR 0xB6, CHR 0xE5, CHR 0x88, CHR 0xB0] @ '' authorization code''
   | OaTokenExchange message \<Rightarrow> ''Token '' @ [CHR 0xE4, CHR 0xBA, CHR 0xA4, CHR 0xE6, CHR 0x8D, CHR 0xA2, CHR 0xE5, CHR 0xA4, CHR 0xB1, CHR 0xE8, CHR 0xB4, CHR 0xA5] @ '': '' @ message
   | OaPortInUse port \<Rightarrow> [CHR 0xE7, CHR 0xAB, CHR 0xAF, CHR 0xE5, CHR 0x8F, CHR 0xA3] @ '' '' @ show_nat port @ '' '' @ [CHR 0xE8, CHR 0xA2, CHR 0xAB, CHR 0xE5, CHR 0x8D, CHR 0xA0, CHR 0xE7, CHR 0x94, CHR 0xA8]
   | OaBrowserOpen message \<Rightarrow> [CHR 0xE6, CHR 0x97, CHR 0xA0, CHR 0xE6, CHR 0xB3, CHR 0x95, CHR 0xE6, CHR 0x89, CHR 0x93, CHR 0xE5, CHR 0xBC, CHR 0x80, CHR 0xE6, CHR 0xB5, CHR 0x8F, CHR 0xE8, CHR 0xA7, CHR 0x88, CHR 0xE5, CHR 0x99, CHR 0xA8] @ '': '' @ message
   | OaCancelled \<Rightarrow> [CHR 0xE7, CHR 0x94, CHR 0xA8, CHR 0xE6, CHR 0x88, CHR 0xB7, CHR 0xE5, CHR 0x8F, CHR 0x96, CHR 0xE6, CHR 0xB6, CHR 0x88, CHR 0xE6, CHR 0x8E, CHR 0x88, CHR 0xE6, CHR 0x9D, CHR 0x83]
   | OaTokenStore message \<Rightarrow> ''Token '' @ [CHR 0xE5, CHR 0xAD, CHR 0x98, CHR 0xE5, CHR 0x82, CHR 0xA8, CHR 0xE5, CHR 0xA4, CHR 0xB1, CHR 0xE8, CHR 0xB4, CHR 0xA5] @ '': '' @ message
   | OaProviderNotAuthorized provider \<Rightarrow> [CHR 0xE6, CHR 0x8F, CHR 0x90, CHR 0xE4, CHR 0xBE, CHR 0x9B, CHR 0xE5, CHR 0x95, CHR 0x86] @ '' '' @ [CHR 0x27] @ provider @ [CHR 0x27] @ '' '' @ [CHR 0xE6, CHR 0x9C, CHR 0xAA, CHR 0xE6, CHR 0x8E, CHR 0x88, CHR 0xE6, CHR 0x9D, CHR 0x83])"

record oauth2_provider =
  op_provider_id :: string
  op_display_name :: string
  op_client_id :: string
  op_client_secret :: string
  op_auth_url :: string
  op_token_url :: string
  op_scopes :: "string list"
  op_redirect_uri :: string

definition google_with_credentials :: "string \<Rightarrow> string \<Rightarrow> oauth2_provider" where
  "google_with_credentials client_id client_secret =
     \<lparr> op_provider_id = ''google_drive'', op_display_name = ''Google Drive'', op_client_id = client_id,
       op_client_secret = client_secret, op_auth_url = ''https://accounts.google.com/o/oauth2/auth'',
       op_token_url = ''https://oauth2.googleapis.com/token'', op_scopes = [''https://www.googleapis.com/auth/drive.file''],
       op_redirect_uri = ''http://localhost:8879'' \<rparr>"

section \<open>Tokens (cloud/oauth2/token_store.rs)\<close>

record oauth2_token =
  ot_access_token :: string
  ot_refresh_token :: "string option"
  ot_expires_at :: "timestamp option"
  ot_token_type :: string

text \<open>Expired five minutes early; a token without a time counts as expired.\<close>

definition token_is_expired :: "timestamp \<Rightarrow> oauth2_token \<Rightarrow> bool" where
  "token_is_expired now t = (case ot_expires_at t of Some e \<Rightarrow> e \<le> now + 300 * 1000000000 | None \<Rightarrow> True)"

definition can_refresh :: "oauth2_token \<Rightarrow> bool" where
  "can_refresh t \<longleftrightarrow> ot_refresh_token t \<noteq> None"

text \<open>
  Third parties: base64 for addresses, the query of an address, lossy decoding, and the text a time is
  serialized to; the operating system's random bytes, browser, socket and network.
\<close>

record oauth_env =
  b64url :: "bytes \<Rightarrow> string"
  url_query :: "string \<Rightarrow> (string \<times> string) list option"
  utf8_lossy :: "bytes \<Rightarrow> string"
  utc_text :: "timestamp \<Rightarrow> string"

datatype callback =
    PortTaken | CallbackCancelled | CallbackTimeout | AcceptFailed string | ReadFailed string | Request bytes

record 'w oauth_ops =
  oa_random :: "'w \<Rightarrow> bytes \<times> 'w"
  oa_spawn :: "string list \<Rightarrow> ('w, string, unit) io"
  oa_callback :: "'w \<Rightarrow> callback \<times> 'w"
  oa_post :: "string \<Rightarrow> bytes \<Rightarrow> ('w, string, string + string) io"

definition opt_value :: "('a \<Rightarrow> json) \<Rightarrow> 'a option \<Rightarrow> json" where
  "opt_value f v = (case v of Some a \<Rightarrow> f a | None \<Rightarrow> JNull)"

definition token_to_json :: "('o) oauth_env_scheme \<Rightarrow> oauth2_token \<Rightarrow> json" where
  "token_to_json W t = JObj [(''access_token'', JStr (ot_access_token t)), (''refresh_token'', opt_value JStr (ot_refresh_token t)),
     (''expires_at'', opt_value (\<lambda>e. JStr (utc_text W e)) (ot_expires_at t)), (''token_type'', JStr (ot_token_type t))]"

definition d_time :: "('x) env_scheme \<Rightarrow> timestamp decoder" where
  "d_time E j = try_res (d_str j) (\<lambda>s. ok_or ''premature end of input'' (rfc3339_parse E s))"

definition d_token :: "('x) env_scheme \<Rightarrow> oauth2_token decoder" where
  "d_token E j =
     try_res (fields_of [''access_token'', ''refresh_token'', ''expires_at'', ''token_type''] j) (\<lambda>kvs.
     try_res (d_req kvs ''access_token'' d_str) (\<lambda>access_token.
     try_res (d_option kvs ''refresh_token'' d_str) (\<lambda>refresh_token.
     try_res (d_option kvs ''expires_at'' (d_time E)) (\<lambda>expires_at.
     try_res (d_req kvs ''token_type'' d_str) (\<lambda>token_type.
     Inr \<lparr> ot_access_token = access_token, ot_refresh_token = refresh_token, ot_expires_at = expires_at, ot_token_type = token_type \<rparr>)))))"

definition token_path :: "string \<Rightarrow> string \<Rightarrow> string" where
  "token_path base_path provider_id = path_join base_path (provider_id @ ''.token.json'')"

text \<open>The mode of the file is set when its metadata can be read; a failure is logged.\<close>

definition restrict_mode :: "('w, 'y) keystore_ops_scheme \<Rightarrow> string \<Rightarrow> ('w, oauth2_error, unit) io" where
  "restrict_mode K path w = (case ko_metadata K path w of
     (Inr _, w1) \<Rightarrow> (Inr (), snd (ko_set_mode K path 384 w1)) | (Inl _, w1) \<Rightarrow> (Inr (), w1))"

definition token_save ::
  "('x) keystore_env_scheme \<Rightarrow> ('o) oauth_env_scheme \<Rightarrow> ('w, 'y) keystore_ops_scheme \<Rightarrow> string \<Rightarrow> string \<Rightarrow> oauth2_token
     \<Rightarrow> ('w, oauth2_error, unit) io" where
  "token_save E W K base_path provider_id t =
     (let path = token_path base_path provider_id in
     io_bind (io_map_err (\<lambda>e. OaTokenStore (''failed to create token directory '' @ base_path @ '': '' @ e)) (ko_create_dir_all K base_path)) (\<lambda>_.
     io_bind (io_lift (map_err (\<lambda>e. OaTokenStore (''failed to serialize token: '' @ e)) (json_pretty E (token_to_json W t)))) (\<lambda>json.
     io_bind (io_map_err (\<lambda>e. OaTokenStore (''failed to write token to '' @ path @ '': '' @ e)) (fs_write K path json)) (\<lambda>_.
     restrict_mode K path))))"

definition token_load ::
  "('x) keystore_env_scheme \<Rightarrow> ('w, 'y) keystore_ops_scheme \<Rightarrow> string \<Rightarrow> string \<Rightarrow> ('w, oauth2_error, oauth2_token option) io" where
  "token_load E K base_path provider_id =
     (let path = token_path base_path provider_id in
     io_bind (io_test (fs_exists K path)) (\<lambda>found.
     if \<not> found then io_return None
     else
       io_bind (io_map_err (\<lambda>e. OaTokenStore (''failed to read token from '' @ path @ '': '' @ e)) (fs_read_to_string K path)) (\<lambda>json.
       io_bind (io_lift (map_err (\<lambda>e. OaTokenStore (''failed to deserialize token: '' @ e)) (try_res (json_parse E json) (d_token E)))) (\<lambda>t.
       io_return (Some t)))))"

definition token_delete :: "('w, 'y) fs_ops_scheme \<Rightarrow> string \<Rightarrow> string \<Rightarrow> ('w, oauth2_error, bool) io" where
  "token_delete K base_path provider_id =
     (let path = token_path base_path provider_id in
     io_bind (io_test (fs_exists K path)) (\<lambda>found.
     if \<not> found then io_return False
     else io_bind (io_map_err (\<lambda>e. OaTokenStore (''failed to delete token '' @ path @ '': '' @ e)) (fs_remove_file K path)) (\<lambda>_. io_return True)))"

section \<open>Authorization (cloud/oauth2/pkce.rs, engine.rs, browser.rs, callback_server.rs)\<close>

definition generate_pkce :: "('x) env_scheme \<Rightarrow> ('o) oauth_env_scheme \<Rightarrow> ('w, 'z) oauth_ops_scheme \<Rightarrow> ('w, oauth2_error, string \<times> string) io" where
  "generate_pkce E W N = io_bind (io_draw (oa_random N)) (\<lambda>verifier_bytes.
     (let verifier = b64url W verifier_bytes in io_return (verifier, b64url W (sha256 E verifier))))"

definition unreserved :: "char \<Rightarrow> bool" where
  "unreserved c \<longleftrightarrow> CHR ''A'' \<le> c \<and> c \<le> CHR ''Z'' \<or> CHR ''a'' \<le> c \<and> c \<le> CHR ''z'' \<or> CHR ''0'' \<le> c \<and> c \<le> CHR ''9''
     \<or> c \<in> set ''-_.~''"

definition hex_upper :: "nat \<Rightarrow> char" where
  "hex_upper n = ''0123456789ABCDEF'' ! n"

definition urlencoding_encode :: "string \<Rightarrow> string" where
  "urlencoding_encode s = concat (map (\<lambda>c. if unreserved c then [c]
     else [CHR ''%'', hex_upper (byte_of c div 16), hex_upper (byte_of c mod 16)]) s)"

definition build_auth_url :: "oauth2_provider \<Rightarrow> string \<Rightarrow> string" where
  "build_auth_url p challenge =
     op_auth_url p @ ''?response_type=code&client_id='' @ urlencoding_encode (op_client_id p)
     @ ''&redirect_uri='' @ urlencoding_encode (op_redirect_uri p)
     @ ''&scope='' @ urlencoding_encode (join_with '' '' (op_scopes p))
     @ ''&state=oak-state&access_type=offline&prompt=consent&code_challenge='' @ challenge @ ''&code_challenge_method=S256''"

text \<open>The command of the Linux build.\<close>

definition open_url :: "('w, 'z) oauth_ops_scheme \<Rightarrow> string \<Rightarrow> ('w, string, unit) io" where
  "open_url N url = io_map_err (\<lambda>e. [CHR 0xE6, CHR 0x97, CHR 0xA0, CHR 0xE6, CHR 0xB3, CHR 0x95, CHR 0xE6, CHR 0x89, CHR 0x93, CHR 0xE5, CHR 0xBC, CHR 0x80, CHR 0xE6, CHR 0xB5, CHR 0x8F, CHR 0xE8, CHR 0xA7, CHR 0x88, CHR 0xE5, CHR 0x99, CHR 0xA8] @ '': '' @ e) (oa_spawn N [''xdg-open'', url])"

definition CALLBACK_PORT :: nat where "CALLBACK_PORT = 8879"

definition extract_code_from_url :: "('o) oauth_env_scheme \<Rightarrow> string \<Rightarrow> string option" where
  "extract_code_from_url W url = Option.bind (url_query W url) (\<lambda>pairs. map_of pairs ''code'')"

text \<open>The target of the request line: the second word of the first line.\<close>

definition request_target :: "string \<Rightarrow> string" where
  "request_target request =
     (let first_line = takeWhile (\<lambda>c. c \<noteq> CHR 0x0A) request; words = split_whitespace first_line in
      if 1 < length words then words ! 1 else [])"

definition wait_for_callback :: "('o) oauth_env_scheme \<Rightarrow> callback \<Rightarrow> oauth2_error + string" where
  "wait_for_callback W c = (case c of
     PortTaken \<Rightarrow> Inl (OaPortInUse CALLBACK_PORT)
   | CallbackCancelled \<Rightarrow> Inl OaCancelled
   | CallbackTimeout \<Rightarrow> Inl OaTimeout
   | AcceptFailed e \<Rightarrow> Inl (OaTokenExchange (''failed to accept connection: '' @ e))
   | ReadFailed e \<Rightarrow> Inl (OaTokenExchange (''failed to read request: '' @ e))
   | Request buffer \<Rightarrow> ok_or OaMissingCode (extract_code_from_url W
       (''http://localhost:'' @ show_nat CALLBACK_PORT @ request_target (utf8_lossy W (take 2048 buffer)))))"

definition json_text :: "json \<Rightarrow> string \<Rightarrow> string option" where
  "json_text j k = as_str (json_index j k)"

text \<open>The reply; a time beyond the range of \<open>chrono\<close>, which would panic, is left out.\<close>

definition token_of_reply :: "timestamp \<Rightarrow> json \<Rightarrow> oauth2_error + oauth2_token" where
  "token_of_reply now json = (case json_text json ''error'' of
     Some err \<Rightarrow> Inl (OaTokenExchange (err @ '': '' @ (case json_text json ''error_description'' of Some d \<Rightarrow> d | None \<Rightarrow> ''unknown'')))
   | None \<Rightarrow>
       try_res (ok_or (OaTokenExchange ''missing access_token in response'') (json_text json ''access_token'')) (\<lambda>access_token.
       (let expires_in = (case as_u64 (json_index json ''expires_in'') of Some n \<Rightarrow> n | None \<Rightarrow> 3600) in
        Inr \<lparr> ot_access_token = access_token, ot_refresh_token = json_text json ''refresh_token'',
          ot_expires_at = Some (now + sint expires_in * 1000000000),
          ot_token_type = (case json_text json ''token_type'' of Some t \<Rightarrow> t | None \<Rightarrow> ''Bearer'') \<rparr>)))"

definition exchange_body :: "oauth2_provider \<Rightarrow> string \<Rightarrow> string \<Rightarrow> string" where
  "exchange_body p code verifier =
     ''grant_type=authorization_code&code='' @ urlencoding_encode code @ ''&redirect_uri='' @ urlencoding_encode (op_redirect_uri p)
     @ ''&client_id='' @ urlencoding_encode (op_client_id p) @ ''&client_secret='' @ urlencoding_encode (op_client_secret p)
     @ ''&code_verifier='' @ urlencoding_encode verifier"

definition exchange_code_for_token ::
  "('x) keystore_env_scheme \<Rightarrow> ('w, 'y) keystore_ops_scheme \<Rightarrow> ('w, 'z) oauth_ops_scheme \<Rightarrow> oauth2_provider \<Rightarrow> string \<Rightarrow> string
     \<Rightarrow> ('w, oauth2_error, oauth2_token) io" where
  "exchange_code_for_token E K N p code verifier =
     io_bind (io_map_err OaTokenExchange (oa_post N (op_token_url p) (exchange_body p code verifier))) (\<lambda>body.
     io_bind (io_lift (map_err (\<lambda>e. OaTokenExchange (''failed to read response: '' @ e)) body)) (\<lambda>response.
     io_bind (io_lift (map_err (\<lambda>e. OaTokenExchange (''failed to parse JSON response: '' @ e)) (json_parse E response))) (\<lambda>json.
     io_bind (io_draw (ko_now K)) (\<lambda>now.
     io_lift (token_of_reply now json)))))"

definition oauth2_authorize ::
  "('x) keystore_env_scheme \<Rightarrow> ('o) oauth_env_scheme \<Rightarrow> ('w, 'y) keystore_ops_scheme \<Rightarrow> ('w, 'z) oauth_ops_scheme
     \<Rightarrow> oauth2_provider \<Rightarrow> string \<Rightarrow> ('w, oauth2_error, oauth2_token) io" where
  "oauth2_authorize E W K N p token_dir =
     io_bind (generate_pkce E W N) (\<lambda>(verifier, challenge).
     io_bind (io_map_err OaBrowserOpen (open_url N (build_auth_url p challenge))) (\<lambda>_.
     io_bind (io_draw (oa_callback N)) (\<lambda>c.
     io_bind (io_lift (wait_for_callback W c)) (\<lambda>code.
     io_bind (exchange_code_for_token E K N p code verifier) (\<lambda>t.
     io_bind (token_save E W K token_dir (op_provider_id p) t) (\<lambda>_. io_return t))))))"

definition oauth2_revoke :: "('w, 'y) fs_ops_scheme \<Rightarrow> string \<Rightarrow> string \<Rightarrow> ('w, oauth2_error, bool) io" where
  "oauth2_revoke K provider_id token_dir = token_delete K token_dir provider_id"

end
