(* ===== verification/Exec_Restore.thy ===== *)
theory Exec_Restore
  imports Exec_Import Cloud_OAuth Exec_Sync
begin

text \<open>
  Restoring the database from the cloud (\<open>executor/sync.rs\<close>), with the authorization it starts from: the
  tokens of the executor (\<open>executor/mod.rs\<close>) and the command that asks for them (\<open>executor/config.rs\<close>).
\<close>

section \<open>Tokens of the executor\<close>

definition token_dir :: "string \<Rightarrow> string" where
  "token_dir config_dir = path_join config_dir ''tokens''"

text \<open>At the start the stored token is put into the configuration of Google Drive.\<close>

definition with_token :: "oauth2_token \<Rightarrow> google_drive_config \<Rightarrow> google_drive_config" where
  "with_token t cfg = (case ot_refresh_token t of
     Some rt \<Rightarrow> cfg\<lparr>gd_refresh_token := rt\<rparr> | None \<Rightarrow> cfg\<lparr>gd_access_token := ot_access_token t\<rparr>)"

definition load_oauth2_tokens_into_config ::
  "('x) keystore_env_scheme \<Rightarrow> ('w, 'y) keystore_ops_scheme \<Rightarrow> string \<Rightarrow> app_config \<Rightarrow> 'w \<Rightarrow> app_config \<times> 'w" where
  "load_oauth2_tokens_into_config E K config_dir config w =
     (if sy_provider (ac_sync config) \<noteq> SpGoogleDrive then (config, w)
      else case token_load E K (token_dir config_dir) ''google_drive'' w of
        (Inr (Some t), w1) \<Rightarrow> (case sy_provider_config (ac_sync config) of
           Some (PcGoogleDrive cfg) \<Rightarrow>
             (config\<lparr>ac_sync := (ac_sync config)\<lparr>sy_provider_config := Some (PcGoogleDrive (with_token t cfg))\<rparr>\<rparr>, w1)
         | _ \<Rightarrow> (config, w1))
      | (_, w1) \<Rightarrow> (config, w1))"

text \<open>The command answers with the configuration at once; the authorization runs beside the loop.\<close>

definition handle_oauth2_authorize_google_drive :: "('w, 's, 'c) app \<Rightarrow> app_result \<times> ('w, 's, 'c) app" where
  "handle_oauth2_authorize_google_drive a = (ConfigLoaded (ap_config a), a)"

definition oauth2_task ::
  "('x) keystore_env_scheme \<Rightarrow> ('o) oauth_env_scheme \<Rightarrow> ('w, 'y) keystore_ops_scheme \<Rightarrow> ('w, 'z) oauth_ops_scheme
     \<Rightarrow> string \<Rightarrow> string \<Rightarrow> string \<Rightarrow> 'w \<Rightarrow> app_result \<times> 'w" where
  "oauth2_task E W K N client_id client_secret config_dir w =
     (case oauth2_authorize E W K N (google_with_credentials client_id client_secret) (token_dir config_dir) w of
        (Inr t, w1) \<Rightarrow> (OAuth2Authorized ''google_drive'' (ot_access_token t) (ot_refresh_token t), w1)
      | (Inl e, w1) \<Rightarrow> (OAuth2Failed ''google_drive'' (oauth2_error_to_string e), w1))"

section \<open>The restore\<close>

definition cloud_restore_config :: "string \<Rightarrow> app_config \<Rightarrow> app_config" where
  "cloud_restore_config refresh_token config =
     (let drive = (case sy_provider_config (ac_sync config) of Some (PcGoogleDrive cfg) \<Rightarrow> cfg | _ \<Rightarrow> google_drive_default) in
      config\<lparr>ac_sync := (ac_sync config)\<lparr>sy_provider := SpGoogleDrive,
        sy_provider_config := Some (PcGoogleDrive (drive\<lparr>gd_access_token := [], gd_refresh_token := refresh_token\<rparr>))\<rparr>\<rparr>)"

definition ensure_cloud_restore_sync_service ::
  "('x) keystore_env_scheme \<Rightarrow> toml_env \<Rightarrow> ('w, 'y) keystore_ops_scheme \<Rightarrow> 's storage_maker
     \<Rightarrow> ('w, 's, 'c) app \<Rightarrow> (app_result + unit) \<times> ('w, 's, 'c) app" where
  "ensure_cloud_restore_sync_service E M K mk a =
     (if ex_sync (ap_ex a) \<noteq> None then (Inr (), a)
      else case on_ext_world (token_load E K (token_dir (ap_config_dir a)) ''google_drive'') (ap_ex a) of
        (Inl e, x) \<Rightarrow> (Inl (Plain (CommandError SyncAuthenticationFailed error_context_new ''error.sync_auth_failed''
            (''Failed to load Google Drive authorization: '' @ oauth2_error_to_string e))), a\<lparr>ap_ex := x\<rparr>)
      | (Inr found, x) \<Rightarrow> (case Option.bind found ot_refresh_token of
          None \<Rightarrow> (Inl DatabaseRestoreNeedsOAuth, a\<lparr>ap_ex := x\<rparr>)
        | Some refresh_token \<Rightarrow>
            (let config = cloud_restore_config refresh_token (ap_config a) in
             case mk (ac_sync config) of
               Inl e \<Rightarrow> (Inl (Plain (CommandError (sync_error_code e) (sync_error_context e) ''error.sync_provider_failed''
                   (''Failed to initialize Google Drive sync: '' @ redact_sensitive_values (sync_error_to_string e)))), a\<lparr>ap_ex := x\<rparr>)
             | Inr s \<Rightarrow> (case on_ext_world (config_save M K config (ap_config_dir a)) x of
                 (Inl e, x1) \<Rightarrow> (Inl (Plain (CommandError ConfigSaveFailed error_context_new ''error.config_save_failed''
                     (''Failed to enable Google Drive sync after restore: '' @ config_error_to_string e))), a\<lparr>ap_ex := x1\<rparr>)
               | (Inr _, x1) \<Rightarrow> (Inr (), set_config config (a\<lparr>ap_ex := x1\<lparr>ex_sync := Some s\<rparr>\<rparr>))))))"

definition cloud_restore_local_error_result :: "('x) error_env_scheme \<Rightarrow> vault_error \<Rightarrow> command_result" where
  "cloud_restore_local_error_result E e = CommandError (vault_error_code E e) (vault_error_context E e) ''error.db_restore_failed''
     (''Failed to apply cloud restore locally: '' @ vault_error_to_string E e)"

definition restored_password :: "restore_master_password \<Rightarrow> string" where
  "restored_password p = (case p of Provided pw \<Rightarrow> pw | Cached pw \<Rightarrow> pw)"

definition restore_password_on_failure :: "restore_master_password \<Rightarrow> command_result \<times> ('w, 's) executor \<Rightarrow> command_result \<times> ('w, 's) executor" where
  "restore_password_on_failure pw = (\<lambda>(r, x). (r, x\<lparr>ex_verified_password := restore_cache_on_failure pw (ex_verified_password x)\<rparr>))"

text \<open>With the password and the service, which the first step makes sure is there: a pending database, the records of the cloud, and its commit.\<close>

definition restore_from_cloud ::
  "('x) recovery_env_scheme \<Rightarrow> ('w, 'y) vault_ops_scheme \<Rightarrow> ('w, 'c, 'z) exec_ops_scheme \<Rightarrow> ('u, 'f, 'v) task_ops_scheme
     \<Rightarrow> restore_master_password \<Rightarrow> ('u, 'f) sync_service \<Rightarrow> ('w, ('u, 'f) sync_service) executor
     \<Rightarrow> command_result \<times> ('w, ('u, 'f) sync_service) executor" where
  "restore_from_cloud E C K T pw s x = (case begin_restore E K (restored_password pw) x of
     (Inl err, x1) \<Rightarrow> (err, x1)
   | (Inr pending, x1) \<Rightarrow> (case unlock_open_vault E K (restored_password pw) x1 of
       (Inl e, x2) \<Rightarrow> restore_password_on_failure pw (dropped K pending (key_error CryptoEncryptionFailed ''error.unlock_failed''
          (''Failed to unlock vault: '' @ vault_error_to_string E e), x2))
     | (Inr _, x2) \<Rightarrow> (case with_sync (\<lambda>s. on_world (restore_pull_only E T (st_provider (sv_task s))) s) s x2 of
         (Inl e, x3) \<Rightarrow> restore_password_on_failure pw (dropped K pending (sync_error_result ''error.sync_failed'' ''Cloud restore failed: '' e, x3))
       | (Inr res, x3) \<Rightarrow> (case with_vault (\<lambda>S. persist_restored_cloud_data E C S res) x3 of
           (Inl e, x4) \<Rightarrow> restore_password_on_failure pw (dropped K pending (cloud_restore_local_error_result E e, x4))
         | (Inr _, x4) \<Rightarrow> (DatabaseRestored Cloud, pending_commit x4)))))"

definition checked_sync ::
  "('s \<Rightarrow> (command_result + unit) \<times> 's) \<Rightarrow> 's \<Rightarrow> ('w, 's) executor \<Rightarrow> (command_result + unit) \<times> ('w, 's) executor" where
  "checked_sync m s x = (case m s of (r, s1) \<Rightarrow> (r, x\<lparr>ex_sync := Some s1\<rparr>))"

definition handle_restore_database_from_cloud ::
  "('x) recovery_env_scheme \<Rightarrow> toml_env \<Rightarrow> ('w, 'y) vault_ops_scheme \<Rightarrow> ('w, 'k, 'z) exec_ops_scheme \<Rightarrow> ('u, 'f, 'v) task_ops_scheme
     \<Rightarrow> (('u, 'f) sync_service) storage_maker \<Rightarrow> wait_env \<Rightarrow> string option
     \<Rightarrow> ('w, ('u, 'f) sync_service, 'c) app \<Rightarrow> app_result \<times> ('w, ('u, 'f) sync_service, 'c) app" where
  "handle_restore_database_from_cloud E M C K T mk we master_password a =
     (case ensure_cloud_restore_sync_service E M K mk a of
        (Inl err, a1) \<Rightarrow> (err, a1)
      | (Inr _, a1) \<Rightarrow> (case ex_sync (ap_ex a1) of
          None \<Rightarrow> (Plain sync_not_configured, a1)
        | Some s \<Rightarrow> (case checked_sync (ensure_cloud_restore_has_records E T we) s (ap_ex a1) of
            (Inl err, x) \<Rightarrow> (Plain err, a1\<lparr>ap_ex := x\<rparr>)
          | (Inr _, x) \<Rightarrow> (case take_restore_master_password master_password (ex_verified_password x) of
              (None, cached) \<Rightarrow> (Plain (key_error ExecutorMasterPasswordRequired ''error.password_required''
                 ''Master password is required to unlock the recovered vault.''), a1\<lparr>ap_ex := x\<lparr>ex_verified_password := cached\<rparr>\<rparr>)
            | (Some pw, cached) \<Rightarrow> (case ex_sync x of
                None \<Rightarrow> (Plain sync_not_configured, a1\<lparr>ap_ex := x\<rparr>)
              | Some s1 \<Rightarrow> on_executor (restore_from_cloud E C K T pw s1) (a1\<lparr>ap_ex := x\<lparr>ex_verified_password := cached\<rparr>\<rparr>))))))"

end
