(* ===== verification/Import_Laws.thy ===== *)
theory Import_Laws
  imports Exec_Import Keystore_Laws Vault_Create
begin

text \<open>
  What holds of imports and exports: a backup gives back the records it was made of, the rules of an import let in
  all of them but secure notes, and the accounts of an import add up.
\<close>

section \<open>The records of a backup\<close>

text \<open>Lists of fields in which some are there only when they have a value.\<close>

lemma map_of_case_hit:
  "map_of rest k = None \<Longrightarrow> map_of ((case x of None \<Rightarrow> [] | Some t \<Rightarrow> [(k, f t)]) @ rest) k = map_option f x"
  by (cases x) simp_all

lemma map_of_case_miss:
  "j \<noteq> k \<Longrightarrow> map_of ((case x of None \<Rightarrow> [] | Some t \<Rightarrow> [(k, f t)]) @ rest) j = map_of rest j"
  by (cases x) simp_all

lemma map_of_case_last:
  "map_of (case x of None \<Rightarrow> [] | Some t \<Rightarrow> [(k, f t)]) j = (if j = k then map_option f x else None)"
  by (cases x) simp_all

lemma keys_case:
  "k' \<in> fst ` set ((case x of None \<Rightarrow> [] | Some t \<Rightarrow> [(k, f t)]) @ rest) \<longleftrightarrow> x \<noteq> None \<and> k' = k \<or> k' \<in> fst ` set rest"
  "k' \<in> fst ` set (case x of None \<Rightarrow> [] | Some t \<Rightarrow> [(k, f t)]) \<longleftrightarrow> x \<noteq> None \<and> k' = k"
  by (cases x; auto)+

lemma distinct_case:
  "distinct (map fst ((case x of None \<Rightarrow> [] | Some t \<Rightarrow> [(k, f t)]) @ rest))
     \<longleftrightarrow> (x = None \<or> k \<notin> fst ` set rest) \<and> distinct (map fst rest)"
  "distinct (map fst (case x of None \<Rightarrow> [] | Some t \<Rightarrow> [(k, f t)]))"
  by (cases x; auto)+

lemma distinct_keys_Cons: "distinct (map fst ((k, v) # rest)) \<longleftrightarrow> k \<notin> fst ` set rest \<and> distinct (map fst rest)"
  by simp

lemma optional_fields:
  "map_of rest k = None \<Longrightarrow> map_of (insert_optional k v @ rest) k = v"
  "j \<noteq> k \<Longrightarrow> map_of (insert_optional k v @ rest) j = map_of rest j"
  "map_of (insert_optional k v) j = (if j = k then v else None)"
  by (cases v; simp add: insert_optional_def)+

lemmas case_fields = map_of_case_hit map_of_case_miss map_of_case_last

text \<open>The fields the reader looks up are those the writer put there.\<close>

lemma map_of_okb_fields:
  "map_of (pi_fields (okb_item r)) ''name'' = Some (ok_name r)"
  "map_of (pi_fields (okb_item r)) ''credential_type'' = Some (ok_credential_type r)"
  "map_of (pi_fields (okb_item r)) ''username'' = ok_username r"
  "map_of (pi_fields (okb_item r)) ''password'' = ok_password r"
  "map_of (pi_fields (okb_item r)) ''url'' = ok_url r"
  "map_of (pi_fields (okb_item r)) ''notes'' = ok_notes r"
  "map_of (pi_fields (okb_item r)) ''public_key'' = ok_public_key r"
  "map_of (pi_fields (okb_item r)) ''private_key'' = ok_private_key r"
  "map_of (pi_fields (okb_item r)) ''passphrase'' = ok_passphrase r"
  "map_of (pi_fields (okb_item r)) ''app_id'' = ok_app_id r"
  "map_of (pi_fields (okb_item r)) ''secret_key'' = ok_secret_key r"
  by (simp_all add: okb_item_def optional_fields del: map_of_append)

lemma infer_exported: "infer_credential_type (pi_fields (okb_item (decrypted_record_to_export E d))) = dr_credential_type d"
proof -
  have "ok_credential_type (decrypted_record_to_export E d) = cred_to_db_str (dr_credential_type d)"
    by (cases d) (simp_all add: decrypted_record_to_export_def export_base_def dr_credential_type_def)
  moreover have "cred_from_db_str (cred_to_db_str t) = Inr t" for t
    by (cases t) (simp_all add: cred_to_db_str_def cred_from_db_str_def)
  ultimately show ?thesis
    by (simp add: infer_credential_type_def map_of_okb_fields)
qed

lemma payload_exported:
  "fields_to_payload (dr_credential_type d) (pi_fields (okb_item (decrypted_record_to_export E d))) = payload_of_view d"
  by (cases d) (simp_all add: fields_to_payload_def dr_credential_type_def payload_of_view_def field_of_def map_of_okb_fields
      decrypted_record_to_export_def export_base_def)

text \<open>What a restore creates from an item, and what it should be for a record.\<close>

definition restored_params :: "parsed_item \<Rightarrow> create_record_params" where
  "restored_params item = params_of_import (infer_credential_type (pi_fields item)) (pi_fields item) (pi_tags item)"

definition params_of_view :: "decrypted_record \<Rightarrow> create_record_params" where
  "params_of_view d = \<lparr> cp_credential_type = dr_credential_type d, cp_payload = payload_of_view d, cp_tags = at_tags (dr_attrs d),
     cp_is_favorite = False, cp_expires_at = None \<rparr>"

lemma restored_exported: "restored_params (okb_item (decrypted_record_to_export E d)) = params_of_view d"
proof -
  have "pi_tags (okb_item (decrypted_record_to_export E d)) = at_tags (dr_attrs d)"
    by (cases d) (simp_all add: okb_item_def decrypted_record_to_export_def export_base_def)
  then show ?thesis
    by (simp add: restored_params_def params_of_import_def params_of_view_def infer_exported payload_exported)
qed

section \<open>The text of a backup\<close>

lemma map_res_read: "(\<And>x. x \<in> set xs \<Longrightarrow> f (g x) = Inr x) \<Longrightarrow> map_res f (map g xs) = Inr xs"
  by (induction xs) simp_all

lemma d_str_JStr [simp]: "d_str (JStr s) = Inr s" "d_opt d_str (JStr s) = Inr (Some s)"
  by (simp_all add: d_str_def d_opt_def)

lemma d_bool_JBool [simp]: "d_bool (JBool b) = Inr b" "d_opt d_bool (JBool b) = Inr (Some b)"
  by (simp_all add: d_bool_def d_opt_def)

lemma d_tags [simp]: "d_list d_str (JArr (map JStr ts)) = Inr ts" "d_opt (d_list d_str) (JArr (map JStr ts)) = Inr (Some ts)"
  by (simp_all add: d_list_def d_opt_def map_res_read)

definition export_entries :: "export_record \<Rightarrow> (string \<times> json) list" where
  "export_entries r = (case export_record_to_json r of JObj kvs \<Rightarrow> kvs | _ \<Rightarrow> [])"

lemma export_obj: "export_record_to_json r = JObj (export_entries r)"
  by (simp add: export_entries_def export_record_to_json_def)

lemma export_keys: "distinct (map fst (export_entries r))"
  unfolding export_entries_def export_record_to_json_def opt_entry_def
  by (simp add: distinct_case distinct_keys_Cons keys_case del: set_append map_append list.map(2)) auto

lemma map_of_export:
  "map_of (export_entries r) ''id'' = Some (JStr (ok_id r))"
  "map_of (export_entries r) ''credential_type'' = Some (JStr (ok_credential_type r))"
  "map_of (export_entries r) ''name'' = Some (JStr (ok_name r))"
  "map_of (export_entries r) ''username'' = map_option JStr (ok_username r)"
  "map_of (export_entries r) ''password'' = map_option JStr (ok_password r)"
  "map_of (export_entries r) ''url'' = map_option JStr (ok_url r)"
  "map_of (export_entries r) ''notes'' = map_option JStr (ok_notes r)"
  "map_of (export_entries r) ''tags'' = map_option (\<lambda>t. JArr (map JStr t)) (ok_tags r)"
  "map_of (export_entries r) ''is_favorite'' = map_option JBool (ok_is_favorite r)"
  "map_of (export_entries r) ''expires_at'' = map_option JStr (ok_expires_at r)"
  "map_of (export_entries r) ''public_key'' = map_option JStr (ok_public_key r)"
  "map_of (export_entries r) ''private_key'' = map_option JStr (ok_private_key r)"
  "map_of (export_entries r) ''passphrase'' = map_option JStr (ok_passphrase r)"
  "map_of (export_entries r) ''app_id'' = map_option JStr (ok_app_id r)"
  "map_of (export_entries r) ''secret_key'' = map_option JStr (ok_secret_key r)"
  by (simp_all add: export_entries_def export_record_to_json_def opt_entry_def case_fields del: map_of_append)

lemma d_option_JStr: "map_of kvs k = map_option JStr v \<Longrightarrow> d_option kvs k d_str = Inr v"
  by (cases v) (simp_all add: d_option_def)

lemma d_okb_exported: "d_okb_record (export_record_to_json r) = Inr r"
proof -
  have "fields_of okb_field_names (JObj (export_entries r)) = Inr (export_entries r)"
    using export_keys[of r] by (simp add: fields_of_def)
  moreover have "d_option (export_entries r) ''tags'' (d_list d_str) = Inr (ok_tags r)"
    by (cases "ok_tags r") (simp_all add: d_option_def map_of_export)
  moreover have "d_option (export_entries r) ''is_favorite'' d_bool = Inr (ok_is_favorite r)"
    by (cases "ok_is_favorite r") (simp_all add: d_option_def map_of_export)
  ultimately show ?thesis
    by (simp add: d_okb_record_def export_obj d_req_def map_of_export d_option_JStr)
qed

lemma d_payload_exported: "d_okb_payload (export_payload_to_json p) = Inr (ep_records p)"
  by (simp add: d_okb_payload_def export_payload_to_json_def fields_of_def d_req_def d_list_def map_res_read d_okb_exported)

section \<open>The bytes of a backup\<close>

lemma le_version: "le_nat (le_bytes32 OKB_VERSION) = unat OKB_VERSION" "length (le_bytes32 w) = 4"
  by (simp_all add: le_bytes32_def OKB_VERSION_def upt_rec)

definition tagged_cipher :: "('x) crypto_env_scheme \<Rightarrow> bool" where
  "tagged_cipher E \<longleftrightarrow> (\<forall>k n a p c. length k = 32 \<and> aead_seal E k n a p = Some c \<longrightarrow> 16 \<le> length c)"

context key_fs begin

text \<open>What the writer writes, or that it stopped before it wrote.\<close>

lemma backup_written:
  assumes "keystore_laws E" "keystore_ops_laws C"
    and "encrypt_and_write_okb E C p password path w = (r, w')"
  shows "(\<exists>e. r = Inl e \<and> files w' = files w)
    \<or> (\<exists>s salt nonce dek c w1. json_print E (export_payload_to_json p) = Inr s \<and> length salt = 16 \<and> length nonce = 24
        \<and> derive_key_locked E password salt argon2_medium = Inr dek \<and> aead_seal E dek nonce [] s = Some c \<and> files w1 = files w
        \<and> write_atomically C path (path_with_extension path ''okb.tmp'') (le_bytes32 OKB_VERSION @ salt @ nonce @ c) w1 = (r, w'))"
proof -
  obtain salt w1 where salt: "ko_salt C w = (salt, w1)" by fastforce
  obtain nonce w2 where nonce: "ko_nonce C w1 = (nonce, w2)" by fastforce
  have len: "length salt = 16" "length nonce = 24"
    using assms(2) salt nonce unfolding keystore_ops_laws_def by (metis fst_conv)+
  have same: "files w1 = files w" "files w2 = files w"
    using draw_same(1)[OF salt] draw_same(2)[OF nonce] by simp_all
  show ?thesis
  proof (cases "json_print E (export_payload_to_json p)")
    case (Inl e)
    then show ?thesis
      using assms(3) by (auto simp: encrypt_and_write_okb_def io_bind_def io_lift_def)
  next
    case (Inr s)
    show ?thesis
    proof (cases "derive_key_locked E password salt argon2_medium")
      case (Inl e)
      then show ?thesis
        using assms(3) \<open>json_print E _ = Inr s\<close> salt same by (auto simp: encrypt_and_write_okb_def io_bind_def io_lift_def io_draw_def)
    next
      case (Inr dek)
      show ?thesis
      proof (cases "aead_seal E dek nonce [] s")
        case None
        then show ?thesis
          using assms(3) \<open>json_print E _ = Inr s\<close> Inr salt nonce same
          by (auto simp: encrypt_and_write_okb_def io_bind_def io_lift_def io_draw_def)
      next
        case (Some c)
        then have "write_atomically C path (path_with_extension path ''okb.tmp'') (le_bytes32 OKB_VERSION @ salt @ nonce @ c) w2 = (r, w')"
          using assms(3) \<open>json_print E _ = Inr s\<close> Inr salt nonce
          by (simp add: encrypt_and_write_okb_def io_bind_def io_lift_def io_draw_def)
        then show ?thesis
          using \<open>json_print E _ = Inr s\<close> Inr Some len same by blast
      qed
    qed
  qed
qed

lemma written_file:
  assumes "tmp \<noteq> path" "write_atomically C path tmp buf w = (r, w')"
  shows "r = Inr (length buf) \<and> files w' path = Some buf \<or> (\<exists>e. r = Inl e) \<and> files w' path = files w path"
proof -
  obtain x w1 where x: "fs_write C tmp buf w = (x, w1)" by fastforce
  obtain y w2 where y: "fs_rename C tmp path w1 = (y, w2)" by fastforce
  have "files w1 path = files w path"
    using write_other[OF x] assms(1) by simp
  then show ?thesis
    using assms(1,2) x y rename_failed rename_done write_done
    by (cases x; cases y) (auto simp: write_atomically_def io_bind_def io_map_err_def io_return_def)
qed

end

text \<open>What is written opens with the password to the records that were exported.\<close>

lemma backup_opens:
  assumes "keystore_laws E" "tagged_cipher E" "json_utf8 (export_payload_to_json p)"
    and "json_print E (export_payload_to_json p) = Inr s" "length salt = 16" "length nonce = 24"
    and "derive_key_locked E password salt argon2_medium = Inr dek" "aead_seal E dek nonce [] s = Some c"
  shows "okb_open E (le_bytes32 OKB_VERSION @ salt @ nonce @ c) (Some password) = Inr (map okb_item (ep_records p))"
proof -
  obtain s' where "json_print E (export_payload_to_json p) = Inr s'" "from_utf8 s' = Inr s'" "json_parse E s' = Inr (export_payload_to_json p)"
    using assms(1,3) unfolding keystore_laws_def crypto_laws_def by blast
  then have s: "from_utf8 s = Inr s" "json_parse E s = Inr (export_payload_to_json p)"
    using assms(4) by simp_all
  have dek: "length dek = 32"
    using assms(1,7) unfolding keystore_laws_def derive_key_locked_def by (auto simp: try_res_eq_Inr)
  then obtain c' where "aead_seal E dek nonce [] s = Some c'" "aead_open E dek nonce [] c' = Some s"
    using assms(1,6) unfolding keystore_laws_def crypto_laws_def by blast
  then have opened: "aead_open E dek nonce [] c = Some s"
    using assms(8) by simp
  have long: "16 \<le> length c"
    using assms(2,8) dek unfolding tagged_cipher_def by blast
  let ?d = "le_bytes32 OKB_VERSION @ salt @ nonce @ c"
  have parts: "take 4 ?d = le_bytes32 OKB_VERSION" "take 16 (drop 4 ?d) = salt" "take 24 (drop 20 ?d) = nonce" "drop 44 ?d = c"
    using assms(5,6) by (simp_all add: le_version)
  show ?thesis
    unfolding okb_open_def parts
    using long assms(5-7) dek opened s by (simp add: le_version decrypt_with_aad_def d_payload_exported)
qed

text \<open>
  C25: A backup gives back what was exported. When the export of some records succeeds, the file opens with the
  export password, and a restore creates from it every record with its type, its payload and its tags, though
  neither marked as favourite nor with its expiry. When it fails, the file is as it was.
\<close>

theorem backup_restores_records:
  assumes "keystore_laws E" "tagged_cipher E" "keystore_ops_laws K" "key_fs K files modes"
    and "path_with_extension path ''okb.tmp'' \<noteq> path" "json_utf8 (export_payload_to_json p)"
    and "ep_records p = map (decrypted_record_to_export E) ds"
    and "encrypt_and_write_okb E K p password path w = (r, w')"
  shows "(case r of
      Inr n \<Rightarrow> (\<exists>data items. files w' path = Some data \<and> length data = n \<and> okb_open E data (Some password) = Inr items
                 \<and> map restored_params items = map params_of_view ds)
    | Inl _ \<Rightarrow> files w' path = files w path)"
  using key_fs.backup_written[OF assms(4,1,3,8)]
proof (elim disjE exE conjE)
  fix s salt nonce dek c w1
  assume s: "json_print E (export_payload_to_json p) = Inr s" "length salt = 16" "length nonce = 24"
      "derive_key_locked E password salt argon2_medium = Inr dek" "aead_seal E dek nonce [] s = Some c"
    and same: "files w1 = files w"
    and wr: "write_atomically K path (path_with_extension path ''okb.tmp'') (le_bytes32 OKB_VERSION @ salt @ nonce @ c) w1 = (r, w')"
  have "map restored_params (map okb_item (ep_records p)) = map params_of_view ds"
    by (simp add: assms(7) restored_exported)
  then show ?thesis
    using key_fs.written_file[OF assms(4,5) wr] backup_opens[OF assms(1,2,6) s] same by (auto split: sum.split)
qed simp


definition demo_backup :: export_payload where
  "demo_backup = \<lparr> ep_version = ''1.0'', ep_vault_id = ''v'', ep_exported_at = ''now'',
     ep_records = [decrypted_record_to_export demo_keystore_env (SecureNoteRecord (attrs_of demo_record) ''n'' (Some ''text''))] \<rparr>"

theorem backup_restores_records_witness:
  "\<exists>n w' data items. encrypt_and_write_okb demo_keystore_env (demo_key_ops True True) demo_backup ''export password'' ''b.okb'' (demo_key_world ''p'') = (Inr n, w')
     \<and> map_of (kw_files w') ''b.okb'' = Some data \<and> okb_open demo_keystore_env data (Some ''export password'') = Inr items
     \<and> map restored_params items = map params_of_view [SecureNoteRecord (attrs_of demo_record) ''n'' (Some ''text'')]"
proof -
  let ?E = "demo_keystore_env" and ?K = "demo_key_ops True True" and ?w = "demo_key_world ''p''"
  obtain r w' where r: "encrypt_and_write_okb ?E ?K demo_backup ''export password'' ''b.okb'' ?w = (r, w')" by fastforce
  have tagged: "tagged_cipher ?E"
    by (auto simp: tagged_cipher_def demo_keystore_defs)
  have p: "path_with_extension ''b.okb'' ''okb.tmp'' \<noteq> ''b.okb''"
    by (simp add: path_with_extension_def strip_slashes_def path_extension_def path_file_name_def path_components_def)
  have "list_all (\<lambda>c. byte_of c < 128) (show_nat n)" for n
    using show_nat_digits[of n] by (auto simp: list_all_iff is_digit_def)
  then have shown: "from_utf8 (uuid_show ?E u) = Inr (uuid_show ?E u)" for u
    by (simp add: demo_keystore_defs demo_cloud_env_def demo_env_def ascii_from_utf8)
  have utf8: "json_utf8 (export_payload_to_json demo_backup)"
    by (simp add: demo_backup_def export_payload_to_json_def export_record_to_json_def decrypted_record_to_export_def
        export_base_def attrs_of_def demo_record_def opt_entry_def shown cred_to_db_str_def ascii_from_utf8)
  have sealed: "json_print ?E j = Inr (CHR ''j'' # unary_enc j)" "aead_seal ?E k n a q = Some (CHR ''#'' # k @ q)" for j k n a q
    by (simp_all add: demo_keystore_defs)
  have demo_write: "fs_write ?K q b v = (Inr (), v\<lparr>kw_files := AList.update q b (kw_files v)\<rparr>)"
      "fs_rename ?K q p (v\<lparr>kw_files := AList.update q b f\<rparr>) = (Inr (), v\<lparr>kw_files := AList.update p b (AList.delete q (AList.update q b f))\<rparr>)"
    for q b v p f
    by (simp_all add: demo_key_ops_def update_conv')
  have "\<exists>n. r = Inr n"
    using r by (auto simp: encrypt_and_write_okb_def write_atomically_def io_bind_def io_lift_def io_map_err_def
        sealed demo_write)
  then obtain n where n: "r = Inr n" by blast
  let ?d = "[SecureNoteRecord (attrs_of demo_record) ''n'' (Some ''text'')]"
  have "ep_records demo_backup = map (decrypted_record_to_export ?E) ?d"
    by (simp add: demo_backup_def)
  from backup_restores_records[OF demo_keystore_laws tagged demo_key_ops_laws demo_fs.key_fs_axioms p utf8 this r]
  show ?thesis
    using r unfolding n sum.case by blast
qed

section \<open>The gate of an import\<close>

text \<open>An exported record, and whether the rules for a backup let it in.\<close>

definition gate_open :: "decrypted_record \<Rightarrow> bool" where
  "gate_open d \<longleftrightarrow> dr_name d \<noteq> [] \<and> dr_credential_type d \<noteq> SecureNote"

lemma export_names:
  "ok_name (decrypted_record_to_export E d) = dr_name d"
  "ok_credential_type (decrypted_record_to_export E d) = cred_to_db_str (dr_credential_type d)"
  by (cases d; simp add: decrypted_record_to_export_def export_base_def dr_credential_type_def)+

lemma export_classified:
  "classify_item M okb_rules (okb_item (decrypted_record_to_export E d)) s =
     (if gate_open d then s\<lparr> vr_importable := vr_importable s + 1, vr_item_passed := vr_item_passed s @ [True] \<rparr>
      else s\<lparr> vr_failed := vr_failed s + 1, vr_item_passed := vr_item_passed s @ [False],
        vr_failed_items := vr_failed_items s @ [\<lparr> fi_name = dr_name d,
          fi_reason = (if dr_name d = [] then ''name: name is required''
            else ''credential_type: credential_type must be one of: login, api, ssh'') \<rparr>] \<rparr>)"
proof (cases "dr_name d = []")
  case False
  then show ?thesis
    by (cases "dr_credential_type d") (simp_all add: classify_item_def validate_item_def okb_rules_def rule_def field_key_def evaluate_rule_def
        field_or_empty_def map_of_okb_fields export_names cred_to_db_str_def first_of_def failure_of_def warning_of_def gate_open_def)
qed (simp add: classify_item_def validate_item_def okb_rules_def rule_def field_key_def evaluate_rule_def
        field_or_empty_def map_of_okb_fields export_names first_of_def failure_of_def gate_open_def)

lemma exports_classified:
  assumes "s' = fold (classify_item M okb_rules) (map (okb_item \<circ> decrypted_record_to_export E) ds) s"
  shows "vr_item_passed s' = vr_item_passed s @ map gate_open ds \<and> vr_importable s' = vr_importable s + length (filter gate_open ds)
    \<and> vr_failed s' = vr_failed s + length (filter (Not \<circ> gate_open) ds)
    \<and> vr_review_items s' = vr_review_items s \<and> vr_needs_review s' = vr_needs_review s"
  using assms
proof (induction ds arbitrary: s)
  case (Cons d ds)
  show ?case
    using Cons.IH[of "classify_item M okb_rules (okb_item (decrypted_record_to_export E d)) s"] Cons.prems
    by (simp add: export_classified)
qed simp

text \<open>C27: Of the records of a backup the import lets in exactly those with a name that are no secure notes, although
  the program writes those into its backups; nothing is ever left for review.\<close>

theorem backup_import_gate:
  "let vr = validate_items M (map (okb_item \<circ> decrypted_record_to_export E) ds) (get_rules_for_format OpenKeyringBackup) in
     vr_item_passed vr = map (\<lambda>d. dr_name d \<noteq> [] \<and> dr_credential_type d \<noteq> SecureNote) ds
   \<and> vr_importable vr = length (filter (\<lambda>d. dr_name d \<noteq> [] \<and> dr_credential_type d \<noteq> SecureNote) ds)
   \<and> vr_importable vr + vr_failed vr = length ds \<and> vr_review_items vr = []"
proof -
  have gate: "(\<lambda>d. dr_name d \<noteq> [] \<and> dr_credential_type d \<noteq> SecureNote) = gate_open"
    by (simp add: fun_eq_iff gate_open_def)
  show ?thesis
    using exports_classified[OF refl, of M E ds] sum_length_filter_compl[of gate_open ds]
    by (simp add: gate Let_def validate_items_def get_rules_for_format_def comp_def)
qed

section \<open>The accounts of an import\<close>

text \<open>A record is accepted when its item was not refused and nothing like it is in the vault.\<close>

definition item_accepted :: "('y) import_env_scheme \<Rightarrow> existing_record_key list \<Rightarrow> import_session \<Rightarrow> nat \<times> mapped_record \<Rightarrow> bool" where
  "item_accepted M existing session = (\<lambda>(i, r).
     (let passed = (case is_validation_result session of Some vr \<Rightarrow> vr_item_passed vr | None \<Rightarrow> []) in
      (i < length passed \<longrightarrow> passed ! i) \<and> item_to_key M (dup_item r) \<notin> set existing))"

lemma import_fold:
  assumes "\<And>i r. (i, r) \<in> set xs \<Longrightarrow> P (i, r) \<longleftrightarrow> (i < length ip \<longrightarrow> ip ! i) \<and> (i < length df \<longrightarrow> \<not> df ! i)"
    and "fold (import_record ip df) xs (res, out) = (res', out')"
  shows "out' = out @ map (importable False \<circ> snd) (filter P xs) \<and> ir_imported res' = ir_imported res + length (filter P xs)
    \<and> ir_imported res' + ir_skipped res' + ir_validation_failed res'
        = ir_imported res + ir_skipped res + ir_validation_failed res + length xs"
  using assms
proof (induction xs arbitrary: res out)
  case (Cons x xs)
  obtain i r where x: "x = (i, r)" by fastforce
  obtain res1 out1 where one: "import_record ip df x (res, out) = (res1, out1)" by fastforce
  have "fold (import_record ip df) xs (res1, out1) = (res', out')"
    using Cons.prems(2) one by simp
  with Cons.prems(1) have "out' = out1 @ map (importable False \<circ> snd) (filter P xs) \<and> ir_imported res' = ir_imported res1 + length (filter P xs)
    \<and> ir_imported res' + ir_skipped res' + ir_validation_failed res'
        = ir_imported res1 + ir_skipped res1 + ir_validation_failed res1 + length xs"
    by (intro Cons.IH) auto
  moreover have "P x \<longleftrightarrow> (i < length ip \<longrightarrow> ip ! i) \<and> (i < length df \<longrightarrow> \<not> df ! i)"
    using Cons.prems(1)[of i r] x by simp
  ultimately show ?case
    using one by (auto simp: x import_record_def split: if_splits)
qed simp

lemma import_flags:
  assumes "(i, r) \<in> set (enumerate 0 records)"
  shows "i < length (detect_duplicates M (map dup_item records) existing)"
    and "detect_duplicates M (map dup_item records) existing ! i \<longleftrightarrow> item_to_key M (dup_item r) \<in> set existing"
  using assms by (auto simp: detect_duplicates_def in_set_enumerate_eq)

lemma reviews_total: "\<exists>rs w'. review_records K items w = (Inr rs, w')"
proof (induction items arbitrary: w)
  case (Cons item items)
  obtain fresh w1 where "ko_uuid K w = (fresh, w1)" by fastforce
  then show ?case
    using Cons.IH[of w1] by (auto simp: io_bind_def io_draw_def io_return_def)
qed (simp add: io_return_def)

text \<open>C26: A validated session can be imported, and only once. Each of its records is imported, skipped or refused, and
  what is handed on for import are the accepted records, in their order, with the items imported as notes behind
  them; the report counts both.\<close>

theorem import_accounts:
  assumes "map_of (sv_import_sessions sv) sid = Some session" "is_status session = IsValidated"
  shows "\<exists>res out sv' w'. execute_import M K sid existing notes (sv, w) = (Inr (res, out), (sv', w'))
     \<and> filter (Not \<circ> im_is_review) out
         = map (importable False \<circ> snd) (filter (item_accepted M existing session) (enumerate 0 (is_mapped_records session)))
     \<and> ir_imported res = length (filter (Not \<circ> im_is_review) out) \<and> ir_reviewed res = length (filter im_is_review out)
     \<and> ir_imported res + ir_skipped res + ir_validation_failed res = length (is_mapped_records session)
     \<and> (\<forall>existing' notes' v. execute_import M K sid existing' notes' (sv', v)
           = (Inl (IeInvalidSessionStatus ''Validated'' ''Completed''), (sv', v)))"
proof -
  define ip where "ip = (case is_validation_result session of Some vr \<Rightarrow> vr_item_passed vr | None \<Rightarrow> [])"
  define items where "items = (case is_validation_result session of Some vr \<Rightarrow> if notes then vr_review_items vr else [] | None \<Rightarrow> [])"
  let ?rs = "enumerate 0 (is_mapped_records session)"
  let ?df = "detect_duplicates M (map dup_item (is_mapped_records session)) existing"
  let ?zero = "\<lparr> ir_imported = 0, ir_reviewed = 0, ir_skipped = 0, ir_failed = 0, ir_validation_failed = 0 \<rparr>"
  obtain rs w' where rs: "review_records K items w = (Inr rs, w')"
    using reviews_total[of K items w] by blast
  obtain res out where f: "fold (import_record ip ?df) ?rs (?zero, []) = (res, out)" by fastforce
  have flags: "item_accepted M existing session (i, r) \<longleftrightarrow> (i < length ip \<longrightarrow> ip ! i) \<and> (i < length ?df \<longrightarrow> \<not> ?df ! i)"
    if "(i, r) \<in> set ?rs" for i r
    using import_flags[OF that, of M existing] by (simp add: item_accepted_def ip_def Let_def)
  have fold: "out = map (importable False \<circ> snd) (filter (item_accepted M existing session) ?rs)"
      "ir_imported res = length out" "ir_imported res + ir_skipped res + ir_validation_failed res = length (is_mapped_records session)"
    using import_fold[OF flags f] by simp_all
  let ?sv = "sv\<lparr>sv_import_sessions := AList.update sid (session\<lparr>is_status := IsImporting, is_mapped_records := []\<rparr>) (sv_import_sessions sv)\<rparr>"
  let ?sv' = "?sv\<lparr>sv_import_sessions := AList.update sid (session\<lparr>is_mapped_records := [], is_status := IsCompleted\<rparr>) (sv_import_sessions ?sv)\<rparr>"
  have run: "execute_import M K sid existing notes (sv, w)
      = (Inr (res\<lparr>ir_reviewed := length rs\<rparr>, out @ map (importable True) rs), (?sv', w'))"
    using assms rs f
    by (simp add: execute_import_def io_bind_def io_lift_def io_return_def ensure_def import_session_of_def put_import_session_def
        set_import_status_def on_file_world_def ok_or_def update_conv' ip_def items_def)
  have again: "execute_import M K sid existing' notes' (?sv', v) = (Inl (IeInvalidSessionStatus ''Validated'' ''Completed''), (?sv', v))"
    for existing' notes' v
    by (simp add: execute_import_def io_bind_def io_lift_def ensure_def import_session_of_def ok_or_def update_conv' show_import_status_def)
  have "filter (Not \<circ> im_is_review) (out @ map (importable True) rs) = out"
      "filter im_is_review (out @ map (importable True) rs) = map (importable True) rs"
    by (auto simp: fold(1) filter_map importable_def comp_def)
  then show ?thesis
    unfolding run using fold again
    by (intro exI[of _ "res\<lparr>ir_reviewed := length rs\<rparr>"] exI[of _ "out @ map (importable True) rs"] exI[of _ ?sv'] exI[of _ w']) simp
qed

text \<open>Two records, the second refused by the validation: one is imported and one is counted as refused.\<close>

definition demo_mapped :: "string \<Rightarrow> mapped_record" where
  "demo_mapped name = \<lparr> mr_id = 1, mr_credential_type = Login, mr_fields = [(''name'', name)], mr_tags = [], mr_is_favorite = False,
     mr_expires_at = None, mr_source_item_id = name, mr_notes = None, mr_is_duplicate = False \<rparr>"

definition demo_session :: import_session where
  "demo_session = \<lparr> is_source = BitwardenSource, is_file_path = ''b.json'', is_decrypt_password = None, is_csv_mapping = None,
     is_import_as_notes = False, is_status = IsValidated,
     is_validation_result = Some \<lparr> vr_total_items = 2, vr_importable = 1, vr_needs_review = 0, vr_failed = 1, vr_review_items = [], vr_failed_items = [],
       vr_item_passed = [True, False] \<rparr>,
     is_mapped_records = [demo_mapped ''mail'', demo_mapped ''bank''], is_failed_items = [], is_created_at = 0 \<rparr>"

definition demo_import_service :: import_service where
  "demo_import_service = import_service_new\<lparr>sv_import_sessions := [(1, demo_session)]\<rparr>"

theorem import_accounts_witness:
  "\<forall>(M :: import_env) w. \<exists>res out s. execute_import M (demo_key_ops True True) 1 [] False (demo_import_service, w) = (Inr (res, out), s)
     \<and> filter (Not \<circ> im_is_review) out = [importable False (demo_mapped ''mail'')] \<and> ir_imported res = 1"
proof (intro allI)
  fix M :: import_env and w
  have "map_of (sv_import_sessions demo_import_service) 1 = Some demo_session" "is_status demo_session = IsValidated"
    by (simp_all add: demo_import_service_def demo_session_def)
  from import_accounts[OF this, of M "demo_key_ops True True" "[]" False w]
  show "\<exists>res out s. execute_import M (demo_key_ops True True) 1 [] False (demo_import_service, w) = (Inr (res, out), s)
     \<and> filter (Not \<circ> im_is_review) out = [importable False (demo_mapped ''mail'')] \<and> ir_imported res = 1"
    by (auto simp: item_accepted_def demo_session_def)
qed

end
